(* ===== verification/Kernel.thy ===== *)
theory Kernel
  imports Main "HOL-Library.Word" "HOL-Library.Monad_Syntax"
begin

text \<open>
  Prelude of the development. It fixes the machine types of the driver (pointers are
  64-bit words, \<open>NTSTATUS\<close> is a 32-bit word read as signed), the status constants the
  sources return, the trace of calls that the driver makes into the Windows kernel, the
  allocator parameter, and a small calculus for lock discipline.

  The kernel state \<open>kst\<close> is the root of a chain of extensible records: every component
  extends it with the fields of its own part of \<^verbatim>\<open>DRIVER_CONFIG\<close>, and the operations are
  polymorphic in the extension, so an operation of one component runs unchanged on the
  state of every later one.

  An operation that can dereference an invalid pointer (a bug check in the kernel) or
  that may loop forever returns an option: \<open>None\<close> is the bug check or the hang.
\<close>

unbundle bit_operations_syntax

section \<open>Machine types\<close>

type_synonym u8 = "8 word"
type_synonym u16 = "16 word"
type_synonym u32 = "32 word"
type_synonym u64 = "64 word"
type_synonym ptr = "64 word"
type_synonym NTSTATUS = "32 word"
type_synonym pool_tag = string

abbreviation NULL :: ptr where
  "NULL \<equiv> 0"

named_theorems status_defs \<open>values of the NTSTATUS constants\<close>
named_theorems neutral_intros \<open>introduction rules of the lock-discipline calculus\<close>

definition STATUS_SUCCESS :: NTSTATUS where
  [status_defs]: "STATUS_SUCCESS = 0"

definition STATUS_ABANDONED :: NTSTATUS where
  [status_defs]: "STATUS_ABANDONED = 0x80"

definition STATUS_PENDING :: NTSTATUS where
  [status_defs]: "STATUS_PENDING = 0x103"

definition STATUS_UNSUCCESSFUL :: NTSTATUS where
  [status_defs]: "STATUS_UNSUCCESSFUL = 0xC0000001"

definition STATUS_INFO_LENGTH_MISMATCH :: NTSTATUS where
  [status_defs]: "STATUS_INFO_LENGTH_MISMATCH = 0xC0000004"

definition STATUS_INVALID_PARAMETER :: NTSTATUS where
  [status_defs]: "STATUS_INVALID_PARAMETER = 0xC000000D"

definition STATUS_ALREADY_COMMITTED :: NTSTATUS where
  [status_defs]: "STATUS_ALREADY_COMMITTED = 0xC0000021"

definition STATUS_ACCESS_DENIED :: NTSTATUS where
  [status_defs]: "STATUS_ACCESS_DENIED = 0xC0000022"

definition STATUS_BUFFER_TOO_SMALL :: NTSTATUS where
  [status_defs]: "STATUS_BUFFER_TOO_SMALL = 0xC0000023"

definition STATUS_INSUFFICIENT_RESOURCES :: NTSTATUS where
  [status_defs]: "STATUS_INSUFFICIENT_RESOURCES = 0xC000009A"

definition STATUS_MEMORY_NOT_ALLOCATED :: NTSTATUS where
  [status_defs]: "STATUS_MEMORY_NOT_ALLOCATED = 0xC00000A0"

definition STATUS_NOT_SUPPORTED :: NTSTATUS where
  [status_defs]: "STATUS_NOT_SUPPORTED = 0xC00000BB"

definition STATUS_CANCELLED :: NTSTATUS where
  [status_defs]: "STATUS_CANCELLED = 0xC0000120"

definition STATUS_INVALID_ADDRESS :: NTSTATUS where
  [status_defs]: "STATUS_INVALID_ADDRESS = 0xC0000141"

definition STATUS_INVALID_MEMBER :: NTSTATUS where
  [status_defs]: "STATUS_INVALID_MEMBER = 0xC000017B"

definition STATUS_INVALID_BUFFER_SIZE :: NTSTATUS where
  [status_defs]: "STATUS_INVALID_BUFFER_SIZE = 0xC0000206"

definition STATUS_NOT_FOUND :: NTSTATUS where
  [status_defs]: "STATUS_NOT_FOUND = 0xC0000225"

definition STATUS_INVALID_IMAGE_WIN_32 :: NTSTATUS where
  [status_defs]: "STATUS_INVALID_IMAGE_WIN_32 = 0xC0000359"

definition STATUS_FAILED_DRIVER_ENTRY :: NTSTATUS where
  [status_defs]: "STATUS_FAILED_DRIVER_ENTRY = 0xC0000365"

definition STATUS_HASH_NOT_PRESENT :: NTSTATUS where
  [status_defs]: "STATUS_HASH_NOT_PRESENT = 0xC000A101"

definition STATUS_SYSTEM_INTEGRITY_POLICY_VIOLATION :: NTSTATUS where
  [status_defs]: "STATUS_SYSTEM_INTEGRITY_POLICY_VIOLATION = 0xC0E90002"

text \<open>The macro \<^verbatim>\<open>NT_SUCCESS\<close>: the status as a signed 32-bit value is not negative.\<close>

definition NT_SUCCESS :: "NTSTATUS \<Rightarrow> bool" where
  "NT_SUCCESS s \<longleftrightarrow> 0 \<le> sint s"

lemma NT_SUCCESS_success [simp]:
  "NT_SUCCESS STATUS_SUCCESS" "NT_SUCCESS STATUS_ABANDONED" "NT_SUCCESS STATUS_PENDING"
  by (simp_all add: NT_SUCCESS_def status_defs)

lemma NT_SUCCESS_failure [simp]:
  "\<not> NT_SUCCESS STATUS_UNSUCCESSFUL" "\<not> NT_SUCCESS STATUS_INFO_LENGTH_MISMATCH"
  "\<not> NT_SUCCESS STATUS_INVALID_PARAMETER" "\<not> NT_SUCCESS STATUS_ALREADY_COMMITTED"
  "\<not> NT_SUCCESS STATUS_ACCESS_DENIED" "\<not> NT_SUCCESS STATUS_BUFFER_TOO_SMALL"
  "\<not> NT_SUCCESS STATUS_INSUFFICIENT_RESOURCES" "\<not> NT_SUCCESS STATUS_MEMORY_NOT_ALLOCATED"
  "\<not> NT_SUCCESS STATUS_NOT_SUPPORTED" "\<not> NT_SUCCESS STATUS_CANCELLED"
  "\<not> NT_SUCCESS STATUS_INVALID_ADDRESS" "\<not> NT_SUCCESS STATUS_INVALID_MEMBER"
  "\<not> NT_SUCCESS STATUS_INVALID_BUFFER_SIZE" "\<not> NT_SUCCESS STATUS_NOT_FOUND"
  "\<not> NT_SUCCESS STATUS_INVALID_IMAGE_WIN_32" "\<not> NT_SUCCESS STATUS_FAILED_DRIVER_ENTRY"
  "\<not> NT_SUCCESS STATUS_HASH_NOT_PRESENT"
  "\<not> NT_SUCCESS STATUS_SYSTEM_INTEGRITY_POLICY_VIOLATION"
  by (simp_all add: NT_SUCCESS_def status_defs)

text \<open>Reading a word built from a natural number that fits.\<close>

lemma unat_of_nat_eq:
  "n < 2 ^ LENGTH('a) \<Longrightarrow> unat (of_nat n :: 'a :: len word) = n"
  by (simp add: unat_of_nat)

section \<open>Calls into the kernel\<close>

text \<open>
  The locks of \<^verbatim>\<open>DRIVER_CONFIG\<close>, one constructor per lock object of the sources.
\<close>

datatype klock =
    ConfigLock | SessionLock | ObConfigLock
  | ThreadListLock | ProcessListLock | DriverListLock
  | QueueLock | IrpQueueSpinLock | DeferredReportsSpinLock | DirectoryPushLock

datatype lookaside = ThreadLookaside | ProcessLookaside

text \<open>
  The calls with an effect outside the driver's own memory, in the order they are made.
\<close>

datatype kevent =
    LockInit klock
  | Acquire klock
  | Release klock
  | PoolAlloc ptr pool_tag
  | PoolFree ptr pool_tag
  | LookasideInit lookaside
  | LookasideAlloc lookaside ptr
  | LookasideFree lookaside ptr
  | LookasideDelete lookaside
  | ObReference ptr
  | ObDereference ptr
  | ZwCloseHandle u64
  | IrpCompleted ptr NTSTATUS u64
  | IrpMarkedPending ptr
  | WorkItemAlloc ptr
  | WorkItemQueued ptr
  | WorkItemFreed ptr
  | TimerSet u64
  | TimerCancelled u64
  | Call string "u64 list"

record kst =
  k_trace :: "kevent list"
  k_allocs :: nat

definition emit :: "kevent \<Rightarrow> 'a kst_scheme \<Rightarrow> 'a kst_scheme" where
  "emit e s = s\<lparr>k_trace := k_trace s @ [e]\<rparr>"

text \<open>
  \<^verbatim>\<open>ExAllocatePool2\<close> is a parameter: \<open>alloc n\<close> is what the \<open>n\<close>-th allocation returns,
  \<open>None\<close> for the null pointer.
\<close>

type_synonym allocator = "nat \<Rightarrow> ptr option"

definition ExAllocatePool2 ::
  "allocator \<Rightarrow> pool_tag \<Rightarrow> 'a kst_scheme \<Rightarrow> ptr option \<times> 'a kst_scheme" where
  "ExAllocatePool2 alloc tag s =
     (case alloc (k_allocs s) of
        None \<Rightarrow> (None, s\<lparr>k_allocs := Suc (k_allocs s)\<rparr>)
      | Some p \<Rightarrow> (Some p, emit (PoolAlloc p tag) (s\<lparr>k_allocs := Suc (k_allocs s)\<rparr>)))"

lemma k_trace_emit [simp]: "k_trace (emit e s) = k_trace s @ [e]"
  by (simp add: emit_def)

lemma k_allocs_emit [simp]: "k_allocs (emit e s) = k_allocs s"
  by (simp add: emit_def)

lemma more_emit [simp]: "kst.more (emit e s) = kst.more s"
  by (simp add: emit_def)

text \<open>The references to an object that a trace takes, less those it drops.\<close>

primrec refs :: "ptr \<Rightarrow> kevent list \<Rightarrow> int" where
  "refs p [] = 0"
| "refs p (e # es) =
     (case e of ObReference q \<Rightarrow> (if q = p then 1 else 0)
      | ObDereference q \<Rightarrow> (if q = p then -1 else 0) | _ \<Rightarrow> 0) + refs p es"

lemma refs_append [simp]: "refs p (xs @ ys) = refs p xs + refs p ys"
  by (induction xs) simp_all

section \<open>Counted loops\<close>

text \<open>
  A loop \<^verbatim>\<open>for (i = 0; i < n; i++)\<close> whose body does not change the counter runs its body
  over \<open>[0..<n]\<close>; the first fault ends it.
\<close>

primrec for_each :: "'i list \<Rightarrow> ('i \<Rightarrow> 's \<Rightarrow> 's option) \<Rightarrow> 's \<Rightarrow> 's option" where
  "for_each [] body s = Some s"
| "for_each (i # is) body s = Option.bind (body i s) (for_each is body)"

lemma for_each_append:
  "for_each (xs @ ys) body s = Option.bind (for_each xs body s) (for_each ys body)"
  by (induction xs arbitrary: s) (simp_all cong: Option.bind_cong)

text \<open>Induction for counted loops: an invariant indexed by the number of rounds done.\<close>

lemma for_each_upt:
  assumes "P 0 s"
    and "\<And>i t. i < n \<Longrightarrow> P i t \<Longrightarrow> \<exists>t'. body i t = Some t' \<and> P (Suc i) t'"
  shows "\<exists>s'. for_each [0..<n] body s = Some s' \<and> P n s'"
  using assms(2)
proof (induction n)
  case 0
  then show ?case using assms(1) by simp
next
  case (Suc n)
  then obtain t where t: "for_each [0..<n] body s = Some t" "P n t"
    using less_SucI by blast
  with Suc.prems[of n t] show ?case
    by (auto simp: for_each_append)
qed

section \<open>Lock discipline\<close>

text \<open>
  The locks are guarded mutexes and spin locks: they are not recursive, so acquiring one
  that is held deadlocks the thread, and only the holder may release one. \<open>run_locks\<close>
  replays a trace over the stack of held locks and is \<open>None\<close> at the first violation.
\<close>

fun run_locks :: "klock list \<Rightarrow> kevent list \<Rightarrow> klock list option" where
  "run_locks h [] = Some h"
| "run_locks h (e # es) =
     (case e of
        Acquire l \<Rightarrow> if l \<in> set h then None else run_locks (l # h) es
      | Release l \<Rightarrow> (case h of [] \<Rightarrow> None | l' # h' \<Rightarrow> if l = l' then run_locks h' es else None)
      | _ \<Rightarrow> run_locks h es)"

fun lock_event :: "kevent \<Rightarrow> bool" where
  "lock_event (Acquire _) = True"
| "lock_event (Release _) = True"
| "lock_event _ = False"

text \<open>
  \<open>neutral L s s'\<close>: the calls made between \<open>s\<close> and \<open>s'\<close> can run in any context that holds
  no lock of \<open>L\<close>, and leave the held locks as they were.
\<close>

definition neutral :: "klock set \<Rightarrow> 'a kst_scheme \<Rightarrow> 'a kst_scheme \<Rightarrow> bool" where
  "neutral L s s' \<longleftrightarrow>
     (\<exists>es. k_trace s' = k_trace s @ es
         \<and> (\<forall>h. set h \<inter> L = {} \<longrightarrow> run_locks h es = Some h))"

lemma run_locks_append:
  "run_locks h (xs @ ys) = Option.bind (run_locks h xs) (\<lambda>h'. run_locks h' ys)"
  by (induction h xs rule: run_locks.induct) (auto split: kevent.splits list.splits)

lemma run_locks_other [simp]:
  "\<not> lock_event e \<Longrightarrow> run_locks h (e # es) = run_locks h es"
  by (cases e) auto

lemma neutral_refl [neutral_intros]: "neutral L s s"
  by (auto simp: neutral_def)

lemma neutral_same [neutral_intros]: "k_trace s' = k_trace s \<Longrightarrow> neutral L s s'"
  by (auto simp: neutral_def)

lemma neutral_trans: "neutral L s s' \<Longrightarrow> neutral L s' s'' \<Longrightarrow> neutral L s s''"
  by (fastforce simp: neutral_def run_locks_append)

lemma neutral_mono: "neutral L s s' \<Longrightarrow> L \<subseteq> L' \<Longrightarrow> neutral L' s s'"
  unfolding neutral_def by (meson disjoint_iff in_mono)

lemma neutral_event: "k_trace s' = k_trace s @ [e] \<Longrightarrow> \<not> lock_event e \<Longrightarrow> neutral L s s'"
  by (auto simp: neutral_def simp del: run_locks.simps(2))

lemma neutral_emit [neutral_intros]:
  "neutral L s s' \<Longrightarrow> \<not> lock_event e \<Longrightarrow> neutral L s (emit e s')"
  by (rule neutral_trans, assumption, rule neutral_event) simp_all

text \<open>A critical section: what runs inside it must not take the same lock again.\<close>

lemma neutral_section:
  assumes "neutral L' s1 s2" "l \<notin> L'" "insert l L' \<subseteq> L"
    and "k_trace s1 = k_trace s @ [Acquire l]" "k_trace s3 = k_trace s2 @ [Release l]"
  shows "neutral L s s3"
proof -
  from assms(1) obtain es where es: "k_trace s2 = k_trace s1 @ es"
    "\<And>h. set h \<inter> L' = {} \<Longrightarrow> run_locks h es = Some h"
    by (auto simp: neutral_def)
  have "run_locks h (Acquire l # es @ [Release l]) = Some h" if "set h \<inter> L = {}" for h
  proof -
    have "set (l # h) \<inter> L' = {}" "l \<notin> set h"
      using that assms(2,3) by auto
    then show ?thesis
      using es(2)[of "l # h"] by (simp add: run_locks_append)
  qed
  then show ?thesis
    using es(1) assms(4,5) by (intro neutral_def[THEN iffD2] exI[of _ "Acquire l # es @ [Release l]"]) auto
qed

lemma neutral_balanced:
  "k_trace s' = k_trace s @ es \<Longrightarrow> \<forall>h. set h \<inter> L = {} \<longrightarrow> run_locks h es = Some h
   \<Longrightarrow> neutral L s s'"
  by (auto simp: neutral_def)

lemma neutral_alloc [neutral_intros]:
  "neutral L s s' \<Longrightarrow> neutral L s (snd (ExAllocatePool2 alloc tag s'))"
  by (rule neutral_trans, assumption)
    (auto simp: ExAllocatePool2_def neutral_def split: option.splits)

end
