(* ===== verification/Queue.thy ===== *)
theory Queue
  imports Kernel
begin

text \<open>
  The FIFO queue of \<^verbatim>\<open>src/driver/queue.c\<close>: a linked list of heap nodes with a start
  pointer, an end pointer and a counter. \<open>qmem\<close> is the memory of the nodes. The contract of
  a bounded-memory FIFO is the locale \<open>fifo\<close>, which \<^verbatim>\<open>QueuePush\<close> and \<^verbatim>\<open>QueuePop\<close> are
  proved to implement.
\<close>

record QUEUE_NODE =
  qn_next :: ptr
  qn_data :: ptr

record QUEUE_HEAD =
  q_start :: ptr
  q_end :: ptr
  q_entries :: u32

record queue_st = kst +
  qmem :: "ptr \<rightharpoonup> QUEUE_NODE"
  qhead :: QUEUE_HEAD

abbreviation QUEUE_POOL_TAG :: pool_tag where "QUEUE_POOL_TAG \<equiv> ''qqqq''"

section \<open>Operations\<close>

text \<open>\<^verbatim>\<open>ExAllocatePool2\<close> zeroes the memory it returns, so a fresh node has a null link.\<close>

definition QueuePush :: "allocator \<Rightarrow> ptr \<Rightarrow> 'a queue_st_scheme \<Rightarrow> 'a queue_st_scheme option" where
  "QueuePush alloc Data s = do {
     let s = emit (Acquire QueueLock) s;
     let (temp, s) = ExAllocatePool2 alloc QUEUE_POOL_TAG s;
     s \<leftarrow> (case temp of
             None \<Rightarrow> Some s
           | Some temp \<Rightarrow> do {
               let s = s\<lparr>qmem := (qmem s)(temp \<mapsto> \<lparr>qn_next = NULL, qn_data = Data\<rparr>)\<rparr>;
               let s = s\<lparr>qhead := (qhead s)\<lparr>q_entries := q_entries (qhead s) + 1\<rparr>\<rparr>;
               s \<leftarrow> (if q_end (qhead s) \<noteq> NULL then do {
                       n \<leftarrow> qmem s (q_end (qhead s));
                       Some (s\<lparr>qmem := (qmem s)(q_end (qhead s) \<mapsto> n\<lparr>qn_next := temp\<rparr>)\<rparr>)
                     } else Some s);
               let s = s\<lparr>qhead := (qhead s)\<lparr>q_end := temp\<rparr>\<rparr>;
               Some (if q_start (qhead s) = NULL
                     then s\<lparr>qhead := (qhead s)\<lparr>q_start := temp\<rparr>\<rparr> else s)
             });
     Some (emit (Release QueueLock) s)
   }"

definition QueuePop :: "'a queue_st_scheme \<Rightarrow> (ptr \<times> 'a queue_st_scheme) option" where
  "QueuePop s = do {
     let s = emit (Acquire QueueLock) s;
     let temp = q_start (qhead s);
     (data, s) \<leftarrow>
       (if temp = NULL then Some (NULL, s)
        else do {
          let s = s\<lparr>qhead := (qhead s)\<lparr>q_entries := q_entries (qhead s) - 1\<rparr>\<rparr>;
          n \<leftarrow> qmem s temp;
          let s = s\<lparr>qhead := (qhead s)\<lparr>q_start := qn_next n\<rparr>\<rparr>;
          let s = (if q_end (qhead s) = temp then s\<lparr>qhead := (qhead s)\<lparr>q_end := NULL\<rparr>\<rparr> else s);
          Some (qn_data n, emit (PoolFree temp QUEUE_POOL_TAG) (s\<lparr>qmem := (qmem s)(temp := None)\<rparr>))
        });
     Some (data, emit (Release QueueLock) s)
   }"

section \<open>Abstraction\<close>

fun qchain :: "(ptr \<rightharpoonup> QUEUE_NODE) \<Rightarrow> ptr \<Rightarrow> (ptr \<times> ptr) list \<Rightarrow> bool" where
  "qchain m p [] \<longleftrightarrow> p = NULL"
| "qchain m p ((a, d) # xs) \<longleftrightarrow>
     p = a \<and> a \<noteq> NULL \<and> (case m a of None \<Rightarrow> False | Some n \<Rightarrow> qn_data n = d \<and> qchain m (qn_next n) xs)"

definition is_queue :: "'a queue_st_scheme \<Rightarrow> (ptr \<times> ptr) list \<Rightarrow> bool" where
  "is_queue s xs \<longleftrightarrow>
     distinct (map fst xs) \<and> qchain (qmem s) (q_start (qhead s)) xs
     \<and> q_end (qhead s) = (if xs = [] then NULL else fst (last xs))
     \<and> q_entries (qhead s) = of_nat (length xs)"

definition queue_holds :: "'a queue_st_scheme \<Rightarrow> ptr list \<Rightarrow> bool" where
  "queue_holds s ds \<longleftrightarrow> (\<exists>xs. is_queue s xs \<and> map snd xs = ds)"

text \<open>The next \<open>n\<close> allocations succeed, at distinct addresses that are not in use.\<close>

definition queue_room :: "allocator \<Rightarrow> 'a queue_st_scheme \<Rightarrow> nat \<Rightarrow> bool" where
  "queue_room alloc s n \<longleftrightarrow>
     inj_on alloc {k_allocs s ..< k_allocs s + n}
     \<and> (\<forall>i \<in> {k_allocs s ..< k_allocs s + n}.
          case alloc i of None \<Rightarrow> False | Some p \<Rightarrow> p \<noteq> NULL \<and> p \<notin> dom (qmem s))"

lemma qmem_emit [simp]: "qmem (emit e s) = qmem s" and qhead_emit [simp]: "qhead (emit e s) = qhead s"
  by (simp_all add: emit_def)

lemma qchain_upd [simp]: "a \<notin> fst ` set xs \<Longrightarrow> qchain (m(a := v)) p xs = qchain m p xs"
  by (induction m p xs rule: qchain.induct) (auto split: option.splits)

lemma qchain_live: "qchain m p xs \<Longrightarrow> a \<in> fst ` set xs \<Longrightarrow> a \<in> dom m \<and> a \<noteq> NULL"
  by (induction m p xs rule: qchain.induct) (auto split: option.splits)

lemma qchain_last:
  "qchain m p (xs @ [(a, d)]) \<Longrightarrow> \<exists>n. m a = Some n \<and> qn_data n = d \<and> qn_next n = NULL"
  by (induction m p xs rule: qchain.induct) (auto split: option.splits)

text \<open>Linking a fresh node behind the last one.\<close>

lemma qchain_snoc:
  assumes "qchain m p (xs @ [(a, d)])" "distinct (map fst (xs @ [(a, d)]))"
    and "b \<notin> dom m" "b \<noteq> NULL" "m a = Some n"
  shows "qchain (m(b \<mapsto> \<lparr>qn_next = NULL, qn_data = v\<rparr>, a \<mapsto> n\<lparr>qn_next := b\<rparr>)) p
           (xs @ [(a, d), (b, v)])"
  using assms
proof (induction m p xs rule: qchain.induct)
  case (1 m p)
  then show ?case by auto
next
  case (2 m p c e ys)
  moreover have "c \<noteq> a" "c \<noteq> b"
    using 2 by (auto split: option.splits)
  ultimately show ?case
    by (cases "m c") auto
qed

section \<open>The operations on the abstraction\<close>

lemma QueuePush_no_memory:
  assumes "alloc (k_allocs s) = None"
  shows "QueuePush alloc v s =
    Some (emit (Release QueueLock) ((emit (Acquire QueueLock) s)\<lparr>k_allocs := Suc (k_allocs s)\<rparr>))"
  using assms by (simp add: QueuePush_def ExAllocatePool2_def)

lemma QueuePush_law:
  assumes q: "is_queue s xs" and al: "alloc (k_allocs s) = Some p" "p \<noteq> NULL" "p \<notin> dom (qmem s)"
  shows "\<exists>s'. QueuePush alloc v s = Some s' \<and> is_queue s' (xs @ [(p, v)])
     \<and> k_allocs s' = Suc (k_allocs s) \<and> dom (qmem s') = insert p (dom (qmem s))
     \<and> k_trace s' = k_trace s @ [Acquire QueueLock, PoolAlloc p QUEUE_POOL_TAG, Release QueueLock]"
proof (cases xs rule: rev_cases)
  case Nil
  then show ?thesis
    using q al by (auto simp: QueuePush_def ExAllocatePool2_def is_queue_def Let_def)
next
  case (snoc ys ad)
  obtain a d where ad: "ad = (a, d)" by fastforce
  with q snoc have live: "a \<in> dom (qmem s)" "a \<noteq> NULL" "q_start (qhead s) \<noteq> NULL"
    using qchain_live[of "qmem s" "q_start (qhead s)" xs a]
    by (auto simp: is_queue_def neq_Nil_conv elim: qchain.elims)
  obtain n where n: "qmem s a = Some n" using live by auto
  have "p \<notin> fst ` set xs"
    using q al(3) qchain_live by (fastforce simp: is_queue_def)
  moreover have "a \<noteq> p" using n al(3) by auto
  moreover have "q_end (qhead s) = a" using q snoc ad by (simp add: is_queue_def)
  moreover have "qchain ((qmem s)(p \<mapsto> \<lparr>qn_next = NULL, qn_data = v\<rparr>, a \<mapsto> n\<lparr>qn_next := p\<rparr>))
      (q_start (qhead s)) (xs @ [(p, v)])"
    using qchain_snoc[of "qmem s" _ ys a d p n v] q snoc ad al n by (simp add: is_queue_def)
  ultimately show ?thesis
    using q snoc ad al n live
    by (auto simp: QueuePush_def ExAllocatePool2_def is_queue_def Let_def)
qed

lemma QueuePop_empty:
  assumes "is_queue s []"
  shows "QueuePop s = Some (NULL, emit (Release QueueLock) (emit (Acquire QueueLock) s))"
  using assms by (simp add: QueuePop_def is_queue_def)

lemma QueuePop_law:
  assumes q: "is_queue s ((p, v) # xs)"
  shows "\<exists>s'. QueuePop s = Some (v, s') \<and> is_queue s' xs
     \<and> k_allocs s' = k_allocs s \<and> dom (qmem s') = dom (qmem s) - {p}
     \<and> k_trace s' = k_trace s @ [Acquire QueueLock, PoolFree p QUEUE_POOL_TAG, Release QueueLock]"
proof -
  obtain n where n: "qmem s p = Some n" "qn_data n = v" "qchain (qmem s) (qn_next n) xs"
    "q_start (qhead s) = p" "p \<noteq> NULL" "p \<notin> fst ` set xs"
    using q by (auto simp: is_queue_def split: option.splits)
  have "xs \<noteq> [] \<Longrightarrow> fst (last xs) \<noteq> p"
    using n(6) last_in_set by fastforce
  with q n show ?thesis
    by (cases "xs = []") (auto simp: QueuePop_def is_queue_def Let_def)
qed

section \<open>The FIFO contract\<close>

primrec push_all :: "('v \<Rightarrow> 's \<Rightarrow> 's option) \<Rightarrow> 'v list \<Rightarrow> 's \<Rightarrow> 's option" where
  "push_all push [] s = Some s"
| "push_all push (v # vs) s = Option.bind (push v s) (push_all push vs)"

primrec pop_n :: "('s \<Rightarrow> ('v \<times> 's) option) \<Rightarrow> nat \<Rightarrow> 's \<Rightarrow> ('v list \<times> 's) option" where
  "pop_n pop 0 s = Some ([], s)"
| "pop_n pop (Suc n) s = do {
     (v, s) \<leftarrow> pop s;
     (vs, s) \<leftarrow> pop_n pop n s;
     Some (v # vs, s)
   }"

locale fifo =
  fixes holds :: "'s \<Rightarrow> 'v list \<Rightarrow> bool"
    and room :: "'s \<Rightarrow> nat \<Rightarrow> bool"
    and nothing :: 'v
    and push :: "'v \<Rightarrow> 's \<Rightarrow> 's option"
    and pop :: "'s \<Rightarrow> ('v \<times> 's) option"
  assumes push_law: "holds s vs \<Longrightarrow> room s (Suc n) \<Longrightarrow>
      \<exists>s'. push v s = Some s' \<and> holds s' (vs @ [v]) \<and> room s' n"
    and pop_empty: "holds s [] \<Longrightarrow> \<exists>s'. pop s = Some (nothing, s') \<and> holds s' []"
    and pop_law: "holds s (v # vs) \<Longrightarrow> \<exists>s'. pop s = Some (v, s') \<and> holds s' vs"
begin

lemma push_all_holds:
  assumes "holds s us" "room s (length vs)"
  shows "\<exists>s'. push_all push vs s = Some s' \<and> holds s' (us @ vs)"
  using assms
proof (induction vs arbitrary: s us)
  case Nil
  then show ?case by simp
next
  case (Cons v vs)
  from push_law[OF Cons.prems(1), of "length vs" v] Cons.prems(2) obtain s1
    where "push v s = Some s1" "holds s1 (us @ [v])" "room s1 (length vs)"
    by auto
  with Cons.IH[of s1 "us @ [v]"] show ?case by simp
qed

lemma pop_n_holds:
  assumes "holds s us"
  shows "\<exists>s'. pop_n pop (Suc (length us)) s = Some (us @ [nothing], s') \<and> holds s' []"
  using assms
proof (induction us arbitrary: s)
  case Nil
  from pop_empty[OF Nil] show ?case by auto
next
  case (Cons u us)
  from pop_law[OF Cons.prems] obtain s1 where "pop s = Some (u, s1)" "holds s1 us"
    by blast
  moreover from Cons.IH[OF calculation(2)] obtain s2
    where "pop_n pop (Suc (length us)) s1 = Some (us @ [nothing], s2)" "holds s2 []"
    by blast
  ultimately show ?case
    by (simp del: pop_n.simps add: pop_n.simps(2)[of _ "Suc (length us)"])
qed

lemma first_in_first_out:
  assumes "holds s us" "room s (length vs)"
  shows "\<exists>s'. Option.bind (push_all push vs s) (pop_n pop (length us + length vs + 1))
              = Some (us @ vs @ [nothing], s') \<and> holds s' []"
proof -
  obtain s1 where s1: "push_all push vs s = Some s1" "holds s1 (us @ vs)"
    using push_all_holds[OF assms] by blast
  with pop_n_holds[OF s1(2)] show ?thesis by (simp del: pop_n.simps)
qed

end

lemma queue_room_at:
  "queue_room alloc s n \<Longrightarrow> i \<in> {k_allocs s ..< k_allocs s + n} \<Longrightarrow>
   \<exists>p. alloc i = Some p \<and> p \<noteq> NULL \<and> p \<notin> dom (qmem s)"
  unfolding queue_room_def by (drule conjunct2, drule (1) bspec) (auto split: option.splits)

lemma queue_room_push:
  assumes "queue_room alloc s (Suc n)" "alloc (k_allocs s) = Some p"
    and "k_allocs s' = Suc (k_allocs s)" "dom (qmem s') = insert p (dom (qmem s))"
  shows "queue_room alloc s' n"
  unfolding queue_room_def
proof (intro conjI ballI)
  show "inj_on alloc {k_allocs s'..<k_allocs s' + n}"
    using assms(1,3) by (auto simp: queue_room_def intro: inj_on_subset)
  fix i assume i: "i \<in> {k_allocs s'..<k_allocs s' + n}"
  then have "alloc i \<noteq> alloc (k_allocs s)"
    using assms(1,3) inj_onD[of alloc "{k_allocs s..<k_allocs s + Suc n}" i "k_allocs s"]
    by (auto simp: queue_room_def)
  then show "case alloc i of None \<Rightarrow> False | Some p \<Rightarrow> p \<noteq> NULL \<and> p \<notin> dom (qmem s')"
    using queue_room_at[OF assms(1), of i] assms(2-4) i by auto
qed

interpretation report_queue: fifo queue_holds "queue_room alloc" NULL "QueuePush alloc" QueuePop
proof unfold_locales
  fix s :: "'a queue_st_scheme" and vs n v
  assume "queue_holds s vs" and room: "queue_room alloc s (Suc n)"
  then obtain xs where xs: "is_queue s xs" "map snd xs = vs"
    by (auto simp: queue_holds_def)
  obtain p where p: "alloc (k_allocs s) = Some p" "p \<noteq> NULL" "p \<notin> dom (qmem s)"
    using queue_room_at[OF room, of "k_allocs s"] by auto
  then obtain s' where s': "QueuePush alloc v s = Some s'" "is_queue s' (xs @ [(p, v)])"
    "k_allocs s' = Suc (k_allocs s)" "dom (qmem s') = insert p (dom (qmem s))"
    using QueuePush_law[OF xs(1), of alloc p v] by blast
  moreover have "queue_holds s' (vs @ [v])"
    unfolding queue_holds_def using s'(2) xs(2) by (intro exI[of _ "xs @ [(p, v)]"]) simp
  ultimately show "\<exists>s'. QueuePush alloc v s = Some s' \<and> queue_holds s' (vs @ [v])
      \<and> queue_room alloc s' n"
    using queue_room_push[OF room p(1)] by blast
next
  fix s :: "'a queue_st_scheme"
  assume "queue_holds s []"
  then have "is_queue s []" by (simp add: queue_holds_def)
  then have "queue_holds (emit (Release QueueLock) (emit (Acquire QueueLock) s)) []"
    by (simp add: queue_holds_def is_queue_def)
  then show "\<exists>s'. QueuePop s = Some (NULL, s') \<and> queue_holds s' []"
    using QueuePop_empty[OF \<open>is_queue s []\<close>] by blast
next
  fix s :: "'a queue_st_scheme" and v vs
  assume "queue_holds s (v # vs)"
  then obtain p xs where "is_queue s ((p, v) # xs)" "map snd xs = vs"
    by (auto simp: queue_holds_def)
  with QueuePop_law[OF this(1)] show "\<exists>s'. QueuePop s = Some (v, s') \<and> queue_holds s' vs"
    by (auto simp: queue_holds_def)
qed

section \<open>Properties\<close>

text \<open>C18: the queue is first in, first out and loses nothing. From a well-formed queue that
  holds \<open>us\<close>, when the pool has room for the new nodes, pushing \<open>vs\<close> and then popping every
  element and once more returns \<open>us\<close>, then \<open>vs\<close>, then the null pointer that signals an
  empty queue; no push or pop faults and the queue ends empty and well formed.\<close>

theorem QueuePush_QueuePop_fifo:
  assumes "queue_holds s us" "queue_room alloc s (length vs)"
  shows "\<exists>s'. Option.bind (push_all (QueuePush alloc) vs s) (pop_n QueuePop (length us + length vs + 1))
              = Some (us @ vs @ [NULL], s') \<and> queue_holds s' []"
  using assms by (rule report_queue.first_in_first_out)

definition empty_queue_st :: queue_st where
  "empty_queue_st = \<lparr>k_trace = [], k_allocs = 0, qmem = Map.empty,
     qhead = \<lparr>q_start = NULL, q_end = NULL, q_entries = 0\<rparr>\<rparr>"

theorem QueuePush_QueuePop_fifo_witness:
  "\<exists>s'. Option.bind (push_all (QueuePush (\<lambda>n. Some (word_of_nat (n + 1)))) [7, 8, 9] empty_queue_st)
     (pop_n QueuePop (length [] + length [7::ptr, 8, 9] + 1)) = Some ([7, 8, 9, NULL], s') \<and> queue_holds s' []"
proof -
  have "queue_holds empty_queue_st []"
    by (simp add: queue_holds_def is_queue_def empty_queue_st_def)
  moreover have "queue_room (\<lambda>n. Some (word_of_nat (n + 1))) empty_queue_st (length [7::ptr, 8, 9])"
    by (simp add: queue_room_def empty_queue_st_def inj_on_def numeral_3_eq_3
        atLeast0_lessThan_Suc)
  ultimately show ?thesis
    using QueuePush_QueuePop_fifo[of empty_queue_st "[]" "\<lambda>n. Some (word_of_nat (n + 1))" "[7, 8, 9]"]
    by (simp del: pop_n.simps)
qed

end
