(* ===== verification/Lists.thy ===== *)
theory Lists
  imports Kernel
begin

text \<open>
  The intrusive singly linked lists of \<^verbatim>\<open>src/driver/list.c\<close>.

  A \<^verbatim>\<open>SINGLE_LIST_ENTRY\<close> is the first field of every list item, so an item and its link
  share an address. \<open>slist\<close> is the memory of the links: it maps the address of a live entry
  to its \<^verbatim>\<open>Next\<close> field. List heads are addresses as well. Reading or writing the link of
  an address that is not live is a bug check (\<open>None\<close>), and freeing an entry makes its
  address dead, so a use after free or a double free shows as \<open>None\<close>.

  \<open>is_list m Head xs\<close> relates the memory to the list of the entries, and each operation is
  proved to refine the operation on that list. The contract of the two families of
  operations (pool and lookaside) is the locale \<open>entry_list\<close>.
\<close>

record list_st = kst +
  slist :: "ptr \<rightharpoonup> ptr"

abbreviation POOL_TAG_THREAD_LIST :: pool_tag where "POOL_TAG_THREAD_LIST \<equiv> ''list''"

section \<open>Operations\<close>

definition set_next :: "ptr \<Rightarrow> ptr \<Rightarrow> 'a list_st_scheme \<Rightarrow> 'a list_st_scheme option" where
  "set_next p v s =
     (if p \<in> dom (slist s) then Some (s\<lparr>slist := (slist s)(p \<mapsto> v)\<rparr>) else None)"

definition drop_entry :: "kevent \<Rightarrow> ptr \<Rightarrow> 'a list_st_scheme \<Rightarrow> 'a list_st_scheme option" where
  "drop_entry e p s =
     (if p \<in> dom (slist s) then Some (emit e (s\<lparr>slist := (slist s)(p := None)\<rparr>)) else None)"

definition pool_free_entry :: "ptr \<Rightarrow> 'a list_st_scheme \<Rightarrow> 'a list_st_scheme option" where
  "pool_free_entry p = drop_entry (PoolFree p POOL_TAG_THREAD_LIST) p"

definition lookaside_free_entry :: "ptr \<Rightarrow> 'a list_st_scheme \<Rightarrow> 'a list_st_scheme option" where
  "lookaside_free_entry p = drop_entry (LookasideFree ThreadLookaside p) p"

definition ListInit :: "ptr \<Rightarrow> klock \<Rightarrow> 'a list_st_scheme \<Rightarrow> 'a list_st_scheme option" where
  "ListInit Head Lock s = set_next Head NULL (emit (LockInit Lock) s)"

definition ListInsert ::
  "ptr \<Rightarrow> ptr \<Rightarrow> klock \<Rightarrow> 'a list_st_scheme \<Rightarrow> 'a list_st_scheme option" where
  "ListInsert Head NewEntry Lock s = do {
     let s = emit (Acquire Lock) s;
     old_entry \<leftarrow> slist s Head;
     s \<leftarrow> set_next Head NewEntry s;
     s \<leftarrow> set_next NewEntry old_entry s;
     Some (emit (Release Lock) s)
   }"

text \<open>
  \<open>free_first_entry\<close> is the body that \<^verbatim>\<open>ListFreeFirstEntry\<close> and
  \<^verbatim>\<open>LookasideListFreeFirstEntry\<close> share; they differ in how the entry is freed.
\<close>

definition free_first_entry ::
  "(ptr \<Rightarrow> 'a list_st_scheme \<Rightarrow> 'a list_st_scheme option) \<Rightarrow> ptr \<Rightarrow> klock
   \<Rightarrow> (ptr \<Rightarrow> 'a list_st_scheme \<Rightarrow> 'a list_st_scheme option) option
   \<Rightarrow> 'a list_st_scheme \<Rightarrow> (bool \<times> 'a list_st_scheme) option" where
  "free_first_entry free Head Lock CallbackRoutine s = do {
     let s = emit (Acquire Lock) s;
     entry \<leftarrow> slist s Head;
     (result, s) \<leftarrow>
       (if entry \<noteq> NULL then do {
          s \<leftarrow> (case CallbackRoutine of None \<Rightarrow> Some s | Some f \<Rightarrow> f entry s);
          first \<leftarrow> slist s Head;
          second \<leftarrow> slist s first;
          s \<leftarrow> set_next Head second s;
          s \<leftarrow> free entry s;
          Some (True, s)
        } else Some (False, s));
     Some (result, emit (Release Lock) s)
   }"

definition ListFreeFirstEntry ::
  "ptr \<Rightarrow> klock \<Rightarrow> (ptr \<Rightarrow> 'a list_st_scheme \<Rightarrow> 'a list_st_scheme option) option
   \<Rightarrow> 'a list_st_scheme \<Rightarrow> (bool \<times> 'a list_st_scheme) option" where
  "ListFreeFirstEntry = free_first_entry pool_free_entry"

definition LookasideListFreeFirstEntry ::
  "ptr \<Rightarrow> klock \<Rightarrow> (ptr \<Rightarrow> 'a list_st_scheme \<Rightarrow> 'a list_st_scheme option) option
   \<Rightarrow> 'a list_st_scheme \<Rightarrow> (bool \<times> 'a list_st_scheme) option" where
  "LookasideListFreeFirstEntry = free_first_entry lookaside_free_entry"

text \<open>The \<^verbatim>\<open>while (entry->Next)\<close> loop of the two remove operations.\<close>

partial_function (option) remove_entry_loop ::
  "(ptr \<Rightarrow> 'a list_st_scheme \<Rightarrow> 'a list_st_scheme option) \<Rightarrow> ptr \<Rightarrow> ptr
   \<Rightarrow> 'a list_st_scheme \<Rightarrow> 'a list_st_scheme option" where
  "remove_entry_loop free Entry entry s = do {
     nxt \<leftarrow> slist s entry;
     (if nxt = NULL then Some s
      else if nxt = Entry then do {
        after \<leftarrow> slist s Entry;
        s \<leftarrow> set_next entry after s;
        free Entry s
      } else remove_entry_loop free Entry nxt s)
   }"

definition remove_entry ::
  "(ptr \<Rightarrow> 'a list_st_scheme \<Rightarrow> 'a list_st_scheme option) \<Rightarrow> ptr \<Rightarrow> ptr \<Rightarrow> klock
   \<Rightarrow> 'a list_st_scheme \<Rightarrow> 'a list_st_scheme option" where
  "remove_entry free Head Entry Lock s = do {
     let s = emit (Acquire Lock) s;
     entry \<leftarrow> slist s Head;
     s \<leftarrow> (if entry = NULL then Some s
           else if entry = Entry then do {
             after \<leftarrow> slist s entry;
             s \<leftarrow> set_next Head after s;
             free Entry s
           } else remove_entry_loop free Entry entry s);
     Some (emit (Release Lock) s)
   }"

definition ListRemoveEntry ::
  "ptr \<Rightarrow> ptr \<Rightarrow> klock \<Rightarrow> 'a list_st_scheme \<Rightarrow> 'a list_st_scheme option" where
  "ListRemoveEntry = remove_entry pool_free_entry"

definition LookasideListRemoveEntry ::
  "ptr \<Rightarrow> ptr \<Rightarrow> klock \<Rightarrow> 'a list_st_scheme \<Rightarrow> 'a list_st_scheme option" where
  "LookasideListRemoveEntry = remove_entry lookaside_free_entry"

text \<open>
  The loop by which the driver empties a list on unload: free the first entry until the
  operation reports that there was none.
\<close>

partial_function (option) drain ::
  "('s \<Rightarrow> (bool \<times> 's) option) \<Rightarrow> 's \<Rightarrow> 's option" where
  "drain free_first s = do {
     (freed, s) \<leftarrow> free_first s;
     (if freed then drain free_first s else Some s)
   }"

section \<open>Abstraction\<close>

fun chain :: "(ptr \<rightharpoonup> ptr) \<Rightarrow> ptr \<Rightarrow> ptr list \<Rightarrow> bool" where
  "chain m p [] \<longleftrightarrow> p = NULL"
| "chain m p (x # xs) \<longleftrightarrow>
     p = x \<and> x \<noteq> NULL \<and> (case m x of None \<Rightarrow> False | Some q \<Rightarrow> chain m q xs)"

definition is_list :: "(ptr \<rightharpoonup> ptr) \<Rightarrow> ptr \<Rightarrow> ptr list \<Rightarrow> bool" where
  "is_list m Head xs \<longleftrightarrow>
     distinct (Head # xs) \<and> (case m Head of None \<Rightarrow> False | Some p \<Rightarrow> chain m p xs)"

text \<open>Everything but the links and the trace: the state with both erased.\<close>

definition rest :: "'a list_st_scheme \<Rightarrow> 'a list_st_scheme" where
  "rest s = s\<lparr>k_trace := [], slist := Map.empty\<rparr>"

lemma slist_emit [simp]: "slist (emit e s) = slist s"
  by (simp add: emit_def)

lemma list_more_emit [simp]: "list_st.more (emit e s) = list_st.more s"
  by (simp add: emit_def)

lemma rest_emit [simp]: "rest (emit e s) = rest s"
  by (simp add: rest_def emit_def)

lemma rest_slist [simp]: "rest (s\<lparr>slist := m\<rparr>) = rest s"
  by (simp add: rest_def)

lemma chain_upd [simp]: "a \<notin> set xs \<Longrightarrow> chain (m(a := v)) p xs = chain m p xs"
  by (induction xs arbitrary: p) (auto split: option.splits)

lemma chain_cong: "(\<And>x. x \<in> set xs \<Longrightarrow> m' x = m x) \<Longrightarrow> chain m' p xs = chain m p xs"
  by (induction xs arbitrary: p) (auto split: option.splits)

lemma chain_live: "chain m p xs \<Longrightarrow> x \<in> set xs \<Longrightarrow> x \<noteq> NULL \<and> x \<in> dom m"
  by (induction xs arbitrary: p) (auto split: option.splits)

lemma chain_unique: "chain m p xs \<Longrightarrow> chain m p ys \<Longrightarrow> xs = ys"
proof (induction xs arbitrary: p ys)
  case Nil
  then show ?case by (cases ys) auto
next
  case (Cons x xs)
  then show ?case by (cases ys) (auto split: option.splits)
qed

lemma is_list_live: "is_list m Head xs \<Longrightarrow> x \<in> set (Head # xs) \<Longrightarrow> x \<in> dom m"
  by (auto simp: is_list_def dest: chain_live split: option.splits)

lemma is_list_nonnull: "is_list m Head xs \<Longrightarrow> NULL \<notin> set xs"
  by (auto simp: is_list_def dest: chain_live split: option.splits)

lemma is_list_cong:
  "(\<And>x. x \<in> set (Head # xs) \<Longrightarrow> m' x = m x) \<Longrightarrow> is_list m' Head xs = is_list m Head xs"
  by (auto simp: is_list_def split: option.splits cong: chain_cong)

lemma is_list_unique: "is_list m Head xs \<Longrightarrow> is_list m Head ys \<Longrightarrow> xs = ys"
  by (auto simp: is_list_def dest: chain_unique split: option.splits)

lemma set_next_live [simp]:
  "slist s p = Some q \<Longrightarrow> set_next p v s = Some (s\<lparr>slist := (slist s)(p \<mapsto> v)\<rparr>)"
  by (simp add: set_next_def domI)

lemma drop_entry_live [simp]:
  "slist s p = Some q \<Longrightarrow> drop_entry e p s = Some (emit e (s\<lparr>slist := (slist s)(p := None)\<rparr>))"
  by (simp add: drop_entry_def domI)

section \<open>The contract of an entry list\<close>

text \<open>
  \<open>mem\<close> is the memory of the links, \<open>tr\<close> the trace, \<open>data\<close> everything else. A callback is
  well behaved when it returns on live entries with \<open>ok (data s) e\<close>, leaves links and data
  alone and makes the calls \<open>evs (data s) e\<close>.
\<close>

definition callback_ok ::
  "('s \<Rightarrow> ptr \<rightharpoonup> ptr) \<Rightarrow> ('s \<Rightarrow> kevent list) \<Rightarrow> ('s \<Rightarrow> 'd)
   \<Rightarrow> ('d \<Rightarrow> ptr \<Rightarrow> bool) \<Rightarrow> ('d \<Rightarrow> ptr \<Rightarrow> kevent list) \<Rightarrow> (ptr \<Rightarrow> 's \<Rightarrow> 's option) option \<Rightarrow> bool" where
  "callback_ok mem tr data ok evs cb \<longleftrightarrow>
     (case cb of
        None \<Rightarrow> \<forall>d e. evs d e = []
      | Some f \<Rightarrow> \<forall>e s. e \<in> dom (mem s) \<longrightarrow> ok (data s) e \<longrightarrow>
                    (\<exists>s'. f e s = Some s' \<and> mem s' = mem s \<and> data s' = data s
                       \<and> tr s' = tr s @ evs (data s) e))"

lemma callback_run:
  assumes "callback_ok mem tr data ok evs cb" "e \<in> dom (mem s)" "ok (data s) e"
  shows "\<exists>s'. (case cb of None \<Rightarrow> Some s | Some f \<Rightarrow> f e s) = Some s' \<and> mem s' = mem s
     \<and> data s' = data s \<and> tr s' = tr s @ evs (data s) e"
  using assms by (cases cb) (simp_all add: callback_ok_def)

locale entry_list =
  fixes mem :: "'s \<Rightarrow> ptr \<rightharpoonup> ptr"
    and tr :: "'s \<Rightarrow> kevent list"
    and data :: "'s \<Rightarrow> 'd"
    and freed :: "ptr \<Rightarrow> kevent"
    and insert :: "ptr \<Rightarrow> ptr \<Rightarrow> klock \<Rightarrow> 's \<Rightarrow> 's option"
    and free_first :: "ptr \<Rightarrow> klock \<Rightarrow> (ptr \<Rightarrow> 's \<Rightarrow> 's option) option \<Rightarrow> 's \<Rightarrow> (bool \<times> 's) option"
    and remove :: "ptr \<Rightarrow> ptr \<Rightarrow> klock \<Rightarrow> 's \<Rightarrow> 's option"
  assumes insert_law:
    "is_list (mem s) Head xs \<Longrightarrow> x \<in> dom (mem s) \<Longrightarrow> x \<notin> set (Head # xs) \<Longrightarrow> x \<noteq> NULL \<Longrightarrow>
     \<exists>s'. insert Head x Lock s = Some s' \<and> is_list (mem s') Head (x # xs)
        \<and> (\<forall>a. a \<noteq> Head \<longrightarrow> a \<noteq> x \<longrightarrow> mem s' a = mem s a) \<and> data s' = data s
        \<and> tr s' = tr s @ [Acquire Lock, Release Lock]"
    and free_first_empty:
    "is_list (mem s) Head [] \<Longrightarrow>
     \<exists>s'. free_first Head Lock cb s = Some (False, s') \<and> mem s' = mem s \<and> data s' = data s
        \<and> tr s' = tr s @ [Acquire Lock, Release Lock]"
    and free_first_cons:
    "is_list (mem s) Head (x # xs) \<Longrightarrow> callback_ok mem tr data ok evs cb \<Longrightarrow> ok (data s) x \<Longrightarrow>
     \<exists>s'. free_first Head Lock cb s = Some (True, s') \<and> is_list (mem s') Head xs
        \<and> mem s' x = None \<and> (\<forall>a. a \<noteq> Head \<longrightarrow> a \<noteq> x \<longrightarrow> mem s' a = mem s a) \<and> data s' = data s
        \<and> tr s' = tr s @ Acquire Lock # evs (data s) x @ [freed x, Release Lock]"
    and remove_law:
    "is_list (mem s) Head xs \<Longrightarrow>
     \<exists>s'. remove Head x Lock s = Some s' \<and> is_list (mem s') Head (remove1 x xs)
        \<and> (x \<in> set xs \<longrightarrow> mem s' x = None)
        \<and> (\<forall>a. a \<notin> set (Head # xs) \<longrightarrow> mem s' a = mem s a) \<and> data s' = data s
        \<and> tr s' = tr s @ Acquire Lock # (if x \<in> set xs then [freed x] else []) @ [Release Lock]"
begin

lemma drain_frees_all:
  assumes "is_list (mem s) Head xs" "callback_ok mem tr data ok evs cb"
    and "\<And>x. x \<in> set xs \<Longrightarrow> ok (data s) x"
  shows "\<exists>s'. drain (free_first Head Lock cb) s = Some s' \<and> is_list (mem s') Head []
     \<and> (\<forall>x \<in> set xs. mem s' x = None)
     \<and> (\<forall>a. a \<notin> set (Head # xs) \<longrightarrow> mem s' a = mem s a) \<and> data s' = data s
     \<and> tr s' = tr s @ concat (map (\<lambda>x. Acquire Lock # evs (data s) x @ [freed x, Release Lock]) xs)
                    @ [Acquire Lock, Release Lock]"
  using assms(1,3)
proof (induction xs arbitrary: s)
  case Nil
  then show ?case
    using free_first_empty[OF Nil(1), of Lock cb] by (subst drain.simps) auto
next
  case (Cons x xs)
  from free_first_cons[OF Cons.prems(1) assms(2), of Lock] Cons.prems(2) obtain s1 where s1:
    "free_first Head Lock cb s = Some (True, s1)" "is_list (mem s1) Head xs" "mem s1 x = None"
    "\<forall>a. a \<noteq> Head \<longrightarrow> a \<noteq> x \<longrightarrow> mem s1 a = mem s a" "data s1 = data s"
    "tr s1 = tr s @ Acquire Lock # evs (data s) x @ [freed x, Release Lock]"
    by auto
  have "x \<notin> set (Head # xs)"
    using Cons.prems by (auto simp: is_list_def)
  moreover have "\<And>y. y \<in> set xs \<Longrightarrow> ok (data s1) y"
    using Cons.prems(2) s1(5) by simp
  ultimately show ?case
    using Cons.IH[OF s1(2)] s1 by (subst drain.simps) fastforce
qed

lemma insert_remove:
  assumes "is_list (mem s) Head xs" "x \<in> dom (mem s)" "x \<notin> set (Head # xs)" "x \<noteq> NULL"
  shows "\<exists>s'. Option.bind (insert Head x Lock s) (remove Head x Lock) = Some s'
     \<and> is_list (mem s') Head xs \<and> mem s' x = None \<and> data s' = data s"
proof -
  from insert_law[OF assms] obtain s1 where s1: "insert Head x Lock s = Some s1"
    "is_list (mem s1) Head (x # xs)" "data s1 = data s"
    by blast
  from remove_law[OF s1(2), of x Lock] s1 show ?thesis
    by auto
qed

end

section \<open>The operations keep the contract\<close>

lemma ListInsert_law:
  assumes "is_list (slist s) Head xs" "x \<in> dom (slist s)" "x \<notin> set (Head # xs)" "x \<noteq> NULL"
  shows "\<exists>s'. ListInsert Head x Lock s = Some s' \<and> is_list (slist s') Head (x # xs)
     \<and> (\<forall>a. a \<noteq> Head \<longrightarrow> a \<noteq> x \<longrightarrow> slist s' a = slist s a) \<and> rest s' = rest s
     \<and> k_trace s' = k_trace s @ [Acquire Lock, Release Lock]"
proof -
  obtain p q where "slist s Head = Some p" "slist s x = Some q" "chain (slist s) p xs"
    "distinct (Head # xs)"
    using assms by (auto simp: is_list_def split: option.splits)
  then show ?thesis
    using assms(3,4) by (auto simp: ListInsert_def is_list_def Let_def)
qed

text \<open>
  A way to free an entry: it drops the entry's link and makes one call.
\<close>

definition frees_entry ::
  "(ptr \<Rightarrow> kevent) \<Rightarrow> (ptr \<Rightarrow> 'a list_st_scheme \<Rightarrow> 'a list_st_scheme option) \<Rightarrow> bool" where
  "frees_entry freed free \<longleftrightarrow> (\<forall>p. free p = drop_entry (freed p) p)"

lemma frees_entry_live:
  "frees_entry freed free \<Longrightarrow> slist s p = Some q \<Longrightarrow>
   free p s = Some (emit (freed p) (s\<lparr>slist := (slist s)(p := None)\<rparr>))"
  by (simp add: frees_entry_def)

lemma frees_entry_pool: "frees_entry (\<lambda>p. PoolFree p POOL_TAG_THREAD_LIST) pool_free_entry"
  by (simp add: frees_entry_def pool_free_entry_def)

lemma frees_entry_lookaside: "frees_entry (LookasideFree ThreadLookaside) lookaside_free_entry"
  by (simp add: frees_entry_def lookaside_free_entry_def)

lemma free_first_entry_empty:
  assumes "is_list (slist s) Head []"
  shows "\<exists>s'. free_first_entry free Head Lock cb s = Some (False, s') \<and> slist s' = slist s
     \<and> rest s' = rest s \<and> k_trace s' = k_trace s @ [Acquire Lock, Release Lock]"
  using assms by (auto simp: free_first_entry_def is_list_def Let_def split: option.splits)

lemma free_first_entry_cons:
  assumes ls: "is_list (slist s) Head (x # xs)"
    and cb: "callback_ok slist k_trace rest ok evs cb" and okx: "ok (rest s) x" and fr: "frees_entry freed free"
  shows "\<exists>s'. free_first_entry free Head Lock cb s = Some (True, s') \<and> is_list (slist s') Head xs
     \<and> slist s' x = None \<and> (\<forall>a. a \<noteq> Head \<longrightarrow> a \<noteq> x \<longrightarrow> slist s' a = slist s a) \<and> rest s' = rest s
     \<and> k_trace s' = k_trace s @ Acquire Lock # evs (rest s) x @ [freed x, Release Lock]"
proof -
  obtain q where q: "slist s Head = Some x" "slist s x = Some q" "x \<noteq> NULL" "chain (slist s) q xs"
    "x \<noteq> Head" "Head \<notin> set xs" "x \<notin> set xs" "distinct xs"
    using ls by (auto simp: is_list_def split: option.splits)
  obtain s1 where s1:
    "(case cb of None \<Rightarrow> Some (emit (Acquire Lock) s) | Some f \<Rightarrow> f x (emit (Acquire Lock) s)) = Some s1"
    "slist s1 = slist s" "rest s1 = rest s" "k_trace s1 = k_trace s @ Acquire Lock # evs (rest s) x"
    using callback_run[OF cb, of x "emit (Acquire Lock) s"] okx q by auto
  let ?s2 = "s1\<lparr>slist := (slist s)(Head \<mapsto> q)\<rparr>"
  have "free x ?s2 = Some (emit (freed x) (?s2\<lparr>slist := (slist ?s2)(x := None)\<rparr>))"
    using q by (intro frees_entry_live[OF fr]) auto
  then have "free_first_entry free Head Lock cb s =
      Some (True, emit (Release Lock) (emit (freed x) (?s2\<lparr>slist := (slist ?s2)(x := None)\<rparr>)))"
    using q s1(1,2) by (simp add: free_first_entry_def)
  then show ?thesis
    using q s1(2-4) by (simp add: is_list_def)
qed

lemma remove_entry_loop_law:
  assumes "chain (slist s) y (y # ys)" "distinct (y # ys)" "x \<noteq> y" "frees_entry freed free"
  shows "\<exists>s'. remove_entry_loop free x y s = Some s' \<and> chain (slist s') y (y # remove1 x ys)
     \<and> (x \<in> set ys \<longrightarrow> slist s' x = None)
     \<and> (\<forall>a. a \<notin> set (y # ys) \<longrightarrow> slist s' a = slist s a) \<and> rest s' = rest s
     \<and> k_trace s' = k_trace s @ (if x \<in> set ys then [freed x] else [])"
  using assms(1-3)
proof (induction ys arbitrary: y)
  case Nil
  then show ?case
    by (subst remove_entry_loop.simps) (auto split: option.splits)
next
  case (Cons z zs)
  then have z: "slist s y = Some z" "z \<noteq> NULL" "chain (slist s) z (z # zs)" "distinct (z # zs)"
    "y \<noteq> NULL" "y \<notin> set (z # zs)"
    by (auto split: option.splits)
  show ?case
  proof (cases "z = x")
    case True
    moreover obtain q where "slist s z = Some q" "chain (slist s) q zs"
      using z(3) by (auto split: option.splits)
    ultimately show ?thesis
      using z Cons.prems(3)
      by (subst remove_entry_loop.simps) (auto simp: frees_entry_live[OF assms(4)])
  next
    case False
    then obtain s' where s': "remove_entry_loop free x z s = Some s'"
      "chain (slist s') z (z # remove1 x zs)" "x \<in> set zs \<longrightarrow> slist s' x = None"
      "\<forall>a. a \<notin> set (z # zs) \<longrightarrow> slist s' a = slist s a" "rest s' = rest s"
      "k_trace s' = k_trace s @ (if x \<in> set zs then [freed x] else [])"
      using Cons.IH[OF z(3,4)] by blast
    moreover have "slist s' y = Some z"
      using s'(4) z(1,6) by auto
    ultimately show ?thesis
      using z False by (subst remove_entry_loop.simps) auto
  qed
qed

lemma remove_entry_law:
  assumes ls: "is_list (slist s) Head xs" and fr: "frees_entry freed free"
  shows "\<exists>s'. remove_entry free Head x Lock s = Some s' \<and> is_list (slist s') Head (remove1 x xs)
     \<and> (x \<in> set xs \<longrightarrow> slist s' x = None)
     \<and> (\<forall>a. a \<notin> set (Head # xs) \<longrightarrow> slist s' a = slist s a) \<and> rest s' = rest s
     \<and> k_trace s' = k_trace s @ Acquire Lock # (if x \<in> set xs then [freed x] else []) @ [Release Lock]"
proof (cases xs)
  case Nil
  then show ?thesis
    using ls by (cases "slist s Head") (auto simp: remove_entry_def is_list_def Let_def)
next
  case (Cons y ys)
  then have y: "slist s Head = Some y" "y \<noteq> NULL" "chain (slist s) y (y # ys)" "distinct (y # ys)"
    "Head \<notin> set (y # ys)"
    using ls by (auto simp: is_list_def split: option.splits)
  show ?thesis
  proof (cases "y = x")
    case True
    moreover obtain q where "slist s y = Some q" "chain (slist s) q ys"
      using y(3) by (auto split: option.splits)
    ultimately show ?thesis
      using Cons y
      by (auto simp: remove_entry_def is_list_def Let_def frees_entry_live[OF fr])
  next
    case False
    then obtain s' where s': "remove_entry_loop free x y (emit (Acquire Lock) s) = Some s'"
      "chain (slist s') y (y # remove1 x ys)" "x \<in> set ys \<longrightarrow> slist s' x = None"
      "\<forall>a. a \<notin> set (y # ys) \<longrightarrow> slist s' a = slist s a" "rest s' = rest s"
      "k_trace s' = k_trace s @ Acquire Lock # (if x \<in> set ys then [freed x] else [])"
      using remove_entry_loop_law[of "emit (Acquire Lock) s" y ys x freed free] y fr by auto
    moreover have "slist s' Head = Some y"
      using s'(4) y(1,5) by auto
    ultimately show ?thesis
      using Cons y False
      by (auto simp: remove_entry_def is_list_def Let_def notin_set_remove1)
  qed
qed

text \<open>Both families of operations implement the contract.\<close>

interpretation pool_list: entry_list slist k_trace rest "\<lambda>p. PoolFree p POOL_TAG_THREAD_LIST"
  ListInsert ListFreeFirstEntry ListRemoveEntry
  unfolding ListFreeFirstEntry_def ListRemoveEntry_def
  by unfold_locales
    (blast intro: ListInsert_law, blast intro: free_first_entry_empty,
     rule free_first_entry_cons[OF _ _ _ frees_entry_pool], assumption+,
     rule remove_entry_law[OF _ frees_entry_pool], assumption)

interpretation lookaside_list: entry_list slist k_trace rest "LookasideFree ThreadLookaside"
  ListInsert LookasideListFreeFirstEntry LookasideListRemoveEntry
  unfolding LookasideListFreeFirstEntry_def LookasideListRemoveEntry_def
  by unfold_locales
    (blast intro: ListInsert_law, blast intro: free_first_entry_empty,
     rule free_first_entry_cons[OF _ _ _ frees_entry_lookaside], assumption+,
     rule remove_entry_law[OF _ frees_entry_lookaside], assumption)

end
