(* ===== verification/IrpQueue.thy ===== *)
theory IrpQueue
  imports Lists
begin

text \<open>
  The cancel-safe IRP queue and the deferred reports of \<^verbatim>\<open>src/driver/io.c\<close>.

  \<open>irps\<close> holds the IRPs the driver owns: completing one hands it back to the I/O manager and
  takes it out of the map, so touching an IRP after its completion is a fault. \<open>pool\<close> holds
  the contents of the live report buffers and \<open>deferred_mem\<close> the live deferred reports. The
  doubly linked lists of the WDK macros are lists of addresses. \<open>completed\<close> is the log of the
  IRPs handed back, each as the I/O manager receives it.
\<close>

record IO_STACK_LOCATION =
  io_IoControlCode :: u32
  io_InputBufferLength :: u32
  io_OutputBufferLength :: u32

record IRP =
  irp_Stack :: "IO_STACK_LOCATION option"
  irp_SystemBuffer :: "u8 list"
  irp_Status :: NTSTATUS
  irp_Information :: u64

record DEFERRED_REPORT =
  dr_buffer :: ptr
  dr_buffer_size :: u32

record irp_st = list_st +
  irps :: "ptr \<rightharpoonup> IRP"
  pool :: "ptr \<rightharpoonup> u8 list"
  deferred_mem :: "ptr \<rightharpoonup> DEFERRED_REPORT"
  irp_queue :: "ptr list"
  irp_count :: u32
  deferred_reports :: "ptr list"
  deferred_count :: u32
  completed :: "(ptr \<times> IRP) list"

abbreviation REPORT_POOL_TAG :: pool_tag where "REPORT_POOL_TAG \<equiv> ''repo''"

section \<open>Memory and IRP primitives\<close>

definition free_buffer :: "ptr \<Rightarrow> pool_tag \<Rightarrow> 'a irp_st_scheme \<Rightarrow> 'a irp_st_scheme option" where
  "free_buffer p tag s =
     (if p \<in> dom (pool s) then Some (emit (PoolFree p tag) (s\<lparr>pool := (pool s)(p := None)\<rparr>)) else None)"

definition set_irp :: "ptr \<Rightarrow> (IRP \<Rightarrow> IRP) \<Rightarrow> 'a irp_st_scheme \<Rightarrow> 'a irp_st_scheme option" where
  "set_irp p f s = do {
     irp \<leftarrow> irps s p;
     Some (s\<lparr>irps := (irps s)(p \<mapsto> f irp)\<rparr>)
   }"

definition IofCompleteRequest :: "ptr \<Rightarrow> 'a irp_st_scheme \<Rightarrow> 'a irp_st_scheme option" where
  "IofCompleteRequest p s = do {
     irp \<leftarrow> irps s p;
     Some (emit (IrpCompleted p (irp_Status irp) (irp_Information irp))
       (s\<lparr>irps := (irps s)(p := None), completed := completed s @ [(p, irp)]\<rparr>))
   }"

text \<open>The first \<open>n\<close> bytes of a live buffer; reading behind its end is a fault.\<close>

definition read_buffer :: "ptr \<Rightarrow> nat \<Rightarrow> 'a irp_st_scheme \<Rightarrow> u8 list option" where
  "read_buffer p n s = do {
     bs \<leftarrow> pool s p;
     (if n \<le> length bs then Some (take n bs) else None)
   }"

text \<open>Overwriting the first bytes of the system buffer; writing behind its end is a fault.\<close>

definition copy_to_system_buffer :: "u8 list \<Rightarrow> ptr \<Rightarrow> 'a irp_st_scheme \<Rightarrow> 'a irp_st_scheme option" where
  "copy_to_system_buffer bs p s = do {
     irp \<leftarrow> irps s p;
     (if length bs \<le> length (irp_SystemBuffer irp)
      then Some (s\<lparr>irps := (irps s)(p \<mapsto> irp\<lparr>irp_SystemBuffer := bs @ drop (length bs) (irp_SystemBuffer irp)\<rparr>)\<rparr>)
      else None)
   }"

section \<open>Validation of buffer sizes\<close>

definition ValidateIrpOutputBuffer ::
  "ptr \<Rightarrow> u32 \<Rightarrow> 'a irp_st_scheme \<Rightarrow> (NTSTATUS \<times> 'a irp_st_scheme) option" where
  "ValidateIrpOutputBuffer Irp RequiredSize s =
     (if Irp = NULL \<or> RequiredSize = 0 then Some (STATUS_INVALID_PARAMETER, s)
      else do {
        irp \<leftarrow> irps s Irp;
        (case irp_Stack irp of
           None \<Rightarrow> Some (STATUS_UNSUCCESSFUL, s)
         | Some io \<Rightarrow>
             if io_OutputBufferLength io < RequiredSize then Some (STATUS_BUFFER_TOO_SMALL, s)
             else do {
               s \<leftarrow> copy_to_system_buffer (replicate (unat RequiredSize) 0) Irp s;
               s \<leftarrow> set_irp Irp (irp_Information_update (\<lambda>_. ucast RequiredSize)) s;
               Some (STATUS_SUCCESS, s)
             })
      })"

definition ValidateIrpInputBuffer ::
  "ptr \<Rightarrow> u32 \<Rightarrow> 'a irp_st_scheme \<Rightarrow> NTSTATUS option" where
  "ValidateIrpInputBuffer Irp RequiredSize s =
     (if Irp = NULL \<or> RequiredSize = 0 then Some STATUS_INVALID_PARAMETER
      else do {
        irp \<leftarrow> irps s Irp;
        Some (case irp_Stack irp of
           None \<Rightarrow> STATUS_UNSUCCESSFUL
         | Some io \<Rightarrow>
             if io_InputBufferLength io \<noteq> RequiredSize then STATUS_INVALID_BUFFER_SIZE
             else STATUS_SUCCESS)
      })"

section \<open>Callbacks of the cancel-safe queue\<close>

definition IrpQueueAcquireLock :: "'a irp_st_scheme \<Rightarrow> 'a irp_st_scheme" where
  "IrpQueueAcquireLock s = emit (Acquire IrpQueueSpinLock) s"

definition IrpQueueReleaseLock :: "'a irp_st_scheme \<Rightarrow> 'a irp_st_scheme" where
  "IrpQueueReleaseLock s = emit (Release IrpQueueSpinLock) s"

text \<open>
  The entry it returns does not depend on the \<^verbatim>\<open>Irp\<close> argument. With a count that is not zero
  and an empty list, \<^verbatim>\<open>Flink\<close> is the list head and the record around it is no IRP: a fault.
\<close>

definition IrpQueuePeekNextEntry :: "ptr \<Rightarrow> 'a irp_st_scheme \<Rightarrow> ptr option" where
  "IrpQueuePeekNextEntry Irp s =
     (if irp_count s = 0 then Some NULL
      else case irp_queue s of [] \<Rightarrow> None | p # _ \<Rightarrow> Some p)"

definition IrpQueueRemove :: "ptr \<Rightarrow> 'a irp_st_scheme \<Rightarrow> 'a irp_st_scheme option" where
  "IrpQueueRemove Irp s =
     (if Irp \<in> set (irp_queue s)
      then Some (s\<lparr>irp_count := irp_count s - 1, irp_queue := remove1 Irp (irp_queue s)\<rparr>) else None)"

definition IrpQueueInsert :: "ptr \<Rightarrow> 'a irp_st_scheme \<Rightarrow> 'a irp_st_scheme" where
  "IrpQueueInsert Irp s = s\<lparr>irp_queue := irp_queue s @ [Irp], irp_count := irp_count s + 1\<rparr>"

definition IrpQueueCompleteCancelledIrp :: "ptr \<Rightarrow> 'a irp_st_scheme \<Rightarrow> 'a irp_st_scheme option" where
  "IrpQueueCompleteCancelledIrp Irp s = do {
     s \<leftarrow> set_irp Irp (\<lambda>irp. irp\<lparr>irp_Status := STATUS_CANCELLED, irp_Information := 0\<rparr>) s;
     IofCompleteRequest Irp s
   }"

section \<open>Deferred reports\<close>

definition IrpQueueIsThereDeferredReport :: "'a irp_st_scheme \<Rightarrow> bool" where
  "IrpQueueIsThereDeferredReport s \<longleftrightarrow> 0 < deferred_count s"

text \<open>\<^verbatim>\<open>RemoveHeadList\<close> on an empty list returns the list head, which is no report: a fault.\<close>

definition IrpQueueRemoveDeferredReport :: "'a irp_st_scheme \<Rightarrow> (ptr \<times> 'a irp_st_scheme) option" where
  "IrpQueueRemoveDeferredReport s =
     (case deferred_reports s of [] \<Rightarrow> None | p # ps \<Rightarrow> Some (p, s\<lparr>deferred_reports := ps\<rparr>))"

definition IrpQueueFreeDeferredReport :: "ptr \<Rightarrow> 'a irp_st_scheme \<Rightarrow> 'a irp_st_scheme option" where
  "IrpQueueFreeDeferredReport Report s = do {
     r \<leftarrow> deferred_mem s Report;
     s \<leftarrow> free_buffer (dr_buffer r) REPORT_POOL_TAG s;
     Some (emit (PoolFree Report REPORT_POOL_TAG) (s\<lparr>deferred_mem := (deferred_mem s)(Report := None)\<rparr>))
   }"

definition IrpQueueCompleteDeferredReport ::
  "ptr \<Rightarrow> ptr \<Rightarrow> 'a irp_st_scheme \<Rightarrow> (NTSTATUS \<times> 'a irp_st_scheme) option" where
  "IrpQueueCompleteDeferredReport Report Irp s = do {
     r \<leftarrow> deferred_mem s Report;
     (status, s) \<leftarrow> ValidateIrpOutputBuffer Irp (dr_buffer_size r) s;
     (if \<not> NT_SUCCESS status then Some (status, s)
      else do {
        bytes \<leftarrow> read_buffer (dr_buffer r) (unat (dr_buffer_size r)) s;
        s \<leftarrow> copy_to_system_buffer bytes Irp s;
        s \<leftarrow> set_irp Irp (\<lambda>irp. irp\<lparr>irp_Status := STATUS_SUCCESS,
               irp_Information := ucast (dr_buffer_size r)\<rparr>) s;
        s \<leftarrow> IofCompleteRequest Irp s;
        s \<leftarrow> IrpQueueFreeDeferredReport Report s;
        Some (STATUS_SUCCESS, s)
      })
   }"

definition IrpQueueQueryPendingReports ::
  "ptr \<Rightarrow> 'a irp_st_scheme \<Rightarrow> (NTSTATUS \<times> 'a irp_st_scheme) option" where
  "IrpQueueQueryPendingReports Irp s = do {
     let s = emit (Acquire DeferredReportsSpinLock) s;
     (status, s) \<leftarrow>
       (if IrpQueueIsThereDeferredReport s then do {
          (report, s) \<leftarrow> IrpQueueRemoveDeferredReport s;
          (status, s) \<leftarrow> IrpQueueCompleteDeferredReport report Irp s;
          (if \<not> NT_SUCCESS status then do {
             s \<leftarrow> IrpQueueFreeDeferredReport report s;
             Some (status, s)
           } else Some (status, s\<lparr>deferred_count := deferred_count s - 1\<rparr>))
        } else Some (STATUS_UNSUCCESSFUL, s));
     Some (status, emit (Release DeferredReportsSpinLock) s)
   }"

definition IrpQueueAllocateDeferredReport ::
  "allocator \<Rightarrow> ptr \<Rightarrow> u32 \<Rightarrow> 'a irp_st_scheme \<Rightarrow> ptr option \<times> 'a irp_st_scheme" where
  "IrpQueueAllocateDeferredReport alloc Buffer BufferSize s =
     (case ExAllocatePool2 alloc REPORT_POOL_TAG s of
        (None, s) \<Rightarrow> (None, s)
      | (Some report, s) \<Rightarrow>
          (Some report, s\<lparr>deferred_mem := (deferred_mem s)
             (report \<mapsto> \<lparr>dr_buffer = Buffer, dr_buffer_size = BufferSize\<rparr>)\<rparr>))"

definition MAX_DEFERRED_REPORTS_COUNT :: u32 where "MAX_DEFERRED_REPORTS_COUNT = 100"

definition IrpQueueDeferReport ::
  "allocator \<Rightarrow> ptr \<Rightarrow> u32 \<Rightarrow> 'a irp_st_scheme \<Rightarrow> 'a irp_st_scheme option" where
  "IrpQueueDeferReport alloc Buffer BufferSize s =
     (if deferred_count s > MAX_DEFERRED_REPORTS_COUNT
      then free_buffer Buffer REPORT_POOL_TAG s
      else case IrpQueueAllocateDeferredReport alloc Buffer BufferSize s of
             (None, s) \<Rightarrow> Some s
           | (Some report, s) \<Rightarrow>
               (let s = emit (Acquire DeferredReportsSpinLock) s;
                    s = s\<lparr>deferred_reports := deferred_reports s @ [report],
                          deferred_count := deferred_count s + 1\<rparr>
                in Some (emit (Release DeferredReportsSpinLock) s)))"

section \<open>Completion and teardown\<close>

text \<open>
  \<^verbatim>\<open>IoCsqRemoveNextIrp\<close> is a parameter: it returns the IRP it took off the queue, or null.
\<close>

type_synonym 's csq_remove = "'s \<Rightarrow> (ptr \<times> 's) option"

definition IrpQueueCompleteIrp ::
  "'a irp_st_scheme csq_remove \<Rightarrow> allocator \<Rightarrow> ptr \<Rightarrow> u32 \<Rightarrow> 'a irp_st_scheme
   \<Rightarrow> (NTSTATUS \<times> 'a irp_st_scheme) option" where
  "IrpQueueCompleteIrp IoCsqRemoveNextIrp alloc Buffer BufferSize s = do {
     (irp, s) \<leftarrow> IoCsqRemoveNextIrp s;
     (if irp = NULL then do {
        s \<leftarrow> IrpQueueDeferReport alloc Buffer BufferSize s;
        Some (STATUS_SUCCESS, s)
      } else do {
        (status, s) \<leftarrow> ValidateIrpOutputBuffer irp BufferSize s;
        (if \<not> NT_SUCCESS status then do {
           s \<leftarrow> free_buffer Buffer REPORT_POOL_TAG s;
           s \<leftarrow> set_irp irp (\<lambda>i. i\<lparr>irp_Status := STATUS_INSUFFICIENT_RESOURCES, irp_Information := 0\<rparr>) s;
           s \<leftarrow> IofCompleteRequest irp s;
           Some (status, s)
         } else do {
           s \<leftarrow> set_irp irp (\<lambda>i. i\<lparr>irp_Status := STATUS_SUCCESS, irp_Information := ucast BufferSize\<rparr>) s;
           bytes \<leftarrow> read_buffer Buffer (unat BufferSize) s;
           s \<leftarrow> copy_to_system_buffer bytes irp s;
           s \<leftarrow> free_buffer Buffer REPORT_POOL_TAG s;
           s \<leftarrow> IofCompleteRequest irp s;
           Some (status, s)
         })
      })
   }"

partial_function (option) free_deferred_loop :: "'a irp_st_scheme \<Rightarrow> 'a irp_st_scheme option" where
  "free_deferred_loop s =
     (if IrpQueueIsThereDeferredReport s then do {
        (report, s) \<leftarrow> IrpQueueRemoveDeferredReport s;
        s \<leftarrow> IrpQueueFreeDeferredReport report s;
        free_deferred_loop s
      } else Some s)"

definition IrpQueueFreeDeferredReports :: "'a irp_st_scheme \<Rightarrow> 'a irp_st_scheme option" where
  "IrpQueueFreeDeferredReports s = do {
     let s = emit (Acquire DeferredReportsSpinLock) s;
     s \<leftarrow> free_deferred_loop s;
     Some (emit (Release DeferredReportsSpinLock) s)
   }"

text \<open>\<^verbatim>\<open>IoCsqInitialize\<close> is a parameter, as the status it returns.\<close>

definition IrpQueueInitialise :: "NTSTATUS \<Rightarrow> 'a irp_st_scheme \<Rightarrow> NTSTATUS \<times> 'a irp_st_scheme" where
  "IrpQueueInitialise IoCsqInitialize s =
     (let s = emit (LockInit IrpQueueSpinLock) s;
          s = emit (LockInit DeferredReportsSpinLock) s;
          s = s\<lparr>irp_queue := [], deferred_reports := []\<rparr>
      in (IoCsqInitialize, emit (Call ''IoCsqInitialize'' []) s))"

section \<open>Frame facts\<close>

lemma irp_fields_emit [simp]:
  "irps (emit e s) = irps s" "pool (emit e s) = pool s" "deferred_mem (emit e s) = deferred_mem s"
  "irp_queue (emit e s) = irp_queue s" "irp_count (emit e s) = irp_count s"
  "deferred_reports (emit e s) = deferred_reports s" "deferred_count (emit e s) = deferred_count s"
  "completed (emit e s) = completed s" "irp_st.more (emit e s) = irp_st.more s"
  by (simp_all add: emit_def)

section \<open>Invariant\<close>

text \<open>
  The counters are the lengths of the lists, what is queued is live, and every deferred
  report owns a buffer of its own that is at least as long as the report.
\<close>

definition report_ok :: "'a irp_st_scheme \<Rightarrow> ptr \<Rightarrow> bool" where
  "report_ok s p =
     (case deferred_mem s p of None \<Rightarrow> False
      | Some r \<Rightarrow> (case pool s (dr_buffer r) of None \<Rightarrow> False
                   | Some bs \<Rightarrow> unat (dr_buffer_size r) \<le> length bs))"

definition report_buffer :: "'a irp_st_scheme \<Rightarrow> ptr \<Rightarrow> ptr" where
  "report_buffer s p = dr_buffer (the (deferred_mem s p))"

definition deferred_inv :: "'a irp_st_scheme \<Rightarrow> bool" where
  "deferred_inv s \<longleftrightarrow>
     unat (deferred_count s) = length (deferred_reports s)
     \<and> length (deferred_reports s) \<le> 101
     \<and> distinct (deferred_reports s)
     \<and> distinct (map (report_buffer s) (deferred_reports s))
     \<and> (\<forall>p \<in> set (deferred_reports s). report_ok s p)"

definition queue_inv :: "'a irp_st_scheme \<Rightarrow> bool" where
  "queue_inv s \<longleftrightarrow>
     unat (irp_count s) = length (irp_queue s) \<and> distinct (irp_queue s)
     \<and> NULL \<notin> set (irp_queue s) \<and> set (irp_queue s) \<subseteq> dom (irps s)"

text \<open>
  What the WDK documents of \<^verbatim>\<open>IoCsqRemoveNextIrp\<close> for a queue with no cancellation in flight:
  it takes the lock, peeks, removes what it found, and drops the lock, through the callbacks.
\<close>

definition csq_remove_by_callbacks :: "'a irp_st_scheme csq_remove \<Rightarrow> bool" where
  "csq_remove_by_callbacks f \<longleftrightarrow>
     (\<forall>s. f s = do {
        let s = IrpQueueAcquireLock s;
        p \<leftarrow> IrpQueuePeekNextEntry NULL s;
        (if p = NULL then Some (NULL, IrpQueueReleaseLock s)
         else do {
           s \<leftarrow> IrpQueueRemove p s;
           Some (p, IrpQueueReleaseLock s)
         })
      })"

lemma csq_remove_empty:
  assumes "csq_remove_by_callbacks f" "queue_inv s" "irp_queue s = []"
  shows "f s = Some (NULL, IrpQueueReleaseLock (IrpQueueAcquireLock s))"
proof -
  have "irp_count s = 0" using assms(2,3) by (simp add: queue_inv_def unat_eq_zero)
  then show ?thesis
    using assms(1) by (simp add: csq_remove_by_callbacks_def IrpQueuePeekNextEntry_def IrpQueueAcquireLock_def)
qed

lemma csq_remove_head:
  assumes "csq_remove_by_callbacks f" "queue_inv s" "irp_queue s = i # q"
  shows "\<exists>s'. f s = Some (i, s') \<and> queue_inv s' \<and> irp_queue s' = q \<and> i \<noteq> NULL \<and> i \<notin> set q
     \<and> irps s' = irps s \<and> pool s' = pool s \<and> deferred_mem s' = deferred_mem s
     \<and> deferred_reports s' = deferred_reports s \<and> deferred_count s' = deferred_count s
     \<and> completed s' = completed s
     \<and> k_trace s' = k_trace s @ [Acquire IrpQueueSpinLock, Release IrpQueueSpinLock]"
proof -
  have c: "unat (irp_count s) = Suc (length q)" "irp_count s \<noteq> 0"
    using assms(2,3) by (auto simp: queue_inv_def)
  then have "unat (irp_count s - 1) = length q" by (simp add: unat_minus_one)
  then show ?thesis
    using assms c
    by (auto simp: csq_remove_by_callbacks_def IrpQueuePeekNextEntry_def IrpQueueAcquireLock_def
        IrpQueueReleaseLock_def IrpQueueRemove_def queue_inv_def Let_def)
qed

section \<open>Delivery of a report\<close>

text \<open>An IRP that can take \<open>n\<close> bytes.\<close>

definition irp_takes :: "'a irp_st_scheme \<Rightarrow> ptr \<Rightarrow> u32 \<Rightarrow> bool" where
  "irp_takes s i n =
     (n \<noteq> 0 \<and> i \<noteq> NULL \<and>
      (case irps s i of None \<Rightarrow> False
       | Some irp \<Rightarrow> (case irp_Stack irp of None \<Rightarrow> False
           | Some io \<Rightarrow> n \<le> io_OutputBufferLength io
                       \<and> unat (io_OutputBufferLength io) \<le> length (irp_SystemBuffer irp))))"

lemma irp_takes_obtain:
  assumes "irp_takes s i n"
  obtains irp io where "irps s i = Some irp" "irp_Stack irp = Some io" "n \<le> io_OutputBufferLength io"
    "unat n \<le> length (irp_SystemBuffer irp)" "n \<noteq> 0" "i \<noteq> NULL"
  using assms by (auto simp: irp_takes_def word_le_nat_alt split: option.splits)

lemma ValidateIrpOutputBuffer_takes:
  assumes "irp_takes s i n"
  shows "ValidateIrpOutputBuffer i n s = Some (STATUS_SUCCESS,
    s\<lparr>irps := (irps s)(i \<mapsto> (the (irps s i))\<lparr>
        irp_SystemBuffer := replicate (unat n) 0 @ drop (unat n) (irp_SystemBuffer (the (irps s i))),
        irp_Information := ucast n\<rparr>)\<rparr>)"
proof -
  from assms obtain irp io where "irps s i = Some irp" "irp_Stack irp = Some io"
    "n \<le> io_OutputBufferLength io" "unat n \<le> length (irp_SystemBuffer irp)" "n \<noteq> 0" "i \<noteq> NULL"
    by (rule irp_takes_obtain)
  then show ?thesis
    by (simp add: ValidateIrpOutputBuffer_def copy_to_system_buffer_def set_irp_def leD)
qed

text \<open>What the I/O manager receives when a report of \<open>n\<close> bytes is delivered through an IRP.\<close>

definition delivered :: "IRP \<Rightarrow> u8 list \<Rightarrow> u32 \<Rightarrow> IRP" where
  "delivered irp bs n = irp\<lparr>
     irp_SystemBuffer := take (unat n) bs @ drop (unat n) (irp_SystemBuffer irp),
     irp_Status := STATUS_SUCCESS, irp_Information := ucast n\<rparr>"

lemma IrpQueueCompleteIrp_delivers:
  assumes csq: "csq_remove_by_callbacks f" and inv: "queue_inv s" and q: "irp_queue s = i # q"
    and takes: "irp_takes s i n" and buf: "pool s b = Some bs" "unat n \<le> length bs"
  shows "\<exists>s'. IrpQueueCompleteIrp f alloc b n s = Some (STATUS_SUCCESS, s')
     \<and> queue_inv s' \<and> irp_queue s' = q \<and> irps s' = (irps s)(i := None) \<and> pool s' = (pool s)(b := None)
     \<and> deferred_mem s' = deferred_mem s
     \<and> deferred_reports s' = deferred_reports s \<and> deferred_count s' = deferred_count s
     \<and> completed s' = completed s @ [(i, delivered (the (irps s i)) bs n)]
     \<and> k_trace s' = k_trace s @ [Acquire IrpQueueSpinLock, Release IrpQueueSpinLock,
          PoolFree b REPORT_POOL_TAG, IrpCompleted i STATUS_SUCCESS (ucast n)]"
proof -
  from csq_remove_head[OF csq inv q] obtain s1 where s1: "f s = Some (i, s1)" "queue_inv s1"
    "irp_queue s1 = q" "i \<noteq> NULL" "i \<notin> set q" "irps s1 = irps s" "pool s1 = pool s"
    "deferred_mem s1 = deferred_mem s"
    "deferred_reports s1 = deferred_reports s" "deferred_count s1 = deferred_count s"
    "completed s1 = completed s"
    "k_trace s1 = k_trace s @ [Acquire IrpQueueSpinLock, Release IrpQueueSpinLock]"
    by blast
  have takes1: "irp_takes s1 i n" using takes s1(6) by (simp add: irp_takes_def)
  obtain irp where irp: "irps s i = Some irp" "unat n \<le> length (irp_SystemBuffer irp)"
    using takes by (rule irp_takes_obtain)
  have bdom: "b \<in> dom (pool s)" using buf(1) by auto
  show ?thesis
    using s1 irp buf bdom
    by (simp add: IrpQueueCompleteIrp_def ValidateIrpOutputBuffer_takes[OF takes1] set_irp_def
        read_buffer_def copy_to_system_buffer_def free_buffer_def IofCompleteRequest_def
        delivered_def queue_inv_def min_def) auto
qed

lemma IrpQueueCompleteIrp_defers:
  assumes csq: "csq_remove_by_callbacks f" and inv: "queue_inv s" and q: "irp_queue s = []"
    and few: "deferred_count s \<le> MAX_DEFERRED_REPORTS_COUNT"
    and al: "alloc (k_allocs s) = Some r"
  shows "\<exists>s'. IrpQueueCompleteIrp f alloc b n s = Some (STATUS_SUCCESS, s')
     \<and> irps s' = irps s \<and> pool s' = pool s \<and> irp_queue s' = [] \<and> irp_count s' = irp_count s
     \<and> deferred_reports s' = deferred_reports s @ [r] \<and> deferred_count s' = deferred_count s + 1
     \<and> deferred_mem s' = (deferred_mem s)(r \<mapsto> \<lparr>dr_buffer = b, dr_buffer_size = n\<rparr>)
     \<and> completed s' = completed s
     \<and> k_trace s' = k_trace s @ [Acquire IrpQueueSpinLock, Release IrpQueueSpinLock,
          PoolAlloc r REPORT_POOL_TAG, Acquire DeferredReportsSpinLock, Release DeferredReportsSpinLock]"
  using csq_remove_empty[OF csq inv q] q al few
  by (auto simp: IrpQueueCompleteIrp_def IrpQueueDeferReport_def IrpQueueAllocateDeferredReport_def
      ExAllocatePool2_def IrpQueueAcquireLock_def IrpQueueReleaseLock_def Let_def)

lemma IrpQueueQueryPendingReports_delivers:
  assumes inv: "deferred_inv s" and d: "deferred_reports s = r # rs"
    and rep: "deferred_mem s r = Some \<lparr>dr_buffer = b, dr_buffer_size = n\<rparr>"
    and buf: "pool s b = Some bs" and takes: "irp_takes s i n"
  shows "\<exists>s'. IrpQueueQueryPendingReports i s = Some (STATUS_SUCCESS, s')
     \<and> irps s' = (irps s)(i := None) \<and> pool s' = (pool s)(b := None)
     \<and> deferred_mem s' = (deferred_mem s)(r := None) \<and> deferred_reports s' = rs
     \<and> deferred_count s' = deferred_count s - 1
     \<and> irp_queue s' = irp_queue s \<and> irp_count s' = irp_count s
     \<and> completed s' = completed s @ [(i, delivered (the (irps s i)) bs n)]
     \<and> k_trace s' = k_trace s @ [Acquire DeferredReportsSpinLock,
          IrpCompleted i STATUS_SUCCESS (ucast n), PoolFree b REPORT_POOL_TAG,
          PoolFree r REPORT_POOL_TAG, Release DeferredReportsSpinLock]"
proof -
  let ?s1 = "(emit (Acquire DeferredReportsSpinLock) s)\<lparr>deferred_reports := rs\<rparr>"
  have takes1: "irp_takes ?s1 i n" using takes by (simp add: irp_takes_def)
  obtain irp where irp: "irps s i = Some irp" "unat n \<le> length (irp_SystemBuffer irp)"
    using takes by (rule irp_takes_obtain)
  have "report_ok s r" "deferred_count s \<noteq> 0" using inv d by (auto simp: deferred_inv_def)
  then have "unat n \<le> length bs" "0 < deferred_count s"
    using rep buf by (auto simp: report_ok_def word_neq_0_conv)
  moreover have "b \<in> dom (pool s)" using buf by auto
  ultimately show ?thesis
    using d rep buf irp
    by (simp add: IrpQueueQueryPendingReports_def IrpQueueIsThereDeferredReport_def
        IrpQueueRemoveDeferredReport_def IrpQueueCompleteDeferredReport_def
        ValidateIrpOutputBuffer_takes[OF takes1] set_irp_def read_buffer_def copy_to_system_buffer_def
        free_buffer_def IofCompleteRequest_def IrpQueueFreeDeferredReport_def delivered_def min_def)
qed

section \<open>Reporting always returns\<close>

text \<open>The I/O manager makes the system buffer at least as long as the output buffer.\<close>

definition irps_ok :: "'a irp_st_scheme \<Rightarrow> bool" where
  "irps_ok s \<longleftrightarrow> (\<forall>p irp io. irps s p = Some irp \<longrightarrow> irp_Stack irp = Some io \<longrightarrow>
     unat (io_OutputBufferLength io) \<le> length (irp_SystemBuffer irp))"

text \<open>Refusing an IRP: the buffer is freed and the IRP is completed with an error.\<close>

lemma IrpQueueCompleteIrp_refuses:
  fixes s :: "'a irp_st_scheme"
  assumes csq: "csq_remove_by_callbacks f" and inv: "queue_inv s" and q: "irp_queue s = i # q"
    and st: "\<And>t :: 'a irp_st_scheme. irps t = irps s \<Longrightarrow> ValidateIrpOutputBuffer i n t = Some (st, t)" "\<not> NT_SUCCESS st"
    and b: "b \<in> dom (pool s)"
  shows "\<exists>s'. IrpQueueCompleteIrp f alloc b n s = Some (st, s') \<and> queue_inv s' \<and> irps s' = (irps s)(i := None)
     \<and> pool s' = (pool s)(b := None) \<and> irp_queue s' = q
     \<and> completed s' = completed s @ [(i, (the (irps s i))\<lparr>irp_Status := STATUS_INSUFFICIENT_RESOURCES, irp_Information := 0\<rparr>)]"
proof -
  from csq_remove_head[OF csq inv q] obtain s1 where s1: "f s = Some (i, s1)" "queue_inv s1"
    "irp_queue s1 = q" "i \<noteq> NULL" "i \<notin> set q" "irps s1 = irps s" "pool s1 = pool s" "completed s1 = completed s"
    by blast
  obtain irp where irp: "irps s i = Some irp" using inv q by (auto simp: queue_inv_def)
  have "ValidateIrpOutputBuffer i n s1 = Some (st, s1)" by (rule st(1)[OF s1(6)])
  then show ?thesis
    using s1 irp b st(2)
    by (simp add: IrpQueueCompleteIrp_def free_buffer_def set_irp_def IofCompleteRequest_def queue_inv_def) auto
qed

lemma IrpQueueDeferReport_total:
  assumes "b \<in> dom (pool s)"
  shows "\<exists>s'. IrpQueueDeferReport alloc b n s = Some s' \<and> irps s' = irps s \<and> irp_queue s' = irp_queue s
     \<and> irp_count s' = irp_count s \<and> (\<forall>p. p \<noteq> b \<longrightarrow> pool s' p = pool s p)"
  using assms
  by (auto simp: IrpQueueDeferReport_def IrpQueueAllocateDeferredReport_def ExAllocatePool2_def free_buffer_def
      Let_def split: option.splits)

lemma IrpQueueCompleteIrp_total:
  fixes s :: "'a irp_st_scheme"
  assumes csq: "csq_remove_by_callbacks f" and inv: "queue_inv s" and ok: "irps_ok s"
    and b: "pool s b = Some bs" "unat n \<le> length bs" "n \<noteq> 0"
  shows "\<exists>st s'. IrpQueueCompleteIrp f alloc b n s = Some (st, s') \<and> queue_inv s' \<and> irps_ok s'"
proof (cases "irp_queue s")
  case Nil
  let ?s1 = "IrpQueueReleaseLock (IrpQueueAcquireLock s)"
  have "b \<in> dom (pool ?s1)" using b(1) by (auto simp: IrpQueueReleaseLock_def IrpQueueAcquireLock_def)
  from IrpQueueDeferReport_total[OF this, of alloc n] obtain s' where
    "IrpQueueDeferReport alloc b n ?s1 = Some s'" "irps s' = irps s" "irp_queue s' = []" "irp_count s' = irp_count s"
    using Nil by (auto simp: IrpQueueReleaseLock_def IrpQueueAcquireLock_def)
  then show ?thesis
    using csq_remove_empty[OF csq inv Nil] inv ok Nil
    by (auto simp: IrpQueueCompleteIrp_def queue_inv_def irps_ok_def)
next
  case (Cons i q)
  obtain irp where irp: "irps s i = Some irp" "i \<noteq> NULL" using inv Cons by (auto simp: queue_inv_def)
  have bd: "b \<in> dom (pool s)" using b(1) by auto
  consider (none) "irp_Stack irp = None"
    | (small) io where "irp_Stack irp = Some io" "io_OutputBufferLength io < n"
    | (takes) "irp_takes s i n"
    using irp ok b(3) by (cases "irp_Stack irp") (force simp: irp_takes_def irps_ok_def not_less)+
  then show ?thesis
  proof cases
    case none
    have "ValidateIrpOutputBuffer i n t = Some (STATUS_UNSUCCESSFUL, t)" if "irps t = irps s" for t :: "'a irp_st_scheme"
      using that irp b(3) none by (simp add: ValidateIrpOutputBuffer_def)
    from IrpQueueCompleteIrp_refuses[OF csq inv Cons this _ bd, of alloc] ok show ?thesis
      by (fastforce simp: irps_ok_def split: if_splits)
  next
    case small
    have "ValidateIrpOutputBuffer i n t = Some (STATUS_BUFFER_TOO_SMALL, t)" if "irps t = irps s" for t :: "'a irp_st_scheme"
      using that irp b(3) small by (simp add: ValidateIrpOutputBuffer_def)
    from IrpQueueCompleteIrp_refuses[OF csq inv Cons this _ bd, of alloc] ok show ?thesis
      by (fastforce simp: irps_ok_def split: if_splits)
  next
    case takes
    from IrpQueueCompleteIrp_delivers[OF csq inv Cons takes b(1,2), of alloc] ok show ?thesis
      by (fastforce simp: irps_ok_def split: if_splits)
  qed
qed

section \<open>Preservation of the invariant\<close>

lemma report_buffer_upd [simp]:
  "p \<noteq> r \<Longrightarrow> deferred_mem s' = (deferred_mem s)(r := v) \<Longrightarrow> report_buffer s' p = report_buffer s p"
  by (simp add: report_buffer_def)

lemma deferred_inv_push:
  assumes inv: "deferred_inv s" and few: "deferred_count s \<le> MAX_DEFERRED_REPORTS_COUNT"
    and "r \<notin> set (deferred_reports s)" "b \<notin> report_buffer s ` set (deferred_reports s)"
    and "pool s b = Some bs" "unat n \<le> length bs"
    and s': "deferred_reports s' = deferred_reports s @ [r]" "deferred_count s' = deferred_count s + 1"
      "deferred_mem s' = (deferred_mem s)(r \<mapsto> \<lparr>dr_buffer = b, dr_buffer_size = n\<rparr>)" "pool s' = pool s"
  shows "deferred_inv s'"
proof -
  have le: "unat (deferred_count s) \<le> 100"
    using few by (simp add: MAX_DEFERRED_REPORTS_COUNT_def word_le_nat_alt)
  then have "unat (deferred_count s') = Suc (unat (deferred_count s))"
    using s'(2) by (simp add: unat_word_ariths)
  moreover have eq: "report_buffer s' p = report_buffer s p" "report_ok s' p = report_ok s p"
    if "p \<in> set (deferred_reports s)" for p
    using that assms(3) s'(3,4) by (auto simp: report_buffer_def report_ok_def split: option.splits)
  moreover have "report_buffer s' r = b" "report_ok s' r"
    using s'(3,4) assms(5,6) by (auto simp: report_buffer_def report_ok_def)
  moreover have "distinct (map (report_buffer s') (deferred_reports s))"
    using inv by (simp only: deferred_inv_def map_cong[OF refl eq(1)])
  ultimately show ?thesis
    using inv assms(3,4) s'(1) le by (auto simp: deferred_inv_def)
qed

lemma deferred_inv_pop:
  assumes inv: "deferred_inv s" and d: "deferred_reports s = r # rs"
    and s': "deferred_reports s' = rs" "deferred_count s' = deferred_count s - 1"
      "deferred_mem s' = (deferred_mem s)(r := None)" "pool s' = (pool s)(report_buffer s r := None)"
  shows "deferred_inv s'"
proof -
  have c: "unat (deferred_count s) = Suc (length rs)" using inv d by (simp add: deferred_inv_def)
  then have "deferred_count s \<noteq> 0" by auto
  then have "unat (deferred_count s') = length rs" using c s'(2) by (simp add: unat_minus_one)
  moreover have eq: "report_buffer s' p = report_buffer s p" "report_ok s' p"
    if "p \<in> set rs" for p
  proof -
    have "p \<noteq> r" "report_buffer s p \<noteq> report_buffer s r" "report_ok s p"
      using inv d that by (auto simp: deferred_inv_def rev_image_eqI)
    then show "report_buffer s' p = report_buffer s p" "report_ok s' p"
      using s'(3,4) by (auto simp: report_buffer_def report_ok_def split: option.splits)
  qed
  moreover have "distinct (map (report_buffer s') rs)"
    using inv d by (simp only: deferred_inv_def map_cong[OF refl eq(1)] list.map distinct.simps)
  ultimately show ?thesis
    using inv d s'(1) by (auto simp: deferred_inv_def)
qed

section \<open>Properties\<close>

text \<open>A report that finds a pending IRP is delivered. When the queue holds IRPs and the
  first can take the report, \<^verbatim>\<open>IrpQueueCompleteIrp\<close> takes exactly that IRP off the queue,
  completes it once with \<^verbatim>\<open>STATUS_SUCCESS\<close>, the report as the first bytes of its system buffer
  and the report's size as information, frees the report buffer once, leaves the other IRPs
  and the deferred reports alone and keeps the queue invariant. Both locks are free again.\<close>

theorem report_delivered_to_pending_irp:
  assumes "csq_remove_by_callbacks f" "queue_inv s" "irp_queue s = i # q"
    and "irp_takes s i n" "pool s b = Some bs" "unat n \<le> length bs"
  shows "\<exists>s' irp. IrpQueueCompleteIrp f alloc b n s = Some (STATUS_SUCCESS, s')
     \<and> irps s i = Some irp \<and> completed s' = completed s @ [(i, delivered irp bs n)]
     \<and> irp_queue s' = q \<and> queue_inv s' \<and> irps s' = (irps s)(i := None)
     \<and> pool s' = (pool s)(b := None) \<and> deferred_reports s' = deferred_reports s
     \<and> neutral {IrpQueueSpinLock} s s'"
proof -
  obtain irp where irp: "irps s i = Some irp" using assms(4) by (rule irp_takes_obtain)
  from IrpQueueCompleteIrp_delivers[OF assms, of alloc] irp show ?thesis
    by (auto intro!: neutral_balanced)
qed

text \<open>A report that finds no pending IRP is kept and not lost. With an empty queue
  \<^verbatim>\<open>IrpQueueCompleteIrp\<close> still returns success; the next \<^verbatim>\<open>IrpQueueQueryPendingReports\<close> on an
  IRP that can take the oldest deferred report delivers exactly the bytes of that report,
  frees its buffer and its record, and the invariant of the deferred list holds before,
  between and after. With no older report the delivered one is the report just handed in.\<close>

theorem deferred_report_roundtrip:
  assumes "csq_remove_by_callbacks f" "queue_inv s" "irp_queue s = []"
    and "deferred_inv s" "deferred_reports s = []"
    and "alloc (k_allocs s) = Some r" "pool s b = Some bs" "unat n \<le> length bs" "irp_takes s i n"
  shows "\<exists>s1 s2 irp. IrpQueueCompleteIrp f alloc b n s = Some (STATUS_SUCCESS, s1)
     \<and> deferred_reports s1 = [r] \<and> deferred_inv s1
     \<and> IrpQueueQueryPendingReports i s1 = Some (STATUS_SUCCESS, s2)
     \<and> irps s i = Some irp \<and> completed s2 = completed s @ [(i, delivered irp bs n)]
     \<and> deferred_reports s2 = [] \<and> deferred_inv s2 \<and> pool s2 = (pool s)(b := None) \<and> r \<notin> dom (deferred_mem s2)"
proof -
  have few: "deferred_count s \<le> MAX_DEFERRED_REPORTS_COUNT"
    using assms(4,5) by (simp add: deferred_inv_def unat_eq_zero)
  obtain s1 where s1: "IrpQueueCompleteIrp f alloc b n s = Some (STATUS_SUCCESS, s1)"
    "irps s1 = irps s" "pool s1 = pool s" "deferred_reports s1 = [r]"
    "deferred_count s1 = deferred_count s + 1"
    "deferred_mem s1 = (deferred_mem s)(r \<mapsto> \<lparr>dr_buffer = b, dr_buffer_size = n\<rparr>)"
    "completed s1 = completed s"
    using IrpQueueCompleteIrp_defers[OF assms(1-3) few, of alloc r b n] assms(5,6) by auto
  have inv1: "deferred_inv s1"
    using deferred_inv_push[OF assms(4) few, of r b bs n s1] assms(5,7,8) s1 by simp
  have "deferred_mem s1 r = Some \<lparr>dr_buffer = b, dr_buffer_size = n\<rparr>" "pool s1 b = Some bs" "irp_takes s1 i n"
    using s1 assms(7,9) by (simp_all add: irp_takes_def)
  from IrpQueueQueryPendingReports_delivers[OF inv1 s1(4) this] obtain s2 where s2:
    "IrpQueueQueryPendingReports i s1 = Some (STATUS_SUCCESS, s2)" "pool s2 = (pool s1)(b := None)"
    "deferred_mem s2 = (deferred_mem s1)(r := None)" "deferred_reports s2 = []"
    "deferred_count s2 = deferred_count s1 - 1"
    "completed s2 = completed s1 @ [(i, delivered (the (irps s1 i)) bs n)]"
    by blast
  have "deferred_inv s2"
    using deferred_inv_pop[OF inv1 s1(4), of s2] s2 s1(6) by (simp add: report_buffer_def)
  moreover obtain irp where "irps s i = Some irp" using assms(9) by (rule irp_takes_obtain)
  ultimately show ?thesis
    using s1 s2 inv1 by (auto simp: domIff)
qed

text \<open>An example state, with one pending IRP or one deferred report, for the witnesses.\<close>

definition example_csq :: "'a irp_st_scheme csq_remove" where
  "example_csq s = do {
     let s = IrpQueueAcquireLock s;
     p \<leftarrow> IrpQueuePeekNextEntry NULL s;
     (if p = NULL then Some (NULL, IrpQueueReleaseLock s)
      else do {
        s \<leftarrow> IrpQueueRemove p s;
        Some (p, IrpQueueReleaseLock s)
      })
   }"

lemma example_csq_ok: "csq_remove_by_callbacks example_csq"
  by (simp add: csq_remove_by_callbacks_def example_csq_def)

definition example_irp :: "u32 \<Rightarrow> IRP" where
  "example_irp n = \<lparr>irp_Stack = Some \<lparr>io_IoControlCode = 0, io_InputBufferLength = 0, io_OutputBufferLength = n\<rparr>,
     irp_SystemBuffer = replicate (unat n) 7, irp_Status = 0, irp_Information = 0\<rparr>"

definition example_irp_st :: "u32 \<Rightarrow> ptr list \<Rightarrow> ptr list \<Rightarrow> irp_st" where
  "example_irp_st n queued reports = \<lparr>k_trace = [], k_allocs = 0, slist = Map.empty,
     irps = [1 \<mapsto> example_irp n], pool = [2 \<mapsto> [1, 2, 3]],
     deferred_mem = [3 \<mapsto> \<lparr>dr_buffer = 2, dr_buffer_size = 3\<rparr>],
     irp_queue = queued, irp_count = of_nat (length queued),
     deferred_reports = reports, deferred_count = of_nat (length reports), completed = []\<rparr>"

theorem report_delivered_to_pending_irp_witness:
  "\<exists>s'. IrpQueueCompleteIrp example_csq (\<lambda>_. None) 2 3 (example_irp_st 4 [1] []) = Some (STATUS_SUCCESS, s')
     \<and> completed s' = [(1, delivered (example_irp 4) [1, 2, 3] 3)] \<and> irp_queue s' = []"
proof -
  let ?s = "example_irp_st 4 [1] []"
  have "queue_inv ?s" "irp_queue ?s = [1]" "irp_takes ?s 1 3" "pool ?s 2 = Some [1, 2, 3]"
    "irps ?s 1 = Some (example_irp 4)"
    by (simp_all add: example_irp_st_def example_irp_def queue_inv_def irp_takes_def)
  then show ?thesis
    using report_delivered_to_pending_irp[OF example_csq_ok, of ?s 1 "[]" 3 2 "[1, 2, 3]" "\<lambda>_. None"]
    by (auto simp: example_irp_st_def)
qed

theorem deferred_report_roundtrip_witness:
  "\<exists>s1 s2. IrpQueueCompleteIrp example_csq (\<lambda>_. Some 9) 2 3 (example_irp_st 4 [] []) = Some (STATUS_SUCCESS, s1)
     \<and> IrpQueueQueryPendingReports 1 s1 = Some (STATUS_SUCCESS, s2)
     \<and> completed s2 = [(1, delivered (example_irp 4) [1, 2, 3] 3)]"
proof -
  let ?s = "example_irp_st 4 [] []"
  have "queue_inv ?s" "irp_queue ?s = []" "deferred_inv ?s" "deferred_reports ?s = []"
    "irp_takes ?s 1 3" "pool ?s 2 = Some [1, 2, 3]" "irps ?s 1 = Some (example_irp 4)"
    by (simp_all add: example_irp_st_def example_irp_def queue_inv_def deferred_inv_def irp_takes_def)
  then show ?thesis
    using deferred_report_roundtrip[OF example_csq_ok, of ?s "\<lambda>_. Some 9" 9 2 "[1, 2, 3]" 3 1]
    by (auto simp: example_irp_st_def)
qed

text \<open>The size checks reject: what \<^verbatim>\<open>ValidateIrpOutputBuffer\<close> does when the buffer is too small.\<close>

definition irp_too_small :: "'a irp_st_scheme \<Rightarrow> ptr \<Rightarrow> u32 \<Rightarrow> bool" where
  "irp_too_small s i n =
     (n \<noteq> 0 \<and> i \<noteq> NULL \<and>
      (case irps s i of None \<Rightarrow> False
       | Some irp \<Rightarrow> (case irp_Stack irp of None \<Rightarrow> False | Some io \<Rightarrow> io_OutputBufferLength io < n)))"

lemma ValidateIrpOutputBuffer_too_small:
  "irp_too_small s i n \<Longrightarrow> ValidateIrpOutputBuffer i n s = Some (STATUS_BUFFER_TOO_SMALL, s)"
  by (auto simp: irp_too_small_def ValidateIrpOutputBuffer_def split: option.splits)

text \<open>A report that does not fit the pending IRP is dropped and the IRP is not leaked. The
  call returns \<^verbatim>\<open>STATUS_BUFFER_TOO_SMALL\<close>; the IRP is completed once with
  \<^verbatim>\<open>STATUS_INSUFFICIENT_RESOURCES\<close> and no bytes, its system buffer untouched, and the report
  buffer is freed once.\<close>

theorem oversized_report_completes_irp_with_error:
  fixes s :: "'a irp_st_scheme"
  assumes "csq_remove_by_callbacks f" "queue_inv s" "irp_queue s = i # q"
    and "irp_too_small s i n" "b \<in> dom (pool s)"
  shows "\<exists>s' irp. IrpQueueCompleteIrp f alloc b n s = Some (STATUS_BUFFER_TOO_SMALL, s')
     \<and> irps s i = Some irp
     \<and> completed s' = completed s @ [(i, irp\<lparr>irp_Status := STATUS_INSUFFICIENT_RESOURCES, irp_Information := 0\<rparr>)]
     \<and> irp_queue s' = q \<and> queue_inv s' \<and> pool s' = (pool s)(b := None)"
proof -
  obtain irp where irp: "irps s i = Some irp"
    using assms(4) by (auto simp: irp_too_small_def split: option.splits)
  have "ValidateIrpOutputBuffer i n t = Some (STATUS_BUFFER_TOO_SMALL, t)" if "irps t = irps s" for t :: "'a irp_st_scheme"
    using that assms(4) by (intro ValidateIrpOutputBuffer_too_small) (simp add: irp_too_small_def)
  from IrpQueueCompleteIrp_refuses[OF assms(1-3) this _ assms(5), of alloc] irp show ?thesis
    by auto
qed

theorem oversized_report_completes_irp_with_error_witness:
  "\<exists>s'. IrpQueueCompleteIrp example_csq (\<lambda>_. None) 2 3 (example_irp_st 1 [1] []) = Some (STATUS_BUFFER_TOO_SMALL, s')
     \<and> irp_queue s' = []"
proof -
  let ?s = "example_irp_st 1 [1] []"
  have "queue_inv ?s" "irp_queue ?s = [1]" "irp_too_small ?s 1 3" "2 \<in> dom (pool ?s)"
    by (simp_all add: example_irp_st_def example_irp_def queue_inv_def irp_too_small_def)
  then show ?thesis
    using oversized_report_completes_irp_with_error[OF example_csq_ok, of ?s 1 "[]" 3 2 "\<lambda>_. None"]
    by auto
qed

text \<open>C21: a query with an output buffer that is too small loses a report and leaves a counter
  that no longer matches the list. The oldest report is unlinked and freed but the count is
  not lowered, so once the list is empty the next query takes the list head for a report:
  a bug check.\<close>

theorem failed_query_corrupts_deferred_list:
  assumes "deferred_inv s" "deferred_reports s = [r]"
    and "deferred_mem s r = Some rep" "irp_too_small s i (dr_buffer_size rep)"
  shows "\<exists>s'. IrpQueueQueryPendingReports i s = Some (STATUS_BUFFER_TOO_SMALL, s')
     \<and> deferred_reports s' = [] \<and> deferred_count s' = 1 \<and> r \<notin> dom (deferred_mem s')
     \<and> (\<forall>j. IrpQueueQueryPendingReports j s' = None)"
proof -
  let ?s1 = "(emit (Acquire DeferredReportsSpinLock) s)\<lparr>deferred_reports := []\<rparr>"
  have small: "irp_too_small ?s1 i (dr_buffer_size rep)" using assms(4) by (simp add: irp_too_small_def)
  have "unat (deferred_count s) = unat (1 :: u32)" using assms(1,2) by (simp add: deferred_inv_def)
  then have c: "deferred_count s = 1" by (simp only: word_unat_eq_iff)
  have "dr_buffer rep \<in> dom (pool s)"
    using assms(1-3) by (auto simp: deferred_inv_def report_ok_def split: option.splits)
  then show ?thesis
    using assms(2,3) c
    by (simp add: IrpQueueQueryPendingReports_def IrpQueueIsThereDeferredReport_def
        IrpQueueRemoveDeferredReport_def IrpQueueCompleteDeferredReport_def
        ValidateIrpOutputBuffer_too_small[OF small] IrpQueueFreeDeferredReport_def free_buffer_def)
qed

theorem failed_query_corrupts_deferred_list_witness:
  "\<exists>s'. IrpQueueQueryPendingReports 1 (example_irp_st 1 [] [3]) = Some (STATUS_BUFFER_TOO_SMALL, s')
     \<and> (\<forall>j. IrpQueueQueryPendingReports j s' = None)"
proof -
  let ?s = "example_irp_st 1 [] [3]"
  have "deferred_inv ?s" "deferred_reports ?s = [3]"
    "deferred_mem ?s 3 = Some \<lparr>dr_buffer = 2, dr_buffer_size = 3\<rparr>" "irp_too_small ?s 1 3"
    by (simp_all add: example_irp_st_def example_irp_def deferred_inv_def report_ok_def irp_too_small_def)
  then show ?thesis
    using failed_query_corrupts_deferred_list[of ?s 3 "\<lparr>dr_buffer = 2, dr_buffer_size = 3\<rparr>" 1] by auto
qed

lemma free_deferred_loop_faults: "0 < deferred_count s \<Longrightarrow> free_deferred_loop s = None"
proof (induction "deferred_reports s" arbitrary: s)
  case Nil
  then show ?case
    by (subst free_deferred_loop.simps)
      (simp add: IrpQueueIsThereDeferredReport_def IrpQueueRemoveDeferredReport_def)
next
  case (Cons r rs)
  then show ?case
    by (subst free_deferred_loop.simps)
      (auto simp: IrpQueueIsThereDeferredReport_def IrpQueueRemoveDeferredReport_def
        IrpQueueFreeDeferredReport_def free_buffer_def split: bind_splits if_splits dest!: sym[of "_ # _"])
qed

text \<open>Freeing the deferred reports on unload returns only when there are none. The loop
  tests the count but never lowers it, so with one or more deferred reports it frees them all
  and then takes the list head for a report: a bug check.\<close>

theorem IrpQueueFreeDeferredReports_faults_iff:
  "IrpQueueFreeDeferredReports s = None \<longleftrightarrow> 0 < deferred_count s"
  using free_deferred_loop_faults[of "emit (Acquire DeferredReportsSpinLock) s"]
  by (auto simp: IrpQueueFreeDeferredReports_def free_deferred_loop.simps[of "emit _ _"]
      IrpQueueIsThereDeferredReport_def word_neq_0_conv)

end
