(* ===== verification/Memory.thy ===== *)
theory Memory
  imports Kernel
begin

text \<open>
  Byte-addressed memory and the layouts of the PE structures of \<^verbatim>\<open>src/driver/common.h\<close> that
  the driver reads through raw pointers. An unmapped byte is \<open>None\<close>, and reading it is a
  fault. A layout lists the fields of a C structure in order, each with its size and
  alignment, and \<open>FIELD_OFFSET\<close> computes offsets from it as the compiler does.
\<close>

section \<open>Reads\<close>

type_synonym memory = "ptr \<Rightarrow> u8 option"

primrec read_bytes :: "memory \<Rightarrow> ptr \<Rightarrow> nat \<Rightarrow> u8 list option" where
  "read_bytes m p 0 = Some []"
| "read_bytes m p (Suc n) = do {
     b \<leftarrow> m p;
     bs \<leftarrow> read_bytes m (p + 1) n;
     Some (b # bs)
   }"

primrec le_nat :: "u8 list \<Rightarrow> nat" where
  "le_nat [] = 0"
| "le_nat (b # bs) = unat b + 256 * le_nat bs"

definition read_u16 :: "memory \<Rightarrow> ptr \<Rightarrow> u16 option" where
  "read_u16 m p = map_option (\<lambda>bs. of_nat (le_nat bs)) (read_bytes m p 2)"

definition read_u32 :: "memory \<Rightarrow> ptr \<Rightarrow> u32 option" where
  "read_u32 m p = map_option (\<lambda>bs. of_nat (le_nat bs)) (read_bytes m p 4)"

definition read_u64 :: "memory \<Rightarrow> ptr \<Rightarrow> u64 option" where
  "read_u64 m p = map_option (\<lambda>bs. of_nat (le_nat bs)) (read_bytes m p 8)"

text \<open>
  \<^verbatim>\<open>strcmp (p, s) == 0\<close> for a string in memory and a constant: both are read up to the
  first difference or the terminator.
\<close>

primrec strcmp_equal :: "memory \<Rightarrow> ptr \<Rightarrow> string \<Rightarrow> bool option" where
  "strcmp_equal m p [] = map_option (\<lambda>b. b = 0) (m p)"
| "strcmp_equal m p (c # cs) = do {
     b \<leftarrow> m p;
     (if b = of_char c then strcmp_equal m (p + 1) cs else Some False)
   }"

lemma le_nat_bound: "le_nat bs < 256 ^ length bs"
proof (induction bs)
  case (Cons b bs)
  moreover have "unat b < 256" using unsigned_less[of b, where 'a = nat] by simp
  ultimately show ?case by simp
qed simp

lemma read_bytes_length: "read_bytes m p n = Some bs \<Longrightarrow> length bs = n"
  by (induction n arbitrary: p bs) (auto split: bind_splits)

lemma read_u16_unfold:
  "read_u16 m p = do { a \<leftarrow> m p; b \<leftarrow> m (p + 1); Some (of_nat (unat a + 256 * unat b)) }"
proof -
  have two: "(2 :: nat) = Suc (Suc 0)" by simp
  show ?thesis
    unfolding read_u16_def two by (cases "m p"; cases "m (p + 1)") simp_all
qed

lemma read_u32_unfold:
  "read_u32 m p = do {
     a \<leftarrow> m p; b \<leftarrow> m (p + 1); c \<leftarrow> m (p + 2); d \<leftarrow> m (p + 3);
     Some (of_nat (unat a + 256 * (unat b + 256 * (unat c + 256 * unat d)))) }"
proof -
  have four: "(4 :: nat) = Suc (Suc (Suc (Suc 0)))" by simp
  show ?thesis
    unfolding read_u32_def four
    by (cases "m p"; cases "m (p + 1)"; cases "m (p + 2)"; cases "m (p + 3)")
      (simp_all add: add.assoc)
qed

section \<open>Structure layouts\<close>

type_synonym layout = "(string \<times> nat \<times> nat) list"

definition align_up :: "nat \<Rightarrow> nat \<Rightarrow> nat" where
  "align_up a n = ((n + a - 1) div a) * a"

fun offset_from :: "nat \<Rightarrow> layout \<Rightarrow> string \<Rightarrow> nat" where
  "offset_from n [] f = n"
| "offset_from n ((name, sz, align) # xs) f =
     (if name = f then align_up align n else offset_from (align_up align n + sz) xs f)"

definition FIELD_OFFSET :: "layout \<Rightarrow> string \<Rightarrow> u64" where
  "FIELD_OFFSET l f = of_nat (offset_from 0 l f)"

section \<open>PE headers\<close>

definition IMAGE_SECTION_HEADER_layout :: layout where
  "IMAGE_SECTION_HEADER_layout =
    [(''Name'', 8, 1), (''VirtualSize'', 4, 4), (''VirtualAddress'', 4, 4),
     (''SizeOfRawData'', 4, 4), (''PointerToRawData'', 4, 4), (''PointerToRelocations'', 4, 4),
     (''PointerToLinenumbers'', 4, 4), (''NumberOfRelocations'', 2, 2), (''NumberOfLinenumbers'', 2, 2),
     (''Characteristics'', 4, 4)]"

definition IMAGE_FILE_HEADER_layout :: layout where
  "IMAGE_FILE_HEADER_layout =
    [(''Machine'', 2, 2), (''NumberOfSections'', 2, 2), (''TimeDateStamp'', 4, 4),
     (''PointerToSymbolTable'', 4, 4), (''NumberOfSymbols'', 4, 4), (''SizeOfOptionalHeader'', 2, 2),
     (''Characteristics'', 2, 2)]"

definition IMAGE_DATA_DIRECTORY_layout :: layout where
  "IMAGE_DATA_DIRECTORY_layout =
    [(''VirtualAddress'', 4, 4), (''Size'', 4, 4)]"

definition IMAGE_OPTIONAL_HEADER64_layout :: layout where
  "IMAGE_OPTIONAL_HEADER64_layout =
    [(''Magic'', 2, 2), (''MajorLinkerVersion'', 1, 1), (''MinorLinkerVersion'', 1, 1),
     (''SizeOfCode'', 4, 4), (''SizeOfInitializedData'', 4, 4), (''SizeOfUninitializedData'', 4, 4),
     (''AddressOfEntryPoint'', 4, 4), (''BaseOfCode'', 4, 4), (''ImageBase'', 8, 8),
     (''SectionAlignment'', 4, 4), (''FileAlignment'', 4, 4), (''MajorOperatingSystemVersion'', 2, 2),
     (''MinorOperatingSystemVersion'', 2, 2), (''MajorImageVersion'', 2, 2), (''MinorImageVersion'', 2, 2),
     (''MajorSubsystemVersion'', 2, 2), (''MinorSubsystemVersion'', 2, 2), (''Win32VersionValue'', 4, 4),
     (''SizeOfImage'', 4, 4), (''SizeOfHeaders'', 4, 4), (''CheckSum'', 4, 4),
     (''Subsystem'', 2, 2), (''DllCharacteristics'', 2, 2), (''SizeOfStackReserve'', 8, 8),
     (''SizeOfStackCommit'', 8, 8), (''SizeOfHeapReserve'', 8, 8), (''SizeOfHeapCommit'', 8, 8),
     (''LoaderFlags'', 4, 4), (''NumberOfRvaAndSizes'', 4, 4), (''DataDirectory'', 128, 4)]"

definition IMAGE_OPTIONAL_HEADER32_layout :: layout where
  "IMAGE_OPTIONAL_HEADER32_layout =
    [(''Magic'', 2, 2), (''MajorLinkerVersion'', 1, 1), (''MinorLinkerVersion'', 1, 1),
     (''SizeOfCode'', 4, 4), (''SizeOfInitializedData'', 4, 4), (''SizeOfUninitializedData'', 4, 4),
     (''AddressOfEntryPoint'', 4, 4), (''BaseOfCode'', 4, 4), (''BaseOfData'', 4, 4),
     (''ImageBase'', 4, 4), (''SectionAlignment'', 4, 4), (''FileAlignment'', 4, 4),
     (''MajorOperatingSystemVersion'', 2, 2), (''MinorOperatingSystemVersion'', 2, 2), (''MajorImageVersion'', 2, 2),
     (''MinorImageVersion'', 2, 2), (''MajorSubsystemVersion'', 2, 2), (''MinorSubsystemVersion'', 2, 2),
     (''Win32VersionValue'', 4, 4), (''SizeOfImage'', 4, 4), (''SizeOfHeaders'', 4, 4),
     (''CheckSum'', 4, 4), (''Subsystem'', 2, 2), (''DllCharacteristics'', 2, 2),
     (''SizeOfStackReserve'', 4, 4), (''SizeOfStackCommit'', 4, 4), (''SizeOfHeapReserve'', 4, 4),
     (''SizeOfHeapCommit'', 4, 4), (''LoaderFlags'', 4, 4), (''NumberOfRvaAndSizes'', 4, 4),
     (''DataDirectory'', 128, 4)]"

definition IMAGE_DOS_HEADER_layout :: layout where
  "IMAGE_DOS_HEADER_layout =
    [(''e_magic'', 2, 2), (''e_cblp'', 2, 2), (''e_cp'', 2, 2),
     (''e_crlc'', 2, 2), (''e_cparhdr'', 2, 2), (''e_minalloc'', 2, 2),
     (''e_maxalloc'', 2, 2), (''e_ss'', 2, 2), (''e_sp'', 2, 2),
     (''e_csum'', 2, 2), (''e_ip'', 2, 2), (''e_cs'', 2, 2),
     (''e_lfarlc'', 2, 2), (''e_ovno'', 2, 2), (''e_res'', 8, 2),
     (''e_oemid'', 2, 2), (''e_oeminfo'', 2, 2), (''e_res2'', 20, 2),
     (''e_lfanew'', 4, 4)]"

definition KLDR_DATA_TABLE_ENTRY_layout :: layout where
  "KLDR_DATA_TABLE_ENTRY_layout =
    [(''InLoadOrderLinks'', 16, 8), (''ExceptionTable'', 8, 8), (''ExceptionTableSize'', 4, 4),
     (''GpValue'', 8, 8), (''NonPagedDebugInfo'', 8, 8), (''DllBase'', 8, 8),
     (''EntryPoint'', 8, 8), (''SizeOfImage'', 4, 4), (''FullDllName'', 16, 8),
     (''BaseDllName'', 16, 8), (''Flags'', 4, 4), (''LoadCount'', 2, 2),
     (''__Unused5'', 2, 2), (''SectionPointer'', 8, 8), (''CheckSum'', 4, 4),
     (''LoadedImports'', 8, 8), (''PatchInformation'', 8, 8)]"

definition IMAGE_EXPORT_DIRECTORY_layout :: layout where
  "IMAGE_EXPORT_DIRECTORY_layout =
    [(''Characteristics'', 4, 4), (''TimeDateStamp'', 4, 4), (''MajorVersion'', 2, 2),
     (''MinorVersion'', 2, 2), (''Name'', 4, 4), (''Base'', 4, 4),
     (''NumberOfFunctions'', 4, 4), (''NumberOfNames'', 4, 4), (''AddressOfFunctions'', 4, 4),
     (''AddressOfNames'', 4, 4), (''AddressOfNameOrdinals'', 4, 4)]"

definition LOCAL_NT_HEADER_layout :: layout where
  "LOCAL_NT_HEADER_layout =
    [(''Signature'', 4, 4), (''FileHeader'', 20, 4), (''OptionalHeader'', 224, 4)]"

lemmas layouts = IMAGE_SECTION_HEADER_layout_def IMAGE_FILE_HEADER_layout_def IMAGE_DATA_DIRECTORY_layout_def IMAGE_OPTIONAL_HEADER64_layout_def IMAGE_OPTIONAL_HEADER32_layout_def IMAGE_DOS_HEADER_layout_def KLDR_DATA_TABLE_ENTRY_layout_def IMAGE_EXPORT_DIRECTORY_layout_def LOCAL_NT_HEADER_layout_def

text \<open>The offsets the driver relies on, computed from the layouts.\<close>

lemma layout_offsets:
  "FIELD_OFFSET IMAGE_DOS_HEADER_layout ''e_lfanew'' = 0x3C"
  "FIELD_OFFSET LOCAL_NT_HEADER_layout ''FileHeader'' = 0x4"
  "FIELD_OFFSET LOCAL_NT_HEADER_layout ''OptionalHeader'' = 0x18"
  "FIELD_OFFSET IMAGE_FILE_HEADER_layout ''NumberOfSections'' = 0x2"
  "FIELD_OFFSET IMAGE_FILE_HEADER_layout ''SizeOfOptionalHeader'' = 0x10"
  "FIELD_OFFSET IMAGE_OPTIONAL_HEADER64_layout ''DataDirectory'' = 0x70"
  "FIELD_OFFSET IMAGE_DATA_DIRECTORY_layout ''VirtualAddress'' = 0"
  "FIELD_OFFSET IMAGE_EXPORT_DIRECTORY_layout ''NumberOfNames'' = 0x18"
  "FIELD_OFFSET IMAGE_EXPORT_DIRECTORY_layout ''AddressOfFunctions'' = 0x1C"
  "FIELD_OFFSET IMAGE_EXPORT_DIRECTORY_layout ''AddressOfNames'' = 0x20"
  "FIELD_OFFSET IMAGE_EXPORT_DIRECTORY_layout ''AddressOfNameOrdinals'' = 0x24"
  "FIELD_OFFSET IMAGE_SECTION_HEADER_layout ''VirtualSize'' = 0x8"
  "FIELD_OFFSET IMAGE_SECTION_HEADER_layout ''VirtualAddress'' = 0xC"
  "FIELD_OFFSET IMAGE_SECTION_HEADER_layout ''Characteristics'' = 0x24"
  by (simp_all add: FIELD_OFFSET_def layouts align_up_def)

end
