(* ===== verification/Session.thy ===== *)
theory Session
  imports IrpQueue Memory
begin

text \<open>
  The active session of \<^verbatim>\<open>src/driver/session.c\<close>: which process is protected, the cookie and
  key the user-mode module sent, and the statistics. Every access is under the session lock.
  \<^verbatim>\<open>PsLookupProcessByProcessId\<close>, \<^verbatim>\<open>PsGetProcessId\<close> and \<^verbatim>\<open>ZwTerminateProcess\<close> are parameters.
\<close>

record ACTIVE_SESSION =
  is_session_active :: bool
  um_handle :: u64
  km_handle :: u64
  session_process :: ptr
  registration_handle :: ptr
  session_cookie :: u32
  session_aes_key :: "u8 list"
  irps_processed :: u32
  report_count :: u32
  heartbeat_count :: u32

record sess_st = irp_st +
  session :: ACTIVE_SESSION

text \<open>\<open>lookup pid\<close> is the status and, on success, the process; it takes a reference.\<close>

type_synonym process_lookup = "u64 \<Rightarrow> NTSTATUS \<times> ptr"

section \<open>Operations\<close>

definition SESSION_INITIATION_PACKET_layout :: layout where
  "SESSION_INITIATION_PACKET_layout =
    [(''session_cookie'', 4, 4), (''session_aes_key'', 16, 1), (''protected_process_id'', 8, 8)]"

record SESSION_INITIATION_PACKET =
  pkt_session_cookie :: u32
  pkt_session_aes_key :: "u8 list"
  pkt_protected_process_id :: u64

definition AES_128_KEY_SIZE :: nat where "AES_128_KEY_SIZE = 16"

definition sizeof_SESSION_INITIATION_PACKET :: u32 where
  "sizeof_SESSION_INITIATION_PACKET = 32"

definition packet_field :: "u8 list \<Rightarrow> string \<Rightarrow> nat \<Rightarrow> u8 list" where
  "packet_field bs f n = take n (drop (unat (FIELD_OFFSET SESSION_INITIATION_PACKET_layout f)) bs)"

definition read_packet :: "u8 list \<Rightarrow> SESSION_INITIATION_PACKET" where
  "read_packet bs = \<lparr>
     pkt_session_cookie = of_nat (le_nat (packet_field bs ''session_cookie'' 4)),
     pkt_session_aes_key = packet_field bs ''session_aes_key'' AES_128_KEY_SIZE,
     pkt_protected_process_id = of_nat (le_nat (packet_field bs ''protected_process_id'' 8))\<rparr>"

definition SessionInitialiseStructure :: "'a sess_st_scheme \<Rightarrow> 'a sess_st_scheme" where
  "SessionInitialiseStructure s = emit (LockInit SessionLock) s"

definition InitialiseObCallbacksConfiguration :: "'a sess_st_scheme \<Rightarrow> 'a sess_st_scheme" where
  "InitialiseObCallbacksConfiguration s = emit (LockInit ObConfigLock) s"

definition SessionInitialiseCallbackConfiguration :: "'a sess_st_scheme \<Rightarrow> 'a sess_st_scheme" where
  "SessionInitialiseCallbackConfiguration s = InitialiseObCallbacksConfiguration s"

text \<open>The shape of every session routine: a body under the session lock.\<close>

definition with_session_lock ::
  "('a sess_st_scheme \<Rightarrow> 'r \<times> 'a sess_st_scheme) \<Rightarrow> 'a sess_st_scheme \<Rightarrow> 'r \<times> 'a sess_st_scheme" where
  "with_session_lock body s =
     (let (r, s) = body (emit (Acquire SessionLock) s) in (r, emit (Release SessionLock) s))"

definition SessionIsActive :: "'a sess_st_scheme \<Rightarrow> bool \<times> 'a sess_st_scheme" where
  "SessionIsActive = with_session_lock (\<lambda>s. (is_session_active (session s), s))"

definition SessionGetProcess :: "'a sess_st_scheme \<Rightarrow> ptr \<times> 'a sess_st_scheme" where
  "SessionGetProcess = with_session_lock (\<lambda>s. (session_process (session s), s))"

text \<open>The process id is stored through a \<^verbatim>\<open>PLONG\<close>, so only its low 32 bits are read.\<close>

definition SessionGetProcessId :: "'a sess_st_scheme \<Rightarrow> u32 \<times> 'a sess_st_scheme" where
  "SessionGetProcessId = with_session_lock (\<lambda>s. (ucast (km_handle (session s)), s))"

text \<open>The address of the configuration inside the global session is never null.\<close>

definition SessionGetCallbackConfiguration :: "'a sess_st_scheme \<Rightarrow> bool \<times> 'a sess_st_scheme" where
  "SessionGetCallbackConfiguration = with_session_lock (\<lambda>s. (True, s))"

definition SessionTerminate :: "'a sess_st_scheme \<Rightarrow> 'a sess_st_scheme" where
  "SessionTerminate s = snd (with_session_lock (\<lambda>s. ((), s\<lparr>session := (session s)\<lparr>
     km_handle := 0, um_handle := 0, session_process := NULL, is_session_active := False\<rparr>\<rparr>)) s)"

text \<open>The part of \<^verbatim>\<open>SessionInitialise\<close> that runs under the lock.\<close>

definition SessionInitialise_locked ::
  "process_lookup \<Rightarrow> (ptr \<Rightarrow> u64) \<Rightarrow> SESSION_INITIATION_PACKET \<Rightarrow> 'a sess_st_scheme
   \<Rightarrow> NTSTATUS \<times> 'a sess_st_scheme" where
  "SessionInitialise_locked lookup PsGetProcessId information s =
     (let s = s\<lparr>session := (session s)\<lparr>um_handle := pkt_protected_process_id information\<rparr>\<rparr>;
          (status, process) = lookup (um_handle (session s))
      in if \<not> NT_SUCCESS status then (STATUS_INVALID_PARAMETER, s)
         else (status, (emit (ObReference process) s)\<lparr>session := (session s)\<lparr>
                 km_handle := PsGetProcessId process, session_process := process,
                 is_session_active := True, session_cookie := pkt_session_cookie information,
                 session_aes_key := pkt_session_aes_key information\<rparr>\<rparr>))"

definition SessionInitialise ::
  "process_lookup \<Rightarrow> (ptr \<Rightarrow> u64) \<Rightarrow> ptr \<Rightarrow> 'a sess_st_scheme \<Rightarrow> (NTSTATUS \<times> 'a sess_st_scheme) option" where
  "SessionInitialise lookup PsGetProcessId Irp s = do {
     status \<leftarrow> ValidateIrpInputBuffer Irp sizeof_SESSION_INITIATION_PACKET s;
     (if \<not> NT_SUCCESS status then Some (status, s)
      else do {
        irp \<leftarrow> irps s Irp;
        let information = read_packet (irp_SystemBuffer irp);
        Some (with_session_lock (SessionInitialise_locked lookup PsGetProcessId information) s)
      })
   }"

definition SessionTerminateProcess ::
  "(u64 \<Rightarrow> NTSTATUS \<Rightarrow> NTSTATUS) \<Rightarrow> 'a sess_st_scheme \<Rightarrow> 'a sess_st_scheme" where
  "SessionTerminateProcess ZwTerminateProcess s =
     (let (process_id, s) = SessionGetProcessId s in
      if process_id = 0 then s
      else let status = ZwTerminateProcess (ucast process_id) STATUS_SYSTEM_INTEGRITY_POLICY_VIOLATION;
               s = emit (Call ''ZwTerminateProcess'' [ucast process_id, ucast STATUS_SYSTEM_INTEGRITY_POLICY_VIOLATION]) s
           in if \<not> NT_SUCCESS status then s else SessionTerminate s)"

definition SessionIncrementIrpsProcessedCount :: "'a sess_st_scheme \<Rightarrow> 'a sess_st_scheme" where
  "SessionIncrementIrpsProcessedCount s = snd (with_session_lock (\<lambda>s. ((),
     s\<lparr>session := (session s)\<lparr>irps_processed := irps_processed (session s) + 1\<rparr>\<rparr>)) s)"

definition SessionIncrementReportCount :: "'a sess_st_scheme \<Rightarrow> 'a sess_st_scheme" where
  "SessionIncrementReportCount s = snd (with_session_lock (\<lambda>s. ((),
     s\<lparr>session := (session s)\<lparr>report_count := report_count (session s) + 1\<rparr>\<rparr>)) s)"

definition SessionIncrementHeartbeatCount :: "'a sess_st_scheme \<Rightarrow> 'a sess_st_scheme" where
  "SessionIncrementHeartbeatCount s = snd (with_session_lock (\<lambda>s. ((),
     s\<lparr>session := (session s)\<lparr>heartbeat_count := heartbeat_count (session s) + 1\<rparr>\<rparr>)) s)"

lemmas session_op_defs = SessionInitialiseStructure_def SessionInitialiseCallbackConfiguration_def
  InitialiseObCallbacksConfiguration_def SessionIsActive_def SessionGetProcess_def
  SessionGetProcessId_def SessionGetCallbackConfiguration_def SessionTerminate_def
  SessionTerminateProcess_def SessionIncrementIrpsProcessedCount_def SessionIncrementReportCount_def
  SessionIncrementHeartbeatCount_def

section \<open>Behaviour of the operations\<close>

lemma session_emit [simp]: "session (emit e s) = session s" "sess_st.more (emit e s) = sess_st.more s"
  by (simp_all add: emit_def)

lemma packet_offsets:
  "FIELD_OFFSET SESSION_INITIATION_PACKET_layout ''session_cookie'' = 0"
  "FIELD_OFFSET SESSION_INITIATION_PACKET_layout ''session_aes_key'' = 4"
  "FIELD_OFFSET SESSION_INITIATION_PACKET_layout ''protected_process_id'' = 24"
  by (simp_all add: FIELD_OFFSET_def SESSION_INITIATION_PACKET_layout_def align_up_def)

lemma session_reads [simp]:
  "fst (SessionIsActive s) = is_session_active (session s)" "session (snd (SessionIsActive s)) = session s"
  "fst (SessionGetProcess s) = session_process (session s)" "session (snd (SessionGetProcess s)) = session s"
  "fst (SessionGetProcessId s) = ucast (km_handle (session s))" "session (snd (SessionGetProcessId s)) = session s"
  "fst (SessionGetCallbackConfiguration s) = True" "session (snd (SessionGetCallbackConfiguration s)) = session s"
  by (simp_all add: session_op_defs with_session_lock_def)

lemma session_writes [simp]:
  "session (SessionTerminate s) = (session s)\<lparr>km_handle := 0, um_handle := 0, session_process := NULL,
     is_session_active := False\<rparr>"
  "session (SessionIncrementIrpsProcessedCount s) = (session s)\<lparr>irps_processed := irps_processed (session s) + 1\<rparr>"
  "session (SessionIncrementReportCount s) = (session s)\<lparr>report_count := report_count (session s) + 1\<rparr>"
  "session (SessionIncrementHeartbeatCount s) = (session s)\<lparr>heartbeat_count := heartbeat_count (session s) + 1\<rparr>"
  by (simp_all add: session_op_defs with_session_lock_def)

text \<open>A routine under the session lock is balanced when its body does not touch locks.\<close>

lemma with_session_lock_neutral:
  assumes "\<And>s. neutral {} s (snd (body s))"
  shows "neutral {SessionLock} s (snd (with_session_lock body s))"
  by (rule neutral_section[OF assms[of "emit (Acquire SessionLock) s"]])
    (auto simp: with_session_lock_def split: prod.splits)

lemma session_ops_neutral [neutral_intros]:
  "neutral {SessionLock} s (snd (SessionIsActive s))"
  "neutral {SessionLock} s (snd (SessionGetProcess s))"
  "neutral {SessionLock} s (snd (SessionGetProcessId s))"
  "neutral {SessionLock} s (snd (SessionGetCallbackConfiguration s))"
  "neutral {SessionLock} s (SessionTerminate s)"
  "neutral {SessionLock} s (SessionIncrementIrpsProcessedCount s)"
  "neutral {SessionLock} s (SessionIncrementReportCount s)"
  "neutral {SessionLock} s (SessionIncrementHeartbeatCount s)"
  unfolding session_op_defs
  by (rule with_session_lock_neutral, rule neutral_same, simp)+

lemma SessionTerminateProcess_neutral [neutral_intros]:
  "neutral {SessionLock} s (SessionTerminateProcess zw s)"
proof -
  have "neutral {SessionLock} s (snd (SessionGetProcessId s))" by (rule session_ops_neutral)
  then show ?thesis
    by (auto simp: SessionTerminateProcess_def Let_def split: prod.splits
        intro!: neutral_emit neutral_trans[OF _ session_ops_neutral(5)])
qed

lemma SessionInitialise_locked_neutral:
  "neutral {} s (snd (SessionInitialise_locked lookup pid info s))"
  by (auto simp: SessionInitialise_locked_def Let_def split: prod.splits
      intro: neutral_same neutral_event[where e = "ObReference _"])

lemma SessionInitialise_cases:
  assumes "SessionInitialise lookup pid Irp s = Some (st, s')"
  obtains "s' = s" | info where "s' = snd (with_session_lock (SessionInitialise_locked lookup pid info) s)"
  using assms by (auto simp: SessionInitialise_def Let_def split: bind_splits if_splits) (metis snd_conv)

lemma SessionInitialise_neutral [neutral_intros]:
  assumes "SessionInitialise lookup pid Irp s = Some (st, s')"
  shows "neutral {SessionLock} s s'"
  using assms
  by (rule SessionInitialise_cases)
    (auto intro: neutral_refl with_session_lock_neutral[OF SessionInitialise_locked_neutral])

lemma SessionInitialise_locked_result:
  "with_session_lock (SessionInitialise_locked lookup pid info) s =
    (let h = pkt_protected_process_id info in
     if NT_SUCCESS (fst (lookup h))
     then (fst (lookup h), emit (Release SessionLock)
       ((emit (ObReference (snd (lookup h))) (emit (Acquire SessionLock) s))\<lparr>session := (session s)\<lparr>um_handle := h,
          km_handle := pid (snd (lookup h)), session_process := snd (lookup h), is_session_active := True,
          session_cookie := pkt_session_cookie info, session_aes_key := pkt_session_aes_key info\<rparr>\<rparr>))
     else (STATUS_INVALID_PARAMETER, emit (Release SessionLock)
       ((emit (Acquire SessionLock) s)\<lparr>session := (session s)\<lparr>um_handle := h\<rparr>\<rparr>)))"
  by (simp add: with_session_lock_def SessionInitialise_locked_def Let_def emit_def split: prod.splits)

section \<open>Session invariant\<close>

text \<open>
  An active session names a process; an inactive one names none. The step relation covers
  every routine of the file; \<open>lookup\<close> succeeds only with a process.
\<close>

definition session_inv :: "ACTIVE_SESSION \<Rightarrow> bool" where
  "session_inv a \<longleftrightarrow>
     (is_session_active a \<longrightarrow> session_process a \<noteq> NULL)
     \<and> (\<not> is_session_active a \<longrightarrow> session_process a = NULL \<and> km_handle a = 0)"

definition lookup_ok :: "process_lookup \<Rightarrow> bool" where
  "lookup_ok lookup \<longleftrightarrow> (\<forall>pid. NT_SUCCESS (fst (lookup pid)) \<longrightarrow> snd (lookup pid) \<noteq> NULL)"

inductive session_step ::
  "process_lookup \<Rightarrow> (ptr \<Rightarrow> u64) \<Rightarrow> (u64 \<Rightarrow> NTSTATUS \<Rightarrow> NTSTATUS) \<Rightarrow> 'a sess_st_scheme \<Rightarrow> 'a sess_st_scheme \<Rightarrow> bool"
  for lookup pid zw where
  init: "SessionInitialise lookup pid Irp s = Some (st, s') \<Longrightarrow> session_step lookup pid zw s s'"
| terminate: "session_step lookup pid zw s (SessionTerminate s)"
| terminate_process: "session_step lookup pid zw s (SessionTerminateProcess zw s)"
| is_active: "session_step lookup pid zw s (snd (SessionIsActive s))"
| get_process: "session_step lookup pid zw s (snd (SessionGetProcess s))"
| get_process_id: "session_step lookup pid zw s (snd (SessionGetProcessId s))"
| get_config: "session_step lookup pid zw s (snd (SessionGetCallbackConfiguration s))"
| irps: "session_step lookup pid zw s (SessionIncrementIrpsProcessedCount s)"
| reports: "session_step lookup pid zw s (SessionIncrementReportCount s)"
| heartbeats: "session_step lookup pid zw s (SessionIncrementHeartbeatCount s)"

lemma SessionTerminateProcess_session:
  "session (SessionTerminateProcess zw s) =
    (if ucast (km_handle (session s)) = (0 :: u32)
        \<or> \<not> NT_SUCCESS (zw (ucast (ucast (km_handle (session s)) :: u32)) STATUS_SYSTEM_INTEGRITY_POLICY_VIOLATION)
     then session s
     else (session s)\<lparr>km_handle := 0, um_handle := 0, session_process := NULL, is_session_active := False\<rparr>)"
  using session_reads(5,6)[of s]
  by (cases "SessionGetProcessId s") (simp add: SessionTerminateProcess_def Let_def)

lemma session_step_inv:
  assumes "session_step lookup pid zw s s'" "lookup_ok lookup" "session_inv (session s)"
  shows "session_inv (session s')"
  using assms
proof induction
  case (init Irp s st s')
  from init.hyps(1) init.prems show ?case
    by (cases rule: SessionInitialise_cases)
      (auto simp: session_inv_def lookup_ok_def SessionInitialise_locked_result Let_def)
qed (auto simp: session_inv_def SessionTerminateProcess_session)

lemma session_step_neutral: "session_step lookup pid zw s s' \<Longrightarrow> neutral {SessionLock} s s'"
  by (induction rule: session_step.induct) (auto intro: neutral_intros)

text \<open>No routine of the session drops a reference.\<close>

definition keeps_refs :: "ptr \<Rightarrow> 'a kst_scheme \<Rightarrow> 'a kst_scheme \<Rightarrow> bool" where
  "keeps_refs p s s' \<longleftrightarrow> refs p (k_trace s) \<le> refs p (k_trace s')"

lemma session_step_refs:
  assumes "session_step lookup pid zw s s'"
  shows "keeps_refs p s s'"
  using assms
proof induction
  case (init Irp s st s')
  then show ?case
    by (cases rule: SessionInitialise_cases)
      (auto simp: keeps_refs_def SessionInitialise_locked_result Let_def)
next
  case (terminate_process s)
  then show ?case
    by (auto simp: keeps_refs_def session_op_defs with_session_lock_def Let_def)
qed (simp_all add: keeps_refs_def session_op_defs with_session_lock_def)

section \<open>Properties\<close>

text \<open>What starting a session does, on every branch. A packet of the wrong size is refused
  with \<^verbatim>\<open>STATUS_INVALID_BUFFER_SIZE\<close> and changes nothing. If the process id does not resolve
  the answer is \<^verbatim>\<open>STATUS_INVALID_PARAMETER\<close>, and only the user-mode handle of the session is
  changed. Otherwise the session becomes active for that process, with the cookie and the key
  of the packet, and the statistics are kept. The call returns and its locking is balanced.\<close>

theorem SessionInitialise_correct:
  assumes "Irp \<noteq> NULL" "irps s Irp = Some irp" "irp_Stack irp = Some io"
  shows "\<exists>st s'. SessionInitialise lookup pid Irp s = Some (st, s') \<and> neutral {SessionLock} s s' \<and>
     (let info = read_packet (irp_SystemBuffer irp); h = pkt_protected_process_id info in
      if io_InputBufferLength io \<noteq> 32 then st = STATUS_INVALID_BUFFER_SIZE \<and> s' = s
      else if \<not> NT_SUCCESS (fst (lookup h))
      then st = STATUS_INVALID_PARAMETER \<and> session s' = (session s)\<lparr>um_handle := h\<rparr>
      else st = fst (lookup h) \<and> session s' = (session s)\<lparr>um_handle := h,
          km_handle := pid (snd (lookup h)), session_process := snd (lookup h),
          is_session_active := True, session_cookie := pkt_session_cookie info,
          session_aes_key := pkt_session_aes_key info\<rparr>)"
proof -
  let ?info = "read_packet (irp_SystemBuffer irp)"
  show ?thesis
  proof (cases "io_InputBufferLength io = 32")
    case True
    then have eq: "SessionInitialise lookup pid Irp s =
        Some (with_session_lock (SessionInitialise_locked lookup pid ?info) s)"
      using assms by (simp add: SessionInitialise_def ValidateIrpInputBuffer_def
          sizeof_SESSION_INITIATION_PACKET_def)
    with True with_session_lock_neutral[OF SessionInitialise_locked_neutral[of _ lookup pid ?info], of s]
    show ?thesis
      by (auto simp: SessionInitialise_locked_result Let_def)
  next
    case False
    then show ?thesis
      using assms by (auto simp: SessionInitialise_def ValidateIrpInputBuffer_def
          sizeof_SESSION_INITIATION_PACKET_def neutral_refl)
  qed
qed

definition example_session :: ACTIVE_SESSION where
  "example_session = \<lparr>is_session_active = False, um_handle = 0, km_handle = 0, session_process = NULL,
     registration_handle = NULL, session_cookie = 0, session_aes_key = replicate 16 0,
     irps_processed = 0, report_count = 0, heartbeat_count = 0\<rparr>"

definition example_packet_irp :: IRP where
  "example_packet_irp = \<lparr>irp_Stack = Some \<lparr>io_IoControlCode = 0, io_InputBufferLength = 32, io_OutputBufferLength = 0\<rparr>,
     irp_SystemBuffer = [1, 0, 0, 0] @ [9, 9, 9, 9, 9, 9, 9, 9, 9, 9, 9, 9, 9, 9, 9, 9] @ [0, 0, 0, 0, 4, 0, 0, 0, 0, 0, 0, 0],
     irp_Status = 0, irp_Information = 0\<rparr>"

lemma example_packet:
  "read_packet (irp_SystemBuffer example_packet_irp) =
    \<lparr>pkt_session_cookie = 1, pkt_session_aes_key = [9, 9, 9, 9, 9, 9, 9, 9, 9, 9, 9, 9, 9, 9, 9, 9], pkt_protected_process_id = 4\<rparr>"
  by (simp add: read_packet_def packet_field_def packet_offsets AES_128_KEY_SIZE_def example_packet_irp_def)

lemma example_stack: "irp_Stack example_packet_irp =
    Some \<lparr>io_IoControlCode = 0, io_InputBufferLength = 32, io_OutputBufferLength = 0\<rparr>"
  by (simp add: example_packet_irp_def)

definition example_sess_st :: sess_st where
  "example_sess_st = irp_st.extend (irp_st.truncate (example_irp_st 0 [] [])\<lparr>irps := [1 \<mapsto> example_packet_irp]\<rparr>)
     (sess_st.fields example_session)"

theorem SessionInitialise_correct_witness:
  "\<exists>st s'. SessionInitialise (\<lambda>h. (STATUS_SUCCESS, h + 0x100)) (\<lambda>p. p - 0x100) 1 example_sess_st = Some (st, s')
     \<and> is_session_active (session s') \<and> session_process (session s') = 0x104
     \<and> session_cookie (session s') = 1 \<and> session_aes_key (session s') = [9, 9, 9, 9, 9, 9, 9, 9, 9, 9, 9, 9, 9, 9, 9, 9]"
proof -
  have "irps example_sess_st 1 = Some example_packet_irp"
    by (simp add: example_sess_st_def irp_st.defs sess_st.defs)
  from SessionInitialise_correct[OF _ this, of _ "\<lambda>h. (STATUS_SUCCESS, h + 0x100)" "\<lambda>p. p - 0x100"]
  show ?thesis
    by (auto simp: example_packet Let_def example_stack)
qed

text \<open>C17: in every state the session routines can reach, an active session names a process and
  an inactive one names none and has no kernel handle, and the run as a whole leaves the
  session lock as it found it, so no routine deadlocks on it or forgets to release it.\<close>

theorem session_reachable_inv:
  assumes "(session_step lookup pid zw)\<^sup>*\<^sup>* s s'" "lookup_ok lookup" "session_inv (session s)"
  shows "session_inv (session s') \<and> neutral {SessionLock} s s'"
  using assms(1)
proof induction
  case base
  then show ?case using assms(3) by (simp add: neutral_refl)
next
  case (step t u)
  then show ?case
    using session_step_inv[OF step.hyps(2) assms(2)] session_step_neutral[OF step.hyps(2)]
    by (blast intro: neutral_trans)
qed

theorem session_reachable_inv_witness:
  "session_inv (session (SessionTerminate example_sess_st))"
proof -
  have "(session_step (\<lambda>_. (STATUS_SUCCESS, 1)) id (\<lambda>_ _. 0))\<^sup>*\<^sup>* example_sess_st (SessionTerminate example_sess_st)"
    by (blast intro: session_step.terminate)
  moreover have "lookup_ok (\<lambda>_. (STATUS_SUCCESS, 1))" by (simp add: lookup_ok_def)
  moreover have "session_inv (session example_sess_st)"
    by (simp add: example_sess_st_def irp_st.defs sess_st.defs example_session_def session_inv_def)
  ultimately show ?thesis using session_reachable_inv by blast
qed

text \<open>The reference on the protected process is never dropped. \<^verbatim>\<open>SessionInitialise\<close> takes one
  through the lookup, and no sequence of session routines, terminating the session included,
  lowers the reference count of any object.\<close>

theorem session_never_drops_references:
  assumes "(session_step lookup pid zw)\<^sup>*\<^sup>* s s'"
  shows "refs p (k_trace s) \<le> refs p (k_trace s')"
  using assms
proof induction
  case (step t u)
  then show ?case using session_step_refs[OF step.hyps(2), of p] by (simp add: keeps_refs_def)
qed simp

theorem session_never_drops_references_witness:
  "refs 1 (k_trace example_sess_st) \<le> refs 1 (k_trace (SessionTerminate example_sess_st))"
  by (rule session_never_drops_references[of "\<lambda>_. (STATUS_SUCCESS, 1)" id "\<lambda>_ _. 0"])
    (blast intro: session_step.terminate)

end
