(* ===== verification/Callbacks.thy ===== *)
theory Callbacks
  imports Session
begin

text \<open>
  The thread, process and driver lists of \<^verbatim>\<open>src/driver/callbacks.c\<close> and the notify routines
  that keep them: the routines run when Windows creates or ends a process or thread or maps
  an image. The items are list entries (theory \<open>Lists\<close>); \<open>threads\<close>, \<open>processes\<close> and
  \<open>drivers\<close> hold their other fields by address.

  Parameters: the lookups of a thread or process by id (null when there is none), the image
  name of a process, the allocator, the module enumeration and \<^verbatim>\<open>HashModule\<close>.
\<close>

record THREAD_LIST_ENTRY =
  tl_thread :: ptr
  tl_owning_process :: ptr
  tl_apc_queued :: bool
  tl_apc :: ptr

record PROCESS_LIST_ENTRY =
  pl_process :: ptr
  pl_parent :: ptr

record RTL_MODULE_EXTENDED_INFO =
  mi_ImageBase :: ptr
  mi_ImageSize :: u32
  mi_FullPathName :: string

record DRIVER_LIST_ENTRY =
  de_ImageBase :: ptr
  de_ImageSize :: u32
  de_hashed :: bool
  de_x86 :: bool
  de_path :: string
  de_text_hash :: "u8 list"

record cb_st = sess_st +
  thread_active :: bool
  process_active :: bool
  driver_active :: bool
  threads :: "ptr \<rightharpoonup> THREAD_LIST_ENTRY"
  processes :: "ptr \<rightharpoonup> PROCESS_LIST_ENTRY"
  drivers :: "ptr \<rightharpoonup> DRIVER_LIST_ENTRY"
  driver_deferred_list :: "ptr list"
  deferred_work_item :: ptr
  can_hash_x86 :: bool

text \<open>The three list heads are fields of \<^verbatim>\<open>DRIVER_CONFIG\<close>; only their distinctness matters.\<close>

definition ThreadHead :: ptr where "ThreadHead = 0x10"
definition ProcessHead :: ptr where "ProcessHead = 0x20"
definition DriverHead :: ptr where "DriverHead = 0x30"

abbreviation POOL_TAG_DRIVER_LIST :: pool_tag where "POOL_TAG_DRIVER_LIST \<equiv> ''drvl''"
abbreviation SYSTEM_MODULES_POOL :: pool_tag where "SYSTEM_MODULES_POOL \<equiv> ''halb''"

section \<open>Primitives\<close>

definition ObDereferenceObject :: "ptr \<Rightarrow> 'a kst_scheme \<Rightarrow> 'a kst_scheme" where
  "ObDereferenceObject p s = emit (ObDereference p) s"

definition ObfReferenceObject :: "ptr \<Rightarrow> 'a kst_scheme \<Rightarrow> 'a kst_scheme" where
  "ObfReferenceObject p s = emit (ObReference p) s"

text \<open>A lookup by id takes a reference on the object it returns.\<close>

definition PsLookup :: "(u64 \<Rightarrow> ptr) \<Rightarrow> u64 \<Rightarrow> 'a kst_scheme \<Rightarrow> ptr \<times> 'a kst_scheme" where
  "PsLookup lookup i s = (lookup i, if lookup i = NULL then s else emit (ObReference (lookup i)) s)"

text \<open>A new list entry becomes live; its link is written when it is inserted.\<close>

definition ExAllocateFromLookasideListEx ::
  "allocator \<Rightarrow> lookaside \<Rightarrow> 'a list_st_scheme \<Rightarrow> ptr option \<times> 'a list_st_scheme" where
  "ExAllocateFromLookasideListEx alloc l s =
     (case alloc (k_allocs s) of
        None \<Rightarrow> (None, s\<lparr>k_allocs := Suc (k_allocs s)\<rparr>)
      | Some p \<Rightarrow> (Some p, emit (LookasideAlloc l p)
                     (s\<lparr>k_allocs := Suc (k_allocs s), slist := (slist s)(p \<mapsto> NULL)\<rparr>)))"

definition thread_entry :: "'a cb_st_scheme \<Rightarrow> ptr \<Rightarrow> THREAD_LIST_ENTRY option" where
  "thread_entry s e = (if e \<in> dom (slist s) then threads s e else None)"

definition process_entry :: "'a cb_st_scheme \<Rightarrow> ptr \<Rightarrow> PROCESS_LIST_ENTRY option" where
  "process_entry s e = (if e \<in> dom (slist s) then processes s e else None)"

definition driver_entry :: "'a cb_st_scheme \<Rightarrow> ptr \<Rightarrow> DRIVER_LIST_ENTRY option" where
  "driver_entry s e = (if e \<in> dom (slist s) then drivers s e else None)"

section \<open>Cleanup on unload\<close>

definition CleanupProcessListFreeCallback :: "ptr \<Rightarrow> 'a cb_st_scheme \<Rightarrow> 'a cb_st_scheme option" where
  "CleanupProcessListFreeCallback e s = do {
     entry \<leftarrow> process_entry s e;
     Some (ObDereferenceObject (pl_process entry) (ObDereferenceObject (pl_parent entry) s))
   }"

definition CleanupThreadListFreeCallback :: "ptr \<Rightarrow> 'a cb_st_scheme \<Rightarrow> 'a cb_st_scheme option" where
  "CleanupThreadListFreeCallback e s = do {
     entry \<leftarrow> thread_entry s e;
     Some (ObDereferenceObject (tl_owning_process entry) (ObDereferenceObject (tl_thread entry) s))
   }"

definition UnregisterProcessCreateNotifyRoutine :: "'a cb_st_scheme \<Rightarrow> 'a cb_st_scheme" where
  "UnregisterProcessCreateNotifyRoutine s =
     emit (Call ''PsSetCreateProcessNotifyRoutine'' [1]) (s\<lparr>process_active := False\<rparr>)"

definition UnregisterImageLoadNotifyRoutine :: "'a cb_st_scheme \<Rightarrow> 'a cb_st_scheme" where
  "UnregisterImageLoadNotifyRoutine s =
     emit (Call ''PsRemoveLoadImageNotifyRoutine'' []) (s\<lparr>driver_active := False\<rparr>)"

definition UnregisterThreadCreateNotifyRoutine :: "'a cb_st_scheme \<Rightarrow> 'a cb_st_scheme" where
  "UnregisterThreadCreateNotifyRoutine s =
     emit (Call ''PsRemoveCreateThreadNotifyRoutine'' []) (s\<lparr>thread_active := False\<rparr>)"

definition CleanupProcessListOnDriverUnload :: "'a cb_st_scheme \<Rightarrow> 'a cb_st_scheme option" where
  "CleanupProcessListOnDriverUnload s = do {
     s \<leftarrow> drain (LookasideListFreeFirstEntry ProcessHead ProcessListLock
                  (Some CleanupProcessListFreeCallback)) s;
     Some (emit (LookasideDelete ProcessLookaside) s)
   }"

definition CleanupThreadListOnDriverUnload :: "'a cb_st_scheme \<Rightarrow> 'a cb_st_scheme option" where
  "CleanupThreadListOnDriverUnload s = do {
     s \<leftarrow> drain (LookasideListFreeFirstEntry ThreadHead ThreadListLock
                  (Some CleanupThreadListFreeCallback)) s;
     Some (emit (LookasideDelete ThreadLookaside) s)
   }"

definition CleanupDriverListOnDriverUnload :: "'a cb_st_scheme \<Rightarrow> 'a cb_st_scheme option" where
  "CleanupDriverListOnDriverUnload s = drain (ListFreeFirstEntry DriverHead DriverListLock None) s"

section \<open>Enumeration and search\<close>

partial_function (option) enumerate_loop ::
  "(ptr \<Rightarrow> 'a list_st_scheme \<Rightarrow> 'a list_st_scheme option) \<Rightarrow> ptr
   \<Rightarrow> 'a list_st_scheme \<Rightarrow> 'a list_st_scheme option" where
  "enumerate_loop callback entry s =
     (if entry = NULL then Some s
      else do {
        s \<leftarrow> callback entry s;
        nxt \<leftarrow> slist s entry;
        enumerate_loop callback nxt s
      })"

definition enumerate_list ::
  "ptr \<Rightarrow> klock \<Rightarrow> (ptr \<Rightarrow> 'a list_st_scheme \<Rightarrow> 'a list_st_scheme option) option
   \<Rightarrow> 'a list_st_scheme \<Rightarrow> 'a list_st_scheme option" where
  "enumerate_list Head Lock CallbackRoutine s = do {
     let s = emit (Acquire Lock) s;
     s \<leftarrow> (case CallbackRoutine of
             None \<Rightarrow> Some s
           | Some callback \<Rightarrow> do {
               entry \<leftarrow> slist s Head;
               enumerate_loop callback entry s
             });
     Some (emit (Release Lock) s)
   }"

definition EnumerateThreadListWithCallbackRoutine ::
  "(ptr \<Rightarrow> 'a list_st_scheme \<Rightarrow> 'a list_st_scheme option) option \<Rightarrow> 'a list_st_scheme \<Rightarrow> 'a list_st_scheme option" where
  "EnumerateThreadListWithCallbackRoutine = enumerate_list ThreadHead ThreadListLock"

definition EnumerateProcessListWithCallbackRoutine ::
  "(ptr \<Rightarrow> 'a list_st_scheme \<Rightarrow> 'a list_st_scheme option) option \<Rightarrow> 'a list_st_scheme \<Rightarrow> 'a list_st_scheme option" where
  "EnumerateProcessListWithCallbackRoutine = enumerate_list ProcessHead ProcessListLock"

definition EnumerateDriverListWithCallbackRoutine ::
  "(ptr \<Rightarrow> 'a list_st_scheme \<Rightarrow> 'a list_st_scheme option) option \<Rightarrow> 'a list_st_scheme \<Rightarrow> 'a list_st_scheme option" where
  "EnumerateDriverListWithCallbackRoutine = enumerate_list DriverHead DriverListLock"

text \<open>The search loop: the address of the first entry whose key is the one wanted.\<close>

partial_function (option) find_entry_loop ::
  "(ptr \<rightharpoonup> ptr) \<Rightarrow> (ptr \<rightharpoonup> 'k) \<Rightarrow> 'k \<Rightarrow> ptr \<Rightarrow> ptr option" where
  "find_entry_loop m key k entry =
     (if entry = NULL then Some NULL
      else do {
        k' \<leftarrow> key entry;
        (if k' = k then Some entry
         else do {
           nxt \<leftarrow> m entry;
           find_entry_loop m key k nxt
         })
      })"

definition find_entry ::
  "ptr \<Rightarrow> klock \<Rightarrow> ('a list_st_scheme \<Rightarrow> ptr \<rightharpoonup> 'k) \<Rightarrow> 'k \<Rightarrow> 'a list_st_scheme
   \<Rightarrow> (ptr \<times> 'a list_st_scheme) option" where
  "find_entry Head Lock key k s = do {
     let s = emit (Acquire Lock) s;
     first \<leftarrow> slist s Head;
     e \<leftarrow> find_entry_loop (slist s) (key s) k first;
     Some (e, emit (Release Lock) s)
   }"

definition FindDriverEntryByBaseAddress :: "ptr \<Rightarrow> 'a cb_st_scheme \<Rightarrow> (ptr \<times> 'a cb_st_scheme) option" where
  "FindDriverEntryByBaseAddress =
     find_entry DriverHead DriverListLock (\<lambda>s e. map_option de_ImageBase (driver_entry s e))"

definition FindProcessListEntryByProcess :: "ptr \<Rightarrow> 'a cb_st_scheme \<Rightarrow> (ptr \<times> 'a cb_st_scheme) option" where
  "FindProcessListEntryByProcess =
     find_entry ProcessHead ProcessListLock (\<lambda>s e. map_option pl_process (process_entry s e))"

definition FindThreadListEntryByThreadAddress :: "ptr \<Rightarrow> 'a cb_st_scheme \<Rightarrow> (ptr \<times> 'a cb_st_scheme) option" where
  "FindThreadListEntryByThreadAddress =
     find_entry ThreadHead ThreadListLock (\<lambda>s e. map_option tl_thread (thread_entry s e))"

section \<open>Initialisation\<close>

definition DriverListEntryToExtendedModuleInfo :: "DRIVER_LIST_ENTRY \<Rightarrow> RTL_MODULE_EXTENDED_INFO" where
  "DriverListEntryToExtendedModuleInfo Entry =
     \<lparr>mi_ImageBase = de_ImageBase Entry, mi_ImageSize = de_ImageSize Entry, mi_FullPathName = de_path Entry\<rparr>"

text \<open>A pool allocation that is used as a list entry.\<close>

definition alloc_pool_entry ::
  "allocator \<Rightarrow> pool_tag \<Rightarrow> 'a list_st_scheme \<Rightarrow> ptr option \<times> 'a list_st_scheme" where
  "alloc_pool_entry alloc tag s =
     (case ExAllocatePool2 alloc tag s of
        (None, s) \<Rightarrow> (None, s)
      | (Some p, s) \<Rightarrow> (Some p, s\<lparr>slist := (slist s)(p \<mapsto> NULL)\<rparr>))"

type_synonym module_hash = "RTL_MODULE_EXTENDED_INFO \<Rightarrow> NTSTATUS \<times> u8 list"

text \<open>What the outcome of \<^verbatim>\<open>HashModule\<close> does to the flags of a new entry.\<close>

definition apply_hash :: "NTSTATUS \<times> u8 list \<Rightarrow> DRIVER_LIST_ENTRY \<Rightarrow> DRIVER_LIST_ENTRY" where
  "apply_hash r entry =
     (let entry = entry\<lparr>de_text_hash := snd r\<rparr> in
      if fst r = STATUS_INVALID_IMAGE_WIN_32 then entry\<lparr>de_hashed := False, de_x86 := True\<rparr>
      else if \<not> NT_SUCCESS (fst r) then entry\<lparr>de_hashed := False\<rparr>
      else entry)"

definition insert_system_module ::
  "allocator \<Rightarrow> module_hash \<Rightarrow> RTL_MODULE_EXTENDED_INFO \<Rightarrow> 'a cb_st_scheme \<Rightarrow> 'a cb_st_scheme option" where
  "insert_system_module alloc HashModule module_entry s =
     (case alloc_pool_entry alloc POOL_TAG_DRIVER_LIST s of
        (None, s) \<Rightarrow> Some s
      | (Some entry, s) \<Rightarrow>
          (let hash = HashModule module_entry;
               e = apply_hash hash \<lparr>de_ImageBase = mi_ImageBase module_entry,
                     de_ImageSize = mi_ImageSize module_entry, de_hashed = True, de_x86 = False,
                     de_path = mi_FullPathName module_entry, de_text_hash = []\<rparr>;
               s = s\<lparr>drivers := (drivers s)(entry \<mapsto> e)\<rparr>;
               s = (if fst hash = STATUS_INVALID_IMAGE_WIN_32
                    then s\<lparr>driver_deferred_list := entry # driver_deferred_list s\<rparr> else s)
           in ListInsert DriverHead entry DriverListLock s))"

text \<open>
  \<open>mq_size\<close> and \<open>mq_fill\<close> are the answers of the two calls of \<^verbatim>\<open>RtlQueryModuleInformation\<close>: the size of
  the array in bytes, and the size with the modules it writes.
\<close>

record module_query =
  mq_size :: "NTSTATUS \<times> u32"
  mq_fill :: "NTSTATUS \<times> u32 \<times> RTL_MODULE_EXTENDED_INFO list"

definition RTL_MODULE_EXTENDED_INFO_layout :: layout where
  "RTL_MODULE_EXTENDED_INFO_layout =
    [(''ImageBase'', 8, 8), (''ImageSize'', 4, 4), (''FileNameOffset'', 2, 2), (''FullPathName'', 256, 1)]"

definition sizeof_RTL_MODULE_EXTENDED_INFO :: u32 where
  "sizeof_RTL_MODULE_EXTENDED_INFO = of_nat (align_up 8 (offset_from 0 RTL_MODULE_EXTENDED_INFO_layout ''''))"

text \<open>
  The answer: the status, the address and the count of \<^verbatim>\<open>SYSTEM_MODULES\<close>, which the caller has set
  to zero, and the elements of the array.
\<close>

definition GetSystemModuleInformation ::
  "module_query \<Rightarrow> allocator \<Rightarrow> 'a kst_scheme
     \<Rightarrow> NTSTATUS \<times> ptr \<times> u32 \<times> RTL_MODULE_EXTENDED_INFO list \<times> 'a kst_scheme" where
  "GetSystemModuleInformation q alloc s =
     (if \<not> NT_SUCCESS (fst (mq_size q)) then (fst (mq_size q), NULL, 0, [], s)
      else case ExAllocatePool2 alloc SYSTEM_MODULES_POOL s of
        (None, s) \<Rightarrow> (STATUS_MEMORY_NOT_ALLOCATED, NULL, 0, [], s)
      | (Some p, s) \<Rightarrow>
          (case mq_fill q of (status, bytes, infos) \<Rightarrow>
             if \<not> NT_SUCCESS status then (STATUS_ABANDONED, NULL, 0, [], emit (PoolFree p SYSTEM_MODULES_POOL) s)
             else (status, p, bytes div sizeof_RTL_MODULE_EXTENDED_INFO, infos, s)))"

text \<open>The first two modules are skipped; reading behind the array is a fault.\<close>

definition InitialiseDriverList ::
  "ptr \<Rightarrow> module_query \<Rightarrow> allocator \<Rightarrow> module_hash \<Rightarrow> 'a cb_st_scheme \<Rightarrow> (NTSTATUS \<times> 'a cb_st_scheme) option" where
  "InitialiseDriverList work_item q alloc HashModule s = do {
     let s = s\<lparr>driver_active := True\<rparr>;
     s \<leftarrow> ListInit DriverHead DriverListLock s;
     let s = s\<lparr>driver_deferred_list := [], can_hash_x86 := False, deferred_work_item := work_item\<rparr>;
     (if work_item = NULL then Some (STATUS_INSUFFICIENT_RESOURCES, s)
      else do {
        let s = emit (WorkItemAlloc work_item) s;
        (case GetSystemModuleInformation q alloc s of (status, modules, module_count, infos, s) \<Rightarrow>
          if \<not> NT_SUCCESS status then Some (status, s)
          else do {
            s \<leftarrow> for_each [2..<unat module_count] (\<lambda>index s.
                  if index < length infos then insert_system_module alloc HashModule (infos ! index) s else None) s;
            let s = s\<lparr>driver_active := True\<rparr>;
            Some (STATUS_SUCCESS, if modules \<noteq> NULL then emit (PoolFree modules SYSTEM_MODULES_POOL) s else s)
          })
      })
   }"

definition InitialiseProcessList :: "NTSTATUS \<Rightarrow> 'a cb_st_scheme \<Rightarrow> (NTSTATUS \<times> 'a cb_st_scheme) option" where
  "InitialiseProcessList status s =
     (if \<not> NT_SUCCESS status then Some (status, s)
      else do {
        let s = (emit (LookasideInit ProcessLookaside) s)\<lparr>process_active := True\<rparr>;
        s \<leftarrow> ListInit ProcessHead ProcessListLock s;
        Some (status, s)
      })"

definition InitialiseThreadList :: "NTSTATUS \<Rightarrow> 'a cb_st_scheme \<Rightarrow> (NTSTATUS \<times> 'a cb_st_scheme) option" where
  "InitialiseThreadList status s =
     (if \<not> NT_SUCCESS status then Some (status, s)
      else do {
        let s = (emit (LookasideInit ThreadLookaside) s)\<lparr>thread_active := True\<rparr>;
        s \<leftarrow> ListInit ThreadHead ThreadListLock s;
        Some (status, s)
      })"

section \<open>Notify routines\<close>

text \<open>
  \<open>ansi_path\<close> is the outcome of \<^verbatim>\<open>RtlUnicodeStringToAnsiString\<close> on the image name, if there
  is a name; a path longer than the field is not stored.
\<close>

definition ImageLoadNotifyRoutineCallback ::
  "allocator \<Rightarrow> module_hash \<Rightarrow> (NTSTATUS \<times> string) option \<Rightarrow> ptr \<Rightarrow> u32 \<Rightarrow> bool
   \<Rightarrow> 'a cb_st_scheme \<Rightarrow> 'a cb_st_scheme option" where
  "ImageLoadNotifyRoutineCallback alloc HashModule ansi_path ImageBase ImageSize SystemModeImage s =
     (if \<not> driver_active s then Some s
      else if \<not> SystemModeImage then Some s
      else do {
        (entry, s) \<leftarrow> FindDriverEntryByBaseAddress ImageBase s;
        (if entry \<noteq> NULL then Some s
         else case alloc_pool_entry alloc POOL_TAG_DRIVER_LIST s of
           (None, s) \<Rightarrow> Some s
         | (Some entry, s) \<Rightarrow>
             (let path = (case ansi_path of
                            Some (status, p) \<Rightarrow> if NT_SUCCESS status \<and> length p \<le> 256 then p else []
                          | None \<Rightarrow> []);
                  s = (case ansi_path of
                         Some (status, p) \<Rightarrow> if NT_SUCCESS status then emit (Call ''RtlFreeAnsiString'' []) s else s
                       | None \<Rightarrow> s);
                  module_info = \<lparr>mi_ImageBase = ImageBase, mi_ImageSize = ImageSize, mi_FullPathName = path\<rparr>;
                  e = apply_hash (HashModule module_info)
                        \<lparr>de_ImageBase = ImageBase, de_ImageSize = ImageSize, de_hashed = True, de_x86 = False,
                         de_path = path, de_text_hash = []\<rparr>;
                  s = s\<lparr>drivers := (drivers s)(entry \<mapsto> e)\<rparr>
              in ListInsert DriverHead entry DriverListLock s))
      })"

definition ProcessCreateNotifyRoutine ::
  "(u64 \<Rightarrow> ptr) \<Rightarrow> (ptr \<Rightarrow> string) \<Rightarrow> allocator \<Rightarrow> u64 \<Rightarrow> u64 \<Rightarrow> bool
   \<Rightarrow> 'a cb_st_scheme \<Rightarrow> 'a cb_st_scheme option" where
  "ProcessCreateNotifyRoutine lookup image_name alloc ParentId ProcessId Create s =
     (if \<not> process_active s then Some s
      else let (parent, s) = PsLookup lookup ParentId s;
               (process, s) = PsLookup lookup ProcessId s
      in if parent = NULL \<or> process = NULL then Some s
      else if Create then
        (case ExAllocateFromLookasideListEx alloc ProcessLookaside s of
           (None, s) \<Rightarrow> Some s
         | (Some entry, s) \<Rightarrow> do {
             let s = ObfReferenceObject parent s;
             let s = ObfReferenceObject process s;
             let s = s\<lparr>processes := (processes s)(entry \<mapsto> \<lparr>pl_process = process, pl_parent = parent\<rparr>)\<rparr>;
             s \<leftarrow> ListInsert ProcessHead entry ProcessListLock s;
             Some (if image_name process = ''winlogon.exe''
                   then emit (WorkItemQueued (deferred_work_item s)) (s\<lparr>can_hash_x86 := True\<rparr>)
                   else s)
           })
      else do {
        (entry, s) \<leftarrow> FindProcessListEntryByProcess process s;
        (if entry = NULL then Some s
         else do {
           e \<leftarrow> process_entry s entry;
           let s = ObDereferenceObject (pl_parent e) s;
           let s = ObDereferenceObject (pl_process e) s;
           LookasideListRemoveEntry ProcessHead entry ProcessListLock s
         })
      })"

definition ThreadCreateNotifyRoutine ::
  "(u64 \<Rightarrow> ptr) \<Rightarrow> (u64 \<Rightarrow> ptr) \<Rightarrow> allocator \<Rightarrow> u64 \<Rightarrow> u64 \<Rightarrow> bool
   \<Rightarrow> 'a cb_st_scheme \<Rightarrow> 'a cb_st_scheme option" where
  "ThreadCreateNotifyRoutine lookup_thread lookup_process alloc ProcessId ThreadId Create s =
     (if \<not> thread_active s then Some s
      else let (thread, s) = PsLookup lookup_thread ThreadId s;
               (process, s) = PsLookup lookup_process ProcessId s
      in if thread = NULL \<or> process = NULL then Some s
      else if Create then
        (case ExAllocateFromLookasideListEx alloc ThreadLookaside s of
           (None, s) \<Rightarrow> Some s
         | (Some entry, s) \<Rightarrow> do {
             let s = ObfReferenceObject thread s;
             let s = ObfReferenceObject process s;
             let s = s\<lparr>threads := (threads s)(entry \<mapsto>
                       \<lparr>tl_thread = thread, tl_owning_process = process, tl_apc_queued = False, tl_apc = NULL\<rparr>)\<rparr>;
             ListInsert ThreadHead entry ThreadListLock s
           })
      else do {
        (entry, s) \<leftarrow> FindThreadListEntryByThreadAddress thread s;
        (if entry = NULL then Some s
         else do {
           e \<leftarrow> thread_entry s entry;
           let s = ObDereferenceObject (tl_thread e) s;
           let s = ObDereferenceObject (tl_owning_process e) s;
           LookasideListRemoveEntry ThreadHead entry ThreadListLock s
         })
      })"

section \<open>The three lists together\<close>

lemma cb_fields_emit [simp]:
  "thread_active (emit e s) = thread_active s" "process_active (emit e s) = process_active s"
  "driver_active (emit e s) = driver_active s" "threads (emit e s) = threads s"
  "processes (emit e s) = processes s" "drivers (emit e s) = drivers s"
  "driver_deferred_list (emit e s) = driver_deferred_list s"
  "deferred_work_item (emit e s) = deferred_work_item s" "can_hash_x86 (emit e s) = can_hash_x86 s"
  "cb_st.more (emit e s) = cb_st.more s"
  by (simp_all add: emit_def)

text \<open>
  The list heads and the entries of the three lists are pairwise different live addresses,
  and every entry has its fields.
\<close>

definition lists_inv :: "'a cb_st_scheme \<Rightarrow> ptr list \<Rightarrow> ptr list \<Rightarrow> ptr list \<Rightarrow> bool" where
  "lists_inv s ts ps ds \<longleftrightarrow>
     is_list (slist s) ThreadHead ts \<and> is_list (slist s) ProcessHead ps \<and> is_list (slist s) DriverHead ds
     \<and> distinct (ThreadHead # ProcessHead # DriverHead # ts @ ps @ ds)
     \<and> set ts \<subseteq> dom (threads s) \<and> set ps \<subseteq> dom (processes s) \<and> set ds \<subseteq> dom (drivers s)"

lemma lists_inv_live:
  "lists_inv s ts ps ds \<Longrightarrow> x \<in> set (ThreadHead # ProcessHead # DriverHead # ts @ ps @ ds) \<Longrightarrow> x \<in> dom (slist s)"
  unfolding lists_inv_def by (auto dest: is_list_live)

lemma is_list_frame:
  "is_list m Head xs \<Longrightarrow> (\<And>x. x \<in> set (Head # xs) \<Longrightarrow> m' x = m x) \<Longrightarrow> is_list m' Head xs"
  using is_list_cong[of Head xs m' m] by auto

text \<open>What changes only one list, and dead addresses, keeps the other two.\<close>

lemma lists_inv_frame:
  assumes "lists_inv s ts ps ds"
  shows "(\<And>a. a \<in> dom (slist s) \<Longrightarrow> a \<notin> set (ThreadHead # ts) \<Longrightarrow> m a = slist s a) \<Longrightarrow>
      is_list m ProcessHead ps \<and> is_list m DriverHead ds" (is "PROP ?A")
    and "(\<And>a. a \<in> dom (slist s) \<Longrightarrow> a \<notin> set (ProcessHead # ps) \<Longrightarrow> m a = slist s a) \<Longrightarrow>
      is_list m ThreadHead ts \<and> is_list m DriverHead ds" (is "PROP ?B")
    and "(\<And>a. a \<in> dom (slist s) \<Longrightarrow> a \<notin> set (DriverHead # ds) \<Longrightarrow> m a = slist s a) \<Longrightarrow>
      is_list m ThreadHead ts \<and> is_list m ProcessHead ps" (is "PROP ?C")
proof -
  have ls: "is_list (slist s) ThreadHead ts" "is_list (slist s) ProcessHead ps" "is_list (slist s) DriverHead ds"
    and dj: "distinct (ThreadHead # ProcessHead # DriverHead # ts @ ps @ ds)"
    using assms by (auto simp: lists_inv_def)
  have T: "set (ThreadHead # ts) \<inter> set (ProcessHead # ps) = {}" "set (ThreadHead # ts) \<inter> set (DriverHead # ds) = {}"
    "set (ProcessHead # ps) \<inter> set (DriverHead # ds) = {}"
    using dj by (auto simp: disjoint_iff)
  note live = is_list_live[OF ls(1)] is_list_live[OF ls(2)] is_list_live[OF ls(3)]
  show "PROP ?A"
    using T live(2,3) by (intro conjI is_list_frame[OF ls(2)] is_list_frame[OF ls(3)]) blast+
  show "PROP ?B"
    using T live(1,3) by (intro conjI is_list_frame[OF ls(1)] is_list_frame[OF ls(3)]) blast+
  show "PROP ?C"
    using T live(1,2) by (intro conjI is_list_frame[OF ls(1)] is_list_frame[OF ls(2)]) blast+
qed

text \<open>The fields of the extended record, as functions of what the list operations keep.\<close>

lemma rest_fields:
  assumes "rest s' = rest (s :: 'a cb_st_scheme)"
  shows "threads s' = threads s" "processes s' = processes s" "drivers s' = drivers s"
    "thread_active s' = thread_active s" "process_active s' = process_active s"
    "driver_active s' = driver_active s" "deferred_work_item s' = deferred_work_item s"
    "can_hash_x86 s' = can_hash_x86 s" "driver_deferred_list s' = driver_deferred_list s"
    "session s' = session s" "k_allocs s' = k_allocs s"
  using assms[THEN arg_cong[where f = threads]] assms[THEN arg_cong[where f = processes]]
    assms[THEN arg_cong[where f = drivers]] assms[THEN arg_cong[where f = thread_active]]
    assms[THEN arg_cong[where f = process_active]] assms[THEN arg_cong[where f = driver_active]]
    assms[THEN arg_cong[where f = deferred_work_item]] assms[THEN arg_cong[where f = can_hash_x86]]
    assms[THEN arg_cong[where f = driver_deferred_list]] assms[THEN arg_cong[where f = session]]
    assms[THEN arg_cong[where f = k_allocs]]
  by (simp_all add: rest_def)

section \<open>Search\<close>

lemma find_entry_loop_law:
  assumes "chain m p xs" "\<And>x. x \<in> set xs \<Longrightarrow> key x \<noteq> None"
  shows "find_entry_loop m key k p =
    Some (case List.find (\<lambda>x. key x = Some k) xs of None \<Rightarrow> NULL | Some x \<Rightarrow> x)"
  using assms
proof (induction xs arbitrary: p)
  case Nil
  then show ?case by (subst find_entry_loop.simps) simp
next
  case (Cons x xs)
  then show ?case
    by (subst find_entry_loop.simps) (fastforce split: option.splits)
qed

lemma find_entry_law:
  assumes "is_list (slist s) Head xs" "\<And>x. x \<in> set xs \<Longrightarrow> key (emit (Acquire Lock) s) x = Some (g x)"
  shows "find_entry Head Lock key k s =
    Some (case List.find (\<lambda>x. g x = k) xs of None \<Rightarrow> NULL | Some x \<Rightarrow> x,
          emit (Release Lock) (emit (Acquire Lock) s))"
proof -
  obtain p where "slist s Head = Some p" "chain (slist s) p xs"
    using assms(1) by (auto simp: is_list_def split: option.splits)
  moreover have "List.find (\<lambda>x. key (emit (Acquire Lock) s) x = Some k) xs = List.find (\<lambda>x. g x = k) xs"
    using assms(2) by (intro find_cong) auto
  ultimately show ?thesis
    using find_entry_loop_law[of "slist s" p xs "key (emit (Acquire Lock) s)" k] assms(2)
    by (simp add: find_entry_def Let_def)
qed

section \<open>Enumeration\<close>

text \<open>A callback that keeps the links visits every entry once, in list order.\<close>

lemma enumerate_loop_law:
  assumes "chain (slist s) p xs"
    and "\<And>x t. x \<in> set xs \<Longrightarrow> P t \<Longrightarrow> \<exists>t'. callback x t = Some t' \<and> P t'"
    and "\<And>t. P t \<Longrightarrow> slist t = slist s" "P s"
  shows "enumerate_loop callback p s = for_each xs callback s \<and> (\<exists>t. for_each xs callback s = Some t \<and> P t)"
proof -
  have "enumerate_loop callback p u = for_each xs callback u \<and> (\<exists>t. for_each xs callback u = Some t \<and> P t)"
    if "P u" "chain (slist s) p xs" for u
    using that assms(2,3)
  proof (induction xs arbitrary: p u)
    case Nil
    then show ?case by (subst enumerate_loop.simps) simp
  next
    case (Cons x xs)
    then obtain t where t: "callback x u = Some t" "P t" by (meson list.set_intros(1))
    obtain q where q: "slist s x = Some q" "chain (slist s) q xs" "p = x" "x \<noteq> NULL"
      using Cons.prems(2) by (auto split: option.splits)
    have "slist t x = Some q" using Cons.prems(4)[OF t(2)] q(1) by simp
    moreover have "enumerate_loop callback q t = for_each xs callback t
        \<and> (\<exists>t'. for_each xs callback t = Some t' \<and> P t')"
      by (rule Cons.IH[OF t(2) q(2)]) (use Cons.prems in auto)
    ultimately show ?case
      using t q by (subst enumerate_loop.simps) simp
  qed
  then show ?thesis using assms(1,4) by blast
qed

section \<open>Cleanup\<close>

definition process_derefs :: "'a cb_st_scheme \<Rightarrow> ptr \<Rightarrow> kevent list" where
  "process_derefs d e = (case processes d e of None \<Rightarrow> []
     | Some x \<Rightarrow> [ObDereference (pl_parent x), ObDereference (pl_process x)])"

definition thread_derefs :: "'a cb_st_scheme \<Rightarrow> ptr \<Rightarrow> kevent list" where
  "thread_derefs d e = (case threads d e of None \<Rightarrow> []
     | Some x \<Rightarrow> [ObDereference (tl_thread x), ObDereference (tl_owning_process x)])"

lemma rest_projections [simp]:
  "processes (rest s) = processes s" "threads (rest s) = threads s" "drivers (rest s) = drivers s"
  by (simp_all add: rest_def)

lemma derefs_rest [simp]: "process_derefs (rest s) = process_derefs s" "thread_derefs (rest s) = thread_derefs s"
  by (auto simp: process_derefs_def thread_derefs_def fun_eq_iff)

lemma process_callback_ok:
  "callback_ok slist k_trace rest (\<lambda>d e. e \<in> dom (processes d)) process_derefs (Some CleanupProcessListFreeCallback)"
  by (auto simp: callback_ok_def CleanupProcessListFreeCallback_def process_entry_def ObDereferenceObject_def
      process_derefs_def)

lemma thread_callback_ok:
  "callback_ok slist k_trace rest (\<lambda>d e. e \<in> dom (threads d)) thread_derefs (Some CleanupThreadListFreeCallback)"
  by (auto simp: callback_ok_def CleanupThreadListFreeCallback_def thread_entry_def ObDereferenceObject_def
      thread_derefs_def)

definition cleanup_events :: "klock \<Rightarrow> ('a cb_st_scheme \<Rightarrow> ptr \<Rightarrow> kevent list) \<Rightarrow> (ptr \<Rightarrow> kevent) \<Rightarrow> 'a cb_st_scheme
    \<Rightarrow> ptr list \<Rightarrow> kevent list" where
  "cleanup_events Lock derefs freed s xs =
     concat (map (\<lambda>x. Acquire Lock # derefs s x @ [freed x, Release Lock]) xs) @ [Acquire Lock, Release Lock]"

lemma cleanup_process_law:
  assumes inv: "lists_inv s ts ps ds"
  shows "\<exists>s'. CleanupProcessListOnDriverUnload s = Some s' \<and> lists_inv s' ts [] ds
     \<and> (\<forall>x \<in> set ps. slist s' x = None)
     \<and> (\<forall>a. a \<notin> set (ProcessHead # ps) \<longrightarrow> slist s' a = slist s a)
     \<and> rest s' = rest s
     \<and> k_trace s' = k_trace s @ cleanup_events ProcessListLock process_derefs (LookasideFree ThreadLookaside) s ps
                    @ [LookasideDelete ProcessLookaside]"
proof -
  have "is_list (slist s) ProcessHead ps" "\<And>x. x \<in> set ps \<Longrightarrow> x \<in> dom (processes (rest s))"
    using inv by (auto simp: lists_inv_def)
  from lookaside_list.drain_frees_all[OF this(1) process_callback_ok this(2), of ProcessListLock]
  obtain s1 where s1: "drain (LookasideListFreeFirstEntry ProcessHead ProcessListLock
        (Some CleanupProcessListFreeCallback)) s = Some s1"
    "is_list (slist s1) ProcessHead []" "\<forall>x \<in> set ps. slist s1 x = None"
    "\<forall>a. a \<notin> set (ProcessHead # ps) \<longrightarrow> slist s1 a = slist s a" "rest s1 = rest s"
    "k_trace s1 = k_trace s @ cleanup_events ProcessListLock process_derefs (LookasideFree ThreadLookaside) s ps"
    by (auto simp: cleanup_events_def)
  have "is_list (slist s1) ThreadHead ts" "is_list (slist s1) DriverHead ds"
    using lists_inv_frame(2)[OF inv, of "slist s1"] s1(4) by blast+
  then show ?thesis
    using s1 inv rest_fields[OF s1(5)] by (auto simp: CleanupProcessListOnDriverUnload_def lists_inv_def)
qed

lemma cleanup_thread_law:
  assumes inv: "lists_inv s ts ps ds"
  shows "\<exists>s'. CleanupThreadListOnDriverUnload s = Some s' \<and> lists_inv s' [] ps ds
     \<and> (\<forall>x \<in> set ts. slist s' x = None) \<and> processes s' = processes s
     \<and> (\<forall>a. a \<notin> set (ThreadHead # ts) \<longrightarrow> slist s' a = slist s a)
     \<and> rest s' = rest s
     \<and> k_trace s' = k_trace s @ cleanup_events ThreadListLock thread_derefs (LookasideFree ThreadLookaside) s ts
                    @ [LookasideDelete ThreadLookaside]"
proof -
  have "is_list (slist s) ThreadHead ts" "\<And>x. x \<in> set ts \<Longrightarrow> x \<in> dom (threads (rest s))"
    using inv by (auto simp: lists_inv_def)
  from lookaside_list.drain_frees_all[OF this(1) thread_callback_ok this(2), of ThreadListLock]
  obtain s1 where s1: "drain (LookasideListFreeFirstEntry ThreadHead ThreadListLock
        (Some CleanupThreadListFreeCallback)) s = Some s1"
    "is_list (slist s1) ThreadHead []" "\<forall>x \<in> set ts. slist s1 x = None"
    "\<forall>a. a \<notin> set (ThreadHead # ts) \<longrightarrow> slist s1 a = slist s a" "rest s1 = rest s"
    "k_trace s1 = k_trace s @ cleanup_events ThreadListLock thread_derefs (LookasideFree ThreadLookaside) s ts"
    by (auto simp: cleanup_events_def)
  have "is_list (slist s1) ProcessHead ps" "is_list (slist s1) DriverHead ds"
    using lists_inv_frame(1)[OF inv, of "slist s1"] s1(4) by blast+
  then show ?thesis
    using s1 inv rest_fields[OF s1(5)] by (auto simp: CleanupThreadListOnDriverUnload_def lists_inv_def)
qed

lemma cleanup_driver_law:
  assumes inv: "lists_inv s ts ps ds"
  shows "\<exists>s'. CleanupDriverListOnDriverUnload s = Some s' \<and> lists_inv s' ts ps []
     \<and> (\<forall>x \<in> set ds. slist s' x = None)
     \<and> (\<forall>a. a \<notin> set (DriverHead # ds) \<longrightarrow> slist s' a = slist s a)
     \<and> rest s' = rest s
     \<and> k_trace s' = k_trace s @ cleanup_events DriverListLock (\<lambda>_ _. []) (\<lambda>x. PoolFree x POOL_TAG_THREAD_LIST) s ds"
proof -
  have "callback_ok slist k_trace rest (\<lambda>_ _. True) (\<lambda>_ _. []) None"
    by (simp add: callback_ok_def)
  moreover have "is_list (slist s) DriverHead ds"
    using inv by (simp add: lists_inv_def)
  ultimately obtain s1 where s1: "drain (ListFreeFirstEntry DriverHead DriverListLock None) s = Some s1"
    "is_list (slist s1) DriverHead []" "\<forall>x \<in> set ds. slist s1 x = None"
    "\<forall>a. a \<notin> set (DriverHead # ds) \<longrightarrow> slist s1 a = slist s a" "rest s1 = rest s"
    "k_trace s1 = k_trace s @ cleanup_events DriverListLock (\<lambda>_ _. []) (\<lambda>x. PoolFree x POOL_TAG_THREAD_LIST) s ds"
    using pool_list.drain_frees_all[of s DriverHead ds "\<lambda>_ _. True" "\<lambda>_ _. []" None DriverListLock]
    by (auto simp: cleanup_events_def)
  have "is_list (slist s1) ProcessHead ps" "is_list (slist s1) ThreadHead ts"
    using lists_inv_frame(3)[OF inv, of "slist s1"] s1(4) by blast+
  then show ?thesis
    using s1 inv rest_fields[OF s1(5)] by (auto simp: CleanupDriverListOnDriverUnload_def lists_inv_def)
qed

section \<open>Effect of the notify routines\<close>

lemma process_created_law:
  assumes inv: "lists_inv s ts ps ds" and act: "process_active s"
    and lk: "lookup ParentId = parent" "lookup ProcessId = process" "parent \<noteq> NULL" "process \<noteq> NULL"
    and al: "alloc (k_allocs s) = Some p" "p \<notin> dom (slist s)" "p \<noteq> NULL"
  shows "\<exists>s'. ProcessCreateNotifyRoutine lookup nm alloc ParentId ProcessId True s = Some s'
     \<and> lists_inv s' ts (p # ps) ds \<and> process_active s'
     \<and> processes s' = (processes s)(p \<mapsto> \<lparr>pl_process = process, pl_parent = parent\<rparr>)
     \<and> k_trace s' = k_trace s @ [ObReference parent, ObReference process, LookasideAlloc ProcessLookaside p,
          ObReference parent, ObReference process, Acquire ProcessListLock, Release ProcessListLock]
          @ (if nm process = ''winlogon.exe'' then [WorkItemQueued (deferred_work_item s)] else [])"
proof -
  define s1 where "s1 = emit (ObReference process) (emit (ObReference parent) (emit (LookasideAlloc ProcessLookaside p)
    ((emit (ObReference process) (emit (ObReference parent) s))\<lparr>k_allocs := Suc (k_allocs s), slist := (slist s)(p \<mapsto> NULL)\<rparr>)))"
  define s2 where "s2 = s1\<lparr>processes := (processes s)(p \<mapsto> \<lparr>pl_process = process, pl_parent = parent\<rparr>)\<rparr>"
  have sl: "slist s2 = (slist s)(p \<mapsto> NULL)" by (simp add: s2_def s1_def)
  have pn: "p \<notin> set (ThreadHead # ProcessHead # DriverHead # ts @ ps @ ds)"
    using lists_inv_live[OF inv] al(2) by blast
  have "is_list (slist s2) ProcessHead ps"
    using inv pn unfolding sl by (auto simp: lists_inv_def intro!: is_list_frame[of "slist s" ProcessHead ps])
  from ListInsert_law[OF this, of p ProcessListLock] al(3) pn obtain s3 where s3:
    "ListInsert ProcessHead p ProcessListLock s2 = Some s3" "is_list (slist s3) ProcessHead (p # ps)"
    "\<forall>a. a \<noteq> ProcessHead \<longrightarrow> a \<noteq> p \<longrightarrow> slist s3 a = slist s2 a" "rest s3 = rest s2"
    "k_trace s3 = k_trace s2 @ [Acquire ProcessListLock, Release ProcessListLock]"
    by (auto simp: sl)
  have "is_list (slist s3) ThreadHead ts \<and> is_list (slist s3) DriverHead ds"
    using s3(3) al(2) by (intro lists_inv_frame(2)[OF inv]) (auto simp: sl)
  moreover have "threads s2 = threads s" "drivers s2 = drivers s"
    "processes s2 = (processes s)(p \<mapsto> \<lparr>pl_process = process, pl_parent = parent\<rparr>)"
    "deferred_work_item s2 = deferred_work_item s" "process_active s2"
    using act by (simp_all add: s2_def s1_def)
  ultimately have inv3: "lists_inv s3 ts (p # ps) ds" "process_active s3" "deferred_work_item s3 = deferred_work_item s"
    "processes s3 = (processes s)(p \<mapsto> \<lparr>pl_process = process, pl_parent = parent\<rparr>)"
    using inv pn s3(2) rest_fields[OF s3(4)] by (auto simp: lists_inv_def)
  have "ProcessCreateNotifyRoutine lookup nm alloc ParentId ProcessId True s = Some
      (if nm process = ''winlogon.exe''
       then emit (WorkItemQueued (deferred_work_item s3)) (s3\<lparr>can_hash_x86 := True\<rparr>) else s3)"
    using act lk al s3(1)
    by (simp add: ProcessCreateNotifyRoutine_def PsLookup_def ExAllocateFromLookasideListEx_def
        ObfReferenceObject_def s1_def s2_def)
  then show ?thesis
    using inv3 s3(5) by (auto simp: s2_def s1_def lists_inv_def)
qed

lemma process_key:
  assumes "lists_inv s ts ps ds" "x \<in> set ps"
  shows "map_option pl_process (process_entry (emit e s) x) = Some (pl_process (the (processes s x)))"
proof -
  have "x \<in> dom (slist s)" "x \<in> dom (processes s)"
    using assms lists_inv_live[OF assms(1), of x] by (auto simp: lists_inv_def)
  then show ?thesis by (auto simp: process_entry_def)
qed

lemma FindProcessListEntryByProcess_law:
  assumes "lists_inv s ts ps ds"
  shows "FindProcessListEntryByProcess process s =
    Some (case List.find (\<lambda>x. pl_process (the (processes s x)) = process) ps of None \<Rightarrow> NULL | Some x \<Rightarrow> x,
          emit (Release ProcessListLock) (emit (Acquire ProcessListLock) s))"
  unfolding FindProcessListEntryByProcess_def
  by (rule find_entry_law) (use assms process_key[OF assms] in \<open>simp_all add: lists_inv_def\<close>)

lemma process_exited_law:
  assumes inv: "lists_inv s ts ps ds" and act: "process_active s"
    and lk: "lookup ParentId = parent" "lookup ProcessId = process" "parent \<noteq> NULL" "process \<noteq> NULL"
    and fd: "List.find (\<lambda>x. pl_process (the (processes s x)) = process) ps = Some x" "processes s x = Some e"
  shows "\<exists>s'. ProcessCreateNotifyRoutine lookup nm alloc ParentId ProcessId False s = Some s'
     \<and> lists_inv s' ts (remove1 x ps) ds \<and> slist s' x = None \<and> processes s' = processes s
     \<and> k_trace s' = k_trace s @ [ObReference parent, ObReference process, Acquire ProcessListLock,
          Release ProcessListLock, ObDereference (pl_parent e), ObDereference (pl_process e),
          Acquire ProcessListLock, LookasideFree ThreadLookaside x, Release ProcessListLock]"
proof -
  define s1 where "s1 = emit (Release ProcessListLock) (emit (Acquire ProcessListLock)
    (emit (ObReference process) (emit (ObReference parent) s)))"
  define s2 where "s2 = emit (ObDereference (pl_process e)) (emit (ObDereference (pl_parent e)) s1)"
  have x: "x \<in> set ps" using fd(1) by (auto simp: find_Some_iff)
  have inv0: "lists_inv (emit (ObReference process) (emit (ObReference parent) s)) ts ps ds"
    using inv by (simp add: lists_inv_def)
  have xl: "x \<in> dom (slist s)" "x \<noteq> NULL"
    using x inv lists_inv_live[OF inv, of x] is_list_nonnull[of "slist s" ProcessHead ps] by (auto simp: lists_inv_def)
  have "is_list (slist s2) ProcessHead ps" using inv by (simp add: lists_inv_def s2_def s1_def)
  from lookaside_list.remove_law[OF this, of x ProcessListLock] x obtain s3 where s3:
    "LookasideListRemoveEntry ProcessHead x ProcessListLock s2 = Some s3"
    "is_list (slist s3) ProcessHead (remove1 x ps)" "slist s3 x = None"
    "\<forall>a. a \<notin> set (ProcessHead # ps) \<longrightarrow> slist s3 a = slist s2 a" "rest s3 = rest s2"
    "k_trace s3 = k_trace s2 @ [Acquire ProcessListLock, LookasideFree ThreadLookaside x, Release ProcessListLock]"
    by auto
  have "is_list (slist s3) ThreadHead ts \<and> is_list (slist s3) DriverHead ds"
    using s3(4) by (intro lists_inv_frame(2)[OF inv]) (auto simp: s2_def s1_def)
  moreover have "threads s2 = threads s" "drivers s2 = drivers s" "processes s2 = processes s"
    by (simp_all add: s2_def s1_def)
  ultimately have "lists_inv s3 ts (remove1 x ps) ds" "processes s3 = processes s"
    using inv s3(2) rest_fields[OF s3(5)] by (auto simp: lists_inv_def dest: notin_set_remove1)
  moreover have "ProcessCreateNotifyRoutine lookup nm alloc ParentId ProcessId False s = Some s3"
    using act lk s3(1) fd xl
    by (simp add: ProcessCreateNotifyRoutine_def PsLookup_def FindProcessListEntryByProcess_law[OF inv0]
        process_entry_def ObDereferenceObject_def s1_def s2_def)
  ultimately show ?thesis
    using s3(3,6) by (simp add: s2_def s1_def)
qed

lemma thread_created_law:
  assumes inv: "lists_inv s ts ps ds" and act: "thread_active s"
    and lk: "lookup_t ThreadId = thread" "lookup_p ProcessId = process" "thread \<noteq> NULL" "process \<noteq> NULL"
    and al: "alloc (k_allocs s) = Some p" "p \<notin> dom (slist s)" "p \<noteq> NULL"
  shows "\<exists>s'. ThreadCreateNotifyRoutine lookup_t lookup_p alloc ProcessId ThreadId True s = Some s'
     \<and> lists_inv s' (p # ts) ps ds
     \<and> threads s' = (threads s)(p \<mapsto> \<lparr>tl_thread = thread, tl_owning_process = process, tl_apc_queued = False, tl_apc = NULL\<rparr>)
     \<and> k_trace s' = k_trace s @ [ObReference thread, ObReference process, LookasideAlloc ThreadLookaside p,
          ObReference thread, ObReference process, Acquire ThreadListLock, Release ThreadListLock]"
proof -
  let ?e = "\<lparr>tl_thread = thread, tl_owning_process = process, tl_apc_queued = False, tl_apc = NULL\<rparr>"
  define s1 where "s1 = emit (ObReference process) (emit (ObReference thread) (emit (LookasideAlloc ThreadLookaside p)
    ((emit (ObReference process) (emit (ObReference thread) s))\<lparr>k_allocs := Suc (k_allocs s), slist := (slist s)(p \<mapsto> NULL)\<rparr>)))"
  define s2 where "s2 = s1\<lparr>threads := (threads s)(p \<mapsto> ?e)\<rparr>"
  have sl: "slist s2 = (slist s)(p \<mapsto> NULL)" by (simp add: s2_def s1_def)
  have pn: "p \<notin> set (ThreadHead # ProcessHead # DriverHead # ts @ ps @ ds)"
    using lists_inv_live[OF inv] al(2) by blast
  have "is_list (slist s2) ThreadHead ts"
    using inv pn unfolding sl by (auto simp: lists_inv_def intro!: is_list_frame[of "slist s" ThreadHead ts])
  from ListInsert_law[OF this, of p ThreadListLock] al(3) pn obtain s3 where s3:
    "ListInsert ThreadHead p ThreadListLock s2 = Some s3" "is_list (slist s3) ThreadHead (p # ts)"
    "\<forall>a. a \<noteq> ThreadHead \<longrightarrow> a \<noteq> p \<longrightarrow> slist s3 a = slist s2 a" "rest s3 = rest s2"
    "k_trace s3 = k_trace s2 @ [Acquire ThreadListLock, Release ThreadListLock]"
    by (auto simp: sl)
  have "is_list (slist s3) ProcessHead ps \<and> is_list (slist s3) DriverHead ds"
    using s3(3) al(2) by (intro lists_inv_frame(1)[OF inv]) (auto simp: sl)
  moreover have "processes s2 = processes s" "drivers s2 = drivers s" "threads s2 = (threads s)(p \<mapsto> ?e)"
    by (simp_all add: s2_def s1_def)
  ultimately have "lists_inv s3 (p # ts) ps ds" "threads s3 = (threads s)(p \<mapsto> ?e)"
    using inv pn s3(2) rest_fields[OF s3(4)] by (auto simp: lists_inv_def)
  moreover have "ThreadCreateNotifyRoutine lookup_t lookup_p alloc ProcessId ThreadId True s = Some s3"
    using act lk al s3(1)
    by (simp add: ThreadCreateNotifyRoutine_def PsLookup_def ExAllocateFromLookasideListEx_def
        ObfReferenceObject_def s1_def s2_def)
  ultimately show ?thesis
    using s3(5) by (auto simp: s2_def s1_def)
qed

lemma thread_key:
  assumes "lists_inv s ts ps ds" "x \<in> set ts"
  shows "map_option tl_thread (thread_entry (emit e s) x) = Some (tl_thread (the (threads s x)))"
proof -
  have "x \<in> dom (slist s)" "x \<in> dom (threads s)"
    using assms lists_inv_live[OF assms(1), of x] by (auto simp: lists_inv_def)
  then show ?thesis by (auto simp: thread_entry_def)
qed

lemma FindThreadListEntryByThreadAddress_law:
  assumes "lists_inv s ts ps ds"
  shows "FindThreadListEntryByThreadAddress thread s =
    Some (case List.find (\<lambda>x. tl_thread (the (threads s x)) = thread) ts of None \<Rightarrow> NULL | Some x \<Rightarrow> x,
          emit (Release ThreadListLock) (emit (Acquire ThreadListLock) s))"
  unfolding FindThreadListEntryByThreadAddress_def
  by (rule find_entry_law) (use assms thread_key[OF assms] in \<open>simp_all add: lists_inv_def\<close>)

lemma thread_exited_law:
  assumes inv: "lists_inv s ts ps ds" and act: "thread_active s"
    and lk: "lookup_t ThreadId = thread" "lookup_p ProcessId = process" "thread \<noteq> NULL" "process \<noteq> NULL"
    and fd: "List.find (\<lambda>x. tl_thread (the (threads s x)) = thread) ts = Some x" "threads s x = Some e"
  shows "\<exists>s'. ThreadCreateNotifyRoutine lookup_t lookup_p alloc ProcessId ThreadId False s = Some s'
     \<and> lists_inv s' (remove1 x ts) ps ds \<and> slist s' x = None \<and> threads s' = threads s
     \<and> k_trace s' = k_trace s @ [ObReference thread, ObReference process, Acquire ThreadListLock,
          Release ThreadListLock, ObDereference (tl_thread e), ObDereference (tl_owning_process e),
          Acquire ThreadListLock, LookasideFree ThreadLookaside x, Release ThreadListLock]"
proof -
  define s1 where "s1 = emit (Release ThreadListLock) (emit (Acquire ThreadListLock)
    (emit (ObReference process) (emit (ObReference thread) s)))"
  define s2 where "s2 = emit (ObDereference (tl_owning_process e)) (emit (ObDereference (tl_thread e)) s1)"
  have x: "x \<in> set ts" using fd(1) by (auto simp: find_Some_iff)
  have inv0: "lists_inv (emit (ObReference process) (emit (ObReference thread) s)) ts ps ds"
    using inv by (simp add: lists_inv_def)
  have xl: "x \<in> dom (slist s)" "x \<noteq> NULL"
    using x inv lists_inv_live[OF inv, of x] is_list_nonnull[of "slist s" ThreadHead ts] by (auto simp: lists_inv_def)
  have "is_list (slist s2) ThreadHead ts" using inv by (simp add: lists_inv_def s2_def s1_def)
  from lookaside_list.remove_law[OF this, of x ThreadListLock] x obtain s3 where s3:
    "LookasideListRemoveEntry ThreadHead x ThreadListLock s2 = Some s3"
    "is_list (slist s3) ThreadHead (remove1 x ts)" "slist s3 x = None"
    "\<forall>a. a \<notin> set (ThreadHead # ts) \<longrightarrow> slist s3 a = slist s2 a" "rest s3 = rest s2"
    "k_trace s3 = k_trace s2 @ [Acquire ThreadListLock, LookasideFree ThreadLookaside x, Release ThreadListLock]"
    by auto
  have "is_list (slist s3) ProcessHead ps \<and> is_list (slist s3) DriverHead ds"
    using s3(4) by (intro lists_inv_frame(1)[OF inv]) (auto simp: s2_def s1_def)
  moreover have "threads s2 = threads s" "drivers s2 = drivers s" "processes s2 = processes s"
    by (simp_all add: s2_def s1_def)
  ultimately have "lists_inv s3 (remove1 x ts) ps ds" "threads s3 = threads s"
    using inv s3(2) rest_fields[OF s3(5)] by (auto simp: lists_inv_def dest: notin_set_remove1)
  moreover have "ThreadCreateNotifyRoutine lookup_t lookup_p alloc ProcessId ThreadId False s = Some s3"
    using act lk s3(1) fd xl
    by (simp add: ThreadCreateNotifyRoutine_def PsLookup_def FindThreadListEntryByThreadAddress_law[OF inv0]
        thread_entry_def ObDereferenceObject_def s1_def s2_def)
  ultimately show ?thesis
    using s3(3,6) by (simp add: s2_def s1_def)
qed

section \<open>The process list as the code means it\<close>

text \<open>
  The specification keeps a plain list of the live processes with their parents: a creation
  adds one in front, an exit removes the newest one of that process.
\<close>

primrec remove_first :: "('a \<Rightarrow> bool) \<Rightarrow> 'a list \<Rightarrow> 'a list" where
  "remove_first P [] = []"
| "remove_first P (x # xs) = (if P x then xs else x # remove_first P xs)"

definition spec_process_event ::
  "bool \<Rightarrow> ptr \<Rightarrow> ptr \<Rightarrow> PROCESS_LIST_ENTRY list \<Rightarrow> PROCESS_LIST_ENTRY list" where
  "spec_process_event Create process parent es =
     (if Create then \<lparr>pl_process = process, pl_parent = parent\<rparr> # es
      else remove_first (\<lambda>e. pl_process e = process) es)"

definition abs_processes :: "'a cb_st_scheme \<Rightarrow> ptr list \<Rightarrow> PROCESS_LIST_ENTRY list" where
  "abs_processes s ps = map (\<lambda>x. the (processes s x)) ps"

lemma map_remove1_find:
  assumes "List.find (\<lambda>x. P (f x)) xs = Some x"
  shows "map f (remove1 x xs) = remove_first P (map f xs)"
  using assms by (induction xs) (auto split: if_splits simp: find_Some_iff)

lemma remove_first_none: "List.find (\<lambda>x. P (f x)) xs = None \<Longrightarrow> remove_first P (map f xs) = map f xs"
  by (induction xs) (auto split: if_splits)

lemma process_unknown_law:
  assumes inv: "lists_inv s ts ps ds" and act: "process_active s"
    and lk: "lookup ParentId = parent" "lookup ProcessId = process" "parent \<noteq> NULL" "process \<noteq> NULL"
    and fd: "List.find (\<lambda>x. pl_process (the (processes s x)) = process) ps = None"
  shows "ProcessCreateNotifyRoutine lookup nm alloc ParentId ProcessId False s =
    Some (emit (Release ProcessListLock) (emit (Acquire ProcessListLock)
      (emit (ObReference process) (emit (ObReference parent) s))))"
proof -
  have "lists_inv (emit (ObReference process) (emit (ObReference parent) s)) ts ps ds"
    using inv by (simp add: lists_inv_def)
  from FindProcessListEntryByProcess_law[OF this, of process] show ?thesis
    using act lk fd by (simp add: ProcessCreateNotifyRoutine_def PsLookup_def)
qed

lemma process_creation_refines:
  assumes "lists_inv s ts ps ds" "process_active s" "lookup ParentId \<noteq> NULL" "lookup ProcessId \<noteq> NULL"
    and "alloc (k_allocs s) = Some p" "p \<notin> dom (slist s)" "p \<noteq> NULL"
  shows "\<exists>s' ps'. ProcessCreateNotifyRoutine lookup nm alloc ParentId ProcessId True s = Some s'
     \<and> lists_inv s' ts ps' ds \<and> neutral {ProcessListLock} s s'
     \<and> abs_processes s' ps' = spec_process_event True (lookup ProcessId) (lookup ParentId) (abs_processes s ps)"
proof -
  from process_created_law[of s ts ps ds lookup ParentId "lookup ParentId" ProcessId "lookup ProcessId" alloc p nm,
      OF assms(1,2) refl refl assms(3-7)] obtain s' where
    s': "ProcessCreateNotifyRoutine lookup nm alloc ParentId ProcessId True s = Some s'"
    "lists_inv s' ts (p # ps) ds"
    "processes s' = (processes s)(p \<mapsto> \<lparr>pl_process = lookup ProcessId, pl_parent = lookup ParentId\<rparr>)"
    and tr: "k_trace s' = k_trace s @ [ObReference (lookup ParentId), ObReference (lookup ProcessId),
      LookasideAlloc ProcessLookaside p, ObReference (lookup ParentId), ObReference (lookup ProcessId),
      Acquire ProcessListLock, Release ProcessListLock]
      @ (if nm (lookup ProcessId) = ''winlogon.exe'' then [WorkItemQueued (deferred_work_item s)] else [])"
    by blast
  have ne: "neutral {ProcessListLock} s s'" by (rule neutral_balanced[OF tr]) simp
  have "p \<notin> set ps" using s'(2) by (auto simp: lists_inv_def)
  then have "abs_processes s' (p # ps) = \<lparr>pl_process = lookup ProcessId, pl_parent = lookup ParentId\<rparr> # abs_processes s ps"
    using s'(3) by (auto simp: abs_processes_def)
  then show ?thesis using s' ne by (auto simp: spec_process_event_def)
qed

lemma process_exit_refines:
  assumes "lists_inv s ts ps ds" "process_active s" "lookup ParentId \<noteq> NULL" "lookup ProcessId \<noteq> NULL"
  shows "\<exists>s' ps'. ProcessCreateNotifyRoutine lookup nm alloc ParentId ProcessId False s = Some s'
     \<and> lists_inv s' ts ps' ds \<and> neutral {ProcessListLock} s s'
     \<and> abs_processes s' ps' = spec_process_event False (lookup ProcessId) (lookup ParentId) (abs_processes s ps)"
proof (cases "List.find (\<lambda>x. pl_process (the (processes s x)) = lookup ProcessId) ps")
  case None
  then show ?thesis
    using process_unknown_law[OF assms(1,2), of lookup ParentId "lookup ParentId" ProcessId "lookup ProcessId" nm alloc] None assms(1,3,4)
      remove_first_none[of "\<lambda>e. pl_process e = lookup ProcessId" "\<lambda>x. the (processes s x)" ps]
    by (auto simp: lists_inv_def abs_processes_def spec_process_event_def intro!: neutral_balanced)
next
  case (Some x)
  then have "x \<in> set ps" by (auto simp: find_Some_iff)
  then obtain e where e: "processes s x = Some e" using assms(1) by (auto simp: lists_inv_def)
  from process_exited_law[of s ts ps ds lookup ParentId "lookup ParentId" ProcessId "lookup ProcessId" x e nm alloc,
      OF assms(1,2) refl refl assms(3,4) Some e] obtain s' where
    s': "ProcessCreateNotifyRoutine lookup nm alloc ParentId ProcessId False s = Some s'"
    "lists_inv s' ts (remove1 x ps) ds" "processes s' = processes s"
    and tr: "k_trace s' = k_trace s @ [ObReference (lookup ParentId), ObReference (lookup ProcessId),
      Acquire ProcessListLock, Release ProcessListLock, ObDereference (pl_parent e), ObDereference (pl_process e),
      Acquire ProcessListLock, LookasideFree ThreadLookaside x, Release ProcessListLock]"
    by blast
  have "neutral {ProcessListLock} s s'" by (rule neutral_balanced[OF tr]) simp
  moreover have "abs_processes s (remove1 x ps) =
      remove_first (\<lambda>e. pl_process e = lookup ProcessId) (abs_processes s ps)"
    unfolding abs_processes_def
    by (rule map_remove1_find[where P = "\<lambda>e. pl_process e = lookup ProcessId" and f = "\<lambda>x. the (processes s x)", OF Some])
  ultimately show ?thesis
    using s' by (auto simp: abs_processes_def spec_process_event_def)
qed

lemma process_event_refines:
  assumes "lists_inv s ts ps ds" "process_active s"
    and "lookup ParentId \<noteq> NULL" "lookup ProcessId \<noteq> NULL"
    and "Create \<Longrightarrow> alloc (k_allocs s) = Some p \<and> p \<notin> dom (slist s) \<and> p \<noteq> NULL"
  shows "\<exists>s' ps'. ProcessCreateNotifyRoutine lookup nm alloc ParentId ProcessId Create s = Some s'
     \<and> lists_inv s' ts ps' ds \<and> neutral {ProcessListLock} s s'
     \<and> abs_processes s' ps' = spec_process_event Create (lookup ProcessId) (lookup ParentId) (abs_processes s ps)"
proof (cases Create)
  case True
  with process_creation_refines[of s ts ps ds lookup ParentId ProcessId alloc p nm] assms show ?thesis by simp
next
  case False
  with process_exit_refines[of s ts ps ds lookup ParentId ProcessId nm alloc] assms(1-4) show ?thesis by simp
qed

section \<open>Properties\<close>

text \<open>C9: the process notify routine implements the list of live processes. In a state where the
  three lists are well formed, a creation (when memory is available) puts the process and its
  parent in front of the list and an exit takes the entry of that process out, or changes
  nothing when there is none. The thread and the driver list stay as they are, all three
  stay well formed and disjoint, no access faults, and the process list lock is taken and
  released in balance.\<close>

theorem process_notify_refines_process_list:
  assumes "lists_inv s ts ps ds" "process_active s" "lookup ParentId \<noteq> NULL" "lookup ProcessId \<noteq> NULL"
    and "Create \<Longrightarrow> alloc (k_allocs s) = Some p \<and> p \<notin> dom (slist s) \<and> p \<noteq> NULL"
  shows "\<exists>s' ps'. ProcessCreateNotifyRoutine lookup nm alloc ParentId ProcessId Create s = Some s'
     \<and> lists_inv s' ts ps' ds \<and> neutral {ProcessListLock} s s'
     \<and> abs_processes s' ps' = spec_process_event Create (lookup ProcessId) (lookup ParentId) (abs_processes s ps)"
  using assms by (rule process_event_refines)

definition example_cb_st :: cb_st where
  "example_cb_st = sess_st.extend
     (example_sess_st\<lparr>slist := [ThreadHead \<mapsto> NULL, ProcessHead \<mapsto> 0x100, DriverHead \<mapsto> NULL, 0x100 \<mapsto> NULL]\<rparr>)
     (cb_st.fields True True True Map.empty [0x100 \<mapsto> \<lparr>pl_process = 7, pl_parent = 6\<rparr>] Map.empty [] 1 False)"

lemma example_lists: "lists_inv example_cb_st [] [0x100] []"
  by (simp add: lists_inv_def example_cb_st_def example_sess_st_def example_irp_st_def irp_st.defs sess_st.defs
      cb_st.defs is_list_def ThreadHead_def ProcessHead_def DriverHead_def)

lemma example_cb_fields: "process_active example_cb_st" "k_allocs example_cb_st = 0"
  "processes example_cb_st = [0x100 \<mapsto> \<lparr>pl_process = 7, pl_parent = 6\<rparr>]" "0x200 \<notin> dom (slist example_cb_st)"
  "k_trace example_cb_st = []"
  by (simp_all add: example_cb_st_def example_sess_st_def example_irp_st_def irp_st.defs sess_st.defs cb_st.defs
      ThreadHead_def ProcessHead_def DriverHead_def)

theorem process_notify_refines_process_list_witness:
  "(\<exists>s' ps'. ProcessCreateNotifyRoutine id (\<lambda>_. ''game.exe'') (\<lambda>_. Some 0x200) 6 9 True example_cb_st = Some s'
      \<and> abs_processes s' ps' = [\<lparr>pl_process = 9, pl_parent = 6\<rparr>, \<lparr>pl_process = 7, pl_parent = 6\<rparr>])
   \<and> (\<exists>s' ps'. ProcessCreateNotifyRoutine id (\<lambda>_. ''game.exe'') (\<lambda>_. None) 6 7 False example_cb_st = Some s'
      \<and> abs_processes s' ps' = [])"
proof -
  have abs: "abs_processes example_cb_st [0x100] = [\<lparr>pl_process = 7, pl_parent = 6\<rparr>]"
    by (simp add: abs_processes_def example_cb_fields)
  have "\<exists>s' ps'. ProcessCreateNotifyRoutine id (\<lambda>_. ''game.exe'') (\<lambda>_. Some 0x200) 6 9 True example_cb_st = Some s'
      \<and> lists_inv s' [] ps' [] \<and> neutral {ProcessListLock} example_cb_st s'
      \<and> abs_processes s' ps' = spec_process_event True (id 9) (id 6) (abs_processes example_cb_st [0x100])"
    by (rule process_notify_refines_process_list[OF example_lists, where p = "0x200"])
      (simp_all add: example_cb_fields)
  moreover have "\<exists>s' ps'. ProcessCreateNotifyRoutine id (\<lambda>_. ''game.exe'') (\<lambda>_. None) 6 7 False example_cb_st = Some s'
      \<and> lists_inv s' [] ps' [] \<and> neutral {ProcessListLock} example_cb_st s'
      \<and> abs_processes s' ps' = spec_process_event False (id 7) (id 6) (abs_processes example_cb_st [0x100])"
    by (rule process_notify_refines_process_list[OF example_lists, where p = "0x200"])
      (simp_all add: example_cb_fields)
  ultimately show ?thesis
    by (simp add: abs spec_process_event_def) blast
qed

text \<open>Tracking a process leaks references. From the creation to the exit of a process, the
  notify routine takes six references on the process and its parent (the lookups take one
  each time, and a creation takes one more on each) and drops only two, so each object keeps
  two references too many and is never freed by Windows.\<close>

theorem process_tracking_leaks_references:
  assumes "lists_inv s ts ps ds" "process_active s"
    and "lookup ParentId = parent" "lookup ProcessId = process" "parent \<noteq> NULL" "process \<noteq> NULL"
    and "alloc (k_allocs s) = Some p" "p \<notin> dom (slist s)" "p \<noteq> NULL" "process \<noteq> parent"
  shows "\<exists>s1 s2. ProcessCreateNotifyRoutine lookup nm alloc ParentId ProcessId True s = Some s1
     \<and> ProcessCreateNotifyRoutine lookup nm alloc ParentId ProcessId False s1 = Some s2
     \<and> lists_inv s2 ts ps ds
     \<and> refs process (k_trace s2) = refs process (k_trace s) + 2
     \<and> refs parent (k_trace s2) = refs parent (k_trace s) + 2"
proof -
  obtain s1 where s1: "ProcessCreateNotifyRoutine lookup nm alloc ParentId ProcessId True s = Some s1"
    "lists_inv s1 ts (p # ps) ds" "process_active s1"
    "processes s1 = (processes s)(p \<mapsto> \<lparr>pl_process = process, pl_parent = parent\<rparr>)"
    "refs process (k_trace s1) = refs process (k_trace s) + 2" "refs parent (k_trace s1) = refs parent (k_trace s) + 2"
    using process_created_law[of s ts ps ds lookup ParentId parent ProcessId process alloc p nm, OF assms(1-9)] assms(10)
    by auto
  have "List.find (\<lambda>x. pl_process (the (processes s1 x)) = process) (p # ps) = Some p"
    "processes s1 p = Some \<lparr>pl_process = process, pl_parent = parent\<rparr>"
    using s1(4) by simp_all
  from process_exited_law[of s1 ts "p # ps" ds lookup ParentId parent ProcessId process p _ nm alloc,
      OF s1(2,3) assms(3-6) this] show ?thesis
    using s1 assms(10) by auto
qed

theorem process_tracking_leaks_references_witness:
  "\<exists>s1 s2. ProcessCreateNotifyRoutine id (\<lambda>_. ''game.exe'') (\<lambda>_. Some 0x200) 6 9 True example_cb_st = Some s1
     \<and> ProcessCreateNotifyRoutine id (\<lambda>_. ''game.exe'') (\<lambda>_. Some 0x200) 6 9 False s1 = Some s2
     \<and> refs 9 (k_trace s2) = 2"
  using process_tracking_leaks_references[OF example_lists, of id 6 6 9 9 "\<lambda>_. Some 0x200" "0x200" "\<lambda>_. ''game.exe''"]
  by (auto simp: example_cb_fields)

text \<open>On unload the process list is emptied: the loop ends, every entry is freed once, and the
  references the entry holds, on the parent and on the process, are dropped once before it.
  The other two lists are untouched. Each entry goes back to the lookaside list of the
  \<^emph>\<open>thread\<close> list, while it was allocated from that of the process list.\<close>

theorem process_list_cleanup:
  assumes "lists_inv s ts ps ds"
  shows "\<exists>s'. CleanupProcessListOnDriverUnload s = Some s' \<and> lists_inv s' ts [] ds
     \<and> (\<forall>x \<in> set ps. slist s' x = None)
     \<and> k_trace s' = k_trace s @
         concat (map (\<lambda>x. [Acquire ProcessListLock, ObDereference (pl_parent (the (processes s x))),
             ObDereference (pl_process (the (processes s x))), LookasideFree ThreadLookaside x,
             Release ProcessListLock]) ps)
         @ [Acquire ProcessListLock, Release ProcessListLock, LookasideDelete ProcessLookaside]"
proof -
  have eq: "map (\<lambda>x. Acquire ProcessListLock # process_derefs s x @ [LookasideFree ThreadLookaside x, Release ProcessListLock]) ps
      = map (\<lambda>x. [Acquire ProcessListLock, ObDereference (pl_parent (the (processes s x))),
             ObDereference (pl_process (the (processes s x))), LookasideFree ThreadLookaside x,
             Release ProcessListLock]) ps"
    using assms by (auto simp: process_derefs_def lists_inv_def)
  show ?thesis
    using cleanup_process_law[OF assms] unfolding cleanup_events_def eq by auto
qed

theorem process_list_cleanup_witness:
  "\<exists>s'. CleanupProcessListOnDriverUnload example_cb_st = Some s' \<and> lists_inv s' [] [] []
     \<and> refs 7 (k_trace s') = -1"
  using process_list_cleanup[OF example_lists] by (auto simp: example_cb_fields)

text \<open>On unload the driver list is emptied: the loop ends and every entry is freed once. The
  entries were allocated with the tag \<open>drvl\<close> and are freed with the tag \<open>list\<close> of the thread
  list.\<close>

theorem driver_list_cleanup:
  assumes "lists_inv s ts ps ds"
  shows "\<exists>s'. CleanupDriverListOnDriverUnload s = Some s' \<and> lists_inv s' ts ps []
     \<and> (\<forall>x \<in> set ds. slist s' x = None)
     \<and> k_trace s' = k_trace s @
         concat (map (\<lambda>x. [Acquire DriverListLock, PoolFree x ''list'', Release DriverListLock]) ds)
         @ [Acquire DriverListLock, Release DriverListLock]"
  using cleanup_driver_law[OF assms] by (auto simp: cleanup_events_def)

theorem driver_list_cleanup_witness:
  "\<exists>s'. CleanupDriverListOnDriverUnload example_cb_st = Some s' \<and> lists_inv s' [] [0x100] []"
  using driver_list_cleanup[OF example_lists] by blast

end
