(* ===== verification/Reports.thy ===== *)
theory Reports
  imports Memory
begin

text \<open>
  The report structures of \<^verbatim>\<open>src/driver/types/types.h\<close>, which the driver sends to the
  user-mode module, and their bytes: fields in order, each aligned as the compiler aligns
  it, little endian, the structure padded to its own alignment.
\<close>

section \<open>Serialisation\<close>

primrec le_bytes :: "nat \<Rightarrow> nat \<Rightarrow> u8 list" where
  "le_bytes 0 v = []"
| "le_bytes (Suc n) v = of_nat v # le_bytes n (v div 256)"

lemma length_le_bytes [simp]: "length (le_bytes n v) = n"
  by (induction n arbitrary: v) simp_all

lemma le_nat_le_bytes: "le_nat (le_bytes n v) = v mod 256 ^ n"
proof (induction n arbitrary: v)
  case (Suc n)
  have "unat (of_nat v :: u8) = v mod 256" by (simp add: unat_of_nat)
  then show ?case
    using Suc[of "v div 256"] by (simp add: mod_mult2_eq)
qed simp

definition pad_to :: "nat \<Rightarrow> u8 list \<Rightarrow> u8 list" where
  "pad_to a bs = bs @ replicate (align_up a (length bs) - length bs) 0"

fun pack_from :: "u8 list \<Rightarrow> (nat \<times> u8 list) list \<Rightarrow> u8 list" where
  "pack_from bs [] = bs"
| "pack_from bs ((a, f) # fs) = pack_from (pad_to a bs @ f) fs"

definition pack_struct :: "(nat \<times> u8 list) list \<Rightarrow> u8 list" where
  "pack_struct fs = pad_to (foldr (max \<circ> fst) fs 1) (pack_from [] fs)"

definition int32 :: "u32 \<Rightarrow> nat \<times> u8 list" where "int32 v = (4, le_bytes 4 (unat v))"
definition int64 :: "u64 \<Rightarrow> nat \<times> u8 list" where "int64 v = (8, le_bytes 8 (unat v))"

text \<open>A character array of fixed size: what is copied into it, and zeroes behind.\<close>

definition chars :: "nat \<Rightarrow> u8 list \<Rightarrow> nat \<times> u8 list" where
  "chars n bs = (1, take n (bs @ replicate n 0))"

definition wchars :: "nat \<Rightarrow> u8 list \<Rightarrow> nat \<times> u8 list" where
  "wchars n bs = (2, take (2 * n) (bs @ replicate (2 * n) 0))"

section \<open>Reports\<close>

definition REPORT_NMI_CALLBACK_FAILURE :: u32 where "REPORT_NMI_CALLBACK_FAILURE = 50"
definition REPORT_MODULE_VALIDATION_FAILURE :: u32 where "REPORT_MODULE_VALIDATION_FAILURE = 60"
definition REPORT_ILLEGAL_HANDLE_OPERATION :: u32 where "REPORT_ILLEGAL_HANDLE_OPERATION = 70"
definition REPORT_INVALID_PROCESS_ALLOCATION :: u32 where "REPORT_INVALID_PROCESS_ALLOCATION = 80"
definition REPORT_HIDDEN_SYSTEM_THREAD :: u32 where "REPORT_HIDDEN_SYSTEM_THREAD = 90"
definition REPORT_ILLEGAL_ATTACH_PROCESS :: u32 where "REPORT_ILLEGAL_ATTACH_PROCESS = 100"
definition REPORT_APC_STACKWALK :: u32 where "REPORT_APC_STACKWALK = 110"
definition REPORT_DPC_STACKWALK :: u32 where "REPORT_DPC_STACKWALK = 120"
definition REPORT_DATA_TABLE_ROUTINE :: u32 where "REPORT_DATA_TABLE_ROUTINE = 130"
definition REPORT_INVALID_PROCESS_MODULE :: u32 where "REPORT_INVALID_PROCESS_MODULE = 140"

lemmas report_codes = REPORT_NMI_CALLBACK_FAILURE_def REPORT_MODULE_VALIDATION_FAILURE_def
  REPORT_ILLEGAL_HANDLE_OPERATION_def REPORT_INVALID_PROCESS_ALLOCATION_def
  REPORT_HIDDEN_SYSTEM_THREAD_def REPORT_ILLEGAL_ATTACH_PROCESS_def REPORT_APC_STACKWALK_def
  REPORT_DPC_STACKWALK_def REPORT_DATA_TABLE_ROUTINE_def REPORT_INVALID_PROCESS_MODULE_def

text \<open>
  One constructor per structure, with its fields in order. The first field of each is the
  report code.
\<close>

datatype report =
    APC_STACKWALK_REPORT (report_code: u32) (kthread_address: u64) (invalid_rip: u64) (driver: "u8 list")
  | DPC_STACKWALK_REPORT (report_code: u32) (kthread_address: u64) (invalid_rip: u64) (driver: "u8 list")
  | MODULE_VALIDATION_FAILURE (report_code: u32) (report_type: u32) (driver_base_address: u64)
      (driver_size: u64) (driver_name: "u8 list")
  | DATA_TABLE_ROUTINE_REPORT (report_code: u32) (table_id: u32) (address: u64) (routine: "u8 list")
  | NMI_CALLBACK_FAILURE (report_code: u32) (were_nmis_disabled: u32) (kthread_address: u64) (invalid_rip: u64)
  | INVALID_PROCESS_ALLOCATION_REPORT (report_code: u32) (process_bytes: "u8 list")
  | HIDDEN_SYSTEM_THREAD_REPORT (report_code: u32) (found_in_kthreadlist: u32) (found_in_pspcidtable: u32)
      (thread_address: u64) (thread_id: u32) (thread_bytes: "u8 list")
  | ATTACH_PROCESS_REPORT (report_code: u32) (thread_id: u32) (thread_address: u64)
  | OPEN_HANDLE_FAILURE_REPORT (report_code: u32) (is_kernel_handle: u32) (process_id: u32) (thread_id: u32)
      (access: u32) (process_name: "u8 list")
  | PROCESS_MODULE_VALIDATION_REPORT (report_code: u32) (image_base: u64) (image_size: u32) (module_path: "u8 list")

fun report_fields :: "report \<Rightarrow> (nat \<times> u8 list) list" where
  "report_fields (APC_STACKWALK_REPORT c k r d) = [int32 c, int64 k, int64 r, chars 500 d]"
| "report_fields (DPC_STACKWALK_REPORT c k r d) = [int32 c, int64 k, int64 r, chars 500 d]"
| "report_fields (MODULE_VALIDATION_FAILURE c t b z n) = [int32 c, int32 t, int64 b, int64 z, chars 128 n]"
| "report_fields (DATA_TABLE_ROUTINE_REPORT c t a r) = [int32 c, int32 t, int64 a, chars 256 r]"
| "report_fields (NMI_CALLBACK_FAILURE c n k r) = [int32 c, int32 n, int64 k, int64 r]"
| "report_fields (INVALID_PROCESS_ALLOCATION_REPORT c p) = [int32 c, chars 500 p]"
| "report_fields (HIDDEN_SYSTEM_THREAD_REPORT c f g a i t) =
     [int32 c, int32 f, int32 g, int64 a, int32 i, chars 500 t]"
| "report_fields (ATTACH_PROCESS_REPORT c i a) = [int32 c, int32 i, int64 a]"
| "report_fields (OPEN_HANDLE_FAILURE_REPORT c k p t a n) =
     [int32 c, int32 k, int32 p, int32 t, int32 a, chars 64 n]"
| "report_fields (PROCESS_MODULE_VALIDATION_REPORT c b z p) = [int32 c, int64 b, int32 z, wchars 256 p]"

definition report_bytes :: "report \<Rightarrow> u8 list" where
  "report_bytes r = pack_struct (report_fields r)"

fun sizeof_report :: "report \<Rightarrow> nat" where
  "sizeof_report (APC_STACKWALK_REPORT _ _ _ _) = 528"
| "sizeof_report (DPC_STACKWALK_REPORT _ _ _ _) = 528"
| "sizeof_report (MODULE_VALIDATION_FAILURE _ _ _ _ _) = 152"
| "sizeof_report (DATA_TABLE_ROUTINE_REPORT _ _ _ _) = 272"
| "sizeof_report (NMI_CALLBACK_FAILURE _ _ _ _) = 24"
| "sizeof_report (INVALID_PROCESS_ALLOCATION_REPORT _ _) = 504"
| "sizeof_report (HIDDEN_SYSTEM_THREAD_REPORT _ _ _ _ _ _) = 528"
| "sizeof_report (ATTACH_PROCESS_REPORT _ _ _) = 16"
| "sizeof_report (OPEN_HANDLE_FAILURE_REPORT _ _ _ _ _ _) = 84"
| "sizeof_report (PROCESS_MODULE_VALIDATION_REPORT _ _ _ _) = 536"

section \<open>Layout of the bytes\<close>

lemma length_pad_to [simp]: "length (pad_to a bs) = length bs + (align_up a (length bs) - length bs)"
  by (simp add: pad_to_def)

lemma length_fields [simp]:
  "length (snd (int32 v)) = 4" "length (snd (int64 w)) = 8" "fst (int32 v) = 4" "fst (int64 w) = 8"
  "length (snd (chars n bs)) = n" "fst (chars n bs) = 1" "length (snd (wchars n bs)) = 2 * n" "fst (wchars n bs) = 2"
  by (simp_all add: int32_def int64_def chars_def wchars_def)

fun pack_length :: "nat \<Rightarrow> (nat \<times> u8 list) list \<Rightarrow> nat" where
  "pack_length n [] = n"
| "pack_length n ((a, f) # fs) = pack_length (n + (align_up a n - n) + length f) fs"

lemma length_pack_from: "length (pack_from bs fs) = pack_length (length bs) fs"
  by (induction bs fs rule: pack_from.induct) simp_all

lemma pack_from_prefix: "\<exists>zs. pack_from bs fs = bs @ zs"
  by (induction bs fs rule: pack_from.induct) (auto simp: pad_to_def)

lemma pack_struct_first:
  assumes "length f = n"
  shows "take n (pack_struct ((a, f) # fs)) = f"
proof -
  obtain zs where "pack_from (pad_to a [] @ f) fs = (pad_to a [] @ f) @ zs"
    using pack_from_prefix by blast
  moreover have "align_up a 0 = 0 \<or> a = 0"
    by (cases a) (simp_all add: align_up_def)
  then have "pad_to a [] = []" by (auto simp: pad_to_def align_up_def)
  ultimately show ?thesis
    using assms by (simp add: pack_struct_def pad_to_def)
qed

lemma length_report_bytes: "length (report_bytes r) = sizeof_report r"
  by (cases r)
    (simp_all add: report_bytes_def pack_struct_def length_pack_from align_up_def int32_def int64_def chars_def wchars_def)

section \<open>Properties\<close>

text \<open>The user-mode module can tell the reports apart by their first four bytes. The bytes of
  every report are exactly as long as the structure, start with its report code in little
  endian, and the ten report codes differ.\<close>

theorem report_bytes_identify_report:
  "length (report_bytes r) = sizeof_report r
   \<and> le_nat (take 4 (report_bytes r)) = unat (report_code r)
   \<and> distinct [REPORT_NMI_CALLBACK_FAILURE, REPORT_MODULE_VALIDATION_FAILURE, REPORT_ILLEGAL_HANDLE_OPERATION,
        REPORT_INVALID_PROCESS_ALLOCATION, REPORT_HIDDEN_SYSTEM_THREAD, REPORT_ILLEGAL_ATTACH_PROCESS,
        REPORT_APC_STACKWALK, REPORT_DPC_STACKWALK, REPORT_DATA_TABLE_ROUTINE, REPORT_INVALID_PROCESS_MODULE]"
proof (intro conjI)
  obtain fs where "report_fields r = int32 (report_code r) # fs"
    by (cases r) simp_all
  then have "take 4 (report_bytes r) = le_bytes 4 (unat (report_code r))"
    by (simp add: report_bytes_def int32_def pack_struct_first)
  moreover have "unat (report_code r) < 256 ^ 4"
    using unsigned_less[of "report_code r", where 'a = nat] by simp
  ultimately show "le_nat (take 4 (report_bytes r)) = unat (report_code r)"
    by (simp add: le_nat_le_bytes)
qed (simp_all add: length_report_bytes report_codes)

end
