(* ===== verification/ObCallbacks.thy ===== *)
theory ObCallbacks
  imports Callbacks Reports
begin

text \<open>
  Protection of the game process, from \<^verbatim>\<open>src/driver/callbacks.c\<close>: the object callback that
  downgrades new handles, the enumeration that strips existing handles, and the periodic
  integrity timer. Image names, object types, process ids and the calls that register with
  Windows are parameters; a null image name makes \<^verbatim>\<open>strcmp\<close> fault.
\<close>

section \<open>State and environment\<close>

text \<open>A handle table entry, as far as it is used: the low word and the granted access bits.\<close>

record HANDLE_TABLE_ENTRY =
  he_VolatileLowValue :: u64
  he_GrantedAccessBits :: u32

record ob_st = cb_st +
  timer_state :: bool
  timer_work_item :: ptr

record ob_env =
  env_name :: "ptr \<Rightarrow> string option"
  env_name_buffer :: "ptr \<Rightarrow> u8 list"
  env_is_process :: "ptr \<Rightarrow> bool"
  env_pid :: "ptr \<Rightarrow> u64"
  env_alloc :: allocator

definition PROCESS_TERMINATE :: u32 where "PROCESS_TERMINATE = 0x0001"
definition PROCESS_CREATE_THREAD :: u32 where "PROCESS_CREATE_THREAD = 0x0002"
definition PROCESS_VM_OPERATION :: u32 where "PROCESS_VM_OPERATION = 0x0008"
definition PROCESS_VM_READ :: u32 where "PROCESS_VM_READ = 0x0010"
definition PROCESS_VM_WRITE :: u32 where "PROCESS_VM_WRITE = 0x0020"
definition PROCESS_DUP_HANDLE :: u32 where "PROCESS_DUP_HANDLE = 0x0040"
definition PROCESS_CREATE_PROCESS :: u32 where "PROCESS_CREATE_PROCESS = 0x0080"
definition PROCESS_SET_QUOTA :: u32 where "PROCESS_SET_QUOTA = 0x0100"
definition PROCESS_SET_INFORMATION :: u32 where "PROCESS_SET_INFORMATION = 0x0200"
definition PROCESS_QUERY_INFORMATION :: u32 where "PROCESS_QUERY_INFORMATION = 0x0400"
definition PROCESS_SUSPEND_RESUME :: u32 where "PROCESS_SUSPEND_RESUME = 0x0800"
definition PROCESS_QUERY_LIMITED_INFORMATION :: u32 where "PROCESS_QUERY_LIMITED_INFORMATION = 0x1000"
definition SYNCHRONIZE :: u32 where "SYNCHRONIZE = 0x00100000"

lemmas process_rights = PROCESS_TERMINATE_def PROCESS_CREATE_THREAD_def PROCESS_VM_OPERATION_def
  PROCESS_VM_READ_def PROCESS_VM_WRITE_def PROCESS_DUP_HANDLE_def PROCESS_CREATE_PROCESS_def
  PROCESS_SET_QUOTA_def PROCESS_SET_INFORMATION_def PROCESS_QUERY_INFORMATION_def
  PROCESS_SUSPEND_RESUME_def PROCESS_QUERY_LIMITED_INFORMATION_def SYNCHRONIZE_def

section \<open>New handles\<close>

text \<open>
  The pre-operation callback. The two \<^verbatim>\<open>DesiredAccess\<close> fields it writes are members of one
  union, so it returns the one access granted that Windows then grants.
\<close>

definition ObPreOpCallbackRoutine ::
  "ob_env \<Rightarrow> ptr \<Rightarrow> ptr \<Rightarrow> u32 \<Rightarrow> 'a sess_st_scheme \<Rightarrow> (u32 \<times> 'a sess_st_scheme) option" where
  "ObPreOpCallbackRoutine env process_creator target_process DesiredAccess s = do {
     let deny_access = SYNCHRONIZE OR PROCESS_TERMINATE;
     let (configuration, s) = SessionGetCallbackConfiguration s;
     (if \<not> configuration then Some (DesiredAccess, s)
      else do {
        let s = emit (Acquire ObConfigLock) s;
        let (protected_process_id, s) = SessionGetProcessId s;
        let (protected_process, s) = SessionGetProcess s;
        acc \<leftarrow>
          (if protected_process_id = 0 \<or> protected_process = NULL then Some DesiredAccess
           else case (env_name env protected_process, env_name env target_process) of
             (Some protected_name, Some target_name) \<Rightarrow>
               if protected_name \<noteq> target_name then Some DesiredAccess
               else do {
                 creator_name \<leftarrow> env_name env process_creator;
                 (if creator_name \<in> {''lsass.exe'', ''csrss.exe'', ''WerFault.exe'', ''MsMpEng.exe''}
                       \<or> creator_name = target_name
                  then Some DesiredAccess
                  else if target_process = process_creator then Some DesiredAccess
                  else Some deny_access)
               }
           | _ \<Rightarrow> Some DesiredAccess);
        Some (acc, emit (Release ObConfigLock) s)
      })
   }"

definition ObPostOpCallbackRoutine :: "'a sess_st_scheme \<Rightarrow> 'a sess_st_scheme" where
  "ObPostOpCallbackRoutine s = s"

section \<open>Existing handles\<close>

definition GET_OBJECT_HEADER_FROM_HANDLE :: "u64 \<Rightarrow> ptr" where
  "GET_OBJECT_HEADER_FROM_HANDLE x = push_bit 4 x OR 0xffff000000000000"

definition OBJECT_HEADER_SIZE :: u64 where "OBJECT_HEADER_SIZE = 0x30"

text \<open>\<^verbatim>\<open>ObjectPointerBits\<close> are the upper 44 bits of the low word.\<close>

definition handle_object :: "HANDLE_TABLE_ENTRY \<Rightarrow> ptr" where
  "handle_object e = GET_OBJECT_HEADER_FROM_HANDLE (drop_bit 20 (he_VolatileLowValue e)) + OBJECT_HEADER_SIZE"

definition ExUnlockHandleTableEntry ::
  "HANDLE_TABLE_ENTRY \<Rightarrow> 'a kst_scheme \<Rightarrow> HANDLE_TABLE_ENTRY \<times> 'a kst_scheme" where
  "ExUnlockHandleTableEntry Entry s =
     (Entry\<lparr>he_VolatileLowValue := he_VolatileLowValue Entry OR 1\<rparr>, emit (Call ''ExfUnblockPushLock'' []) s)"

text \<open>\<^verbatim>\<open>if (granted & right) GrantedAccessBits &= ~right\<close>\<close>

definition strip :: "u32 \<Rightarrow> u32 \<Rightarrow> HANDLE_TABLE_ENTRY \<Rightarrow> HANDLE_TABLE_ENTRY" where
  "strip granted right Entry =
     (if granted AND right \<noteq> 0
      then Entry\<lparr>he_GrantedAccessBits := he_GrantedAccessBits Entry AND NOT right\<rparr> else Entry)"

definition strip_common :: "u32 \<Rightarrow> HANDLE_TABLE_ENTRY \<Rightarrow> HANDLE_TABLE_ENTRY" where
  "strip_common granted Entry =
     (let Entry = strip granted PROCESS_CREATE_PROCESS Entry;
          Entry = strip granted PROCESS_CREATE_THREAD Entry;
          Entry = strip granted PROCESS_DUP_HANDLE Entry;
          Entry = strip granted PROCESS_QUERY_INFORMATION Entry;
          Entry = strip granted PROCESS_QUERY_LIMITED_INFORMATION Entry
      in strip granted PROCESS_VM_READ Entry)"

definition strip_non_critical :: "u32 \<Rightarrow> HANDLE_TABLE_ENTRY \<Rightarrow> HANDLE_TABLE_ENTRY" where
  "strip_non_critical granted Entry =
     (let Entry = strip granted PROCESS_SET_INFORMATION Entry;
          Entry = strip granted PROCESS_SET_QUOTA Entry;
          Entry = strip granted PROCESS_SUSPEND_RESUME Entry;
          Entry = strip granted PROCESS_TERMINATE Entry;
          Entry = strip granted PROCESS_VM_OPERATION Entry
      in strip granted PROCESS_VM_WRITE Entry)"

definition sizeof_OPEN_HANDLE_FAILURE_REPORT :: u32 where "sizeof_OPEN_HANDLE_FAILURE_REPORT = 84"

text \<open>The report on a stripped handle: allocated, filled, and handed to the IRP queue.\<close>

definition report_open_handle ::
  "ob_env \<Rightarrow> 'a irp_st_scheme csq_remove \<Rightarrow> ptr \<Rightarrow> u32 \<Rightarrow> 'a irp_st_scheme \<Rightarrow> 'a irp_st_scheme option" where
  "report_open_handle env csq process handle_access_mask s =
     (case ExAllocatePool2 (env_alloc env) REPORT_POOL_TAG s of
        (None, s) \<Rightarrow> Some s
      | (Some report, s) \<Rightarrow> do {
          let s = s\<lparr>pool := (pool s)(report \<mapsto> report_bytes (OPEN_HANDLE_FAILURE_REPORT
                REPORT_ILLEGAL_HANDLE_OPERATION 0 (ucast (env_pid env process)) 0 handle_access_mask
                (take 64 (env_name_buffer env process))))\<rparr>;
          (status, s) \<leftarrow> IrpQueueCompleteIrp csq (env_alloc env) report sizeof_OPEN_HANDLE_FAILURE_REPORT s;
          Some s
        })"

definition EnumHandleCallback ::
  "ob_env \<Rightarrow> 'a sess_st_scheme csq_remove \<Rightarrow> HANDLE_TABLE_ENTRY \<Rightarrow> 'a sess_st_scheme
   \<Rightarrow> (bool \<times> HANDLE_TABLE_ENTRY \<times> 'a sess_st_scheme) option" where
  "EnumHandleCallback env csq Entry s = do {
     let object = handle_object Entry;
     (Entry, s) \<leftarrow>
       (if \<not> env_is_process env object then Some (Entry, s)
        else do {
          let (protected_process, s) = SessionGetProcess s;
          name \<leftarrow> env_name env object;
          protected_name \<leftarrow> env_name env protected_process;
          (if name \<noteq> protected_name then Some (Entry, s)
           else do {
             let granted = he_GrantedAccessBits Entry;
             let Entry = strip_common granted Entry;
             (if name = ''csrss.exe'' \<or> name = ''lsass.exe'' then Some (Entry, s)
              else do {
                let Entry = strip_non_critical granted Entry;
                s \<leftarrow> report_open_handle env csq object granted s;
                Some (Entry, s)
              })
           })
        });
     let (Entry, s) = ExUnlockHandleTableEntry Entry s;
     Some (False, Entry, s)
   }"

text \<open>
  \<^verbatim>\<open>ExEnumHandleTable\<close> is a parameter that applies the callback to the entries of a table;
  \<open>handle_table\<close> and \<open>valid\<close> read the process structure and test an address.
\<close>

definition EnumerateProcessHandles ::
  "('a cb_st_scheme \<Rightarrow> 'a cb_st_scheme option) \<Rightarrow> (ptr \<Rightarrow> ptr) \<Rightarrow> (ptr \<Rightarrow> bool) \<Rightarrow> ptr
   \<Rightarrow> ptr \<Rightarrow> 'a cb_st_scheme \<Rightarrow> (NTSTATUS \<times> 'a cb_st_scheme) option" where
  "EnumerateProcessHandles ExEnumHandleTable handle_table valid PsInitialSystemProcess e s =
     (if e = NULL then Some (STATUS_INVALID_PARAMETER, s)
      else do {
        entry \<leftarrow> process_entry s e;
        (if pl_process entry = PsInitialSystemProcess then Some (STATUS_SUCCESS, s)
         else let table = handle_table (pl_process entry) in
           if table = NULL then Some (STATUS_INVALID_ADDRESS, s)
           else if \<not> valid table then Some (STATUS_INVALID_ADDRESS, s)
           else do {
             s \<leftarrow> ExEnumHandleTable s;
             Some (STATUS_SUCCESS, s)
           })
      })"

section \<open>Registration\<close>

definition UnregisterProcessObCallbacks :: "'a sess_st_scheme \<Rightarrow> 'a sess_st_scheme" where
  "UnregisterProcessObCallbacks s =
     (let s = emit (Acquire ConfigLock) s;
          h = registration_handle (session s);
          s = (if h \<noteq> NULL
               then (emit (Call ''ObUnRegisterCallbacks'' [h]) s)\<lparr>session := (session s)\<lparr>registration_handle := NULL\<rparr>\<rparr>
               else s)
      in emit (Release ConfigLock) s)"

text \<open>\<^verbatim>\<open>ObRegisterCallbacks\<close> gives a status and, on success, a handle.\<close>

definition RegisterProcessObCallbacks ::
  "NTSTATUS \<times> ptr \<Rightarrow> 'a sess_st_scheme \<Rightarrow> NTSTATUS \<times> 'a sess_st_scheme" where
  "RegisterProcessObCallbacks r s =
     (let s = emit (Acquire ConfigLock) s;
          s = emit (Call ''ObRegisterCallbacks'' []) s;
          s = (if NT_SUCCESS (fst r)
               then s\<lparr>session := (session s)\<lparr>registration_handle := snd r\<rparr>\<rparr> else s)
      in (fst r, emit (Release ConfigLock) s))"

section \<open>The integrity timer\<close>

text \<open>
  \<open>validate\<close> stands for the checks the work item runs, the dispatch routines and the
  driver image (\<^verbatim>\<open>ValidateOurDriversDispatchRoutines\<close>, \<^verbatim>\<open>ValidateOurDriverImage\<close>).
\<close>

definition TimerObjectWorkItemRoutine ::
  "('a ob_st_scheme \<Rightarrow> 'a ob_st_scheme) \<Rightarrow> 'a ob_st_scheme \<Rightarrow> 'a ob_st_scheme" where
  "TimerObjectWorkItemRoutine validate s =
     (let s = (if \<not> driver_active s then s else validate s)
      in s\<lparr>timer_state := False\<rparr>)"

definition TimerObjectCallbackRoutine :: "bool \<Rightarrow> 'a ob_st_scheme \<Rightarrow> 'a ob_st_scheme" where
  "TimerObjectCallbackRoutine HasDriverLoaded s =
     (if \<not> HasDriverLoaded then s
      else if timer_state s then s
      else emit (WorkItemQueued (timer_work_item s)) (s\<lparr>timer_state := True\<rparr>))"

definition InitialiseTimerObject :: "ptr \<Rightarrow> 'a ob_st_scheme \<Rightarrow> NTSTATUS \<times> 'a ob_st_scheme" where
  "InitialiseTimerObject work_item s =
     (let s = s\<lparr>timer_work_item := work_item\<rparr> in
      if work_item = NULL then (STATUS_MEMORY_NOT_ALLOCATED, s)
      else (STATUS_SUCCESS, emit (TimerSet 10000) (emit (WorkItemAlloc work_item) s)))"

text \<open>
  The cleanup of the timer, one call after the other: between any two of them a timer tick or the work item may run.
  The routine spins until the work item has run; while the flag is set it does not go on (\<open>None\<close>).
\<close>

datatype cleanup_point = CleanupStart | DpcsFlushed | FlagClear | TimerOff | ItemFreed

fun cleanup_section :: "cleanup_point \<Rightarrow> 'a ob_st_scheme \<Rightarrow> (cleanup_point \<times> 'a ob_st_scheme) option" where
  "cleanup_section CleanupStart s = Some (DpcsFlushed, emit (Call ''KeFlushQueuedDpcs'' []) s)"
| "cleanup_section DpcsFlushed s = (if timer_state s then None else Some (FlagClear, s))"
| "cleanup_section FlagClear s = Some (TimerOff, emit (TimerCancelled 10000) s)"
| "cleanup_section TimerOff s = Some (ItemFreed, emit (WorkItemFreed (timer_work_item s)) s)"
| "cleanup_section ItemFreed s = None"

text \<open>The whole routine, when nothing runs in between.\<close>

definition CleanupDriverTimerObjects :: "'a ob_st_scheme \<Rightarrow> 'a ob_st_scheme option" where
  "CleanupDriverTimerObjects s = do {
     (at, s) \<leftarrow> cleanup_section CleanupStart s;
     (at, s) \<leftarrow> cleanup_section at s;
     (at, s) \<leftarrow> cleanup_section at s;
     (at, s) \<leftarrow> cleanup_section at s;
     Some s
   }"

section \<open>Stripped rights\<close>

definition common_rights :: u32 where
  "common_rights = PROCESS_CREATE_PROCESS OR PROCESS_CREATE_THREAD OR PROCESS_DUP_HANDLE OR
     PROCESS_QUERY_INFORMATION OR PROCESS_QUERY_LIMITED_INFORMATION OR PROCESS_VM_READ"

definition non_critical_rights :: u32 where
  "non_critical_rights = PROCESS_SET_INFORMATION OR PROCESS_SET_QUOTA OR PROCESS_SUSPEND_RESUME OR
     PROCESS_TERMINATE OR PROCESS_VM_OPERATION OR PROCESS_VM_WRITE"

text \<open>Testing a right before clearing it makes no difference: stripping is one conjunction.\<close>

lemma strip_and:
  assumes "he_GrantedAccessBits Entry = granted AND keep"
  shows "strip granted right Entry = Entry\<lparr>he_GrantedAccessBits := granted AND (keep AND NOT right)\<rparr>"
proof (cases "granted AND right = 0")
  case True
  have "granted AND keep = granted AND (keep AND NOT right)"
  proof (rule bit_word_eqI)
    fix n assume "n < LENGTH(32)"
    have "\<not> (bit granted n \<and> bit right n)"
      using True by (metis bit_and_iff bit_0_eq bot_apply bot_bool_def)
    then show "bit (granted AND keep) n = bit (granted AND (keep AND NOT right)) n"
      using \<open>n < LENGTH(32)\<close> by (auto simp: bit_simps)
  qed
  then have "Entry = Entry\<lparr>he_GrantedAccessBits := granted AND (keep AND NOT right)\<rparr>"
    using assms by (cases Entry) simp
  then show ?thesis using True by (simp add: strip_def)
next
  case False
  then show ?thesis using assms by (simp add: strip_def and.assoc)
qed

lemma strip_upd:
  "strip granted right (Entry\<lparr>he_GrantedAccessBits := granted AND keep\<rparr>) =
   Entry\<lparr>he_GrantedAccessBits := granted AND (keep AND NOT right)\<rparr>"
  by (subst strip_and[where keep = keep]) simp_all

lemma strip_first:
  "strip (he_GrantedAccessBits Entry) right Entry =
   Entry\<lparr>he_GrantedAccessBits := he_GrantedAccessBits Entry AND NOT right\<rparr>"
  by (subst strip_and[where keep = "NOT 0"]) simp_all

lemma strip_common_eq:
  "strip_common (he_GrantedAccessBits Entry) Entry =
   Entry\<lparr>he_GrantedAccessBits := he_GrantedAccessBits Entry AND NOT common_rights\<rparr>"
  by (simp add: strip_common_def strip_first strip_upd and.assoc common_rights_def bit.de_Morgan_disj)

lemma strip_non_critical_eq:
  "strip_non_critical (he_GrantedAccessBits Entry) (Entry\<lparr>he_GrantedAccessBits := he_GrantedAccessBits Entry AND keep\<rparr>) =
   Entry\<lparr>he_GrantedAccessBits := he_GrantedAccessBits Entry AND (keep AND NOT non_critical_rights)\<rparr>"
  by (simp add: strip_non_critical_def strip_upd and.assoc non_critical_rights_def bit.de_Morgan_disj)

section \<open>Reports on handles\<close>

lemma report_open_handle_total:
  assumes "csq_remove_by_callbacks csq" "queue_inv s" "irps_ok s"
  shows "\<exists>s'. report_open_handle env csq process acc s = Some s'"
proof (cases "env_alloc env (k_allocs s)")
  case None
  then show ?thesis by (simp add: report_open_handle_def ExAllocatePool2_def)
next
  case (Some p)
  let ?r = "OPEN_HANDLE_FAILURE_REPORT REPORT_ILLEGAL_HANDLE_OPERATION 0 (ucast (env_pid env process)) 0 acc
    (take 64 (env_name_buffer env process))"
  let ?s1 = "emit (PoolAlloc p REPORT_POOL_TAG) (s\<lparr>k_allocs := Suc (k_allocs s)\<rparr>)"
  let ?s2 = "?s1\<lparr>pool := (pool s)(p \<mapsto> report_bytes ?r)\<rparr>"
  have "queue_inv ?s2" "irps_ok ?s2" "pool ?s2 p = Some (report_bytes ?r)"
    using assms(2,3) by (simp_all add: queue_inv_def irps_ok_def)
  moreover have "unat sizeof_OPEN_HANDLE_FAILURE_REPORT \<le> length (report_bytes ?r)"
    "sizeof_OPEN_HANDLE_FAILURE_REPORT \<noteq> 0"
    by (simp_all add: length_report_bytes sizeof_OPEN_HANDLE_FAILURE_REPORT_def)
  ultimately obtain st s' where
    "IrpQueueCompleteIrp csq (env_alloc env) p sizeof_OPEN_HANDLE_FAILURE_REPORT ?s2 = Some (st, s')"
    using IrpQueueCompleteIrp_total[OF assms(1)] by blast
  then show ?thesis using Some by (simp add: report_open_handle_def ExAllocatePool2_def)
qed

section \<open>Properties\<close>

text \<open>The creators that the object callback lets through.\<close>

definition trusted_creator :: "string \<Rightarrow> string \<Rightarrow> bool" where
  "trusted_creator creator target \<longleftrightarrow>
     creator \<in> {''lsass.exe'', ''csrss.exe'', ''WerFault.exe'', ''MsMpEng.exe'', target}"

text \<open>C1: the handle filter. While a session protects a process, a handle request on a process
  of the protected name is cut down to exactly \<^verbatim>\<open>SYNCHRONIZE | PROCESS_TERMINATE\<close>, unless
  the creator is one of the four trusted images, has the same name as the target, or is the
  target itself; every other request keeps the access it asked for, and so does every request
  when no process is protected. The session is not changed, and both locks are released.\<close>

theorem handle_filter:
  assumes "env_name env creator = Some cn" "env_name env target = Some tn"
    and "session_process (session s) \<noteq> NULL \<Longrightarrow> env_name env (session_process (session s)) = Some pn"
  shows "\<exists>s'. ObPreOpCallbackRoutine env creator target acc s =
      Some (if ucast (km_handle (session s)) \<noteq> (0 :: u32) \<and> session_process (session s) \<noteq> NULL
              \<and> tn = pn \<and> \<not> trusted_creator cn tn \<and> creator \<noteq> target
            then SYNCHRONIZE OR PROCESS_TERMINATE else acc, s')
     \<and> session s' = session s \<and> neutral {ObConfigLock, SessionLock} s s'"
proof -
  obtain s1 where s1: "SessionGetCallbackConfiguration s = (True, s1)" "session s1 = session s"
    "neutral {SessionLock} s s1"
    using session_reads(7,8)[of s] session_ops_neutral(4)[of s] by (cases "SessionGetCallbackConfiguration s") simp
  let ?s2 = "emit (Acquire ObConfigLock) s1"
  obtain s3 where s3: "SessionGetProcessId ?s2 = (ucast (km_handle (session s)), s3)" "session s3 = session s"
    "neutral {SessionLock} ?s2 s3"
    using session_reads(5,6)[of ?s2] session_ops_neutral(3)[of ?s2] s1(2) by (cases "SessionGetProcessId ?s2") simp
  obtain s4 where s4: "SessionGetProcess s3 = (session_process (session s), s4)" "session s4 = session s"
    "neutral {SessionLock} s3 s4"
    using session_reads(3,4)[of s3] session_ops_neutral(2)[of s3] s3(2) by (cases "SessionGetProcess s3") simp
  have "neutral {SessionLock} ?s2 s4" using s3(3) s4(3) by (rule neutral_trans)
  then have "neutral {ObConfigLock, SessionLock} s1 (emit (Release ObConfigLock) s4)"
    by (rule neutral_section) auto
  then have "neutral {ObConfigLock, SessionLock} s (emit (Release ObConfigLock) s4)"
    using neutral_mono[OF s1(3), of "{ObConfigLock, SessionLock}"] by (blast intro: neutral_trans)
  then show ?thesis
    using s1(1) s3(1) s4(1,2) assms
    by (auto simp: ObPreOpCallbackRoutine_def trusted_creator_def)
qed

definition example_ob_env :: ob_env where
  "example_ob_env = \<lparr>env_name = (\<lambda>p. if p = 1 \<or> p = 2 then Some ''game.exe'' else Some ''cheat.exe''),
     env_name_buffer = (\<lambda>_. replicate 64 0), env_is_process = (\<lambda>_. True), env_pid = id, env_alloc = (\<lambda>_. None)\<rparr>"

definition protected_sess_st :: sess_st where
  "protected_sess_st = example_sess_st\<lparr>session := example_session\<lparr>is_session_active := True, km_handle := 4,
     session_process := 1\<rparr>\<rparr>"

lemma protected_session: "session protected_sess_st =
    example_session\<lparr>is_session_active := True, km_handle := 4, session_process := 1\<rparr>"
  by (simp add: protected_sess_st_def)

theorem handle_filter_witness:
  "(\<exists>s'. ObPreOpCallbackRoutine example_ob_env 9 1 0x1FFFFF protected_sess_st =
      Some (SYNCHRONIZE OR PROCESS_TERMINATE, s'))
   \<and> (\<exists>s'. ObPreOpCallbackRoutine example_ob_env 2 1 0x1FFFFF protected_sess_st = Some (0x1FFFFF, s'))"
  using handle_filter[of example_ob_env 9 "''cheat.exe''" 1 "''game.exe''" protected_sess_st "''game.exe''" "0x1FFFFF"]
    handle_filter[of example_ob_env 2 "''game.exe''" 1 "''game.exe''" protected_sess_st "''game.exe''" "0x1FFFFF"]
  by (auto simp: protected_session example_session_def example_ob_env_def trusted_creator_def)

text \<open>C10: stripping an existing handle. When the enumeration meets a handle to a process of the
  protected name, the granted access loses exactly the six rights of the first group, and
  also the six of the second group unless the \<^emph>\<open>target\<close> is named \<^verbatim>\<open>csrss.exe\<close> or \<^verbatim>\<open>lsass.exe\<close>;
  every other bit is kept. The process that holds the handle plays no role: the comments say that a
  critical holder keeps the second group, but the name that is compared is that of the target, so that
  \<^verbatim>\<open>csrss.exe\<close> and \<^verbatim>\<open>lsass.exe\<close> lose all twelve rights on a protected process of another name. The entry is unlocked, the callback returns \<open>FALSE\<close> so that the
  enumeration goes on, and reporting never makes it fault.\<close>

theorem existing_handle_stripped:
  assumes "csq_remove_by_callbacks csq" "queue_inv s" "irps_ok s"
    and "env_is_process env (handle_object Entry)" "env_name env (handle_object Entry) = Some nm"
    and "env_name env (session_process (session s)) = Some nm"
  shows "\<exists>s'. EnumHandleCallback env csq Entry s = Some (False,
     Entry\<lparr>he_VolatileLowValue := he_VolatileLowValue Entry OR 1,
       he_GrantedAccessBits := he_GrantedAccessBits Entry AND
         NOT (if nm = ''csrss.exe'' \<or> nm = ''lsass.exe'' then common_rights
              else common_rights OR non_critical_rights)\<rparr>, s')"
proof -
  obtain s1 where s1: "SessionGetProcess s = (session_process (session s), s1)"
    by (metis session_reads(3) prod.collapse)
  then have "queue_inv s1" "irps_ok s1"
    using assms(2,3) by (auto simp: SessionGetProcess_def with_session_lock_def queue_inv_def irps_ok_def)
  then obtain s2 where "report_open_handle env csq (handle_object Entry) (he_GrantedAccessBits Entry) s1 = Some s2"
    using report_open_handle_total[OF assms(1)] by blast
  moreover have "strip_common (he_GrantedAccessBits Entry) Entry =
      Entry\<lparr>he_GrantedAccessBits := he_GrantedAccessBits Entry AND NOT common_rights\<rparr>"
    by (rule strip_common_eq)
  ultimately show ?thesis
    using assms(4-6) s1
    by (auto simp: EnumHandleCallback_def ExUnlockHandleTableEntry_def strip_non_critical_eq bit.de_Morgan_disj Let_def)
qed

theorem existing_handle_stripped_witness:
  "\<exists>s'. EnumHandleCallback (example_ob_env\<lparr>env_name := \<lambda>_. Some ''game.exe''\<rparr>) example_csq
     \<lparr>he_VolatileLowValue = 0, he_GrantedAccessBits = 0x1FFFFF\<rparr> protected_sess_st =
     Some (False, \<lparr>he_VolatileLowValue = 1, he_GrantedAccessBits = 0x1FE004\<rparr>, s')"
proof -
  have "queue_inv protected_sess_st" "irps_ok protected_sess_st"
    by (auto simp: protected_sess_st_def example_sess_st_def example_irp_st_def irp_st.defs sess_st.defs
        queue_inv_def irps_ok_def example_packet_irp_def split: if_splits)
  from existing_handle_stripped[OF example_csq_ok this, of "example_ob_env\<lparr>env_name := \<lambda>_. Some ''game.exe''\<rparr>"
      "\<lparr>he_VolatileLowValue = 0, he_GrantedAccessBits = 0x1FFFFF\<rparr>" "''game.exe''"]
  show ?thesis
    by (simp add: example_ob_env_def common_rights_def non_critical_rights_def process_rights)
qed

section \<open>The timer as a state machine\<close>

text \<open>
  The timer fires at any moment, a queued work item runs at some later moment, and the driver unloads at some moment.
  A configuration is the state, the number of work items that are queued and have not run, and how far
  the cleanup has come. What a tick queues is read off the trace.
\<close>

definition items_queued :: "'a ob_st_scheme \<Rightarrow> 'a ob_st_scheme \<Rightarrow> nat" where
  "items_queued s s' = length (filter (\<lambda>e. e = WorkItemQueued (timer_work_item s)) (drop (length (k_trace s)) (k_trace s')))"

inductive timer_step ::
  "('a ob_st_scheme \<Rightarrow> 'a ob_st_scheme) \<Rightarrow> 'a ob_st_scheme \<times> nat \<times> cleanup_point \<Rightarrow> 'a ob_st_scheme \<times> nat \<times> cleanup_point \<Rightarrow> bool"
  for validate where
  fires: "s' = TimerObjectCallbackRoutine loaded s \<Longrightarrow> timer_step validate (s, n, at) (s', n + items_queued s s', at)"
| runs: "timer_step validate (s, Suc n, at) (TimerObjectWorkItemRoutine validate s, n, at)"
| cleans: "cleanup_section at s = Some (at', s') \<Longrightarrow> timer_step validate (s, n, at) (s', n, at')"

inductive_cases timer_stepE: "timer_step validate a b"

lemma timer_state_emit [simp]: "timer_state (emit e s) = timer_state s" "timer_work_item (emit e s) = timer_work_item s"
  by (simp_all add: emit_def)

lemma tick_queues:
  "items_queued s (TimerObjectCallbackRoutine loaded s) = (if loaded \<and> \<not> timer_state s then 1 else 0)"
  "timer_state (TimerObjectCallbackRoutine loaded s) \<longleftrightarrow> loaded \<or> timer_state s"
  by (auto simp: TimerObjectCallbackRoutine_def items_queued_def emit_def)

lemma cleanup_section_flag: "cleanup_section at s = Some (at', s') \<Longrightarrow> timer_state s' = timer_state s"
  by (cases at) (auto split: if_splits)

definition tick_inv :: "'a ob_st_scheme \<times> nat \<times> cleanup_point \<Rightarrow> bool" where
  "tick_inv c \<longleftrightarrow> fst (snd c) = (if timer_state (fst c) then 1 else 0)"

lemma timer_step_inv:
  assumes "timer_step validate a b" "tick_inv a"
  shows "tick_inv b"
  using assms
  by (cases rule: timer_step.cases)
    (auto simp: tick_inv_def tick_queues TimerObjectWorkItemRoutine_def Let_def dest: cleanup_section_flag split: if_splits)

text \<open>A tick between the wait of the cleanup and the release of the work item.\<close>

lemma late_tick:
  assumes "\<not> timer_state s"
  shows "\<exists>u. (timer_step validate)\<^sup>*\<^sup>* (s, 0, FlagClear) (u, 1, ItemFreed)
     \<and> k_trace u = k_trace s @ [WorkItemQueued (timer_work_item s), TimerCancelled 10000, WorkItemFreed (timer_work_item s)]"
proof -
  let ?t = "TimerObjectCallbackRoutine True s"
  let ?u = "emit (TimerCancelled 10000) ?t"
  let ?v = "emit (WorkItemFreed (timer_work_item ?u)) ?u"
  have "timer_step validate (s, 0, FlagClear) (?t, 1, FlagClear)"
    using timer_step.fires[OF refl, of validate s 0 FlagClear True] assms by (simp add: tick_queues)
  moreover have "timer_step validate (?t, 1, FlagClear) (?u, 1, TimerOff)" "timer_step validate (?u, 1, TimerOff) (?v, 1, ItemFreed)"
    by (auto intro: timer_step.cleans)
  ultimately have "(timer_step validate)\<^sup>*\<^sup>* (s, 0, FlagClear) (?v, 1, ItemFreed)" by (meson converse_rtranclp_into_rtranclp r_into_rtranclp)
  moreover have "k_trace ?v = k_trace s @ [WorkItemQueued (timer_work_item s), TimerCancelled 10000, WorkItemFreed (timer_work_item s)]"
    using assms by (simp add: TimerObjectCallbackRoutine_def emit_def)
  ultimately show ?thesis by blast
qed

text \<open>C20: the integrity work item is never queued while it is queued or running, but it can be freed while it is. From a
  state with nothing queued, in every interleaving of timer ticks, runs of the work item and the calls of the cleanup,
  the flag of the timer is set exactly when one work item is pending and there is never a second one. The cleanup leaves
  its wait exactly when none is pending. But it cancels the timer only after the wait: whenever it is
  between the two, a tick can queue the work item again, and the cleanup then frees it while it is pending.\<close>

theorem timer_queues_at_most_one:
  assumes "(timer_step validate)\<^sup>*\<^sup>* (s, 0, CleanupStart) (s', n, at)" "\<not> timer_state s"
  shows "n = (if timer_state s' then 1 else 0)
     \<and> (at = DpcsFlushed \<longrightarrow> (cleanup_section at s' \<noteq> None \<longleftrightarrow> n = 0))
     \<and> (at = FlagClear \<and> n = 0 \<longrightarrow> (\<exists>u. (timer_step validate)\<^sup>*\<^sup>* (s', n, at) (u, 1, ItemFreed)
          \<and> k_trace u = k_trace s' @ [WorkItemQueued (timer_work_item s'), TimerCancelled 10000, WorkItemFreed (timer_work_item s')]))"
proof -
  have "tick_inv b" if "(timer_step validate)\<^sup>*\<^sup>* (s, 0, CleanupStart) b" for b
    using that by induction (use assms(2) timer_step_inv in \<open>auto simp: tick_inv_def[of "(s, _)"]\<close>)
  from this[OF assms(1)] have "n = (if timer_state s' then 1 else 0)" by (simp add: tick_inv_def)
  with late_tick[of s' validate] show ?thesis by (auto split: if_splits)
qed

definition example_ob_st :: ob_st where
  "example_ob_st = cb_st.extend example_cb_st (ob_st.fields False 5)"

theorem timer_queues_at_most_one_witness:
  "\<exists>u. (timer_step id)\<^sup>*\<^sup>* (example_ob_st, 0, CleanupStart) (u, 1, ItemFreed)"
proof -
  let ?s = "emit (Call ''KeFlushQueuedDpcs'' []) example_ob_st"
  have idle: "\<not> timer_state example_ob_st" by (simp add: example_ob_st_def cb_st.defs ob_st.defs)
  have "timer_step id (example_ob_st, 0, CleanupStart) (?s, 0, DpcsFlushed)" "timer_step id (?s, 0, DpcsFlushed) (?s, 0, FlagClear)"
    using idle by (auto intro!: timer_step.cleans)
  then have run: "(timer_step id)\<^sup>*\<^sup>* (example_ob_st, 0, CleanupStart) (?s, 0, FlagClear)" by (meson converse_rtranclp_into_rtranclp r_into_rtranclp)
  from timer_queues_at_most_one[OF run idle] run show ?thesis by (meson rtranclp_trans)
qed

end
