(* ===== verification/Apc.thy ===== *)
theory Apc
  imports ObCallbacks
begin

text \<open>
  The table of APC contexts, from \<^verbatim>\<open>src/driver/apc.c\<close>: ten slots in the driver configuration,
  each null or the address of a context whose header counts the APCs in flight. \<open>apc_mem\<close> are
  the live contexts, with the fields of the stackwalk context that the header starts.
\<close>

record APC_CONTEXT =
  ac_context_id :: u32
  ac_count :: u32
  ac_allocation_in_progress :: u32
  ac_modules :: ptr
  ac_modules_address :: ptr

record apc_st = ob_st +
  apc_contexts :: "ptr list"
  apc_mem :: "ptr \<rightharpoonup> APC_CONTEXT"
  unload_in_progress :: bool

definition MAXIMUM_APC_CONTEXTS :: nat where "MAXIMUM_APC_CONTEXTS = 10"
definition APC_CONTEXT_ID_STACKWALK :: u32 where "APC_CONTEXT_ID_STACKWALK = 1"

abbreviation POOL_TAG_APC :: pool_tag where "POOL_TAG_APC \<equiv> ''apcc''"

text \<open>The address of the table itself, inside the driver configuration.\<close>

definition ApcContextArray :: ptr where "ApcContextArray = 0x40"

section \<open>Primitives\<close>

definition AcquireDriverConfigLock :: "'a kst_scheme \<Rightarrow> 'a kst_scheme" where
  "AcquireDriverConfigLock s = emit (Acquire ConfigLock) s"

definition ReleaseDriverConfigLock :: "'a kst_scheme \<Rightarrow> 'a kst_scheme" where
  "ReleaseDriverConfigLock s = emit (Release ConfigLock) s"

definition IsDriverUnloading :: "'a apc_st_scheme \<Rightarrow> bool" where
  "IsDriverUnloading s = unload_in_progress s"

text \<open>Freeing an address that is no live context is a bug check.\<close>

definition free_apc_context :: "ptr \<Rightarrow> 'a apc_st_scheme \<Rightarrow> 'a apc_st_scheme option" where
  "free_apc_context p s =
     (if p \<in> dom (apc_mem s)
      then Some (emit (PoolFree p POOL_TAG_APC) (s\<lparr>apc_mem := (apc_mem s)(p := None)\<rparr>)) else None)"

definition set_slot :: "nat \<Rightarrow> ptr \<Rightarrow> 'a apc_st_scheme \<Rightarrow> 'a apc_st_scheme" where
  "set_slot i p s = s\<lparr>apc_contexts := (apc_contexts s)[i := p]\<rparr>"

definition slot :: "'a apc_st_scheme \<Rightarrow> nat \<Rightarrow> ptr option" where
  "slot s i = (if i < length (apc_contexts s) then Some (apc_contexts s ! i) else None)"

section \<open>Operations\<close>

definition GetApcContextByIndex :: "nat \<Rightarrow> 'a apc_st_scheme \<Rightarrow> (ptr \<times> 'a apc_st_scheme) option" where
  "GetApcContextByIndex Index s = do {
     let s = AcquireDriverConfigLock s;
     p \<leftarrow> slot s Index;
     Some (p, ReleaseDriverConfigLock s)
   }"

text \<open>The search over the slots that remain; the out parameter keeps its value when none matches.\<close>

primrec find_context :: "ptr \<Rightarrow> u32 \<Rightarrow> nat list \<Rightarrow> 'a apc_st_scheme \<Rightarrow> ptr option" where
  "find_context Context ContextIdentifier [] s = Some Context"
| "find_context Context ContextIdentifier (i # is) s = do {
     header \<leftarrow> slot s i;
     (if header = NULL then find_context Context ContextIdentifier is s
      else do {
        h \<leftarrow> apc_mem s header;
        (if ac_context_id h \<noteq> ContextIdentifier then find_context Context ContextIdentifier is s
         else Some header)
      })
   }"

definition GetApcContext :: "ptr \<Rightarrow> u32 \<Rightarrow> 'a apc_st_scheme \<Rightarrow> (ptr \<times> 'a apc_st_scheme) option" where
  "GetApcContext Context ContextIdentifier s = do {
     let s = AcquireDriverConfigLock s;
     p \<leftarrow> find_context Context ContextIdentifier [0..<MAXIMUM_APC_CONTEXTS] s;
     Some (p, ReleaseDriverConfigLock s)
   }"

primrec free_context_loop :: "ptr \<Rightarrow> nat list \<Rightarrow> 'a apc_st_scheme \<Rightarrow> (bool \<times> 'a apc_st_scheme) option" where
  "free_context_loop Context [] s = Some (False, s)"
| "free_context_loop Context (i # is) s = do {
     entry \<leftarrow> slot s i;
     (if entry \<noteq> Context then free_context_loop Context is s
      else do {
        h \<leftarrow> apc_mem s Context;
        (if 0 < sint (ac_count h) then Some (False, s)
         else do {
           s \<leftarrow> free_apc_context Context s;
           Some (True, set_slot i NULL s)
         })
      })
   }"

definition FreeApcContextStructure :: "ptr \<Rightarrow> 'a apc_st_scheme \<Rightarrow> (bool \<times> 'a apc_st_scheme) option" where
  "FreeApcContextStructure Context = free_context_loop Context [0..<MAXIMUM_APC_CONTEXTS]"

definition change_count ::
  "(u32 \<Rightarrow> u32) \<Rightarrow> ptr \<Rightarrow> 'a apc_st_scheme \<Rightarrow> 'a apc_st_scheme option" where
  "change_count f header s = do {
     let s = AcquireDriverConfigLock s;
     h \<leftarrow> apc_mem s header;
     let s = s\<lparr>apc_mem := (apc_mem s)(header \<mapsto> h\<lparr>ac_count := f (ac_count h)\<rparr>)\<rparr>;
     Some (ReleaseDriverConfigLock s)
   }"

definition IncrementApcCount :: "u32 \<Rightarrow> 'a apc_st_scheme \<Rightarrow> 'a apc_st_scheme option" where
  "IncrementApcCount ContextId s = do {
     (header, s) \<leftarrow> GetApcContext NULL ContextId s;
     (if header = NULL then Some s else change_count (\<lambda>c. c + 1) header s)
   }"

definition FreeApcAndDecrementApcCount :: "ptr \<Rightarrow> u32 \<Rightarrow> 'a apc_st_scheme \<Rightarrow> 'a apc_st_scheme option" where
  "FreeApcAndDecrementApcCount Apc ContextId s = do {
     let s = emit (PoolFree Apc POOL_TAG_APC) s;
     (context, s) \<leftarrow> GetApcContext NULL ContextId s;
     (if context = NULL then Some s else change_count (\<lambda>c. c - 1) context s)
   }"

text \<open>Reading through \<^verbatim>\<open>modules\<close> comes before the test of it: a null pointer there faults.\<close>

definition FreeApcStackwalkApcContextInformation :: "ptr \<Rightarrow> 'a apc_st_scheme \<Rightarrow> 'a apc_st_scheme option" where
  "FreeApcStackwalkApcContextInformation Context s = do {
     h \<leftarrow> apc_mem s Context;
     (if ac_modules h = NULL then None
      else let s = (if ac_modules_address h \<noteq> NULL
                    then emit (PoolFree (ac_modules_address h) SYSTEM_MODULES_POOL) s else s)
           in Some (emit (PoolFree (ac_modules h) POOL_TAG_APC) s))
   }"

definition query_slot :: "nat \<Rightarrow> 'a apc_st_scheme \<Rightarrow> 'a apc_st_scheme option" where
  "query_slot index s = do {
     (entry, s) \<leftarrow> GetApcContextByIndex index s;
     let s = AcquireDriverConfigLock s;
     s \<leftarrow> (if entry = NULL then Some s
           else do {
             h \<leftarrow> apc_mem s entry;
             (if 0 < sint (ac_count h) \<or> ac_allocation_in_progress h = 1 then Some s
              else if ac_context_id h = APC_CONTEXT_ID_STACKWALK then do {
                s \<leftarrow> FreeApcStackwalkApcContextInformation entry s;
                (_, s) \<leftarrow> FreeApcContextStructure entry s;
                Some s
              } else Some s)
           });
     Some (ReleaseDriverConfigLock s)
   }"

definition QueryActiveApcContextsForCompletion ::
  "'a apc_st_scheme \<Rightarrow> (NTSTATUS \<times> 'a apc_st_scheme) option" where
  "QueryActiveApcContextsForCompletion s = do {
     s \<leftarrow> for_each [0..<MAXIMUM_APC_CONTEXTS] query_slot s;
     Some (STATUS_SUCCESS, s)
   }"

primrec insert_loop :: "ptr \<Rightarrow> nat list \<Rightarrow> 'a apc_st_scheme \<Rightarrow> 'a apc_st_scheme option" where
  "insert_loop Context [] s = Some s"
| "insert_loop Context (i # is) s = do {
     entry \<leftarrow> slot s i;
     (if entry = NULL then Some (set_slot i Context s) else insert_loop Context is s)
   }"

definition InsertApcContext :: "ptr \<Rightarrow> 'a apc_st_scheme \<Rightarrow> 'a apc_st_scheme option" where
  "InsertApcContext Context s =
     (if IsDriverUnloading s then Some s
      else do {
        s \<leftarrow> insert_loop Context [0..<MAXIMUM_APC_CONTEXTS] (AcquireDriverConfigLock s);
        Some (ReleaseDriverConfigLock s)
      })"

text \<open>What is freed for a slot is \<^verbatim>\<open>entry\<close>, the address of the table, and not the context.\<close>

primrec unload_loop :: "nat list \<Rightarrow> 'a apc_st_scheme \<Rightarrow> (bool \<times> 'a apc_st_scheme) option" where
  "unload_loop [] s = Some (True, s)"
| "unload_loop (i # is) s = do {
     context \<leftarrow> slot s i;
     (if context = NULL then unload_loop is s
      else do {
        h \<leftarrow> apc_mem s context;
        (if 0 < sint (ac_count h) then Some (False, s)
         else do {
           s \<leftarrow> free_apc_context ApcContextArray s;
           unload_loop is s
         })
      })
   }"

definition DrvUnloadFreeAllApcContextStructures ::
  "'a apc_st_scheme \<Rightarrow> (bool \<times> 'a apc_st_scheme) option" where
  "DrvUnloadFreeAllApcContextStructures s = do {
     (r, s) \<leftarrow> unload_loop [0..<MAXIMUM_APC_CONTEXTS] (AcquireDriverConfigLock s);
     Some (r, ReleaseDriverConfigLock s)
   }"

section \<open>The table as a set of contexts\<close>

lemmas apc_emit = AcquireDriverConfigLock_def ReleaseDriverConfigLock_def

lemma apc_emit_fields [simp]:
  "apc_contexts (emit e s) = apc_contexts s" "apc_mem (emit e s) = apc_mem s"
  "unload_in_progress (emit e s) = unload_in_progress s"
  by (simp_all add: emit_def)

lemma set_slot_fields [simp]:
  "apc_contexts (set_slot i p s) = (apc_contexts s)[i := p]" "apc_mem (set_slot i p s) = apc_mem s"
  "k_trace (set_slot i p s) = k_trace s" "unload_in_progress (set_slot i p s) = unload_in_progress s"
  by (simp_all add: set_slot_def)

lemma slot_eq [simp]: "i < length (apc_contexts s) \<Longrightarrow> slot s i = Some (apc_contexts s ! i)"
  by (simp add: slot_def)

text \<open>
  A well-formed table has ten slots, no context is in two of them, and what a slot points to is
  live, its module buffer allocated.
\<close>

definition apc_inv :: "'a apc_st_scheme \<Rightarrow> bool" where
  "apc_inv s \<longleftrightarrow> length (apc_contexts s) = MAXIMUM_APC_CONTEXTS
     \<and> distinct (filter (\<lambda>p. p \<noteq> NULL) (apc_contexts s))
     \<and> (\<forall>p \<in> set (apc_contexts s). p \<noteq> NULL \<longrightarrow>
          (case apc_mem s p of None \<Rightarrow> False | Some h \<Rightarrow> ac_modules h \<noteq> NULL))"

definition idle :: "'a apc_st_scheme \<Rightarrow> ptr \<Rightarrow> bool" where
  "idle s p \<longleftrightarrow> p \<noteq> NULL \<and> (case apc_mem s p of None \<Rightarrow> False | Some h \<Rightarrow>
     \<not> 0 < sint (ac_count h) \<and> ac_allocation_in_progress h \<noteq> 1 \<and> ac_context_id h = APC_CONTEXT_ID_STACKWALK)"

lemma apc_inv_live:
  "apc_inv s \<Longrightarrow> p \<in> set (apc_contexts s) \<Longrightarrow> p \<noteq> NULL \<Longrightarrow> \<exists>h. apc_mem s p = Some h \<and> ac_modules h \<noteq> NULL"
  by (auto simp: apc_inv_def split: option.splits)

lemma distinct_filter_nth:
  "distinct (filter P xs) \<Longrightarrow> i < length xs \<Longrightarrow> P (xs ! i) \<Longrightarrow> j < i \<Longrightarrow> xs ! j \<noteq> xs ! i"
proof (induction xs arbitrary: i j)
  case (Cons x xs)
  show ?case
  proof (cases j)
    case 0
    with Cons.prems have "xs ! (i - 1) \<in> set (filter P xs)" "xs ! (i - 1) = (x # xs) ! i"
      by (auto simp: nth_Cons' intro!: nth_mem)
    with Cons.prems(1) 0 show ?thesis by (cases "P x") auto
  next
    case (Suc j')
    with Cons.prems obtain i' where "i = Suc i'" by (cases i) auto
    with Cons Suc show ?thesis by (auto split: if_splits)
  qed
qed simp

text \<open>The three searches stop at the first slot that matches.\<close>

lemma free_context_loop_hit:
  assumes "k \<le> i" "i < n" "n \<le> length (apc_contexts s)" "apc_contexts s ! i = p"
    and "\<And>j. k \<le> j \<Longrightarrow> j < i \<Longrightarrow> apc_contexts s ! j \<noteq> p"
    and "apc_mem s p = Some h" "\<not> 0 < sint (ac_count h)"
  shows "free_context_loop p [k..<n] s = Some (True, set_slot i NULL
           (emit (PoolFree p POOL_TAG_APC) (s\<lparr>apc_mem := (apc_mem s)(p := None)\<rparr>)))"
  using assms(1,5)
proof (induction "i - k" arbitrary: k)
  case 0
  then have "k = i" by simp
  with assms show ?case by (simp add: upt_conv_Cons free_apc_context_def domIff fun_upd_def)
next
  case (Suc d)
  then have "k < i" by simp
  with Suc assms(2,3) show ?case by (simp add: upt_conv_Cons)
qed

lemma insert_loop_hit:
  assumes "k \<le> i" "i < n" "n \<le> length (apc_contexts s)" "apc_contexts s ! i = NULL"
    and "\<And>j. k \<le> j \<Longrightarrow> j < i \<Longrightarrow> apc_contexts s ! j \<noteq> NULL"
  shows "insert_loop p [k..<n] s = Some (set_slot i p s)"
  using assms(1,5)
proof (induction "i - k" arbitrary: k)
  case 0
  then have "k = i" by simp
  with assms show ?case by (simp add: upt_conv_Cons)
next
  case (Suc d)
  then have "k < i" by simp
  with Suc assms(2,3) show ?case by (simp add: upt_conv_Cons)
qed

lemma insert_loop_full:
  "\<forall>i \<in> set is. i < length (apc_contexts s) \<and> apc_contexts s ! i \<noteq> NULL \<Longrightarrow> insert_loop p is s = Some s"
  by (induction "is") simp_all

definition has_id :: "'a apc_st_scheme \<Rightarrow> u32 \<Rightarrow> ptr \<Rightarrow> bool" where
  "has_id s c p \<longleftrightarrow> p \<noteq> NULL \<and> map_option ac_context_id (apc_mem s p) = Some c"

lemma find_context_hit:
  assumes "\<forall>i \<in> set is. i < length (apc_contexts s)"
    and "\<forall>i \<in> set is. apc_contexts s ! i \<noteq> NULL \<longrightarrow> apc_contexts s ! i \<in> dom (apc_mem s)"
  shows "find_context d c is s = Some (case find (\<lambda>i. has_id s c (apc_contexts s ! i)) is of
           None \<Rightarrow> d | Some i \<Rightarrow> apc_contexts s ! i)"
  using assms by (induction "is") (auto simp: has_id_def split: option.splits)

lemma find_map_nth: "map_option f (find (\<lambda>x. P (f x)) xs) = find P (map f xs)"
  by (induction xs) simp_all

lemma GetApcContext_eq:
  assumes "apc_inv s"
  shows "GetApcContext d c s = Some (case find (has_id s c) (apc_contexts s) of None \<Rightarrow> d | Some p \<Rightarrow> p,
           emit (Release ConfigLock) (emit (Acquire ConfigLock) s))"
proof -
  let ?t = "emit (Acquire ConfigLock) s"
  have len: "length (apc_contexts s) = MAXIMUM_APC_CONTEXTS"
    and live: "\<And>p. p \<in> set (apc_contexts s) \<Longrightarrow> p \<noteq> NULL \<Longrightarrow> p \<in> dom (apc_mem s)"
    using assms by (simp add: apc_inv_def) (use assms apc_inv_live in blast)
  have "find_context d c [0..<MAXIMUM_APC_CONTEXTS] ?t
      = Some (case find (\<lambda>i. has_id ?t c (apc_contexts ?t ! i)) [0..<MAXIMUM_APC_CONTEXTS] of
          None \<Rightarrow> d | Some i \<Rightarrow> apc_contexts ?t ! i)"
    by (rule find_context_hit) (use len live in auto)
  also have "\<dots> = Some (case find (has_id s c) (map ((!) (apc_contexts s)) [0..<MAXIMUM_APC_CONTEXTS]) of
      None \<Rightarrow> d | Some p \<Rightarrow> p)"
    by (auto simp: has_id_def find_map_nth[symmetric] split: option.splits)
  also have "map ((!) (apc_contexts s)) [0..<MAXIMUM_APC_CONTEXTS] = apc_contexts s"
    using len map_nth by metis
  finally show ?thesis by (simp add: GetApcContext_def apc_emit)
qed

section \<open>Properties\<close>

lemma apc_section: "neutral {ConfigLock} s (emit (Release ConfigLock) (emit (Acquire ConfigLock) s))"
  by (rule neutral_balanced[where es = "[Acquire ConfigLock, Release ConfigLock]"]) auto

text \<open>One round of the query, on a slot whose context is in no earlier slot.\<close>

lemma query_slot_skip:
  assumes "apc_inv t" "i < MAXIMUM_APC_CONTEXTS" "\<not> idle t (apc_contexts t ! i)"
  shows "\<exists>t'. query_slot i t = Some t' \<and> apc_contexts t' = apc_contexts t \<and> apc_mem t' = apc_mem t
           \<and> neutral {ConfigLock} t t'"
proof -
  let ?u = "emit (Release ConfigLock) (emit (Acquire ConfigLock) t)"
  have "i < length (apc_contexts t)" using assms by (simp add: apc_inv_def)
  then have "query_slot i t = Some (emit (Release ConfigLock) (emit (Acquire ConfigLock) ?u))"
    using assms(3) apc_inv_live[OF assms(1), of "apc_contexts t ! i"]
    by (auto simp: query_slot_def GetApcContextByIndex_def apc_emit idle_def Let_def split: if_splits)
  then show ?thesis
    using neutral_trans[OF apc_section apc_section] by auto
qed

lemma query_slot_idle:
  assumes "apc_inv t" "i < MAXIMUM_APC_CONTEXTS" "idle t (apc_contexts t ! i)"
  shows "\<exists>t'. query_slot i t = Some t' \<and> apc_contexts t' = (apc_contexts t)[i := NULL]
           \<and> apc_mem t' = (apc_mem t)(apc_contexts t ! i := None) \<and> neutral {ConfigLock} t t'"
proof -
  let ?p = "apc_contexts t ! i"
  let ?u = "emit (Acquire ConfigLock) (emit (Release ConfigLock) (emit (Acquire ConfigLock) t))"
  have i: "i < length (apc_contexts t)" using assms by (simp add: apc_inv_def)
  from assms(3) apc_inv_live[OF assms(1) nth_mem[OF i]] obtain h where
    h: "?p \<noteq> NULL" "apc_mem t ?p = Some h" "ac_modules h \<noteq> NULL" "\<not> 0 < sint (ac_count h)"
      "ac_allocation_in_progress h \<noteq> 1" "ac_context_id h = APC_CONTEXT_ID_STACKWALK"
    by (auto simp: idle_def)
  define v where "v = (if ac_modules_address h \<noteq> NULL
      then emit (PoolFree (ac_modules_address h) SYSTEM_MODULES_POOL) ?u else ?u)"
  define w where "w = emit (PoolFree (ac_modules h) POOL_TAG_APC) v"
  have w: "apc_contexts w = apc_contexts t" "apc_mem w = apc_mem t"
    by (simp_all add: v_def w_def)
  have earlier: "apc_contexts t ! j \<noteq> ?p" if "j < i" for j
    using assms(1) distinct_filter_nth[OF _ i _ that] h(1) by (auto simp: apc_inv_def)
  have free: "FreeApcContextStructure ?p w = Some (True, set_slot i NULL
      (emit (PoolFree ?p POOL_TAG_APC) (w\<lparr>apc_mem := (apc_mem w)(?p := None)\<rparr>)))" (is "_ = Some (True, ?x)")
    unfolding FreeApcContextStructure_def
    by (rule free_context_loop_hit[where h = h]) (use assms(1,2) h earlier w in \<open>auto simp: apc_inv_def\<close>)
  have "query_slot i t = Some (emit (Release ConfigLock) ?x)"
    using h i free by (simp add: query_slot_def GetApcContextByIndex_def apc_emit
        FreeApcStackwalkApcContextInformation_def v_def w_def Let_def)
  moreover have "neutral {} ?u ?x"
    by (rule neutral_balanced[where es = "(if ac_modules_address h \<noteq> NULL
          then [PoolFree (ac_modules_address h) SYSTEM_MODULES_POOL] else [])
          @ [PoolFree (ac_modules h) POOL_TAG_APC, PoolFree ?p POOL_TAG_APC]"]) (auto simp: w_def v_def)
  then have "neutral {ConfigLock} t (emit (Release ConfigLock) ?x)"
    by (rule neutral_trans[OF apc_section neutral_section[where l = ConfigLock and ?s1.0 = ?u and ?s2.0 = ?x and L' = "{}"]]) auto
  ultimately show ?thesis using w by auto
qed

lemma filter_clear:
  "i < length xs \<Longrightarrow> distinct (filter (\<lambda>p. p \<noteq> NULL) xs) \<Longrightarrow>
   filter (\<lambda>p. p \<noteq> NULL) (xs[i := NULL]) = filter (\<lambda>p. p \<noteq> NULL \<and> p \<noteq> xs ! i) xs"
proof (induction xs arbitrary: i)
  case (Cons x xs)
  show ?case
  proof (cases i)
    case 0
    with Cons.prems show ?thesis by (auto intro: filter_cong)
  next
    case (Suc j)
    with Cons.prems have "xs ! j \<in> set xs" by simp
    with Cons Suc show ?thesis by (auto split: if_splits)
  qed
qed simp

lemma apc_inv_cong:
  "apc_contexts t' = apc_contexts t \<Longrightarrow> apc_mem t' = apc_mem t \<Longrightarrow> apc_inv t \<Longrightarrow> apc_inv t'"
  by (simp add: apc_inv_def)

lemma apc_inv_clear:
  assumes "apc_inv t" "i < MAXIMUM_APC_CONTEXTS" "apc_contexts t' = (apc_contexts t)[i := NULL]"
    and "apc_mem t' = (apc_mem t)(apc_contexts t ! i := None)"
  shows "apc_inv t'"
proof -
  let ?cs = "apc_contexts t"
  have i: "i < length ?cs" using assms by (simp add: apc_inv_def)
  have live: "\<forall>p \<in> set ?cs. p \<noteq> NULL \<longrightarrow> (case apc_mem t p of None \<Rightarrow> False | Some h \<Rightarrow> ac_modules h \<noteq> NULL)"
    and d: "distinct (filter (\<lambda>p. p \<noteq> NULL) ?cs)"
    using assms(1) by (simp_all add: apc_inv_def)
  have f: "filter (\<lambda>p. p \<noteq> NULL) (?cs[i := NULL]) = filter (\<lambda>p. p \<noteq> NULL \<and> p \<noteq> ?cs ! i) ?cs"
    using filter_clear[OF i d] .
  have "p \<in> set ?cs \<and> p \<noteq> ?cs ! i" if "p \<in> set (?cs[i := NULL])" "p \<noteq> NULL" for p
    using arg_cong[OF f, of set] that by auto
  moreover have "distinct (filter (\<lambda>p. p \<noteq> NULL) (?cs[i := NULL]))"
    unfolding f using distinct_filter[OF d, of "\<lambda>p. p \<noteq> ?cs ! i"] by (simp add: conj_commute)
  ultimately show ?thesis
    using assms live by (auto simp: apc_inv_def)
qed

text \<open>The state after the first \<open>i\<close> slots have been looked at.\<close>

definition queried_upto :: "'a apc_st_scheme \<Rightarrow> nat \<Rightarrow> 'a apc_st_scheme \<Rightarrow> bool" where
  "queried_upto s i t \<longleftrightarrow>
     apc_contexts t = map (\<lambda>p. if idle s p then NULL else p) (take i (apc_contexts s)) @ drop i (apc_contexts s)
     \<and> apc_mem t = (\<lambda>p. if p \<in> set (take i (apc_contexts s)) \<and> idle s p then None else apc_mem s p)
     \<and> apc_inv t \<and> neutral {ConfigLock} s t"

lemma query_slot_step:
  assumes "apc_inv s" "i < MAXIMUM_APC_CONTEXTS" "queried_upto s i t"
  shows "\<exists>t'. query_slot i t = Some t' \<and> queried_upto s (Suc i) t'"
proof -
  let ?cs = "apc_contexts s" and ?p = "apc_contexts s ! i"
  note P = assms(3)[unfolded queried_upto_def]
  have len: "length ?cs = MAXIMUM_APC_CONTEXTS" using assms(1) by (simp add: apc_inv_def)
  have nth: "apc_contexts t ! i = ?p" using P assms(2) len by (simp add: nth_append)
  have step: "take (Suc i) ?cs = take i ?cs @ [?p]" "drop i ?cs = ?p # drop (Suc i) ?cs"
    using assms(2) len by (simp_all add: take_Suc_conv_app_nth Cons_nth_drop_Suc)
  have new: "?p \<notin> set (take i ?cs)" if "?p \<noteq> NULL"
    using that assms(1,2) len distinct_filter_nth[of "\<lambda>p. p \<noteq> NULL" ?cs i] by (auto simp: in_set_conv_nth apc_inv_def)
  have idle: "idle t ?p \<longleftrightarrow> idle s ?p" using P new by (auto simp: idle_def)
  show ?thesis
  proof (cases "idle s ?p")
    case True
    with query_slot_idle[of t i] P assms(2) nth idle obtain t' where
      t': "query_slot i t = Some t'" "apc_contexts t' = (apc_contexts t)[i := NULL]"
        "apc_mem t' = (apc_mem t)(?p := None)" "neutral {ConfigLock} t t'"
      by auto
    moreover have "apc_inv t'" using apc_inv_clear[of t i] P t'(2,3) nth assms(2) len by simp
    ultimately have "queried_upto s (Suc i) t'"
      using P step True assms(2) len neutral_trans[OF _ t'(4)]
      by (auto simp: queried_upto_def list_update_append fun_eq_iff)
    with t'(1) show ?thesis by blast
  next
    case False
    with query_slot_skip[of t i] P assms(2) nth idle obtain t' where
      t': "query_slot i t = Some t'" "apc_contexts t' = apc_contexts t" "apc_mem t' = apc_mem t" "neutral {ConfigLock} t t'"
      by auto
    moreover have "apc_inv t'" using apc_inv_cong[OF t'(2,3)] P by simp
    ultimately have "queried_upto s (Suc i) t'"
      using P step False neutral_trans[OF _ t'(4)] by (auto simp: queried_upto_def fun_eq_iff)
    with t'(1) show ?thesis by blast
  qed
qed

text \<open>C19: the query of the APC contexts frees exactly the finished ones. On a well-formed table
  the query returns success; the slots of the idle stackwalk contexts (no APC in flight, no
  allocation in progress) are cleared and their contexts freed, every other slot and context
  stays as it was, and the configuration lock is taken and released in balance.\<close>

theorem query_frees_idle_contexts:
  assumes "apc_inv s"
  shows "\<exists>s'. QueryActiveApcContextsForCompletion s = Some (STATUS_SUCCESS, s')
           \<and> apc_contexts s' = map (\<lambda>p. if idle s p then NULL else p) (apc_contexts s)
           \<and> apc_mem s' = (\<lambda>p. if p \<in> set (apc_contexts s) \<and> idle s p then None else apc_mem s p)
           \<and> apc_inv s' \<and> neutral {ConfigLock} s s'"
proof -
  have "queried_upto s 0 s" using assms by (simp add: queried_upto_def neutral_refl)
  then have "\<exists>s'. for_each [0..<MAXIMUM_APC_CONTEXTS] query_slot s = Some s' \<and> queried_upto s MAXIMUM_APC_CONTEXTS s'"
    by (rule for_each_upt) (rule query_slot_step[OF assms])
  moreover have "length (apc_contexts s) = MAXIMUM_APC_CONTEXTS" using assms by (simp add: apc_inv_def)
  ultimately show ?thesis by (auto simp: QueryActiveApcContextsForCompletion_def queried_upto_def)
qed

lemma find_update:
  "i < length xs \<Longrightarrow> \<forall>x \<in> set xs. \<not> P x \<Longrightarrow> P p \<Longrightarrow> find P (xs[i := p]) = Some p"
  by (induction xs arbitrary: i) (auto split: nat.splits)

lemma apc_inv_insert:
  assumes "apc_inv s" "i < length (apc_contexts s)" "apc_contexts s ! i = NULL" "p \<notin> set (apc_contexts s)"
    and "apc_mem s p = Some h" "ac_modules h \<noteq> NULL"
    and "apc_contexts s' = (apc_contexts s)[i := p]" "apc_mem s' = apc_mem s"
  shows "apc_inv s'"
proof -
  let ?cs = "apc_contexts s"
  have split: "?cs = take i ?cs @ NULL # drop (Suc i) ?cs"
    using assms(2,3) id_take_nth_drop by metis
  have "?cs[i := p] = take i ?cs @ p # drop (Suc i) ?cs"
    using assms(2) upd_conv_take_nth_drop by metis
  moreover have "distinct (filter (\<lambda>p. p \<noteq> NULL) (take i ?cs @ NULL # drop (Suc i) ?cs))"
    "p \<notin> set (take i ?cs @ NULL # drop (Suc i) ?cs)"
    using assms(1,4) split by (simp_all add: apc_inv_def)
  ultimately have "distinct (filter (\<lambda>p. p \<noteq> NULL) (?cs[i := p]))" by auto
  moreover have "set (?cs[i := p]) \<subseteq> insert p (set ?cs)" by (rule set_update_subset_insert)
  ultimately show ?thesis
    using assms by (auto simp: apc_inv_def)
qed

definition example_apc_st :: "ptr list \<Rightarrow> (ptr \<rightharpoonup> APC_CONTEXT) \<Rightarrow> apc_st" where
  "example_apc_st cs m = ob_st.extend example_ob_st (apc_st.fields cs m False)"

lemma example_apc_st_fields [simp]:
  "apc_contexts (example_apc_st cs m) = cs" "apc_mem (example_apc_st cs m) = m"
  "\<not> unload_in_progress (example_apc_st cs m)"
  by (simp_all add: example_apc_st_def ob_st.defs apc_st.defs)

definition example_context :: "u32 \<Rightarrow> APC_CONTEXT" where
  "example_context n = \<lparr>ac_context_id = 1, ac_count = n, ac_allocation_in_progress = 0,
     ac_modules = 0x500, ac_modules_address = 0x600\<rparr>"

text \<open>Two stackwalk contexts: one with two APCs in flight, one whose APCs have all run.\<close>

abbreviation two_contexts :: apc_st where
  "two_contexts \<equiv> example_apc_st [0x100, 0x200, 0, 0, 0, 0, 0, 0, 0, 0]
     [0x100 \<mapsto> example_context 2, 0x200 \<mapsto> example_context 0]"

lemma two_contexts_inv: "apc_inv two_contexts"
  by (simp add: apc_inv_def MAXIMUM_APC_CONTEXTS_def example_context_def)

theorem query_frees_idle_contexts_witness:
  "\<exists>s'. QueryActiveApcContextsForCompletion two_contexts = Some (STATUS_SUCCESS, s')
      \<and> apc_contexts s' = [0x100, 0, 0, 0, 0, 0, 0, 0, 0, 0]
      \<and> apc_mem s' = [0x100 \<mapsto> example_context 2]"
  using query_frees_idle_contexts[OF two_contexts_inv]
  by (auto simp: idle_def example_context_def APC_CONTEXT_ID_STACKWALK_def fun_eq_iff)

lemma insert_registers:
  assumes "apc_inv s" "\<not> IsDriverUnloading s" "p \<noteq> NULL" "apc_mem s p = Some h" "ac_modules h \<noteq> NULL"
    and "\<forall>q \<in> set (apc_contexts s). \<not> has_id s (ac_context_id h) q" "NULL \<in> set (apc_contexts s)"
  shows "\<exists>i s1. s1 = emit (Release ConfigLock) (set_slot i p (emit (Acquire ConfigLock) s))
     \<and> InsertApcContext p s = Some s1 \<and> apc_inv s1 \<and> find (has_id s1 (ac_context_id h)) (apc_contexts s1) = Some p"
proof -
  let ?cs = "apc_contexts s"
  define i where "i = (LEAST i. i < length ?cs \<and> ?cs ! i = NULL)"
  have i: "i < length ?cs" "?cs ! i = NULL" "\<And>j. j < i \<Longrightarrow> ?cs ! j \<noteq> NULL"
  proof -
    from assms(7) obtain k where k: "k < length ?cs \<and> ?cs ! k = NULL" by (auto simp: in_set_conv_nth)
    show a: "i < length ?cs" "?cs ! i = NULL" using LeastI[where P = "\<lambda>i. i < length ?cs \<and> ?cs ! i = NULL", OF k] by (simp_all add: i_def)
    show "?cs ! j \<noteq> NULL" if "j < i" for j
      using not_less_Least[OF that[unfolded i_def]] a(1) that by simp
  qed
  have p: "p \<notin> set ?cs" using assms(3,4,6) by (auto simp: has_id_def)
  let ?s = "emit (Release ConfigLock) (set_slot i p (emit (Acquire ConfigLock) s))"
  have ins: "InsertApcContext p s = Some ?s"
    using assms(1,2) insert_loop_hit[of 0 i MAXIMUM_APC_CONTEXTS "emit (Acquire ConfigLock) s"] i
    by (simp add: InsertApcContext_def apc_emit apc_inv_def)
  have inv: "apc_inv ?s"
    by (rule apc_inv_insert[OF assms(1) i(1,2) p assms(4,5)]) simp_all
  have "find (has_id ?s (ac_context_id h)) (?cs[i := p]) = Some p"
    using assms(3,4,6) i(1) by (intro find_update) (auto simp: has_id_def)
  then show ?thesis using ins inv by auto
qed

text \<open>A context that is registered is found under its identifier, if there is room for it.
  When the driver is not unloading and no registered context has the identifier, a registered
  live context is what the lookup returns when a slot is free; with all ten slots taken the
  insertion changes nothing, without telling the caller, and the lookup leaves the out
  parameter unchanged.\<close>

theorem InsertApcContext_then_GetApcContext:
  assumes "apc_inv s" "\<not> IsDriverUnloading s" "p \<noteq> NULL" "apc_mem s p = Some h" "ac_modules h \<noteq> NULL"
    and "\<forall>q \<in> set (apc_contexts s). \<not> has_id s (ac_context_id h) q"
  shows "\<exists>s1 s2. InsertApcContext p s = Some s1 \<and> apc_inv s1
     \<and> GetApcContext NULL (ac_context_id h) s1 = Some (if NULL \<in> set (apc_contexts s) then p else NULL, s2)
     \<and> (NULL \<notin> set (apc_contexts s) \<longrightarrow> apc_contexts s1 = apc_contexts s)"
proof (cases "NULL \<in> set (apc_contexts s)")
  case True
  from insert_registers[OF assms True] obtain s1 where s1: "InsertApcContext p s = Some s1" "apc_inv s1"
    "find (has_id s1 (ac_context_id h)) (apc_contexts s1) = Some p" by blast
  then show ?thesis using True GetApcContext_eq[OF s1(2), of NULL "ac_context_id h"] by auto
next
  case False
  let ?s = "emit (Release ConfigLock) (emit (Acquire ConfigLock) s)"
  have "InsertApcContext p s = Some ?s"
    using assms(1,2) False insert_loop_full[of "[0..<MAXIMUM_APC_CONTEXTS]" "emit (Acquire ConfigLock) s"]
    by (auto simp: InsertApcContext_def apc_emit apc_inv_def in_set_conv_nth)
  moreover have inv: "apc_inv ?s" using assms(1) apc_inv_cong[of ?s s] by simp
  moreover have "find (has_id ?s (ac_context_id h)) (apc_contexts ?s) = None"
    using assms(6) by (auto simp: find_None_iff has_id_def)
  ultimately show ?thesis using False GetApcContext_eq[OF inv, of NULL "ac_context_id h"] by auto
qed

theorem InsertApcContext_then_GetApcContext_witness:
  "\<exists>s1 s2. InsertApcContext 0x300 (example_apc_st (replicate 10 0) [0x300 \<mapsto> example_context 0]) = Some s1
      \<and> GetApcContext NULL 1 s1 = Some (0x300, s2)"
proof -
  have "apc_inv (example_apc_st (replicate 10 0) [0x300 \<mapsto> example_context 0])"
    by (simp add: apc_inv_def MAXIMUM_APC_CONTEXTS_def)
  from InsertApcContext_then_GetApcContext[OF this, of "0x300" "example_context 0"] show ?thesis
    by (auto simp: example_context_def IsDriverUnloading_def has_id_def)
qed

text \<open>Changing the count of the context that has an identifier.\<close>

lemma change_count_some:
  assumes "apc_mem s p = Some h"
  shows "\<exists>s'. change_count f p s = Some s' \<and> apc_contexts s' = apc_contexts s
           \<and> apc_mem s' = (apc_mem s)(p \<mapsto> h\<lparr>ac_count := f (ac_count h)\<rparr>) \<and> neutral {ConfigLock} s s'"
  using assms
  by (auto simp: change_count_def apc_emit Let_def
      intro!: neutral_balanced[where es = "[Acquire ConfigLock, Release ConfigLock]"])

lemma apc_inv_count:
  "apc_inv s \<Longrightarrow> apc_contexts s' = apc_contexts s \<Longrightarrow> apc_mem s p = Some h
   \<Longrightarrow> apc_mem s' = (apc_mem s)(p \<mapsto> h\<lparr>ac_count := n\<rparr>) \<Longrightarrow> apc_inv s'"
  by (auto simp: apc_inv_def)

lemma sint_increment:
  fixes w :: u32
  assumes "0 \<le> sint w" "sint w < 0x7FFFFFFF"
  shows "0 < sint (w + 1)"
proof -
  have "sint (w + 1) = sint w + 1"
    using assms by (simp add: sint_word_ariths(1) signed_take_bit_int_eq_self_iff signed_take_bit_int_eq_self)
  then show ?thesis using assms by simp
qed

text \<open>Every APC is counted in and counted out. Queueing an APC for a registered context adds
  one to its count, so the context is busy and no query frees it; freeing the APC takes the one
  away again and leaves the table and the contexts as they were, wrap-around of the 32-bit count
  included, with the configuration lock free after each.\<close>

theorem apc_count_roundtrip:
  assumes "apc_inv s" "find (has_id s c) (apc_contexts s) = Some p" "apc_mem s p = Some h"
  shows "\<exists>s1 s2. IncrementApcCount c s = Some s1
     \<and> apc_mem s1 = (apc_mem s)(p \<mapsto> h\<lparr>ac_count := ac_count h + 1\<rparr>)
     \<and> (0 \<le> sint (ac_count h) \<and> sint (ac_count h) < 0x7FFFFFFF \<longrightarrow> \<not> idle s1 p)
     \<and> FreeApcAndDecrementApcCount a c s1 = Some s2
     \<and> apc_contexts s2 = apc_contexts s \<and> apc_mem s2 = apc_mem s \<and> apc_inv s2
     \<and> neutral {ConfigLock} s s1 \<and> neutral {ConfigLock} s1 s2"
proof -
  let ?r = "\<lambda>s. emit (Release ConfigLock) (emit (Acquire ConfigLock) s)"
  let ?h = "h\<lparr>ac_count := ac_count h + 1\<rparr>"
  have p: "p \<noteq> NULL" "has_id s c p" using assms(2) by (auto simp: find_Some_iff has_id_def)
  from change_count_some[of "?r s" p h "\<lambda>c. c + 1"] assms(3) obtain s1 where
    s1: "change_count (\<lambda>c. c + 1) p (?r s) = Some s1" "apc_contexts s1 = apc_contexts s"
      "apc_mem s1 = (apc_mem s)(p \<mapsto> ?h)" "neutral {ConfigLock} (?r s) s1" by auto
  have inv1: "apc_inv s1" using apc_inv_count[OF assms(1) s1(2) assms(3) s1(3)] .
  have id1: "has_id s1 c = has_id s c" using s1(3) assms(3) p by (auto simp: fun_eq_iff has_id_def)
  let ?f = "emit (PoolFree a POOL_TAG_APC) s1"
  have invf: "apc_inv ?f" using inv1 apc_inv_cong[of ?f s1] by simp
  have idf: "has_id ?f c = has_id s c" using id1 by (auto simp: fun_eq_iff has_id_def)
  from change_count_some[of "?r ?f" p ?h "\<lambda>c. c - 1"] s1(3) obtain s2 where
    s2: "change_count (\<lambda>c. c - 1) p (?r ?f) = Some s2" "apc_contexts s2 = apc_contexts s1"
      "apc_mem s2 = (apc_mem s1)(p \<mapsto> ?h\<lparr>ac_count := ac_count ?h - 1\<rparr>)" "neutral {ConfigLock} (?r ?f) s2"
    by auto
  have "IncrementApcCount c s = Some s1"
    using GetApcContext_eq[OF assms(1), of NULL c] assms(2) p(1) s1(1) by (simp add: IncrementApcCount_def)
  moreover have "FreeApcAndDecrementApcCount a c s1 = Some s2"
    using GetApcContext_eq[OF invf, of NULL c] assms(2) p(1) s2(1) idf s1(2)
    by (simp add: FreeApcAndDecrementApcCount_def)
  moreover have mem2: "apc_mem s2 = apc_mem s" using s1(3) s2(3) assms(3) by auto
  moreover have "apc_inv s2" using apc_inv_cong[OF _ mem2 assms(1)] s1(2) s2(2) by simp
  moreover have "neutral {ConfigLock} s s1" using neutral_trans[OF apc_section s1(4)] .
  moreover have "neutral {ConfigLock} s1 s2"
    using neutral_trans[OF neutral_emit[OF neutral_refl] neutral_trans[OF apc_section s2(4)]] by simp
  moreover have "0 < sint (ac_count h + 1)" if "0 \<le> sint (ac_count h)" "sint (ac_count h) < 0x7FFFFFFF"
    using that sint_increment by blast
  ultimately show ?thesis using s1(2,3) s2(2) by (auto simp: idle_def)
qed

theorem apc_count_roundtrip_witness:
  "\<exists>s1 s2. IncrementApcCount 1 two_contexts = Some s1
      \<and> FreeApcAndDecrementApcCount 0x700 1 s1 = Some s2 \<and> apc_mem s2 = apc_mem two_contexts"
proof -
  have "find (has_id two_contexts 1) (apc_contexts two_contexts) = Some 0x100"
    by (simp add: has_id_def example_context_def)
  from apc_count_roundtrip[OF two_contexts_inv this, of "example_context 2" "0x700"]
  show ?thesis by auto
qed

lemma unload_loop_none:
  "\<forall>i \<in> set is. i < length (apc_contexts s) \<and> apc_contexts s ! i = NULL \<Longrightarrow> unload_loop is s = Some (True, s)"
  by (induction "is") simp_all

lemma unload_loop_hit:
  assumes "\<forall>i \<in> set is. i < length (apc_contexts s)" "ApcContextArray \<notin> dom (apc_mem s)"
    and "find (\<lambda>i. apc_contexts s ! i \<noteq> NULL) is = Some i" "apc_mem s (apc_contexts s ! i) = Some h"
  shows "unload_loop is s = (if 0 < sint (ac_count h) then Some (False, s) else None)"
  using assms(1,3) by (induction "is") (use assms(2,4) in \<open>auto simp: free_apc_context_def split: if_splits\<close>)

text \<open>Unloading frees no APC context. With an empty table the cleanup returns true; when the
  first registered context has APCs in flight it returns false and the unload is retried; and
  when all APCs of that context have run, the routine hands the address of the table, which is
  no pool allocation, to the free routine: a bug check in place of the cleanup.\<close>

theorem unload_never_frees_a_context:
  assumes "apc_inv s" "ApcContextArray \<notin> dom (apc_mem s)"
  shows "DrvUnloadFreeAllApcContextStructures s =
     (case find (\<lambda>p. p \<noteq> NULL) (apc_contexts s) of
        None \<Rightarrow> Some (True, emit (Release ConfigLock) (emit (Acquire ConfigLock) s))
      | Some p \<Rightarrow> (if 0 < sint (ac_count (the (apc_mem s p)))
                   then Some (False, emit (Release ConfigLock) (emit (Acquire ConfigLock) s)) else None))"
proof -
  let ?t = "emit (Acquire ConfigLock) s"
  let ?is = "[0..<MAXIMUM_APC_CONTEXTS]"
  have len: "length (apc_contexts s) = MAXIMUM_APC_CONTEXTS" using assms(1) by (simp add: apc_inv_def)
  have map: "map ((!) (apc_contexts s)) ?is = apc_contexts s" using len map_nth by metis
  have f: "find (\<lambda>p. p \<noteq> NULL) (apc_contexts s)
      = map_option ((!) (apc_contexts s)) (find (\<lambda>i. apc_contexts s ! i \<noteq> NULL) ?is)"
    using find_map_nth[of "(!) (apc_contexts s)" "\<lambda>p. p \<noteq> NULL" ?is] map by simp
  show ?thesis
  proof (cases "find (\<lambda>i. apc_contexts s ! i \<noteq> NULL) ?is")
    case None
    then have "unload_loop ?is ?t = Some (True, ?t)"
      using len by (intro unload_loop_none) (auto simp: find_None_iff)
    with None f show ?thesis by (simp add: DrvUnloadFreeAllApcContextStructures_def apc_emit)
  next
    case (Some i)
    then have i: "i < length (apc_contexts s)" "apc_contexts s ! i \<noteq> NULL"
      using len by (auto simp: find_Some_iff)
    from apc_inv_live[OF assms(1) nth_mem[OF i(1)] i(2)] obtain h where
      h: "apc_mem s (apc_contexts s ! i) = Some h" by blast
    have "unload_loop ?is ?t = (if 0 < sint (ac_count h) then Some (False, ?t) else None)"
      by (rule unload_loop_hit[where i = i]) (use Some h assms(2) len in auto)
    with Some f h show ?thesis by (simp add: DrvUnloadFreeAllApcContextStructures_def apc_emit)
  qed
qed

theorem unload_never_frees_a_context_witness:
  "DrvUnloadFreeAllApcContextStructures
     (example_apc_st [0x200, 0, 0, 0, 0, 0, 0, 0, 0, 0] [0x200 \<mapsto> example_context 0]) = None"
  by (subst unload_never_frees_a_context)
    (simp_all add: apc_inv_def MAXIMUM_APC_CONTEXTS_def example_context_def ApcContextArray_def)

end
