(* ===== verification/Smbios.thy ===== *)
theory Smbios
  imports Memory
begin

text \<open>
  The parser of the SMBIOS firmware table, from \<^verbatim>\<open>src/driver/integrity.c\<close>: stepping from one
  structure to the next, reading a string of a structure by its number, and the routine that
  fetches the table and copies one string out of it. The firmware table is what
  \<^verbatim>\<open>ExGetSystemFirmwareTable\<close> returns, a parameter; only the bytes of its buffer are mapped, so a
  read behind the end of the buffer is a fault. The loops follow pointers until they meet a
  double zero and have no bound of their own, so they are partial functions.
\<close>

definition RAW_SMBIOS_DATA_layout :: layout where
  "RAW_SMBIOS_DATA_layout =
    [(''Used20CallingMethod'', 1, 1), (''SMBIOSMajorVersion'', 1, 1), (''SMBIOSMinorVersion'', 1, 1),
     (''DmiRevision'', 1, 1), (''Length'', 4, 4), (''SMBIOSTableData'', 1, 1)]"

definition SMBIOS_TABLE_HEADER_layout :: layout where
  "SMBIOS_TABLE_HEADER_layout = [(''Type'', 1, 1), (''Length'', 1, 1), (''Handle'', 2, 2), (''TableData'', 8, 8)]"

text \<open>The values of the enumeration \<^verbatim>\<open>SMBIOS_TABLE_INDEX\<close> and the string numbers the driver asks for.\<close>

definition SmbiosInformation :: u32 where "SmbiosInformation = 0"
definition SystemInformation :: u32 where "SystemInformation = 1"
definition VendorSpecificInformation :: u32 where "VendorSpecificInformation = 2"
definition SMBIOS_VMWARE_SERIAL_NUMBER_SUB_INDEX :: u32 where "SMBIOS_VMWARE_SERIAL_NUMBER_SUB_INDEX = 3"
definition SMBIOS_NATIVE_SERIAL_NUMBER_SUB_INDEX :: u32 where "SMBIOS_NATIVE_SERIAL_NUMBER_SUB_INDEX = 4"
definition SMBIOS_VENDOR_STRING_SUB_INDEX :: u32 where "SMBIOS_VENDOR_STRING_SUB_INDEX = 1"

abbreviation POOL_TAG_INTEGRITY :: pool_tag where "POOL_TAG_INTEGRITY \<equiv> ''intg''"

section \<open>Operations\<close>

text \<open>The condition of both loops; the second byte is read only when the first is zero.\<close>

definition both_null :: "memory \<Rightarrow> ptr \<Rightarrow> ptr \<Rightarrow> bool option" where
  "both_null m current next_char = do {
     c \<leftarrow> m current;
     (if c = 0 then map_option (\<lambda>d. d = 0) (m next_char) else Some False)
   }"

partial_function (option) next_structure_loop :: "memory \<Rightarrow> ptr \<Rightarrow> ptr \<Rightarrow> ptr option" where
  "next_structure_loop m current next_char = do {
     found \<leftarrow> both_null m current next_char;
     (if found then Some (next_char + 1) else next_structure_loop m (current + 1) (next_char + 1))
   }"

text \<open>The string section starts behind the formatted area, whose length the header holds.\<close>

definition string_section :: "memory \<Rightarrow> ptr \<Rightarrow> ptr option" where
  "string_section m table = do {
     len \<leftarrow> m (table + FIELD_OFFSET SMBIOS_TABLE_HEADER_layout ''Length'');
     Some (table + ucast len)
   }"

definition GetNextSMBIOSStructureInTable :: "memory \<Rightarrow> ptr \<Rightarrow> ptr option" where
  "GetNextSMBIOSStructureInTable m CurrentStructure = do {
     start \<leftarrow> string_section m CurrentStructure;
     next_structure_loop m start (start + 1)
   }"

text \<open>
  The index of the next character is an \<^verbatim>\<open>INT\<close> that the comparison with the \<^verbatim>\<open>SIZE_T\<close> size
  extends to 64 bits.
\<close>

partial_function (option) string_loop ::
  "memory \<Rightarrow> u32 \<Rightarrow> u64 \<Rightarrow> ptr \<Rightarrow> ptr \<Rightarrow> u32 \<Rightarrow> u32 \<Rightarrow> u8 list \<Rightarrow> (NTSTATUS \<times> u8 list) option" where
  "string_loop m Index BufferSize current next_char char_index string_count Buffer = do {
     found \<leftarrow> both_null m current next_char;
     (if found then Some (STATUS_NOT_FOUND, Buffer)
      else if BufferSize \<le> (scast char_index :: u64) then Some (STATUS_BUFFER_TOO_SMALL, Buffer)
      else do {
        c \<leftarrow> m current;
        (if string_count + 1 = Index then
           (if c = 0 then Some (STATUS_SUCCESS, Buffer)
            else if unat char_index < length Buffer
            then string_loop m Index BufferSize (current + 1) (next_char + 1) (char_index + 1) string_count
                   (Buffer[unat char_index := c])
            else None)
         else if c = 0
         then string_loop m Index BufferSize (current + 1) (next_char + 1) 0 (string_count + 1) Buffer
         else string_loop m Index BufferSize (current + 1) (next_char + 1) char_index string_count Buffer)
      })
   }"

definition GetStringAtIndexFromSMBIOSTable ::
  "memory \<Rightarrow> ptr \<Rightarrow> u32 \<Rightarrow> u8 list \<Rightarrow> u64 \<Rightarrow> (NTSTATUS \<times> u8 list) option" where
  "GetStringAtIndexFromSMBIOSTable m Table Index Buffer BufferSize = do {
     start \<leftarrow> string_section m Table;
     string_loop m Index BufferSize start (start + 1) 0 0 Buffer
   }"

partial_function (option) find_structure_loop :: "memory \<Rightarrow> u32 \<Rightarrow> ptr \<Rightarrow> ptr option" where
  "find_structure_loop m TableIndex header = do {
     t \<leftarrow> m (header + FIELD_OFFSET SMBIOS_TABLE_HEADER_layout ''Type'');
     (if (ucast t :: u32) = TableIndex then Some header
      else do {
        header \<leftarrow> GetNextSMBIOSStructureInTable m header;
        find_structure_loop m TableIndex header
      })
   }"

text \<open>
  \<open>fw_size\<close> is the size the first call of \<^verbatim>\<open>ExGetSystemFirmwareTable\<close> asks for, \<open>fw_fetch\<close> the
  status of the second call with the bytes it writes into the buffer.
\<close>

record firmware =
  fw_size :: u32
  fw_fetch :: "NTSTATUS \<times> u8 list"

definition buffer_memory :: "ptr \<Rightarrow> u8 list \<Rightarrow> memory" where
  "buffer_memory base bs p = (if unat (p - base) < length bs then Some (bs ! unat (p - base)) else None)"

definition ParseSMBIOSTable ::
  "firmware \<Rightarrow> allocator \<Rightarrow> u8 list \<Rightarrow> u64 \<Rightarrow> u32 \<Rightarrow> u32 \<Rightarrow> 'a kst_scheme
     \<Rightarrow> (NTSTATUS \<times> u8 list \<times> 'a kst_scheme) option" where
  "ParseSMBIOSTable fw alloc Buffer BufferSize TableIndex TableSubIndex s =
     (if fw_size fw = 0 then Some (STATUS_BUFFER_TOO_SMALL, Buffer, s)
      else case ExAllocatePool2 alloc POOL_TAG_INTEGRITY s of
        (None, s) \<Rightarrow> Some (STATUS_MEMORY_NOT_ALLOCATED, Buffer, s)
      | (Some p, s) \<Rightarrow> do {
          (status, Buffer) \<leftarrow>
            (if \<not> NT_SUCCESS (fst (fw_fetch fw)) then Some (fst (fw_fetch fw), Buffer)
             else do {
               let m = buffer_memory p (snd (fw_fetch fw));
               header \<leftarrow> find_structure_loop m TableIndex
                 (p + FIELD_OFFSET RAW_SMBIOS_DATA_layout ''SMBIOSTableData'');
               GetStringAtIndexFromSMBIOSTable m header TableSubIndex Buffer BufferSize
             });
          Some (status, Buffer, emit (PoolFree p POOL_TAG_INTEGRITY) s)
        })"

declare next_structure_loop.simps [code] string_loop.simps [code] find_structure_loop.simps [code]

section \<open>Bytes in memory\<close>

primrec holds :: "memory \<Rightarrow> ptr \<Rightarrow> u8 list \<Rightarrow> bool" where
  "holds m p [] = True"
| "holds m p (b # bs) = (m p = Some b \<and> holds m (p + 1) bs)"

lemma holds_append [simp]:
  "holds m p (xs @ ys) \<longleftrightarrow> holds m p xs \<and> holds m (p + of_nat (length xs)) ys"
  by (induction xs arbitrary: p) (simp_all add: algebra_simps)

lemma buffer_memory_holds:
  assumes "length bs \<le> 2 ^ 64"
  shows "holds (buffer_memory base bs) base bs"
proof -
  have "holds (buffer_memory base bs) (base + of_nat k) (drop k bs)" if "k \<le> length bs" for k
    using that
  proof (induction "length bs - k" arbitrary: k)
    case (Suc n)
    then have k: "k < length bs" "unat (of_nat k :: ptr) = k"
      using assms by (simp_all add: unat_of_nat_eq)
    then have "holds (buffer_memory base bs) (base + of_nat (Suc k)) (drop (Suc k) bs)"
      using Suc.hyps(1)[of "Suc k"] Suc.hyps(2) by simp
    then show ?case
      using k by (simp add: Cons_nth_drop_Suc[symmetric] buffer_memory_def algebra_simps)
  qed simp
  from this[of 0] show ?thesis by simp
qed

section \<open>The table as a list of structures\<close>

text \<open>
  The SMBIOS specification: a structure is a formatted area, whose first two bytes are its type
  and its length, and its strings, each ended by a zero and all of them by one more; with no
  strings there are two zeros.
\<close>

record smbios_structure =
  ss_type :: u8
  ss_rest :: "u8 list"
  ss_strings :: "u8 list list"

definition strings_bytes :: "u8 list list \<Rightarrow> u8 list" where
  "strings_bytes ss = (if ss = [] then [0, 0] else concat (map (\<lambda>x. x @ [0]) ss) @ [0])"

definition structure_bytes :: "smbios_structure \<Rightarrow> u8 list" where
  "structure_bytes t = [ss_type t, of_nat (length (ss_rest t) + 2)] @ ss_rest t @ strings_bytes (ss_strings t)"

definition strings_ok :: "u8 list list \<Rightarrow> bool" where
  "strings_ok ss \<longleftrightarrow> (\<forall>x \<in> set ss. x \<noteq> [] \<and> 0 \<notin> set x)"

definition structure_ok :: "smbios_structure \<Rightarrow> bool" where
  "structure_ok t \<longleftrightarrow> length (ss_rest t) + 2 < 256 \<and> strings_ok (ss_strings t)"

text \<open>Behind the last character of a string there is a first character of the next, or the end.\<close>

lemma next_structure_string:
  "holds m q (x @ [0, c]) \<Longrightarrow> 0 \<notin> set x \<Longrightarrow>
   next_structure_loop m q (q + 1) =
     (if c = 0 then Some (q + of_nat (length x) + 2)
      else next_structure_loop m (q + of_nat (length x) + 1) (q + of_nat (length x) + 2))"
proof (induction x arbitrary: q)
  case Nil
  then show ?case by (simp add: next_structure_loop.simps[of m q] both_null_def add.assoc)
next
  case (Cons a x)
  then show ?case
    using Cons.IH[of "q + 1"] by (simp add: next_structure_loop.simps[of m q] both_null_def algebra_simps)
qed

lemma strings_bytes_cons:
  "xs \<noteq> [] \<Longrightarrow> strings_bytes (x # xs) = x @ 0 # strings_bytes xs"
  "strings_bytes [x] = x @ [0, 0]"
  by (simp_all add: strings_bytes_def)

lemma strings_bytes_hd:
  "strings_ok (y # ys) \<Longrightarrow> \<exists>c bs. strings_bytes (y # ys) = c # bs \<and> c \<noteq> 0"
  by (cases y) (auto simp: strings_bytes_def strings_ok_def)

lemma next_structure_strings:
  "holds m q (strings_bytes ss) \<Longrightarrow> strings_ok ss \<Longrightarrow>
   next_structure_loop m q (q + 1) = Some (q + of_nat (length (strings_bytes ss)))"
proof (induction ss arbitrary: q)
  case Nil
  then show ?case by (simp add: strings_bytes_def next_structure_loop.simps[of m q] both_null_def)
next
  case (Cons x xs)
  have x: "0 \<notin> set x" using Cons.prems by (simp add: strings_ok_def)
  show ?case
  proof (cases xs)
    case Nil
    then show ?thesis
      using Cons.prems(1) next_structure_string[OF _ x, of m q 0] by (simp add: strings_bytes_cons add.assoc)
  next
    case (Cons y ys)
    from \<open>strings_ok (x # xs)\<close> have ok: "strings_ok xs" by (simp add: strings_ok_def)
    with Cons strings_bytes_hd[of y ys] obtain c bs where c: "strings_bytes xs = c # bs" "c \<noteq> 0" by auto
    have h: "holds m q (x @ [0, c])" "holds m (q + of_nat (length x) + 1) (strings_bytes xs)"
      using Cons.prems(1) Cons c by (auto simp: strings_bytes_cons(1))
    from Cons.IH[OF h(2) ok] have "next_structure_loop m (q + of_nat (length x) + 1) (q + of_nat (length x) + 2)
        = Some (q + of_nat (length x) + 1 + of_nat (length (strings_bytes xs)))"
      by (simp add: add.assoc)
    then show ?thesis
      using next_structure_string[OF h(1) x] c(2) Cons by (simp add: strings_bytes_cons(1) algebra_simps)
  qed
qed

section \<open>Reading a string\<close>

text \<open>
  What the string routine answers: the status and the buffer. The string is copied when it is
  shorter than the buffer, but the last string of a structure is answered with
  \<^verbatim>\<open>STATUS_NOT_FOUND\<close> all the same, as its end is the double zero.
\<close>

definition string_answer :: "u8 list list \<Rightarrow> nat \<Rightarrow> u8 list \<Rightarrow> NTSTATUS \<times> u8 list" where
  "string_answer ss i Buffer =
     (if 1 \<le> i \<and> i \<le> length ss then
        let x = ss ! (i - 1) in
        if length x < length Buffer
        then (if i < length ss then STATUS_SUCCESS else STATUS_NOT_FOUND, x @ drop (length x) Buffer)
        else if length x = length Buffer \<and> i = length ss then (STATUS_NOT_FOUND, x)
        else (STATUS_BUFFER_TOO_SMALL, take (length Buffer) x)
      else (STATUS_NOT_FOUND, Buffer))"

lemma index_fits:
  assumes "k \<le> n" "n < 2 ^ 31"
  shows "unat (of_nat k :: u32) = k" "(scast (of_nat k :: u32) :: u64) = of_nat k"
    "(of_nat n :: u64) \<le> of_nat k \<longleftrightarrow> n = k"
proof -
  have "k < 2 ^ 31" using assms by simp
  then show "unat (of_nat k :: u32) = k" by (simp add: unat_of_nat_eq)
  have "sint (of_nat k :: u32) = int k"
    using \<open>k < 2 ^ 31\<close> by (simp add: signed_of_nat signed_take_bit_int_eq_self)
  moreover have "(of_int (sint (of_nat k :: u32)) :: u64) = scast (of_nat k :: u32)" by (rule of_int_sint)
  ultimately show "(scast (of_nat k :: u32) :: u64) = of_nat k" by simp
  show "(of_nat n :: u64) \<le> of_nat k \<longleftrightarrow> n = k"
    using assms by (auto simp: word_le_nat_alt unat_of_nat_eq)
qed

lemma copy_string:
  assumes "holds m q (y @ [0, c])" "0 \<notin> set y" "n + 1 = Index"
    and "length pre + length suf < 2 ^ 31" "BufferSize = of_nat (length pre + length suf)"
  shows "string_loop m Index BufferSize q (q + 1) (of_nat (length pre)) n (pre @ suf) = Some
     (if length y < length suf
      then (if c = 0 then STATUS_NOT_FOUND else STATUS_SUCCESS, pre @ y @ drop (length y) suf)
      else if length y = length suf \<and> c = 0 then (STATUS_NOT_FOUND, pre @ y)
      else (STATUS_BUFFER_TOO_SMALL, pre @ take (length suf) y))"
  using assms
proof (induction y arbitrary: q pre suf)
  case Nil
  note fits = index_fits[of "length pre" "length pre + length suf", OF le_add1 Nil.prems(4)]
  show ?case
    using Nil.prems fits(3) by (auto simp: string_loop.simps[of m Index _ q] both_null_def fits(2) simp del: of_nat_add)
next
  case (Cons a y)
  note fits = index_fits[of "length pre" "length pre + length suf", OF le_add1 Cons.prems(4)]
  have a: "m q = Some a" "a \<noteq> 0" "holds m (q + 1) (y @ [0, c])" using Cons.prems by auto
  show ?case
  proof (cases suf)
    case Nil
    then show ?thesis
      using a fits Cons.prems by (simp add: string_loop.simps[of m Index _ q] both_null_def del: of_nat_add)
  next
    case (Cons b suf')
    have step: "string_loop m Index BufferSize q (q + 1) (of_nat (length pre)) n (pre @ suf)
        = string_loop m Index BufferSize (q + 1) (q + 1 + 1) (of_nat (length (pre @ [a]))) n ((pre @ [a]) @ suf')"
      using a fits Cons.prems Cons
      by (simp add: string_loop.simps[of m Index _ q] both_null_def list_update_append add.commute del: of_nat_add)
    show ?thesis
      unfolding step
      using Cons.IH[OF a(3), of "pre @ [a]" suf'] Cons.prems Cons by auto
  qed
qed

lemma skip_string:
  assumes "holds m q (y @ [0, c])" "0 \<notin> set y" "n + 1 \<noteq> Index" "BufferSize \<noteq> 0"
  shows "string_loop m Index BufferSize q (q + 1) 0 n Buffer =
     (if c = 0 then Some (STATUS_NOT_FOUND, Buffer)
      else string_loop m Index BufferSize (q + of_nat (length y) + 1) (q + of_nat (length y) + 2) 0 (n + 1) Buffer)"
  using assms
proof (induction y arbitrary: q)
  case Nil
  then show ?case by (simp add: string_loop.simps[of m Index _ q] both_null_def add.assoc)
next
  case (Cons a y)
  then show ?case
    using Cons.IH[of "q + 1"] by (simp add: string_loop.simps[of m Index _ q] both_null_def algebra_simps)
qed

lemma string_answer_Cons:
  "k \<noteq> 1 \<Longrightarrow> string_answer (x # xs) k Buffer = string_answer xs (k - 1) Buffer"
  by (cases k rule: nat.exhaust; cases "k - 1") (simp_all add: string_answer_def Let_def)

text \<open>The byte behind the end of a string tells whether another string follows.\<close>

lemma strings_split:
  assumes "holds m q (strings_bytes (x # xs))" "strings_ok xs"
  obtains c where "holds m q (x @ [0, c])" "c = 0 \<longleftrightarrow> xs = []"
    "xs \<noteq> [] \<Longrightarrow> holds m (q + of_nat (length x) + 1) (strings_bytes xs)"
proof (cases xs)
  case Nil
  then show thesis using that[of 0] assms(1) by (simp add: strings_bytes_cons)
next
  case (Cons y ys)
  with assms(2) strings_bytes_hd[of y ys] obtain d bs where "strings_bytes xs = d # bs" "d \<noteq> 0" by auto
  then show thesis using that[of d] assms(1) Cons by (auto simp: strings_bytes_cons(1))
qed

lemma string_index_eq:
  assumes "Suc n < 2 ^ 31" "i < 2 ^ 31"
  shows "(of_nat n :: u32) + 1 = of_nat i \<longleftrightarrow> i = Suc n"
proof -
  have "(of_nat (Suc n) :: u32) = of_nat i \<longleftrightarrow> Suc n = i"
    using assms by (simp only: word_unat_eq_iff) (simp add: unat_of_nat_eq del: of_nat_Suc)
  then show ?thesis by (auto simp: add.commute)
qed

lemma string_loop_strings:
  assumes "holds m q (strings_bytes ss)" "strings_ok ss" "Buffer \<noteq> []" "length Buffer < 2 ^ 31"
    and "i < 2 ^ 31" "n + length ss < 2 ^ 31" "i \<le> n \<longrightarrow> i = 0"
  shows "string_loop m (of_nat i) (of_nat (length Buffer)) q (q + 1) 0 (of_nat n) Buffer
       = Some (string_answer ss (i - n) Buffer)"
  using assms(1,2,6,7)
proof (induction ss arbitrary: q n)
  case Nil
  then show ?case
    by (auto simp: string_loop.simps[of m _ _ q] both_null_def strings_bytes_def string_answer_def)
next
  case (Cons x xs)
  have x: "x \<noteq> []" "0 \<notin> set x" and ok: "strings_ok xs" using Cons.prems by (auto simp: strings_ok_def)
  have size: "(of_nat (length Buffer) :: u64) \<noteq> 0"
    using assms(3,4) by (simp add: word_unat_eq_iff unat_of_nat_eq)
  obtain c where c: "holds m q (x @ [0, c])" "c = 0 \<longleftrightarrow> xs = []"
    and tl: "xs \<noteq> [] \<Longrightarrow> holds m (q + of_nat (length x) + 1) (strings_bytes xs)"
    using strings_split[OF Cons.prems(1) ok] by blast
  have index: "(of_nat n :: u32) + 1 = of_nat i \<longleftrightarrow> i = Suc n"
    using Cons.prems(3) assms(5) by (intro string_index_eq) simp_all
  show ?case
  proof (cases "i = Suc n")
    case True
    with copy_string[OF c(1) x(2), of "of_nat n" "of_nat i" "[]" Buffer] index assms(4) show ?thesis
      using c(2) by (auto simp: string_answer_def)
  next
    case False
    with skip_string[OF c(1) x(2) _ size, of "of_nat n" "of_nat i" Buffer] index
    have skip: "string_loop m (of_nat i) (of_nat (length Buffer)) q (q + 1) 0 (of_nat n) Buffer
      = (if xs = [] then Some (STATUS_NOT_FOUND, Buffer)
         else string_loop m (of_nat i) (of_nat (length Buffer)) (q + of_nat (length x) + 1)
                (q + of_nat (length x) + 1 + 1) 0 (of_nat (Suc n)) Buffer)"
      using c(2) by (simp add: add.assoc add.commute)
    show ?thesis
    proof (cases "xs = []")
      case True
      with skip False Cons.prems(4) show ?thesis by (auto simp: string_answer_def)
    next
      case nonempty: False
      have "string_answer (x # xs) (i - n) Buffer = string_answer xs (i - Suc n) Buffer"
        using string_answer_Cons[of "i - n" x xs Buffer] False by simp
      moreover have "string_loop m (of_nat i) (of_nat (length Buffer)) (q + of_nat (length x) + 1)
          (q + of_nat (length x) + 1 + 1) 0 (of_nat (Suc n)) Buffer = Some (string_answer xs (i - Suc n) Buffer)"
        by (rule Cons.IH[OF tl[OF nonempty] ok]) (use Cons.prems(3,4) False in auto)
      ultimately show ?thesis
        using skip nonempty by (simp only: if_False)
    qed
  qed
qed

lemma string_section_eq:
  assumes "holds m p (structure_bytes t)" "structure_ok t"
  shows "string_section m p = Some (p + of_nat (length (ss_rest t) + 2))"
    "holds m (p + of_nat (length (ss_rest t) + 2)) (strings_bytes (ss_strings t))"
    "m p = Some (ss_type t)"
proof -
  have "(ucast (of_nat n :: u8) :: u64) = of_nat n" if "n < 256" for n
    using that by (simp add: unsigned_of_nat take_bit_nat_eq_self)
  then have "(ucast (of_nat (length (ss_rest t) + 2) :: u8) :: u64) = of_nat (length (ss_rest t) + 2)"
    using assms(2) unfolding structure_ok_def by blast
  then show "string_section m p = Some (p + of_nat (length (ss_rest t) + 2))"
    using assms(1) by (simp add: string_section_def structure_bytes_def FIELD_OFFSET_def
        SMBIOS_TABLE_HEADER_layout_def align_up_def)
  show "holds m (p + of_nat (length (ss_rest t) + 2)) (strings_bytes (ss_strings t))" "m p = Some (ss_type t)"
    using assms(1) by (simp_all add: structure_bytes_def algebra_simps)
qed

lemma next_structure_eq:
  assumes "holds m p (structure_bytes t)" "structure_ok t"
  shows "GetNextSMBIOSStructureInTable m p = Some (p + of_nat (length (structure_bytes t)))"
proof -
  have "strings_ok (ss_strings t)" using assms(2) by (simp add: structure_ok_def)
  note next_structure_strings[OF string_section_eq(2)[OF assms] this]
  then show ?thesis
    using string_section_eq(1)[OF assms]
    by (simp add: GetNextSMBIOSStructureInTable_def structure_bytes_def add.assoc del: of_nat_add)
      (simp add: algebra_simps)
qed

section \<open>The whole routine\<close>

lemma GetStringAtIndexFromSMBIOSTable_eq:
  assumes "holds m p (structure_bytes t)" "structure_ok t" "Buffer \<noteq> []" "length Buffer < 2 ^ 31"
    and "i < 2 ^ 31" "length (ss_strings t) < 2 ^ 31"
  shows "GetStringAtIndexFromSMBIOSTable m p (of_nat i) Buffer (of_nat (length Buffer))
       = Some (string_answer (ss_strings t) i Buffer)"
proof -
  have "strings_ok (ss_strings t)" using assms(2) by (simp add: structure_ok_def)
  from string_loop_strings[OF string_section_eq(2)[OF assms(1,2)] this assms(3-5), of 0] assms(6)
  show ?thesis
    using string_section_eq(1)[OF assms(1,2)] by (simp add: GetStringAtIndexFromSMBIOSTable_def)
qed

lemma type_roundtrip: "(ucast (ucast w :: u32) :: u8) = w"
  by transfer simp

text \<open>Where the first structure of a type lies, behind the structures before it.\<close>

lemma find_structure_eq:
  assumes "holds m p (concat (map structure_bytes ts) @ structure_bytes t)"
    and "\<forall>u \<in> set ts. structure_ok u \<and> ss_type u \<noteq> ss_type t" "structure_ok t"
  shows "find_structure_loop m (ucast (ss_type t)) p = Some (p + of_nat (length (concat (map structure_bytes ts))))"
  using assms(1,2)
proof (induction ts arbitrary: p)
  case Nil
  then show ?case
    using string_section_eq(3)[OF _ assms(3), of m p]
    by (simp add: find_structure_loop.simps[of m _ p] FIELD_OFFSET_def SMBIOS_TABLE_HEADER_layout_def align_up_def)
next
  case (Cons u us)
  then have u: "holds m p (structure_bytes u)" "structure_ok u" "ss_type u \<noteq> ss_type t" by simp_all
  have "(ucast (ss_type u) :: u32) \<noteq> ucast (ss_type t)"
    using u(3) type_roundtrip by metis
  then have "find_structure_loop m (ucast (ss_type t)) p
      = find_structure_loop m (ucast (ss_type t)) (p + of_nat (length (structure_bytes u)))"
    using string_section_eq(3)[OF u(1,2)] next_structure_eq[OF u(1,2)]
    by (simp add: find_structure_loop.simps[of m _ p] FIELD_OFFSET_def SMBIOS_TABLE_HEADER_layout_def align_up_def)
  then show ?case
    using Cons.IH[of "p + of_nat (length (structure_bytes u))"] Cons.prems by (simp add: add.assoc)
qed

text \<open>C22: the SMBIOS query reads the right string of the right structure. For a firmware table made
  of well-formed structures, the routine steps to the first structure of the wanted type, copies
  the string of the wanted number into the buffer when it is shorter than the buffer, never
  writes behind the buffer, never reads outside of the firmware table, and frees the table on
  every path. A string that does not fit gives \<^verbatim>\<open>STATUS_BUFFER_TOO_SMALL\<close> and a number behind the
  last string \<^verbatim>\<open>STATUS_NOT_FOUND\<close>; so does the number of the last string, although it is copied.\<close>

theorem ParseSMBIOSTable_correct:
  assumes "snd (fw_fetch fw) = hdr @ concat (map structure_bytes ts) @ structure_bytes t @ after"
    and "length hdr = 8" "\<forall>u \<in> set ts. structure_ok u \<and> ss_type u \<noteq> ss_type t" "structure_ok t"
    and "length (snd (fw_fetch fw)) < 2 ^ 31" "fw_size fw \<noteq> 0" "NT_SUCCESS (fst (fw_fetch fw))"
    and "alloc (k_allocs s) = Some p" "Buffer \<noteq> []" "length Buffer < 2 ^ 31" "i < 2 ^ 31"
  shows "\<exists>s'. ParseSMBIOSTable fw alloc Buffer (of_nat (length Buffer)) (ucast (ss_type t)) (of_nat i) s
           = Some (fst (string_answer (ss_strings t) i Buffer), snd (string_answer (ss_strings t) i Buffer), s')
         \<and> k_trace s' = k_trace s @ [PoolAlloc p POOL_TAG_INTEGRITY, PoolFree p POOL_TAG_INTEGRITY]"
proof -
  let ?m = "buffer_memory p (snd (fw_fetch fw))"
  let ?q = "p + FIELD_OFFSET RAW_SMBIOS_DATA_layout ''SMBIOSTableData''"
  let ?r = "?q + of_nat (length (concat (map structure_bytes ts)))"
  have "holds ?m p (hdr @ concat (map structure_bytes ts) @ structure_bytes t @ after)"
    using buffer_memory_holds[of "snd (fw_fetch fw)" p] assms(1,5) by simp
  moreover have "FIELD_OFFSET RAW_SMBIOS_DATA_layout ''SMBIOSTableData'' = of_nat (length hdr)"
    using assms(2) by (simp add: FIELD_OFFSET_def RAW_SMBIOS_DATA_layout_def align_up_def)
  ultimately have h: "holds ?m ?q (concat (map structure_bytes ts) @ structure_bytes t)" by simp
  have few: "length (ss_strings t) < 2 ^ 31"
  proof -
    have "length (ss_strings t) \<le> length (strings_bytes (ss_strings t))"
      by (auto simp: strings_bytes_def length_concat comp_def sum_list_Suc)
    then show ?thesis using assms(1,5) by (simp add: structure_bytes_def)
  qed
  have "GetStringAtIndexFromSMBIOSTable ?m ?r (of_nat i) Buffer (of_nat (length Buffer))
      = Some (string_answer (ss_strings t) i Buffer)"
    using h by (intro GetStringAtIndexFromSMBIOSTable_eq assms few) simp
  then show ?thesis
    using find_structure_eq[OF h assms(3,4)] assms(6-8)
    by (auto simp: ParseSMBIOSTable_def ExAllocatePool2_def split: prod.splits)
qed

text \<open>A table with two structures: the type 1 structure is asked for the second of three strings.\<close>

definition example_structures :: "smbios_structure list" where
  "example_structures =
     [\<lparr>ss_type = 0, ss_rest = [7, 0, 1, 2], ss_strings = [[86, 77], [49]]\<rparr>,
      \<lparr>ss_type = 1, ss_rest = [8, 0], ss_strings = [[65], [66, 67], [68]]\<rparr>]"

definition example_firmware :: firmware where
  "example_firmware = \<lparr>fw_size = 40,
     fw_fetch = (STATUS_SUCCESS, [0, 3, 0, 0, 30, 0, 0, 0] @ concat (map structure_bytes example_structures))\<rparr>"

definition example_kst :: kst where
  "example_kst = \<lparr>k_trace = [], k_allocs = 0\<rparr>"

theorem ParseSMBIOSTable_correct_witness:
  "\<exists>s'. ParseSMBIOSTable example_firmware (\<lambda>_. Some 0x1000) [0, 0, 0, 0] 4 SystemInformation 2 example_kst
     = Some (STATUS_SUCCESS, [66, 67, 0, 0], s')"
proof -
  let ?t = "example_structures ! 0" and ?u = "example_structures ! 1"
  have "snd (fw_fetch example_firmware)
      = [0, 3, 0, 0, 30, 0, 0, 0] @ concat (map structure_bytes [?t]) @ structure_bytes ?u @ []"
    by (simp add: example_firmware_def example_structures_def)
  from ParseSMBIOSTable_correct[OF this, where alloc = "\<lambda>_. Some 0x1000" and s = example_kst
      and Buffer = "[0, 0, 0, 0]" and i = 2 and p = "0x1000"]
  show ?thesis
    by (auto simp: example_structures_def structure_ok_def strings_ok_def example_firmware_def
        structure_bytes_def strings_bytes_def string_answer_def SystemInformation_def)
qed

lemma find_structure_none:
  assumes "holds m p (concat (map structure_bytes ts))"
    and "\<forall>u \<in> set ts. structure_ok u \<and> ucast (ss_type u) \<noteq> TableIndex"
    and "m (p + of_nat (length (concat (map structure_bytes ts)))) = None"
  shows "find_structure_loop m TableIndex p = None"
  using assms
proof (induction ts arbitrary: p)
  case Nil
  then show ?case
    by (simp add: find_structure_loop.simps[of m _ p] FIELD_OFFSET_def SMBIOS_TABLE_HEADER_layout_def align_up_def)
next
  case (Cons u us)
  then have u: "holds m p (structure_bytes u)" "structure_ok u" "ucast (ss_type u) \<noteq> TableIndex" by simp_all
  then have "find_structure_loop m TableIndex p
      = find_structure_loop m TableIndex (p + of_nat (length (structure_bytes u)))"
    using string_section_eq(3)[OF u(1,2)] next_structure_eq[OF u(1,2)]
    by (simp add: find_structure_loop.simps[of m _ p] FIELD_OFFSET_def SMBIOS_TABLE_HEADER_layout_def align_up_def)
  then show ?case
    using Cons.IH[of "p + of_nat (length (structure_bytes u))"] Cons.prems by (simp add: add.assoc)
qed

text \<open>A structure type that is not in the firmware table makes the query read behind the
  table. The search is bounded neither by the length of the table nor by its end marker, so
  when no structure has the wanted type the first read behind the buffer is a fault.\<close>

theorem ParseSMBIOSTable_runs_off_the_table:
  assumes "snd (fw_fetch fw) = hdr @ concat (map structure_bytes ts)" "length hdr = 8"
    and "\<forall>u \<in> set ts. structure_ok u \<and> ucast (ss_type u) \<noteq> TableIndex"
    and "length (snd (fw_fetch fw)) < 2 ^ 31" "fw_size fw \<noteq> 0" "NT_SUCCESS (fst (fw_fetch fw))"
    and "alloc (k_allocs s) = Some p"
  shows "ParseSMBIOSTable fw alloc Buffer BufferSize TableIndex TableSubIndex s = None"
proof -
  let ?m = "buffer_memory p (snd (fw_fetch fw))"
  let ?q = "p + FIELD_OFFSET RAW_SMBIOS_DATA_layout ''SMBIOSTableData''"
  have off: "FIELD_OFFSET RAW_SMBIOS_DATA_layout ''SMBIOSTableData'' = of_nat (length hdr)"
    using assms(2) by (simp add: FIELD_OFFSET_def RAW_SMBIOS_DATA_layout_def align_up_def)
  have "holds ?m p (hdr @ concat (map structure_bytes ts))"
    using buffer_memory_holds[of "snd (fw_fetch fw)" p] assms(1,4) by simp
  then have h: "holds ?m ?q (concat (map structure_bytes ts))" using off by simp
  have "?q + of_nat (length (concat (map structure_bytes ts))) = p + of_nat (length (snd (fw_fetch fw)))"
    using assms(1) off by simp
  moreover have "?m (p + of_nat (length (snd (fw_fetch fw)))) = None"
    using assms(4) by (simp add: buffer_memory_def unat_of_nat_eq)
  ultimately have "find_structure_loop ?m TableIndex ?q = None"
    using find_structure_none[OF h assms(3)] by metis
  then show ?thesis
    using assms(5-7) by (simp add: ParseSMBIOSTable_def ExAllocatePool2_def)
qed

theorem ParseSMBIOSTable_runs_off_the_table_witness:
  "ParseSMBIOSTable example_firmware (\<lambda>_. Some 0x1000) [0, 0, 0, 0] 4 VendorSpecificInformation 2 example_kst = None"
  by (rule ParseSMBIOSTable_runs_off_the_table[where hdr = "[0, 3, 0, 0, 30, 0, 0, 0]" and ts = example_structures
        and p = "0x1000"])
    (auto simp: example_structures_def structure_ok_def strings_ok_def example_firmware_def
        structure_bytes_def strings_bytes_def VendorSpecificInformation_def)

end
