(* ===== verification/SystemInfo.thy ===== *)
theory SystemInfo
  imports Apc Smbios
begin

text \<open>
  What the driver gathers about the machine: the hypervisor test of \<^verbatim>\<open>src/driver/hv.c\<close>, the disk
  serial and the OS version of \<^verbatim>\<open>src/driver/integrity.c\<close>, and the processor and firmware queries of
  \<^verbatim>\<open>src/driver/driver.c\<close> that fill the \<^verbatim>\<open>SYSTEM_INFORMATION\<close> of the driver configuration. The values
  the processor, the firmware and the disk answer with are parameters.
\<close>

datatype ENVIRONMENT_TYPE = NativeWindows | Vmware | VirtualBox

datatype PROCESSOR_TYPE = Unknown | GenuineIntel | AuthenticAmd

record RTL_OSVERSIONINFOW =
  os_dwOSVersionInfoSize :: u32
  os_dwMajorVersion :: u32
  os_dwMinorVersion :: u32
  os_dwBuildNumber :: u32
  os_dwPlatformId :: u32
  os_szCSDVersion :: "u16 list"

record SYSTEM_INFORMATION =
  si_motherboard_serial :: "u8 list"
  si_drive_0_serial :: "u8 list"
  si_vendor :: "u8 list"
  si_virtualised_environment :: bool
  si_environment :: ENVIRONMENT_TYPE
  si_processor :: PROCESSOR_TYPE
  si_os_information :: RTL_OSVERSIONINFOW

record info_st = apc_st +
  system_information :: SYSTEM_INFORMATION

definition VENDOR_STRING_MAX_LENGTH :: nat where "VENDOR_STRING_MAX_LENGTH = 256"
definition MOTHERBOARD_SERIAL_CODE_LENGTH :: nat where "MOTHERBOARD_SERIAL_CODE_LENGTH = 64"
definition DEVICE_DRIVE_0_SERIAL_CODE_LENGTH :: nat where "DEVICE_DRIVE_0_SERIAL_CODE_LENGTH = 64"

text \<open>The sizes of the character arrays of the structure.\<close>

definition info_sizes :: "SYSTEM_INFORMATION \<Rightarrow> bool" where
  "info_sizes i \<longleftrightarrow> length (si_vendor i) = VENDOR_STRING_MAX_LENGTH \<and> length (si_motherboard_serial i) = MOTHERBOARD_SERIAL_CODE_LENGTH
     \<and> length (si_drive_0_serial i) = DEVICE_DRIVE_0_SERIAL_CODE_LENGTH"

definition set_info :: "(SYSTEM_INFORMATION \<Rightarrow> SYSTEM_INFORMATION) \<Rightarrow> 'a info_st_scheme \<Rightarrow> 'a info_st_scheme" where
  "set_info f s = s\<lparr>system_information := f (system_information s)\<rparr>"

section \<open>The hypervisor test\<close>

record hv_env =
  hv_processor :: nat
  hv_old_affinity :: u64
  hv_old_irql :: u64
  hv_aperf_before :: u64
  hv_aperf_after :: u64
  hv_invd_emulation :: u32

definition HIGH_LEVEL :: u64 where "HIGH_LEVEL = 15"

definition APERFMsrTimingCheck :: "hv_env \<Rightarrow> 'a kst_scheme \<Rightarrow> bool \<times> 'a kst_scheme" where
  "APERFMsrTimingCheck e s =
     (let new_affinity = push_bit (hv_processor e) 1;
          s = emit (Call ''KeSetSystemAffinityThreadEx'' [new_affinity]) s;
          s = emit (Call ''writecr8'' [HIGH_LEVEL]) s;
          s = emit (Call ''disable'' []) s;
          aperf_before = push_bit 32 (hv_aperf_before e);
          aperf_after = push_bit 32 (hv_aperf_after e);
          s = emit (Call ''enable'' []) s;
          s = emit (Call ''writecr8'' [hv_old_irql e]) s;
          s = emit (Call ''KeRevertToUserAffinityThreadEx'' [hv_old_affinity e]) s
      in (aperf_after - aperf_before = 0, s))"

definition HYPERVISOR_DETECTION_REPORT_bytes :: "u32 \<Rightarrow> u32 \<Rightarrow> u8 list" where
  "HYPERVISOR_DETECTION_REPORT_bytes aperf invd = pack_struct [int32 aperf, int32 invd]"

definition PerformVirtualizationDetection ::
  "hv_env \<Rightarrow> ptr \<Rightarrow> 'a irp_st_scheme \<Rightarrow> (NTSTATUS \<times> 'a irp_st_scheme) option" where
  "PerformVirtualizationDetection e Irp s = do {
     (status, s) \<leftarrow> ValidateIrpOutputBuffer Irp 8 s;
     (if \<not> NT_SUCCESS status then Some (status, s)
      else do {
        let (aperf, s) = APERFMsrTimingCheck e s;
        s \<leftarrow> set_irp Irp (irp_Information_update (\<lambda>_. 8)) s;
        s \<leftarrow> copy_to_system_buffer
               (HYPERVISOR_DETECTION_REPORT_bytes (if aperf then 1 else 0) (hv_invd_emulation e)) Irp s;
        Some (STATUS_SUCCESS, s)
      })
   }"

section \<open>The OS version\<close>

definition GetOsVersionInformation ::
  "NTSTATUS \<times> RTL_OSVERSIONINFOW \<Rightarrow> RTL_OSVERSIONINFOW option \<Rightarrow> NTSTATUS \<times> RTL_OSVERSIONINFOW option" where
  "GetOsVersionInformation version VersionInfo =
     (case VersionInfo of
        None \<Rightarrow> (STATUS_INVALID_PARAMETER, None)
      | Some v \<Rightarrow>
          let (status, info) = version in
          if \<not> NT_SUCCESS status then (status, Some v)
          else (status, Some (v\<lparr>os_dwBuildNumber := os_dwBuildNumber info,
                                os_dwMajorVersion := os_dwMajorVersion info,
                                os_dwMinorVersion := os_dwMinorVersion info,
                                os_dwOSVersionInfoSize := os_dwOSVersionInfoSize info,
                                os_dwPlatformId := os_dwPlatformId info,
                                os_szCSDVersion := os_szCSDVersion info\<rparr>)))"

section \<open>The disk serial\<close>

text \<open>
  \<open>dk_open\<close> is the answer of \<^verbatim>\<open>ZwOpenFile\<close> on the drive, \<open>dk_header\<close> and \<open>dk_descriptor\<close> those of the
  two \<^verbatim>\<open>IOCTL_STORAGE_QUERY_PROPERTY\<close> requests: the size, and the bytes of the descriptor.
\<close>

record disk =
  dk_open :: "NTSTATUS \<times> u64"
  dk_header :: "NTSTATUS \<times> u32"
  dk_descriptor :: "NTSTATUS \<times> u8 list"

definition STORAGE_DEVICE_DESCRIPTOR_layout :: layout where
  "STORAGE_DEVICE_DESCRIPTOR_layout =
    [(''Version'', 4, 4), (''Size'', 4, 4), (''DeviceType'', 1, 1), (''DeviceTypeModifier'', 1, 1),
     (''RemovableMedia'', 1, 1), (''CommandQueueing'', 1, 1), (''VendorIdOffset'', 4, 4),
     (''ProductIdOffset'', 4, 4), (''ProductRevisionOffset'', 4, 4), (''SerialNumberOffset'', 4, 4),
     (''BusType'', 4, 4), (''RawPropertiesLength'', 4, 4), (''RawDeviceProperties'', 1, 1)]"

primrec strnlen_s :: "memory \<Rightarrow> ptr \<Rightarrow> nat \<Rightarrow> nat option" where
  "strnlen_s m p 0 = Some 0"
| "strnlen_s m p (Suc n) = do {
     c \<leftarrow> m p;
     (if c = 0 then Some 0 else map_option Suc (strnlen_s m (p + 1) n))
   }"

text \<open>From the descriptor to the serial in the configuration.\<close>

definition copy_serial :: "memory \<Rightarrow> ptr \<Rightarrow> NTSTATUS \<Rightarrow> u8 list \<Rightarrow> nat \<Rightarrow> (NTSTATUS \<times> u8 list) option" where
  "copy_serial m descriptor status ConfigDrive0Serial ConfigDrive0MaxSize = do {
     off \<leftarrow> read_u32 m (descriptor + FIELD_OFFSET STORAGE_DEVICE_DESCRIPTOR_layout ''SerialNumberOffset'');
     (if off = 0 then Some (status, ConfigDrive0Serial)
      else do {
        let serial_number = descriptor + ucast off;
        len \<leftarrow> strnlen_s m serial_number DEVICE_DRIVE_0_SERIAL_CODE_LENGTH;
        let serial_length = len + 1;
        (if serial_length > ConfigDrive0MaxSize then Some (STATUS_BUFFER_TOO_SMALL, ConfigDrive0Serial)
         else do {
           bs \<leftarrow> read_bytes m serial_number serial_length;
           Some (status, bs @ drop serial_length ConfigDrive0Serial)
         })
      })
   }"

definition close_handle :: "u64 \<Rightarrow> 'a kst_scheme \<Rightarrow> 'a kst_scheme" where
  "close_handle handle s = (if handle \<noteq> 0 then emit (ZwCloseHandle handle) s else s)"

definition GetHardDiskDriveSerialNumber ::
  "disk \<Rightarrow> allocator \<Rightarrow> u8 list \<Rightarrow> nat \<Rightarrow> 'a kst_scheme \<Rightarrow> (NTSTATUS \<times> u8 list \<times> 'a kst_scheme) option" where
  "GetHardDiskDriveSerialNumber d alloc ConfigDrive0Serial ConfigDrive0MaxSize s =
     (let (status, handle) = dk_open d;
          s = emit (Call ''ZwOpenFile'' [handle]) s in
      if \<not> NT_SUCCESS status then Some (status, ConfigDrive0Serial, close_handle handle s)
      else let (status, size) = dk_header d in
      if \<not> NT_SUCCESS status then Some (status, ConfigDrive0Serial, close_handle handle s)
      else case ExAllocatePool2 alloc POOL_TAG_INTEGRITY s of
        (None, s) \<Rightarrow> Some (STATUS_MEMORY_NOT_ALLOCATED, ConfigDrive0Serial, close_handle handle s)
      | (Some p, s) \<Rightarrow> do {
          (status, serial) \<leftarrow>
            (let (status, bs) = dk_descriptor d in
             if \<not> NT_SUCCESS status then Some (status, ConfigDrive0Serial)
             else copy_serial (buffer_memory p bs) p status ConfigDrive0Serial ConfigDrive0MaxSize);
          Some (status, serial, emit (PoolFree p POOL_TAG_INTEGRITY) (close_handle handle s))
        })"

section \<open>Processor and firmware\<close>

record cpuid_regs =
  r_ebx :: u32
  r_ecx :: u32
  r_edx :: u32

definition CPUID_AUTHENTIC_AMD :: cpuid_regs where
  "CPUID_AUTHENTIC_AMD = \<lparr>r_ebx = 0x68747541, r_ecx = 0x444d4163, r_edx = 0x69746e65\<rparr>"

definition CPUID_GENUINE_INTEL :: cpuid_regs where
  "CPUID_GENUINE_INTEL = \<lparr>r_ebx = 0x756e6547, r_ecx = 0x6c65746e, r_edx = 0x49656e69\<rparr>"

definition GetSystemProcessorType :: "cpuid_regs \<Rightarrow> 'a info_st_scheme \<Rightarrow> NTSTATUS \<times> 'a info_st_scheme" where
  "GetSystemProcessorType cpuid s =
     (if r_ebx cpuid = r_ebx CPUID_AUTHENTIC_AMD \<and> r_ecx cpuid = r_ecx CPUID_AUTHENTIC_AMD
         \<and> r_edx cpuid = r_edx CPUID_AUTHENTIC_AMD
      then (STATUS_SUCCESS, set_info (si_processor_update (\<lambda>_. GenuineIntel)) s)
      else if r_ebx cpuid = r_ebx CPUID_GENUINE_INTEL \<and> r_ecx cpuid = r_ecx CPUID_GENUINE_INTEL
         \<and> r_edx cpuid = r_edx CPUID_GENUINE_INTEL
      then (STATUS_SUCCESS, set_info (si_processor_update (\<lambda>_. AuthenticAmd)) s)
      else (STATUS_UNSUCCESSFUL, set_info (si_processor_update (\<lambda>_. Unknown)) s))"

text \<open>\<^verbatim>\<open>strstr\<close> on a character array: without a terminator in the array the search leaves it, a fault.\<close>

fun contains :: "'b list \<Rightarrow> 'b list \<Rightarrow> bool" where
  "contains [] needle = (needle = [])"
| "contains (x # xs) needle = (take (length needle) (x # xs) = needle \<or> contains xs needle)"

definition strstr :: "u8 list \<Rightarrow> string \<Rightarrow> bool option" where
  "strstr hay needle =
     (if 0 \<in> set hay then Some (contains (takeWhile (\<lambda>b. b \<noteq> 0) hay) (map of_char needle)) else None)"

definition ParseSmbiosForGivenSystemEnvironment ::
  "firmware \<Rightarrow> allocator \<Rightarrow> 'a info_st_scheme \<Rightarrow> (NTSTATUS \<times> 'a info_st_scheme) option" where
  "ParseSmbiosForGivenSystemEnvironment fw alloc s = do {
     (status, vendor, s) \<leftarrow> ParseSMBIOSTable fw alloc (si_vendor (system_information s))
        (of_nat VENDOR_STRING_MAX_LENGTH) SmbiosInformation SMBIOS_VENDOR_STRING_SUB_INDEX s;
     let s = set_info (si_vendor_update (\<lambda>_. vendor)) s;
     (if \<not> NT_SUCCESS status then Some (status, s)
      else do {
        vmware \<leftarrow> strstr vendor ''VMware, Inc'';
        environment \<leftarrow>
          (if vmware then Some Vmware
           else map_option (\<lambda>vbox. if vbox then VirtualBox else NativeWindows) (strstr vendor ''innotek GmbH''));
        let s = set_info (si_environment_update (\<lambda>_. environment)) s;
        (if environment = VirtualBox then Some (STATUS_NOT_SUPPORTED, s)
         else do {
           (status, serial, s) \<leftarrow> ParseSMBIOSTable fw alloc (si_motherboard_serial (system_information s))
             (of_nat MOTHERBOARD_SERIAL_CODE_LENGTH)
             (if environment = NativeWindows then VendorSpecificInformation else SystemInformation)
             (if environment = NativeWindows then SMBIOS_NATIVE_SERIAL_NUMBER_SUB_INDEX
              else SMBIOS_VMWARE_SERIAL_NUMBER_SUB_INDEX) s;
           Some (status, set_info (si_motherboard_serial_update (\<lambda>_. serial)) s)
         })
      })
   }"

record machine =
  mc_hv :: hv_env
  mc_version :: "NTSTATUS \<times> RTL_OSVERSIONINFOW"
  mc_cpuid :: cpuid_regs
  mc_firmware :: firmware
  mc_disk :: disk

definition DrvLoadGatherSystemEnvironmentSettings ::
  "machine \<Rightarrow> allocator \<Rightarrow> 'a info_st_scheme \<Rightarrow> (NTSTATUS \<times> 'a info_st_scheme) option" where
  "DrvLoadGatherSystemEnvironmentSettings mc alloc s = do {
     let (virtualised, s) = APERFMsrTimingCheck (mc_hv mc) s;
     let s = (if virtualised then set_info (si_virtualised_environment_update (\<lambda>_. True)) s else s);
     let (status, os) = GetOsVersionInformation (mc_version mc) (Some (si_os_information (system_information s)));
     let s = set_info (si_os_information_update (\<lambda>_. the os)) s;
     (if \<not> NT_SUCCESS status then Some (status, s)
      else let (status, s) = GetSystemProcessorType (mc_cpuid mc) s in
      if \<not> NT_SUCCESS status then Some (status, s)
      else do {
        (status, s) \<leftarrow> ParseSmbiosForGivenSystemEnvironment (mc_firmware mc) alloc s;
        (if \<not> NT_SUCCESS status then Some (status, s)
         else do {
           (status, serial, s) \<leftarrow> GetHardDiskDriveSerialNumber (mc_disk mc) alloc
             (si_drive_0_serial (system_information s)) (length (si_drive_0_serial (system_information s))) s;
           Some (status, set_info (si_drive_0_serial_update (\<lambda>_. serial)) s)
         })
      })
   }"

section \<open>Properties\<close>

lemma set_info_fields [simp]:
  "system_information (set_info f s) = f (system_information s)" "k_trace (set_info f s) = k_trace s"
  "system_information (emit e s) = system_information s"
  by (simp_all add: set_info_def emit_def)

lemma ExAllocatePool2_info [simp]:
  "ExAllocatePool2 alloc tag s = (r, s') \<Longrightarrow> system_information s' = system_information s"
  by (auto simp: ExAllocatePool2_def emit_def split: option.splits)

text \<open>The counter is shifted by 32 bits before the comparison, so only its low half is compared.\<close>

lemma push_bit_low_half: "push_bit 32 a = push_bit 32 b \<longleftrightarrow> take_bit 32 a = take_bit 32 b" for a b :: u64
proof
  assume eq: "push_bit 32 a = push_bit 32 b"
  show "take_bit 32 a = take_bit 32 b"
  proof (rule bit_word_eqI)
    fix n
    have "bit (push_bit 32 a) (n + 32) = bit (push_bit 32 b) (n + 32)" using eq by simp
    then show "bit (take_bit 32 a) n = bit (take_bit 32 b) n" by (auto simp: bit_simps)
  qed
next
  assume eq: "take_bit 32 a = take_bit 32 b"
  show "push_bit 32 a = push_bit 32 b"
  proof (rule bit_word_eqI)
    fix n
    have "bit (take_bit 32 a) (n - 32) = bit (take_bit 32 b) (n - 32)" using eq by simp
    then show "n < LENGTH(64) \<Longrightarrow> bit (push_bit 32 a) n = bit (push_bit 32 b) n" by (auto simp: bit_simps)
  qed
qed

lemma aperf_low_half:
  "fst (APERFMsrTimingCheck e s) \<longleftrightarrow> take_bit 32 (hv_aperf_before e) = take_bit 32 (hv_aperf_after e)"
  using push_bit_low_half[of "hv_aperf_before e" "hv_aperf_after e"] by (auto simp: APERFMsrTimingCheck_def Let_def)

lemma string_loop_length:
  assumes "string_loop m Index BufferSize current next_char char_index string_count Buffer = Some r"
  shows "length (snd r) = length Buffer"
proof (rule string_loop.raw_induct[where P = "\<lambda>_ _ _ _ _ _ _ Buffer r. length (snd r) = length Buffer", OF _ assms],
    goal_cases)
  case (1 string_loop m Index BufferSize current next_char char_index string_count Buffer r)
  from 1(2) show ?case by (auto split: bind_splits if_splits dest: 1(1))
qed

lemma ParseSMBIOSTable_length:
  "ParseSMBIOSTable fw alloc Buffer n i j s = Some (status, b, s') \<Longrightarrow> length b = length Buffer"
  by (auto simp: ParseSMBIOSTable_def GetStringAtIndexFromSMBIOSTable_def Let_def
      dest!: string_loop_length split: if_splits prod.splits option.splits bind_splits)

lemma ParseSMBIOSTable_info:
  "ParseSMBIOSTable fw alloc Buffer n i j s = Some (status, b, s') \<Longrightarrow> system_information s' = system_information s"
  by (auto simp: ParseSMBIOSTable_def Let_def split: if_splits prod.splits option.splits bind_splits)

lemma ParseSMBIOSTable_frame:
  "ParseSMBIOSTable fw alloc Buffer n i j s = Some (status, b, s')
     \<Longrightarrow> length b = length Buffer \<and> system_information s' = system_information s"
  using ParseSMBIOSTable_length ParseSMBIOSTable_info by blast

lemma copy_serial_length:
  "copy_serial m p status serial (length serial) = Some (status', serial') \<Longrightarrow> length serial' = length serial"
  by (auto simp: copy_serial_def Let_def dest!: read_bytes_length split: if_splits bind_splits)

lemma close_handle_info [simp]: "system_information (close_handle h s) = system_information s"
  by (simp add: close_handle_def)

lemma disk_serial_length:
  assumes "GetHardDiskDriveSerialNumber d alloc serial (length serial) s = Some (status, serial', s')"
  shows "length serial' = length serial" "system_information s' = system_information s"
  using assms
  by (auto simp: GetHardDiskDriveSerialNumber_def Let_def copy_serial_length
      split: if_splits prod.splits option.splits bind_splits)

lemma processor_type_eq:
  "GetSystemProcessorType cpuid s =
     (if cpuid = CPUID_AUTHENTIC_AMD then (STATUS_SUCCESS, set_info (si_processor_update (\<lambda>_. GenuineIntel)) s)
      else if cpuid = CPUID_GENUINE_INTEL then (STATUS_SUCCESS, set_info (si_processor_update (\<lambda>_. AuthenticAmd)) s)
      else (STATUS_UNSUCCESSFUL, set_info (si_processor_update (\<lambda>_. Unknown)) s))"
  by (auto simp: GetSystemProcessorType_def intro: cpuid_regs.equality)

lemma smbios_environment:
  assumes "ParseSmbiosForGivenSystemEnvironment fw alloc s = Some (status, s')" "NT_SUCCESS status"
  defines "i \<equiv> system_information s" and "i' \<equiv> system_information s'"
  shows "si_environment i' \<noteq> VirtualBox" "strstr (si_vendor i') ''VMware, Inc'' = Some (si_environment i' = Vmware)"
    "si_processor i' = si_processor i"
    "si_virtualised_environment i' = si_virtualised_environment i" "si_os_information i' = si_os_information i"
    "length (si_vendor i') = length (si_vendor i)" "si_drive_0_serial i' = si_drive_0_serial i"
    "length (si_motherboard_serial i') = length (si_motherboard_serial i)"
  using assms
  by (auto simp: ParseSmbiosForGivenSystemEnvironment_def Let_def
      dest!: ParseSMBIOSTable_frame split: if_splits prod.splits option.splits bind_splits)

lemma smbios_frame:
  assumes "ParseSmbiosForGivenSystemEnvironment fw alloc s = Some (status, s')"
  defines "i \<equiv> system_information s" and "i' \<equiv> system_information s'"
  shows "NT_SUCCESS status \<longrightarrow> si_environment i' \<noteq> VirtualBox \<and> strstr (si_vendor i') ''VMware, Inc'' = Some (si_environment i' = Vmware)
    \<and> si_processor i' = si_processor i
    \<and> si_virtualised_environment i' = si_virtualised_environment i \<and> si_os_information i' = si_os_information i
    \<and> length (si_vendor i') = length (si_vendor i) \<and> si_drive_0_serial i' = si_drive_0_serial i
    \<and> length (si_motherboard_serial i') = length (si_motherboard_serial i)"
  using smbios_environment[OF assms(1)] by (simp add: i_def i'_def)

lemma disk_serial_frame:
  "GetHardDiskDriveSerialNumber d alloc serial (length serial) s = Some (status, serial', s')
     \<Longrightarrow> length serial' = length serial \<and> system_information s' = system_information s"
  using disk_serial_length by blast

text \<open>C23: what the driver knows about the machine after a successful start. The environment is VMware when the vendor string
  of the firmware contains the name of VMware, else native Windows; VirtualBox is refused. The machine is marked as
  virtualised when the low halves of the two APERF readings agree, or when it was marked before: the mark is never
  cleared. Every field of the OS version is that of the kernel, and the three character arrays have the sizes of
  the structure. The two processor vendors are swapped: an \<open>AuthenticAMD\<close> processor is recorded as \<^verbatim>\<open>GenuineIntel\<close> and the
  other way round, and any other processor is refused.\<close>

theorem gathered_system_information:
  assumes "DrvLoadGatherSystemEnvironmentSettings mc alloc s = Some (status, s')" "NT_SUCCESS status" "info_sizes (system_information s)"
  defines "i \<equiv> system_information s" and "i' \<equiv> system_information s'" and "v \<equiv> snd (mc_version mc)"
  shows "si_environment i' \<noteq> VirtualBox \<and> strstr (si_vendor i') ''VMware, Inc'' = Some (si_environment i' = Vmware)
     \<and> mc_cpuid mc \<in> {CPUID_AUTHENTIC_AMD, CPUID_GENUINE_INTEL}
     \<and> si_processor i' = (if mc_cpuid mc = CPUID_AUTHENTIC_AMD then GenuineIntel else AuthenticAmd)
     \<and> si_virtualised_environment i' = (si_virtualised_environment i
          \<or> take_bit 32 (hv_aperf_before (mc_hv mc)) = take_bit 32 (hv_aperf_after (mc_hv mc)))
     \<and> si_os_information i' = v \<and> info_sizes i'"
proof -
  obtain hv t where hv: "APERFMsrTimingCheck (mc_hv mc) s = (hv, t)" by fastforce
  have low: "hv \<longleftrightarrow> take_bit 32 (hv_aperf_before (mc_hv mc)) = take_bit 32 (hv_aperf_after (mc_hv mc))"
    using aperf_low_half[of "mc_hv mc" s] hv by simp
  have base: "system_information t = i"
    using hv by (auto simp: APERFMsrTimingCheck_def Let_def i_def)
  show ?thesis
    using assms(1-3) unfolding i'_def v_def low[symmetric] info_sizes_def
    by (auto simp: base[unfolded i_def] i_def DrvLoadGatherSystemEnvironmentSettings_def hv base processor_type_eq GetOsVersionInformation_def Let_def
        dest!: smbios_frame disk_serial_frame split: if_splits prod.splits bind_splits)
qed

definition example_info :: SYSTEM_INFORMATION where
  "example_info = \<lparr>si_motherboard_serial = replicate 64 0, si_drive_0_serial = replicate 64 0,
     si_vendor = replicate 256 0, si_virtualised_environment = False, si_environment = NativeWindows,
     si_processor = Unknown, si_os_information = \<lparr>os_dwOSVersionInfoSize = 0, os_dwMajorVersion = 0,
       os_dwMinorVersion = 0, os_dwBuildNumber = 0, os_dwPlatformId = 0, os_szCSDVersion = []\<rparr>\<rparr>"

definition example_info_st :: info_st where
  "example_info_st = apc_st.extend (example_apc_st [] Map.empty) (info_st.fields example_info)"

text \<open>An AMD machine that runs Windows natively; its disk gives no serial number.\<close>

definition example_machine :: machine where
  "example_machine = \<lparr>
     mc_hv = \<lparr>hv_processor = 0, hv_old_affinity = 1, hv_old_irql = 0, hv_aperf_before = 5, hv_aperf_after = 9,
              hv_invd_emulation = 0\<rparr>,
     mc_version = (STATUS_SUCCESS, \<lparr>os_dwOSVersionInfoSize = 284, os_dwMajorVersion = 10, os_dwMinorVersion = 0,
                   os_dwBuildNumber = 19045, os_dwPlatformId = 2, os_szCSDVersion = []\<rparr>),
     mc_cpuid = CPUID_AUTHENTIC_AMD,
     mc_firmware = \<lparr>fw_size = 40, fw_fetch = (STATUS_SUCCESS, replicate 8 0
        @ structure_bytes \<lparr>ss_type = 0, ss_rest = [], ss_strings = [[65], [66]]\<rparr>
        @ structure_bytes \<lparr>ss_type = 2, ss_rest = [], ss_strings = [[1], [2], [3], [83, 78], [5]]\<rparr>)\<rparr>,
     mc_disk = \<lparr>dk_open = (STATUS_SUCCESS, 4), dk_header = (STATUS_SUCCESS, 40),
                dk_descriptor = (STATUS_SUCCESS, replicate 40 0)\<rparr>\<rparr>"

lemma example_gather:
  "\<exists>s'. DrvLoadGatherSystemEnvironmentSettings example_machine (\<lambda>_. Some 0x1000) example_info_st = Some (0, s')"
proof -
  have "map_option fst (DrvLoadGatherSystemEnvironmentSettings example_machine (\<lambda>_. Some 0x1000) example_info_st)
      = Some 0"
    by code_simp
  then show ?thesis by auto
qed

theorem gathered_system_information_witness:
  "\<exists>s'. DrvLoadGatherSystemEnvironmentSettings example_machine (\<lambda>_. Some 0x1000) example_info_st = Some (0, s')
      \<and> si_processor (system_information s') = GenuineIntel \<and> mc_cpuid example_machine = CPUID_AUTHENTIC_AMD"
proof -
  obtain s' where s': "DrvLoadGatherSystemEnvironmentSettings example_machine (\<lambda>_. Some 0x1000) example_info_st = Some (0, s')"
    using example_gather by blast
  have "mc_cpuid example_machine = CPUID_AUTHENTIC_AMD" "info_sizes (system_information example_info_st)"
    by (simp_all add: example_machine_def info_sizes_def example_info_st_def example_info_def apc_st.defs info_st.defs
        VENDOR_STRING_MAX_LENGTH_def MOTHERBOARD_SERIAL_CODE_LENGTH_def DEVICE_DRIVE_0_SERIAL_CODE_LENGTH_def)
  with gathered_system_information[OF s'] s' show ?thesis by (auto simp: NT_SUCCESS_def)
qed

end
