(* ===== verification/Verification.thy ===== *)
theory Verification
  imports SystemInfo
begin

text \<open>
  The periodic verification of all system modules, from \<^verbatim>\<open>src/driver/integrity.c\<close>: a context with
  an array of modules and an array of claim flags, four work items that scan blocks of the
  array, and the dispatcher that starts and collects them; the query for the module array from
  \<^verbatim>\<open>src/driver/modules.c\<close>; and the deferred hashing of 32-bit modules.

  The workers run concurrently. \<open>worker_step\<close> is one atomic step of one worker, the interlocked
  operations of the source being the points where another worker can come in between, and
  \<open>verification_step\<close> interleaves any number of workers.

  \<open>module_arrays\<close> and \<open>dispatcher_arrays\<close> are the live pool blocks of the two arrays. The hash of a
  module is a parameter.
\<close>

record SYS_MODULE_VAL_CONTEXT =
  sv_active_thread_count :: u32
  sv_active :: bool
  sv_complete :: bool
  sv_current_count :: u32
  sv_total_count :: u32
  sv_block_size :: u32
  sv_module_info :: ptr
  sv_dispatcher_info :: ptr
  sv_work_items :: "ptr list"

record ver_st = info_st +
  sys_val_context :: SYS_MODULE_VAL_CONTEXT
  module_arrays :: "ptr \<rightharpoonup> RTL_MODULE_EXTENDED_INFO list"
  dispatcher_arrays :: "ptr \<rightharpoonup> bool list"

definition VERIFICATION_THREAD_COUNT :: nat where "VERIFICATION_THREAD_COUNT = 4"
definition VALIDATION_BLOCK_SIZE :: u32 where "VALIDATION_BLOCK_SIZE = 25"
definition SHA_256_HASH_LENGTH :: nat where "SHA_256_HASH_LENGTH = 32"

definition set_val ::
  "(SYS_MODULE_VAL_CONTEXT \<Rightarrow> SYS_MODULE_VAL_CONTEXT) \<Rightarrow> 'a ver_st_scheme \<Rightarrow> 'a ver_st_scheme" where
  "set_val f s = s\<lparr>sys_val_context := f (sys_val_context s)\<rparr>"

definition free_module_array :: "ptr \<Rightarrow> 'a ver_st_scheme \<Rightarrow> 'a ver_st_scheme option" where
  "free_module_array p s =
     (if p \<in> dom (module_arrays s)
      then Some (emit (PoolFree p SYSTEM_MODULES_POOL) (s\<lparr>module_arrays := (module_arrays s)(p := None)\<rparr>)) else None)"

definition free_dispatcher_array :: "ptr \<Rightarrow> 'a ver_st_scheme \<Rightarrow> 'a ver_st_scheme option" where
  "free_dispatcher_array p s =
     (if p \<in> dom (dispatcher_arrays s)
      then Some (emit (PoolFree p POOL_TAG_INTEGRITY) (s\<lparr>dispatcher_arrays := (dispatcher_arrays s)(p := None)\<rparr>))
      else None)"

section \<open>One module\<close>

definition CompareHashes :: "u8 list \<Rightarrow> u8 list \<Rightarrow> nat \<Rightarrow> bool" where
  "CompareHashes Hash1 Hash2 Length =
     (length (takeWhile (\<lambda>(a, b). a = b) (take Length (zip Hash1 Hash2))) = Length)"

text \<open>The verdict is printed to the debugger.\<close>

definition ValidateSystemModule ::
  "allocator \<Rightarrow> module_hash \<Rightarrow> RTL_MODULE_EXTENDED_INFO \<Rightarrow> 'a cb_st_scheme \<Rightarrow> 'a cb_st_scheme option" where
  "ValidateSystemModule alloc HashModule Module s =
     (case ExAllocatePool2 alloc POOL_TAG_INTEGRITY s of
        (None, s) \<Rightarrow> Some s
      | (Some p, s) \<Rightarrow> do {
          (entry, s) \<leftarrow> FindDriverEntryByBaseAddress (mi_ImageBase Module) s;
          s \<leftarrow> (if entry = NULL then Some s
                else let (status, hash) = HashModule Module in
                if \<not> NT_SUCCESS status then Some s
                else do {
                  e \<leftarrow> driver_entry s entry;
                  Some (emit (Call (if CompareHashes hash (de_text_hash e) SHA_256_HASH_LENGTH
                                    then ''text regions are valid'' else ''text regions are NOT valid'')
                               [mi_ImageBase Module]) s)
                });
          Some (emit (PoolFree p POOL_TAG_INTEGRITY) s)
        })"

section \<open>Workers\<close>

text \<open>
  Where a worker is in \<^verbatim>\<open>SystemModuleVerificationDispatchFunction\<close>: its work item is queued, it has
  counted itself in, it has read the shared index that it is about to exchange for itself (the argument of
  the exchange is a read of its own, so another worker can come in between, and what is written back may be
  stale), it is at the loop with a module index and the end of its block, it
  validates a module it has claimed, it stores its index back, it counts itself out.
\<close>

datatype worker =
    Queued | Entered | Exchanging u32 | Scanning u32 u32 | Validating u32 u32 | Storing u32 | Leaving | Finished

definition claim :: "u32 \<Rightarrow> 'a ver_st_scheme \<Rightarrow> (bool \<times> 'a ver_st_scheme) option" where
  "claim count s = do {
     let d = sv_dispatcher_info (sys_val_context s);
     flags \<leftarrow> dispatcher_arrays s d;
     (if unat count < length flags
      then Some (flags ! unat count, s\<lparr>dispatcher_arrays := (dispatcher_arrays s)(d \<mapsto> flags[unat count := True])\<rparr>)
      else None)
   }"

fun SystemModuleVerificationDispatchFunction ::
  "allocator \<Rightarrow> module_hash \<Rightarrow> worker \<Rightarrow> 'a ver_st_scheme \<Rightarrow> (worker \<times> 'a ver_st_scheme) option" where
  "SystemModuleVerificationDispatchFunction alloc HashModule Queued s =
     Some (Entered, set_val (\<lambda>c. c\<lparr>sv_active_thread_count := sv_active_thread_count c + 1\<rparr>) s)"
| "SystemModuleVerificationDispatchFunction alloc HashModule Entered s =
     Some (Exchanging (sv_current_count (sys_val_context s)), s)"
| "SystemModuleVerificationDispatchFunction alloc HashModule (Exchanging v) s =
     (let count = sv_current_count (sys_val_context s)
      in Some (Scanning count (count + sv_block_size (sys_val_context s)), set_val (sv_current_count_update (\<lambda>_. v)) s))"
| "SystemModuleVerificationDispatchFunction alloc HashModule (Scanning count max_count) s =
     (if sint count < sint max_count \<and> count < sv_total_count (sys_val_context s) then do {
        (taken, s) \<leftarrow> claim count s;
        Some (if taken then Scanning (count + 1) max_count else Validating count max_count, s)
      }
      else Some (Storing count, if count = sv_total_count (sys_val_context s)
                                then set_val (sv_complete_update (\<lambda>_. True)) s else s))"
| "SystemModuleVerificationDispatchFunction alloc HashModule (Validating count max_count) s = do {
     infos \<leftarrow> module_arrays s (sv_module_info (sys_val_context s));
     s \<leftarrow> (if unat count < length infos then ValidateSystemModule alloc HashModule (infos ! unat count) s else None);
     Some (Scanning (count + 1) max_count, s)
   }"
| "SystemModuleVerificationDispatchFunction alloc HashModule (Storing count) s =
     Some (Leaving, set_val (sv_current_count_update (\<lambda>_. count)) s)"
| "SystemModuleVerificationDispatchFunction alloc HashModule Leaving s =
     Some (Finished, set_val (\<lambda>c. c\<lparr>sv_active_thread_count := sv_active_thread_count c - 1\<rparr>) s)"
| "SystemModuleVerificationDispatchFunction alloc HashModule Finished s = None"

section \<open>The dispatcher\<close>

definition InitialiseSystemModuleVerificationContext ::
  "module_query \<Rightarrow> allocator \<Rightarrow> 'a ver_st_scheme \<Rightarrow> (NTSTATUS \<times> 'a ver_st_scheme) option" where
  "InitialiseSystemModuleVerificationContext q alloc s =
     (case GetSystemModuleInformation q alloc s of (status, modules_address, module_count, infos, s) \<Rightarrow>
        if \<not> NT_SUCCESS status then Some (status, s)
        else
        let s = (if modules_address = NULL then s
                 else s\<lparr>module_arrays := (module_arrays s)(modules_address \<mapsto> infos)\<rparr>) in
        case ExAllocatePool2 alloc POOL_TAG_INTEGRITY s of
          (None, s) \<Rightarrow> do {
            s \<leftarrow> free_module_array modules_address s;
            Some (STATUS_MEMORY_NOT_ALLOCATED, s)
          }
        | (Some d, s) \<Rightarrow>
            Some (status, set_val (\<lambda>c. c\<lparr>sv_active_thread_count := 0, sv_active := True, sv_complete := False,
                      sv_dispatcher_info := d, sv_module_info := modules_address, sv_total_count := module_count,
                      sv_block_size := VALIDATION_BLOCK_SIZE, sv_current_count := 2\<rparr>)
                    (s\<lparr>dispatcher_arrays := (dispatcher_arrays s)(d \<mapsto> replicate (unat module_count) False)\<rparr>)))"

definition free_work_item :: "nat \<Rightarrow> 'a ver_st_scheme \<Rightarrow> 'a ver_st_scheme" where
  "free_work_item index s =
     (let p = sv_work_items (sys_val_context s) ! index in
      if p = NULL then s
      else set_val (sv_work_items_update (\<lambda>ws. ws[index := NULL])) (emit (WorkItemFreed p) s))"

definition FreeWorkItems :: "'a ver_st_scheme \<Rightarrow> 'a ver_st_scheme" where
  "FreeWorkItems s = fold free_work_item [0..<VERIFICATION_THREAD_COUNT] s"

text \<open>The loop at the start waits for the workers; as long as one is counted in it does not return.\<close>

definition FreeModuleVerificationItems :: "'a ver_st_scheme \<Rightarrow> 'a ver_st_scheme option" where
  "FreeModuleVerificationItems s =
     (if sv_active_thread_count (sys_val_context s) \<noteq> 0 then None
      else do {
        let m = sv_module_info (sys_val_context s);
        s \<leftarrow> (if m = NULL then Some s
              else map_option (set_val (sv_module_info_update (\<lambda>_. NULL))) (free_module_array m s));
        let d = sv_dispatcher_info (sys_val_context s);
        (if d = NULL then Some s
         else map_option (set_val (sv_dispatcher_info_update (\<lambda>_. NULL))) (free_dispatcher_array d s))
      })"

definition CleanupValidationContextOnUnload :: "'a ver_st_scheme \<Rightarrow> 'a ver_st_scheme option" where
  "CleanupValidationContextOnUnload s =
     FreeModuleVerificationItems (FreeWorkItems
       (set_val (\<lambda>c. c\<lparr>sv_active := False, sv_complete := True\<rparr>) s))"

text \<open>\<open>work_item index\<close> is what \<^verbatim>\<open>IoAllocateWorkItem\<close> returns for the worker.\<close>

definition start_worker :: "(nat \<Rightarrow> ptr) \<Rightarrow> nat \<Rightarrow> 'a ver_st_scheme \<Rightarrow> 'a ver_st_scheme" where
  "start_worker work_item index s =
     (let p = work_item index in
      if p = NULL then s
      else set_val (sv_work_items_update (\<lambda>ws. ws[index := p]))
             (emit (WorkItemQueued p) (emit (WorkItemAlloc p) s)))"

definition SystemModuleVerificationDispatcher ::
  "module_query \<Rightarrow> allocator \<Rightarrow> (nat \<Rightarrow> ptr) \<Rightarrow> 'a ver_st_scheme \<Rightarrow> (NTSTATUS \<times> 'a ver_st_scheme) option" where
  "SystemModuleVerificationDispatcher q alloc work_item s =
     (if sv_complete (sys_val_context s) then do {
        s \<leftarrow> FreeModuleVerificationItems (set_val (\<lambda>c. c\<lparr>sv_active := False, sv_complete := False\<rparr>) s);
        Some (STATUS_SUCCESS, FreeWorkItems s)
      }
      else do {
        (status, s) \<leftarrow> (if \<not> sv_active (sys_val_context s) then InitialiseSystemModuleVerificationContext q alloc s
                        else Some (STATUS_SUCCESS, FreeWorkItems s));
        (if \<not> NT_SUCCESS status then Some (status, s)
         else Some (STATUS_SUCCESS, fold (start_worker work_item) [0..<VERIFICATION_THREAD_COUNT] s))
      })"

section \<open>Deferred hashing\<close>

primrec deferred_hash_loop :: "module_hash \<Rightarrow> ptr list \<Rightarrow> 'a cb_st_scheme \<Rightarrow> 'a cb_st_scheme option" where
  "deferred_hash_loop HashModule [] s = Some (s\<lparr>driver_deferred_list := []\<rparr>)"
| "deferred_hash_loop HashModule (p # ps) s = do {
     e \<leftarrow> driver_entry s p;
     let (status, hash) = HashModule (DriverListEntryToExtendedModuleInfo e);
     let e = (if NT_SUCCESS status then e\<lparr>de_text_hash := hash, de_hashed := True\<rparr> else e\<lparr>de_hashed := False\<rparr>);
     deferred_hash_loop HashModule ps (s\<lparr>drivers := (drivers s)(p \<mapsto> e)\<rparr>)
   }"

definition DeferredModuleHashingCallback :: "module_hash \<Rightarrow> 'a cb_st_scheme \<Rightarrow> 'a cb_st_scheme option" where
  "DeferredModuleHashingCallback HashModule s = do {
     s \<leftarrow> deferred_hash_loop HashModule (driver_deferred_list s) s;
     Some (emit (WorkItemFreed (deferred_work_item s)) s)
   }"

section \<open>Interleavings of workers\<close>

text \<open>
  A state of the concurrent run: the driver state, where each worker is, and the indices of the
  modules that were claimed for validation, in the order of the claims.
\<close>

type_synonym 'a verification = "'a ver_st_scheme \<times> (nat \<Rightarrow> worker) \<times> nat list"

inductive verification_step ::
  "allocator \<Rightarrow> module_hash \<Rightarrow> 'a verification \<Rightarrow> 'a verification \<Rightarrow> bool"
  for alloc HashModule where
  moves: "SystemModuleVerificationDispatchFunction alloc HashModule (ws t) s = Some (w, s')
    \<Longrightarrow> verification_step alloc HashModule (s, ws, log) (s', ws(t := w),
          case w of Validating count max_count \<Rightarrow> log @ [unat count] | _ \<Rightarrow> log)"

inductive_cases verification_stepE: "verification_step alloc HashModule a b"

definition flags_of :: "'a ver_st_scheme \<Rightarrow> bool list" where
  "flags_of s = (case dispatcher_arrays s (sv_dispatcher_info (sys_val_context s)) of None \<Rightarrow> [] | Some fs \<Rightarrow> fs)"

text \<open>All modules below \<open>k\<close>, the first two aside, have been claimed.\<close>

definition covered :: "bool list \<Rightarrow> nat \<Rightarrow> bool" where
  "covered flags k \<longleftrightarrow> k \<le> length flags \<and> (\<forall>i. 2 \<le> i \<and> i < k \<longrightarrow> flags ! i)"

fun worker_ok :: "bool list \<Rightarrow> worker \<Rightarrow> bool" where
  "worker_ok flags (Scanning count _) = (2 \<le> unat count \<and> covered flags (unat count))"
| "worker_ok flags (Validating count _) = (2 \<le> unat count \<and> covered flags (Suc (unat count)))"
| "worker_ok flags (Exchanging count) = (2 \<le> unat count \<and> covered flags (unat count))"
| "worker_ok flags (Storing count) = (2 \<le> unat count \<and> covered flags (unat count))"
| "worker_ok flags _ = True"

definition verification_inv :: "nat \<Rightarrow> 'a verification \<Rightarrow> bool" where
  "verification_inv n v \<longleftrightarrow> (case v of (s, ws, log) \<Rightarrow>
     let c = sys_val_context s; flags = flags_of s in
     length flags = n \<and> n < 2 ^ 31 \<and> unat (sv_total_count c) = n
     \<and> dispatcher_arrays s (sv_dispatcher_info c) = Some flags
     \<and> 2 \<le> unat (sv_current_count c) \<and> covered flags (unat (sv_current_count c))
     \<and> (\<forall>t. worker_ok flags (ws t))
     \<and> (sv_complete c \<longrightarrow> covered flags n)
     \<and> distinct log \<and> set log = {i. 2 \<le> i \<and> i < n \<and> flags ! i})"

lemma covered_mono: "covered flags k \<Longrightarrow> covered (flags[i := True]) k"
  by (cases "i < length flags") (auto simp: covered_def nth_list_update)

lemma worker_ok_mono: "worker_ok flags w \<Longrightarrow> worker_ok (flags[i := True]) w"
  by (cases w) (auto intro: covered_mono)

lemma covered_Suc: "covered flags k \<Longrightarrow> k < length flags \<Longrightarrow> flags ! k \<Longrightarrow> covered flags (Suc k)"
  by (auto simp: covered_def less_Suc_eq)

lemma ver_emit [simp]:
  "sys_val_context (emit e s) = sys_val_context s" "module_arrays (emit e s) = module_arrays s"
  "dispatcher_arrays (emit e s) = dispatcher_arrays s"
  by (simp_all add: emit_def)

lemma set_val_fields [simp]:
  "sys_val_context (set_val f s) = f (sys_val_context s)" "dispatcher_arrays (set_val f s) = dispatcher_arrays s"
  "module_arrays (set_val f s) = module_arrays s" "k_trace (set_val f s) = k_trace s"
  by (simp_all add: set_val_def)

text \<open>Validating a module touches neither the context nor the claim flags.\<close>

lemma ExAllocatePool2_ver:
  "ExAllocatePool2 alloc tag s = (r, s') \<Longrightarrow> sys_val_context s' = sys_val_context s
     \<and> dispatcher_arrays s' = dispatcher_arrays s \<and> module_arrays s' = module_arrays s"
  by (auto simp: ExAllocatePool2_def emit_def split: option.splits)

lemma FindDriverEntry_ver:
  "FindDriverEntryByBaseAddress b s = Some (e, s') \<Longrightarrow> sys_val_context s' = sys_val_context s
     \<and> dispatcher_arrays s' = dispatcher_arrays s \<and> module_arrays s' = module_arrays s"
  by (auto simp: FindDriverEntryByBaseAddress_def find_entry_def Let_def split: bind_splits)

lemma ValidateSystemModule_ver:
  "ValidateSystemModule alloc HashModule Module s = Some s' \<Longrightarrow> sys_val_context s' = sys_val_context s
     \<and> dispatcher_arrays s' = dispatcher_arrays s \<and> module_arrays s' = module_arrays s"
  by (auto simp: ValidateSystemModule_def Let_def dest!: ExAllocatePool2_ver FindDriverEntry_ver
      split: prod.splits option.splits bind_splits if_splits)

lemma flags_cong:
  "sys_val_context s' = sys_val_context s \<Longrightarrow> dispatcher_arrays s' = dispatcher_arrays s \<Longrightarrow> flags_of s' = flags_of s"
  by (simp add: flags_of_def)

text \<open>A step that leaves the flags and the log alone.\<close>

lemma inv_quiet:
  assumes "verification_inv n (s, ws, log)" "dispatcher_arrays s' = dispatcher_arrays s"
    and "sv_dispatcher_info (sys_val_context s') = sv_dispatcher_info (sys_val_context s)"
    and "sv_total_count (sys_val_context s') = sv_total_count (sys_val_context s)"
    and "2 \<le> unat (sv_current_count (sys_val_context s'))"
    and "covered (flags_of s) (unat (sv_current_count (sys_val_context s')))"
    and "sv_complete (sys_val_context s') \<Longrightarrow> covered (flags_of s) n" "worker_ok (flags_of s) w"
  shows "verification_inv n (s', ws(t := w), log)"
proof -
  have "flags_of s' = flags_of s" using assms(2,3) by (simp add: flags_of_def)
  then show ?thesis using assms by (auto simp: verification_inv_def Let_def)
qed

lemma claim_inv:
  assumes "verification_inv n (s, ws, log)" "ws t = Scanning count max_count"
    and "count < sv_total_count (sys_val_context s)" "claim count s = Some (taken, s')"
  shows "verification_inv n (s', ws(t := if taken then Scanning (count + 1) max_count else Validating count max_count),
           if taken then log else log @ [unat count])"
proof -
  let ?c = "sys_val_context s" and ?flags = "flags_of s"
  from assms(1) have inv: "length ?flags = n" "n < 2 ^ 31" "unat (sv_total_count ?c) = n"
    "dispatcher_arrays s (sv_dispatcher_info ?c) = Some ?flags" "2 \<le> unat (sv_current_count ?c)"
    "covered ?flags (unat (sv_current_count ?c))" "\<And>t. worker_ok ?flags (ws t)" "sv_complete ?c \<longrightarrow> covered ?flags n"
    "distinct log" "set log = {i. 2 \<le> i \<and> i < n \<and> ?flags ! i}"
    by (auto simp: verification_inv_def Let_def)
  have lt: "unat count < n" using assms(3) inv(3) by (simp add: word_less_nat_alt)
  then have suc: "unat (count + 1) = Suc (unat count)"
    using inv(2) by (simp add: unat_word_ariths)
  have ok: "2 \<le> unat count" "covered ?flags (unat count)" using inv(7)[of t] assms(2) by simp_all
  from assms(4) inv(1,4) lt have
    s': "taken = ?flags ! unat count" "sys_val_context s' = ?c"
      "dispatcher_arrays s' (sv_dispatcher_info ?c) = Some (?flags[unat count := True])"
    by (auto simp: claim_def Let_def)
  then have fl: "flags_of s' = ?flags[unat count := True]" by (simp add: flags_of_def)
  have cov: "covered (flags_of s') (Suc (unat count))"
    using covered_Suc[OF covered_mono[OF ok(2), of "unat count"]] lt inv(1) fl by simp
  have log: "set (if taken then log else log @ [unat count]) = {i. 2 \<le> i \<and> i < n \<and> flags_of s' ! i}"
    using inv(1,10) s'(1) lt ok(1) fl by (auto simp: nth_list_update)
  have "distinct (if taken then log else log @ [unat count])"
    using inv(9,10) s'(1) by auto
  with log show ?thesis
    using inv s' fl cov suc ok(1) covered_mono[OF inv(6)] covered_mono[of ?flags n] worker_ok_mono[OF inv(7)]
    by (auto simp: verification_inv_def Let_def)
qed

text \<open>The log after a step of a worker, and the steps one state of the worker at a time.\<close>

abbreviation log_after :: "worker \<Rightarrow> nat list \<Rightarrow> nat list" where
  "log_after w log \<equiv> (case w of Validating count max_count \<Rightarrow> log @ [unat count] | _ \<Rightarrow> log)"

lemma verification_invD:
  assumes "verification_inv n (s, ws, log)"
  shows "2 \<le> unat (sv_current_count (sys_val_context s))" "covered (flags_of s) (unat (sv_current_count (sys_val_context s)))"
    "sv_complete (sys_val_context s) \<Longrightarrow> covered (flags_of s) n" "unat (sv_total_count (sys_val_context s)) = n"
  using assms by (auto simp: verification_inv_def Let_def)

lemma verification_inv_worker: "verification_inv n (s, ws, log) \<Longrightarrow> worker_ok (flags_of s) (ws t)"
  by (simp add: verification_inv_def Let_def)

lemma scanning_inv:
  assumes "verification_inv n (s, ws, log)" "ws t = Scanning count max_count"
    and "SystemModuleVerificationDispatchFunction alloc HashModule (ws t) s = Some (w, s')"
  shows "verification_inv n (s', ws(t := w), log_after w log)"
proof (cases "sint count < sint max_count \<and> count < sv_total_count (sys_val_context s)")
  case True
  with assms(2,3) obtain taken where c: "claim count s = Some (taken, s')"
    "w = (if taken then Scanning (count + 1) max_count else Validating count max_count)"
    by (auto split: bind_splits prod.splits)
  from claim_inv[OF assms(1,2) _ c(1)] True c(2) show ?thesis by (auto split: if_splits)
next
  case False
  with assms(2,3) have "w = Storing count"
    "s' = (if count = sv_total_count (sys_val_context s) then set_val (sv_complete_update (\<lambda>_. True)) s else s)" by auto
  moreover have "verification_inv n (s', ws(t := Storing count), log)"
    by (rule inv_quiet[OF assms(1)]) (use calculation verification_invD[OF assms(1)] verification_inv_worker[OF assms(1), of t] assms(2) in \<open>auto split: if_splits\<close>)
  ultimately show ?thesis by simp
qed

lemma validating_inv:
  assumes "verification_inv n (s, ws, log)" "ws t = Validating count max_count"
    and "SystemModuleVerificationDispatchFunction alloc HashModule (ws t) s = Some (w, s')"
  shows "verification_inv n (s', ws(t := w), log_after w log)"
proof -
  from assms(2,3) obtain M where v: "ValidateSystemModule alloc HashModule M s = Some s'"
    "w = Scanning (count + 1) max_count" by (auto split: bind_splits if_splits)
  note * = verification_invD[OF assms(1)] verification_inv_worker[OF assms(1), of t]
  have "unat count < n" using * assms(1,2) by (auto simp: covered_def verification_inv_def Let_def)
  then have suc: "unat (count + 1) = Suc (unat count)"
    using assms(1) by (simp add: unat_word_ariths verification_inv_def Let_def)
  have "verification_inv n (s', ws(t := w), log)"
    by (rule inv_quiet[OF assms(1)]) (use ValidateSystemModule_ver[OF v(1)] v(2) * assms(2) suc in auto)
  then show ?thesis using v(2) by simp
qed

lemma other_worker_inv:
  assumes "verification_inv n (s, ws, log)" "\<forall>count max_count. ws t \<noteq> Scanning count max_count \<and> ws t \<noteq> Validating count max_count"
    and "SystemModuleVerificationDispatchFunction alloc HashModule (ws t) s = Some (w, s')"
  shows "verification_inv n (s', ws(t := w), log_after w log)"
proof -
  have "verification_inv n (s', ws(t := w), log)"
    by (rule inv_quiet[OF assms(1)]) (use assms(2,3) verification_invD[OF assms(1)] verification_inv_worker[OF assms(1), of t] in \<open>cases "ws t"; auto simp: Let_def\<close>)+
  moreover have "log_after w log = log" using assms(2,3) by (cases "ws t") (auto simp: Let_def)
  ultimately show ?thesis by simp
qed

lemma verification_inv_step:
  assumes "verification_step alloc HashModule a b" "verification_inv n a"
  shows "verification_inv n b"
  using assms(1)
proof (cases rule: verification_step.cases)
  case (moves ws t s w s' log)
  then have inv: "verification_inv n (s, ws, log)" using assms(2) by simp
  show ?thesis
    using scanning_inv[OF inv _ moves(3)] validating_inv[OF inv _ moves(3)] other_worker_inv[OF inv _ moves(3)] moves(2)
    by (cases "ws t") simp_all
qed

text \<open>A context as the dispatcher initialises it, with the workers queued.\<close>

definition fresh_context :: "nat \<Rightarrow> 'a ver_st_scheme \<Rightarrow> bool" where
  "fresh_context n s \<longleftrightarrow> (let c = sys_val_context s in
     sv_current_count c = 2 \<and> \<not> sv_complete c \<and> unat (sv_total_count c) = n
     \<and> dispatcher_arrays s (sv_dispatcher_info c) = Some (replicate n False))"

lemma fresh_context_inv:
  assumes "fresh_context n s" "2 \<le> n" "n < 2 ^ 31"
  shows "verification_inv n (s, \<lambda>_. Queued, [])"
  using assms by (auto simp: fresh_context_def verification_inv_def flags_of_def covered_def Let_def)

lemma initialised_context_fresh:
  assumes "InitialiseSystemModuleVerificationContext q alloc s = Some (status, s')" "NT_SUCCESS status"
  shows "fresh_context (unat (sv_total_count (sys_val_context s'))) s'"
  using assms
  by (auto simp: InitialiseSystemModuleVerificationContext_def fresh_context_def
      split: prod.splits if_splits option.splits bind_splits)

text \<open>C24: every system module is verified exactly once. From a context with \<open>n\<close> modules, in every
  interleaving of any number of workers, no module is claimed twice, the first two are never
  claimed, and when a worker declares the verification complete each of the others has been
  claimed, so none is skipped, although the workers race on the shared index.\<close>

theorem verification_covers_every_module:
  assumes "InitialiseSystemModuleVerificationContext q alloc s0 = Some (status, s)" "NT_SUCCESS status"
    and "n = unat (sv_total_count (sys_val_context s))" "2 \<le> n" "n < 2 ^ 31"
    and "(verification_step alloc' HashModule)\<^sup>*\<^sup>* (s, \<lambda>_. Queued, []) (s', ws, log)"
  shows "distinct log \<and> set log \<subseteq> {2..<n} \<and> (sv_complete (sys_val_context s') \<longrightarrow> set log = {2..<n})"
proof -
  have fresh: "fresh_context n s" using initialised_context_fresh[OF assms(1,2)] assms(3) by simp
  have "verification_inv n b" if "(verification_step alloc' HashModule)\<^sup>*\<^sup>* (s, \<lambda>_. Queued, []) b" for b
    using that
  proof induction
    case base
    then show ?case using fresh_context_inv[OF fresh assms(4,5)] .
  next
    case (step a b)
    then show ?case using verification_inv_step by blast
  qed
  from this[OF assms(6)] show ?thesis
    by (auto simp: verification_inv_def Let_def covered_def)
qed

text \<open>Running a schedule, a list of the workers in the order they move.\<close>

primrec run_schedule ::
  "allocator \<Rightarrow> module_hash \<Rightarrow> nat list \<Rightarrow> 'a verification \<Rightarrow> 'a verification option" where
  "run_schedule alloc HashModule [] v = Some v"
| "run_schedule alloc HashModule (t # ts) v = (case v of (s, ws, log) \<Rightarrow> do {
     (w, s') \<leftarrow> SystemModuleVerificationDispatchFunction alloc HashModule (ws t) s;
     run_schedule alloc HashModule ts (s', ws(t := w), case w of Validating count _ \<Rightarrow> log @ [unat count] | _ \<Rightarrow> log)
   })"

lemma run_schedule_append:
  "run_schedule alloc HashModule (xs @ ys) v = Option.bind (run_schedule alloc HashModule xs v) (run_schedule alloc HashModule ys)"
proof (induction xs arbitrary: v)
  case (Cons x xs)
  then show ?case by (cases v) (simp split: bind_split)
qed simp

lemma run_schedule_steps:
  "run_schedule alloc HashModule ts v = Some v' \<Longrightarrow> (verification_step alloc HashModule)\<^sup>*\<^sup>* v v'"
proof (induction ts arbitrary: v)
  case (Cons t ts)
  obtain s ws log where v: "v = (s, ws, log)" by (cases v)
  with Cons.prems obtain w s' where
    st: "SystemModuleVerificationDispatchFunction alloc HashModule (ws t) s = Some (w, s')"
      "run_schedule alloc HashModule ts (s', ws(t := w), case w of Validating count _ \<Rightarrow> log @ [unat count] | _ \<Rightarrow> log)
         = Some v'"
    by (auto split: bind_splits)
  from moves[where ws = ws and t = t, OF st(1), of log] Cons.IH[OF st(2)] show ?case
    unfolding v by (rule converse_rtranclp_into_rtranclp)
qed simp

definition example_ver_st :: ver_st where
  "example_ver_st = info_st.extend example_info_st (ver_st.fields
     \<lparr>sv_active_thread_count = 0, sv_active = False, sv_complete = False, sv_current_count = 0, sv_total_count = 0,
      sv_block_size = 0, sv_module_info = 0, sv_dispatcher_info = 0, sv_work_items = [0, 0, 0, 0]\<rparr>
     Map.empty Map.empty)"

definition example_query :: module_query where
  "example_query = \<lparr>mq_size = (STATUS_SUCCESS, 816), mq_fill = (STATUS_SUCCESS, 816,
     replicate 3 \<lparr>mi_ImageBase = 0x5000, mi_ImageSize = 0x1000, mi_FullPathName = ''a.sys''\<rparr>)\<rparr>"

text \<open>Two workers race over three modules: both take the index before either claims a module,
  and the one that loses the race declares the verification complete.\<close>

abbreviation race :: "nat list" where "race \<equiv> [0, 0, 0, 1, 1, 1, 0, 1, 1]"

theorem verification_covers_every_module_witness:
  "\<exists>s s' ws log. InitialiseSystemModuleVerificationContext example_query (\<lambda>n. Some (0x1000 + of_nat n)) example_ver_st
        = Some (STATUS_SUCCESS, s)
      \<and> run_schedule (\<lambda>_. None) (\<lambda>_. (0, [])) race (s, \<lambda>_. Queued, []) = Some (s', ws, log)
      \<and> sv_complete (sys_val_context s') \<and> set log = {2}"
proof -
  define r where "r = InitialiseSystemModuleVerificationContext example_query (\<lambda>n. Some (0x1000 + of_nat n)) example_ver_st"
  define c where "c = \<lparr>sv_active_thread_count = 0, sv_active = True, sv_complete = False, sv_current_count = 2,
     sv_total_count = 3, sv_block_size = 25, sv_module_info = 0x1000, sv_dispatcher_info = 0x1001,
     sv_work_items = [0, 0, 0, 0 :: ptr]\<rparr>"
  have "map_option (\<lambda>x. (fst x, sys_val_context (snd x), dispatcher_arrays (snd x) 0x1001,
           map_option length (module_arrays (snd x) 0x1000))) r
      = Some (STATUS_SUCCESS, c, Some (replicate 3 False), Some 3)"
    unfolding r_def c_def by code_simp
  then obtain s infos where s: "r = Some (STATUS_SUCCESS, s)" "sys_val_context s = c"
    "dispatcher_arrays s 0x1001 = Some [False, False, False]" "module_arrays s 0x1000 = Some infos" "length infos = 3"
    by (auto simp: numeral_eq_Suc)
  have "map_option (\<lambda>v. sv_complete (sys_val_context (fst v)))
      (run_schedule (\<lambda>_. None) (\<lambda>_. (0, [])) race (s, \<lambda>_. Queued, [])) = Some True"
  proof -
    let ?count = "set_val (\<lambda>c. c\<lparr>sv_active_thread_count := sv_active_thread_count c + 1\<rparr>)" and ?store = "set_val (sv_current_count_update (\<lambda>_. 2))"
    let ?s = "?store (?count (?store (?count s)))"
    have "map_option (\<lambda>v. sv_complete (sys_val_context (fst v)))
        (run_schedule (\<lambda>_. None) (\<lambda>_. (0, [])) [0, 1, 1] (u, (\<lambda>_. Queued)(0 := Scanning 2 27, 1 := Scanning 2 27), [])) = Some True"
      if "sys_val_context u = c\<lparr>sv_active_thread_count := 2\<rparr>" "dispatcher_arrays u 0x1001 = Some [False, False, False]" for u :: ver_st
      using that by (simp add: c_def claim_def)
    moreover have "sys_val_context ?s = c\<lparr>sv_active_thread_count := 2\<rparr>" "dispatcher_arrays ?s 0x1001 = Some [False, False, False]"
      using s(2,3) by (simp_all add: c_def)
    moreover have "run_schedule (\<lambda>_. None) (\<lambda>_. (0, [])) [0, 0, 0, 1, 1, 1] (s, \<lambda>_. Queued, [])
        = Some (?s, (\<lambda>_. Queued)(0 := Scanning 2 27, 1 := Scanning 2 27), [])"
      using s(2) by (simp add: c_def)
    ultimately show ?thesis
      using run_schedule_append[of "\<lambda>_. None" "\<lambda>_. (0, [])" "[0, 0, 0, 1, 1, 1]" "[0, 1, 1]" "(s, \<lambda>_. Queued, [])"]
      by (simp del: run_schedule.simps)
  qed
  then obtain v where v: "run_schedule (\<lambda>_. None) (\<lambda>_. (0, [])) race (s, \<lambda>_. Queued, []) = Some v"
    "sv_complete (sys_val_context (fst v))"
    unfolding map_option_eq_Some by blast
  obtain s' ws log where "v = (s', ws, log)" by (cases v)
  with v have run: "run_schedule (\<lambda>_. None) (\<lambda>_. (0, [])) race (s, \<lambda>_. Queued, []) = Some (s', ws, log)"
    "sv_complete (sys_val_context s')" by (simp_all only: fst_conv)
  from verification_covers_every_module[OF s(1)[unfolded r_def], of 3, OF _ _ _ _ run_schedule_steps[OF run(1)]] s(2) run(2)
  have "set log = {2..<3}" by (simp add: c_def)
  then have "set log = {2}" by (simp only: eval_nat_numeral atLeastLessThan_singleton One_nat_def)
  with s(1)[unfolded r_def] run show ?thesis by blast
qed

end
