(* ===== verification/Crypt.thy ===== *)
theory Crypt
  imports Kernel
begin

text \<open>
  The obfuscation routines of \<^verbatim>\<open>src/driver/crypt.c\<close>: the encryption of the import array in
  blocks of four 64-bit lanes, the decryption of one entry, and the cookie cipher of the
  session buffers. Arrays are lists, and an access out of their bounds is a fault (\<open>None\<close>).
\<close>

section \<open>256-bit vectors\<close>

text \<open>A vector is its four 64-bit lanes, the least significant one first.\<close>

type_synonym m256i = "u64 \<times> u64 \<times> u64 \<times> u64"

fun mm256_set_epi64x :: "u64 \<Rightarrow> u64 \<Rightarrow> u64 \<Rightarrow> u64 \<Rightarrow> m256i" where
  "mm256_set_epi64x e3 e2 e1 e0 = (e0, e1, e2, e3)"

fun mm256_xor_si256 :: "m256i \<Rightarrow> m256i \<Rightarrow> m256i" where
  "mm256_xor_si256 (a0, a1, a2, a3) (b0, b1, b2, b3) =
     (a0 XOR b0, a1 XOR b1, a2 XOR b2, a3 XOR b3)"

fun mm256_extracti128_si256 :: "m256i \<Rightarrow> nat \<Rightarrow> u64 \<times> u64" where
  "mm256_extracti128_si256 (a0, a1, a2, a3) i = (if i = 0 then (a0, a1) else (a2, a3))"

fun mm_extract_epi64 :: "u64 \<times> u64 \<Rightarrow> nat \<Rightarrow> u64" where
  "mm_extract_epi64 (a0, a1) i = (if i = 0 then a0 else a1)"

text \<open>\<^verbatim>\<open>RtlCopyMemory\<close> between a vector and the array, from an element index.\<close>

definition copy_from_array :: "u64 list \<Rightarrow> nat \<Rightarrow> m256i option" where
  "copy_from_array Array i =
     (if i + 4 \<le> length Array
      then Some (Array ! i, Array ! (i + 1), Array ! (i + 2), Array ! (i + 3)) else None)"

fun copy_to_array :: "u64 list \<Rightarrow> nat \<Rightarrow> m256i \<Rightarrow> u64 list option" where
  "copy_to_array Array i (a0, a1, a2, a3) =
     (if i + 4 \<le> length Array
      then Some (Array[i := a0, i + 1 := a1, i + 2 := a2, i + 3 := a3]) else None)"

section \<open>Operations\<close>

definition CryptGenerateSseXorKey :: m256i where
  "CryptGenerateSseXorKey =
     mm256_set_epi64x 0x1122334455667788 0x0011223344556677 0x5566778899AABBCC 0x66778899AABBCCDD"

definition block_size :: u32 where "block_size = 4"

definition CryptEncryptImportsArray :: "u64 list \<Rightarrow> u32 \<Rightarrow> u64 list option" where
  "CryptEncryptImportsArray Array Entries =
     (let block_count = Entries div block_size in
      for_each [0..<unat block_count] (\<lambda>block_index Array. do {
        load_block \<leftarrow> copy_from_array Array (block_index * unat block_size);
        let xored_block = mm256_xor_si256 load_block CryptGenerateSseXorKey;
        copy_to_array Array (block_index * unat block_size) xored_block
      }) Array)"

definition CryptDecryptImportBlock :: "u64 list \<Rightarrow> u32 \<Rightarrow> m256i option" where
  "CryptDecryptImportBlock Array BlockIndex = do {
     load_block \<leftarrow> copy_from_array Array (unat (BlockIndex * block_size));
     Some (mm256_xor_si256 load_block CryptGenerateSseXorKey)
   }"

partial_function (option) find_block_loop :: "u32 \<Rightarrow> u32 \<Rightarrow> u32 \<Rightarrow> (u32 \<times> u32) option" where
  "find_block_loop BlockSize containing_block block_index =
     (if BlockSize = 0 then None
      else if containing_block mod BlockSize \<noteq> 0
      then find_block_loop BlockSize (containing_block - 1) (block_index + 1)
      else Some (containing_block div BlockSize, block_index))"

definition CryptFindContainingBlockForArrayIndex :: "u32 \<Rightarrow> u32 \<Rightarrow> (u32 \<times> u32) option" where
  "CryptFindContainingBlockForArrayIndex EntryIndex BlockSize =
     (if EntryIndex < BlockSize then Some (0, EntryIndex)
      else if EntryIndex = BlockSize then Some (1, 0)
      else find_block_loop BlockSize EntryIndex 0)"

definition extract_lane :: "m256i \<Rightarrow> u32 \<Rightarrow> u64" where
  "extract_lane original_block block_sub_index =
     (if block_sub_index < 2
      then (let original_half = mm256_extracti128_si256 original_block 0 in
            if block_sub_index < 1 then mm_extract_epi64 original_half 0
            else mm_extract_epi64 original_half 1)
      else (let original_half = mm256_extracti128_si256 original_block 1 in
            if block_sub_index = 2 then mm_extract_epi64 original_half 0
            else mm_extract_epi64 original_half 1))"

definition CryptDecryptImportsArrayEntry :: "u64 list \<Rightarrow> u32 \<Rightarrow> u32 \<Rightarrow> u64 option" where
  "CryptDecryptImportsArrayEntry Array Entries EntryIndex = do {
     (containing_block_index, block_sub_index) \<leftarrow>
       CryptFindContainingBlockForArrayIndex EntryIndex block_size;
     original_block \<leftarrow> CryptDecryptImportBlock Array containing_block_index;
     Some (extract_lane original_block block_sub_index)
   }"

text \<open>\<^verbatim>\<open>buffer[index] ^= Cookie\<close> on a \<^verbatim>\<open>CHAR\<close> keeps the low byte of the cookie.\<close>

definition CryptDecryptBufferWithCookie :: "u8 list \<Rightarrow> u32 \<Rightarrow> u32 \<Rightarrow> u8 list option" where
  "CryptDecryptBufferWithCookie Buffer BufferSize Cookie =
     for_each [0..<unat BufferSize] (\<lambda>index buffer.
       if index < length buffer
       then Some (buffer[index := ucast ((ucast (buffer ! index) :: u32) XOR Cookie)])
       else None) Buffer"

section \<open>Blocks and lanes\<close>

definition key_lane :: "nat \<Rightarrow> u64" where
  "key_lane i = [0x66778899AABBCCDD, 0x5566778899AABBCC, 0x0011223344556677, 0x1122334455667788] ! (i mod 4)"

lemma xor_key:
  "mm256_xor_si256 (a0, a1, a2, a3) CryptGenerateSseXorKey =
   (a0 XOR key_lane 0, a1 XOR key_lane 1, a2 XOR key_lane 2, a3 XOR key_lane 3)"
  by (simp add: CryptGenerateSseXorKey_def key_lane_def)

lemma key_lane_mod [simp]: "key_lane (4 * b + j) = key_lane j"
  by (simp add: key_lane_def)

lemma key_lane_nonzero: "key_lane i \<noteq> 0"
proof -
  have "i mod 4 \<in> {0, 1, 2, 3}" by auto
  then show ?thesis unfolding key_lane_def by auto
qed

lemma find_block_loop_nat:
  assumes "k < unat B" "q * unat B + k < 2 ^ 32"
  shows "find_block_loop B (of_nat (q * unat B + k)) j = Some (of_nat q, j + of_nat k)"
  using assms
proof (induction k arbitrary: j)
  case 0
  have B: "B \<noteq> 0" using 0 by auto
  have "unat (of_nat (q * unat B) :: u32) = q * unat B"
    using 0 by (intro unat_of_nat_eq) simp
  moreover have "q < 2 ^ 32"
    using 0 by (cases "unat B") auto
  ultimately have "(of_nat (q * unat B) :: u32) mod B = 0" "(of_nat (q * unat B) :: u32) div B = of_nat q"
    using 0 B by (simp_all add: word_unat_eq_iff unat_mod unat_div unat_of_nat_eq del: of_nat_mult)
  then show ?case
    using B by (subst find_block_loop.simps) (simp del: of_nat_mult)
next
  case (Suc k)
  have B: "B \<noteq> 0" using Suc.prems by auto
  have "unat (of_nat (q * unat B + Suc k) :: u32) = q * unat B + Suc k"
    using Suc.prems by (intro unat_of_nat_eq) simp
  then have "unat ((of_nat (q * unat B + Suc k) :: u32) mod B) = Suc k"
    using Suc.prems by (simp add: unat_mod del: of_nat_add of_nat_mult of_nat_Suc)
  then have "(of_nat (q * unat B + Suc k) :: u32) mod B \<noteq> 0"
    by (metis Zero_not_Suc unat_0)
  moreover have "of_nat (q * unat B + Suc k) - 1 = (of_nat (q * unat B + k) :: u32)"
    by simp
  ultimately show ?case
    using Suc.IH[of "j + 1"] Suc.prems B
    by (subst find_block_loop.simps) (simp del: of_nat_add of_nat_mult add: of_nat_Suc add.assoc)
qed

text \<open>The block search is division with remainder, for every index and block size.\<close>

lemma find_containing_block:
  assumes "0 < B"
  shows "CryptFindContainingBlockForArrayIndex i B = Some (i div B, i mod B)"
proof -
  have B: "0 < unat B" using assms by (simp add: word_less_nat_alt)
  have "i = of_nat ((unat i div unat B) * unat B + unat i mod unat B)"
    by (simp add: div_mult_mod_eq del: of_nat_add of_nat_mult)
  moreover have "unat i < 2 ^ 32" using unsigned_less[of i, where 'a = nat] by simp
  ultimately have "find_block_loop B i 0 = Some (of_nat (unat i div unat B), of_nat (unat i mod unat B))"
    using find_block_loop_nat[of "unat i mod unat B" B "unat i div unat B" 0] B
    by (simp del: of_nat_add of_nat_mult)
  then have "find_block_loop B i 0 = Some (i div B, i mod B)"
    by (simp add: word_arith_nat_div word_arith_nat_mod)
  then show ?thesis
    using B by (auto simp: CryptFindContainingBlockForArrayIndex_def word_unat_eq_iff unat_div unat_mod
        word_less_nat_alt)
qed

section \<open>The import array cipher\<close>

definition encrypted :: "nat \<Rightarrow> u64 list \<Rightarrow> u64 list" where
  "encrypted n A = map (\<lambda>i. if i < n then A ! i XOR key_lane i else A ! i) [0..<length A]"

lemma length_encrypted [simp]: "length (encrypted n A) = length A"
  by (simp add: encrypted_def)

lemma nth_encrypted [simp]:
  "i < length A \<Longrightarrow> encrypted n A ! i = (if i < n then A ! i XOR key_lane i else A ! i)"
  by (simp add: encrypted_def)

lemma encrypted_0 [simp]: "encrypted 0 A = A"
  by (simp add: encrypted_def map_nth)

lemma encrypt_block:
  assumes "4 * b + 4 \<le> length A"
  shows "Option.bind (copy_from_array (encrypted (4 * b) A) (4 * b))
           (\<lambda>blk. copy_to_array (encrypted (4 * b) A) (4 * b) (mm256_xor_si256 blk CryptGenerateSseXorKey))
         = Some (encrypted (4 * b + 4) A)"
proof -
  let ?f = "\<lambda>j. A ! (4 * b + j) XOR key_lane j"
  have "(encrypted (4 * b) A)[4 * b := ?f 0, 4 * b + 1 := ?f 1, 4 * b + 2 := ?f 2, 4 * b + 3 := ?f 3]
        = encrypted (4 * b + 4) A" (is "?l = _")
  proof (rule nth_equalityI)
    fix i assume i: "i < length ?l"
    consider "i < 4 * b" | "i = 4 * b" | "i = 4 * b + 1" | "i = 4 * b + 2" | "i = 4 * b + 3" | "4 * b + 3 < i"
      by linarith
    then show "?l ! i = encrypted (4 * b + 4) A ! i"
      using i assms key_lane_mod[of b 0] key_lane_mod[of b 1] key_lane_mod[of b 2] key_lane_mod[of b 3]
      by cases (simp_all add: nth_list_update)
  qed simp
  then show ?thesis
    using assms by (simp add: copy_from_array_def xor_key)
qed

lemma CryptEncryptImportsArray_eq:
  assumes "unat n = length A"
  shows "CryptEncryptImportsArray A n = Some (encrypted (4 * (length A div 4)) A)"
proof -
  have cnt: "unat (n div block_size) = length A div 4" "unat block_size = 4"
    using assms by (simp_all add: block_size_def unat_div)
  have "\<exists>s'. for_each [0..<length A div 4] (\<lambda>b arr. do {
          blk \<leftarrow> copy_from_array arr (b * 4);
          let x = mm256_xor_si256 blk CryptGenerateSseXorKey;
          copy_to_array arr (b * 4) x }) A = Some s' \<and> s' = encrypted (4 * (length A div 4)) A"
    by (rule for_each_upt[where P = "\<lambda>k arr. arr = encrypted (4 * k) A"])
      (use encrypt_block[of _ A] in \<open>auto simp: mult.commute[of _ 4] Let_def add.commute[of 4]\<close>)
  then show ?thesis
    by (simp add: CryptEncryptImportsArray_def cnt)
qed

lemma extract_lane_nth:
  assumes "j < 4"
  shows "extract_lane (f 0, f 1, f 2, f 3) (of_nat j) = f j"
proof -
  consider "j = 0" | "j = 1" | "j = 2" | "j = 3" using assms by linarith
  then show ?thesis by cases (simp_all add: extract_lane_def)
qed

lemma xor_nonzero: "(k :: u64) \<noteq> 0 \<Longrightarrow> a XOR k \<noteq> a"
proof
  assume "a XOR k = a" "k \<noteq> 0"
  then have "(a XOR a) XOR k = a XOR a" by (simp only: xor.assoc)
  with \<open>k \<noteq> 0\<close> show False by simp
qed

lemma CryptDecryptImportsArrayEntry_eq:
  assumes "4 * (unat i div 4) + 4 \<le> length A"
  shows "CryptDecryptImportsArrayEntry A n i = Some (A ! unat i XOR key_lane (unat i))"
proof -
  let ?b = "unat i div 4" and ?j = "unat i mod 4"
  let ?f = "\<lambda>j. A ! (4 * ?b + j) XOR key_lane j"
  have "unat i < 2 ^ 32" using unsigned_less[of i, where 'a = nat] by simp
  moreover have "unat (i div block_size) = ?b"
    by (simp add: block_size_def unat_div)
  ultimately have "unat ((i div block_size) * block_size) = 4 * ?b"
    by (subst unat_mult_lem[THEN iffD1]) (simp_all add: block_size_def)
  then have blk: "CryptDecryptImportBlock A (i div block_size) = Some (?f 0, ?f 1, ?f 2, ?f 3)"
    using assms by (simp add: CryptDecryptImportBlock_def copy_from_array_def xor_key)
  have "CryptFindContainingBlockForArrayIndex i block_size = Some (i div block_size, of_nat ?j)"
    using find_containing_block[of block_size i] by (simp add: block_size_def word_arith_nat_mod)
  then have "CryptDecryptImportsArrayEntry A n i = Some (?f ?j)"
    using extract_lane_nth[of ?j ?f] by (simp add: CryptDecryptImportsArrayEntry_def blk)
  moreover have "4 * ?b + ?j = unat i" "key_lane ?j = key_lane (unat i)"
    by (simp_all add: key_lane_def)
  ultimately show ?thesis by simp
qed

section \<open>Properties\<close>

text \<open>C12: the encryption of the import array is undone by the per-entry decryption. On any
  array whose length is passed as \<^verbatim>\<open>Entries\<close>, the encryption returns an array of the same
  length; for every entry that lies in a full block of four, decrypting that single entry
  gives the original pointer back, while the stored word differs from it, so no pointer of a
  full block stays in the clear; entries behind the last full block are left as they were.\<close>

theorem import_array_roundtrip:
  assumes "unat n = length A"
  shows "\<exists>A'. CryptEncryptImportsArray A n = Some A' \<and> length A' = length A
     \<and> (\<forall>i. unat i < 4 * (length A div 4) \<longrightarrow>
            CryptDecryptImportsArrayEntry A' n i = Some (A ! unat i) \<and> A' ! unat i \<noteq> A ! unat i)
     \<and> (\<forall>i. 4 * (length A div 4) \<le> i \<longrightarrow> i < length A \<longrightarrow> A' ! i = A ! i)"
proof (intro exI[of _ "encrypted (4 * (length A div 4)) A"] conjI allI impI)
  fix i :: u32
  assume i: "unat i < 4 * (length A div 4)"
  then have "unat i div 4 < length A div 4" by linarith
  then have "4 * (unat i div 4) + 4 \<le> length A" by linarith
  moreover have "unat i < length A" using i by linarith
  ultimately show "CryptDecryptImportsArrayEntry (encrypted (4 * (length A div 4)) A) n i = Some (A ! unat i)"
    using i by (simp add: CryptDecryptImportsArrayEntry_eq xor.assoc)
  show "encrypted (4 * (length A div 4)) A ! unat i \<noteq> A ! unat i"
    using i \<open>unat i < length A\<close> by (simp add: xor_nonzero key_lane_nonzero)
qed (simp_all add: CryptEncryptImportsArray_eq assms)

theorem import_array_roundtrip_witness:
  "\<exists>A'. CryptEncryptImportsArray [1, 2, 3, 4, 5] 5 = Some A' \<and> length A' = length [1::u64, 2, 3, 4, 5]
     \<and> (\<forall>i. unat i < 4 \<longrightarrow>
            CryptDecryptImportsArrayEntry A' 5 i = Some ([1, 2, 3, 4, 5] ! unat i)
            \<and> A' ! unat i \<noteq> [1, 2, 3, 4, 5] ! unat i)
     \<and> (\<forall>i. 4 \<le> i \<longrightarrow> i < length [1::u64, 2, 3, 4, 5] \<longrightarrow> A' ! i = [1, 2, 3, 4, 5] ! i)"
  using import_array_roundtrip[of 5 "[1, 2, 3, 4, 5]"] by simp

lemma CryptDecryptBufferWithCookie_eq:
  assumes "unat n \<le> length B"
  shows "CryptDecryptBufferWithCookie B n c =
    Some (map (\<lambda>b. b XOR ucast c) (take (unat n) B) @ drop (unat n) B)"
proof -
  let ?P = "\<lambda>k B'. B' = map (\<lambda>b. b XOR ucast c) (take k B) @ drop k B"
  have "\<exists>s'. CryptDecryptBufferWithCookie B n c = Some s' \<and> ?P (unat n) s'"
    unfolding CryptDecryptBufferWithCookie_def
  proof (rule for_each_upt[where P = ?P])
    fix i t assume i: "i < unat n" and "?P i t"
    moreover have "ucast ((ucast b :: u32) XOR c) = b XOR (ucast c :: u8)" for b :: u8
      by (rule bit_word_eqI) (auto simp: bit_xor_iff bit_simps)
    ultimately show "\<exists>t'. (if i < length t
        then Some (t[i := ucast ((ucast (t ! i) :: u32) XOR c)]) else None) = Some t' \<and> ?P (Suc i) t'"
      using assms
      by (simp add: nth_append list_update_append take_Suc_conv_app_nth Cons_nth_drop_Suc[symmetric])
  qed simp
  then show ?thesis by blast
qed

text \<open>The cookie cipher of session buffers is its own inverse, on every buffer, size
  within the buffer and cookie; it changes nothing behind the given size and never faults.\<close>

theorem cookie_cipher_involution:
  assumes "unat n \<le> length B"
  shows "\<exists>B'. CryptDecryptBufferWithCookie B n c = Some B' \<and> length B' = length B
     \<and> drop (unat n) B' = drop (unat n) B \<and> CryptDecryptBufferWithCookie B' n c = Some B"
  using assms by (auto simp: CryptDecryptBufferWithCookie_eq comp_def xor.assoc)

theorem cookie_cipher_involution_witness:
  "\<exists>B'. CryptDecryptBufferWithCookie [1, 2, 3] 2 0x1FF = Some B' \<and> length B' = length [1::u8, 2, 3]
     \<and> drop 2 B' = [3] \<and> CryptDecryptBufferWithCookie B' 2 0x1FF = Some [1, 2, 3]"
  using cookie_cipher_involution[of 2 "[1, 2, 3]" "0x1FF"] by simp

end
