(* ===== verification/Imports.thy ===== *)
theory Imports
  imports Memory Crypt
begin

text \<open>
  Dynamic import resolution, from \<^verbatim>\<open>src/driver/imports.c\<close> and \<^verbatim>\<open>imports.h\<close>: the driver walks
  the loaded module list to the kernel image, searches its export directory for the 79
  routine names, encrypts the table of pointers, and calls every routine through a wrapper
  that decrypts its slot.
\<close>

section \<open>Resolution\<close>

text \<open>
  The loader entries that the walk visits, by address: the forward link in load order, the
  name (the wide characters of \<^verbatim>\<open>BaseDllName\<close>) and the base address.
\<close>

record ldr_entry =
  ldr_Flink :: ptr
  ldr_BaseDllName :: string
  ldr_DllBase :: ptr

type_synonym loaded_modules = "ptr \<rightharpoonup> ldr_entry"

partial_function (option) FindDriverBaseNoApi_loop ::
  "loaded_modules \<Rightarrow> ptr \<Rightarrow> string \<Rightarrow> ptr \<Rightarrow> ptr option" where
  "FindDriverBaseNoApi_loop ldr first Name entry = do {
     e \<leftarrow> ldr entry;
     (if ldr_Flink e = first then Some NULL
      else if ldr_BaseDllName e = Name then Some (ldr_DllBase e)
      else FindDriverBaseNoApi_loop ldr first Name (ldr_Flink e))
   }"

definition FindDriverBaseNoApi :: "loaded_modules \<Rightarrow> ptr \<Rightarrow> string \<Rightarrow> ptr option" where
  "FindDriverBaseNoApi ldr DriverSection Name = do {
     e0 \<leftarrow> ldr DriverSection;
     e1 \<leftarrow> ldr (ldr_Flink e0);
     FindDriverBaseNoApi_loop ldr DriverSection Name (ldr_Flink e1)
   }"

text \<open>The scan of the name table, from an index over the names that remain.\<close>

primrec export_search ::
  "memory \<Rightarrow> ptr \<Rightarrow> ptr \<Rightarrow> ptr \<Rightarrow> ptr \<Rightarrow> string \<Rightarrow> nat \<Rightarrow> nat \<Rightarrow> ptr option" where
  "export_search m image_base name_table ordinals addr_table ExportName index 0 = Some NULL"
| "export_search m image_base name_table ordinals addr_table ExportName index (Suc left) = do {
     name \<leftarrow> read_u32 m (name_table + of_nat (4 * index));
     equal \<leftarrow> strcmp_equal m (image_base + ucast name) ExportName;
     (if \<not> equal
      then export_search m image_base name_table ordinals addr_table ExportName (Suc index) left
      else do {
        ordinal \<leftarrow> read_u16 m (ordinals + of_nat (2 * index));
        export_offset \<leftarrow> read_u32 m (addr_table + 4 * ucast ordinal);
        Some (image_base + ucast export_offset)
      })
   }"

definition ImpResolveNtImport :: "memory \<Rightarrow> loaded_modules \<Rightarrow> ptr \<Rightarrow> string \<Rightarrow> ptr option" where
  "ImpResolveNtImport m ldr DriverSection ExportName = do {
     image_base \<leftarrow> FindDriverBaseNoApi ldr DriverSection ''ntoskrnl.exe'';
     (if image_base = NULL then Some NULL
      else do {
        e_lfanew \<leftarrow> read_u32 m (image_base + FIELD_OFFSET IMAGE_DOS_HEADER_layout ''e_lfanew'');
        let nt_header = image_base + scast e_lfanew;
        let optional_header = nt_header + FIELD_OFFSET LOCAL_NT_HEADER_layout ''OptionalHeader'';
        let data_dir = optional_header
              + FIELD_OFFSET IMAGE_OPTIONAL_HEADER64_layout ''DataDirectory'';
        va \<leftarrow> read_u32 m (data_dir + FIELD_OFFSET IMAGE_DATA_DIRECTORY_layout ''VirtualAddress'');
        let export_dir = image_base + ucast va;
        names \<leftarrow> read_u32 m (export_dir + FIELD_OFFSET IMAGE_EXPORT_DIRECTORY_layout ''AddressOfNames'');
        ords \<leftarrow> read_u32 m
          (export_dir + FIELD_OFFSET IMAGE_EXPORT_DIRECTORY_layout ''AddressOfNameOrdinals'');
        funcs \<leftarrow> read_u32 m
          (export_dir + FIELD_OFFSET IMAGE_EXPORT_DIRECTORY_layout ''AddressOfFunctions'');
        count \<leftarrow> read_u32 m
          (export_dir + FIELD_OFFSET IMAGE_EXPORT_DIRECTORY_layout ''NumberOfNames'');
        export_search m image_base (image_base + ucast names) (image_base + ucast ords)
          (image_base + ucast funcs) ExportName 0 (unat count)
      })
   }"

definition NT_IMPORTS :: "string list" where
  "NT_IMPORTS =
    [''ObDereferenceObject'', ''PsLookupThreadByThreadId'', ''MmIsAddressValid'',
     ''PsSetCreateProcessNotifyRoutine'', ''PsRemoveCreateThreadNotifyRoutine'', ''PsGetCurrentThreadId'',
     ''PsGetProcessId'', ''PsLookupProcessByProcessId'', ''ExEnumHandleTable'',
     ''ObGetObjectType'', ''ExfUnblockPushLock'', ''PsGetProcessImageFileName'',
     ''strstr'', ''RtlInitUnicodeString'', ''RtlQueryRegistryValues'',
     ''MmGetSystemRoutineAddress'', ''RtlUnicodeStringToAnsiString'', ''RtlCopyUnicodeString'',
     ''RtlFreeAnsiString'', ''KeInitializeGuardedMutex'', ''IoCreateDevice'',
     ''IoCreateSymbolicLink'', ''IoDeleteDevice'', ''IoDeleteSymbolicLink'',
     ''ObRegisterCallbacks'', ''ObUnRegisterCallbacks'', ''PsSetCreateThreadNotifyRoutine'',
     ''KeRevertToUserAffinityThreadEx'', ''KeSetSystemAffinityThreadEx'', ''strnlen'',
     ''RtlInitAnsiString'', ''RtlAnsiStringToUnicodeString'', ''IoGetCurrentProcess'',
     ''RtlGetVersion'', ''RtlCompareMemory'', ''ExGetSystemFirmwareTable'',
     ''IoAllocateWorkItem'', ''IoFreeWorkItem'', ''IoQueueWorkItem'',
     ''ZwOpenFile'', ''ZwClose'', ''ZwCreateSection'',
     ''ZwMapViewOfSection'', ''ZwUnmapViewOfSection'', ''MmCopyMemory'',
     ''ZwDeviceIoControlFile'', ''KeStackAttachProcess'', ''KeUnstackDetachProcess'',
     ''KeWaitForSingleObject'', ''PsCreateSystemThread'', ''IofCompleteRequest'',
     ''ObReferenceObjectByHandle'', ''KeDelayExecutionThread'', ''KeRegisterNmiCallback'',
     ''KeDeregisterNmiCallback'', ''KeQueryActiveProcessorCount'', ''ExAcquirePushLockExclusiveEx'',
     ''ExReleasePushLockExclusiveEx'', ''PsGetThreadId'', ''RtlCaptureStackBackTrace'',
     ''ZwOpenDirectoryObject'', ''KeInitializeAffinityEx'', ''KeAddProcessorAffinityEx'',
     ''RtlQueryModuleInformation'', ''KeInitializeApc'', ''KeInsertQueueApc'',
     ''KeGenericCallDpc'', ''KeSignalCallDpcDone'', ''MmGetPhysicalMemoryRangesEx2'',
     ''MmGetVirtualForPhysical'', ''ObfReferenceObject'', ''ExFreePoolWithTag'',
     ''ExAllocatePool2'', ''KeReleaseGuardedMutex'', ''KeAcquireGuardedMutex'',
     ''DbgPrintEx'', ''RtlCompareUnicodeString'', ''RtlFreeUnicodeString'',
     ''PsGetProcessImageFileName'']"

text \<open>The fields of \<^verbatim>\<open>DRIVER_IMPORTS\<close>: a pointer for each import and one padding word.\<close>

definition DRIVER_IMPORTS_fields :: "string list" where
  "DRIVER_IMPORTS_fields =
    [''DrvImpObDereferenceObject'', ''DrvImpPsLookupThreadByThreadId'',
     ''DrvImpMmIsAddressValid'', ''DrvImpPsSetCreateProcessNotifyRoutine'',
     ''DrvImpPsRemoveCreateThreadNotifyRoutine'', ''DrvImpPsGetCurrentThreadId'',
     ''DrvImpPsGetProcessId'', ''DrvImpPsLookupProcessByProcessId'',
     ''DrvImpExEnumHandleTable'', ''DrvImpObGetObjectType'',
     ''DrvImpExfUnblockPushLock'', ''DrvImpPsGetProcessImage'',
     ''DrvImpstrstr'', ''DrvImpRtlInitUnicodeString'',
     ''DrvImpRtlQueryRegistryValues'', ''DrvImpMmGetSystemRoutineAddress'',
     ''DrvImpRtlUnicodeStringToAnsiString'', ''DrvImpRtlCopyUnicodeString'',
     ''DrvImpRtlFreeAnsiString'', ''DrvImpKeInitializeGuardedMutex'',
     ''DrvImpIoCreateDevice'', ''DrvImpIoCreateSymbolicLink'',
     ''DrvImpIoDeleteDevice'', ''DrvImpIoDeleteSymbolicLink'',
     ''DrvImpObRegisterCallbacks'', ''DrvImpObUnRegisterCallbacks'',
     ''DrvImpPsSetCreateThreadNotifyRoutine'', ''DrvImpKeRevertToUserAffinityThreadEx'',
     ''DrvImpKeSetSystemAffinityThreadEx'', ''DrvImpstrnlen'',
     ''DrvImpRtlInitAnsiString'', ''DrvImpRtlAnsiStringToUnicodeString'',
     ''DrvImpIoGetCurrentProcess'', ''DrvImpRtlGetVersion'',
     ''DrvImpRtlCompareMemory'', ''DrvImpExGetSystemFirmwareTable'',
     ''DrvImpIoAllocateWorkItem'', ''DrvImpIoFreeWorkItem'',
     ''DrvImpIoQueueWorkItem'', ''DrvImpZwOpenFile'',
     ''DrvImpZwClose'', ''DrvImpZwCreateSection'',
     ''DrvImpZwMapViewOfSection'', ''DrvImpZwUnmapViewOfSection'',
     ''DrvImpMmCopyMemory'', ''DrvImpZwDeviceIoControlFile'',
     ''DrvImpKeStackAttachProcess'', ''DrvImpKeUnstackDetachProcess'',
     ''DrvImpKeWaitForSingleObject'', ''DrvImpPsCreateSystemThread'',
     ''DrvImpIofCompleteRequest'', ''DrvImpObReferenceObjectByHandle'',
     ''DrvImpKeDelayExecutionThread'', ''DrvImpKeRegisterNmiCallback'',
     ''DrvImpKeDeregisterNmiCallback'', ''DrvImpKeQueryActiveProcessorCount'',
     ''DrvImpExAcquirePushLockExclusiveEx'', ''DrvImpExReleasePushLockExclusiveEx'',
     ''DrvImpPsGetThreadId'', ''DrvImpRtlCaptureStackBackTrace'',
     ''DrvImpZwOpenDirectoryObject'', ''DrvImpKeInitializeAffinityEx'',
     ''DrvImpKeAddProcessorAffinityEx'', ''DrvImpRtlQueryModuleInformation'',
     ''DrvImpKeInitializeApc'', ''DrvImpKeInsertQueueApc'',
     ''DrvImpKeGenericCallDpc'', ''DrvImpKeSignalCallDpcDone'',
     ''DrvImpMmGetPhysicalMemoryRangesEx2'', ''DrvImpMmGetVirtualForPhysical'',
     ''DrvImpObfReferenceObject'', ''DrvImpExFreePoolWithTag'',
     ''DrvImpExAllocatePool2'', ''DrvImpKeReleaseGuardedMutex'',
     ''DrvImpKeAcquireGuardedMutex'', ''DrvImpDbgPrintEx'',
     ''DrvImpRtlCompareUnicodeString'', ''DrvImpRtlFreeUnicodeString'',
     ''DrvImpPsGetProcessImageFileName'', ''dummy'']"

definition IMPORTS_LENGTH :: u32 where
  "IMPORTS_LENGTH = of_nat (length DRIVER_IMPORTS_fields)"

type_synonym DRIVER_IMPORTS = "u64 list"

text \<open>The resolution loop: it stops at the first routine that is not exported.\<close>

primrec resolve_loop ::
  "(string \<Rightarrow> ptr option) \<Rightarrow> string list \<Rightarrow> nat \<Rightarrow> DRIVER_IMPORTS \<Rightarrow> (bool \<times> DRIVER_IMPORTS) option" where
  "resolve_loop resolve [] index imports_array = Some (True, imports_array)"
| "resolve_loop resolve (name # names) index imports_array = do {
     p \<leftarrow> resolve name;
     let imports_array = imports_array[index := p];
     (if p = NULL then Some (False, imports_array)
      else resolve_loop resolve names (Suc index) imports_array)
   }"

definition resolve_imports ::
  "(string \<Rightarrow> ptr option) \<Rightarrow> DRIVER_IMPORTS \<Rightarrow> (NTSTATUS \<times> DRIVER_IMPORTS) option" where
  "resolve_imports resolve driver_imports = do {
     (done, driver_imports) \<leftarrow> resolve_loop resolve NT_IMPORTS 0 driver_imports;
     (if \<not> done then Some (STATUS_UNSUCCESSFUL, driver_imports)
      else do {
        driver_imports \<leftarrow> CryptEncryptImportsArray driver_imports IMPORTS_LENGTH;
        Some (STATUS_SUCCESS, driver_imports)
      })
   }"

definition ImpResolveDynamicImports ::
  "memory \<Rightarrow> loaded_modules \<Rightarrow> ptr \<Rightarrow> DRIVER_IMPORTS \<Rightarrow> (NTSTATUS \<times> DRIVER_IMPORTS) option" where
  "ImpResolveDynamicImports m ldr DriverSection =
     resolve_imports (ImpResolveNtImport m ldr DriverSection)"

section \<open>Slots\<close>

text \<open>The slot of each import in \<^verbatim>\<open>driver_imports\<close>, from \<^verbatim>\<open>src/driver/imports.h\<close>.\<close>

definition OB_DEREFERENCE_OBJECT_INDEX :: u32 where "OB_DEREFERENCE_OBJECT_INDEX = 0"
definition PS_LOOKUP_THREAD_BY_THREAD_ID_INDEX :: u32 where "PS_LOOKUP_THREAD_BY_THREAD_ID_INDEX = 1"
definition MM_IS_ADDRESS_VALID_INDEX :: u32 where "MM_IS_ADDRESS_VALID_INDEX = 2"
definition PS_SET_CREATE_PROCESS_NOTIFY_ROUTINE_INDEX :: u32 where "PS_SET_CREATE_PROCESS_NOTIFY_ROUTINE_INDEX = 3"
definition PS_REMOVE_CREATE_THREAD_NOTIFY_ROUTINE_INDEX :: u32 where "PS_REMOVE_CREATE_THREAD_NOTIFY_ROUTINE_INDEX = 4"
definition PS_GET_CURRENT_THREAD_ID_INDEX :: u32 where "PS_GET_CURRENT_THREAD_ID_INDEX = 5"
definition PS_GET_PROCESS_ID_INDEX :: u32 where "PS_GET_PROCESS_ID_INDEX = 6"
definition PS_LOOKUP_PROCESS_BY_PROCESS_ID_INDEX :: u32 where "PS_LOOKUP_PROCESS_BY_PROCESS_ID_INDEX = 7"
definition EX_ENUM_HANDLE_TABLE_INDEX :: u32 where "EX_ENUM_HANDLE_TABLE_INDEX = 8"
definition OB_GET_OBJECT_TYPE_INDEX :: u32 where "OB_GET_OBJECT_TYPE_INDEX = 9"
definition EXF_UNBLOCK_PUSH_LOCK_INDEX :: u32 where "EXF_UNBLOCK_PUSH_LOCK_INDEX = 10"
definition STRSTR_INDEX :: u32 where "STRSTR_INDEX = 12"
definition RTL_INIT_UNICODE_STRING_INDEX :: u32 where "RTL_INIT_UNICODE_STRING_INDEX = 13"
definition RTL_QUERY_REGISTRY_VALUES_INDEX :: u32 where "RTL_QUERY_REGISTRY_VALUES_INDEX = 14"
definition MM_GET_SYSTEM_ROUTINE_ADDRESS_INDEX :: u32 where "MM_GET_SYSTEM_ROUTINE_ADDRESS_INDEX = 15"
definition RTL_UNICODE_STRING_TO_ANSI_STRING_INDEX :: u32 where "RTL_UNICODE_STRING_TO_ANSI_STRING_INDEX = 16"
definition RTL_COPY_UNICODE_STRING_INDEX :: u32 where "RTL_COPY_UNICODE_STRING_INDEX = 17"
definition RTL_FREE_ANSI_STRING_INDEX :: u32 where "RTL_FREE_ANSI_STRING_INDEX = 18"
definition KE_INITIALIZE_GUARDED_MUTEX_INDEX :: u32 where "KE_INITIALIZE_GUARDED_MUTEX_INDEX = 19"
definition IO_CREATE_DEVICE_INDEX :: u32 where "IO_CREATE_DEVICE_INDEX = 20"
definition IO_CREATE_SYMBOLIC_LINK_INDEX :: u32 where "IO_CREATE_SYMBOLIC_LINK_INDEX = 21"
definition IO_DELETE_DEVICE_INDEX :: u32 where "IO_DELETE_DEVICE_INDEX = 22"
definition IO_DELETE_SYMBOLIC_LINK_INDEX :: u32 where "IO_DELETE_SYMBOLIC_LINK_INDEX = 23"
definition OB_REGISTER_CALLBACKS_INDEX :: u32 where "OB_REGISTER_CALLBACKS_INDEX = 24"
definition OB_UNREGISTER_CALLBACKS_INDEX :: u32 where "OB_UNREGISTER_CALLBACKS_INDEX = 25"
definition PS_SET_CREATE_THREAD_NOTIFY_ROUTINE_INDEX :: u32 where "PS_SET_CREATE_THREAD_NOTIFY_ROUTINE_INDEX = 26"
definition KE_REVERT_TO_USER_AFFINITY_THREAD_EX_INDEX :: u32 where "KE_REVERT_TO_USER_AFFINITY_THREAD_EX_INDEX = 27"
definition KE_SET_SYSTEM_AFFINITY_THREAD_EX_INDEX :: u32 where "KE_SET_SYSTEM_AFFINITY_THREAD_EX_INDEX = 28"
definition STRNLEN_INDEX :: u32 where "STRNLEN_INDEX = 29"
definition RTL_INIT_ANSI_STRING_INDEX :: u32 where "RTL_INIT_ANSI_STRING_INDEX = 30"
definition RTL_ANSI_STRING_TO_UNICODE_STRING_INDEX :: u32 where "RTL_ANSI_STRING_TO_UNICODE_STRING_INDEX = 31"
definition IO_GET_CURRENT_PROCESS_INDEX :: u32 where "IO_GET_CURRENT_PROCESS_INDEX = 32"
definition RTL_GET_VERSION_INDEX :: u32 where "RTL_GET_VERSION_INDEX = 33"
definition RTL_COMPARE_MEMORY_INDEX :: u32 where "RTL_COMPARE_MEMORY_INDEX = 34"
definition EX_GET_SYSTEM_FIRMWARE_TABLE_INDEX :: u32 where "EX_GET_SYSTEM_FIRMWARE_TABLE_INDEX = 35"
definition IO_ALLOCATE_WORK_ITEM_INDEX :: u32 where "IO_ALLOCATE_WORK_ITEM_INDEX = 36"
definition IO_FREE_WORK_ITEM_INDEX :: u32 where "IO_FREE_WORK_ITEM_INDEX = 37"
definition IO_QUEUE_WORK_ITEM_INDEX :: u32 where "IO_QUEUE_WORK_ITEM_INDEX = 38"
definition ZW_OPEN_FILE_INDEX :: u32 where "ZW_OPEN_FILE_INDEX = 39"
definition ZW_CLOSE_INDEX :: u32 where "ZW_CLOSE_INDEX = 40"
definition ZW_CREATE_SECTION_INDEX :: u32 where "ZW_CREATE_SECTION_INDEX = 41"
definition ZW_MAP_VIEW_OF_SECTION_INDEX :: u32 where "ZW_MAP_VIEW_OF_SECTION_INDEX = 42"
definition ZW_UNMAP_VIEW_OF_SECTION_INDEX :: u32 where "ZW_UNMAP_VIEW_OF_SECTION_INDEX = 43"
definition MM_COPY_MEMORY_INDEX :: u32 where "MM_COPY_MEMORY_INDEX = 44"
definition ZW_DEVICE_IO_CONTROL_FILE_INDEX :: u32 where "ZW_DEVICE_IO_CONTROL_FILE_INDEX = 45"
definition KE_STACK_ATTACH_PROCESS_INDEX :: u32 where "KE_STACK_ATTACH_PROCESS_INDEX = 46"
definition KE_UNSTACK_DETACH_PROCESS_INDEX :: u32 where "KE_UNSTACK_DETACH_PROCESS_INDEX = 47"
definition KE_WAIT_FOR_SINGLE_OBJECT_INDEX :: u32 where "KE_WAIT_FOR_SINGLE_OBJECT_INDEX = 48"
definition PS_CREATE_SYSTEM_THREAD_INDEX :: u32 where "PS_CREATE_SYSTEM_THREAD_INDEX = 49"
definition IOF_COMPLETE_REQUEST_INDEX :: u32 where "IOF_COMPLETE_REQUEST_INDEX = 50"
definition OB_REFERENCE_OBJECT_BY_HANDLE_INDEX :: u32 where "OB_REFERENCE_OBJECT_BY_HANDLE_INDEX = 51"
definition KE_DELAY_EXECUTION_THREAD_INDEX :: u32 where "KE_DELAY_EXECUTION_THREAD_INDEX = 52"
definition KE_REGISTER_NMI_CALLBACK_INDEX :: u32 where "KE_REGISTER_NMI_CALLBACK_INDEX = 53"
definition KE_DEREGISTER_NMI_CALLBACK_INDEX :: u32 where "KE_DEREGISTER_NMI_CALLBACK_INDEX = 54"
definition KE_QUERY_ACTIVE_PROCESSOR_COUNT_INDEX :: u32 where "KE_QUERY_ACTIVE_PROCESSOR_COUNT_INDEX = 55"
definition EX_ACQUIRE_PUSH_LOCK_EXCLUSIVE_EX_INDEX :: u32 where "EX_ACQUIRE_PUSH_LOCK_EXCLUSIVE_EX_INDEX = 56"
definition EX_RELEASE_PUSH_LOCK_EXCLUSIVE_EX_INDEX :: u32 where "EX_RELEASE_PUSH_LOCK_EXCLUSIVE_EX_INDEX = 57"
definition PS_GET_THREAD_ID_INDEX :: u32 where "PS_GET_THREAD_ID_INDEX = 58"
definition RTL_CAPTURE_STACK_BACK_TRACE_INDEX :: u32 where "RTL_CAPTURE_STACK_BACK_TRACE_INDEX = 59"
definition ZW_OPEN_DIRECTORY_OBJECT_INDEX :: u32 where "ZW_OPEN_DIRECTORY_OBJECT_INDEX = 60"
definition KE_INITIALIZE_AFFINITY_EX_INDEX :: u32 where "KE_INITIALIZE_AFFINITY_EX_INDEX = 61"
definition KE_ADD_PROCESSOR_AFFINITY_EX_INDEX :: u32 where "KE_ADD_PROCESSOR_AFFINITY_EX_INDEX = 62"
definition RTL_QUERY_MODULE_INFORMATION_INDEX :: u32 where "RTL_QUERY_MODULE_INFORMATION_INDEX = 63"
definition KE_INITIALIZE_APC_INDEX :: u32 where "KE_INITIALIZE_APC_INDEX = 64"
definition KE_INSERT_QUEUE_APC_INDEX :: u32 where "KE_INSERT_QUEUE_APC_INDEX = 65"
definition KE_GENERIC_CALL_DPC_INDEX :: u32 where "KE_GENERIC_CALL_DPC_INDEX = 66"
definition KE_SIGNAL_CALL_DPC_DONE_INDEX :: u32 where "KE_SIGNAL_CALL_DPC_DONE_INDEX = 67"
definition MM_GET_PHYSICAL_MEMORY_RANGES_EX2_INDEX :: u32 where "MM_GET_PHYSICAL_MEMORY_RANGES_EX2_INDEX = 68"
definition MM_GET_VIRTUAL_FOR_PHYSICAL_INDEX :: u32 where "MM_GET_VIRTUAL_FOR_PHYSICAL_INDEX = 69"
definition OBF_REFERENCE_OBJECT_INDEX :: u32 where "OBF_REFERENCE_OBJECT_INDEX = 70"
definition EX_FREE_POOL_WITH_TAG_INDEX :: u32 where "EX_FREE_POOL_WITH_TAG_INDEX = 71"
definition EX_ALLOCATE_POOL2_INDEX :: u32 where "EX_ALLOCATE_POOL2_INDEX = 72"
definition KE_RELEASE_GUARDED_MUTEX_INDEX :: u32 where "KE_RELEASE_GUARDED_MUTEX_INDEX = 73"
definition KE_ACQUIRE_GUARDED_MUTEX_INDEX :: u32 where "KE_ACQUIRE_GUARDED_MUTEX_INDEX = 74"
definition DBG_PRINT_EX_INDEX :: u32 where "DBG_PRINT_EX_INDEX = 75"
definition RTL_COMPARE_UNICODE_STRING_INDEX :: u32 where "RTL_COMPARE_UNICODE_STRING_INDEX = 76"
definition RTL_FREE_UNICODE_STRING_INDEX :: u32 where "RTL_FREE_UNICODE_STRING_INDEX = 77"
definition PS_GET_PROCESS_IMAGE_FILE_NAME_INDEX :: u32 where "PS_GET_PROCESS_IMAGE_FILE_NAME_INDEX = 78"

lemmas import_index_defs =
  OB_DEREFERENCE_OBJECT_INDEX_def
  PS_LOOKUP_THREAD_BY_THREAD_ID_INDEX_def
  MM_IS_ADDRESS_VALID_INDEX_def
  PS_SET_CREATE_PROCESS_NOTIFY_ROUTINE_INDEX_def
  PS_REMOVE_CREATE_THREAD_NOTIFY_ROUTINE_INDEX_def
  PS_GET_CURRENT_THREAD_ID_INDEX_def
  PS_GET_PROCESS_ID_INDEX_def
  PS_LOOKUP_PROCESS_BY_PROCESS_ID_INDEX_def
  EX_ENUM_HANDLE_TABLE_INDEX_def
  OB_GET_OBJECT_TYPE_INDEX_def
  EXF_UNBLOCK_PUSH_LOCK_INDEX_def
  STRSTR_INDEX_def
  RTL_INIT_UNICODE_STRING_INDEX_def
  RTL_QUERY_REGISTRY_VALUES_INDEX_def
  MM_GET_SYSTEM_ROUTINE_ADDRESS_INDEX_def
  RTL_UNICODE_STRING_TO_ANSI_STRING_INDEX_def
  RTL_COPY_UNICODE_STRING_INDEX_def
  RTL_FREE_ANSI_STRING_INDEX_def
  KE_INITIALIZE_GUARDED_MUTEX_INDEX_def
  IO_CREATE_DEVICE_INDEX_def
  IO_CREATE_SYMBOLIC_LINK_INDEX_def
  IO_DELETE_DEVICE_INDEX_def
  IO_DELETE_SYMBOLIC_LINK_INDEX_def
  OB_REGISTER_CALLBACKS_INDEX_def
  OB_UNREGISTER_CALLBACKS_INDEX_def
  PS_SET_CREATE_THREAD_NOTIFY_ROUTINE_INDEX_def
  KE_REVERT_TO_USER_AFFINITY_THREAD_EX_INDEX_def
  KE_SET_SYSTEM_AFFINITY_THREAD_EX_INDEX_def
  STRNLEN_INDEX_def
  RTL_INIT_ANSI_STRING_INDEX_def
  RTL_ANSI_STRING_TO_UNICODE_STRING_INDEX_def
  IO_GET_CURRENT_PROCESS_INDEX_def
  RTL_GET_VERSION_INDEX_def
  RTL_COMPARE_MEMORY_INDEX_def
  EX_GET_SYSTEM_FIRMWARE_TABLE_INDEX_def
  IO_ALLOCATE_WORK_ITEM_INDEX_def
  IO_FREE_WORK_ITEM_INDEX_def
  IO_QUEUE_WORK_ITEM_INDEX_def
  ZW_OPEN_FILE_INDEX_def
  ZW_CLOSE_INDEX_def
  ZW_CREATE_SECTION_INDEX_def
  ZW_MAP_VIEW_OF_SECTION_INDEX_def
  ZW_UNMAP_VIEW_OF_SECTION_INDEX_def
  MM_COPY_MEMORY_INDEX_def
  ZW_DEVICE_IO_CONTROL_FILE_INDEX_def
  KE_STACK_ATTACH_PROCESS_INDEX_def
  KE_UNSTACK_DETACH_PROCESS_INDEX_def
  KE_WAIT_FOR_SINGLE_OBJECT_INDEX_def
  PS_CREATE_SYSTEM_THREAD_INDEX_def
  IOF_COMPLETE_REQUEST_INDEX_def
  OB_REFERENCE_OBJECT_BY_HANDLE_INDEX_def
  KE_DELAY_EXECUTION_THREAD_INDEX_def
  KE_REGISTER_NMI_CALLBACK_INDEX_def
  KE_DEREGISTER_NMI_CALLBACK_INDEX_def
  KE_QUERY_ACTIVE_PROCESSOR_COUNT_INDEX_def
  EX_ACQUIRE_PUSH_LOCK_EXCLUSIVE_EX_INDEX_def
  EX_RELEASE_PUSH_LOCK_EXCLUSIVE_EX_INDEX_def
  PS_GET_THREAD_ID_INDEX_def
  RTL_CAPTURE_STACK_BACK_TRACE_INDEX_def
  ZW_OPEN_DIRECTORY_OBJECT_INDEX_def
  KE_INITIALIZE_AFFINITY_EX_INDEX_def
  KE_ADD_PROCESSOR_AFFINITY_EX_INDEX_def
  RTL_QUERY_MODULE_INFORMATION_INDEX_def
  KE_INITIALIZE_APC_INDEX_def
  KE_INSERT_QUEUE_APC_INDEX_def
  KE_GENERIC_CALL_DPC_INDEX_def
  KE_SIGNAL_CALL_DPC_DONE_INDEX_def
  MM_GET_PHYSICAL_MEMORY_RANGES_EX2_INDEX_def
  MM_GET_VIRTUAL_FOR_PHYSICAL_INDEX_def
  OBF_REFERENCE_OBJECT_INDEX_def
  EX_FREE_POOL_WITH_TAG_INDEX_def
  EX_ALLOCATE_POOL2_INDEX_def
  KE_RELEASE_GUARDED_MUTEX_INDEX_def
  KE_ACQUIRE_GUARDED_MUTEX_INDEX_def
  DBG_PRINT_EX_INDEX_def
  RTL_COMPARE_UNICODE_STRING_INDEX_def
  RTL_FREE_UNICODE_STRING_INDEX_def
  PS_GET_PROCESS_IMAGE_FILE_NAME_INDEX_def

section \<open>Wrappers\<close>

text \<open>
  A wrapper decrypts its slot and calls the routine found there. Its model is the call it
  makes: the address and the arguments, as 64-bit values. The wrapper returns what that
  call returns.
\<close>

type_synonym import_call = "ptr \<times> u64 list"

definition ImpObDereferenceObject ::
  "DRIVER_IMPORTS \<Rightarrow> u64 \<Rightarrow> import_call option" where
  "ImpObDereferenceObject driver_imports Object =
     map_option (\<lambda>f. (f, [Object]))
       (CryptDecryptImportsArrayEntry driver_imports IMPORTS_LENGTH OB_DEREFERENCE_OBJECT_INDEX)"

definition ImpPsLookupThreadByThreadId ::
  "DRIVER_IMPORTS \<Rightarrow> u64 \<Rightarrow> u64 \<Rightarrow> import_call option" where
  "ImpPsLookupThreadByThreadId driver_imports ThreadId Thread =
     map_option (\<lambda>f. (f, [ThreadId, Thread]))
       (CryptDecryptImportsArrayEntry driver_imports IMPORTS_LENGTH PS_LOOKUP_THREAD_BY_THREAD_ID_INDEX)"

definition ImpMmIsAddressValid ::
  "DRIVER_IMPORTS \<Rightarrow> u64 \<Rightarrow> import_call option" where
  "ImpMmIsAddressValid driver_imports VirtualAddress =
     map_option (\<lambda>f. (f, [VirtualAddress]))
       (CryptDecryptImportsArrayEntry driver_imports IMPORTS_LENGTH MM_IS_ADDRESS_VALID_INDEX)"

definition ImpPsSetCreateProcessNotifyRoutine ::
  "DRIVER_IMPORTS \<Rightarrow> u64 \<Rightarrow> u64 \<Rightarrow> import_call option" where
  "ImpPsSetCreateProcessNotifyRoutine driver_imports NotifyRoutine Remove =
     map_option (\<lambda>f. (f, [NotifyRoutine, Remove]))
       (CryptDecryptImportsArrayEntry driver_imports IMPORTS_LENGTH PS_SET_CREATE_PROCESS_NOTIFY_ROUTINE_INDEX)"

definition ImpPsRemoveCreateThreadNotifyRoutine ::
  "DRIVER_IMPORTS \<Rightarrow> u64 \<Rightarrow> import_call option" where
  "ImpPsRemoveCreateThreadNotifyRoutine driver_imports NotifyRoutine =
     map_option (\<lambda>f. (f, [NotifyRoutine]))
       (CryptDecryptImportsArrayEntry driver_imports IMPORTS_LENGTH PS_REMOVE_CREATE_THREAD_NOTIFY_ROUTINE_INDEX)"

definition ImpPsGetCurrentThreadId ::
  "DRIVER_IMPORTS \<Rightarrow> import_call option" where
  "ImpPsGetCurrentThreadId driver_imports =
     map_option (\<lambda>f. (f, []))
       (CryptDecryptImportsArrayEntry driver_imports IMPORTS_LENGTH PS_GET_CURRENT_THREAD_ID_INDEX)"

definition ImpPsGetProcessId ::
  "DRIVER_IMPORTS \<Rightarrow> u64 \<Rightarrow> import_call option" where
  "ImpPsGetProcessId driver_imports Process =
     map_option (\<lambda>f. (f, [Process]))
       (CryptDecryptImportsArrayEntry driver_imports IMPORTS_LENGTH PS_GET_PROCESS_ID_INDEX)"

definition ImpPsLookupProcessByProcessId ::
  "DRIVER_IMPORTS \<Rightarrow> u64 \<Rightarrow> u64 \<Rightarrow> import_call option" where
  "ImpPsLookupProcessByProcessId driver_imports ProcessId Process =
     map_option (\<lambda>f. (f, [ProcessId, Process]))
       (CryptDecryptImportsArrayEntry driver_imports IMPORTS_LENGTH PS_LOOKUP_PROCESS_BY_PROCESS_ID_INDEX)"

definition ImpExEnumHandleTable ::
  "DRIVER_IMPORTS \<Rightarrow> u64 \<Rightarrow> u64 \<Rightarrow> u64 \<Rightarrow> u64 \<Rightarrow> import_call option" where
  "ImpExEnumHandleTable driver_imports HandleTable Callback Context Handle =
     map_option (\<lambda>f. (f, [HandleTable, Callback, Context, Handle]))
       (CryptDecryptImportsArrayEntry driver_imports IMPORTS_LENGTH EX_ENUM_HANDLE_TABLE_INDEX)"

definition ImpObGetObjectType ::
  "DRIVER_IMPORTS \<Rightarrow> u64 \<Rightarrow> import_call option" where
  "ImpObGetObjectType driver_imports Object =
     map_option (\<lambda>f. (f, [Object]))
       (CryptDecryptImportsArrayEntry driver_imports IMPORTS_LENGTH OB_GET_OBJECT_TYPE_INDEX)"

definition ImpExfUnblockPushLock ::
  "DRIVER_IMPORTS \<Rightarrow> u64 \<Rightarrow> u64 \<Rightarrow> import_call option" where
  "ImpExfUnblockPushLock driver_imports PushLock WaitBlock =
     map_option (\<lambda>f. (f, [PushLock, WaitBlock]))
       (CryptDecryptImportsArrayEntry driver_imports IMPORTS_LENGTH EXF_UNBLOCK_PUSH_LOCK_INDEX)"

definition ImpPsGetProcessImageFileName ::
  "DRIVER_IMPORTS \<Rightarrow> u64 \<Rightarrow> import_call option" where
  "ImpPsGetProcessImageFileName driver_imports Process =
     map_option (\<lambda>f. (f, [Process]))
       (CryptDecryptImportsArrayEntry driver_imports IMPORTS_LENGTH PS_GET_PROCESS_IMAGE_FILE_NAME_INDEX)"

definition ImpStrStr ::
  "DRIVER_IMPORTS \<Rightarrow> u64 \<Rightarrow> u64 \<Rightarrow> import_call option" where
  "ImpStrStr driver_imports haystack needle =
     map_option (\<lambda>f. (f, [haystack, needle]))
       (CryptDecryptImportsArrayEntry driver_imports IMPORTS_LENGTH STRSTR_INDEX)"

definition ImpRtlInitUnicodeString ::
  "DRIVER_IMPORTS \<Rightarrow> u64 \<Rightarrow> u64 \<Rightarrow> import_call option" where
  "ImpRtlInitUnicodeString driver_imports DestinationString SourceString =
     map_option (\<lambda>f. (f, [DestinationString, SourceString]))
       (CryptDecryptImportsArrayEntry driver_imports IMPORTS_LENGTH RTL_INIT_UNICODE_STRING_INDEX)"

definition ImpRtlQueryRegistryValues ::
  "DRIVER_IMPORTS \<Rightarrow> u64 \<Rightarrow> u64 \<Rightarrow> u64 \<Rightarrow> u64 \<Rightarrow> u64 \<Rightarrow> import_call option" where
  "ImpRtlQueryRegistryValues driver_imports RelativeTo Path QueryTable Context Environment =
     map_option (\<lambda>f. (f, [RelativeTo, Path, QueryTable, Context, Environment]))
       (CryptDecryptImportsArrayEntry driver_imports IMPORTS_LENGTH RTL_QUERY_REGISTRY_VALUES_INDEX)"

definition ImpMmGetSystemRoutineAddress ::
  "DRIVER_IMPORTS \<Rightarrow> u64 \<Rightarrow> import_call option" where
  "ImpMmGetSystemRoutineAddress driver_imports SystemRoutineName =
     map_option (\<lambda>f. (f, [SystemRoutineName]))
       (CryptDecryptImportsArrayEntry driver_imports IMPORTS_LENGTH MM_GET_SYSTEM_ROUTINE_ADDRESS_INDEX)"

definition ImpRtlUnicodeStringToAnsiString ::
  "DRIVER_IMPORTS \<Rightarrow> u64 \<Rightarrow> u64 \<Rightarrow> u64 \<Rightarrow> import_call option" where
  "ImpRtlUnicodeStringToAnsiString driver_imports DestinationString SourceString AllocateDestinationString =
     map_option (\<lambda>f. (f, [DestinationString, SourceString, AllocateDestinationString]))
       (CryptDecryptImportsArrayEntry driver_imports IMPORTS_LENGTH RTL_UNICODE_STRING_TO_ANSI_STRING_INDEX)"

definition ImpRtlCopyUnicodeString ::
  "DRIVER_IMPORTS \<Rightarrow> u64 \<Rightarrow> u64 \<Rightarrow> import_call option" where
  "ImpRtlCopyUnicodeString driver_imports DestinationString SourceString =
     map_option (\<lambda>f. (f, [DestinationString, SourceString]))
       (CryptDecryptImportsArrayEntry driver_imports IMPORTS_LENGTH RTL_COPY_UNICODE_STRING_INDEX)"

definition ImpRtlFreeAnsiString ::
  "DRIVER_IMPORTS \<Rightarrow> u64 \<Rightarrow> import_call option" where
  "ImpRtlFreeAnsiString driver_imports AnsiString =
     map_option (\<lambda>f. (f, [AnsiString]))
       (CryptDecryptImportsArrayEntry driver_imports IMPORTS_LENGTH RTL_FREE_ANSI_STRING_INDEX)"

definition ImpKeInitializeGuardedMutex ::
  "DRIVER_IMPORTS \<Rightarrow> u64 \<Rightarrow> import_call option" where
  "ImpKeInitializeGuardedMutex driver_imports GuardedMutex =
     map_option (\<lambda>f. (f, [GuardedMutex]))
       (CryptDecryptImportsArrayEntry driver_imports IMPORTS_LENGTH KE_INITIALIZE_GUARDED_MUTEX_INDEX)"

definition ImpIoCreateDevice ::
  "DRIVER_IMPORTS \<Rightarrow> u64 \<Rightarrow> u64 \<Rightarrow> u64 \<Rightarrow> u64 \<Rightarrow> u64 \<Rightarrow> u64 \<Rightarrow> u64 \<Rightarrow> import_call option" where
  "ImpIoCreateDevice driver_imports DriverObject DeviceExtensionSize DeviceName DeviceType DeviceCharacteristics Exclusive DeviceObject =
     map_option (\<lambda>f. (f, [DriverObject, DeviceExtensionSize, DeviceName, DeviceType, DeviceCharacteristics, Exclusive, DeviceObject]))
       (CryptDecryptImportsArrayEntry driver_imports IMPORTS_LENGTH IO_CREATE_DEVICE_INDEX)"

definition ImpIoCreateSymbolicLink ::
  "DRIVER_IMPORTS \<Rightarrow> u64 \<Rightarrow> u64 \<Rightarrow> import_call option" where
  "ImpIoCreateSymbolicLink driver_imports SymbolicLinkName DeviceName =
     map_option (\<lambda>f. (f, [SymbolicLinkName, DeviceName]))
       (CryptDecryptImportsArrayEntry driver_imports IMPORTS_LENGTH IO_CREATE_SYMBOLIC_LINK_INDEX)"

definition ImpIoDeleteDevice ::
  "DRIVER_IMPORTS \<Rightarrow> u64 \<Rightarrow> import_call option" where
  "ImpIoDeleteDevice driver_imports DeviceObject =
     map_option (\<lambda>f. (f, [DeviceObject]))
       (CryptDecryptImportsArrayEntry driver_imports IMPORTS_LENGTH IO_DELETE_DEVICE_INDEX)"

definition ImpIoDeleteSymbolicLink ::
  "DRIVER_IMPORTS \<Rightarrow> u64 \<Rightarrow> import_call option" where
  "ImpIoDeleteSymbolicLink driver_imports SymbolicLinkName =
     map_option (\<lambda>f. (f, [SymbolicLinkName]))
       (CryptDecryptImportsArrayEntry driver_imports IMPORTS_LENGTH IO_DELETE_SYMBOLIC_LINK_INDEX)"

definition ImpObRegisterCallbacks ::
  "DRIVER_IMPORTS \<Rightarrow> u64 \<Rightarrow> u64 \<Rightarrow> import_call option" where
  "ImpObRegisterCallbacks driver_imports CallbackRegistration RegistrationHandle =
     map_option (\<lambda>f. (f, [CallbackRegistration, RegistrationHandle]))
       (CryptDecryptImportsArrayEntry driver_imports IMPORTS_LENGTH OB_REGISTER_CALLBACKS_INDEX)"

definition ImpObUnRegisterCallbacks ::
  "DRIVER_IMPORTS \<Rightarrow> u64 \<Rightarrow> import_call option" where
  "ImpObUnRegisterCallbacks driver_imports RegistrationHandle =
     map_option (\<lambda>f. (f, [RegistrationHandle]))
       (CryptDecryptImportsArrayEntry driver_imports IMPORTS_LENGTH OB_UNREGISTER_CALLBACKS_INDEX)"

definition ImpPsSetCreateThreadNotifyRoutine ::
  "DRIVER_IMPORTS \<Rightarrow> u64 \<Rightarrow> import_call option" where
  "ImpPsSetCreateThreadNotifyRoutine driver_imports NotifyRoutine =
     map_option (\<lambda>f. (f, [NotifyRoutine]))
       (CryptDecryptImportsArrayEntry driver_imports IMPORTS_LENGTH PS_SET_CREATE_THREAD_NOTIFY_ROUTINE_INDEX)"

definition ImpKeRevertToUserAffinityThreadEx ::
  "DRIVER_IMPORTS \<Rightarrow> u64 \<Rightarrow> import_call option" where
  "ImpKeRevertToUserAffinityThreadEx driver_imports Affinity =
     map_option (\<lambda>f. (f, [Affinity]))
       (CryptDecryptImportsArrayEntry driver_imports IMPORTS_LENGTH KE_REVERT_TO_USER_AFFINITY_THREAD_EX_INDEX)"

definition ImpKeSetSystemAffinityThreadEx ::
  "DRIVER_IMPORTS \<Rightarrow> u64 \<Rightarrow> import_call option" where
  "ImpKeSetSystemAffinityThreadEx driver_imports Affinity =
     map_option (\<lambda>f. (f, [Affinity]))
       (CryptDecryptImportsArrayEntry driver_imports IMPORTS_LENGTH KE_SET_SYSTEM_AFFINITY_THREAD_EX_INDEX)"

definition ImpStrnlen ::
  "DRIVER_IMPORTS \<Rightarrow> u64 \<Rightarrow> u64 \<Rightarrow> import_call option" where
  "ImpStrnlen driver_imports str maxCount =
     map_option (\<lambda>f. (f, [str, maxCount]))
       (CryptDecryptImportsArrayEntry driver_imports IMPORTS_LENGTH STRNLEN_INDEX)"

definition ImpRtlInitAnsiString ::
  "DRIVER_IMPORTS \<Rightarrow> u64 \<Rightarrow> u64 \<Rightarrow> import_call option" where
  "ImpRtlInitAnsiString driver_imports DestinationString SourceString =
     map_option (\<lambda>f. (f, [DestinationString, SourceString]))
       (CryptDecryptImportsArrayEntry driver_imports IMPORTS_LENGTH RTL_INIT_ANSI_STRING_INDEX)"

definition ImpRtlAnsiStringToUnicodeString ::
  "DRIVER_IMPORTS \<Rightarrow> u64 \<Rightarrow> u64 \<Rightarrow> u64 \<Rightarrow> import_call option" where
  "ImpRtlAnsiStringToUnicodeString driver_imports DestinationString SourceString AllocateDestinationString =
     map_option (\<lambda>f. (f, [DestinationString, SourceString, AllocateDestinationString]))
       (CryptDecryptImportsArrayEntry driver_imports IMPORTS_LENGTH RTL_ANSI_STRING_TO_UNICODE_STRING_INDEX)"

definition ImpIoGetCurrentProcess ::
  "DRIVER_IMPORTS \<Rightarrow> import_call option" where
  "ImpIoGetCurrentProcess driver_imports =
     map_option (\<lambda>f. (f, []))
       (CryptDecryptImportsArrayEntry driver_imports IMPORTS_LENGTH IO_GET_CURRENT_PROCESS_INDEX)"

definition ImpRtlGetVersion ::
  "DRIVER_IMPORTS \<Rightarrow> u64 \<Rightarrow> import_call option" where
  "ImpRtlGetVersion driver_imports lpVersionInformation =
     map_option (\<lambda>f. (f, [lpVersionInformation]))
       (CryptDecryptImportsArrayEntry driver_imports IMPORTS_LENGTH RTL_GET_VERSION_INDEX)"

definition ImpRtlCompareMemory ::
  "DRIVER_IMPORTS \<Rightarrow> u64 \<Rightarrow> u64 \<Rightarrow> u64 \<Rightarrow> import_call option" where
  "ImpRtlCompareMemory driver_imports Source1 Source2 Length =
     map_option (\<lambda>f. (f, [Source1, Source2, Length]))
       (CryptDecryptImportsArrayEntry driver_imports IMPORTS_LENGTH RTL_COMPARE_MEMORY_INDEX)"

definition ImpExGetSystemFirmwareTable ::
  "DRIVER_IMPORTS \<Rightarrow> u64 \<Rightarrow> u64 \<Rightarrow> u64 \<Rightarrow> u64 \<Rightarrow> u64 \<Rightarrow> import_call option" where
  "ImpExGetSystemFirmwareTable driver_imports FirmwareTableProviderSignature FirmwareTableID pFirmwareTableBuffer BufferLength ReturnLength =
     map_option (\<lambda>f. (f, [FirmwareTableProviderSignature, FirmwareTableID, pFirmwareTableBuffer, BufferLength, ReturnLength]))
       (CryptDecryptImportsArrayEntry driver_imports IMPORTS_LENGTH EX_GET_SYSTEM_FIRMWARE_TABLE_INDEX)"

definition ImpIoAllocateWorkItem ::
  "DRIVER_IMPORTS \<Rightarrow> u64 \<Rightarrow> import_call option" where
  "ImpIoAllocateWorkItem driver_imports DeviceObject =
     map_option (\<lambda>f. (f, [DeviceObject]))
       (CryptDecryptImportsArrayEntry driver_imports IMPORTS_LENGTH IO_ALLOCATE_WORK_ITEM_INDEX)"

definition ImpIoFreeWorkItem ::
  "DRIVER_IMPORTS \<Rightarrow> u64 \<Rightarrow> import_call option" where
  "ImpIoFreeWorkItem driver_imports WorkItem =
     map_option (\<lambda>f. (f, [WorkItem]))
       (CryptDecryptImportsArrayEntry driver_imports IMPORTS_LENGTH IO_FREE_WORK_ITEM_INDEX)"

definition ImpIoQueueWorkItem ::
  "DRIVER_IMPORTS \<Rightarrow> u64 \<Rightarrow> u64 \<Rightarrow> u64 \<Rightarrow> u64 \<Rightarrow> import_call option" where
  "ImpIoQueueWorkItem driver_imports IoWorkItem WorkerRoutine QueueType Context =
     map_option (\<lambda>f. (f, [IoWorkItem, WorkerRoutine, QueueType, Context]))
       (CryptDecryptImportsArrayEntry driver_imports IMPORTS_LENGTH IO_QUEUE_WORK_ITEM_INDEX)"

definition ImpZwOpenFile ::
  "DRIVER_IMPORTS \<Rightarrow> u64 \<Rightarrow> u64 \<Rightarrow> u64 \<Rightarrow> u64 \<Rightarrow> u64 \<Rightarrow> u64 \<Rightarrow> import_call option" where
  "ImpZwOpenFile driver_imports FileHandle DesiredAccess ObjectAttributes IoStatusBlock ShareAccess OpenOptions =
     map_option (\<lambda>f. (f, [FileHandle, DesiredAccess, ObjectAttributes, IoStatusBlock, ShareAccess, OpenOptions]))
       (CryptDecryptImportsArrayEntry driver_imports IMPORTS_LENGTH ZW_OPEN_FILE_INDEX)"

definition ImpZwClose ::
  "DRIVER_IMPORTS \<Rightarrow> u64 \<Rightarrow> import_call option" where
  "ImpZwClose driver_imports Handle =
     map_option (\<lambda>f. (f, [Handle]))
       (CryptDecryptImportsArrayEntry driver_imports IMPORTS_LENGTH ZW_CLOSE_INDEX)"

definition ImpZwCreateSection ::
  "DRIVER_IMPORTS \<Rightarrow> u64 \<Rightarrow> u64 \<Rightarrow> u64 \<Rightarrow> u64 \<Rightarrow> u64 \<Rightarrow> u64 \<Rightarrow> u64 \<Rightarrow> import_call option" where
  "ImpZwCreateSection driver_imports SectionHandle DesiredAccess ObjectAttributes MaximumSize SectionPageProtection AllocationAttributes FileHandle =
     map_option (\<lambda>f. (f, [SectionHandle, DesiredAccess, ObjectAttributes, MaximumSize, SectionPageProtection, AllocationAttributes, FileHandle]))
       (CryptDecryptImportsArrayEntry driver_imports IMPORTS_LENGTH ZW_CREATE_SECTION_INDEX)"

definition ImpZwMapViewOfSection ::
  "DRIVER_IMPORTS \<Rightarrow> u64 \<Rightarrow> u64 \<Rightarrow> u64 \<Rightarrow> u64 \<Rightarrow> u64 \<Rightarrow> u64 \<Rightarrow> u64 \<Rightarrow> u64 \<Rightarrow> u64 \<Rightarrow> u64 \<Rightarrow> import_call option" where
  "ImpZwMapViewOfSection driver_imports SectionHandle ProcessHandle BaseAddress ZeroBits CommitSize SectionOffset ViewSize InheritDisposition AllocationType Win32Protect =
     map_option (\<lambda>f. (f, [SectionHandle, ProcessHandle, BaseAddress, ZeroBits, CommitSize, SectionOffset, ViewSize, InheritDisposition, AllocationType, Win32Protect]))
       (CryptDecryptImportsArrayEntry driver_imports IMPORTS_LENGTH ZW_MAP_VIEW_OF_SECTION_INDEX)"

definition ImpZwUnmapViewOfSection ::
  "DRIVER_IMPORTS \<Rightarrow> u64 \<Rightarrow> u64 \<Rightarrow> import_call option" where
  "ImpZwUnmapViewOfSection driver_imports ProcessHandle BaseAddress =
     map_option (\<lambda>f. (f, [ProcessHandle, BaseAddress]))
       (CryptDecryptImportsArrayEntry driver_imports IMPORTS_LENGTH ZW_UNMAP_VIEW_OF_SECTION_INDEX)"

definition ImpMmCopyMemory ::
  "DRIVER_IMPORTS \<Rightarrow> u64 \<Rightarrow> u64 \<Rightarrow> u64 \<Rightarrow> u64 \<Rightarrow> u64 \<Rightarrow> import_call option" where
  "ImpMmCopyMemory driver_imports TargetAddress SourceAddress NumberOfBytes Flags NumberOfBytesTransferred =
     map_option (\<lambda>f. (f, [TargetAddress, SourceAddress, NumberOfBytes, Flags, NumberOfBytesTransferred]))
       (CryptDecryptImportsArrayEntry driver_imports IMPORTS_LENGTH MM_COPY_MEMORY_INDEX)"

definition ImpZwDeviceIoControlFile ::
  "DRIVER_IMPORTS \<Rightarrow> u64 \<Rightarrow> u64 \<Rightarrow> u64 \<Rightarrow> u64 \<Rightarrow> u64 \<Rightarrow> u64 \<Rightarrow> u64 \<Rightarrow> u64 \<Rightarrow> u64 \<Rightarrow> u64 \<Rightarrow> import_call option" where
  "ImpZwDeviceIoControlFile driver_imports FileHandle Event ApcRoutine ApcContext IoStatusBlock IoControlCode InputBuffer InputBufferLength OutputBuffer OutputBufferLength =
     map_option (\<lambda>f. (f, [FileHandle, Event, ApcRoutine, ApcContext, IoStatusBlock, IoControlCode, InputBuffer, InputBufferLength, OutputBuffer, OutputBufferLength]))
       (CryptDecryptImportsArrayEntry driver_imports IMPORTS_LENGTH ZW_DEVICE_IO_CONTROL_FILE_INDEX)"

definition ImpKeStackAttachProcess ::
  "DRIVER_IMPORTS \<Rightarrow> u64 \<Rightarrow> u64 \<Rightarrow> import_call option" where
  "ImpKeStackAttachProcess driver_imports Process ApcState =
     map_option (\<lambda>f. (f, [Process, ApcState]))
       (CryptDecryptImportsArrayEntry driver_imports IMPORTS_LENGTH KE_STACK_ATTACH_PROCESS_INDEX)"

definition ImpKeUnstackDetachProcess ::
  "DRIVER_IMPORTS \<Rightarrow> u64 \<Rightarrow> import_call option" where
  "ImpKeUnstackDetachProcess driver_imports ApcState =
     map_option (\<lambda>f. (f, [ApcState]))
       (CryptDecryptImportsArrayEntry driver_imports IMPORTS_LENGTH KE_UNSTACK_DETACH_PROCESS_INDEX)"

definition ImpKeWaitForSingleObject ::
  "DRIVER_IMPORTS \<Rightarrow> u64 \<Rightarrow> u64 \<Rightarrow> u64 \<Rightarrow> u64 \<Rightarrow> u64 \<Rightarrow> import_call option" where
  "ImpKeWaitForSingleObject driver_imports Object WaitReason WaitMode Alertable Timeout =
     map_option (\<lambda>f. (f, [Object, WaitReason, WaitMode, Alertable, Timeout]))
       (CryptDecryptImportsArrayEntry driver_imports IMPORTS_LENGTH KE_WAIT_FOR_SINGLE_OBJECT_INDEX)"

definition ImpPsCreateSystemThread ::
  "DRIVER_IMPORTS \<Rightarrow> u64 \<Rightarrow> u64 \<Rightarrow> u64 \<Rightarrow> u64 \<Rightarrow> u64 \<Rightarrow> u64 \<Rightarrow> u64 \<Rightarrow> import_call option" where
  "ImpPsCreateSystemThread driver_imports ThreadHandle DesiredAccess ObjectAttributes ProcessHandle ClientId StartRoutine StartContext =
     map_option (\<lambda>f. (f, [ThreadHandle, DesiredAccess, ObjectAttributes, ProcessHandle, ClientId, StartRoutine, StartContext]))
       (CryptDecryptImportsArrayEntry driver_imports IMPORTS_LENGTH PS_CREATE_SYSTEM_THREAD_INDEX)"

definition ImpIofCompleteRequest ::
  "DRIVER_IMPORTS \<Rightarrow> u64 \<Rightarrow> u64 \<Rightarrow> import_call option" where
  "ImpIofCompleteRequest driver_imports Irp PriorityBoost =
     map_option (\<lambda>f. (f, [Irp, PriorityBoost]))
       (CryptDecryptImportsArrayEntry driver_imports IMPORTS_LENGTH IOF_COMPLETE_REQUEST_INDEX)"

definition ImpObReferenceObjectByHandle ::
  "DRIVER_IMPORTS \<Rightarrow> u64 \<Rightarrow> u64 \<Rightarrow> u64 \<Rightarrow> u64 \<Rightarrow> u64 \<Rightarrow> u64 \<Rightarrow> import_call option" where
  "ImpObReferenceObjectByHandle driver_imports Handle DesiredAccess ObjectType AccessMode Object HandleInformation =
     map_option (\<lambda>f. (f, [Handle, DesiredAccess, ObjectType, AccessMode, Object, HandleInformation]))
       (CryptDecryptImportsArrayEntry driver_imports IMPORTS_LENGTH OB_REFERENCE_OBJECT_BY_HANDLE_INDEX)"

definition ImpKeDelayExecutionThread ::
  "DRIVER_IMPORTS \<Rightarrow> u64 \<Rightarrow> u64 \<Rightarrow> u64 \<Rightarrow> import_call option" where
  "ImpKeDelayExecutionThread driver_imports WaitMode Alertable Interval =
     map_option (\<lambda>f. (f, [WaitMode, Alertable, Interval]))
       (CryptDecryptImportsArrayEntry driver_imports IMPORTS_LENGTH KE_DELAY_EXECUTION_THREAD_INDEX)"

definition ImpKeRegisterNmiCallback ::
  "DRIVER_IMPORTS \<Rightarrow> u64 \<Rightarrow> u64 \<Rightarrow> import_call option" where
  "ImpKeRegisterNmiCallback driver_imports CallbackRoutine Context =
     map_option (\<lambda>f. (f, [CallbackRoutine, Context]))
       (CryptDecryptImportsArrayEntry driver_imports IMPORTS_LENGTH KE_REGISTER_NMI_CALLBACK_INDEX)"

definition ImpKeDeregisterNmiCallback ::
  "DRIVER_IMPORTS \<Rightarrow> u64 \<Rightarrow> import_call option" where
  "ImpKeDeregisterNmiCallback driver_imports Handle =
     map_option (\<lambda>f. (f, [Handle]))
       (CryptDecryptImportsArrayEntry driver_imports IMPORTS_LENGTH KE_DEREGISTER_NMI_CALLBACK_INDEX)"

definition ImpKeQueryActiveProcessorCount ::
  "DRIVER_IMPORTS \<Rightarrow> u64 \<Rightarrow> import_call option" where
  "ImpKeQueryActiveProcessorCount driver_imports ActiveProcessors =
     map_option (\<lambda>f. (f, [ActiveProcessors]))
       (CryptDecryptImportsArrayEntry driver_imports IMPORTS_LENGTH KE_QUERY_ACTIVE_PROCESSOR_COUNT_INDEX)"

definition ImpExAcquirePushLockExclusiveEx ::
  "DRIVER_IMPORTS \<Rightarrow> u64 \<Rightarrow> u64 \<Rightarrow> import_call option" where
  "ImpExAcquirePushLockExclusiveEx driver_imports PushLock Flags =
     map_option (\<lambda>f. (f, [PushLock, Flags]))
       (CryptDecryptImportsArrayEntry driver_imports IMPORTS_LENGTH EX_ACQUIRE_PUSH_LOCK_EXCLUSIVE_EX_INDEX)"

definition ImpExReleasePushLockExclusiveEx ::
  "DRIVER_IMPORTS \<Rightarrow> u64 \<Rightarrow> u64 \<Rightarrow> import_call option" where
  "ImpExReleasePushLockExclusiveEx driver_imports PushLock Flags =
     map_option (\<lambda>f. (f, [PushLock, Flags]))
       (CryptDecryptImportsArrayEntry driver_imports IMPORTS_LENGTH EX_RELEASE_PUSH_LOCK_EXCLUSIVE_EX_INDEX)"

definition ImpPsGetThreadId ::
  "DRIVER_IMPORTS \<Rightarrow> u64 \<Rightarrow> import_call option" where
  "ImpPsGetThreadId driver_imports Thread =
     map_option (\<lambda>f. (f, [Thread]))
       (CryptDecryptImportsArrayEntry driver_imports IMPORTS_LENGTH PS_GET_THREAD_ID_INDEX)"

definition ImpRtlCaptureStackBackTrace ::
  "DRIVER_IMPORTS \<Rightarrow> u64 \<Rightarrow> u64 \<Rightarrow> u64 \<Rightarrow> u64 \<Rightarrow> import_call option" where
  "ImpRtlCaptureStackBackTrace driver_imports FramesToSkip FramesToCapture BackTrace BackTraceHash =
     map_option (\<lambda>f. (f, [FramesToSkip, FramesToCapture, BackTrace, BackTraceHash]))
       (CryptDecryptImportsArrayEntry driver_imports IMPORTS_LENGTH RTL_CAPTURE_STACK_BACK_TRACE_INDEX)"

definition ImpZwOpenDirectoryObject ::
  "DRIVER_IMPORTS \<Rightarrow> u64 \<Rightarrow> u64 \<Rightarrow> u64 \<Rightarrow> import_call option" where
  "ImpZwOpenDirectoryObject driver_imports DirectoryHandle DesiredAccess ObjectAttributes =
     map_option (\<lambda>f. (f, [DirectoryHandle, DesiredAccess, ObjectAttributes]))
       (CryptDecryptImportsArrayEntry driver_imports IMPORTS_LENGTH ZW_OPEN_DIRECTORY_OBJECT_INDEX)"

definition ImpKeInitializeAffinityEx ::
  "DRIVER_IMPORTS \<Rightarrow> u64 \<Rightarrow> import_call option" where
  "ImpKeInitializeAffinityEx driver_imports AffinityMask =
     map_option (\<lambda>f. (f, [AffinityMask]))
       (CryptDecryptImportsArrayEntry driver_imports IMPORTS_LENGTH KE_INITIALIZE_AFFINITY_EX_INDEX)"

definition ImpKeAddProcessorAffinityEx ::
  "DRIVER_IMPORTS \<Rightarrow> u64 \<Rightarrow> u64 \<Rightarrow> import_call option" where
  "ImpKeAddProcessorAffinityEx driver_imports Affinity CoreNumber =
     map_option (\<lambda>f. (f, [Affinity, CoreNumber]))
       (CryptDecryptImportsArrayEntry driver_imports IMPORTS_LENGTH KE_ADD_PROCESSOR_AFFINITY_EX_INDEX)"

definition ImpRtlQueryModuleInformation ::
  "DRIVER_IMPORTS \<Rightarrow> u64 \<Rightarrow> u64 \<Rightarrow> u64 \<Rightarrow> import_call option" where
  "ImpRtlQueryModuleInformation driver_imports InformationLength SizePerModule InformationBuffer =
     map_option (\<lambda>f. (f, [InformationLength, SizePerModule, InformationBuffer]))
       (CryptDecryptImportsArrayEntry driver_imports IMPORTS_LENGTH RTL_QUERY_MODULE_INFORMATION_INDEX)"

definition ImpKeInitializeApc ::
  "DRIVER_IMPORTS \<Rightarrow> u64 \<Rightarrow> u64 \<Rightarrow> u64 \<Rightarrow> u64 \<Rightarrow> u64 \<Rightarrow> u64 \<Rightarrow> u64 \<Rightarrow> u64 \<Rightarrow> import_call option" where
  "ImpKeInitializeApc driver_imports Apc Thread Environment KernelRoutine RundownRoutine NormalRoutine ApcMode NormalContext =
     map_option (\<lambda>f. (f, [Apc, Thread, Environment, KernelRoutine, RundownRoutine, NormalRoutine, ApcMode, NormalContext]))
       (CryptDecryptImportsArrayEntry driver_imports IMPORTS_LENGTH KE_INITIALIZE_APC_INDEX)"

definition ImpKeInsertQueueApc ::
  "DRIVER_IMPORTS \<Rightarrow> u64 \<Rightarrow> u64 \<Rightarrow> u64 \<Rightarrow> u64 \<Rightarrow> import_call option" where
  "ImpKeInsertQueueApc driver_imports Apc SystemArgument1 SystemArgument2 Increment =
     map_option (\<lambda>f. (f, [Apc, SystemArgument1, SystemArgument2, Increment]))
       (CryptDecryptImportsArrayEntry driver_imports IMPORTS_LENGTH KE_INSERT_QUEUE_APC_INDEX)"

definition ImpKeGenericCallDpc ::
  "DRIVER_IMPORTS \<Rightarrow> u64 \<Rightarrow> u64 \<Rightarrow> import_call option" where
  "ImpKeGenericCallDpc driver_imports DpcRoutine Context =
     map_option (\<lambda>f. (f, [DpcRoutine, Context]))
       (CryptDecryptImportsArrayEntry driver_imports IMPORTS_LENGTH KE_GENERIC_CALL_DPC_INDEX)"

definition ImpKeSignalCallDpcDone ::
  "DRIVER_IMPORTS \<Rightarrow> u64 \<Rightarrow> import_call option" where
  "ImpKeSignalCallDpcDone driver_imports SystemArgument1 =
     map_option (\<lambda>f. (f, [SystemArgument1]))
       (CryptDecryptImportsArrayEntry driver_imports IMPORTS_LENGTH KE_SIGNAL_CALL_DPC_DONE_INDEX)"

definition ImpMmGetPhysicalMemoryRangesEx2 ::
  "DRIVER_IMPORTS \<Rightarrow> u64 \<Rightarrow> u64 \<Rightarrow> import_call option" where
  "ImpMmGetPhysicalMemoryRangesEx2 driver_imports PartitionObject Flags =
     map_option (\<lambda>f. (f, [PartitionObject, Flags]))
       (CryptDecryptImportsArrayEntry driver_imports IMPORTS_LENGTH MM_GET_PHYSICAL_MEMORY_RANGES_EX2_INDEX)"

definition ImpMmGetVirtualForPhysical ::
  "DRIVER_IMPORTS \<Rightarrow> u64 \<Rightarrow> import_call option" where
  "ImpMmGetVirtualForPhysical driver_imports PhysicalAddress =
     map_option (\<lambda>f. (f, [PhysicalAddress]))
       (CryptDecryptImportsArrayEntry driver_imports IMPORTS_LENGTH MM_GET_VIRTUAL_FOR_PHYSICAL_INDEX)"

definition ImpObfReferenceObject ::
  "DRIVER_IMPORTS \<Rightarrow> u64 \<Rightarrow> import_call option" where
  "ImpObfReferenceObject driver_imports Object =
     map_option (\<lambda>f. (f, [Object]))
       (CryptDecryptImportsArrayEntry driver_imports IMPORTS_LENGTH OBF_REFERENCE_OBJECT_INDEX)"

definition ImpExFreePoolWithTag ::
  "DRIVER_IMPORTS \<Rightarrow> u64 \<Rightarrow> u64 \<Rightarrow> import_call option" where
  "ImpExFreePoolWithTag driver_imports P Tag =
     map_option (\<lambda>f. (f, [P, Tag]))
       (CryptDecryptImportsArrayEntry driver_imports IMPORTS_LENGTH EX_FREE_POOL_WITH_TAG_INDEX)"

definition ImpExAllocatePool2 ::
  "DRIVER_IMPORTS \<Rightarrow> u64 \<Rightarrow> u64 \<Rightarrow> u64 \<Rightarrow> import_call option" where
  "ImpExAllocatePool2 driver_imports Flags NumberOfBytes Tag =
     map_option (\<lambda>f. (f, [Flags, NumberOfBytes, Tag]))
       (CryptDecryptImportsArrayEntry driver_imports IMPORTS_LENGTH EX_ALLOCATE_POOL2_INDEX)"

definition ImpKeReleaseGuardedMutex ::
  "DRIVER_IMPORTS \<Rightarrow> u64 \<Rightarrow> import_call option" where
  "ImpKeReleaseGuardedMutex driver_imports GuardedMutex =
     map_option (\<lambda>f. (f, [GuardedMutex]))
       (CryptDecryptImportsArrayEntry driver_imports IMPORTS_LENGTH KE_RELEASE_GUARDED_MUTEX_INDEX)"

definition ImpKeAcquireGuardedMutex ::
  "DRIVER_IMPORTS \<Rightarrow> u64 \<Rightarrow> import_call option" where
  "ImpKeAcquireGuardedMutex driver_imports GuardedMutex =
     map_option (\<lambda>f. (f, [GuardedMutex]))
       (CryptDecryptImportsArrayEntry driver_imports IMPORTS_LENGTH KE_ACQUIRE_GUARDED_MUTEX_INDEX)"

definition ImpDbgPrintEx ::
  "DRIVER_IMPORTS \<Rightarrow> u64 \<Rightarrow> u64 \<Rightarrow> u64 \<Rightarrow> u64 \<Rightarrow> import_call option" where
  "ImpDbgPrintEx driver_imports ComponentId Level Format args =
     map_option (\<lambda>f. (f, [ComponentId, Level, Format, args]))
       (CryptDecryptImportsArrayEntry driver_imports IMPORTS_LENGTH DBG_PRINT_EX_INDEX)"

definition ImpRtlCompareUnicodeString ::
  "DRIVER_IMPORTS \<Rightarrow> u64 \<Rightarrow> u64 \<Rightarrow> u64 \<Rightarrow> import_call option" where
  "ImpRtlCompareUnicodeString driver_imports String1 String2 CaseInSensitive =
     map_option (\<lambda>f. (f, [String1, String2, CaseInSensitive]))
       (CryptDecryptImportsArrayEntry driver_imports IMPORTS_LENGTH RTL_COMPARE_UNICODE_STRING_INDEX)"

definition ImpRtlFreeUnicodeString ::
  "DRIVER_IMPORTS \<Rightarrow> u64 \<Rightarrow> import_call option" where
  "ImpRtlFreeUnicodeString driver_imports UnicodeString =
     map_option (\<lambda>f. (f, [UnicodeString]))
       (CryptDecryptImportsArrayEntry driver_imports IMPORTS_LENGTH RTL_FREE_UNICODE_STRING_INDEX)"

lemmas wrapper_defs =
  ImpObDereferenceObject_def
  ImpPsLookupThreadByThreadId_def
  ImpMmIsAddressValid_def
  ImpPsSetCreateProcessNotifyRoutine_def
  ImpPsRemoveCreateThreadNotifyRoutine_def
  ImpPsGetCurrentThreadId_def
  ImpPsGetProcessId_def
  ImpPsLookupProcessByProcessId_def
  ImpExEnumHandleTable_def
  ImpObGetObjectType_def
  ImpExfUnblockPushLock_def
  ImpPsGetProcessImageFileName_def
  ImpStrStr_def
  ImpRtlInitUnicodeString_def
  ImpRtlQueryRegistryValues_def
  ImpMmGetSystemRoutineAddress_def
  ImpRtlUnicodeStringToAnsiString_def
  ImpRtlCopyUnicodeString_def
  ImpRtlFreeAnsiString_def
  ImpKeInitializeGuardedMutex_def
  ImpIoCreateDevice_def
  ImpIoCreateSymbolicLink_def
  ImpIoDeleteDevice_def
  ImpIoDeleteSymbolicLink_def
  ImpObRegisterCallbacks_def
  ImpObUnRegisterCallbacks_def
  ImpPsSetCreateThreadNotifyRoutine_def
  ImpKeRevertToUserAffinityThreadEx_def
  ImpKeSetSystemAffinityThreadEx_def
  ImpStrnlen_def
  ImpRtlInitAnsiString_def
  ImpRtlAnsiStringToUnicodeString_def
  ImpIoGetCurrentProcess_def
  ImpRtlGetVersion_def
  ImpRtlCompareMemory_def
  ImpExGetSystemFirmwareTable_def
  ImpIoAllocateWorkItem_def
  ImpIoFreeWorkItem_def
  ImpIoQueueWorkItem_def
  ImpZwOpenFile_def
  ImpZwClose_def
  ImpZwCreateSection_def
  ImpZwMapViewOfSection_def
  ImpZwUnmapViewOfSection_def
  ImpMmCopyMemory_def
  ImpZwDeviceIoControlFile_def
  ImpKeStackAttachProcess_def
  ImpKeUnstackDetachProcess_def
  ImpKeWaitForSingleObject_def
  ImpPsCreateSystemThread_def
  ImpIofCompleteRequest_def
  ImpObReferenceObjectByHandle_def
  ImpKeDelayExecutionThread_def
  ImpKeRegisterNmiCallback_def
  ImpKeDeregisterNmiCallback_def
  ImpKeQueryActiveProcessorCount_def
  ImpExAcquirePushLockExclusiveEx_def
  ImpExReleasePushLockExclusiveEx_def
  ImpPsGetThreadId_def
  ImpRtlCaptureStackBackTrace_def
  ImpZwOpenDirectoryObject_def
  ImpKeInitializeAffinityEx_def
  ImpKeAddProcessorAffinityEx_def
  ImpRtlQueryModuleInformation_def
  ImpKeInitializeApc_def
  ImpKeInsertQueueApc_def
  ImpKeGenericCallDpc_def
  ImpKeSignalCallDpcDone_def
  ImpMmGetPhysicalMemoryRangesEx2_def
  ImpMmGetVirtualForPhysical_def
  ImpObfReferenceObject_def
  ImpExFreePoolWithTag_def
  ImpExAllocatePool2_def
  ImpKeReleaseGuardedMutex_def
  ImpKeAcquireGuardedMutex_def
  ImpDbgPrintEx_def
  ImpRtlCompareUnicodeString_def
  ImpRtlFreeUnicodeString_def

section \<open>Correctness of the table\<close>

lemma length_NT_IMPORTS: "length NT_IMPORTS = 79"
  by (simp add: NT_IMPORTS_def)

lemma IMPORTS_LENGTH_eq: "IMPORTS_LENGTH = 80"
  by (simp add: IMPORTS_LENGTH_def DRIVER_IMPORTS_fields_def)

lemma resolve_loop_success:
  assumes "\<And>n. n \<in> set names \<Longrightarrow> resolve n = Some (f n) \<and> f n \<noteq> NULL"
    and "k + length names \<le> length imps"
  shows "resolve_loop resolve names k imps =
    Some (True, take k imps @ map f names @ drop (k + length names) imps)"
  using assms
proof (induction names arbitrary: k imps)
  case (Cons n ns)
  have "take (Suc k) (imps[k := f n]) = take k imps @ [f n]"
    using Cons.prems(2) by (simp add: take_Suc_conv_app_nth)
  with Cons.IH[of "Suc k" "imps[k := f n]"] Cons.prems show ?case
    by simp
qed simp

lemma resolve_loop_failure:
  assumes "resolve n = Some NULL" "n \<in> set names" "\<And>n. n \<in> set names \<Longrightarrow> resolve n \<noteq> None"
  shows "\<exists>imps'. resolve_loop resolve names k imps = Some (False, imps')"
  using assms(2,3)
proof (induction names arbitrary: k imps)
  case (Cons a ns)
  obtain p where p: "resolve a = Some p" using Cons.prems(2)[of a] by auto
  show ?case
  proof (cases "p = NULL")
    case True
    then show ?thesis using p by simp
  next
    case False
    then have "n \<in> set ns" using Cons.prems(1) p assms(1) by auto
    then show ?thesis using Cons p False by simp
  qed
qed simp

lemma resolved_slot:
  assumes "length imps = 80" "\<And>n. n \<in> set NT_IMPORTS \<Longrightarrow> resolve n = Some (f n) \<and> f n \<noteq> NULL"
  shows "\<exists>imps'. resolve_imports resolve imps = Some (STATUS_SUCCESS, imps') \<and> length imps' = 80
     \<and> (\<forall>i. unat i < 79 \<longrightarrow>
          CryptDecryptImportsArrayEntry imps' IMPORTS_LENGTH i = Some (f (NT_IMPORTS ! unat i)))"
proof -
  let ?A = "map f NT_IMPORTS @ drop 79 imps"
  have len: "length ?A = 80" using assms(1) by (simp add: length_NT_IMPORTS)
  have "resolve_loop resolve NT_IMPORTS 0 imps = Some (True, ?A)"
    using resolve_loop_success[of NT_IMPORTS resolve f 0 imps] assms by (simp add: length_NT_IMPORTS)
  moreover have enc: "CryptEncryptImportsArray ?A IMPORTS_LENGTH = Some (encrypted 80 ?A)"
    using CryptEncryptImportsArray_eq[of IMPORTS_LENGTH ?A] len by (simp add: IMPORTS_LENGTH_eq)
  ultimately have "resolve_imports resolve imps = Some (STATUS_SUCCESS, encrypted 80 ?A)"
    by (simp add: resolve_imports_def)
  moreover have "CryptDecryptImportsArrayEntry (encrypted 80 ?A) IMPORTS_LENGTH i = Some (f (NT_IMPORTS ! unat i))"
    if "unat i < 79" for i :: u32
  proof -
    have "unat i div 4 < 20" using that by linarith
    then have "4 * (unat i div 4) + 4 \<le> length (encrypted 80 ?A)" using len by simp
    then show ?thesis
      using that len by (simp add: CryptDecryptImportsArrayEntry_eq xor.assoc nth_append length_NT_IMPORTS)
  qed
  ultimately show ?thesis using len by simp
qed

section \<open>Correctness of the searches\<close>

text \<open>
  \<open>load_order ldr first a es\<close>: from address \<open>a\<close> the forward links run through the entries
  \<open>es\<close> and come back to \<open>first\<close> behind the last one.
\<close>

fun load_order :: "loaded_modules \<Rightarrow> ptr \<Rightarrow> ptr \<Rightarrow> ldr_entry list \<Rightarrow> bool" where
  "load_order ldr first a [] \<longleftrightarrow> False"
| "load_order ldr first a [e] \<longleftrightarrow> ldr a = Some e \<and> ldr_Flink e = first"
| "load_order ldr first a (e # es) \<longleftrightarrow>
     ldr a = Some e \<and> ldr_Flink e \<noteq> first \<and> load_order ldr first (ldr_Flink e) es"

definition base_of :: "ldr_entry list \<Rightarrow> string \<Rightarrow> ptr" where
  "base_of es Name =
     (case List.find (\<lambda>e. ldr_BaseDllName e = Name) es of None \<Rightarrow> NULL | Some e \<Rightarrow> ldr_DllBase e)"

lemma FindDriverBaseNoApi_loop_law:
  "load_order ldr first a es \<Longrightarrow>
   FindDriverBaseNoApi_loop ldr first Name a = Some (base_of (butlast es) Name)"
proof (induction ldr first a es rule: load_order.induct)
  case (2 ldr first a e)
  then show ?case by (subst FindDriverBaseNoApi_loop.simps) (simp add: base_of_def)
next
  case (3 ldr first a e e' es)
  then show ?case by (subst FindDriverBaseNoApi_loop.simps) (simp add: base_of_def)
qed simp

text \<open>A terminated string in memory.\<close>

primrec cstring :: "memory \<Rightarrow> ptr \<Rightarrow> string \<Rightarrow> bool" where
  "cstring m p [] \<longleftrightarrow> m p = Some 0"
| "cstring m p (c # cs) \<longleftrightarrow> c \<noteq> CHR 0x00 \<and> m p = Some (of_char c) \<and> cstring m (p + 1) cs"

lemma of_char_u8_inj: "(of_char c :: u8) = of_char d \<longleftrightarrow> c = d"
proof -
  have "unat (of_char c :: u8) = of_char c" for c :: char
  proof -
    have "(of_char c :: u8) = of_nat (of_char c)" by (simp add: of_char_def)
    moreover have "(of_char c :: nat) < 256" by (simp add: of_char_def horner_sum_bit_eq_take_bit)
    ultimately show ?thesis by (simp add: unat_of_nat_eq)
  qed
  then show ?thesis by (metis of_char_eq_iff)
qed

lemma strcmp_equal_cstring:
  assumes "cstring m p s" "CHR 0x00 \<notin> set t"
  shows "strcmp_equal m p t = Some (s = t)"
  using assms
proof (induction t arbitrary: p s)
  case Nil
  have "(of_char c :: u8) = 0 \<longleftrightarrow> c = CHR 0x00" for c
    using of_char_u8_inj[of c "CHR 0x00"] by (simp add: of_char_def)
  with Nil show ?case by (cases s) auto
next
  case (Cons d t)
  have "0 = (of_char d :: u8) \<longleftrightarrow> d = CHR 0x00"
    using of_char_u8_inj[of "CHR 0x00" d] by (auto simp: of_char_def)
  with Cons show ?case by (cases s) (auto simp: of_char_u8_inj)
qed

text \<open>The exports from an index on: each is a name and the offset of its routine.\<close>

primrec exports_at ::
  "memory \<Rightarrow> ptr \<Rightarrow> ptr \<Rightarrow> ptr \<Rightarrow> ptr \<Rightarrow> nat \<Rightarrow> (string \<times> u32) list \<Rightarrow> bool" where
  "exports_at m base nt ot ft i [] \<longleftrightarrow> True"
| "exports_at m base nt ot ft i (e # es) \<longleftrightarrow>
     (case read_u32 m (nt + of_nat (4 * i)) of None \<Rightarrow> False | Some n \<Rightarrow> cstring m (base + ucast n) (fst e))
     \<and> (case read_u16 m (ot + of_nat (2 * i)) of None \<Rightarrow> False
        | Some ord \<Rightarrow> read_u32 m (ft + 4 * ucast ord) = Some (snd e))
     \<and> exports_at m base nt ot ft (Suc i) es"

definition export_address :: "ptr \<Rightarrow> (string \<times> u32) list \<Rightarrow> string \<Rightarrow> ptr" where
  "export_address base exps Name = (case map_of exps Name of None \<Rightarrow> NULL | Some off \<Rightarrow> base + ucast off)"

lemma export_search_law:
  assumes "exports_at m base nt ot ft i exps" "CHR 0x00 \<notin> set Name"
  shows "export_search m base nt ot ft Name i (length exps) = Some (export_address base exps Name)"
  using assms
proof (induction exps arbitrary: i)
  case (Cons e es)
  obtain n where "read_u32 m (nt + of_nat (4 * i)) = Some n" "cstring m (base + ucast n) (fst e)"
    using Cons.prems(1) by (auto split: option.splits)
  moreover obtain ord where "read_u16 m (ot + of_nat (2 * i)) = Some ord"
    "read_u32 m (ft + 4 * ucast ord) = Some (snd e)"
    using Cons.prems(1) by (auto split: option.splits)
  ultimately show ?case
    using Cons strcmp_equal_cstring[of m "base + ucast n" "fst e" Name]
    by (cases e) (auto simp: export_address_def)
qed (simp add: export_address_def)

text \<open>The header fields that lead to the export directory of an image.\<close>

definition export_directory :: "memory \<Rightarrow> ptr \<Rightarrow> (string \<times> u32) list \<Rightarrow> bool" where
  "export_directory m base exps =
     (case do {
        lfanew \<leftarrow> read_u32 m (base + 0x3C);
        va \<leftarrow> read_u32 m (base + scast lfanew + 0x88);
        count \<leftarrow> read_u32 m (base + ucast va + 0x18);
        funcs \<leftarrow> read_u32 m (base + ucast va + 0x1C);
        names \<leftarrow> read_u32 m (base + ucast va + 0x20);
        ords \<leftarrow> read_u32 m (base + ucast va + 0x24);
        Some (unat count = length exps
          \<and> exports_at m base (base + ucast names) (base + ucast ords) (base + ucast funcs) 0 exps)
      } of None \<Rightarrow> False | Some b \<Rightarrow> b)"

lemma ImpResolveNtImport_law:
  assumes "FindDriverBaseNoApi ldr drv ''ntoskrnl.exe'' = Some base" "base \<noteq> NULL"
    and "export_directory m base exps" "CHR 0x00 \<notin> set Name"
  shows "ImpResolveNtImport m ldr drv Name = Some (export_address base exps Name)"
  using assms(3) export_search_law[OF _ assms(4)] assms(1,2)
  by (auto simp: export_directory_def ImpResolveNtImport_def layout_offsets add.assoc
      split: option.splits bind_splits)

section \<open>Properties\<close>

text \<open>C11: every wrapper calls the routine it is named after, with its own arguments in order.
  When each of the 79 names resolves to a non-null address, the resolution returns
  \<^verbatim>\<open>STATUS_SUCCESS\<close> and leaves a table on which each of the 78 wrappers decrypts exactly the
  address of the export of its name.\<close>

theorem wrappers_call_their_import:
  assumes "length imps0 = 80"
    and "\<And>n. n \<in> set NT_IMPORTS \<Longrightarrow> resolve n = Some (f n) \<and> f n \<noteq> NULL"
  shows "\<exists>imps. resolve_imports resolve imps0 = Some (STATUS_SUCCESS, imps)
   \<and> ImpObDereferenceObject imps a0 = Some (f ''ObDereferenceObject'', [a0])
   \<and> ImpPsLookupThreadByThreadId imps a0 a1 = Some (f ''PsLookupThreadByThreadId'', [a0, a1])
   \<and> ImpMmIsAddressValid imps a0 = Some (f ''MmIsAddressValid'', [a0])
   \<and> ImpPsSetCreateProcessNotifyRoutine imps a0 a1 = Some (f ''PsSetCreateProcessNotifyRoutine'', [a0, a1])
   \<and> ImpPsRemoveCreateThreadNotifyRoutine imps a0 = Some (f ''PsRemoveCreateThreadNotifyRoutine'', [a0])
   \<and> ImpPsGetCurrentThreadId imps = Some (f ''PsGetCurrentThreadId'', [])
   \<and> ImpPsGetProcessId imps a0 = Some (f ''PsGetProcessId'', [a0])
   \<and> ImpPsLookupProcessByProcessId imps a0 a1 = Some (f ''PsLookupProcessByProcessId'', [a0, a1])
   \<and> ImpExEnumHandleTable imps a0 a1 a2 a3 = Some (f ''ExEnumHandleTable'', [a0, a1, a2, a3])
   \<and> ImpObGetObjectType imps a0 = Some (f ''ObGetObjectType'', [a0])
   \<and> ImpExfUnblockPushLock imps a0 a1 = Some (f ''ExfUnblockPushLock'', [a0, a1])
   \<and> ImpPsGetProcessImageFileName imps a0 = Some (f ''PsGetProcessImageFileName'', [a0])
   \<and> ImpStrStr imps a0 a1 = Some (f ''strstr'', [a0, a1])
   \<and> ImpRtlInitUnicodeString imps a0 a1 = Some (f ''RtlInitUnicodeString'', [a0, a1])
   \<and> ImpRtlQueryRegistryValues imps a0 a1 a2 a3 a4 = Some (f ''RtlQueryRegistryValues'', [a0, a1, a2, a3, a4])
   \<and> ImpMmGetSystemRoutineAddress imps a0 = Some (f ''MmGetSystemRoutineAddress'', [a0])
   \<and> ImpRtlUnicodeStringToAnsiString imps a0 a1 a2 = Some (f ''RtlUnicodeStringToAnsiString'', [a0, a1, a2])
   \<and> ImpRtlCopyUnicodeString imps a0 a1 = Some (f ''RtlCopyUnicodeString'', [a0, a1])
   \<and> ImpRtlFreeAnsiString imps a0 = Some (f ''RtlFreeAnsiString'', [a0])
   \<and> ImpKeInitializeGuardedMutex imps a0 = Some (f ''KeInitializeGuardedMutex'', [a0])
   \<and> ImpIoCreateDevice imps a0 a1 a2 a3 a4 a5 a6 = Some (f ''IoCreateDevice'', [a0, a1, a2, a3, a4, a5, a6])
   \<and> ImpIoCreateSymbolicLink imps a0 a1 = Some (f ''IoCreateSymbolicLink'', [a0, a1])
   \<and> ImpIoDeleteDevice imps a0 = Some (f ''IoDeleteDevice'', [a0])
   \<and> ImpIoDeleteSymbolicLink imps a0 = Some (f ''IoDeleteSymbolicLink'', [a0])
   \<and> ImpObRegisterCallbacks imps a0 a1 = Some (f ''ObRegisterCallbacks'', [a0, a1])
   \<and> ImpObUnRegisterCallbacks imps a0 = Some (f ''ObUnRegisterCallbacks'', [a0])
   \<and> ImpPsSetCreateThreadNotifyRoutine imps a0 = Some (f ''PsSetCreateThreadNotifyRoutine'', [a0])
   \<and> ImpKeRevertToUserAffinityThreadEx imps a0 = Some (f ''KeRevertToUserAffinityThreadEx'', [a0])
   \<and> ImpKeSetSystemAffinityThreadEx imps a0 = Some (f ''KeSetSystemAffinityThreadEx'', [a0])
   \<and> ImpStrnlen imps a0 a1 = Some (f ''strnlen'', [a0, a1])
   \<and> ImpRtlInitAnsiString imps a0 a1 = Some (f ''RtlInitAnsiString'', [a0, a1])
   \<and> ImpRtlAnsiStringToUnicodeString imps a0 a1 a2 = Some (f ''RtlAnsiStringToUnicodeString'', [a0, a1, a2])
   \<and> ImpIoGetCurrentProcess imps = Some (f ''IoGetCurrentProcess'', [])
   \<and> ImpRtlGetVersion imps a0 = Some (f ''RtlGetVersion'', [a0])
   \<and> ImpRtlCompareMemory imps a0 a1 a2 = Some (f ''RtlCompareMemory'', [a0, a1, a2])
   \<and> ImpExGetSystemFirmwareTable imps a0 a1 a2 a3 a4 = Some (f ''ExGetSystemFirmwareTable'', [a0, a1, a2, a3, a4])
   \<and> ImpIoAllocateWorkItem imps a0 = Some (f ''IoAllocateWorkItem'', [a0])
   \<and> ImpIoFreeWorkItem imps a0 = Some (f ''IoFreeWorkItem'', [a0])
   \<and> ImpIoQueueWorkItem imps a0 a1 a2 a3 = Some (f ''IoQueueWorkItem'', [a0, a1, a2, a3])
   \<and> ImpZwOpenFile imps a0 a1 a2 a3 a4 a5 = Some (f ''ZwOpenFile'', [a0, a1, a2, a3, a4, a5])
   \<and> ImpZwClose imps a0 = Some (f ''ZwClose'', [a0])
   \<and> ImpZwCreateSection imps a0 a1 a2 a3 a4 a5 a6 = Some (f ''ZwCreateSection'', [a0, a1, a2, a3, a4, a5, a6])
   \<and> ImpZwMapViewOfSection imps a0 a1 a2 a3 a4 a5 a6 a7 a8 a9 = Some (f ''ZwMapViewOfSection'', [a0, a1, a2, a3, a4, a5, a6, a7, a8, a9])
   \<and> ImpZwUnmapViewOfSection imps a0 a1 = Some (f ''ZwUnmapViewOfSection'', [a0, a1])
   \<and> ImpMmCopyMemory imps a0 a1 a2 a3 a4 = Some (f ''MmCopyMemory'', [a0, a1, a2, a3, a4])
   \<and> ImpZwDeviceIoControlFile imps a0 a1 a2 a3 a4 a5 a6 a7 a8 a9 = Some (f ''ZwDeviceIoControlFile'', [a0, a1, a2, a3, a4, a5, a6, a7, a8, a9])
   \<and> ImpKeStackAttachProcess imps a0 a1 = Some (f ''KeStackAttachProcess'', [a0, a1])
   \<and> ImpKeUnstackDetachProcess imps a0 = Some (f ''KeUnstackDetachProcess'', [a0])
   \<and> ImpKeWaitForSingleObject imps a0 a1 a2 a3 a4 = Some (f ''KeWaitForSingleObject'', [a0, a1, a2, a3, a4])
   \<and> ImpPsCreateSystemThread imps a0 a1 a2 a3 a4 a5 a6 = Some (f ''PsCreateSystemThread'', [a0, a1, a2, a3, a4, a5, a6])
   \<and> ImpIofCompleteRequest imps a0 a1 = Some (f ''IofCompleteRequest'', [a0, a1])
   \<and> ImpObReferenceObjectByHandle imps a0 a1 a2 a3 a4 a5 = Some (f ''ObReferenceObjectByHandle'', [a0, a1, a2, a3, a4, a5])
   \<and> ImpKeDelayExecutionThread imps a0 a1 a2 = Some (f ''KeDelayExecutionThread'', [a0, a1, a2])
   \<and> ImpKeRegisterNmiCallback imps a0 a1 = Some (f ''KeRegisterNmiCallback'', [a0, a1])
   \<and> ImpKeDeregisterNmiCallback imps a0 = Some (f ''KeDeregisterNmiCallback'', [a0])
   \<and> ImpKeQueryActiveProcessorCount imps a0 = Some (f ''KeQueryActiveProcessorCount'', [a0])
   \<and> ImpExAcquirePushLockExclusiveEx imps a0 a1 = Some (f ''ExAcquirePushLockExclusiveEx'', [a0, a1])
   \<and> ImpExReleasePushLockExclusiveEx imps a0 a1 = Some (f ''ExReleasePushLockExclusiveEx'', [a0, a1])
   \<and> ImpPsGetThreadId imps a0 = Some (f ''PsGetThreadId'', [a0])
   \<and> ImpRtlCaptureStackBackTrace imps a0 a1 a2 a3 = Some (f ''RtlCaptureStackBackTrace'', [a0, a1, a2, a3])
   \<and> ImpZwOpenDirectoryObject imps a0 a1 a2 = Some (f ''ZwOpenDirectoryObject'', [a0, a1, a2])
   \<and> ImpKeInitializeAffinityEx imps a0 = Some (f ''KeInitializeAffinityEx'', [a0])
   \<and> ImpKeAddProcessorAffinityEx imps a0 a1 = Some (f ''KeAddProcessorAffinityEx'', [a0, a1])
   \<and> ImpRtlQueryModuleInformation imps a0 a1 a2 = Some (f ''RtlQueryModuleInformation'', [a0, a1, a2])
   \<and> ImpKeInitializeApc imps a0 a1 a2 a3 a4 a5 a6 a7 = Some (f ''KeInitializeApc'', [a0, a1, a2, a3, a4, a5, a6, a7])
   \<and> ImpKeInsertQueueApc imps a0 a1 a2 a3 = Some (f ''KeInsertQueueApc'', [a0, a1, a2, a3])
   \<and> ImpKeGenericCallDpc imps a0 a1 = Some (f ''KeGenericCallDpc'', [a0, a1])
   \<and> ImpKeSignalCallDpcDone imps a0 = Some (f ''KeSignalCallDpcDone'', [a0])
   \<and> ImpMmGetPhysicalMemoryRangesEx2 imps a0 a1 = Some (f ''MmGetPhysicalMemoryRangesEx2'', [a0, a1])
   \<and> ImpMmGetVirtualForPhysical imps a0 = Some (f ''MmGetVirtualForPhysical'', [a0])
   \<and> ImpObfReferenceObject imps a0 = Some (f ''ObfReferenceObject'', [a0])
   \<and> ImpExFreePoolWithTag imps a0 a1 = Some (f ''ExFreePoolWithTag'', [a0, a1])
   \<and> ImpExAllocatePool2 imps a0 a1 a2 = Some (f ''ExAllocatePool2'', [a0, a1, a2])
   \<and> ImpKeReleaseGuardedMutex imps a0 = Some (f ''KeReleaseGuardedMutex'', [a0])
   \<and> ImpKeAcquireGuardedMutex imps a0 = Some (f ''KeAcquireGuardedMutex'', [a0])
   \<and> ImpDbgPrintEx imps a0 a1 a2 a3 = Some (f ''DbgPrintEx'', [a0, a1, a2, a3])
   \<and> ImpRtlCompareUnicodeString imps a0 a1 a2 = Some (f ''RtlCompareUnicodeString'', [a0, a1, a2])
   \<and> ImpRtlFreeUnicodeString imps a0 = Some (f ''RtlFreeUnicodeString'', [a0])"
proof -
  obtain imps where "resolve_imports resolve imps0 = Some (STATUS_SUCCESS, imps)"
    and s: "\<And>i. unat i < 79 \<Longrightarrow>
      CryptDecryptImportsArrayEntry imps IMPORTS_LENGTH i = Some (f (NT_IMPORTS ! unat i))"
    using resolved_slot[of imps0 resolve f, OF assms(1)] assms(2) by blast
  then show ?thesis
    by (intro exI[of _ imps]) (simp add: wrapper_defs import_index_defs s NT_IMPORTS_def)
qed

theorem wrappers_call_their_import_witness:
  "\<exists>imps. resolve_imports (\<lambda>n. Some (of_nat (length n))) (replicate 80 0) = Some (STATUS_SUCCESS, imps)
     \<and> ImpMmIsAddressValid imps 5 = Some (16, [5])"
proof -
  have "n \<in> set NT_IMPORTS \<Longrightarrow> (of_nat (length n) :: ptr) \<noteq> NULL" for n
    by (auto simp: NT_IMPORTS_def)
  then show ?thesis
    using wrappers_call_their_import[of "replicate 80 0" "\<lambda>n. Some (of_nat (length n))" "\<lambda>n. of_nat (length n)"]
    by fastforce
qed

text \<open>A routine the kernel does not export stops the load. If one of the 79 names resolves
  to null, the resolution returns \<^verbatim>\<open>STATUS_UNSUCCESSFUL\<close>, whatever the other names give.\<close>

theorem missing_import_fails:
  assumes "n \<in> set NT_IMPORTS" "resolve n = Some NULL" "\<And>n. n \<in> set NT_IMPORTS \<Longrightarrow> resolve n \<noteq> None"
  shows "\<exists>imps'. resolve_imports resolve imps = Some (STATUS_UNSUCCESSFUL, imps')"
  using resolve_loop_failure[of resolve n NT_IMPORTS 0 imps] assms by (auto simp: resolve_imports_def)

theorem missing_import_fails_witness:
  "\<exists>imps'. resolve_imports (\<lambda>n. Some (if n = ''ZwClose'' then NULL else 1)) (replicate 80 0)
     = Some (STATUS_UNSUCCESSFUL, imps')"
  by (rule missing_import_fails[of "''ZwClose''"]) (simp_all add: NT_IMPORTS_def)

text \<open>C13: the export search returns exactly what the export directory says. On a kernel image
  whose export directory lists the names and offsets \<open>exps\<close>, resolving a name gives the image
  base plus the offset of the first export of that name, and null when there is none; no
  read faults and the search ends.\<close>

theorem ImpResolveNtImport_correct:
  assumes "FindDriverBaseNoApi ldr drv ''ntoskrnl.exe'' = Some base" "base \<noteq> NULL"
    and "export_directory m base exps" "CHR 0x00 \<notin> set Name"
  shows "ImpResolveNtImport m ldr drv Name =
    Some (case map_of exps Name of None \<Rightarrow> NULL | Some off \<Rightarrow> base + ucast off)"
  using ImpResolveNtImport_law[OF assms] by (simp add: export_address_def)

text \<open>A sparse image that exports one routine, and the loader entries that lead to it.\<close>

definition example_image :: memory where
  "example_image = map_of
    [(0x103c, 0x40), (0x103d, 0x0), (0x103e, 0x0), (0x103f, 0x0),
     (0x10c8, 0x0), (0x10c9, 0x2), (0x10ca, 0x0), (0x10cb, 0x0),
     (0x1218, 0x1), (0x1219, 0x0), (0x121a, 0x0), (0x121b, 0x0),
     (0x121c, 0x0), (0x121d, 0x3), (0x121e, 0x0), (0x121f, 0x0),
     (0x1220, 0x10), (0x1221, 0x3), (0x1222, 0x0), (0x1223, 0x0),
     (0x1224, 0x20), (0x1225, 0x3), (0x1226, 0x0), (0x1227, 0x0),
     (0x1310, 0x30), (0x1311, 0x3), (0x1312, 0x0), (0x1313, 0x0),
     (0x1320, 0x0), (0x1321, 0x0),
     (0x1300, 0x34), (0x1301, 0x12), (0x1302, 0x0), (0x1303, 0x0),
     (0x1330, 0x61), (0x1331, 0x62), (0x1332, 0x00)]"

definition example_modules :: loaded_modules where
  "example_modules = map_of
    [(1, \<lparr>ldr_Flink = 2, ldr_BaseDllName = ''ac.sys'', ldr_DllBase = 0x9000\<rparr>),
     (2, \<lparr>ldr_Flink = 3, ldr_BaseDllName = [], ldr_DllBase = 0\<rparr>),
     (3, \<lparr>ldr_Flink = 4, ldr_BaseDllName = ''ntoskrnl.exe'', ldr_DllBase = 0x1000\<rparr>),
     (4, \<lparr>ldr_Flink = 1, ldr_BaseDllName = ''last.sys'', ldr_DllBase = 0x5000\<rparr>)]"

lemma example_base: "FindDriverBaseNoApi example_modules 1 ''ntoskrnl.exe'' = Some 0x1000"
  by (simp add: FindDriverBaseNoApi_def example_modules_def FindDriverBaseNoApi_loop.simps)

lemma example_directory: "export_directory example_image 0x1000 [(''ab'', 0x1234)]"
  by (simp add: export_directory_def read_u16_unfold read_u32_unfold, simp add: example_image_def read_u32_unfold of_char_def)

theorem ImpResolveNtImport_correct_witness:
  "ImpResolveNtImport example_image example_modules 1 ''ab'' = Some 0x2234
   \<and> ImpResolveNtImport example_image example_modules 1 ''cd'' = Some NULL"
  using ImpResolveNtImport_correct[OF example_base _ example_directory, of "''ab''"]
    ImpResolveNtImport_correct[OF example_base _ example_directory, of "''cd''"]
  by simp

text \<open>The module search walks the load order from the second entry behind the driver's own
  and returns the base of the first entry of that name, or null. The last entry of the ring
  is never compared, so a module that loaded last is not found.\<close>

theorem FindDriverBaseNoApi_correct:
  assumes "ldr drv = Some e0" "ldr (ldr_Flink e0) = Some e1" "load_order ldr drv (ldr_Flink e1) es"
  shows "FindDriverBaseNoApi ldr drv Name =
    Some (case List.find (\<lambda>e. ldr_BaseDllName e = Name) (butlast es) of
            None \<Rightarrow> NULL | Some e \<Rightarrow> ldr_DllBase e)"
  using assms FindDriverBaseNoApi_loop_law[OF assms(3)] by (simp add: FindDriverBaseNoApi_def base_of_def)

theorem FindDriverBaseNoApi_correct_witness:
  "FindDriverBaseNoApi example_modules 1 ''ntoskrnl.exe'' = Some 0x1000
   \<and> FindDriverBaseNoApi example_modules 1 ''last.sys'' = Some NULL"
proof -
  let ?e = "\<lambda>p. the (example_modules p)"
  have "example_modules 1 = Some (?e 1)" "example_modules (ldr_Flink (?e 1)) = Some (?e 2)"
    "load_order example_modules 1 (ldr_Flink (?e 2)) [?e 3, ?e 4]"
    by (simp_all add: example_modules_def)
  from FindDriverBaseNoApi_correct[OF this, of "''ntoskrnl.exe''"]
    FindDriverBaseNoApi_correct[OF this, of "''last.sys''"]
  show ?thesis by (simp add: example_modules_def)
qed

end
