(* ===== verification/Driver.thy ===== *)
theory Driver
  imports Verification Imports
begin

text \<open>
  Loading and unloading, from \<^verbatim>\<open>src/driver/driver.c\<close>: the entry point with every step of the
  initialisation and every clean-up path, and the unload routine. The state adds what is left of
  \<^verbatim>\<open>DRIVER_CONFIG\<close>: the strings with the name and the path of the driver, the flag of an NMI in
  progress, and the flag that the load has finished; \<open>string_pool\<close> are the live string buffers.
  What the kernel answers to the calls of the entry point is the parameter \<open>entry_env\<close>.
\<close>

record drv_st = ver_st +
  unicode_driver_name :: "ptr \<times> u16"
  driver_path :: "ptr \<times> u16"
  ansi_driver_name :: ptr
  string_pool :: "ptr \<rightharpoonup> u8 list"
  nmi_status :: u32
  has_driver_loaded :: bool
  device_symbolic_link :: bool
  driver_imports :: DRIVER_IMPORTS

abbreviation POOL_TAG_STRINGS :: pool_tag where "POOL_TAG_STRINGS \<equiv> ''strs''"

section \<open>Getters\<close>

definition HasDriverLoaded :: "'a drv_st_scheme \<Rightarrow> bool" where
  "HasDriverLoaded s = has_driver_loaded s"

definition UnsetNmiInProgressFlag :: "'a drv_st_scheme \<Rightarrow> 'a drv_st_scheme" where
  "UnsetNmiInProgressFlag s = s\<lparr>nmi_status := nmi_status s - 1\<rparr>"

text \<open>A compare-exchange: the flag becomes 1 if it was 0, and the answer is whether it was not.\<close>

definition IsNmiInProgress :: "'a drv_st_scheme \<Rightarrow> bool \<times> 'a drv_st_scheme" where
  "IsNmiInProgress s =
     (if nmi_status s = 0 then (False, s\<lparr>nmi_status := 1\<rparr>) else (True, s))"

definition GetActiveSession :: "'a sess_st_scheme \<Rightarrow> ACTIVE_SESSION" where
  "GetActiveSession s = session s"

definition GetDriverName :: "'a drv_st_scheme \<Rightarrow> ptr" where
  "GetDriverName s = ansi_driver_name s"

definition GetDriverPath :: "'a drv_st_scheme \<Rightarrow> ptr \<times> u16" where
  "GetDriverPath s = driver_path s"

definition GetSystemModuleValidationContext :: "'a ver_st_scheme \<Rightarrow> SYS_MODULE_VAL_CONTEXT" where
  "GetSystemModuleValidationContext s = sys_val_context s"

definition GetDriverConfigSystemInformation :: "'a info_st_scheme \<Rightarrow> SYSTEM_INFORMATION" where
  "GetDriverConfigSystemInformation s = system_information s"

section \<open>Unloading\<close>

definition free_string :: "ptr \<Rightarrow> 'a drv_st_scheme \<Rightarrow> 'a drv_st_scheme option" where
  "free_string p s =
     (if p \<in> dom (string_pool s)
      then Some (emit (PoolFree p POOL_TAG_STRINGS) (s\<lparr>string_pool := (string_pool s)(p := None)\<rparr>)) else None)"

definition DrvUnloadUnregisterObCallbacks :: "'a drv_st_scheme \<Rightarrow> 'a drv_st_scheme" where
  "DrvUnloadUnregisterObCallbacks s = UnregisterProcessObCallbacks s"

definition DrvUnloadFreeConfigStrings :: "'a drv_st_scheme \<Rightarrow> 'a drv_st_scheme option" where
  "DrvUnloadFreeConfigStrings s = do {
     s \<leftarrow> (if fst (unicode_driver_name s) \<noteq> NULL then free_string (fst (unicode_driver_name s)) s else Some s);
     s \<leftarrow> (if fst (driver_path s) \<noteq> NULL then free_string (fst (driver_path s)) s else Some s);
     Some (if ansi_driver_name s \<noteq> NULL
           then (emit (Call ''RtlFreeAnsiString'' [ansi_driver_name s]) s)\<lparr>ansi_driver_name := NULL\<rparr> else s)
   }"

definition DrvUnloadDeleteSymbolicLink :: "'a drv_st_scheme \<Rightarrow> 'a drv_st_scheme" where
  "DrvUnloadDeleteSymbolicLink s =
     (if device_symbolic_link s then emit (Call ''IoDeleteSymbolicLink'' []) s else s)"

definition DrvUnloadFreeThreadList :: "'a drv_st_scheme \<Rightarrow> 'a drv_st_scheme option" where
  "DrvUnloadFreeThreadList s = CleanupThreadListOnDriverUnload s"

definition DrvUnloadFreeDriverList :: "'a drv_st_scheme \<Rightarrow> 'a drv_st_scheme option" where
  "DrvUnloadFreeDriverList s = CleanupDriverListOnDriverUnload s"

definition DrvUnloadFreeTimerObject :: "'a drv_st_scheme \<Rightarrow> 'a drv_st_scheme option" where
  "DrvUnloadFreeTimerObject s = CleanupDriverTimerObjects s"

definition DrvUnloadFreeProcessList :: "'a drv_st_scheme \<Rightarrow> 'a drv_st_scheme option" where
  "DrvUnloadFreeProcessList s = CleanupProcessListOnDriverUnload s"

definition DrvUnloadFreeModuleValidationContext :: "'a drv_st_scheme \<Rightarrow> 'a drv_st_scheme option" where
  "DrvUnloadFreeModuleValidationContext s = CleanupValidationContextOnUnload s"

definition IoDeleteDevice :: "'a kst_scheme \<Rightarrow> 'a kst_scheme" where
  "IoDeleteDevice s = emit (Call ''IoDeleteDevice'' []) s"

text \<open>
  The first loop spins until no APC is in flight; as long as one is, the routine does not
  return.
\<close>

definition DriverUnload :: "'a drv_st_scheme \<Rightarrow> 'a drv_st_scheme option" where
  "DriverUnload s = do {
     let s = s\<lparr>unload_in_progress := True\<rparr>;
     (all_freed, s) \<leftarrow> DrvUnloadFreeAllApcContextStructures s;
     (if \<not> all_freed then None
      else do {
        s \<leftarrow> DrvUnloadFreeTimerObject s;
        s \<leftarrow> DrvUnloadFreeModuleValidationContext s;
        let s = DrvUnloadUnregisterObCallbacks s;
        let s = UnregisterThreadCreateNotifyRoutine s;
        let s = UnregisterProcessCreateNotifyRoutine s;
        let s = UnregisterImageLoadNotifyRoutine s;
        s \<leftarrow> DrvUnloadFreeThreadList s;
        s \<leftarrow> DrvUnloadFreeProcessList s;
        s \<leftarrow> DrvUnloadFreeDriverList s;
        s \<leftarrow> DrvUnloadFreeConfigStrings s;
        Some (IoDeleteDevice (DrvUnloadDeleteSymbolicLink s))
      })
   }"

section \<open>Loading\<close>

record entry_env =
  en_memory :: memory
  en_modules :: loaded_modules
  en_section :: ptr
  en_create_device :: NTSTATUS
  en_csq :: NTSTATUS
  en_registry :: "(string \<times> u8 list \<times> u32) list"
  en_registry_status :: NTSTATUS
  en_ansi :: "NTSTATUS \<times> ptr"
  en_machine :: machine
  en_timer_work_item :: ptr
  en_symbolic_link :: NTSTATUS
  en_set_image :: NTSTATUS
  en_set_thread :: NTSTATUS
  en_set_process :: NTSTATUS
  en_driver_work_item :: ptr
  en_query :: module_query
  en_thread_lookaside :: NTSTATUS
  en_process_lookaside :: NTSTATUS
  en_hash :: module_hash
  en_alloc :: allocator

definition DrvLoadEnableNotifyRoutines :: "entry_env \<Rightarrow> 'a drv_st_scheme \<Rightarrow> NTSTATUS \<times> 'a drv_st_scheme" where
  "DrvLoadEnableNotifyRoutines e s =
     (if \<not> NT_SUCCESS (en_set_image e) then (en_set_image e, s)
      else let s = emit (Call ''PsSetLoadImageNotifyRoutine'' []) s in
      if \<not> NT_SUCCESS (en_set_thread e)
      then (en_set_thread e, emit (Call ''PsRemoveLoadImageNotifyRoutine'' []) s)
      else let s = emit (Call ''PsSetCreateThreadNotifyRoutine'' []) s in
      if \<not> NT_SUCCESS (en_set_process e)
      then (en_set_process e, emit (Call ''PsRemoveLoadImageNotifyRoutine'' [])
              (emit (Call ''PsRemoveCreateThreadNotifyRoutine'' []) s))
      else (en_set_process e, emit (Call ''PsSetCreateProcessNotifyRoutine'' [0]) s))"

definition unregister_all :: "'a drv_st_scheme \<Rightarrow> 'a drv_st_scheme" where
  "unregister_all s = UnregisterImageLoadNotifyRoutine (UnregisterThreadCreateNotifyRoutine
     (UnregisterProcessCreateNotifyRoutine s))"

definition DrvLoadSetupDriverLists :: "entry_env \<Rightarrow> 'a drv_st_scheme \<Rightarrow> (NTSTATUS \<times> 'a drv_st_scheme) option" where
  "DrvLoadSetupDriverLists e s = do {
     (status, s) \<leftarrow> InitialiseDriverList (en_driver_work_item e) (en_query e) (en_alloc e) (en_hash e) s;
     (if \<not> NT_SUCCESS status then Some (status, unregister_all s)
      else do {
        (status, s) \<leftarrow> InitialiseThreadList (en_thread_lookaside e) s;
        (if \<not> NT_SUCCESS status then do {
           s \<leftarrow> CleanupDriverListOnDriverUnload (unregister_all s);
           Some (status, s)
         }
         else do {
           (status, s) \<leftarrow> InitialiseProcessList (en_process_lookaside e) s;
           (if \<not> NT_SUCCESS status then do {
              s \<leftarrow> CleanupDriverListOnDriverUnload (unregister_all s);
              s \<leftarrow> CleanupThreadListOnDriverUnload s;
              Some (status, s)
            }
            else Some (status, s))
         })
      })
   }"

text \<open>The zeroed pool block with the first bytes copied in; \<open>None\<close> when they do not fit.\<close>

definition filled_block :: "nat \<Rightarrow> u8 list \<Rightarrow> u8 list option" where
  "filled_block n bs = (if length bs \<le> n then Some (bs @ replicate (n - length bs) 0) else None)"

text \<open>\<^verbatim>\<open>L".sys"\<close> with its terminator, in UTF-16.\<close>

definition sys_extension :: "u8 list" where
  "sys_extension = [0x2E, 0, 0x73, 0, 0x79, 0, 0x73, 0, 0, 0]"

text \<open>
  The extension is written over the terminator of the value, two bytes before its end; with a
  value of less than two bytes the write lies before the buffer.
\<close>

definition RegistryPathQueryCallbackRoutine ::
  "allocator \<Rightarrow> string \<Rightarrow> u8 list \<Rightarrow> u32 \<Rightarrow> 'a drv_st_scheme \<Rightarrow> (NTSTATUS \<times> 'a drv_st_scheme) option" where
  "RegistryPathQueryCallbackRoutine alloc ValueName ValueData ValueLength s =
     (if length ValueData < unat ValueLength then None
      else let data = take (unat ValueLength) ValueData in
      if ValueName = ''ImagePath'' then
        (case ExAllocatePool2 alloc POOL_TAG_STRINGS s of
           (None, s) \<Rightarrow> Some (STATUS_MEMORY_NOT_ALLOCATED, s)
         | (Some p, s) \<Rightarrow>
             Some (STATUS_SUCCESS, s\<lparr>driver_path := (p, ucast ValueLength), string_pool := (string_pool s)(p \<mapsto> data)\<rparr>))
      else if ValueName = ''DisplayName'' then
        (case ExAllocatePool2 alloc POOL_TAG_STRINGS s of
           (None, s) \<Rightarrow> Some (STATUS_MEMORY_NOT_ALLOCATED, s)
         | (Some p, s) \<Rightarrow>
             (if unat ValueLength < 2 then None
              else do {
                content \<leftarrow> filled_block (unat (ValueLength + 20)) (take (unat ValueLength - 2) data @ sys_extension);
                Some (STATUS_SUCCESS, s\<lparr>unicode_driver_name := (p, ucast (ValueLength + 20)),
                        string_pool := (string_pool s)(p \<mapsto> content)\<rparr>)
              }))
      else Some (STATUS_SUCCESS, s))"

text \<open>
  \<^verbatim>\<open>RtlxQueryRegistryValues\<close> hands the values it finds to the callback and stops with the status
  of the first callback that fails.
\<close>

primrec query_values ::
  "allocator \<Rightarrow> NTSTATUS \<Rightarrow> (string \<times> u8 list \<times> u32) list \<Rightarrow> 'a drv_st_scheme \<Rightarrow> (NTSTATUS \<times> 'a drv_st_scheme) option" where
  "query_values alloc r [] s = Some (r, s)"
| "query_values alloc r (v # vs) s = (case v of (name, data, len) \<Rightarrow> do {
     (status, s) \<leftarrow> RegistryPathQueryCallbackRoutine alloc name data len s;
     (if \<not> NT_SUCCESS status then Some (status, s) else query_values alloc r vs s)
   })"

definition DrvLoadRetrieveDriverNameFromRegistry ::
  "entry_env \<Rightarrow> 'a drv_st_scheme \<Rightarrow> (NTSTATUS \<times> 'a drv_st_scheme) option" where
  "DrvLoadRetrieveDriverNameFromRegistry e s = do {
     (status, s) \<leftarrow> query_values (en_alloc e) (en_registry_status e) (en_registry e) s;
     (if \<not> NT_SUCCESS status then Some (status, s)
      else Some (fst (en_ansi e), if NT_SUCCESS (fst (en_ansi e)) then s\<lparr>ansi_driver_name := snd (en_ansi e)\<rparr> else s))
   }"

definition DrvLoadInitialiseDriverConfig :: "entry_env \<Rightarrow> 'a drv_st_scheme \<Rightarrow> (NTSTATUS \<times> 'a drv_st_scheme) option" where
  "DrvLoadInitialiseDriverConfig e s = do {
     let s = emit (LockInit ConfigLock) s;
     let (_, s) = IrpQueueInitialise (en_csq e) s;
     let s = SessionInitialiseCallbackConfiguration s;
     let s = s\<lparr>unload_in_progress := False\<rparr>;
     let s = set_info (si_virtualised_environment_update (\<lambda>_. False)) s;
     let s = set_val (sv_active_update (\<lambda>_. False)) s;
     (status, s) \<leftarrow> DrvLoadRetrieveDriverNameFromRegistry e s;
     (if \<not> NT_SUCCESS status then Some (status, s)
      else do {
        (status, s) \<leftarrow> DrvLoadGatherSystemEnvironmentSettings (en_machine e) (en_alloc e) s;
        (if \<not> NT_SUCCESS status then Some (status, s)
         else let (status, s) = InitialiseTimerObject (en_timer_work_item e) s in
         if \<not> NT_SUCCESS status then Some (status, s)
         else Some (IrpQueueInitialise (en_csq e) s))
      })
   }"

text \<open>The clean-up of the three last failure paths.\<close>

definition entry_cleanup :: "bool \<Rightarrow> bool \<Rightarrow> 'a drv_st_scheme \<Rightarrow> 'a drv_st_scheme option" where
  "entry_cleanup timer link s = do {
     s \<leftarrow> DrvUnloadFreeConfigStrings s;
     s \<leftarrow> (if timer then DrvUnloadFreeTimerObject s else Some s);
     Some (IoDeleteDevice (if link then DrvUnloadDeleteSymbolicLink s else s))
   }"

definition DriverEntry :: "entry_env \<Rightarrow> 'a drv_st_scheme \<Rightarrow> (NTSTATUS \<times> 'a drv_st_scheme) option" where
  "DriverEntry e s = do {
     (status, imports) \<leftarrow> ImpResolveDynamicImports (en_memory e) (en_modules e) (en_section e) (driver_imports s);
     let s = s\<lparr>driver_imports := imports\<rparr>;
     (if \<not> NT_SUCCESS status then Some (STATUS_FAILED_DRIVER_ENTRY, s)
      else if \<not> NT_SUCCESS (en_create_device e) then Some (en_create_device e, s)
      else do {
        let s = (emit (Call ''IoCreateDevice'' []) s)\<lparr>device_symbolic_link := True\<rparr>;
        (status, s) \<leftarrow> DrvLoadInitialiseDriverConfig e s;
        (if \<not> NT_SUCCESS status then map_option (Pair status) (entry_cleanup False False s)
         else do {
           let s = SessionInitialiseStructure s;
           (if \<not> NT_SUCCESS (en_symbolic_link e)
            then map_option (Pair (en_symbolic_link e)) (entry_cleanup True False s)
            else do {
              let s = emit (Call ''IoCreateSymbolicLink'' []) s;
              let (status, s) = DrvLoadEnableNotifyRoutines e s;
              (if \<not> NT_SUCCESS status then map_option (Pair status) (entry_cleanup True True s)
               else do {
                 (status, s) \<leftarrow> DrvLoadSetupDriverLists e s;
                 (if \<not> NT_SUCCESS status then map_option (Pair status) (entry_cleanup True True s)
                  else Some (STATUS_SUCCESS, s\<lparr>has_driver_loaded := True\<rparr>))
               })
            })
         })
      })
   }"

section \<open>Effect of the unload steps\<close>

lemma drv_emit [simp]:
  "unicode_driver_name (emit e s) = unicode_driver_name s" "driver_path (emit e s) = driver_path s"
  "ansi_driver_name (emit e s) = ansi_driver_name s" "string_pool (emit e s) = string_pool s"
  "device_symbolic_link (emit e s) = device_symbolic_link s"
  "timer_state (emit e s) = timer_state s" "timer_work_item (emit e s) = timer_work_item s"
  by (simp_all add: emit_def)

lemma lists_inv_cong:
  "slist s' = slist s \<Longrightarrow> threads s' = threads s \<Longrightarrow> processes s' = processes s \<Longrightarrow> drivers s' = drivers s \<Longrightarrow>
   lists_inv s' ts ps ds = lists_inv s ts ps ds"
  by (simp add: lists_inv_def)

lemma rest_drv_fields:
  assumes "rest s' = rest (s :: 'a drv_st_scheme)"
  shows "unicode_driver_name s' = unicode_driver_name s" "driver_path s' = driver_path s"
    "ansi_driver_name s' = ansi_driver_name s" "string_pool s' = string_pool s"
    "device_symbolic_link s' = device_symbolic_link s" "sys_val_context s' = sys_val_context s"
    "module_arrays s' = module_arrays s" "dispatcher_arrays s' = dispatcher_arrays s"
    "unload_in_progress s' = unload_in_progress s"
  using assms[THEN arg_cong[where f = unicode_driver_name]] assms[THEN arg_cong[where f = driver_path]]
    assms[THEN arg_cong[where f = ansi_driver_name]] assms[THEN arg_cong[where f = string_pool]]
    assms[THEN arg_cong[where f = device_symbolic_link]] assms[THEN arg_cong[where f = sys_val_context]]
    assms[THEN arg_cong[where f = module_arrays]] assms[THEN arg_cong[where f = dispatcher_arrays]]
    assms[THEN arg_cong[where f = unload_in_progress]]
  by (simp_all add: rest_def)

text \<open>
  No worker is counted in, and the arrays of the context are live or were never allocated.
\<close>

definition validation_idle :: "'a ver_st_scheme \<Rightarrow> bool" where
  "validation_idle s \<longleftrightarrow> sv_active_thread_count (sys_val_context s) = 0
     \<and> length (sv_work_items (sys_val_context s)) = VERIFICATION_THREAD_COUNT
     \<and> (sv_module_info (sys_val_context s) \<noteq> NULL \<longrightarrow> sv_module_info (sys_val_context s) \<in> dom (module_arrays s))
     \<and> (sv_dispatcher_info (sys_val_context s) \<noteq> NULL
          \<longrightarrow> sv_dispatcher_info (sys_val_context s) \<in> dom (dispatcher_arrays s))"

definition freed_if :: "ptr \<Rightarrow> pool_tag \<Rightarrow> kevent list" where
  "freed_if p tag = (if p = NULL then [] else [PoolFree p tag])"

definition work_items_freed :: "ptr list \<Rightarrow> kevent list" where
  "work_items_freed ws = map WorkItemFreed (filter (\<lambda>p. p \<noteq> NULL) ws)"

lemma FreeWorkItems_eq:
  assumes "length (sv_work_items (sys_val_context s)) = VERIFICATION_THREAD_COUNT"
  shows "FreeWorkItems s = s\<lparr>k_trace := k_trace s @ work_items_freed (sv_work_items (sys_val_context s)),
     sys_val_context := (sys_val_context s)\<lparr>sv_work_items := replicate VERIFICATION_THREAD_COUNT NULL\<rparr>\<rparr>"
proof -
  obtain a b c d where ws: "sv_work_items (sys_val_context s) = [a, b, c, d]"
    using assms by (auto simp: VERIFICATION_THREAD_COUNT_def length_Suc_conv eval_nat_numeral)
  have idx: "[0..<VERIFICATION_THREAD_COUNT] = [0, 1, 2, 3]"
    by (simp add: VERIFICATION_THREAD_COUNT_def upt_rec)
  have rep: "replicate VERIFICATION_THREAD_COUNT NULL = [0, 0, 0, 0]"
    by (simp add: VERIFICATION_THREAD_COUNT_def eval_nat_numeral)
  show ?thesis
    unfolding FreeWorkItems_def idx ws work_items_freed_def rep
    by (cases "a = NULL"; cases "b = NULL"; cases "c = NULL"; cases "d = NULL")
      (simp_all add: free_work_item_def set_val_def emit_def Let_def ws)
qed

lemma FreeModuleVerificationItems_eq:
  assumes "sys_val_context s = c" "sv_active_thread_count c = 0"
    and "sv_module_info c \<noteq> NULL \<longrightarrow> sv_module_info c \<in> dom (module_arrays s)"
    and "sv_dispatcher_info c \<noteq> NULL \<longrightarrow> sv_dispatcher_info c \<in> dom (dispatcher_arrays s)"
  shows "FreeModuleVerificationItems s = Some (s\<lparr>
       k_trace := k_trace s @ freed_if (sv_module_info c) SYSTEM_MODULES_POOL @ freed_if (sv_dispatcher_info c) POOL_TAG_INTEGRITY,
       sys_val_context := c\<lparr>sv_module_info := NULL, sv_dispatcher_info := NULL\<rparr>,
       module_arrays := (if sv_module_info c = NULL then module_arrays s else (module_arrays s)(sv_module_info c := None)),
       dispatcher_arrays := (if sv_dispatcher_info c = NULL then dispatcher_arrays s
                             else (dispatcher_arrays s)(sv_dispatcher_info c := None))\<rparr>)"
proof -
  have m: "c\<lparr>sv_module_info := NULL\<rparr> = c" if "sv_module_info c = NULL" using that by (cases c) simp
  have d: "c\<lparr>sv_dispatcher_info := NULL\<rparr> = c" if "sv_dispatcher_info c = NULL" using that by (cases c) simp
  have md: "c\<lparr>sv_module_info := NULL, sv_dispatcher_info := NULL\<rparr> = c\<lparr>sv_module_info := NULL\<rparr>"
    if "sv_dispatcher_info c = NULL" using that by (cases c) simp
  show ?thesis
  proof (cases "sv_module_info c = NULL")
    case True
    then show ?thesis using assms m d
      by (cases "sv_dispatcher_info c = NULL")
        (simp_all add: FreeModuleVerificationItems_def free_dispatcher_array_def freed_if_def emit_def set_val_def
          Let_def domIff)
  next
    case False
    then show ?thesis using assms md
      by (cases "sv_dispatcher_info c = NULL")
        (simp_all add: FreeModuleVerificationItems_def free_module_array_def free_dispatcher_array_def freed_if_def
          emit_def set_val_def Let_def domIff)
  qed
qed

lemma cleanup_validation_law:
  assumes "validation_idle s"
  defines "c \<equiv> sys_val_context s"
  shows "CleanupValidationContextOnUnload s = Some (s\<lparr>
       k_trace := k_trace s @ work_items_freed (sv_work_items c) @ freed_if (sv_module_info c) SYSTEM_MODULES_POOL
          @ freed_if (sv_dispatcher_info c) POOL_TAG_INTEGRITY,
       sys_val_context := c\<lparr>sv_active := False, sv_complete := True, sv_module_info := NULL,
          sv_dispatcher_info := NULL, sv_work_items := replicate VERIFICATION_THREAD_COUNT NULL\<rparr>,
       module_arrays := (if sv_module_info c = NULL then module_arrays s else (module_arrays s)(sv_module_info c := None)),
       dispatcher_arrays := (if sv_dispatcher_info c = NULL then dispatcher_arrays s
                             else (dispatcher_arrays s)(sv_dispatcher_info c := None))\<rparr>)"
proof -
  have "length (sv_work_items c) = VERIFICATION_THREAD_COUNT" "sv_active_thread_count c = 0"
    "sv_module_info c \<noteq> NULL \<longrightarrow> sv_module_info c \<in> dom (module_arrays s)"
    "sv_dispatcher_info c \<noteq> NULL \<longrightarrow> sv_dispatcher_info c \<in> dom (dispatcher_arrays s)"
    using assms(1) by (auto simp: validation_idle_def c_def)
  then show ?thesis
    unfolding CleanupValidationContextOnUnload_def
    by (subst FreeWorkItems_eq, simp add: set_val_def c_def, subst FreeModuleVerificationItems_eq[OF refl])
      (simp_all add: set_val_def c_def)
qed
text \<open>The config strings point to live buffers, two different ones, or are null.\<close>

definition strings_live :: "'a drv_st_scheme \<Rightarrow> bool" where
  "strings_live s \<longleftrightarrow> NULL \<notin> dom (string_pool s)
     \<and> {fst (unicode_driver_name s), fst (driver_path s)} - {NULL} \<subseteq> dom (string_pool s)
     \<and> (fst (unicode_driver_name s) = fst (driver_path s) \<longrightarrow> fst (driver_path s) = NULL)"

definition config_strings_freed :: "'a drv_st_scheme \<Rightarrow> kevent list" where
  "config_strings_freed s =
     freed_if (fst (unicode_driver_name s)) POOL_TAG_STRINGS @ freed_if (fst (driver_path s)) POOL_TAG_STRINGS
     @ (if ansi_driver_name s = NULL then [] else [Call ''RtlFreeAnsiString'' [ansi_driver_name s]])"

lemma free_string_if:
  assumes "NULL \<notin> dom (string_pool s)" "p \<noteq> NULL \<longrightarrow> p \<in> dom (string_pool s)"
  shows "(if p \<noteq> NULL then free_string p s else Some s)
     = Some (s\<lparr>k_trace := k_trace s @ freed_if p POOL_TAG_STRINGS, string_pool := string_pool s |` (- {p})\<rparr>)"
proof (cases "p = NULL")
  case True
  moreover have "string_pool s |` (- {NULL}) = string_pool s"
    using assms(1) by (simp add: restrict_map_def fun_eq_iff domIff)
  ultimately show ?thesis by (simp add: freed_if_def)
next
  case False
  moreover have "(string_pool s)(p := None) = string_pool s |` (- {p})"
    by (simp add: restrict_map_def fun_eq_iff)
  ultimately show ?thesis using assms(2) by (simp add: freed_if_def free_string_def emit_def)
qed

lemma free_config_strings_law:
  assumes "strings_live s"
  shows "DrvUnloadFreeConfigStrings s = Some (s\<lparr>k_trace := k_trace s @ config_strings_freed s,
      string_pool := string_pool s |` (- {fst (unicode_driver_name s), fst (driver_path s)}),
      ansi_driver_name := NULL\<rparr>)"
proof -
  let ?u = "fst (unicode_driver_name s)" and ?d = "fst (driver_path s)"
  define t where "t = s\<lparr>k_trace := k_trace s @ freed_if ?u POOL_TAG_STRINGS, string_pool := string_pool s |` (- {?u})\<rparr>"
  have u: "(if ?u \<noteq> NULL then free_string ?u s else Some s) = Some t"
    unfolding t_def by (rule free_string_if) (use assms in \<open>auto simp: strings_live_def\<close>)
  have d: "(if ?d \<noteq> NULL then free_string ?d t else Some t)
      = Some (t\<lparr>k_trace := k_trace t @ freed_if ?d POOL_TAG_STRINGS, string_pool := string_pool t |` (- {?d})\<rparr>)"
    by (rule free_string_if) (use assms in \<open>auto simp: strings_live_def t_def\<close>)
  have r: "string_pool s |` (- {?u} \<inter> - {?d}) = string_pool s |` (- {?u, ?d})" by (rule arg_cong) auto
  have same: "v\<lparr>ansi_driver_name := NULL\<rparr> = v" if "ansi_driver_name v = NULL" for v :: "'a drv_st_scheme"
    using that by (cases v) simp
  have t: "driver_path t = driver_path s" "ansi_driver_name t = ansi_driver_name s" by (simp_all add: t_def)
  have "DrvUnloadFreeConfigStrings s = Some (let v = t\<lparr>k_trace := k_trace t @ freed_if ?d POOL_TAG_STRINGS,
      string_pool := string_pool t |` (- {?d})\<rparr> in
      if ansi_driver_name v \<noteq> NULL
      then (emit (Call ''RtlFreeAnsiString'' [ansi_driver_name v]) v)\<lparr>ansi_driver_name := NULL\<rparr> else v)"
    unfolding DrvUnloadFreeConfigStrings_def u by (simp only: Option.bind.bind_lunit t d Let_def)
  then show ?thesis
    using same by (cases "ansi_driver_name s = NULL")
      (simp_all add: config_strings_freed_def t_def emit_def r Let_def)
qed
definition ob_callbacks_removed :: "'a sess_st_scheme \<Rightarrow> kevent list" where
  "ob_callbacks_removed s = Acquire ConfigLock #
     (if registration_handle (session s) = NULL then []
      else [Call ''ObUnRegisterCallbacks'' [registration_handle (session s)]]) @ [Release ConfigLock]"

lemma unregister_ob_callbacks_law:
  "UnregisterProcessObCallbacks s = s\<lparr>k_trace := k_trace s @ ob_callbacks_removed s,
     session := (session s)\<lparr>registration_handle := NULL\<rparr>\<rparr>"
proof -
  have "(session s)\<lparr>registration_handle := NULL\<rparr> = session s" if "registration_handle (session s) = NULL"
    using that by (cases "session s") simp
  then show ?thesis
    by (simp add: UnregisterProcessObCallbacks_def ob_callbacks_removed_def emit_def Let_def)
qed

text \<open>What the driver gives back to the kernel while it unloads, in the order of the calls.\<close>

definition before_lists :: "'a drv_st_scheme \<Rightarrow> kevent list" where
  "before_lists s = [Acquire ConfigLock, Release ConfigLock, Call ''KeFlushQueuedDpcs'' [], TimerCancelled 10000,
      WorkItemFreed (timer_work_item s)]
     @ work_items_freed (sv_work_items (sys_val_context s))
     @ freed_if (sv_module_info (sys_val_context s)) SYSTEM_MODULES_POOL
     @ freed_if (sv_dispatcher_info (sys_val_context s)) POOL_TAG_INTEGRITY
     @ ob_callbacks_removed s
     @ [Call ''PsRemoveCreateThreadNotifyRoutine'' [], Call ''PsSetCreateProcessNotifyRoutine'' [1],
        Call ''PsRemoveLoadImageNotifyRoutine'' []]"

definition unload_calls :: "'a drv_st_scheme \<Rightarrow> ptr list \<Rightarrow> ptr list \<Rightarrow> ptr list \<Rightarrow> kevent list" where
  "unload_calls s ts ps ds = before_lists s
     @ cleanup_events ThreadListLock thread_derefs (LookasideFree ThreadLookaside) s ts @ [LookasideDelete ThreadLookaside]
     @ cleanup_events ProcessListLock process_derefs (LookasideFree ThreadLookaside) s ps @ [LookasideDelete ProcessLookaside]
     @ cleanup_events DriverListLock (\<lambda>_ _. []) (\<lambda>x. PoolFree x POOL_TAG_THREAD_LIST) s ds
     @ config_strings_freed s
     @ (if device_symbolic_link s then [Call ''IoDeleteSymbolicLink'' []] else []) @ [Call ''IoDeleteDevice'' []]"

lemma cleanup_events_cong: "derefs s = derefs s' \<Longrightarrow> cleanup_events L derefs f s xs = cleanup_events L derefs f s' xs"
  by (simp add: cleanup_events_def)

lemma derefs_cong:
  "threads s = threads s' \<Longrightarrow> thread_derefs s = thread_derefs s'"
  "processes s = processes s' \<Longrightarrow> process_derefs s = process_derefs s'"
  by (simp_all add: thread_derefs_def process_derefs_def fun_eq_iff)

text \<open>A driver with nothing in flight: no APC registered, no timer work item pending, no worker running.\<close>

definition unloadable :: "'a drv_st_scheme \<Rightarrow> bool" where
  "unloadable s \<longleftrightarrow> length (apc_contexts s) = MAXIMUM_APC_CONTEXTS \<and> set (apc_contexts s) \<subseteq> {NULL}
     \<and> \<not> timer_state s \<and> validation_idle s \<and> strings_live s"

lemma empty_slot: "unloadable s \<Longrightarrow> i < MAXIMUM_APC_CONTEXTS \<Longrightarrow> apc_contexts s ! i = NULL"
  by (metis nth_mem singletonD subsetD unloadable_def)

definition unloaded_before_lists :: "'a drv_st_scheme \<Rightarrow> 'a drv_st_scheme" where
  "unloaded_before_lists s = (let c = sys_val_context s in s\<lparr>unload_in_progress := True,
       k_trace := k_trace s @ before_lists s,
       sys_val_context := c\<lparr>sv_active := False, sv_complete := True, sv_module_info := NULL,
          sv_dispatcher_info := NULL, sv_work_items := replicate VERIFICATION_THREAD_COUNT NULL\<rparr>,
       module_arrays := (if sv_module_info c = NULL then module_arrays s else (module_arrays s)(sv_module_info c := None)),
       dispatcher_arrays := (if sv_dispatcher_info c = NULL then dispatcher_arrays s
                             else (dispatcher_arrays s)(sv_dispatcher_info c := None)),
       session := (session s)\<lparr>registration_handle := NULL\<rparr>,
       thread_active := False, process_active := False, driver_active := False\<rparr>)"

lemma DriverUnload_lists:
  assumes "unloadable s"
  shows "DriverUnload s = do {
     s \<leftarrow> CleanupThreadListOnDriverUnload (unloaded_before_lists s);
     s \<leftarrow> CleanupProcessListOnDriverUnload s;
     s \<leftarrow> CleanupDriverListOnDriverUnload s;
     s \<leftarrow> DrvUnloadFreeConfigStrings s;
     Some (IoDeleteDevice (DrvUnloadDeleteSymbolicLink s))
   }"
proof -
  define u where "u = s\<lparr>unload_in_progress := True\<rparr>"
  let ?locked = "emit (Release ConfigLock) (emit (Acquire ConfigLock) u)"
  have "unload_loop [0..<MAXIMUM_APC_CONTEXTS] (emit (Acquire ConfigLock) u) = Some (True, emit (Acquire ConfigLock) u)"
    by (rule unload_loop_none) (simp add: u_def empty_slot[OF assms] assms[unfolded unloadable_def])
  then have apc: "DrvUnloadFreeAllApcContextStructures u = Some (True, ?locked)"
    by (simp add: DrvUnloadFreeAllApcContextStructures_def apc_emit)
  define v where "v = emit (WorkItemFreed (timer_work_item s)) (emit (TimerCancelled 10000)
      (emit (Call ''KeFlushQueuedDpcs'' []) ?locked))"
  have timer: "DrvUnloadFreeTimerObject ?locked = Some v"
    using assms by (simp add: DrvUnloadFreeTimerObject_def CleanupDriverTimerObjects_def unloadable_def u_def v_def)
  have idle: "validation_idle v"
    using assms by (simp add: unloadable_def validation_idle_def v_def u_def emit_def)
  from cleanup_validation_law[OF idle] obtain w where w: "CleanupValidationContextOnUnload v = Some w"
    and w_def: "w = v\<lparr>k_trace := k_trace v @ work_items_freed (sv_work_items (sys_val_context s))
          @ freed_if (sv_module_info (sys_val_context s)) SYSTEM_MODULES_POOL
          @ freed_if (sv_dispatcher_info (sys_val_context s)) POOL_TAG_INTEGRITY,
       sys_val_context := sys_val_context (unloaded_before_lists s), module_arrays := module_arrays (unloaded_before_lists s),
       dispatcher_arrays := dispatcher_arrays (unloaded_before_lists s)\<rparr>"
    by (simp add: unloaded_before_lists_def v_def u_def emit_def Let_def)
  have last: "UnregisterImageLoadNotifyRoutine (UnregisterProcessCreateNotifyRoutine
      (UnregisterThreadCreateNotifyRoutine (UnregisterProcessObCallbacks w))) = unloaded_before_lists s"
    unfolding unregister_ob_callbacks_law
    by (simp add: unloaded_before_lists_def UnregisterThreadCreateNotifyRoutine_def UnregisterProcessCreateNotifyRoutine_def
        UnregisterImageLoadNotifyRoutine_def emit_def w_def v_def u_def before_lists_def ob_callbacks_removed_def Let_def)
  show ?thesis
    unfolding DriverUnload_def Let_def u_def[symmetric] apc DrvUnloadFreeModuleValidationContext_def
      DrvUnloadUnregisterObCallbacks_def DrvUnloadFreeThreadList_def DrvUnloadFreeProcessList_def DrvUnloadFreeDriverList_def
    by (simp add: timer w last)
qed
lemma unloaded_before_lists_fields:
  "slist (unloaded_before_lists s) = slist s" "threads (unloaded_before_lists s) = threads s"
  "processes (unloaded_before_lists s) = processes s" "drivers (unloaded_before_lists s) = drivers s"
  "k_trace (unloaded_before_lists s) = k_trace s @ before_lists s"
  "string_pool (unloaded_before_lists s) = string_pool s"
  "unicode_driver_name (unloaded_before_lists s) = unicode_driver_name s"
  "driver_path (unloaded_before_lists s) = driver_path s"
  "ansi_driver_name (unloaded_before_lists s) = ansi_driver_name s"
  "device_symbolic_link (unloaded_before_lists s) = device_symbolic_link s"
  by (simp_all add: unloaded_before_lists_def Let_def)

lemma rest_trace: "rest (s\<lparr>k_trace := t\<rparr>) = rest s"
  by (simp add: rest_def)

lemma rest_strings:
  "rest (s\<lparr>k_trace := t, string_pool := m, ansi_driver_name := n\<rparr>) = (rest s)\<lparr>string_pool := m, ansi_driver_name := n\<rparr>"
  "rest (s\<lparr>string_pool := m, ansi_driver_name := n\<rparr>) = (rest s)\<lparr>string_pool := m, ansi_driver_name := n\<rparr>"
  by (simp_all add: rest_def)

lemma lists_inv_delete_device:
  "lists_inv (IoDeleteDevice (DrvUnloadDeleteSymbolicLink s)) ts ps ds = lists_inv s ts ps ds"
  "slist (IoDeleteDevice (DrvUnloadDeleteSymbolicLink s)) = slist s"
  "rest (IoDeleteDevice (DrvUnloadDeleteSymbolicLink s)) = rest s"
  "k_trace (IoDeleteDevice (DrvUnloadDeleteSymbolicLink s)) = k_trace s
     @ (if device_symbolic_link s then [Call ''IoDeleteSymbolicLink'' []] else []) @ [Call ''IoDeleteDevice'' []]"
  by (simp_all add: lists_inv_def IoDeleteDevice_def DrvUnloadDeleteSymbolicLink_def)

lemma DriverUnload_law:
  assumes inv: "lists_inv s ts ps ds" and quiet: "unloadable s"
  shows "\<exists>s'. DriverUnload s = Some s' \<and> lists_inv s' [] [] [] \<and> (\<forall>x \<in> set (ts @ ps @ ds). slist s' x = None)
     \<and> rest s' = rest ((unloaded_before_lists s)\<lparr>
          string_pool := string_pool s |` (- {fst (unicode_driver_name s), fst (driver_path s)}), ansi_driver_name := NULL\<rparr>)
     \<and> k_trace s' = k_trace s @ unload_calls s ts ps ds"
proof -
  let ?u = "unloaded_before_lists s"
  note u = unloaded_before_lists_fields[of s]
  have "lists_inv ?u ts ps ds" using inv lists_inv_cong[OF u(1-4)] by simp
  from cleanup_thread_law[OF this] obtain a where a: "CleanupThreadListOnDriverUnload ?u = Some a"
    "lists_inv a [] ps ds" "\<forall>x \<in> set ts. slist a x = None" "rest a = rest ?u"
    "k_trace a = k_trace ?u @ cleanup_events ThreadListLock thread_derefs (LookasideFree ThreadLookaside) ?u ts
        @ [LookasideDelete ThreadLookaside]" by blast
  from cleanup_process_law[OF a(2)] obtain b where b: "CleanupProcessListOnDriverUnload a = Some b"
    "lists_inv b [] [] ds" "\<forall>x \<in> set ps. slist b x = None" "\<forall>x. x \<notin> set (ProcessHead # ps) \<longrightarrow> slist b x = slist a x"
    "rest b = rest a"
    "k_trace b = k_trace a @ cleanup_events ProcessListLock process_derefs (LookasideFree ThreadLookaside) a ps
        @ [LookasideDelete ProcessLookaside]" by blast
  from cleanup_driver_law[OF b(2)] obtain c where c: "CleanupDriverListOnDriverUnload b = Some c"
    "lists_inv c [] [] []" "\<forall>x \<in> set ds. slist c x = None" "\<forall>x. x \<notin> set (DriverHead # ds) \<longrightarrow> slist c x = slist b x"
    "rest c = rest b"
    "k_trace c = k_trace b @ cleanup_events DriverListLock (\<lambda>_ _. []) (\<lambda>x. PoolFree x POOL_TAG_THREAD_LIST) b ds" by blast
  have rc: "rest c = rest ?u" using a(4) b(5) c(5) by simp
  note f = rest_drv_fields[OF rc]
  have "strings_live c" using quiet by (simp add: strings_live_def unloadable_def f u)
  note str = free_config_strings_law[OF this]
  define d where "d = c\<lparr>k_trace := k_trace c @ config_strings_freed c,
      string_pool := string_pool c |` (- {fst (unicode_driver_name c), fst (driver_path c)}), ansi_driver_name := NULL\<rparr>"
  have run: "DriverUnload s = Some (IoDeleteDevice (DrvUnloadDeleteSymbolicLink d))"
    using DriverUnload_lists[OF quiet] a(1) b(1) c(1) str by (simp add: d_def)
  have "distinct (ThreadHead # ProcessHead # DriverHead # ts @ ps @ ds)" using inv by (simp add: lists_inv_def)
  then have freed: "\<forall>x \<in> set (ts @ ps @ ds). slist c x = None"
    using a(3) b(3,4) c(3,4) by (auto simp: disjoint_iff) metis+
  have ev: "thread_derefs ?u = thread_derefs s" "process_derefs a = process_derefs s"
    using derefs_cong(1)[OF u(2)] derefs_cong(2)[of a s] rest_fields(2)[OF a(4)] u(3) by simp_all
  have "lists_inv d [] [] []" "slist d = slist c" using c(2) by (simp_all add: d_def lists_inv_def)
  moreover have "rest d = rest (?u\<lparr>string_pool := string_pool s |` (- {fst (unicode_driver_name s), fst (driver_path s)}),
      ansi_driver_name := NULL\<rparr>)"
    unfolding d_def rest_strings by (simp add: f u rc rest_trace)
  moreover have "k_trace d = k_trace s @ before_lists s
     @ cleanup_events ThreadListLock thread_derefs (LookasideFree ThreadLookaside) s ts @ [LookasideDelete ThreadLookaside]
     @ cleanup_events ProcessListLock process_derefs (LookasideFree ThreadLookaside) s ps @ [LookasideDelete ProcessLookaside]
     @ cleanup_events DriverListLock (\<lambda>_ _. []) (\<lambda>x. PoolFree x POOL_TAG_THREAD_LIST) s ds @ config_strings_freed s"
    using a(5) b(6) c(6) ev by (simp add: d_def cleanup_events_def config_strings_freed_def f u)
  moreover have "device_symbolic_link d = device_symbolic_link s" by (simp add: d_def f u)
  ultimately show ?thesis
    using run freed by (simp add: lists_inv_delete_device unload_calls_def)
qed
section \<open>Properties of unloading\<close>

lemma run_locks_cleanup:
  assumes "\<And>x. \<forall>e \<in> set (derefs s x). \<not> lock_event e" "\<And>x. \<not> lock_event (freed x)"
  shows "run_locks [] (cleanup_events L derefs freed s xs @ es) = run_locks [] es"
proof -
  have skip: "run_locks h (ys @ zs) = run_locks h zs" if "\<forall>e \<in> set ys. \<not> lock_event e" for h ys zs
    using that by (induction ys) (simp_all del: run_locks.simps(2))
  have one: "run_locks [] (Acquire L # derefs s x @ freed x # Release L # zs) = run_locks [] zs" for x zs
    using skip[OF assms(1), of "[L]" x "freed x # Release L # zs"] run_locks_other[OF assms(2), of "[L]" x "Release L # zs"]
    by simp
  show ?thesis
    by (induction xs) (simp_all add: cleanup_events_def one del: run_locks.simps(2), simp)
qed

lemma derefs_no_locks:
  "\<forall>e \<in> set (process_derefs s x). \<not> lock_event e" "\<forall>e \<in> set (thread_derefs s x). \<not> lock_event e"
  by (auto simp: process_derefs_def thread_derefs_def split: option.splits)

lemma before_lists_locks: "run_locks [] (before_lists s @ es) = run_locks [] es"
proof -
  have skip: "run_locks h (work_items_freed ws @ zs) = run_locks h zs" for h ws zs
    by (induction ws) (simp_all add: work_items_freed_def)
  show ?thesis
    by (simp add: before_lists_def skip freed_if_def ob_callbacks_removed_def)
qed

lemma unload_calls_locks: "run_locks [] (unload_calls s ts ps ds) = Some []"
proof -
  have strings: "run_locks [] (config_strings_freed s @ es) = run_locks [] es" for es
    by (simp add: config_strings_freed_def freed_if_def)
  show ?thesis
    unfolding unload_calls_def before_lists_locks
    by (simp add: run_locks_cleanup derefs_no_locks strings)
qed

lemma unload_calls_named:
  "{TimerCancelled 10000, WorkItemFreed (timer_work_item s), Call ''PsRemoveCreateThreadNotifyRoutine'' [],
     Call ''PsSetCreateProcessNotifyRoutine'' [1], Call ''PsRemoveLoadImageNotifyRoutine'' []} \<subseteq> set (unload_calls s ts ps ds)
   \<and> (\<forall>w \<in> set (sv_work_items (sys_val_context s)). w \<noteq> NULL \<longrightarrow> WorkItemFreed w \<in> set (unload_calls s ts ps ds))
   \<and> (ansi_driver_name s \<noteq> NULL \<longrightarrow> Call ''RtlFreeAnsiString'' [ansi_driver_name s] \<in> set (unload_calls s ts ps ds))"
  by (auto simp: unload_calls_def before_lists_def work_items_freed_def config_strings_freed_def)

lemma unload_calls_items:
  "w \<noteq> timer_work_item s \<and> w \<notin> set (sv_work_items (sys_val_context s)) \<Longrightarrow> WorkItemFreed w \<notin> set (unload_calls s ts ps ds)"
  by (auto simp: unload_calls_def before_lists_def cleanup_events_def config_strings_freed_def freed_if_def work_items_freed_def
      ob_callbacks_removed_def process_derefs_def thread_derefs_def split: option.splits)

text \<open>C25: unloading a driver that has nothing in flight returns, and this is what it releases. Its calls are exactly those of
  \<open>unload_calls\<close>, in that order: the timer is cancelled and its work item freed, then the work items and the two arrays of
  the module verification, the object callbacks and the three notify routines are removed, the three lists are emptied
  and their lookaside lists deleted, the two config strings and the ANSI name are freed, the symbolic link is deleted,
  and the device last. The lists are empty and every entry is freed, the lists are inactive, the pointers to what
  was freed in the verification context and the handle of the callbacks are cleared; all locks are balanced over the
  whole unload. The work item of the deferred hashing is not released here, if it is still there.\<close>

theorem driver_unload_releases:
  assumes "lists_inv s ts ps ds" "unloadable s"
  shows "\<exists>s'. DriverUnload s = Some s' \<and> k_trace s' = k_trace s @ unload_calls s ts ps ds
     \<and> last (unload_calls s ts ps ds) = Call ''IoDeleteDevice'' [] \<and> run_locks [] (unload_calls s ts ps ds) = Some []
     \<and> {TimerCancelled 10000, WorkItemFreed (timer_work_item s), Call ''PsRemoveCreateThreadNotifyRoutine'' [],
         Call ''PsSetCreateProcessNotifyRoutine'' [1], Call ''PsRemoveLoadImageNotifyRoutine'' []} \<subseteq> set (unload_calls s ts ps ds)
     \<and> (\<forall>w \<in> set (sv_work_items (sys_val_context s)). w \<noteq> NULL \<longrightarrow> WorkItemFreed w \<in> set (unload_calls s ts ps ds))
     \<and> (ansi_driver_name s \<noteq> NULL \<longrightarrow> Call ''RtlFreeAnsiString'' [ansi_driver_name s] \<in> set (unload_calls s ts ps ds))
     \<and> (\<forall>w. w \<noteq> timer_work_item s \<and> w \<notin> set (sv_work_items (sys_val_context s)) \<longrightarrow> WorkItemFreed w \<notin> set (unload_calls s ts ps ds))
     \<and> lists_inv s' [] [] [] \<and> (\<forall>x \<in> set (ts @ ps @ ds). slist s' x = None)
     \<and> \<not> thread_active s' \<and> \<not> process_active s' \<and> \<not> driver_active s' \<and> registration_handle (session s') = NULL
     \<and> sv_module_info (sys_val_context s') = NULL \<and> sv_dispatcher_info (sys_val_context s') = NULL
     \<and> (sv_module_info (sys_val_context s) \<noteq> NULL \<longrightarrow> module_arrays s' (sv_module_info (sys_val_context s)) = None)
     \<and> (sv_dispatcher_info (sys_val_context s) \<noteq> NULL
          \<longrightarrow> dispatcher_arrays s' (sv_dispatcher_info (sys_val_context s)) = None)
     \<and> string_pool s' (fst (unicode_driver_name s)) = None \<and> string_pool s' (fst (driver_path s)) = None
     \<and> ansi_driver_name s' = NULL"
proof -
  from DriverUnload_law[OF assms] obtain s' where s': "DriverUnload s = Some s'" "lists_inv s' [] [] []"
    "\<forall>x \<in> set (ts @ ps @ ds). slist s' x = None"
    "rest s' = rest ((unloaded_before_lists s)\<lparr>
          string_pool := string_pool s |` (- {fst (unicode_driver_name s), fst (driver_path s)}), ansi_driver_name := NULL\<rparr>)"
    "k_trace s' = k_trace s @ unload_calls s ts ps ds" by blast
  note f = rest_fields[OF s'(4)] rest_drv_fields[OF s'(4)]
  have "\<not> thread_active s' \<and> \<not> process_active s' \<and> \<not> driver_active s' \<and> registration_handle (session s') = NULL
     \<and> sv_module_info (sys_val_context s') = NULL \<and> sv_dispatcher_info (sys_val_context s') = NULL
     \<and> (sv_module_info (sys_val_context s) \<noteq> NULL \<longrightarrow> module_arrays s' (sv_module_info (sys_val_context s)) = None)
     \<and> (sv_dispatcher_info (sys_val_context s) \<noteq> NULL
          \<longrightarrow> dispatcher_arrays s' (sv_dispatcher_info (sys_val_context s)) = None)
     \<and> string_pool s' (fst (unicode_driver_name s)) = None \<and> string_pool s' (fst (driver_path s)) = None \<and> ansi_driver_name s' = NULL"
    by (simp add: f unloaded_before_lists_def Let_def)
  moreover note unload_calls_named[of s ts ps ds] unload_calls_items[of _ s ts ps ds]
  moreover have "last (unload_calls s ts ps ds) = Call ''IoDeleteDevice'' []" by (simp add: unload_calls_def)
  ultimately show ?thesis using s'(1-3,5) unload_calls_locks[of s ts ps ds] by blast
qed

definition example_drv_st :: drv_st where
  "example_drv_st = ver_st.extend (example_ver_st\<lparr>apc_contexts := replicate MAXIMUM_APC_CONTEXTS NULL\<rparr>)
     (drv_st.fields (0x900, 26) (0x910, 10) 0 [0x900 \<mapsto> [], 0x910 \<mapsto> []] 0 True True [])"

lemmas example_drv_defs = example_drv_st_def example_ver_st_def example_info_st_def example_apc_st_def example_ob_st_def
  example_cb_st_def ver_st.defs drv_st.defs info_st.defs apc_st.defs ob_st.defs cb_st.defs sess_st.defs irp_st.defs
  example_sess_st_def example_irp_st_def

lemma example_drv_lists: "lists_inv example_drv_st [] [0x100] []"
  by (simp add: lists_inv_def example_drv_defs is_list_def ThreadHead_def ProcessHead_def DriverHead_def)

lemma example_unloadable: "unloadable example_drv_st"
  by (simp add: unloadable_def validation_idle_def strings_live_def example_drv_defs VERIFICATION_THREAD_COUNT_def
      MAXIMUM_APC_CONTEXTS_def)

theorem driver_unload_releases_witness:
  "\<exists>s'. DriverUnload example_drv_st = Some s' \<and> slist s' 0x100 = None \<and> \<not> process_active s'
     \<and> string_pool s' 0x900 = None"
proof -
  have "unicode_driver_name example_drv_st = (0x900, 26)" by (simp add: example_drv_defs)
  with driver_unload_releases[OF example_drv_lists example_unloadable] show ?thesis by auto
qed

text \<open>C26: unloading returns the entries of the process list to a lookaside list that no longer exists.
  The thread list is cleaned first, which deletes its lookaside list; every process entry is then
  freed to that list, after its deletion, and no entry is freed to the lookaside list of the
  process list it was allocated from.\<close>

theorem unload_frees_to_deleted_lookaside:
  assumes "lists_inv s ts ps ds" "unloadable s" "x \<in> set ps"
  shows "\<exists>s' before after. DriverUnload s = Some s'
     \<and> k_trace s' = k_trace s @ before @ LookasideDelete ThreadLookaside # after
     \<and> LookasideFree ThreadLookaside x \<in> set after
     \<and> (\<forall>y. LookasideFree ProcessLookaside y \<notin> set (before @ after))"
proof -
  from DriverUnload_law[OF assms(1,2)] obtain s' where s': "DriverUnload s = Some s'"
    "k_trace s' = k_trace s @ unload_calls s ts ps ds" by blast
  define before where "before = before_lists s
     @ cleanup_events ThreadListLock thread_derefs (LookasideFree ThreadLookaside) s ts"
  define after where "after = cleanup_events ProcessListLock process_derefs (LookasideFree ThreadLookaside) s ps
     @ [LookasideDelete ProcessLookaside]
     @ cleanup_events DriverListLock (\<lambda>_ _. []) (\<lambda>x. PoolFree x POOL_TAG_THREAD_LIST) s ds @ config_strings_freed s
     @ (if device_symbolic_link s then [Call ''IoDeleteSymbolicLink'' []] else []) @ [Call ''IoDeleteDevice'' []]"
  have "LookasideFree ThreadLookaside x \<in> set after"
    using assms(3) by (auto simp: after_def cleanup_events_def)
  moreover have "\<forall>y. LookasideFree ProcessLookaside y \<notin> set (before @ after)"
    by (auto simp: before_def after_def cleanup_events_def before_lists_def config_strings_freed_def freed_if_def
        work_items_freed_def ob_callbacks_removed_def process_derefs_def thread_derefs_def split: option.splits)
  moreover have "unload_calls s ts ps ds = before @ LookasideDelete ThreadLookaside # after"
    by (simp add: unload_calls_def before_def after_def)
  ultimately show ?thesis using s' by auto
qed

theorem unload_frees_to_deleted_lookaside_witness:
  "\<exists>s' before after. DriverUnload example_drv_st = Some s'
     \<and> k_trace s' = k_trace example_drv_st @ before @ LookasideDelete ThreadLookaside # after
     \<and> LookasideFree ThreadLookaside 0x100 \<in> set after"
  using unload_frees_to_deleted_lookaside[OF example_drv_lists example_unloadable, of "0x100"] by auto
section \<open>The name of the driver\<close>

text \<open>The name read from the registry gets the extension of the image file: for a terminated value the
  buffer holds the characters of the value, then the extension with its terminator, then zeros, and
  nothing is written outside of it. The counted length of the string is that of the whole buffer,
  so it covers the terminator and twelve more zero bytes behind it.\<close>

theorem driver_name_gets_extension:
  assumes "alloc (k_allocs s) = Some p" "length name + 22 < 2 ^ 16" "ValueLength = of_nat (length name + 2)"
  shows "\<exists>s'. RegistryPathQueryCallbackRoutine alloc ''DisplayName'' (name @ [0, 0]) ValueLength s = Some (STATUS_SUCCESS, s')
     \<and> string_pool s' p = Some (name @ sys_extension @ replicate 12 0)
     \<and> fst (unicode_driver_name s') = p \<and> unat (snd (unicode_driver_name s')) = length name + 22
     \<and> driver_path s' = driver_path s"
proof -
  have len: "unat ValueLength = length name + 2"
    unfolding assms(3) by (rule unat_of_nat_eq) (use assms(2) in simp)
  have sum: "ValueLength + 20 = of_nat (length name + 22)" using assms(3) by (simp add: algebra_simps)
  then have len20: "unat (ValueLength + 20) = length name + 22"
    using assms(2) unat_of_nat_eq[of "22 + length name", where 'a = 32] by simp
  have short: "unat (ucast (ValueLength + 20) :: u16) = length name + 22"
    using len20 assms(2) by (simp add: unsigned_ucast_eq take_bit_eq_mod)
  show ?thesis
    using assms(1) len len20 short
    by (simp add: RegistryPathQueryCallbackRoutine_def ExAllocatePool2_def filled_block_def sys_extension_def Let_def)
qed

theorem driver_name_gets_extension_witness:
  "\<exists>s'. RegistryPathQueryCallbackRoutine (\<lambda>_. Some 0x700) ''DisplayName'' [0x61, 0, 0, 0] 4 example_drv_st
       = Some (STATUS_SUCCESS, s')
     \<and> string_pool s' 0x700 = Some ([0x61, 0] @ sys_extension @ replicate 12 0)"
  using driver_name_gets_extension[of "\<lambda>_. Some 0x700" example_drv_st "0x700" "[0x61, 0]" 4] by auto

end
