(* ===== verification/Modules.thy ===== *)
theory Modules
  imports Driver
begin

text \<open>
  The checks of driver objects, from \<^verbatim>\<open>src/driver/modules.c\<close>: every driver object of the object
  directory must lie in a loaded module, and its device control routine in its own module or in a
  whitelisted one; violations are collected in a list and reported. Also the search for a driver
  object by name, and the test whether an instruction pointer lies in a loaded module.

  The module array is what \<open>GetSystemModuleInformation\<close> returned; a read behind its end is a
  fault. The object directory and the driver objects are kernel memory, the parameter
  \<open>directory\<close>: the chains of the 37 hash buckets as lists of object addresses.
\<close>

record SYSTEM_MODULES =
  sm_address :: ptr
  sm_module_count :: u32
  sm_infos :: "RTL_MODULE_EXTENDED_INFO list"

definition query_modules :: "module_query \<Rightarrow> allocator \<Rightarrow> 'a kst_scheme \<Rightarrow> NTSTATUS \<times> SYSTEM_MODULES \<times> 'a kst_scheme" where
  "query_modules q alloc s = (case GetSystemModuleInformation q alloc s of (status, a, n, infos, s) \<Rightarrow>
     (status, \<lparr>sm_address = a, sm_module_count = n, sm_infos = infos\<rparr>, s))"

text \<open>
  The loop over the modules with a signed index: the first module for which the body returns
  ends it.
\<close>

primrec scan_from :: "(RTL_MODULE_EXTENDED_INFO \<Rightarrow> 'r option) \<Rightarrow> SYSTEM_MODULES \<Rightarrow> nat list \<Rightarrow> 'r option option" where
  "scan_from f m [] = Some None"
| "scan_from f m (i # is) =
     (if i < length (sm_infos m)
      then case f (sm_infos m ! i) of Some r \<Rightarrow> Some (Some r) | None \<Rightarrow> scan_from f m is
      else None)"

definition scan_modules :: "(RTL_MODULE_EXTENDED_INFO \<Rightarrow> 'r option) \<Rightarrow> SYSTEM_MODULES \<Rightarrow> 'r option option" where
  "scan_modules f m = scan_from f m [0..<nat (sint (sm_module_count m))]"

definition free_modules :: "SYSTEM_MODULES \<Rightarrow> 'a kst_scheme \<Rightarrow> 'a kst_scheme" where
  "free_modules m s = emit (PoolFree (sm_address m) SYSTEM_MODULES_POOL) s"

section \<open>Modules by name and by address\<close>

definition FindSystemModuleByName ::
  "string \<Rightarrow> SYSTEM_MODULES \<Rightarrow> RTL_MODULE_EXTENDED_INFO option option" where
  "FindSystemModuleByName ModuleName m =
     scan_modules (\<lambda>x. if contains (mi_FullPathName x) ModuleName then Some x else None) m"

definition module_end :: "RTL_MODULE_EXTENDED_INFO \<Rightarrow> u64" where
  "module_end x = mi_ImageBase x + ucast (mi_ImageSize x)"

text \<open>The end address counts as part of a module.\<close>

definition in_module :: "u64 \<Rightarrow> RTL_MODULE_EXTENDED_INFO \<Rightarrow> bool" where
  "in_module rip x \<longleftrightarrow> mi_ImageBase x \<le> rip \<and> rip \<le> module_end x"

definition IsInstructionPointerInInvalidRegion ::
  "u64 \<Rightarrow> SYSTEM_MODULES \<Rightarrow> (NTSTATUS \<times> bool option) option" where
  "IsInstructionPointerInInvalidRegion RIP m =
     (if RIP = 0 then Some (STATUS_INVALID_PARAMETER, None)
      else do {
        r \<leftarrow> scan_modules (\<lambda>x. if in_module RIP x then Some () else None) m;
        Some (STATUS_SUCCESS, Some (r \<noteq> None))
      })"

definition IsInstructionPointerInsideModule :: "u64 \<Rightarrow> RTL_MODULE_EXTENDED_INFO \<Rightarrow> NTSTATUS \<times> bool" where
  "IsInstructionPointerInsideModule Rip Module = (STATUS_SUCCESS, in_module Rip Module)"

section \<open>One driver object\<close>

definition WHITELISTED_MODULES :: "string list" where
  "WHITELISTED_MODULES = [''ntoskrnl.exe'', ''CLASSPNP.SYS'', ''Wdf01000.sys'', ''HIDCLASS.SYS'', ''storport.sys'',
     ''dxgkrnl.sys'', ''ndis.sys'', ''ks.sys'', ''portcls.sys'', ''rdbss.sys'', ''LXCORE.SYS'']"

definition WHITELISTED_MODULE_COUNT :: nat where "WHITELISTED_MODULE_COUNT = 11"

text \<open>The regions are the base and the end of each whitelisted module; a missing one stays zero.\<close>

type_synonym WHITELISTED_REGIONS = "(u64 \<times> u64) list"

definition populate_entry ::
  "SYSTEM_MODULES \<Rightarrow> nat \<Rightarrow> WHITELISTED_REGIONS \<Rightarrow> WHITELISTED_REGIONS option" where
  "populate_entry m index buffer = do {
     r \<leftarrow> FindSystemModuleByName (WHITELISTED_MODULES ! index) m;
     Some (case r of None \<Rightarrow> buffer | Some x \<Rightarrow> buffer[index := (mi_ImageBase x, module_end x)])
   }"

definition PopulateWhitelistedModuleBuffer ::
  "SYSTEM_MODULES \<Rightarrow> WHITELISTED_REGIONS \<Rightarrow> WHITELISTED_REGIONS option" where
  "PopulateWhitelistedModuleBuffer m buffer = for_each [0..<WHITELISTED_MODULE_COUNT] (populate_entry m) buffer"

record DRIVER_OBJECT =
  do_DriverStart :: ptr
  do_DriverSize :: u32
  do_DriverName :: string
  do_DeviceObject :: ptr
  do_DeviceControl :: u64

definition whitelisted :: "WHITELISTED_REGIONS \<Rightarrow> u64 \<Rightarrow> bool" where
  "whitelisted regions p \<longleftrightarrow> (\<exists>r \<in> set regions. fst r \<le> p \<and> p \<le> snd r)"

text \<open>The answer is the status and the flag, which is left alone on an error.\<close>

definition ValidateDriverIOCTLDispatchRegion ::
  "DRIVER_OBJECT option \<Rightarrow> SYSTEM_MODULES \<Rightarrow> WHITELISTED_REGIONS \<Rightarrow> (NTSTATUS \<times> bool option) option" where
  "ValidateDriverIOCTLDispatchRegion Driver m regions = (case Driver of
      None \<Rightarrow> Some (STATUS_INVALID_PARAMETER, None)
    | Some d \<Rightarrow>
       if do_DeviceControl d = 0 then Some (STATUS_SUCCESS, Some True)
       else do {
         r \<leftarrow> scan_modules (\<lambda>x.
           if mi_ImageBase x \<noteq> do_DriverStart d then None
           else Some (do_DeviceObject d = NULL \<or> in_module (do_DeviceControl d) x
                      \<or> whitelisted regions (do_DeviceControl d))) m;
         Some (STATUS_SUCCESS, Some (case r of None \<Rightarrow> True | Some ok \<Rightarrow> ok))
       })"

definition ValidateDriverObjectHasBackingModule ::
  "SYSTEM_MODULES \<Rightarrow> DRIVER_OBJECT option \<Rightarrow> (NTSTATUS \<times> bool option) option" where
  "ValidateDriverObjectHasBackingModule m Driver = (case Driver of
      None \<Rightarrow> Some (STATUS_INVALID_PARAMETER, None)
    | Some d \<Rightarrow> do {
        r \<leftarrow> scan_modules (\<lambda>x.
          if mi_ImageSize x = 0 \<or> mi_ImageBase x = 0 then Some (STATUS_INVALID_MEMBER, None)
          else if mi_ImageBase x = do_DriverStart d then Some (STATUS_SUCCESS, Some True) else None) m;
        Some (case r of None \<Rightarrow> (STATUS_SUCCESS, Some False) | Some a \<Rightarrow> a)
      })"

section \<open>The list of invalid drivers\<close>

record INVALID_DRIVER =
  iv_reason :: u32
  iv_driver :: ptr

record INVALID_DRIVERS_HEAD =
  ih_entries :: "(ptr \<times> INVALID_DRIVER) list"
  ih_count :: u32

definition REASON_NO_BACKING_MODULE :: u32 where "REASON_NO_BACKING_MODULE = 1"
definition REASON_INVALID_IOCTL_DISPATCH :: u32 where "REASON_INVALID_IOCTL_DISPATCH = 2"

abbreviation INVALID_DRIVER_LIST_HEAD_POOL :: pool_tag where "INVALID_DRIVER_LIST_HEAD_POOL \<equiv> ''rwar''"
abbreviation INVALID_DRIVER_LIST_ENTRY_POOL :: pool_tag where "INVALID_DRIVER_LIST_ENTRY_POOL \<equiv> ''gaah''"
abbreviation WHITELISTED_MODULE_TAG :: pool_tag where "WHITELISTED_MODULE_TAG \<equiv> ''whte''"

definition InitDriverList :: INVALID_DRIVERS_HEAD where
  "InitDriverList = \<lparr>ih_entries = [], ih_count = 0\<rparr>"

definition AddDriverToList ::
  "allocator \<Rightarrow> ptr \<Rightarrow> u32 \<Rightarrow> INVALID_DRIVERS_HEAD \<Rightarrow> 'a kst_scheme \<Rightarrow> NTSTATUS \<times> INVALID_DRIVERS_HEAD \<times> 'a kst_scheme" where
  "AddDriverToList alloc Driver Reason head s =
     (case ExAllocatePool2 alloc INVALID_DRIVER_LIST_ENTRY_POOL s of
        (None, s) \<Rightarrow> (STATUS_MEMORY_NOT_ALLOCATED, head, s)
      | (Some p, s) \<Rightarrow>
          (STATUS_SUCCESS, head\<lparr>ih_entries := (p, \<lparr>iv_reason = Reason, iv_driver = Driver\<rparr>) # ih_entries head\<rparr>, s))"

definition RemoveInvalidDriverFromList ::
  "INVALID_DRIVERS_HEAD \<Rightarrow> 'a kst_scheme \<Rightarrow> INVALID_DRIVERS_HEAD \<times> 'a kst_scheme" where
  "RemoveInvalidDriverFromList head s =
     (case ih_entries head of
        [] \<Rightarrow> (head, s)
      | (p, _) # es \<Rightarrow> (head\<lparr>ih_entries := es\<rparr>, emit (PoolFree p INVALID_DRIVER_LIST_ENTRY_POOL) s))"

text \<open>\<^verbatim>\<open>if (!flag)\<close>: add the driver, and count it when there was memory for the entry.\<close>

definition flag_driver ::
  "bool \<Rightarrow> allocator \<Rightarrow> ptr \<Rightarrow> u32 \<Rightarrow> INVALID_DRIVERS_HEAD \<Rightarrow> 'a kst_scheme \<Rightarrow> INVALID_DRIVERS_HEAD \<times> 'a kst_scheme" where
  "flag_driver flag alloc Driver Reason head s =
     (if flag then (head, s)
      else case AddDriverToList alloc Driver Reason head s of (status, head, s) \<Rightarrow>
        (if NT_SUCCESS status then head\<lparr>ih_count := ih_count head + 1\<rparr> else head, s))"

record directory =
  dir_open :: "NTSTATUS \<times> u64"
  dir_reference :: "NTSTATUS \<times> ptr"
  dir_buckets :: "ptr list list"
  dir_objects :: "ptr \<rightharpoonup> DRIVER_OBJECT"
  dir_ansi :: "string \<Rightarrow> NTSTATUS \<times> u8 list"

text \<open>The driver object at an address; a null pointer is caught by the callee, others must be live.\<close>

definition driver_at :: "directory \<Rightarrow> ptr \<Rightarrow> DRIVER_OBJECT option option" where
  "driver_at dir p = (if p = NULL then Some None else map_option Some (dir_objects dir p))"

primrec ValidateDriverObjects ::
  "directory \<Rightarrow> allocator \<Rightarrow> SYSTEM_MODULES \<Rightarrow> WHITELISTED_REGIONS \<Rightarrow> ptr list
   \<Rightarrow> INVALID_DRIVERS_HEAD \<Rightarrow> 'a kst_scheme \<Rightarrow> (INVALID_DRIVERS_HEAD \<times> 'a kst_scheme) option" where
  "ValidateDriverObjects dir alloc m regions [] head s = Some (head, s)"
| "ValidateDriverObjects dir alloc m regions (p # ps) head s = do {
     d \<leftarrow> driver_at dir p;
     (status, flag) \<leftarrow> ValidateDriverObjectHasBackingModule m d;
     (if \<not> NT_SUCCESS status then Some (head, s)
      else do {
        let backed = (case flag of None \<Rightarrow> False | Some b \<Rightarrow> b);
        let (head, s) = flag_driver backed alloc p REASON_NO_BACKING_MODULE head s;
        (status, flag) \<leftarrow> ValidateDriverIOCTLDispatchRegion d m regions;
        (if \<not> NT_SUCCESS status then Some (head, s)
         else do {
           let dispatch = (case flag of None \<Rightarrow> backed | Some b \<Rightarrow> b);
           let (head, s) = flag_driver dispatch alloc p REASON_INVALID_IOCTL_DISPATCH head s;
           ValidateDriverObjects dir alloc m regions ps head s
         })
      })
   }"

definition NUMBER_HASH_BUCKETS :: nat where "NUMBER_HASH_BUCKETS = 37"

definition bucket :: "directory \<Rightarrow> nat \<Rightarrow> ptr list option" where
  "bucket dir i = (if i < length (dir_buckets dir) then Some (dir_buckets dir ! i) else None)"

text \<open>Opening the directory: the answer is an error, or the handle and the referenced object.\<close>

definition open_directory :: "directory \<Rightarrow> 'a kst_scheme \<Rightarrow> NTSTATUS \<times> 'a kst_scheme" where
  "open_directory dir s =
     (if \<not> NT_SUCCESS (fst (dir_open dir)) then (fst (dir_open dir), s)
      else if \<not> NT_SUCCESS (fst (dir_reference dir))
      then (fst (dir_reference dir), emit (ZwCloseHandle (snd (dir_open dir))) s)
      else (STATUS_SUCCESS, emit (Acquire DirectoryPushLock) (emit (ObReference (snd (dir_reference dir))) s)))"

definition close_directory :: "directory \<Rightarrow> 'a kst_scheme \<Rightarrow> 'a kst_scheme" where
  "close_directory dir s =
     emit (ZwCloseHandle (snd (dir_open dir))) (emit (ObDereference (snd (dir_reference dir)))
       (emit (Release DirectoryPushLock) s))"

definition ValidateDriverObjectsWrapper ::
  "directory \<Rightarrow> allocator \<Rightarrow> SYSTEM_MODULES \<Rightarrow> INVALID_DRIVERS_HEAD \<Rightarrow> 'a kst_scheme
   \<Rightarrow> (NTSTATUS \<times> INVALID_DRIVERS_HEAD \<times> 'a kst_scheme) option" where
  "ValidateDriverObjectsWrapper dir alloc m head s =
     (case open_directory dir s of (status, s) \<Rightarrow>
        if \<not> NT_SUCCESS status then Some (status, head, s)
        else case ExAllocatePool2 alloc WHITELISTED_MODULE_TAG s of
          (None, s) \<Rightarrow> Some (STATUS_SUCCESS, head, close_directory dir s)
        | (Some p, s) \<Rightarrow> do {
            regions \<leftarrow> PopulateWhitelistedModuleBuffer m (replicate WHITELISTED_MODULE_COUNT (0, 0));
            (head, s) \<leftarrow> for_each [0..<NUMBER_HASH_BUCKETS] (\<lambda>index (head, s). do {
               entries \<leftarrow> bucket dir index;
               ValidateDriverObjects dir alloc m regions entries head s
             }) (head, s);
            Some (STATUS_SUCCESS, head, close_directory dir (emit (PoolFree p WHITELISTED_MODULE_TAG) s))
          })"

section \<open>Reports\<close>

definition MODULE_VALIDATION_FAILURE_MAX_REPORT_COUNT :: nat where "MODULE_VALIDATION_FAILURE_MAX_REPORT_COUNT = 20"

definition module_failure_report :: "directory \<Rightarrow> INVALID_DRIVER \<Rightarrow> report option" where
  "module_failure_report dir e = do {
     d \<leftarrow> dir_objects dir (iv_driver e);
     Some (MODULE_VALIDATION_FAILURE REPORT_MODULE_VALIDATION_FAILURE (iv_reason e) (do_DriverStart d)
             (ucast (do_DriverSize d)) (snd (dir_ansi dir (do_DriverName d))))
   }"

text \<open>
  One round of the loop over the counted drivers. A round that cannot allocate or deliver its report
  leaves the entry at the front of the list.
\<close>

definition report_invalid_driver ::
  "directory \<Rightarrow> 'a irp_st_scheme csq_remove \<Rightarrow> allocator \<Rightarrow> nat \<Rightarrow> NTSTATUS \<times> INVALID_DRIVERS_HEAD \<times> 'a irp_st_scheme
   \<Rightarrow> (NTSTATUS \<times> INVALID_DRIVERS_HEAD \<times> 'a irp_st_scheme) option" where
  "report_invalid_driver dir csq alloc index = (\<lambda>(status, head, s).
     if MODULE_VALIDATION_FAILURE_MAX_REPORT_COUNT \<le> index then Some (status, RemoveInvalidDriverFromList head s)
     else case ExAllocatePool2 alloc POOL_TAG_INTEGRITY s of
       (None, s) \<Rightarrow> Some (status, head, s)
     | (Some p, s) \<Rightarrow>
         (case ih_entries head of
            [] \<Rightarrow> None
          | (_, e) # _ \<Rightarrow> do {
              r \<leftarrow> module_failure_report dir e;
              let s = s\<lparr>pool := (pool s)(p \<mapsto> report_bytes r)\<rparr>;
              (status, s) \<leftarrow> IrpQueueCompleteIrp csq alloc p (of_nat (sizeof_report r)) s;
              (if \<not> NT_SUCCESS status then Some (status, head, s)
               else Some (status, RemoveInvalidDriverFromList head s))
            }))"

definition HandleValidateDriversIOCTL ::
  "module_query \<Rightarrow> directory \<Rightarrow> 'a irp_st_scheme csq_remove \<Rightarrow> allocator \<Rightarrow> 'a irp_st_scheme
   \<Rightarrow> (NTSTATUS \<times> 'a irp_st_scheme) option" where
  "HandleValidateDriversIOCTL q dir csq alloc s =
     (case query_modules q alloc s of (status, m, s) \<Rightarrow>
        if \<not> NT_SUCCESS status then Some (status, s)
        else case ExAllocatePool2 alloc INVALID_DRIVER_LIST_HEAD_POOL s of
          (None, s) \<Rightarrow> Some (STATUS_MEMORY_NOT_ALLOCATED, free_modules m s)
        | (Some p, s) \<Rightarrow> do {
            (status, head, s) \<leftarrow> ValidateDriverObjectsWrapper dir alloc m InitDriverList s;
            (status, head, s) \<leftarrow>
              (if \<not> NT_SUCCESS status \<or> ih_count head = 0 then Some (status, head, s)
               else for_each [0..<nat (sint (ih_count head))] (report_invalid_driver dir csq alloc) (status, head, s));
            Some (status, free_modules m (emit (PoolFree p INVALID_DRIVER_LIST_HEAD_POOL) s))
          })"

text \<open>
  How most of the reports are sent: without memory for it the report is dropped; the status of the
  delivery is ignored.
\<close>

definition send_report ::
  "'a irp_st_scheme csq_remove \<Rightarrow> allocator \<Rightarrow> report \<Rightarrow> 'a irp_st_scheme \<Rightarrow> 'a irp_st_scheme option" where
  "send_report csq alloc r s =
     (case ExAllocatePool2 alloc REPORT_POOL_TAG s of
        (None, s) \<Rightarrow> Some s
      | (Some p, s) \<Rightarrow> do {
          (status, s) \<leftarrow> IrpQueueCompleteIrp csq alloc p (of_nat (sizeof_report r)) (s\<lparr>pool := (pool s)(p \<mapsto> report_bytes r)\<rparr>);
          Some s
        })"

section \<open>A driver object by its name\<close>

primrec find_driver :: "directory \<Rightarrow> string \<Rightarrow> ptr list \<Rightarrow> ptr option option" where
  "find_driver dir DriverName [] = Some None"
| "find_driver dir DriverName (p # ps) = do {
     d \<leftarrow> dir_objects dir p;
     (if do_DriverName d = DriverName then Some (Some p) else find_driver dir DriverName ps)
   }"

primrec find_in_buckets :: "directory \<Rightarrow> string \<Rightarrow> nat list \<Rightarrow> ptr option option" where
  "find_in_buckets dir DriverName [] = Some None"
| "find_in_buckets dir DriverName (i # is) = do {
     entries \<leftarrow> bucket dir i;
     r \<leftarrow> find_driver dir DriverName entries;
     (case r of Some p \<Rightarrow> Some (Some p) | None \<Rightarrow> find_in_buckets dir DriverName is)
   }"

text \<open>A name that is not found is no error: the status is success and the object null.\<close>

definition GetDriverObjectByDriverName ::
  "directory \<Rightarrow> string \<Rightarrow> 'a kst_scheme \<Rightarrow> (NTSTATUS \<times> ptr \<times> 'a kst_scheme) option" where
  "GetDriverObjectByDriverName dir DriverName s =
     (case open_directory dir s of (status, s) \<Rightarrow>
        if \<not> NT_SUCCESS status then Some (status, NULL, s)
        else do {
          r \<leftarrow> find_in_buckets dir DriverName [0..<NUMBER_HASH_BUCKETS];
          Some (STATUS_SUCCESS, (case r of None \<Rightarrow> NULL | Some p \<Rightarrow> p), close_directory dir s)
        })"

section \<open>The loops as searches\<close>

definition modules_ok :: "SYSTEM_MODULES \<Rightarrow> bool" where
  "modules_ok m \<longleftrightarrow> sint (sm_module_count m) = int (length (sm_infos m))"

lemma scan_from_eq:
  "\<forall>i \<in> set is. i < length (sm_infos m) \<Longrightarrow>
   scan_from f m is = Some (Option.bind (find (\<lambda>x. f x \<noteq> None) (map ((!) (sm_infos m)) is)) f)"
  by (induction "is") (auto split: option.splits)

lemma scan_modules_eq:
  "modules_ok m \<Longrightarrow> scan_modules f m = Some (Option.bind (find (\<lambda>x. f x \<noteq> None) (sm_infos m)) f)"
  by (simp add: scan_modules_def scan_from_eq modules_ok_def map_nth)

lemma find_bind: "find (\<lambda>x. (if P x then Some (g x) else None) \<noteq> None) xs = find P xs"
  "Option.bind (find P xs) (\<lambda>x. if P x then Some (g x) else None) = map_option g (find P xs)"
  by (induction xs) auto

lemma FindSystemModuleByName_eq:
  "modules_ok m \<Longrightarrow> FindSystemModuleByName n m = Some (find (\<lambda>x. contains (mi_FullPathName x) n) (sm_infos m))"
  by (simp add: FindSystemModuleByName_def scan_modules_eq find_bind option.map_ident)

lemma find_not_None_iff: "find P xs \<noteq> None \<longleftrightarrow> (\<exists>x \<in> set xs. P x)"
  by (auto simp: find_None_iff)

lemma IsInstructionPointerInInvalidRegion_eq:
  "modules_ok m \<Longrightarrow> RIP \<noteq> 0 \<Longrightarrow>
   IsInstructionPointerInInvalidRegion RIP m = Some (STATUS_SUCCESS, Some (\<exists>x \<in> set (sm_infos m). in_module RIP x))"
  using find_not_None_iff[of "in_module RIP" "sm_infos m"]
  by (simp add: IsInstructionPointerInInvalidRegion_def scan_modules_eq find_bind)

text \<open>C27: the test of an instruction pointer accepts an address exactly when it lies between the base of
  a loaded module and its base plus its size, the latter included: for modules that do not wrap
  around the address space, the first address behind a module still counts as inside. A null
  instruction pointer is refused, and no read leaves the module array.\<close>

theorem instruction_pointer_bounds:
  assumes "modules_ok m" "\<forall>x \<in> set (sm_infos m). unat (mi_ImageBase x) + unat (mi_ImageSize x) < 2 ^ 64"
  shows "IsInstructionPointerInInvalidRegion RIP m =
     (if RIP = 0 then Some (STATUS_INVALID_PARAMETER, None)
      else Some (STATUS_SUCCESS, Some (\<exists>x \<in> set (sm_infos m).
             unat (mi_ImageBase x) \<le> unat RIP \<and> unat RIP \<le> unat (mi_ImageBase x) + unat (mi_ImageSize x))))"
proof -
  have "in_module RIP x \<longleftrightarrow> unat (mi_ImageBase x) \<le> unat RIP \<and> unat RIP \<le> unat (mi_ImageBase x) + unat (mi_ImageSize x)"
    if "x \<in> set (sm_infos m)" for x
  proof -
    have "unat (ucast (mi_ImageSize x) :: u64) = unat (mi_ImageSize x)"
      using unsigned_less[of "mi_ImageSize x", where 'a = nat] by (simp add: unsigned_ucast_eq take_bit_eq_mod)
    then have "unat (module_end x) = unat (mi_ImageBase x) + unat (mi_ImageSize x)"
      using assms(2) that by (simp add: module_end_def unat_word_ariths take_bit_eq_mod)
    then show ?thesis by (simp add: in_module_def word_le_nat_alt)
  qed
  then show ?thesis
    using IsInstructionPointerInInvalidRegion_eq[OF assms(1), of RIP]
    by (auto simp: IsInstructionPointerInInvalidRegion_def[of 0])
qed

definition example_system_modules :: SYSTEM_MODULES where
  "example_system_modules = \<lparr>sm_address = 0x9000, sm_module_count = 2, sm_infos =
     [\<lparr>mi_ImageBase = 0x1000, mi_ImageSize = 0x200, mi_FullPathName = ''ntoskrnl.exe''\<rparr>,
      \<lparr>mi_ImageBase = 0x5000, mi_ImageSize = 0x100, mi_FullPathName = ''a.sys''\<rparr>]\<rparr>"

lemma example_system_modules_ok: "modules_ok example_system_modules"
  by (simp add: modules_ok_def example_system_modules_def)

theorem instruction_pointer_bounds_witness:
  "IsInstructionPointerInInvalidRegion 0x1200 example_system_modules = Some (STATUS_SUCCESS, Some True)
   \<and> IsInstructionPointerInInvalidRegion 0x1201 example_system_modules = Some (STATUS_SUCCESS, Some False)"
  using instruction_pointer_bounds[OF example_system_modules_ok] by (simp add: example_system_modules_def)

section \<open>Driver validation against a reference\<close>

definition region_of :: "SYSTEM_MODULES \<Rightarrow> string \<Rightarrow> u64 \<times> u64" where
  "region_of m n = (case find (\<lambda>x. contains (mi_FullPathName x) n) (sm_infos m) of
     None \<Rightarrow> (0, 0) | Some x \<Rightarrow> (mi_ImageBase x, module_end x))"

lemma PopulateWhitelistedModuleBuffer_eq:
  assumes "modules_ok m"
  shows "PopulateWhitelistedModuleBuffer m (replicate WHITELISTED_MODULE_COUNT (0, 0)) = Some (map (region_of m) WHITELISTED_MODULES)"
proof -
  have len: "length WHITELISTED_MODULES = WHITELISTED_MODULE_COUNT"
    by (simp add: WHITELISTED_MODULES_def WHITELISTED_MODULE_COUNT_def)
  have "\<exists>b. for_each [0..<WHITELISTED_MODULE_COUNT] (populate_entry m) (replicate WHITELISTED_MODULE_COUNT (0, 0)) = Some b
      \<and> length b = WHITELISTED_MODULE_COUNT
      \<and> (\<forall>j < WHITELISTED_MODULE_COUNT. b ! j = (if j < WHITELISTED_MODULE_COUNT then region_of m (WHITELISTED_MODULES ! j) else (0, 0)))"
    by (rule for_each_upt[where P = "\<lambda>i b. length b = WHITELISTED_MODULE_COUNT \<and> (\<forall>j < WHITELISTED_MODULE_COUNT.
          b ! j = (if j < i then region_of m (WHITELISTED_MODULES ! j) else (0, 0)))"])
      (auto simp: populate_entry_def FindSystemModuleByName_eq[OF assms] region_of_def nth_list_update less_Suc_eq
        split: option.splits)
  then show ?thesis
    unfolding PopulateWhitelistedModuleBuffer_def using len by (auto intro!: nth_equalityI)
qed

text \<open>
  The reference: a driver is invalid when no module starts at its base, and its device control
  routine is invalid when it lies neither in the first module of that base nor in a whitelisted
  region, if the driver has a device and such a routine at all.
\<close>

definition invalid_reasons :: "SYSTEM_MODULES \<Rightarrow> DRIVER_OBJECT \<Rightarrow> u32 list" where
  "invalid_reasons m d = (case find (\<lambda>x. mi_ImageBase x = do_DriverStart d) (sm_infos m) of
     None \<Rightarrow> [REASON_NO_BACKING_MODULE]
   | Some x \<Rightarrow> if do_DeviceControl d = 0 \<or> do_DeviceObject d = NULL \<or> in_module (do_DeviceControl d) x
                 \<or> (\<exists>n \<in> set WHITELISTED_MODULES. fst (region_of m n) \<le> do_DeviceControl d
                      \<and> do_DeviceControl d \<le> snd (region_of m n))
              then [] else [REASON_INVALID_IOCTL_DISPATCH])"

definition invalid_drivers :: "directory \<Rightarrow> SYSTEM_MODULES \<Rightarrow> ptr list \<Rightarrow> (u32 \<times> ptr) list" where
  "invalid_drivers dir m ps = concat (map (\<lambda>p. map (\<lambda>r. (r, p)) (invalid_reasons m (the (dir_objects dir p)))) ps)"

definition listed :: "INVALID_DRIVERS_HEAD \<Rightarrow> (u32 \<times> ptr) list" where
  "listed head = map (\<lambda>(_, e). (iv_reason e, iv_driver e)) (rev (ih_entries head))"

lemma HasBackingModule_eq:
  assumes "modules_ok m" "\<forall>x \<in> set (sm_infos m). mi_ImageBase x \<noteq> 0 \<and> mi_ImageSize x \<noteq> 0"
  shows "ValidateDriverObjectHasBackingModule m (Some d) =
    Some (STATUS_SUCCESS, Some (find (\<lambda>x. mi_ImageBase x = do_DriverStart d) (sm_infos m) \<noteq> None))"
proof -
  let ?f = "\<lambda>x. if mi_ImageSize x = 0 \<or> mi_ImageBase x = 0 then Some (STATUS_INVALID_MEMBER, None)
      else if mi_ImageBase x = do_DriverStart d then Some (STATUS_SUCCESS, Some True) else None"
  have "Option.bind (find (\<lambda>x. ?f x \<noteq> None) xs) ?f
      = map_option (\<lambda>_. (STATUS_SUCCESS, Some True)) (find (\<lambda>x. mi_ImageBase x = do_DriverStart d) xs)"
    if "\<forall>x \<in> set xs. mi_ImageBase x \<noteq> 0 \<and> mi_ImageSize x \<noteq> 0" for xs
    using that by (induction xs) auto
  from this[OF assms(2)] show ?thesis
    by (simp add: ValidateDriverObjectHasBackingModule_def scan_modules_eq[OF assms(1)] split: option.splits)
qed

lemma DispatchRegion_eq:
  assumes "modules_ok m"
  shows "ValidateDriverIOCTLDispatchRegion (Some d) m (map (region_of m) WHITELISTED_MODULES) =
    Some (STATUS_SUCCESS, Some (REASON_INVALID_IOCTL_DISPATCH \<notin> set (invalid_reasons m d)))"
proof -
  have "find (\<lambda>x. (if mi_ImageBase x \<noteq> do_DriverStart d then None else Some (g x)) \<noteq> None) xs
        = find (\<lambda>x. mi_ImageBase x = do_DriverStart d) xs"
    "Option.bind (find (\<lambda>x. mi_ImageBase x = do_DriverStart d) xs)
        (\<lambda>x. if mi_ImageBase x \<noteq> do_DriverStart d then None else Some (g x))
        = map_option g (find (\<lambda>x. mi_ImageBase x = do_DriverStart d) xs)" for g :: "RTL_MODULE_EXTENDED_INFO \<Rightarrow> bool" and xs
    by (induction xs) auto
  then show ?thesis
    by (auto simp: ValidateDriverIOCTLDispatchRegion_def scan_modules_eq[OF assms] invalid_reasons_def whitelisted_def
        REASON_NO_BACKING_MODULE_def REASON_INVALID_IOCTL_DISPATCH_def split: option.splits)
qed

lemma flag_driver_eq:
  assumes "\<forall>n. alloc n \<noteq> None"
  shows "\<exists>head' s'. flag_driver ok alloc p r head s = (head', s')
     \<and> listed head' = listed head @ (if ok then [] else [(r, p)])
     \<and> ih_count head' = ih_count head + (if ok then 0 else 1) \<and> neutral L s s' \<and> (\<forall>q. refs q (k_trace s') = refs q (k_trace s))"
proof -
  obtain a where "alloc (k_allocs s) = Some a" using assms by fastforce
  then show ?thesis
    by (auto simp: flag_driver_def AddDriverToList_def ExAllocatePool2_def listed_def intro!: neutral_refl neutral_event)
qed

lemma ValidateDriverObjects_eq:
  assumes m: "modules_ok m" "\<forall>x \<in> set (sm_infos m). mi_ImageBase x \<noteq> 0 \<and> mi_ImageSize x \<noteq> 0"
    and al: "\<forall>n. alloc n \<noteq> None"
  shows "\<forall>p \<in> set ps. p \<noteq> NULL \<and> p \<in> dom (dir_objects dir) \<Longrightarrow>
    \<exists>head' s'. ValidateDriverObjects dir alloc m (map (region_of m) WHITELISTED_MODULES) ps head s = Some (head', s')
     \<and> listed head' = listed head @ invalid_drivers dir m ps
     \<and> ih_count head' = ih_count head + of_nat (length (invalid_drivers dir m ps))
     \<and> neutral L s s' \<and> (\<forall>q. refs q (k_trace s') = refs q (k_trace s))"
proof (induction ps arbitrary: head s)
  case Nil
  then show ?case by (simp add: invalid_drivers_def neutral_refl)
next
  case (Cons p ps)
  then obtain d where d: "p \<noteq> NULL" "dir_objects dir p = Some d" by auto
  let ?b = "find (\<lambda>x. mi_ImageBase x = do_DriverStart d) (sm_infos m) \<noteq> None"
  let ?ok = "REASON_INVALID_IOCTL_DISPATCH \<notin> set (invalid_reasons m d)"
  from flag_driver_eq[OF al, of ?b p REASON_NO_BACKING_MODULE head s L] obtain h1 s1 where
    1: "flag_driver ?b alloc p REASON_NO_BACKING_MODULE head s = (h1, s1)"
    "listed h1 = listed head @ (if ?b then [] else [(REASON_NO_BACKING_MODULE, p)])"
    "ih_count h1 = ih_count head + (if ?b then 0 else 1)" "neutral L s s1" "\<forall>q. refs q (k_trace s1) = refs q (k_trace s)"
    by blast
  from flag_driver_eq[OF al, of ?ok p REASON_INVALID_IOCTL_DISPATCH h1 s1 L] obtain h2 s2 where
    2: "flag_driver ?ok alloc p REASON_INVALID_IOCTL_DISPATCH h1 s1 = (h2, s2)"
    "listed h2 = listed h1 @ (if ?ok then [] else [(REASON_INVALID_IOCTL_DISPATCH, p)])"
    "ih_count h2 = ih_count h1 + (if ?ok then 0 else 1)" "neutral L s1 s2" "\<forall>q. refs q (k_trace s2) = refs q (k_trace s1)"
    by blast
  from Cons.IH[of h2 s2] Cons.prems obtain h3 s3 where
    3: "ValidateDriverObjects dir alloc m (map (region_of m) WHITELISTED_MODULES) ps h2 s2 = Some (h3, s3)"
    "listed h3 = listed h2 @ invalid_drivers dir m ps"
    "ih_count h3 = ih_count h2 + of_nat (length (invalid_drivers dir m ps))"
    "neutral L s2 s3" "\<forall>q. refs q (k_trace s3) = refs q (k_trace s2)"
    by auto
  have run: "ValidateDriverObjects dir alloc m (map (region_of m) WHITELISTED_MODULES) (p # ps) head s = Some (h3, s3)"
    using 1(1) 2(1) 3(1) d by (simp add: driver_at_def HasBackingModule_eq[OF m] DispatchRegion_eq[OF m(1)])
  have rs: "map (\<lambda>r. (r, p)) (invalid_reasons m d) = (if ?b then [] else [(REASON_NO_BACKING_MODULE, p)])
      @ (if ?ok then [] else [(REASON_INVALID_IOCTL_DISPATCH, p)])"
    by (auto simp: invalid_reasons_def REASON_NO_BACKING_MODULE_def REASON_INVALID_IOCTL_DISPATCH_def split: option.splits)
  then have "invalid_drivers dir m (p # ps) = (if ?b then [] else [(REASON_NO_BACKING_MODULE, p)])
      @ (if ?ok then [] else [(REASON_INVALID_IOCTL_DISPATCH, p)]) @ invalid_drivers dir m ps"
    using d(2) by (simp add: invalid_drivers_def)
  then show ?case
    using run 1 2 3 neutral_trans[OF neutral_trans[OF 1(4) 2(4)] 3(4)] by (cases ?b; cases ?ok) simp_all
qed
lemma invalid_drivers_append: "invalid_drivers dir m (xs @ ys) = invalid_drivers dir m xs @ invalid_drivers dir m ys"
  by (simp add: invalid_drivers_def)

text \<open>The buckets in order, the first \<open>i\<close> of them scanned.\<close>

definition scanned_upto :: "directory \<Rightarrow> SYSTEM_MODULES \<Rightarrow> 'a kst_scheme \<Rightarrow> nat \<Rightarrow> INVALID_DRIVERS_HEAD \<times> 'a kst_scheme \<Rightarrow> bool" where
  "scanned_upto dir m s i r \<longleftrightarrow> listed (fst r) = invalid_drivers dir m (concat (take i (dir_buckets dir)))
     \<and> ih_count (fst r) = of_nat (length (invalid_drivers dir m (concat (take i (dir_buckets dir)))))
     \<and> neutral {} s (snd r) \<and> (\<forall>q. refs q (k_trace (snd r)) = refs q (k_trace s))"

lemma scan_bucket:
  assumes m: "modules_ok m" "\<forall>x \<in> set (sm_infos m). mi_ImageBase x \<noteq> 0 \<and> mi_ImageSize x \<noteq> 0" and al: "\<forall>n. alloc n \<noteq> None"
    and dir: "\<forall>p \<in> set (concat (dir_buckets dir)). p \<noteq> NULL \<and> p \<in> dom (dir_objects dir)"
    and i: "i < length (dir_buckets dir)" "scanned_upto dir m s i r"
  shows "\<exists>r'. (case r of (head, s) \<Rightarrow> do {
       entries \<leftarrow> bucket dir i;
       ValidateDriverObjects dir alloc m (map (region_of m) WHITELISTED_MODULES) entries head s
     }) = Some r' \<and> scanned_upto dir m s (Suc i) r'"
proof -
  let ?bs = "dir_buckets dir"
  obtain head t where r: "r = (head, t)" by (cases r)
  have "\<forall>p \<in> set (?bs ! i). p \<noteq> NULL \<and> p \<in> dom (dir_objects dir)"
    using dir i(1) nth_mem[of i ?bs] by auto
  from ValidateDriverObjects_eq[OF m al this, of head t "{}"] obtain head' t' where
    v: "ValidateDriverObjects dir alloc m (map (region_of m) WHITELISTED_MODULES) (?bs ! i) head t = Some (head', t')"
    "listed head' = listed head @ invalid_drivers dir m (?bs ! i)"
    "ih_count head' = ih_count head + of_nat (length (invalid_drivers dir m (?bs ! i)))"
    "neutral {} t t'" "\<forall>q. refs q (k_trace t') = refs q (k_trace t)" by blast
  have "take (Suc i) ?bs = take i ?bs @ [?bs ! i]" using i(1) by (simp add: take_Suc_conv_app_nth)
  then have "scanned_upto dir m s (Suc i) (head', t')"
    using i(2) v neutral_trans[OF _ v(4)] by (simp add: r scanned_upto_def invalid_drivers_append)
  then show ?thesis using v(1) i(1) by (simp add: r bucket_def)
qed

lemma directory_section:
  assumes "neutral {} (emit (PoolAlloc a WHITELISTED_MODULE_TAG) (s0\<lparr>k_allocs := n\<rparr>)) s2"
    and "s0 = emit (Acquire DirectoryPushLock) (emit (ObReference p) s)"
  shows "neutral {DirectoryPushLock} s (close_directory dir (emit (PoolFree a WHITELISTED_MODULE_TAG) s2))"
proof -
  have "neutral {} s0 (emit (PoolFree a WHITELISTED_MODULE_TAG) s2)"
    by (intro neutral_emit neutral_trans[OF neutral_event[where e = "PoolAlloc a WHITELISTED_MODULE_TAG"] assms(1)]) simp_all
  then have "neutral {DirectoryPushLock} (emit (ObReference p) s)
      (emit (Release DirectoryPushLock) (emit (PoolFree a WHITELISTED_MODULE_TAG) s2))"
    by (rule neutral_section) (simp_all add: assms(2))
  then have "neutral {DirectoryPushLock} s (emit (Release DirectoryPushLock) (emit (PoolFree a WHITELISTED_MODULE_TAG) s2))"
    using neutral_trans[OF neutral_emit[OF neutral_refl]] by force
  then show ?thesis unfolding close_directory_def by (rule neutral_emit[OF neutral_emit]) simp_all
qed

text \<open>C28: the scan of the object directory finds exactly the invalid drivers of a reference definition: for
  every driver of the 37 buckets, in order, one entry when no module starts at its base, and one
  when its device control routine lies outside its own module and outside all whitelisted ones.
  The count is the number of entries, the push lock is released, the reference on the directory
  dropped, and no read leaves an array.\<close>

theorem driver_validation_matches_reference:
  assumes m: "modules_ok m" "\<forall>x \<in> set (sm_infos m). mi_ImageBase x \<noteq> 0 \<and> mi_ImageSize x \<noteq> 0"
    and al: "\<forall>n. alloc n \<noteq> None"
    and dir: "length (dir_buckets dir) = NUMBER_HASH_BUCKETS" "NT_SUCCESS (fst (dir_open dir))" "NT_SUCCESS (fst (dir_reference dir))"
      "\<forall>p \<in> set (concat (dir_buckets dir)). p \<noteq> NULL \<and> p \<in> dom (dir_objects dir)"
  shows "\<exists>head s'. ValidateDriverObjectsWrapper dir alloc m InitDriverList s = Some (STATUS_SUCCESS, head, s')
     \<and> listed head = invalid_drivers dir m (concat (dir_buckets dir))
     \<and> ih_count head = of_nat (length (invalid_drivers dir m (concat (dir_buckets dir))))
     \<and> neutral {DirectoryPushLock} s s' \<and> (\<forall>q. refs q (k_trace s') = refs q (k_trace s))"
proof -
  obtain a where a: "alloc (k_allocs s) = Some a" using al by fastforce
  define s0 where "s0 = emit (Acquire DirectoryPushLock) (emit (ObReference (snd (dir_reference dir))) s)"
  define s1 where "s1 = emit (PoolAlloc a WHITELISTED_MODULE_TAG) (s0\<lparr>k_allocs := Suc (k_allocs s0)\<rparr>)"
  let ?body = "\<lambda>index (head, s). do {
               entries \<leftarrow> bucket dir index;
               ValidateDriverObjects dir alloc m (map (region_of m) WHITELISTED_MODULES) entries head s
             }"
  have "scanned_upto dir m s1 0 (InitDriverList, s1)"
    by (simp add: scanned_upto_def listed_def InitDriverList_def invalid_drivers_def neutral_refl)
  then have "\<exists>r. for_each [0..<NUMBER_HASH_BUCKETS] ?body (InitDriverList, s1) = Some r \<and> scanned_upto dir m s1 NUMBER_HASH_BUCKETS r"
    by (rule for_each_upt) (rule scan_bucket[OF m al dir(4)], simp_all add: dir(1))
  then obtain head s2 where 2: "for_each [0..<NUMBER_HASH_BUCKETS] ?body (InitDriverList, s1) = Some (head, s2)"
    "scanned_upto dir m s1 NUMBER_HASH_BUCKETS (head, s2)" by auto
  define s3 where "s3 = close_directory dir (emit (PoolFree a WHITELISTED_MODULE_TAG) s2)"
  have "ValidateDriverObjectsWrapper dir alloc m InitDriverList s = Some (STATUS_SUCCESS, head, s3)"
    using 2(1) a dir(2,3) by (simp add: ValidateDriverObjectsWrapper_def open_directory_def ExAllocatePool2_def
        PopulateWhitelistedModuleBuffer_eq[OF m(1)] s0_def s1_def s3_def)
  moreover have "neutral {DirectoryPushLock} s s3"
  proof -
    have "neutral {} s1 s2" using 2(2) by (simp add: scanned_upto_def)
    from directory_section[OF this[unfolded s1_def] s0_def] show ?thesis unfolding s3_def .
  qed
  moreover have "\<forall>q. refs q (k_trace s3) = refs q (k_trace s)"
    using 2(2) by (simp add: scanned_upto_def s3_def close_directory_def s1_def s0_def)
  ultimately show ?thesis using 2(2) dir(1) by (auto simp: scanned_upto_def)
qed

definition example_directory :: directory where
  "example_directory = \<lparr>dir_open = (STATUS_SUCCESS, 0x44), dir_reference = (STATUS_SUCCESS, 0x8000),
     dir_buckets = [0x100, 0x200] # [0x300] # replicate 35 [],
     dir_objects = [0x100 \<mapsto> \<lparr>do_DriverStart = 0x5000, do_DriverSize = 0x100, do_DriverName = ''a'',
                       do_DeviceObject = 1, do_DeviceControl = 0x1010\<rparr>,
                    0x200 \<mapsto> \<lparr>do_DriverStart = 0x5000, do_DriverSize = 0x100, do_DriverName = ''b'',
                       do_DeviceObject = 1, do_DeviceControl = 0x7777\<rparr>,
                    0x300 \<mapsto> \<lparr>do_DriverStart = 0x6000, do_DriverSize = 0x100, do_DriverName = ''c'',
                       do_DeviceObject = 0, do_DeviceControl = 0\<rparr>],
     dir_ansi = (\<lambda>n. (STATUS_SUCCESS, map of_char n))\<rparr>"

text \<open>The first driver dispatches into a whitelisted module, the second outside of all, the third has
  no backing module.\<close>

theorem driver_validation_matches_reference_witness:
  "\<exists>head s'. ValidateDriverObjectsWrapper example_directory (\<lambda>_. Some 0x700) example_system_modules InitDriverList example_drv_st
       = Some (STATUS_SUCCESS, head, s')
     \<and> listed head = [(REASON_INVALID_IOCTL_DISPATCH, 0x200), (REASON_NO_BACKING_MODULE, 0x300)]"
proof -
  have "invalid_drivers example_directory example_system_modules (concat (dir_buckets example_directory))
      = [(REASON_INVALID_IOCTL_DISPATCH, 0x200), (REASON_NO_BACKING_MODULE, 0x300)]"
    by code_simp
  moreover have "\<forall>x \<in> set (sm_infos example_system_modules). mi_ImageBase x \<noteq> 0 \<and> mi_ImageSize x \<noteq> 0"
    "length (dir_buckets example_directory) = NUMBER_HASH_BUCKETS"
    "NT_SUCCESS (fst (dir_open example_directory))" "NT_SUCCESS (fst (dir_reference example_directory))"
    "\<forall>p \<in> set (concat (dir_buckets example_directory)). p \<noteq> NULL \<and> p \<in> dom (dir_objects example_directory)"
    by (auto simp: example_system_modules_def example_directory_def NUMBER_HASH_BUCKETS_def)
  ultimately show ?thesis
    using driver_validation_matches_reference[OF example_system_modules_ok, of "\<lambda>_. Some 0x700" example_directory example_drv_st]
    by auto
qed

end
