(* ===== verification/Hardware.thy ===== *)
theory Hardware
  imports Modules
begin

text \<open>
  The scan of the PCI devices, from \<^verbatim>\<open>src/driver/hw.c\<close>: the device objects of the PCI driver are
  enumerated and the configuration space of each physical one is read with an I/O request. What
  the I/O manager and the devices answer is the parameter \<open>pci_env\<close>.
\<close>

record pci_env =
  pe_directory :: directory
  pe_count :: "NTSTATUS \<times> u32"
  pe_list :: "NTSTATUS \<times> u32 \<times> ptr list"
  pe_flags :: "ptr \<Rightarrow> u32"
  pe_irp :: "ptr \<Rightarrow> ptr"
  pe_call :: "ptr \<Rightarrow> NTSTATUS"
  pe_io_status :: "ptr \<Rightarrow> NTSTATUS"
  pe_config :: "ptr \<Rightarrow> u8 list"
  pe_alloc :: allocator

abbreviation POOL_TAG_HW :: pool_tag where "POOL_TAG_HW \<equiv> ''hwhw''"

definition PCI_VENDOR_ID_OFFSET :: u32 where "PCI_VENDOR_ID_OFFSET = 0"

text \<open>The first fields of the standard header; the whole structure has 64 bytes.\<close>

definition PCI_COMMON_HEADER_layout :: layout where
  "PCI_COMMON_HEADER_layout = [(''VendorID'', 2, 2), (''DeviceID'', 2, 2), (''DeviceSpecific'', 60, 1)]"

definition sizeof_PCI_COMMON_HEADER :: u32 where "sizeof_PCI_COMMON_HEADER = 64"

definition FLAGGED_DEVICE_IDS :: "u16 list" where "FLAGGED_DEVICE_IDS = [0x0666, 0xffff]"

definition header_DeviceID :: "u8 list \<Rightarrow> u16" where
  "header_DeviceID header = of_nat (le_nat (take 2 (drop (unat (FIELD_OFFSET PCI_COMMON_HEADER_layout ''DeviceID'')) header)))"

text \<open>
  The status of the driver call is overwritten by the assignment in \<^verbatim>\<open>if (status = STATUS_PENDING)\<close>,
  so the routine always waits for the event and answers the status of the I/O status block. The
  device writes its configuration space from the offset into the buffer.
\<close>

definition QueryPciDeviceConfigurationSpace ::
  "pci_env \<Rightarrow> ptr \<Rightarrow> u32 \<Rightarrow> u8 list \<Rightarrow> u32 \<Rightarrow> 'a kst_scheme \<Rightarrow> NTSTATUS \<times> u8 list \<times> 'a kst_scheme" where
  "QueryPciDeviceConfigurationSpace e DeviceObject Offset Buffer BufferLength s =
     (if BufferLength = 0 then (STATUS_BUFFER_TOO_SMALL, Buffer, s)
      else if pe_irp e DeviceObject = NULL then (STATUS_INSUFFICIENT_RESOURCES, Buffer, s)
      else
        let s = emit (Call ''IoCallDriver'' [DeviceObject, pe_irp e DeviceObject]) s;
            status = pe_call e DeviceObject;
            data = take (unat BufferLength) (drop (unat Offset) (pe_config e DeviceObject));
            Buffer = data @ drop (length data) Buffer;
            status = STATUS_PENDING;
            s = emit (Call ''KeWaitForSingleObject'' []) s;
            status = pe_io_status e DeviceObject
        in (status, Buffer, s))"

text \<open>
  The answer is the status, the array and the number of entries. The list routine takes a
  reference on every device object it returns.
\<close>

definition EnumerateDriverObjectDeviceObjects ::
  "pci_env \<Rightarrow> ptr \<Rightarrow> 'a kst_scheme \<Rightarrow> (NTSTATUS \<times> ptr \<times> u32 \<times> ptr list \<times> 'a kst_scheme) option" where
  "EnumerateDriverObjectDeviceObjects e DriverObject s =
     (if DriverObject = NULL then None
      else if fst (pe_count e) \<noteq> STATUS_BUFFER_TOO_SMALL then Some (fst (pe_count e), NULL, 0, [], s)
      else case ExAllocatePool2 (pe_alloc e) POOL_TAG_HW s of
        (None, s) \<Rightarrow> Some (STATUS_INSUFFICIENT_RESOURCES, NULL, 0, [], s)
      | (Some buffer, s) \<Rightarrow>
          (case pe_list e of (status, count, devices) \<Rightarrow>
             if \<not> NT_SUCCESS status then Some (status, NULL, 0, [], emit (PoolFree buffer POOL_TAG_HW) s)
             else Some (status, buffer, count, devices, fold (\<lambda>d. emit (ObReference d)) devices s)))"

definition DO_BUS_ENUMERATED_DEVICE :: u32 where "DO_BUS_ENUMERATED_DEVICE = 0x1000"

definition IsDeviceObjectValidPdo :: "pci_env \<Rightarrow> ptr \<Rightarrow> bool" where
  "IsDeviceObjectValidPdo e d = (pe_flags e d AND DO_BUS_ENUMERATED_DEVICE \<noteq> 0)"

definition pci_device_round ::
  "pci_env \<Rightarrow> (ptr \<Rightarrow> 'a kst_scheme \<Rightarrow> NTSTATUS \<times> 'a kst_scheme) \<Rightarrow> ptr list \<Rightarrow> nat
   \<Rightarrow> NTSTATUS \<times> 'a kst_scheme \<Rightarrow> (NTSTATUS \<times> 'a kst_scheme) option" where
  "pci_device_round e callback devices index = (\<lambda>(status, s).
     if index < length devices then
       let d = devices ! index in
       if \<not> IsDeviceObjectValidPdo e d then Some (status, emit (ObDereference d) s)
       else case callback d s of (status, s) \<Rightarrow> Some (status, emit (ObDereference d) s)
     else None)"

text \<open>The name \<^verbatim>\<open>\Driver\pci\<close>.\<close>

definition PCI_DRIVER_NAME :: string where
  "PCI_DRIVER_NAME = CHR 0x5C # ''Driver'' @ CHR 0x5C # ''pci''"

definition EnumeratePciDeviceObjects ::
  "pci_env \<Rightarrow> (ptr \<Rightarrow> 'a kst_scheme \<Rightarrow> NTSTATUS \<times> 'a kst_scheme) \<Rightarrow> 'a kst_scheme \<Rightarrow> (NTSTATUS \<times> 'a kst_scheme) option" where
  "EnumeratePciDeviceObjects e CallbackRoutine s = do {
     (status, pci_driver_object, s) \<leftarrow> GetDriverObjectByDriverName (pe_directory e) PCI_DRIVER_NAME s;
     (if \<not> NT_SUCCESS status then Some (status, s)
      else do {
        (status, buffer, count, devices, s) \<leftarrow> EnumerateDriverObjectDeviceObjects e pci_driver_object s;
        (if \<not> NT_SUCCESS status then Some (status, s)
         else do {
           (status, s) \<leftarrow> for_each [0..<unat count] (pci_device_round e CallbackRoutine devices) (status, s);
           Some (status, if buffer \<noteq> NULL then emit (PoolFree buffer POOL_TAG_HW) s else s)
         })
      })
   }"

definition IsPciConfigurationSpaceFlagged :: "u8 list \<Rightarrow> bool" where
  "IsPciConfigurationSpaceFlagged header = (header_DeviceID header \<in> set FLAGGED_DEVICE_IDS)"

text \<open>The verdict goes to the debugger only.\<close>

definition PciDeviceQueryCallback :: "pci_env \<Rightarrow> ptr \<Rightarrow> 'a kst_scheme \<Rightarrow> NTSTATUS \<times> 'a kst_scheme" where
  "PciDeviceQueryCallback e DeviceObject s =
     (case QueryPciDeviceConfigurationSpace e DeviceObject PCI_VENDOR_ID_OFFSET
             (replicate (unat sizeof_PCI_COMMON_HEADER) 0) sizeof_PCI_COMMON_HEADER s of
        (status, header, s) \<Rightarrow>
          if \<not> NT_SUCCESS status then (status, s)
          else if IsPciConfigurationSpaceFlagged header
          then (status, emit (Call ''DEBUG_VERBOSE flagged'' [DeviceObject, ucast (header_DeviceID header)]) s)
          else (status, s))"

definition ValidatePciDevices :: "pci_env \<Rightarrow> 'a kst_scheme \<Rightarrow> (NTSTATUS \<times> 'a kst_scheme) option" where
  "ValidatePciDevices e s = EnumeratePciDeviceObjects e (PciDeviceQueryCallback e) s"

section \<open>The scan\<close>

definition query_events :: "pci_env \<Rightarrow> ptr \<Rightarrow> kevent list" where
  "query_events e d = (if pe_irp e d = NULL then []
     else [Call ''IoCallDriver'' [d, pe_irp e d], Call ''KeWaitForSingleObject'' []])"

definition read_header :: "pci_env \<Rightarrow> ptr \<Rightarrow> u8 list" where
  "read_header e d = take 64 (pe_config e d @ replicate 64 0)"

definition flagged_device :: "pci_env \<Rightarrow> ptr \<Rightarrow> bool" where
  "flagged_device e d \<longleftrightarrow> IsDeviceObjectValidPdo e d \<and> pe_irp e d \<noteq> NULL \<and> NT_SUCCESS (pe_io_status e d)
     \<and> header_DeviceID (read_header e d) \<in> {0x0666, 0xffff}"

definition flag_event :: "pci_env \<Rightarrow> ptr \<Rightarrow> kevent" where
  "flag_event e d = Call ''DEBUG_VERBOSE flagged'' [d, ucast (header_DeviceID (read_header e d))]"

definition device_events :: "pci_env \<Rightarrow> ptr \<Rightarrow> kevent list" where
  "device_events e d = (if IsDeviceObjectValidPdo e d then query_events e d else [])
     @ (if flagged_device e d then [flag_event e d] else []) @ [ObDereference d]"

lemma query_header:
  "pe_irp e d \<noteq> NULL \<Longrightarrow>
   QueryPciDeviceConfigurationSpace e d PCI_VENDOR_ID_OFFSET (replicate (unat sizeof_PCI_COMMON_HEADER) 0) sizeof_PCI_COMMON_HEADER s
   = (pe_io_status e d, read_header e d, s\<lparr>k_trace := k_trace s @ query_events e d\<rparr>)"
  by (simp add: QueryPciDeviceConfigurationSpace_def sizeof_PCI_COMMON_HEADER_def PCI_VENDOR_ID_OFFSET_def read_header_def
      query_events_def emit_def Let_def min_def)

lemma pci_device_round_eq:
  assumes "index < length devices"
  shows "\<exists>status'. pci_device_round e (PciDeviceQueryCallback e) devices index (status, s)
     = Some (status', s\<lparr>k_trace := k_trace s @ device_events e (devices ! index)\<rparr>)"
proof -
  let ?d = "devices ! index"
  consider "\<not> IsDeviceObjectValidPdo e ?d" | "IsDeviceObjectValidPdo e ?d" "pe_irp e ?d = NULL"
    | "IsDeviceObjectValidPdo e ?d" "pe_irp e ?d \<noteq> NULL" by blast
  then show ?thesis
  proof cases
    case 1
    then show ?thesis using assms
      by (simp add: pci_device_round_def device_events_def flagged_device_def emit_def Let_def)
  next
    case 2
    then show ?thesis using assms
      by (simp add: pci_device_round_def device_events_def flagged_device_def emit_def Let_def query_events_def
          PciDeviceQueryCallback_def QueryPciDeviceConfigurationSpace_def sizeof_PCI_COMMON_HEADER_def)
  next
    case 3
    then show ?thesis using assms query_header[OF 3(2), of s]
      by (auto simp: pci_device_round_def device_events_def flagged_device_def flag_event_def emit_def Let_def
          PciDeviceQueryCallback_def IsPciConfigurationSpaceFlagged_def FLAGGED_DEVICE_IDS_def)
  qed
qed

lemma fold_emit_trace: "k_trace (fold (\<lambda>d. emit (f d)) ds s) = k_trace s @ map f ds"
  by (induction ds arbitrary: s) simp_all

lemma refs_device_events: "refs q (concat (map (device_events e) ds)) = - int (count_list ds q)"
proof -
  have "refs q (device_events e d) = (if d = q then -1 else 0)" for d
    by (simp add: device_events_def query_events_def flag_event_def)
  then show ?thesis by (induction ds) auto
qed

lemma devices_loop:
  assumes "length devices < 2 ^ 32"
  shows "\<exists>status'. for_each [0..<unat (of_nat (length devices) :: u32)]
      (pci_device_round e (PciDeviceQueryCallback e) devices) (status, s)
    = Some (status', s\<lparr>k_trace := k_trace s @ concat (map (device_events e) devices)\<rparr>)"
proof -
  let ?n = "length devices"
  let ?P = "\<lambda>i (st :: NTSTATUS, t). t = s\<lparr>k_trace := k_trace s @ concat (map (device_events e) (take i devices))\<rparr>"
  have n: "unat (of_nat ?n :: u32) = ?n" using assms by (intro unat_of_nat_eq) simp
  have "\<exists>r. for_each [0..<?n] (pci_device_round e (PciDeviceQueryCallback e) devices) (status, s) = Some r \<and> ?P ?n r"
  proof (rule for_each_upt[where P = ?P])
    fix i r assume i: "i < ?n" and P: "?P i r"
    obtain st t where r: "r = (st, t)" by (cases r)
    from pci_device_round_eq[OF i, of e st t] obtain st' where
      "pci_device_round e (PciDeviceQueryCallback e) devices i (st, t)
        = Some (st', t\<lparr>k_trace := k_trace t @ device_events e (devices ! i)\<rparr>)" by blast
    with P i show "\<exists>r'. pci_device_round e (PciDeviceQueryCallback e) devices i r = Some r' \<and> ?P (Suc i) r'"
      by (simp add: r take_Suc_conv_app_nth)
  qed simp
  with n show ?thesis by auto
qed

text \<open>C29: the scan visits every device of the PCI driver once and flags exactly the physical devices
  whose configuration space was read and holds one of the two known device identifiers. It ends,
  the reference that the enumeration took on each device is dropped, and the array is freed. The
  status of the driver call plays no part in it.\<close>

theorem pci_scan_flags_known_devices:
  assumes dir: "find_in_buckets (pe_directory e) PCI_DRIVER_NAME [0..<NUMBER_HASH_BUCKETS] = Some (Some p)" "p \<noteq> NULL"
      "NT_SUCCESS (fst (dir_open (pe_directory e)))" "NT_SUCCESS (fst (dir_reference (pe_directory e)))"
    and io: "fst (pe_count e) = STATUS_BUFFER_TOO_SMALL" "pe_alloc e (k_allocs s) = Some buffer" "buffer \<noteq> NULL"
      "pe_list e = (STATUS_SUCCESS, of_nat (length devices), devices)" "length devices < 2 ^ 32"
  shows "\<exists>status s' es. ValidatePciDevices e s = Some (status, s') \<and> k_trace s' = k_trace s @ es
     \<and> filter (\<lambda>x. \<exists>args. x = Call ''DEBUG_VERBOSE flagged'' args) es
         = map (flag_event e) (filter (flagged_device e) devices)
     \<and> (\<forall>q. refs q es = 0) \<and> last es = PoolFree buffer POOL_TAG_HW"
proof -
  define s1 where "s1 = close_directory (pe_directory e) (emit (Acquire DirectoryPushLock)
      (emit (ObReference (snd (dir_reference (pe_directory e)))) s))"
  define s2 where "s2 = emit (PoolAlloc buffer POOL_TAG_HW) (s1\<lparr>k_allocs := Suc (k_allocs s1)\<rparr>)"
  define s3 where "s3 = fold (\<lambda>d. emit (ObReference d)) devices s2"
  have find: "GetDriverObjectByDriverName (pe_directory e) PCI_DRIVER_NAME s = Some (STATUS_SUCCESS, p, s1)"
    using dir by (simp add: GetDriverObjectByDriverName_def open_directory_def s1_def)
  have "k_allocs s1 = k_allocs s" by (simp add: s1_def close_directory_def)
  then have enum: "EnumerateDriverObjectDeviceObjects e p s1 = Some (STATUS_SUCCESS, buffer, of_nat (length devices), devices, s3)"
    using io dir(2) by (simp add: EnumerateDriverObjectDeviceObjects_def ExAllocatePool2_def s2_def s3_def)
  from devices_loop[OF io(5), of e STATUS_SUCCESS s3] obtain status where loop:
    "for_each [0..<unat (of_nat (length devices) :: u32)] (pci_device_round e (PciDeviceQueryCallback e) devices) (STATUS_SUCCESS, s3)
      = Some (status, s3\<lparr>k_trace := k_trace s3 @ concat (map (device_events e) devices)\<rparr>)" by blast
  define s4 where "s4 = emit (PoolFree buffer POOL_TAG_HW) (s3\<lparr>k_trace := k_trace s3 @ concat (map (device_events e) devices)\<rparr>)"
  define d where "d = pe_directory e"
  let ?es = "[ObReference (snd (dir_reference d)), Acquire DirectoryPushLock, Release DirectoryPushLock,
      ObDereference (snd (dir_reference d)), ZwCloseHandle (snd (dir_open d)), PoolAlloc buffer POOL_TAG_HW]
    @ map ObReference devices @ concat (map (device_events e) devices) @ [PoolFree buffer POOL_TAG_HW]"
  have tr: "k_trace s4 = k_trace s @ ?es"
    by (simp add: s4_def s3_def s2_def s1_def d_def close_directory_def fold_emit_trace)
  have run: "ValidatePciDevices e s = Some (status, s4)"
    using find enum loop io(3) by (simp add: ValidatePciDevices_def EnumeratePciDeviceObjects_def s4_def)
  have one: "filter (\<lambda>x. \<exists>args. x = Call ''DEBUG_VERBOSE flagged'' args) (device_events e x)
      = (if flagged_device e x then [flag_event e x] else [])" for x
    by (simp add: device_events_def query_events_def flag_event_def)
  have "filter (\<lambda>x. \<exists>args. x = Call ''DEBUG_VERBOSE flagged'' args) (concat (map (device_events e) xs))
      = map (flag_event e) (filter (flagged_device e) xs)" for xs
    by (induction xs) (simp_all add: one)
  then have "filter (\<lambda>x. \<exists>args. x = Call ''DEBUG_VERBOSE flagged'' args) ?es
      = map (flag_event e) (filter (flagged_device e) devices)" by (simp add: filter_empty_conv)
  moreover have "refs q ?es = 0" for q
  proof -
    have "refs q (map ObReference xs) = int (count_list xs q)" for xs by (induction xs) auto
    then show ?thesis by (simp add: refs_device_events)
  qed
  moreover have "last ?es = PoolFree buffer POOL_TAG_HW" by simp
  ultimately show ?thesis using run tr by blast
qed

definition example_pci :: pci_env where
  "example_pci = \<lparr>
     pe_directory = example_directory\<lparr>dir_buckets := [0x400] # replicate 36 [],
       dir_objects := [0x400 \<mapsto> \<lparr>do_DriverStart = 0x5000, do_DriverSize = 0x100, do_DriverName = PCI_DRIVER_NAME,
                       do_DeviceObject = 1, do_DeviceControl = 0\<rparr>]\<rparr>,
     pe_count = (STATUS_BUFFER_TOO_SMALL, 2), pe_list = (STATUS_SUCCESS, of_nat (length [0x10, 0x20 :: ptr]), [0x10, 0x20]),
     pe_flags = (\<lambda>_. 0x1000), pe_irp = (\<lambda>_. 0x77), pe_call = (\<lambda>_. STATUS_UNSUCCESSFUL), pe_io_status = (\<lambda>_. STATUS_SUCCESS),
     pe_config = (\<lambda>d. if d = 0x10 then [0x86, 0x80, 0x66, 0x06] else [0x86, 0x80, 1, 0]),
     pe_alloc = (\<lambda>_. Some 0x700)\<rparr>"

text \<open>The first of two devices has the identifier of a known DMA board.\<close>

theorem pci_scan_flags_known_devices_witness:
  "\<exists>status s' es. ValidatePciDevices example_pci example_drv_st = Some (status, s')
     \<and> k_trace s' = k_trace example_drv_st @ es
     \<and> filter (\<lambda>x. \<exists>args. x = Call ''DEBUG_VERBOSE flagged'' args) es = [Call ''DEBUG_VERBOSE flagged'' [0x10, 0x666]]"
proof -
  have f: "find_in_buckets (pe_directory example_pci) PCI_DRIVER_NAME [0..<NUMBER_HASH_BUCKETS] = Some (Some 0x400)"
    and l: "map (flag_event example_pci) (filter (flagged_device example_pci) [0x10, 0x20])
      = [Call ''DEBUG_VERBOSE flagged'' [0x10, 0x666]]"
    by code_simp+
  show ?thesis
    using pci_scan_flags_known_devices[OF f, of example_drv_st "0x700" "[0x10, 0x20]"] l
    by (auto simp: example_pci_def example_directory_def)
qed

end
