(* ===== verification/Integrity.thy ===== *)
theory Integrity
  imports Hardware
begin

text \<open>
  The integrity checks of images, from \<^verbatim>\<open>src/driver/integrity.c\<close>: the executable sections of an
  image are copied into a buffer and hashed, and the hash compared with that of the image on disk
  or with one taken earlier; the signature scan; the timing test for hooks in second-level page
  tables.

  Memory is the parameter \<open>memory\<close> of the address space that is read, and what the kernel and the
  cryptographic provider answer is the parameter \<open>integrity_env\<close>. A pool buffer under
  construction is a byte list of its allocated length; a write behind its end, the corruption of
  another allocation, is a fault (\<open>None\<close>), as is a read of an unmapped address.
\<close>

record bcrypt =
  bc_open :: NTSTATUS
  bc_object_length :: NTSTATUS
  bc_hash_length :: "NTSTATUS \<times> u32"
  bc_create :: NTSTATUS
  bc_data :: NTSTATUS
  bc_finish :: NTSTATUS
  bc_sha256 :: "u8 list \<Rightarrow> u8 list"

record disk_image =
  di_open :: "NTSTATUS \<times> u64"
  di_section :: "NTSTATUS \<times> u64"
  di_view :: "NTSTATUS \<times> ptr \<times> u64"
  di_memory :: memory

record integrity_env =
  ie_memory :: memory
  ie_process_memory :: "ptr \<Rightarrow> memory"
  ie_valid :: "ptr \<Rightarrow> bool"
  ie_copy_error :: NTSTATUS
  ie_query :: module_query
  ie_ansi :: "ptr \<Rightarrow> string"
  ie_disk :: "u8 list \<Rightarrow> disk_image"
  ie_unicode :: "NTSTATUS \<times> ptr"
  ie_process_name :: "ptr \<Rightarrow> string"
  ie_bcrypt :: bcrypt
  ie_alloc :: allocator

section \<open>Our own module\<close>

definition find_own_module ::
  "integrity_env \<Rightarrow> SYSTEM_MODULES \<Rightarrow> 'a drv_st_scheme \<Rightarrow> RTL_MODULE_EXTENDED_INFO option option" where
  "find_own_module env m s =
     (if GetDriverName s = NULL then Some None else FindSystemModuleByName (ie_ansi env (GetDriverName s)) m)"

definition GetDriverImageSize :: "integrity_env \<Rightarrow> ptr \<Rightarrow> 'a drv_st_scheme \<Rightarrow> (NTSTATUS \<times> 'a drv_st_scheme) option" where
  "GetDriverImageSize env Irp s =
     (case query_modules (ie_query env) (ie_alloc env) s of (status, m, s) \<Rightarrow>
        if \<not> NT_SUCCESS status then Some (status, s)
        else do {
          r \<leftarrow> find_own_module env m s;
          (case r of
             None \<Rightarrow> Some (STATUS_NOT_FOUND, free_modules m s)
           | Some x \<Rightarrow> do {
               (status, s) \<leftarrow> ValidateIrpOutputBuffer Irp 4 s;
               s \<leftarrow> (if \<not> NT_SUCCESS status then Some s
                     else do {
                       s \<leftarrow> set_irp Irp (irp_Information_update (\<lambda>_. 4)) s;
                       copy_to_system_buffer (le_bytes 4 (unat (mi_ImageSize x))) Irp s
                     });
               Some (status, if sm_address m \<noteq> NULL then free_modules m s else s)
             })
        })"

text \<open>The name argument is ignored: it is always our own module that is looked up.\<close>

definition GetModuleInformationByName ::
  "integrity_env \<Rightarrow> string \<Rightarrow> 'a drv_st_scheme \<Rightarrow> (NTSTATUS \<times> RTL_MODULE_EXTENDED_INFO option \<times> 'a drv_st_scheme) option" where
  "GetModuleInformationByName env ModuleName s =
     (case query_modules (ie_query env) (ie_alloc env) s of (status, m, s) \<Rightarrow>
        if \<not> NT_SUCCESS status then Some (status, None, s)
        else do {
          r \<leftarrow> find_own_module env m s;
          (case r of
             None \<Rightarrow> Some (STATUS_NOT_FOUND, None, free_modules m s)
           | Some x \<Rightarrow> Some (status, Some x, if sm_address m \<noteq> NULL then free_modules m s else s))
        })"

section \<open>The executable sections of an image\<close>

definition sizeof_IMAGE_SECTION_HEADER :: nat where "sizeof_IMAGE_SECTION_HEADER = 40"
definition sizeof_INTEGRITY_CHECK_HEADER :: nat where "sizeof_INTEGRITY_CHECK_HEADER = 8"
definition IMAGE_SCN_MEM_EXECUTE :: u32 where "IMAGE_SCN_MEM_EXECUTE = 0x20000000"

definition write_at :: "nat \<Rightarrow> u8 list \<Rightarrow> u8 list \<Rightarrow> u8 list option" where
  "write_at off bs buf =
     (if off + length bs \<le> length buf then Some (take off buf @ bs @ drop (off + length bs) buf) else None)"

definition section_field :: "memory \<Rightarrow> ptr \<Rightarrow> string \<Rightarrow> u32 option" where
  "section_field m section f = read_u32 m (section + FIELD_OFFSET IMAGE_SECTION_HEADER_layout f)"

record store =
  st_status :: NTSTATUS
  st_total_packet_size :: u32
  st_num_executable_sections :: u32
  st_buffer :: "u8 list"

text \<open>
  The loop over the section headers: the header and the raw data of an executable section are
  appended to the buffer. A copy that fails ends it with the error.
\<close>

primrec store_sections :: "memory \<Rightarrow> NTSTATUS \<Rightarrow> ptr \<Rightarrow> nat \<Rightarrow> ptr \<Rightarrow> store \<Rightarrow> (NTSTATUS + store) option" where
  "store_sections m err base 0 section st = Some (Inr st)"
| "store_sections m err base (Suc n) section st = do {
     characteristics \<leftarrow> section_field m section ''Characteristics'';
     (if characteristics AND IMAGE_SCN_MEM_EXECUTE = 0
      then store_sections m err base n (section + of_nat sizeof_IMAGE_SECTION_HEADER) st
      else case read_bytes m section sizeof_IMAGE_SECTION_HEADER of
        None \<Rightarrow> Some (Inl err)
      | Some header \<Rightarrow> do {
          buf \<leftarrow> write_at (sizeof_INTEGRITY_CHECK_HEADER + unat (st_total_packet_size st)) header (st_buffer st);
          pointer \<leftarrow> section_field m section ''PointerToRawData'';
          size \<leftarrow> section_field m section ''SizeOfRawData'';
          (case read_bytes m (base + ucast pointer) (unat size) of
             None \<Rightarrow> Some (Inl err)
           | Some data \<Rightarrow> do {
               buf \<leftarrow> write_at (sizeof_INTEGRITY_CHECK_HEADER + unat (st_total_packet_size st)
                               + sizeof_IMAGE_SECTION_HEADER) data buf;
               store_sections m err base n (section + of_nat sizeof_IMAGE_SECTION_HEADER)
                 \<lparr>st_status = STATUS_SUCCESS,
                  st_total_packet_size = st_total_packet_size st + (size + of_nat sizeof_IMAGE_SECTION_HEADER),
                  st_num_executable_sections = st_num_executable_sections st + 1, st_buffer = buf\<rparr>
             })
        })
   }"

text \<open>
  The answer is the status, the buffer with its contents, and the bytes written. The buffer size
  is computed in 32 bits, and the loop leaves out the last section. An image with no executable
  section before the last gives the initial status and keeps the buffer.
\<close>

definition StoreModuleExecutableRegionsInBuffer ::
  "integrity_env \<Rightarrow> memory \<Rightarrow> ptr \<Rightarrow> u64 \<Rightarrow> bool \<Rightarrow> 'a kst_scheme
   \<Rightarrow> (NTSTATUS \<times> (ptr \<times> u8 list) option \<times> u64 \<times> 'a kst_scheme) option" where
  "StoreModuleExecutableRegionsInBuffer env m ModuleBase ModuleSize IsModulex86 s =
     (if ModuleBase = NULL \<or> ModuleSize = 0 then Some (STATUS_INVALID_PARAMETER, None, 0, s)
      else
      let buffer_size = ucast (ModuleSize + of_nat sizeof_INTEGRITY_CHECK_HEADER) :: u32 in
      case ExAllocatePool2 (ie_alloc env) POOL_TAG_INTEGRITY s of
        (None, s) \<Rightarrow> Some (STATUS_MEMORY_NOT_ALLOCATED, None, 0, s)
      | (Some p, s) \<Rightarrow>
          if \<not> ie_valid env ModuleBase \<and> \<not> IsModulex86
          then Some (STATUS_INVALID_ADDRESS, None, 0, emit (PoolFree p POOL_TAG_INTEGRITY) s)
          else do {
            e_lfanew \<leftarrow> read_u32 m (ModuleBase + FIELD_OFFSET IMAGE_DOS_HEADER_layout ''e_lfanew'');
            let nt_header = ModuleBase + scast e_lfanew;
            let file_header = nt_header + FIELD_OFFSET LOCAL_NT_HEADER_layout ''FileHeader'';
            num_sections \<leftarrow> read_u16 m (file_header + FIELD_OFFSET IMAGE_FILE_HEADER_layout ''NumberOfSections'');
            optional_size \<leftarrow> read_u16 m (file_header + FIELD_OFFSET IMAGE_FILE_HEADER_layout ''SizeOfOptionalHeader'');
            let section = nt_header + FIELD_OFFSET LOCAL_NT_HEADER_layout ''OptionalHeader'' + ucast optional_size;
            r \<leftarrow> store_sections m (ie_copy_error env) ModuleBase (unat (ucast num_sections - 1 :: u32)) section
                  \<lparr>st_status = STATUS_UNSUCCESSFUL, st_total_packet_size = 0, st_num_executable_sections = 0,
                   st_buffer = replicate (unat buffer_size) 0\<rparr>;
            (case r of
               Inl status \<Rightarrow> Some (status, None, 0, emit (PoolFree p POOL_TAG_INTEGRITY) s)
             | Inr st \<Rightarrow> do {
                 let written = ucast (st_total_packet_size st) + of_nat sizeof_INTEGRITY_CHECK_HEADER;
                 buf \<leftarrow> write_at 0 (le_bytes 4 (unat (st_num_executable_sections st))
                                   @ le_bytes 4 (unat (ucast written :: u32))) (st_buffer st);
                 Some (st_status st, Some (p, buf), written, s)
               })
          })"

definition RetrieveInMemoryModuleExecutableSections ::
  "integrity_env \<Rightarrow> ptr \<Rightarrow> 'a drv_st_scheme \<Rightarrow> (NTSTATUS \<times> 'a drv_st_scheme) option" where
  "RetrieveInMemoryModuleExecutableSections env Irp s = do {
     (status, info, s) \<leftarrow> GetModuleInformationByName env (ie_ansi env (GetDriverName s)) s;
     (case info of
        None \<Rightarrow> Some (status, s)
      | Some x \<Rightarrow> do {
          (status, buffer, bytes_written, s) \<leftarrow> StoreModuleExecutableRegionsInBuffer env (ie_memory env)
             (mi_ImageBase x) (ucast (mi_ImageSize x)) False s;
          (if \<not> NT_SUCCESS status then Some (status, s)
           else do {
             (p, bytes) \<leftarrow> buffer;
             (status, s) \<leftarrow> ValidateIrpOutputBuffer Irp (ucast bytes_written) s;
             s \<leftarrow> (if \<not> NT_SUCCESS status then Some s
                   else if length bytes < unat bytes_written then None
                   else do {
                     s \<leftarrow> set_irp Irp (irp_Information_update (\<lambda>_. bytes_written)) s;
                     copy_to_system_buffer (take (unat bytes_written) bytes) Irp s
                   });
             Some (status, emit (PoolFree p POOL_TAG_INTEGRITY) s)
           })
        })
   }"

section \<open>Hashes\<close>

text \<open>
  The answer is the status, the address and the contents of the hash buffer. When a step after
  the allocation of that buffer fails, the buffer is not freed.
\<close>

definition ComputeHashOfBuffer ::
  "integrity_env \<Rightarrow> u8 list \<Rightarrow> 'a kst_scheme \<Rightarrow> NTSTATUS \<times> ptr \<times> u8 list \<times> 'a kst_scheme" where
  "ComputeHashOfBuffer env Buffer s =
     (let b = ie_bcrypt env; close = emit (Call ''BCryptCloseAlgorithmProvider'' []) in
      if \<not> NT_SUCCESS (bc_open b) then (bc_open b, NULL, [], s)
      else if \<not> NT_SUCCESS (bc_object_length b) then (bc_object_length b, NULL, [], close s)
      else case ExAllocatePool2 (ie_alloc env) POOL_TAG_INTEGRITY s of
        (None, s) \<Rightarrow> (STATUS_MEMORY_NOT_ALLOCATED, NULL, [], close s)
      | (Some hash_object, s) \<Rightarrow>
          let free = emit (PoolFree hash_object POOL_TAG_INTEGRITY) in
          if \<not> NT_SUCCESS (fst (bc_hash_length b)) then (fst (bc_hash_length b), NULL, [], free (close s))
          else case ExAllocatePool2 (ie_alloc env) POOL_TAG_INTEGRITY s of
            (None, s) \<Rightarrow> (STATUS_MEMORY_NOT_ALLOCATED, NULL, [], free (close s))
          | (Some resulting_hash, s) \<Rightarrow>
              if \<not> NT_SUCCESS (bc_create b) then (bc_create b, NULL, [], free (close s))
              else
                let destroy = emit (Call ''BCryptDestroyHash'' []) in
                if \<not> NT_SUCCESS (bc_data b) then (bc_data b, NULL, [], free (destroy (close s)))
                else if \<not> NT_SUCCESS (bc_finish b) then (bc_finish b, NULL, [], free (destroy (close s)))
                else (bc_finish b, resulting_hash,
                      take (unat (snd (bc_hash_length b))) (bc_sha256 b Buffer), free (destroy (close s))))"

text \<open>
  A section in one of the buffers: its header, at offset 8, and the raw data behind it. A size that
  runs over the end of the buffer is read out of bounds.
\<close>

definition section_raw_size :: "u8 list \<Rightarrow> u32 option" where
  "section_raw_size buf =
     (let off = sizeof_INTEGRITY_CHECK_HEADER + unat (FIELD_OFFSET IMAGE_SECTION_HEADER_layout ''SizeOfRawData'') in
      if off + 4 \<le> length buf then Some (of_nat (le_nat (take 4 (drop off buf)))) else None)"

definition section_data :: "u8 list \<Rightarrow> nat \<Rightarrow> u8 list option" where
  "section_data buf n =
     (let off = sizeof_INTEGRITY_CHECK_HEADER + sizeof_IMAGE_SECTION_HEADER in
      if off + n \<le> length buf then Some (take n (drop off buf)) else None)"

text \<open>The answer: the status and the two hashes, each with its address.\<close>

definition ComputeHashOfSections ::
  "integrity_env \<Rightarrow> u8 list \<Rightarrow> u8 list \<Rightarrow> 'a kst_scheme
   \<Rightarrow> (NTSTATUS \<times> (ptr \<times> u8 list) \<times> (ptr \<times> u8 list) \<times> 'a kst_scheme) option" where
  "ComputeHashOfSections env DiskSection MemorySection s = do {
     disk_size \<leftarrow> section_raw_size DiskSection;
     memory_size \<leftarrow> section_raw_size MemorySection;
     (if disk_size \<noteq> memory_size then Some (STATUS_INVALID_BUFFER_SIZE, (NULL, []), (NULL, []), s)
      else do {
        disk \<leftarrow> section_data DiskSection (unat disk_size);
        let (status, p, disk_hash, s) = ComputeHashOfBuffer env disk s;
        (if \<not> NT_SUCCESS status then Some (status, (NULL, []), (NULL, []), s)
         else do {
           mem \<leftarrow> section_data MemorySection (unat memory_size);
           let (status, q, memory_hash, s) = ComputeHashOfBuffer env mem s;
           Some (status, (p, disk_hash), (q, memory_hash), s)
         })
      })
   }"

section \<open>Modules of the protected process\<close>

definition PROCESS_MODULE_INFORMATION_layout :: layout where
  "PROCESS_MODULE_INFORMATION_layout = [(''module_base'', 8, 8), (''module_size'', 8, 8), (''module_path'', 512, 2)]"

definition sizeof_PROCESS_MODULE_INFORMATION :: u32 where "sizeof_PROCESS_MODULE_INFORMATION = 528"

definition info_field :: "u8 list \<Rightarrow> string \<Rightarrow> nat \<Rightarrow> u8 list" where
  "info_field bs f n = take n (drop (unat (FIELD_OFFSET PROCESS_MODULE_INFORMATION_layout f)) bs)"

definition module_base :: "u8 list \<Rightarrow> u64" where "module_base bs = of_nat (le_nat (info_field bs ''module_base'' 8))"
definition module_size :: "u8 list \<Rightarrow> u64" where "module_size bs = of_nat (le_nat (info_field bs ''module_size'' 8))"
definition module_path_bytes :: "u8 list \<Rightarrow> u8 list" where "module_path_bytes bs = info_field bs ''module_path'' 512"

text \<open>The answer: the status, the section handle, the address and the size of the view.\<close>

definition MapDiskImageIntoVirtualAddressSpace ::
  "disk_image \<Rightarrow> 'a kst_scheme \<Rightarrow> NTSTATUS \<times> u64 \<times> ptr \<times> u64 \<times> 'a kst_scheme" where
  "MapDiskImageIntoVirtualAddressSpace d s =
     (if \<not> NT_SUCCESS (fst (di_open d)) then (fst (di_open d), 0, NULL, 0, s)
      else
        let file_handle = snd (di_open d) in
        if \<not> NT_SUCCESS (fst (di_section d)) then (fst (di_section d), 0, NULL, 0, emit (ZwCloseHandle file_handle) s)
        else case di_view d of (status, view, view_size) \<Rightarrow>
          if \<not> NT_SUCCESS status
          then (status, 0, NULL, 0, emit (ZwCloseHandle (snd (di_section d))) (emit (ZwCloseHandle file_handle) s))
          else (status, snd (di_section d), view, view_size, emit (ZwCloseHandle file_handle) s))"

definition ReportInvalidProcessModule ::
  "integrity_env \<Rightarrow> 'a irp_st_scheme csq_remove \<Rightarrow> u8 list \<Rightarrow> 'a irp_st_scheme \<Rightarrow> 'a irp_st_scheme option" where
  "ReportInvalidProcessModule env csq Module =
     send_report csq (ie_alloc env) (PROCESS_MODULE_VALIDATION_REPORT REPORT_INVALID_PROCESS_MODULE (module_base Module)
       (ucast (module_size Module)) (module_path_bytes Module))"

definition free_if :: "ptr \<Rightarrow> 'a kst_scheme \<Rightarrow> 'a kst_scheme" where
  "free_if p s = (if p \<noteq> NULL then emit (PoolFree p POOL_TAG_INTEGRITY) s else s)"

text \<open>What the routine holds when it reaches its clean-up; null and zero stand for nothing.\<close>

record held =
  hd_section_handle :: u64
  hd_section :: ptr
  hd_memory_buffer :: ptr
  hd_memory_hash :: ptr
  hd_disk_buffer :: ptr
  hd_disk_hash :: ptr

definition release_held :: "held \<Rightarrow> 'a kst_scheme \<Rightarrow> 'a kst_scheme" where
  "release_held h s =
     (let s = (if hd_section_handle h \<noteq> 0 then emit (ZwCloseHandle (hd_section_handle h)) s else s);
          s = (if hd_section h \<noteq> NULL then emit (Call ''ZwUnmapViewOfSection'' [hd_section h]) s else s)
      in free_if (hd_disk_hash h) (free_if (hd_disk_buffer h) (free_if (hd_memory_hash h) (free_if (hd_memory_buffer h) s))))"

definition buffer_address :: "(ptr \<times> u8 list) option \<Rightarrow> ptr" where
  "buffer_address b = (case b of None \<Rightarrow> NULL | Some (p, _) \<Rightarrow> p)"

text \<open>
  The size of the mapped view goes through a 32-bit variable. The hashes are computed with the
  memory image in the place of the disk image and the other way round, which the comparison does
  not notice.
\<close>

definition ValidateProcessLoadedModule ::
  "integrity_env \<Rightarrow> 'a sess_st_scheme csq_remove \<Rightarrow> ptr \<Rightarrow> 'a sess_st_scheme \<Rightarrow> (NTSTATUS \<times> 'a sess_st_scheme) option" where
  "ValidateProcessLoadedModule env csq Irp s = do {
     status \<leftarrow> ValidateIrpInputBuffer Irp sizeof_PROCESS_MODULE_INFORMATION s;
     (if \<not> NT_SUCCESS status then Some (status, s)
      else do {
        irp \<leftarrow> irps s Irp;
        let module_info = irp_SystemBuffer irp;
        let (process, s) = SessionGetProcess s;
        let h = \<lparr>hd_section_handle = 0, hd_section = NULL, hd_memory_buffer = NULL, hd_memory_hash = NULL,
                 hd_disk_buffer = NULL, hd_disk_hash = NULL\<rparr>;
        let s = emit (Call ''KeStackAttachProcess'' [process]) s;
        (status, memory_buffer, _, s) \<leftarrow> StoreModuleExecutableRegionsInBuffer env (ie_process_memory env process)
           (module_base module_info) (module_size module_info) False s;
        let s = emit (Call ''KeUnstackDetachProcess'' []) s;
        let h = h\<lparr>hd_memory_buffer := buffer_address memory_buffer\<rparr>;
        (if \<not> NT_SUCCESS status then Some (status, release_held h s)
         else do {
           let disk = ie_disk env (module_path_bytes module_info);
           let (status, handle, view, size, s) = MapDiskImageIntoVirtualAddressSpace disk s;
           let h = h\<lparr>hd_section_handle := handle, hd_section := view\<rparr>;
           (if \<not> NT_SUCCESS status then Some (status, release_held h s)
            else do {
              (status, disk_buffer, _, s) \<leftarrow> StoreModuleExecutableRegionsInBuffer env (di_memory disk) view
                 (ucast (ucast size :: u32)) False s;
              let h = h\<lparr>hd_disk_buffer := buffer_address disk_buffer\<rparr>;
              (if \<not> NT_SUCCESS status then Some (status, release_held h s)
               else do {
                 (_, memory_bytes) \<leftarrow> memory_buffer;
                 (_, disk_bytes) \<leftarrow> disk_buffer;
                 (status, disk_hash, memory_hash, s) \<leftarrow> ComputeHashOfSections env memory_bytes disk_bytes s;
                 let h = h\<lparr>hd_disk_hash := fst disk_hash, hd_memory_hash := fst memory_hash\<rparr>;
                 (if \<not> NT_SUCCESS status then Some (status, release_held h s)
                  else do {
                    s \<leftarrow> (if CompareHashes (snd disk_hash) (snd memory_hash) (length (snd memory_hash)) then Some s
                          else ReportInvalidProcessModule env csq module_info s);
                    Some (status, release_held h s)
                  })
               })
            })
         })
      })
   }"

section \<open>Hashing a module\<close>

text \<open>
  An enumeration of the process list with a callback that fills a variable of the caller.
\<close>

partial_function (option) enumerate_with ::
  "('c \<Rightarrow> ptr \<Rightarrow> 'c option) \<Rightarrow> (ptr \<rightharpoonup> ptr) \<Rightarrow> ptr \<Rightarrow> 'c \<Rightarrow> 'c option" where
  "enumerate_with callback links entry c =
     (if entry = NULL then Some c
      else do {
        c \<leftarrow> callback c entry;
        nxt \<leftarrow> links entry;
        enumerate_with callback links nxt c
      })"

definition FindWinLogonProcess :: "integrity_env \<Rightarrow> 'a cb_st_scheme \<Rightarrow> ptr \<Rightarrow> ptr \<Rightarrow> ptr option" where
  "FindWinLogonProcess env s process Entry = do {
     e \<leftarrow> process_entry s Entry;
     Some (if ie_process_name env (pl_process e) = ''winlogon.exe'' then pl_process e else process)
   }"

definition StoreModuleExecutableRegionsx86 ::
  "integrity_env \<Rightarrow> RTL_MODULE_EXTENDED_INFO \<Rightarrow> 'a cb_st_scheme
   \<Rightarrow> (NTSTATUS \<times> (ptr \<times> u8 list) option \<times> u64 \<times> 'a cb_st_scheme) option" where
  "StoreModuleExecutableRegionsx86 env Module s = do {
     let s = emit (Acquire ProcessListLock) s;
     first \<leftarrow> slist s ProcessHead;
     process \<leftarrow> enumerate_with (FindWinLogonProcess env s) (slist s) first NULL;
     let s = emit (Release ProcessListLock) s;
     (if process = NULL then Some (STATUS_NOT_FOUND, None, 0, s)
      else do {
        let s = emit (Call ''KeStackAttachProcess'' [process]) s;
        (status, buffer, size, s) \<leftarrow> StoreModuleExecutableRegionsInBuffer env (ie_process_memory env process)
           (mi_ImageBase Module) (ucast (mi_ImageSize Module)) True s;
        Some (status, buffer, size, emit (Call ''KeUnstackDetachProcess'' []) s)
      })
   }"

text \<open>
  The answer is the status and the hash, which is what the routine copies to the caller's buffer of
  32 bytes. Only the first of the stored sections is hashed.
\<close>

definition HashModule ::
  "integrity_env \<Rightarrow> RTL_MODULE_EXTENDED_INFO \<Rightarrow> 'a cb_st_scheme \<Rightarrow> (NTSTATUS \<times> u8 list \<times> 'a cb_st_scheme) option" where
  "HashModule env Module s =
     (let (status, path) = ie_unicode env;
          free_path = (\<lambda>s. if path \<noteq> NULL then emit (Call ''RtlFreeUnicodeString'' [path]) s else s) in
      if \<not> NT_SUCCESS status then Some (status, [], free_path s)
      else if \<not> ie_valid env (mi_ImageBase Module) \<and> \<not> can_hash_x86 s
      then Some (STATUS_INVALID_IMAGE_WIN_32, [], free_path s)
      else do {
        (status, buffer, _, s) \<leftarrow>
          (if \<not> ie_valid env (mi_ImageBase Module) then StoreModuleExecutableRegionsx86 env Module s
           else StoreModuleExecutableRegionsInBuffer env (ie_memory env) (mi_ImageBase Module) (ucast (mi_ImageSize Module)) False s);
        (if \<not> NT_SUCCESS status then Some (status, [], free_path (free_if (buffer_address buffer) s))
         else do {
           (p, bytes) \<leftarrow> buffer;
           size \<leftarrow> section_raw_size bytes;
           data \<leftarrow> section_data bytes (unat size);
           let (status, q, hash, s) = ComputeHashOfBuffer env data s;
           (if NT_SUCCESS status \<and> SHA_256_HASH_LENGTH < length hash then None
            else Some (status, if NT_SUCCESS status then hash else [], free_path (free_if q (free_if p s))))
         })
      })"

text \<open>
  A module that is not found, or no memory for the hash, leaves the success status of the query.
\<close>

definition ValidateOurDriverImage :: "integrity_env \<Rightarrow> 'a drv_st_scheme \<Rightarrow> (NTSTATUS \<times> 'a drv_st_scheme) option" where
  "ValidateOurDriverImage env s =
     (case query_modules (ie_query env) (ie_alloc env) s of (status, m, s) \<Rightarrow>
        let free = (\<lambda>s. if sm_address m \<noteq> NULL then free_modules m s else s) in
        if \<not> NT_SUCCESS status then Some (status, s)
        else do {
          r \<leftarrow> find_own_module env m s;
          (case r of
             None \<Rightarrow> Some (status, free s)
           | Some x \<Rightarrow>
              (case ExAllocatePool2 (ie_alloc env) POOL_TAG_INTEGRITY s of
                 (None, s) \<Rightarrow> Some (status, free s)
               | (Some memory_hash, s) \<Rightarrow> do {
                   let done = (\<lambda>s. free (emit (PoolFree memory_hash POOL_TAG_INTEGRITY) s));
                   (entry, s) \<leftarrow> FindDriverEntryByBaseAddress (mi_ImageBase x) s;
                   (if entry = NULL then Some (status, done s)
                    else do {
                      e \<leftarrow> driver_entry s entry;
                      (if \<not> de_hashed e then Some (STATUS_HASH_NOT_PRESENT, done s)
                       else do {
                         (status, hash, s) \<leftarrow> HashModule env x s;
                         (if \<not> NT_SUCCESS status then Some (status, done s)
                          else Some (status, done (emit (Call
                                 (if CompareHashes hash (de_text_hash e) SHA_256_HASH_LENGTH
                                  then ''Driver image is valid'' else ''Driver image is NOT valid'') [mi_ImageBase x]) s)))
                       })
                    })
                 }))
        })"

section \<open>The signature scan\<close>

text \<open>
  The comparison reads one byte behind a full match before it notices the end of the signature.
\<close>

primrec matches_at :: "memory \<Rightarrow> ptr \<Rightarrow> u8 list \<Rightarrow> bool option" where
  "matches_at m p [] = map_option (\<lambda>_. True) (m p)"
| "matches_at m p (c # cs) = do {
     b \<leftarrow> m p;
     (if b \<noteq> c then Some False else matches_at m (p + 1) cs)
   }"

primrec scan_loop :: "memory \<Rightarrow> ptr \<Rightarrow> u8 list \<Rightarrow> nat list \<Rightarrow> ptr option" where
  "scan_loop m base signature [] = Some NULL"
| "scan_loop m base signature (i # is) = do {
     hit \<leftarrow> matches_at m (base + of_nat i) signature;
     (if hit then Some (base + of_nat i) else scan_loop m base signature is)
   }"

definition ScanForSignature :: "memory \<Rightarrow> ptr \<Rightarrow> u64 \<Rightarrow> u8 list \<Rightarrow> ptr option" where
  "ScanForSignature m BaseAddress MaxLength Signature = scan_loop m BaseAddress Signature [0..<unat MaxLength]"

section \<open>Hooks in second-level page tables\<close>

text \<open>
  \<open>aperf address i\<close> are the readings of the counter before and after the \<open>i\<close>-th measured read of an
  address.
\<close>

record ept_env =
  ept_aperf :: "ptr \<Rightarrow> nat \<Rightarrow> u64 \<times> u64"
  ept_routine :: "string \<Rightarrow> ptr"
  ept_old_irql :: u64

definition EPT_CHECK_NUM_ITERATIONS :: nat where "EPT_CHECK_NUM_ITERATIONS = 30"
definition EPT_EXECUTION_TIME_MULTIPLIER :: u64 where "EPT_EXECUTION_TIME_MULTIPLIER = 10"

definition CONTROL_FUNCTIONS :: "string list" where
  "CONTROL_FUNCTIONS = [''RtlAssert'', ''PsAcquireSiloHardReference'', ''PsDereferencePrimaryToken'', ''ZwCommitEnlistment'']"

definition PROTECTED_FUNCTIONS :: "string list" where
  "PROTECTED_FUNCTIONS = [''ExAllocatePoolWithTag'', ''MmCopyMemory'']"

definition MeasureInstructionRead :: "ept_env \<Rightarrow> ptr \<Rightarrow> nat \<Rightarrow> u64" where
  "MeasureInstructionRead e a i = push_bit 32 (snd (ept_aperf e a i)) - push_bit 32 (fst (ept_aperf e a i))"

text \<open>The first read is not counted.\<close>

definition MeasureReads :: "ept_env \<Rightarrow> ptr \<Rightarrow> nat \<Rightarrow> 'a kst_scheme \<Rightarrow> u64 \<times> 'a kst_scheme" where
  "MeasureReads e Address Count s =
     (let s = emit (Call ''disable'' []) (emit (Call ''writecr8'' [HIGH_LEVEL]) s);
          read_average = sum_list (map (MeasureInstructionRead e Address) [1..<Suc Count]);
          s = emit (Call ''writecr8'' [ept_old_irql e]) (emit (Call ''enable'' []) s)
      in (read_average div of_nat Count, s))"

definition GetAverageReadTimeAtRoutine ::
  "ept_env \<Rightarrow> ptr \<Rightarrow> u64 \<Rightarrow> 'a kst_scheme \<Rightarrow> NTSTATUS \<times> u64 \<times> 'a kst_scheme" where
  "GetAverageReadTimeAtRoutine e RoutineAddress AverageTime s =
     (if RoutineAddress = NULL then (STATUS_UNSUCCESSFUL, AverageTime, s)
      else case MeasureReads e RoutineAddress EPT_CHECK_NUM_ITERATIONS s of (t, s) \<Rightarrow>
        (if t = 0 then STATUS_UNSUCCESSFUL else STATUS_SUCCESS, t, s))"

text \<open>The addresses of the control and the protected functions, or an error at the first that is missing.\<close>

primrec routine_addresses :: "ept_env \<Rightarrow> string list \<Rightarrow> ptr list option" where
  "routine_addresses e [] = Some []"
| "routine_addresses e (n # ns) =
     (if ept_routine e n = NULL then None else map_option ((#) (ept_routine e n)) (routine_addresses e ns))"

definition InitiateEptFunctionAddressArrays :: "ept_env \<Rightarrow> NTSTATUS \<times> ptr list \<times> ptr list" where
  "InitiateEptFunctionAddressArrays e =
     (case routine_addresses e CONTROL_FUNCTIONS of
        None \<Rightarrow> (STATUS_UNSUCCESSFUL, [], [])
      | Some cs \<Rightarrow> (case routine_addresses e PROTECTED_FUNCTIONS of
           None \<Rightarrow> (STATUS_UNSUCCESSFUL, cs, [])
         | Some ps \<Rightarrow> (STATUS_SUCCESS, cs, ps)))"

text \<open>The state of the control loop: the last measured time, the sum, and the failures.\<close>

primrec control_loop :: "ept_env \<Rightarrow> ptr list \<Rightarrow> u64 \<times> u64 \<times> u32 \<Rightarrow> 'a kst_scheme \<Rightarrow> (u64 \<times> u64 \<times> u32) \<times> 'a kst_scheme" where
  "control_loop e [] c s = (c, s)"
| "control_loop e (a # as) c s = (case c of (time, time_sum, fails) \<Rightarrow>
     (case GetAverageReadTimeAtRoutine e a time s of (status, time, s) \<Rightarrow>
        if \<not> NT_SUCCESS status then control_loop e as (time, time_sum, fails + 1) s
        else control_loop e as (time, time_sum + time, fails) s))"

primrec protected_loop :: "ept_env \<Rightarrow> u64 \<Rightarrow> ptr list \<Rightarrow> NTSTATUS \<times> u64 \<Rightarrow> 'a kst_scheme \<Rightarrow> NTSTATUS \<times> 'a kst_scheme" where
  "protected_loop e average [] c s = (fst c, s)"
| "protected_loop e average (a # as) c s =
     (case GetAverageReadTimeAtRoutine e a (snd c) s of (status, time, s) \<Rightarrow>
        if \<not> NT_SUCCESS status then protected_loop e average as (status, time) s
        else if average * EPT_EXECUTION_TIME_MULTIPLIER < time
        then protected_loop e average as (status, time) (emit (Call ''EPT hook detected'' [a, time]) s)
        else protected_loop e average as (status, time) s)"

definition DetectEptHooksInKeyFunctions :: "ept_env \<Rightarrow> 'a kst_scheme \<Rightarrow> NTSTATUS \<times> 'a kst_scheme" where
  "DetectEptHooksInKeyFunctions e s =
     (case InitiateEptFunctionAddressArrays e of (status, controls, protected) \<Rightarrow>
        if \<not> NT_SUCCESS status then (status, s)
        else case control_loop e controls (0, 0, 0) s of ((time, time_sum, fails), s) \<Rightarrow>
          if time_sum = 0 then (STATUS_UNSUCCESSFUL, s)
          else
            let average = time_sum div ucast (of_nat (length CONTROL_FUNCTIONS) - fails :: u32) in
            if average = 0 then (STATUS_UNSUCCESSFUL, s)
            else protected_loop e average protected (status, time) s)"

section \<open>Processor usage and dispatch routines\<close>

text \<open>The times of the idle thread and of the processor; with both processor times zero the division faults.\<close>

definition CalculateCpuCoreUsage :: "u32 \<Rightarrow> u32 \<Rightarrow> u32 \<Rightarrow> u32 \<Rightarrow> 'a kst_scheme \<Rightarrow> (u32 \<times> 'a kst_scheme) option" where
  "CalculateCpuCoreUsage Core idle_time kernel_time user_time s =
     (let s = emit (Call ''KeSetSystemAffinityThread'' [push_bit (unat Core) 1]) s in
      if kernel_time + user_time = 0 then None
      else Some (100 - ucast (ucast idle_time * 100 div (ucast (kernel_time + user_time) :: u64)), s))"

datatype dispatch_routine = DeviceCreateRoutine | DeviceCloseRoutine | DeviceControlRoutine | OtherRoutine

text \<open>The three entries of the dispatch table of our own driver object.\<close>

definition ValidateOurDriversDispatchRoutines ::
  "dispatch_routine \<Rightarrow> dispatch_routine \<Rightarrow> dispatch_routine \<Rightarrow> bool" where
  "ValidateOurDriversDispatchRoutines create close control \<longleftrightarrow>
     create = DeviceCreateRoutine \<and> close = DeviceCloseRoutine \<and> control = DeviceControlRoutine"

section \<open>What is stored of an image\<close>

text \<open>
  A readable run of section headers, as a list: whether the section is executable, its header and
  its raw data.
\<close>

type_synonym image_section = "bool \<times> u8 list \<times> u8 list"

fun image_sections :: "memory \<Rightarrow> ptr \<Rightarrow> ptr \<Rightarrow> image_section list \<Rightarrow> bool" where
  "image_sections m base section [] = True"
| "image_sections m base section ((executable, header, data) # xs) =
     ((case section_field m section ''Characteristics'' of None \<Rightarrow> False
       | Some c \<Rightarrow> executable = (c AND IMAGE_SCN_MEM_EXECUTE \<noteq> 0))
      \<and> read_bytes m section sizeof_IMAGE_SECTION_HEADER = Some header
      \<and> (case (section_field m section ''PointerToRawData'', section_field m section ''SizeOfRawData'') of
           (Some p, Some n) \<Rightarrow> read_bytes m (base + ucast p) (unat n) = Some data
         | _ \<Rightarrow> False)
      \<and> image_sections m base (section + of_nat sizeof_IMAGE_SECTION_HEADER) xs)"

definition packets :: "image_section list \<Rightarrow> u8 list" where
  "packets xs = concat (map (\<lambda>(executable, header, data). if executable then header @ data else []) xs)"

definition executables :: "image_section list \<Rightarrow> nat" where
  "executables xs = length (filter fst xs)"

text \<open>Bytes written over a buffer.\<close>

definition overwrite :: "nat \<Rightarrow> u8 list \<Rightarrow> u8 list \<Rightarrow> u8 list" where
  "overwrite off bs buf = take off buf @ bs @ drop (off + length bs) buf"

lemma write_at_eq: "write_at off bs buf = (if off + length bs \<le> length buf then Some (overwrite off bs buf) else None)"
  by (simp add: write_at_def overwrite_def)

lemma overwrite_Nil [simp]: "overwrite off [] buf = buf"
  by (simp add: overwrite_def)

lemma length_overwrite [simp]: "off + length bs \<le> length buf \<Longrightarrow> length (overwrite off bs buf) = length buf"
  by (simp add: overwrite_def)

lemma overwrite_append:
  assumes "off + length bs \<le> length buf"
  shows "overwrite (off + length bs) cs (overwrite off bs buf) = overwrite off (bs @ cs) buf"
proof -
  define a where "a = take off buf @ bs"
  have a: "length a = off + length bs" using assms by (simp add: a_def)
  have s: "overwrite off bs buf = a @ drop (length a) buf" using a by (simp add: overwrite_def a_def)
  have "overwrite (length a) cs (a @ drop (length a) buf) = a @ cs @ drop (length a + length cs) buf"
    by (simp add: overwrite_def add.commute)
  then show ?thesis unfolding s a[symmetric] using a by (simp add: overwrite_def a_def add.assoc)
qed

lemma unat_add_small: "unat (a :: u32) + n < 2 ^ 32 \<Longrightarrow> unat (a + of_nat n) = unat a + n"
  by (simp add: unat_word_ariths unat_of_nat take_bit_eq_mod mod_add_right_eq)

lemma no_packets: "executables xs = 0 \<Longrightarrow> packets xs = []"
  by (induction xs) (auto simp: executables_def packets_def split: if_splits)

text \<open>One executable section: both writes succeed when header and data fit, and otherwise one faults.\<close>

lemma store_executable:
  fixes st :: store
  assumes "section_field m sec ''Characteristics'' = Some c" "c AND IMAGE_SCN_MEM_EXECUTE \<noteq> 0"
    and "section_field m sec ''PointerToRawData'' = Some p" "section_field m sec ''SizeOfRawData'' = Some n"
    and "read_bytes m (base + ucast p) (unat n) = Some d" "read_bytes m sec sizeof_IMAGE_SECTION_HEADER = Some h"
  defines "t \<equiv> sizeof_INTEGRITY_CHECK_HEADER + unat (st_total_packet_size st)"
  shows "store_sections m err base (Suc k) sec st =
    (if t + length (h @ d) \<le> length (st_buffer st)
     then store_sections m err base k (sec + of_nat sizeof_IMAGE_SECTION_HEADER)
        \<lparr>st_status = STATUS_SUCCESS, st_total_packet_size = st_total_packet_size st + of_nat (length (h @ d)),
         st_num_executable_sections = st_num_executable_sections st + 1, st_buffer = overwrite t (h @ d) (st_buffer st)\<rparr>
     else None)"
proof -
  have len: "length h = sizeof_IMAGE_SECTION_HEADER" "length d = unat n"
    using read_bytes_length[OF assms(6)] read_bytes_length[OF assms(5)] by simp_all
  have sz: "n + of_nat sizeof_IMAGE_SECTION_HEADER = of_nat (length (h @ d))" using len by (simp add: add.commute)
  have w: "write_at (t + sizeof_IMAGE_SECTION_HEADER) d (overwrite t h (st_buffer st))
      = (if t + length (h @ d) \<le> length (st_buffer st) then Some (overwrite t (h @ d) (st_buffer st)) else None)"
    if "t + length h \<le> length (st_buffer st)"
    using that overwrite_append[of t h "st_buffer st" d] len(1) by (simp add: write_at_eq)
  show ?thesis
    unfolding sz[symmetric] using assms(1-6) w
    by (cases "t + length h \<le> length (st_buffer st)") (simp_all add: t_def[symmetric] write_at_eq[of t h])
qed

lemma store_sections_law:
  assumes "image_sections m base sec xs" "unat (st_total_packet_size st) + length (packets xs) < 2 ^ 32"
  defines "t \<equiv> sizeof_INTEGRITY_CHECK_HEADER + unat (st_total_packet_size st)"
  shows "store_sections m err base (length xs) sec st =
    (if t + length (packets xs) \<le> length (st_buffer st) \<or> executables xs = 0 then Some (Inr
        \<lparr>st_status = (if executables xs = 0 then st_status st else STATUS_SUCCESS),
         st_total_packet_size = st_total_packet_size st + of_nat (length (packets xs)),
         st_num_executable_sections = st_num_executable_sections st + of_nat (executables xs),
         st_buffer = overwrite t (packets xs) (st_buffer st)\<rparr>)
     else None)"
  using assms(1,2) unfolding t_def
proof (induction xs arbitrary: sec st)
  case Nil
  then show ?case by (simp add: packets_def executables_def)
next
  case (Cons x xs)
  obtain e h d where x: "x = (e, h, d)" by (cases x)
  from Cons.prems(1) obtain c p n where s: "section_field m sec ''Characteristics'' = Some c"
    "e = (c AND IMAGE_SCN_MEM_EXECUTE \<noteq> 0)"
    "section_field m sec ''PointerToRawData'' = Some p" "section_field m sec ''SizeOfRawData'' = Some n"
    "read_bytes m (base + ucast p) (unat n) = Some d" "read_bytes m sec sizeof_IMAGE_SECTION_HEADER = Some h"
    "image_sections m base (sec + of_nat sizeof_IMAGE_SECTION_HEADER) xs"
    by (auto simp: x split: option.splits)
  show ?case
  proof (cases e)
    case False
    then have pk: "packets (x # xs) = packets xs" "executables (x # xs) = executables xs"
      by (simp_all add: x packets_def executables_def)
    from Cons.IH[OF s(7), of st] Cons.prems(2) show ?thesis unfolding pk using s(1,2) False by simp
  next
    case True
    then have pk: "packets (x # xs) = (h @ d) @ packets xs" "executables (x # xs) = Suc (executables xs)"
      by (simp_all add: x packets_def executables_def)
    let ?T = "unat (st_total_packet_size st)" and ?o = "sizeof_INTEGRITY_CHECK_HEADER"
    define st' where "st' = \<lparr>st_status = STATUS_SUCCESS, st_total_packet_size = st_total_packet_size st + of_nat (length (h @ d)),
         st_num_executable_sections = st_num_executable_sections st + 1, st_buffer = overwrite (?o + ?T) (h @ d) (st_buffer st)\<rparr>"
    have lt: "?T + length (h @ d) + length (packets xs) < 2 ^ 32" using Cons.prems(2) pk by simp
    have T': "unat (st_total_packet_size st') = ?T + length (h @ d)"
      unfolding st'_def using lt by (simp only: store.select_convs) (intro unat_add_small, simp)
    have step: "store_sections m err base (length (x # xs)) sec st = (if ?o + ?T + length (h @ d) \<le> length (st_buffer st)
        then store_sections m err base (length xs) (sec + of_nat sizeof_IMAGE_SECTION_HEADER) st' else None)"
      using store_executable[OF s(1) _ s(3-6), of err "length xs" st] s(2) True by (simp add: st'_def)
    have IH: "unat (st_total_packet_size st') + length (packets xs) < 2 ^ 32" using T' lt by simp
    show ?thesis
      unfolding step Cons.IH[OF s(7) IH] T' pk
      using overwrite_append[of "?o + ?T" "h @ d" "st_buffer st" "packets xs"] no_packets[of xs]
      by (cases "executables xs = 0"; cases "?o + ?T + length (h @ d) \<le> length (st_buffer st)")
        (simp_all add: st'_def add.assoc)
  qed
qed

text \<open>The headers of an image with a run of sections behind them.\<close>

definition image_at :: "memory \<Rightarrow> ptr \<Rightarrow> u16 \<Rightarrow> image_section list \<Rightarrow> bool" where
  "image_at m base count xs \<longleftrightarrow> (\<exists>e_lfanew optional_size.
     read_u32 m (base + FIELD_OFFSET IMAGE_DOS_HEADER_layout ''e_lfanew'') = Some e_lfanew
     \<and> read_u16 m (base + scast e_lfanew + FIELD_OFFSET LOCAL_NT_HEADER_layout ''FileHeader''
          + FIELD_OFFSET IMAGE_FILE_HEADER_layout ''NumberOfSections'') = Some count
     \<and> read_u16 m (base + scast e_lfanew + FIELD_OFFSET LOCAL_NT_HEADER_layout ''FileHeader''
          + FIELD_OFFSET IMAGE_FILE_HEADER_layout ''SizeOfOptionalHeader'') = Some optional_size
     \<and> image_sections m base (base + scast e_lfanew + FIELD_OFFSET LOCAL_NT_HEADER_layout ''OptionalHeader''
          + ucast optional_size) xs)"

text \<open>The casts between the two widths lose nothing for sizes below \<open>2 ^ 32\<close>.\<close>

lemma buffer_size_cast:
  assumes "unat (ModuleSize :: u64) + 8 < 2 ^ 32"
  shows "unat (ucast (ModuleSize + of_nat sizeof_INTEGRITY_CHECK_HEADER) :: u32) = unat ModuleSize + 8"
proof -
  have "unat (ModuleSize + 8) = unat ModuleSize + 8" using assms by (simp add: unat_word_ariths take_bit_eq_mod)
  then show ?thesis using assms by (simp add: sizeof_INTEGRITY_CHECK_HEADER_def unsigned_ucast_eq take_bit_eq_mod)
qed

lemma section_count_cast:
  assumes "unat (count :: u16) = Suc n"
  shows "unat (ucast count - 1 :: u32) = n"
proof -
  have "unat (ucast count :: u32) = Suc n"
    using assms unsigned_less[of count, where 'a = nat] by (simp add: unsigned_ucast_eq take_bit_eq_mod)
  moreover from this have "(1 :: u32) \<le> ucast count" by (simp add: word_le_nat_alt)
  ultimately show ?thesis by (simp add: unat_sub)
qed

lemma packet_size_cast:
  assumes "n + 8 < 2 ^ 32"
  shows "(ucast (of_nat n :: u32) + of_nat sizeof_INTEGRITY_CHECK_HEADER :: u64) = of_nat (n + 8)"
    "unat (ucast (of_nat n + 8 :: u64) :: u32) = n + 8"
    "unat (ucast (ucast (of_nat n :: u32) + of_nat sizeof_INTEGRITY_CHECK_HEADER :: u64) :: u32) = n + 8"
proof -
  have "unat (of_nat n :: u32) = n" using assms by (intro unat_of_nat_eq) simp
  then have "unat (ucast (of_nat n :: u32) :: u64) = n" using assms by (simp add: unsigned_ucast_eq take_bit_eq_mod)
  then have "ucast (of_nat n :: u32) = (of_nat n :: u64)" using assms by (simp add: word_unat_eq_iff unat_of_nat_eq)
  then show eq: "(ucast (of_nat n :: u32) + of_nat sizeof_INTEGRITY_CHECK_HEADER :: u64) = of_nat (n + 8)"
    by (simp add: sizeof_INTEGRITY_CHECK_HEADER_def)
  have "unat (of_nat (n + 8) :: u64) = n + 8" using assms by (intro unat_of_nat_eq) simp
  then have cast: "unat (ucast (of_nat (n + 8) :: u64) :: u32) = n + 8"
    using assms by (simp only: unsigned_ucast_eq) (simp add: take_bit_eq_mod)
  then show "unat (ucast (of_nat n + 8 :: u64) :: u32) = n + 8" by simp
  show "unat (ucast (ucast (of_nat n :: u32) + of_nat sizeof_INTEGRITY_CHECK_HEADER :: u64) :: u32) = n + 8"
    using cast by (simp only: eq)
qed

lemma store_regions_law:
  assumes img: "image_at m base count xs" "unat count = Suc (length xs)" "executables xs \<noteq> 0"
    and args: "base \<noteq> NULL" "ie_valid env base" "0 < unat ModuleSize" "unat ModuleSize + 8 < 2 ^ 32" "length (packets xs) + 8 < 2 ^ 32"
    and al: "ie_alloc env (k_allocs s) = Some p"
  shows "StoreModuleExecutableRegionsInBuffer env m base ModuleSize x86 s =
     (if length (packets xs) \<le> unat ModuleSize
      then Some (STATUS_SUCCESS,
             Some (p, le_bytes 4 (unat (of_nat (executables xs) :: u32)) @ le_bytes 4 (length (packets xs) + 8) @ packets xs
                      @ replicate (unat ModuleSize - length (packets xs)) 0),
             of_nat (length (packets xs) + 8), emit (PoolAlloc p POOL_TAG_INTEGRITY) (s\<lparr>k_allocs := Suc (k_allocs s)\<rparr>))
      else None)"
proof -
  let ?n = "length (packets xs)"
  note sz = buffer_size_cast[OF args(4)] and cnt = section_count_cast[OF img(2)] and w = packet_size_cast[OF args(5)]
  obtain e_lfanew optional_size where h:
     "read_u32 m (base + FIELD_OFFSET IMAGE_DOS_HEADER_layout ''e_lfanew'') = Some e_lfanew"
     "read_u16 m (base + scast e_lfanew + FIELD_OFFSET LOCAL_NT_HEADER_layout ''FileHeader''
          + FIELD_OFFSET IMAGE_FILE_HEADER_layout ''NumberOfSections'') = Some count"
     "read_u16 m (base + scast e_lfanew + FIELD_OFFSET LOCAL_NT_HEADER_layout ''FileHeader''
          + FIELD_OFFSET IMAGE_FILE_HEADER_layout ''SizeOfOptionalHeader'') = Some optional_size"
     "image_sections m base (base + scast e_lfanew + FIELD_OFFSET LOCAL_NT_HEADER_layout ''OptionalHeader''
          + ucast optional_size) xs"
    using img(1) by (auto simp: image_at_def)
  define st0 where "st0 = \<lparr>st_status = STATUS_UNSUCCESSFUL, st_total_packet_size = 0, st_num_executable_sections = 0,
      st_buffer = replicate (unat ModuleSize + 8) 0\<rparr>"
  have lt: "unat (st_total_packet_size st0) + length (packets xs) < 2 ^ 32" using args(5) by (simp add: st0_def)
  have ss: "store_sections m (ie_copy_error env) base (length xs)
      (base + scast e_lfanew + FIELD_OFFSET LOCAL_NT_HEADER_layout ''OptionalHeader'' + ucast optional_size) st0
    = (if ?n \<le> unat ModuleSize then Some (Inr \<lparr>st_status = STATUS_SUCCESS, st_total_packet_size = of_nat ?n,
         st_num_executable_sections = of_nat (executables xs),
         st_buffer = replicate 8 0 @ packets xs @ replicate (unat ModuleSize - ?n) 0\<rparr>) else None)"
    using store_sections_law[OF h(4) lt, of "ie_copy_error env"] img(3)
    by (simp add: st0_def sizeof_INTEGRITY_CHECK_HEADER_def overwrite_def)
  have ne: "ModuleSize \<noteq> 0" using args(3) by auto
  show ?thesis
    using h(1-3) ss ne args(1,2) al
    by (simp add: StoreModuleExecutableRegionsInBuffer_def ExAllocatePool2_def sz cnt st0_def Let_def w)
      (simp add: write_at_def w(2))
qed

section \<open>Properties\<close>


text \<open>An image of two sections; the first is executable, with two bytes of code.\<close>

definition example_header :: "u8 list" where
  "example_header = replicate 16 0 @ [2, 0, 0, 0] @ [0xA8, 0, 0, 0] @ replicate 12 0 @ [0, 0, 0, 0x20]"

definition example_pe_memory :: memory where
  "example_pe_memory p =
     (if p < 0x10000 \<or> 0x100AA \<le> p then None
      else if p = 0x1003C then Some 0x40 else if p = 0x10046 then Some 2 else if p = 0x10068 then Some 2
      else if p = 0x1006C then Some 0xA8 else if p = 0x1007F then Some 0x20 else if p = 0x100A8 then Some 0x90
      else if p = 0x100A9 then Some 0xC3 else Some 0)"

definition example_integrity_env :: integrity_env where
  "example_integrity_env = \<lparr>ie_memory = example_pe_memory, ie_process_memory = (\<lambda>_. example_pe_memory), ie_valid = (\<lambda>_. True),
     ie_copy_error = STATUS_UNSUCCESSFUL, ie_query = example_query, ie_ansi = (\<lambda>_. ''a.sys''),
     ie_disk = (\<lambda>_. \<lparr>di_open = (0, 1), di_section = (0, 2), di_view = (0, 0x10000, 0xAA), di_memory = example_pe_memory\<rparr>),
     ie_unicode = (STATUS_SUCCESS, 0x800), ie_process_name = (\<lambda>_. []),
     ie_bcrypt = \<lparr>bc_open = 0, bc_object_length = 0, bc_hash_length = (0, 32), bc_create = 0, bc_data = 0, bc_finish = 0,
                  bc_sha256 = (\<lambda>bs. take 32 (bs @ replicate 32 0))\<rparr>,
     ie_alloc = (\<lambda>n. Some (0x3000 + of_nat n))\<rparr>"

lemma section_offsets:
  "FIELD_OFFSET IMAGE_SECTION_HEADER_layout ''SizeOfRawData'' = 0x10"
  "FIELD_OFFSET IMAGE_SECTION_HEADER_layout ''PointerToRawData'' = 0x14"
  by (simp_all add: FIELD_OFFSET_def layouts align_up_def)

lemma read_bytes_numeral:
  "read_bytes m p (numeral k) = do { b \<leftarrow> m p; bs \<leftarrow> read_bytes m (p + 1) (pred_numeral k); Some (b # bs) }"
  by (simp add: numeral_eq_Suc)

lemma replicate_numeral: "replicate (numeral k) x = x # replicate (pred_numeral k) x"
  by (simp add: numeral_eq_Suc)

lemma example_image: "image_at example_pe_memory 0x10000 2 [(True, example_header, [0x90, 0xC3])]"
proof -
  have h: "read_u32 example_pe_memory 0x1003C = Some 0x40" "read_u16 example_pe_memory 0x10046 = Some 2"
    "read_u16 example_pe_memory 0x10054 = Some 0"
    by (simp_all add: read_u32_unfold read_u16_unfold example_pe_memory_def)
  have f: "section_field example_pe_memory 0x10058 ''Characteristics'' = Some 0x20000000"
    "section_field example_pe_memory 0x10058 ''PointerToRawData'' = Some 0xA8"
    "section_field example_pe_memory 0x10058 ''SizeOfRawData'' = Some 2"
    by (simp_all add: section_field_def layout_offsets section_offsets read_u32_unfold example_pe_memory_def)
  have r: "read_bytes example_pe_memory 0x10058 sizeof_IMAGE_SECTION_HEADER = Some example_header"
    "read_bytes example_pe_memory 0x100A8 2 = Some [0x90, 0xC3]"
    by (simp_all add: sizeof_IMAGE_SECTION_HEADER_def example_header_def example_pe_memory_def read_bytes_numeral
        replicate_numeral)
  have "image_sections example_pe_memory 0x10000 0x10058 [(True, example_header, [0x90, 0xC3])]"
    using f r by (simp add: IMAGE_SCN_MEM_EXECUTE_def)
  then show ?thesis unfolding image_at_def using h
    by (intro exI[of _ "0x40"] exI[of _ 0]) (simp add: layout_offsets)
qed


section \<open>What a module hash covers\<close>

lemma read_bytes_nth: "read_bytes m p n = Some bs \<Longrightarrow> i < n \<Longrightarrow> m (p + of_nat i) = Some (bs ! i)"
proof (induction n arbitrary: p bs i)
  case (Suc n)
  then obtain b cs where b: "m p = Some b" "read_bytes m (p + 1) n = Some cs" "bs = b # cs"
    by (auto split: bind_splits)
  show ?case
  proof (cases i)
    case (Suc j)
    then show ?thesis using Suc.IH[OF b(2), of j] Suc.prems(2) b(3) by (simp add: ac_simps)
  qed (use b in simp)
qed simp

lemma read_bytes_all: "(\<And>i. i < length bs \<Longrightarrow> m (p + of_nat i) = Some (bs ! i)) \<Longrightarrow> read_bytes m p (length bs) = Some bs"
proof (induction bs arbitrary: p)
  case (Cons b bs)
  have "read_bytes m (p + 1) (length bs) = Some bs"
    by (rule Cons.IH) (use Cons.prems[of "Suc i" for i] in \<open>simp add: ac_simps\<close>)
  then show ?case using Cons.prems[of 0] by simp
qed simp

lemma read_bytes_slice:
  assumes "read_bytes m p n = Some bs" "i + k \<le> n"
  shows "read_bytes m (p + of_nat i) k = Some (take k (drop i bs))"
proof -
  have "length bs = n" using read_bytes_length[OF assms(1)] .
  then have "length (take k (drop i bs)) = k" using assms(2) by simp
  moreover have "read_bytes m (p + of_nat i) (length (take k (drop i bs))) = Some (take k (drop i bs))"
    using read_bytes_nth[OF assms(1), of "i + j" for j] assms(2) \<open>length bs = n\<close>
    by (intro read_bytes_all) (simp add: add.assoc[symmetric])
  ultimately show ?thesis by simp
qed

text \<open>The first executable section of the list.\<close>

definition first_executable :: "image_section list \<Rightarrow> (u8 list \<times> u8 list) option" where
  "first_executable xs = map_option snd (find fst xs)"

lemma first_section_packets:
  assumes "image_sections m base sec xs" "first_executable xs = Some (h, d)"
  shows "\<exists>more_packets. packets xs = h @ d @ more_packets \<and> length h = sizeof_IMAGE_SECTION_HEADER
    \<and> le_nat (take 4 (drop 16 h)) = length d"
  using assms
proof (induction xs arbitrary: sec)
  case (Cons x xs)
  obtain e h' d' where x: "x = (e, h', d')" by (cases x)
  show ?case
  proof (cases e)
    case False
    then show ?thesis using Cons.IH[of "sec + of_nat sizeof_IMAGE_SECTION_HEADER"] Cons.prems
      by (simp add: x packets_def first_executable_def)
  next
    case True
    then have hd: "h' = h" "d' = d" using Cons.prems(2) by (simp_all add: x first_executable_def)
    have s3: "read_bytes m sec sizeof_IMAGE_SECTION_HEADER = Some h" using Cons.prems(1) by (simp add: x hd)
    obtain p n where s12: "section_field m sec ''SizeOfRawData'' = Some n" "section_field m sec ''PointerToRawData'' = Some p"
      "read_bytes m (base + ucast p) (unat n) = Some d"
      using Cons.prems(1) by (simp add: x hd split: option.splits)
    note s = s12(1,3) s3
    have "read_bytes m (sec + of_nat 16) 4 = Some (take 4 (drop 16 h))"
      by (rule read_bytes_slice[OF s(3)]) (simp add: sizeof_IMAGE_SECTION_HEADER_def)
    then have n: "n = of_nat (le_nat (take 4 (drop 16 h)))"
      using s(1) by (simp add: section_field_def section_offsets read_u32_def)
    have "le_nat (take 4 (drop 16 h)) < 256 ^ 4"
      using le_nat_bound[of "take 4 (drop 16 h)"] read_bytes_length[OF s(3)] by (simp add: sizeof_IMAGE_SECTION_HEADER_def)
    then have "unat n = le_nat (take 4 (drop 16 h))" unfolding n by (intro unat_of_nat_eq) simp
    then show ?thesis
      using read_bytes_length[OF s(2)] read_bytes_length[OF s(3)] True by (simp add: x hd packets_def)
  qed
qed (simp add: first_executable_def)

lemma stored_section:
  assumes "packets xs = h @ d @ more_packets" "length h = sizeof_IMAGE_SECTION_HEADER" "le_nat (take 4 (drop 16 h)) = length d"
    and "length d < 2 ^ 32" "length a = 8"
  shows "section_raw_size (a @ packets xs @ z) = Some (of_nat (length d))"
    "section_data (a @ packets xs @ z) (length d) = Some d"
proof -
  have "take 4 (drop 24 (a @ h @ d @ more_packets @ z)) = take 4 (drop 16 h)"
    using assms(2,5) by (simp add: sizeof_IMAGE_SECTION_HEADER_def)
  then show "section_raw_size (a @ packets xs @ z) = Some (of_nat (length d))"
    using assms by (simp add: section_raw_size_def section_offsets sizeof_INTEGRITY_CHECK_HEADER_def
        sizeof_IMAGE_SECTION_HEADER_def Let_def)
  show "section_data (a @ packets xs @ z) (length d) = Some d"
    using assms by (simp add: section_data_def sizeof_INTEGRITY_CHECK_HEADER_def sizeof_IMAGE_SECTION_HEADER_def Let_def)
qed

definition bcrypt_ok :: "bcrypt \<Rightarrow> bool" where
  "bcrypt_ok b \<longleftrightarrow> NT_SUCCESS (bc_open b) \<and> NT_SUCCESS (bc_object_length b) \<and> bc_hash_length b = (STATUS_SUCCESS, 32)
     \<and> NT_SUCCESS (bc_create b) \<and> NT_SUCCESS (bc_data b) \<and> bc_finish b = STATUS_SUCCESS
     \<and> (\<forall>bs. length (bc_sha256 b bs) = 32)"

lemma ComputeHashOfBuffer_ok:
  assumes "bcrypt_ok (ie_bcrypt env)" "\<forall>n. ie_alloc env n \<noteq> None"
  shows "\<exists>q s'. ComputeHashOfBuffer env Buffer s = (STATUS_SUCCESS, q, bc_sha256 (ie_bcrypt env) Buffer, s')"
proof -
  obtain a b where "ie_alloc env (k_allocs s) = Some a" "ie_alloc env (Suc (k_allocs s)) = Some b"
    using assms(2) by fastforce
  then show ?thesis using assms(1)
    by (simp add: ComputeHashOfBuffer_def ExAllocatePool2_def bcrypt_ok_def Let_def)
qed

text \<open>The hash of a module is the digest of the raw data of its first executable section, provided that
  section is not the last of the image. The other executable sections are copied with it, but no
  change to them changes the hash that the integrity checks compare.\<close>

theorem module_hash_covers_first_section:
  assumes img: "image_at (ie_memory env) (mi_ImageBase x) count xs" "unat count = Suc (length xs)"
      "first_executable xs = Some (h, d)"
    and args: "mi_ImageBase x \<noteq> NULL" "ie_valid env (mi_ImageBase x)" "length (packets xs) \<le> unat (mi_ImageSize x)"
      "unat (mi_ImageSize x) + 8 < 2 ^ 32"
    and env: "NT_SUCCESS (fst (ie_unicode env))" "bcrypt_ok (ie_bcrypt env)" "\<forall>n. ie_alloc env n \<noteq> None"
  shows "\<exists>s'. HashModule env x s = Some (STATUS_SUCCESS, bc_sha256 (ie_bcrypt env) d, s')"
proof -
  from img(1) obtain sec where sec: "image_sections (ie_memory env) (mi_ImageBase x) sec xs"
    by (auto simp: image_at_def)
  from first_section_packets[OF sec img(3)] obtain more_packets where pk: "packets xs = h @ d @ more_packets"
    "length h = sizeof_IMAGE_SECTION_HEADER" "le_nat (take 4 (drop 16 h)) = length d" by blast
  have ex: "executables xs \<noteq> 0"
    using img(3) by (auto simp: first_executable_def executables_def find_Some_iff filter_empty_conv)
  have len: "length d < 2 ^ 32" "0 < length (packets xs)"
    using pk args(3,4) by (auto simp: sizeof_IMAGE_SECTION_HEADER_def)
  obtain p where p: "ie_alloc env (k_allocs s) = Some p" using env(3) by fastforce
  let ?size = "ucast (mi_ImageSize x) :: u64"
  have size: "unat ?size = unat (mi_ImageSize x)"
    using unsigned_less[of "mi_ImageSize x", where 'a = nat] by (simp add: unsigned_ucast_eq take_bit_eq_mod)
  define s1 where "s1 = emit (PoolAlloc p POOL_TAG_INTEGRITY) (s\<lparr>k_allocs := Suc (k_allocs s)\<rparr>)"
  define a where "a = le_bytes 4 (unat (of_nat (executables xs) :: u32)) @ le_bytes 4 (length (packets xs) + 8)"
  define z where "z = replicate (unat (mi_ImageSize x) - length (packets xs)) (0 :: u8)"
  have store: "StoreModuleExecutableRegionsInBuffer env (ie_memory env) (mi_ImageBase x) ?size False s
      = Some (STATUS_SUCCESS, Some (p, a @ packets xs @ z), of_nat (length (packets xs) + 8), s1)"
    using store_regions_law[OF img(1,2) ex args(1,2) _ _ _ p, of ?size False] args(3,4) len(2) size
    by (simp add: a_def z_def s1_def)
  note sd = stored_section[OF pk len(1), of a z]
  obtain q s2 where hash: "ComputeHashOfBuffer env d s1 = (STATUS_SUCCESS, q, bc_sha256 (ie_bcrypt env) d, s2)"
    using ComputeHashOfBuffer_ok[OF env(2,3)] by blast
  have "unat (of_nat (length d) :: u32) = length d" using len(1) by (intro unat_of_nat_eq) simp
  then show ?thesis
    using store sd hash env(1,2) args(2)
    by (cases "ie_unicode env") (simp add: HashModule_def a_def bcrypt_ok_def SHA_256_HASH_LENGTH_def)
qed

theorem module_hash_covers_first_section_witness:
  "\<exists>s'. HashModule example_integrity_env \<lparr>mi_ImageBase = 0x10000, mi_ImageSize = 0xAA, mi_FullPathName = ''a.sys''\<rparr> example_drv_st
     = Some (STATUS_SUCCESS, [0x90, 0xC3] @ replicate 30 0, s')"
proof -
  have "bcrypt_ok (ie_bcrypt example_integrity_env)"
    by (simp add: example_integrity_env_def bcrypt_ok_def NT_SUCCESS_def STATUS_SUCCESS_def min_def)
  moreover have "length (packets [(True, example_header, [0x90, 0xC3])]) = 42"
    by (simp add: packets_def example_header_def)
  ultimately show ?thesis
    using module_hash_covers_first_section[of example_integrity_env
        "\<lparr>mi_ImageBase = 0x10000, mi_ImageSize = 0xAA, mi_FullPathName = ''a.sys''\<rparr>" 2 "[(True, example_header, [0x90, 0xC3])]"
        example_header "[0x90, 0xC3]" example_drv_st] example_image
    by (simp add: example_integrity_env_def first_executable_def)
qed

end
