(* ===== verification/Traffic.thy ===== *)
theory Traffic
  imports Integrity
begin

text \<open>
  What sending a report does to the rest of the driver: the interface between the detection
  routines, which only hand reports to the IRP queue, and the queue of theory \<open>IrpQueue\<close>. Sending
  reports changes the queue, its IRPs and buffers and the pool, takes and drops the two spin locks
  of the queue, and nothing else; and it always returns as long as the queue is well formed.
\<close>

section \<open>Traffic of the queue\<close>

fun report_event :: "kevent \<Rightarrow> bool" where
  "report_event (Acquire l) = (l \<in> {IrpQueueSpinLock, DeferredReportsSpinLock})"
| "report_event (Release l) = (l \<in> {IrpQueueSpinLock, DeferredReportsSpinLock})"
| "report_event (PoolAlloc _ _) = True"
| "report_event (PoolFree _ _) = True"
| "report_event (IrpCompleted _ _ _) = True"
| "report_event _ = False"

text \<open>The calls between two states are those of the queue, in a balanced order.\<close>

definition queue_calls :: "'a kst_scheme \<Rightarrow> 'a kst_scheme \<Rightarrow> bool" where
  "queue_calls s s' \<longleftrightarrow> (\<exists>es. k_trace s' = k_trace s @ es \<and> (\<forall>e \<in> set es. report_event e)
     \<and> (\<forall>h. set h \<inter> {IrpQueueSpinLock, DeferredReportsSpinLock} = {} \<longrightarrow> run_locks h es = Some h))"

definition traffic :: "'a irp_st_scheme \<Rightarrow> 'a irp_st_scheme \<Rightarrow> bool" where
  "traffic s s' \<longleftrightarrow> slist s' = slist s \<and> irp_st.more s' = irp_st.more s \<and> queue_calls s s'"

lemma queue_calls_refl: "k_trace s' = k_trace s \<Longrightarrow> queue_calls s s'"
  by (simp add: queue_calls_def)

lemma queue_calls_trans: "queue_calls s t \<Longrightarrow> queue_calls t u \<Longrightarrow> queue_calls s u"
  by (fastforce simp: queue_calls_def run_locks_append)

lemma queue_calls_event: "k_trace s' = k_trace s @ [e] \<Longrightarrow> report_event e \<Longrightarrow> \<not> lock_event e \<Longrightarrow> queue_calls s s'"
  by (auto simp: queue_calls_def simp del: run_locks.simps(2))

lemma queue_calls_section:
  "k_trace s' = k_trace s @ [Acquire l, Release l] \<Longrightarrow> l \<in> {IrpQueueSpinLock, DeferredReportsSpinLock} \<Longrightarrow> queue_calls s s'"
  by (auto simp: queue_calls_def)

lemma traffic_refl [simp]: "traffic s s"
  by (simp add: traffic_def queue_calls_refl)

lemma traffic_trans: "traffic s t \<Longrightarrow> traffic t u \<Longrightarrow> traffic s u"
  unfolding traffic_def using queue_calls_trans by fastforce

lemma traffic_neutral: "traffic s s' \<Longrightarrow> neutral {IrpQueueSpinLock, DeferredReportsSpinLock} s s'"
  by (auto simp: traffic_def queue_calls_def neutral_def)

lemma refs_report_events: "\<forall>e \<in> set es. report_event e \<Longrightarrow> refs p es = 0"
  by (induction es) (auto split: kevent.splits)

lemma traffic_refs: "traffic s s' \<Longrightarrow> refs p (k_trace s') = refs p (k_trace s)"
  by (auto simp: traffic_def queue_calls_def refs_report_events)

lemma traffic_emit: "report_event e \<Longrightarrow> \<not> lock_event e \<Longrightarrow> traffic s (emit e s)"
  by (simp add: traffic_def queue_calls_event)

lemma traffic_alloc: "ExAllocatePool2 alloc tag s = (r, s') \<Longrightarrow> traffic s s'"
  by (auto simp: ExAllocatePool2_def traffic_def emit_def split: option.splits
      intro: queue_calls_refl queue_calls_event[where e = "PoolAlloc p tag" for p])

lemma traffic_same: "slist s' = slist s \<Longrightarrow> irp_st.more s' = irp_st.more s \<Longrightarrow> k_trace s' = k_trace s \<Longrightarrow> traffic s s'"
  by (simp add: traffic_def queue_calls_refl)

section \<open>The primitives of the queue\<close>

lemma free_buffer_traffic: "free_buffer b tag s = Some s' \<Longrightarrow> traffic s s'"
  by (auto simp: free_buffer_def traffic_def split: if_splits intro: queue_calls_event)

lemma set_irp_traffic: "set_irp i f s = Some s' \<Longrightarrow> traffic s s'"
  by (auto simp: set_irp_def intro: traffic_same split: bind_splits option.splits if_splits)

lemma copy_to_system_buffer_traffic: "copy_to_system_buffer bs i s = Some s' \<Longrightarrow> traffic s s'"
  by (auto simp: copy_to_system_buffer_def intro: traffic_same split: bind_splits option.splits if_splits dest!: set_irp_traffic)

lemma IofCompleteRequest_traffic: "IofCompleteRequest i s = Some s' \<Longrightarrow> traffic s s'"
  by (auto simp: IofCompleteRequest_def traffic_def intro: queue_calls_event split: bind_splits option.splits)

lemma ValidateIrpOutputBuffer_traffic: "ValidateIrpOutputBuffer i n s = Some (st, s') \<Longrightarrow> traffic s s'"
  by (auto simp: ValidateIrpOutputBuffer_def split: bind_splits option.splits if_splits
      dest!: copy_to_system_buffer_traffic set_irp_traffic intro: traffic_trans)

lemmas queue_traffic = free_buffer_traffic set_irp_traffic copy_to_system_buffer_traffic IofCompleteRequest_traffic
  ValidateIrpOutputBuffer_traffic

lemma csq_remove_traffic:
  assumes "csq_remove_by_callbacks f" "f s = Some (i, s')"
  shows "traffic s s'"
  using assms
  by (auto simp: csq_remove_by_callbacks_def IrpQueueAcquireLock_def IrpQueueReleaseLock_def IrpQueueRemove_def traffic_def
      Let_def split: bind_splits if_splits intro!: queue_calls_section[where l = IrpQueueSpinLock])

lemma traffic_section:
  "slist s' = slist s \<Longrightarrow> irp_st.more s' = irp_st.more s \<Longrightarrow> k_trace s' = k_trace s @ [Acquire l, Release l]
   \<Longrightarrow> l \<in> {IrpQueueSpinLock, DeferredReportsSpinLock} \<Longrightarrow> traffic s s'"
  using queue_calls_section by (simp add: traffic_def)

lemma IrpQueueDeferReport_traffic: "IrpQueueDeferReport alloc b n s = Some s' \<Longrightarrow> traffic s s'"
  by (auto simp: IrpQueueDeferReport_def IrpQueueAllocateDeferredReport_def Let_def split: if_splits option.splits prod.splits
      dest!: traffic_alloc free_buffer_traffic
      elim!: traffic_trans intro!: traffic_section[where l = DeferredReportsSpinLock])

lemma IrpQueueCompleteIrp_traffic:
  assumes "csq_remove_by_callbacks f" "IrpQueueCompleteIrp f alloc b n s = Some (st, s')"
  shows "traffic s s'"
  using assms(2)
  by (auto simp: IrpQueueCompleteIrp_def bind_eq_Some_conv split: if_splits dest!: csq_remove_traffic[OF assms(1)] queue_traffic
      IrpQueueDeferReport_traffic) (meson traffic_trans)+

section \<open>Sending reports\<close>

definition sending_ok :: "'a irp_st_scheme \<Rightarrow> bool" where
  "sending_ok s \<longleftrightarrow> queue_inv s \<and> irps_ok s"

lemma sending_ok_cong:
  "irps s' = irps s \<Longrightarrow> irp_queue s' = irp_queue s \<Longrightarrow> irp_count s' = irp_count s \<Longrightarrow> sending_ok s' = sending_ok s"
  by (simp add: sending_ok_def queue_inv_def irps_ok_def)

lemma sending_ok_emit [simp]: "sending_ok (emit e s) = sending_ok s"
  by (rule sending_ok_cong) simp_all

text \<open>
  The contract that a detection routine relies on: whatever report it hands over in a good state
  is taken, the state stays good, and what the routine itself works on is kept.
\<close>

locale report_sink =
  fixes ok :: "'s \<Rightarrow> bool" and keeps :: "'s \<Rightarrow> 's \<Rightarrow> bool" and send :: "'r \<Rightarrow> 's \<Rightarrow> 's option"
  assumes keeps_refl: "keeps s s"
    and keeps_trans: "keeps s t \<Longrightarrow> keeps t u \<Longrightarrow> keeps s u"
    and send_ok: "ok s \<Longrightarrow> \<exists>s'. send r s = Some s' \<and> ok s' \<and> keeps s s'"
begin

lemma send_all: "ok s \<Longrightarrow> \<exists>s'. for_each rs send s = Some s' \<and> ok s' \<and> keeps s s'"
proof (induction rs arbitrary: s)
  case Nil
  then show ?case by (simp add: keeps_refl)
next
  case (Cons r rs)
  from send_ok[OF Cons.prems] obtain t where "send r s = Some t" "ok t" "keeps s t" by blast
  with Cons.IH[of t] show ?case by (auto intro: keeps_trans)
qed

text \<open>A loop whose body sends one report or none is the loop over the reports alone.\<close>

lemma guarded_loop:
  "(\<And>x s. x \<in> set xs \<Longrightarrow> body x s = (if P x then send (report x) s else Some s))
   \<Longrightarrow> for_each xs body s = for_each (map report (filter P xs)) send s"
  by (induction xs arbitrary: s) (auto cong: Option.bind_cong)

end

text \<open>The cancel-safe queue of the I/O manager, through the driver's own callbacks, is such a sink.\<close>

locale csq_queue =
  fixes csq :: "'a irp_st_scheme csq_remove" and alloc :: allocator
  assumes by_callbacks: "csq_remove_by_callbacks csq"
begin

lemma complete_ok:
  assumes "sending_ok s" "pool s p = Some bs" "unat n \<le> length bs" "n \<noteq> 0"
  shows "\<exists>st s'. IrpQueueCompleteIrp csq alloc p n s = Some (st, s') \<and> sending_ok s' \<and> traffic s s'"
proof -
  from assms IrpQueueCompleteIrp_total[OF by_callbacks, of s p bs n alloc] obtain st s' where
    "IrpQueueCompleteIrp csq alloc p n s = Some (st, s')" "sending_ok s'" by (auto simp: sending_ok_def)
  with IrpQueueCompleteIrp_traffic[OF by_callbacks] show ?thesis by blast
qed

lemma hand_over_ok:
  assumes "sending_ok s" "unat n \<le> length bs" "n \<noteq> 0"
  shows "\<exists>st s'. IrpQueueCompleteIrp csq alloc p n (s\<lparr>pool := (pool s)(p \<mapsto> bs)\<rparr>) = Some (st, s') \<and> sending_ok s' \<and> traffic s s'"
proof -
  let ?s = "s\<lparr>pool := (pool s)(p \<mapsto> bs)\<rparr>"
  have "sending_ok ?s" using assms(1) sending_ok_cong[of ?s s] by simp
  moreover have "traffic s ?s" by (rule traffic_same) simp_all
  ultimately show ?thesis using complete_ok[of ?s p bs n] assms(2,3) traffic_trans by fastforce
qed

end

lemma sizeof_report_word: "unat (of_nat (sizeof_report r) :: u32) = sizeof_report r" "(of_nat (sizeof_report r) :: u32) \<noteq> 0"
  by (cases r; simp)+

lemma alloc_sending_ok: "ExAllocatePool2 alloc tag s = (r, s') \<Longrightarrow> sending_ok s' = sending_ok s"
  by (rule sending_ok_cong) (auto simp: ExAllocatePool2_def split: option.splits)

lemma send_report_ok:
  assumes "csq_remove_by_callbacks csq" "sending_ok s"
  shows "\<exists>s'. send_report csq alloc r s = Some s' \<and> sending_ok s' \<and> traffic s s'"
proof (cases "ExAllocatePool2 alloc REPORT_POOL_TAG s")
  case (Pair q t)
  note t = alloc_sending_ok[OF Pair] traffic_alloc[OF Pair]
  show ?thesis
  proof (cases q)
    case None
    with Pair t assms(2) show ?thesis by (simp add: send_report_def)
  next
    case (Some p)
    have "csq_queue csq" using assms(1) by (rule csq_queue.intro)
    from csq_queue.hand_over_ok[OF this, of t "of_nat (sizeof_report r)" "report_bytes r" alloc p] t assms(2)
    obtain st s' where "IrpQueueCompleteIrp csq alloc p (of_nat (sizeof_report r)) (t\<lparr>pool := (pool t)(p \<mapsto> report_bytes r)\<rparr>)
      = Some (st, s')" "sending_ok s'" "traffic t s'"
      by (auto simp: length_report_bytes sizeof_report_word)
    with Pair Some t show ?thesis by (auto simp: send_report_def intro: traffic_trans)
  qed
qed

sublocale csq_queue \<subseteq> sink: report_sink sending_ok traffic "send_report csq alloc"
  using send_report_ok[OF by_callbacks] by unfold_locales (auto intro: traffic_trans)

context csq_queue
begin

lemma send_reports: "sending_ok s \<Longrightarrow> \<exists>s'. for_each rs (send_report csq alloc) s = Some s' \<and> sending_ok s' \<and> traffic s s'"
  by (rule sink.send_all)

end

interpretation driver_queue: csq_queue example_csq alloc for alloc
  by unfold_locales (rule example_csq_ok)

end
