(* ===== verification/Nmi.thy ===== *)
theory Nmi
  imports Traffic
begin

text \<open>
  Interrupting every processor, from \<^verbatim>\<open>src/driver/modules.c\<close> and \<^verbatim>\<open>src/driver/thread.c\<close>: the
  checks of the HAL dispatch tables, the non-maskable interrupt sent to each processor, whose
  callback finds the interrupted instruction pointer on the interrupt stack, and the analysis of
  what the callbacks recorded. Also the search for threads attached to the protected process.

  The parameter \<open>nmi_env\<close> is what the hardware and the kernel answer: kernel memory, the number of
  processors, the base of each processor's control region, the thread that runs there, and
  whether an interrupt sent to a processor is delivered. Delivering one runs the callback.
\<close>

record nmi_env =
  ne_memory :: memory
  ne_cores :: u32
  ne_gs_base :: "nat \<Rightarrow> u64"
  ne_core_thread :: "nat \<Rightarrow> ptr"
  ne_delivered :: "nat \<Rightarrow> bool"
  ne_register :: ptr
  ne_thread_id :: "ptr \<Rightarrow> u64"
  ne_lookup_thread :: "u64 \<Rightarrow> ptr"
  ne_routine :: "string \<Rightarrow> u64"
  ne_version :: "NTSTATUS \<times> RTL_OSVERSIONINFOW"
  ne_query :: module_query
  ne_alloc :: allocator

abbreviation NMI_CONTEXT_POOL :: pool_tag where "NMI_CONTEXT_POOL \<equiv> ''7331''"
abbreviation PROC_AFFINITY_POOL :: pool_tag where "PROC_AFFINITY_POOL \<equiv> ''eeee''"

section \<open>Threads\<close>

text \<open>
  The identifiers below the number of processors belong to the idle threads. A thread that is
  found is referenced by the lookup, and the reference is kept.
\<close>

definition ValidateThreadsPspCidTableEntry :: "nmi_env \<Rightarrow> ptr \<Rightarrow> 'a kst_scheme \<Rightarrow> bool \<times> 'a kst_scheme" where
  "ValidateThreadsPspCidTableEntry e Thread s =
     (let thread_id = ne_thread_id e Thread in
      if thread_id < ucast (ne_cores e) then (True, s)
      else case PsLookup (ne_lookup_thread e) thread_id s of (thread, s) \<Rightarrow> (thread \<noteq> NULL, s))"

definition KTHREAD_APC_STATE_OFFSET :: u64 where "KTHREAD_APC_STATE_OFFSET = 0x98"

text \<open>The \<^verbatim>\<open>Process\<close> field of the kernel's \<^verbatim>\<open>KAPC_STATE\<close> follows two list heads.\<close>

definition KAPC_STATE_Process_offset :: u64 where "KAPC_STATE_Process_offset = 0x20"

definition attached_process :: "nmi_env \<Rightarrow> ptr \<Rightarrow> ptr option" where
  "attached_process e thread = read_u64 (ne_memory e) (thread + KTHREAD_APC_STATE_OFFSET + KAPC_STATE_Process_offset)"

definition DetectAttachedThreadsProcessCallback ::
  "nmi_env \<Rightarrow> 'a cb_st_scheme csq_remove \<Rightarrow> ptr \<Rightarrow> 'a cb_st_scheme \<Rightarrow> 'a cb_st_scheme option" where
  "DetectAttachedThreadsProcessCallback e csq ThreadListEntry s = do {
     let (protected_process, s) = SessionGetProcess s;
     (if protected_process = NULL then Some s
      else do {
        t \<leftarrow> thread_entry s ThreadListEntry;
        process \<leftarrow> attached_process e (tl_thread t);
        (if \<not> (process = protected_process \<and> tl_owning_process t \<noteq> protected_process) then Some s
         else send_report csq (ne_alloc e) (ATTACH_PROCESS_REPORT REPORT_ILLEGAL_ATTACH_PROCESS
                (ucast (ne_thread_id e (tl_thread t))) (tl_thread t)) s)
      })
   }"

definition DetectThreadsAttachedToProtectedProcess ::
  "nmi_env \<Rightarrow> 'a cb_st_scheme csq_remove \<Rightarrow> 'a cb_st_scheme \<Rightarrow> 'a cb_st_scheme option" where
  "DetectThreadsAttachedToProtectedProcess e csq s =
     EnumerateThreadListWithCallbackRoutine (Some (DetectAttachedThreadsProcessCallback e csq)) s"

section \<open>The HAL dispatch tables\<close>

definition HAL_ROUTINES :: "string list" where
  "HAL_ROUTINES = [''HalQuerySystemInformation'', ''HalSetSystemInformation'', ''HalQueryBusSlots'',
     ''HalReferenceHandlerForBus'', ''HalReferenceBusHandler'', ''HalDereferenceBusHandler'',
     ''HalInitPnpDriver'', ''HalInitPowerManagement'', ''HalGetDmaAdapter'', ''HalGetInterruptTranslator'',
     ''HalStartMirroring'', ''HalEndMirroring'', ''HalMirrorPhysicalMemory'', ''HalEndOfBoot'',
     ''HalMirrorVerify'', ''HalGetCachedAcpiTable'', ''HalSetPciErrorHandlerCallback'', ''HalGetPrmCache'']"

text \<open>One step per routine: the check goes on only from a routine that is outside every module.\<close>

primrec hal_steps :: "SYSTEM_MODULES \<Rightarrow> u64 list \<Rightarrow> NTSTATUS \<Rightarrow> ptr \<Rightarrow> (NTSTATUS \<times> ptr) option" where
  "hal_steps m [] status Routine = Some (status, Routine)"
| "hal_steps m (r # rs) status Routine = do {
     (status, flag) \<leftarrow> IsInstructionPointerInInvalidRegion r m;
     (if flag \<noteq> Some True \<and> NT_SUCCESS status then hal_steps m rs status r else Some (status, Routine))
   }"

definition ValidateHalDispatchTable :: "nmi_env \<Rightarrow> SYSTEM_MODULES \<Rightarrow> (NTSTATUS \<times> ptr) option" where
  "ValidateHalDispatchTable e m = hal_steps m (map (ne_routine e) HAL_ROUTINES) STATUS_UNSUCCESSFUL NULL"

text \<open>The last routine of the table that is outside every module; null entries are skipped.\<close>

primrec table_loop :: "memory \<Rightarrow> ptr \<Rightarrow> SYSTEM_MODULES \<Rightarrow> nat list \<Rightarrow> NTSTATUS \<Rightarrow> ptr \<Rightarrow> (NTSTATUS \<times> ptr) option" where
  "table_loop mem Base m [] status Routine = Some (status, Routine)"
| "table_loop mem Base m (index # is) status Routine = do {
     r \<leftarrow> read_u64 mem (Base + of_nat (8 * index));
     (if r = NULL then table_loop mem Base m is status Routine
      else do {
        (status, flag) \<leftarrow> IsInstructionPointerInInvalidRegion r m;
        table_loop mem Base m is status (if NT_SUCCESS status \<and> flag = Some False then r else Routine)
      })
   }"

definition ValidateTableDispatchRoutines ::
  "memory \<Rightarrow> ptr \<Rightarrow> u32 \<Rightarrow> SYSTEM_MODULES \<Rightarrow> ptr \<Rightarrow> (NTSTATUS \<times> ptr) option" where
  "ValidateTableDispatchRoutines mem Base Entries m Routine =
     table_loop mem Base m [0..<unat Entries] STATUS_UNSUCCESSFUL Routine"

definition HAL_PRIVATE_DISPATCH_W11_22H2_SIZE :: u32 where "HAL_PRIVATE_DISPATCH_W11_22H2_SIZE = 0x4f0"
definition HAL_PRIVATE_DISPATCH_W10_22H2_SIZE :: u32 where "HAL_PRIVATE_DISPATCH_W10_22H2_SIZE = 0x4b0"
definition WINDOWS_10_MAX_BUILD_NUMBER :: u32 where "WINDOWS_10_MAX_BUILD_NUMBER = 19045"

definition GetHalPrivateDispatchTableRoutineCount :: "RTL_OSVERSIONINFOW \<Rightarrow> u32" where
  "GetHalPrivateDispatchTableRoutineCount v =
     (if os_dwBuildNumber v \<le> WINDOWS_10_MAX_BUILD_NUMBER
      then HAL_PRIVATE_DISPATCH_W10_22H2_SIZE div 8 - 1 else HAL_PRIVATE_DISPATCH_W11_22H2_SIZE div 8 - 1)"

definition zero_version :: RTL_OSVERSIONINFOW where
  "zero_version = \<lparr>os_dwOSVersionInfoSize = 0, os_dwMajorVersion = 0, os_dwMinorVersion = 0,
     os_dwBuildNumber = 0, os_dwPlatformId = 0, os_szCSDVersion = []\<rparr>"

definition ValidateHalPrivateDispatchTable :: "nmi_env \<Rightarrow> SYSTEM_MODULES \<Rightarrow> ptr \<Rightarrow> (NTSTATUS \<times> ptr) option" where
  "ValidateHalPrivateDispatchTable e m Routine =
     (let table = ne_routine e ''HalPrivateDispatchTable'' in
      if table = NULL then Some (STATUS_UNSUCCESSFUL, Routine)
      else case GetOsVersionInformation (ne_version e) (Some zero_version) of (status, os_info) \<Rightarrow>
        if \<not> NT_SUCCESS status then Some (status, Routine)
        else ValidateTableDispatchRoutines (ne_memory e) (table + 8)
               (GetHalPrivateDispatchTableRoutineCount (the os_info)) m Routine)"

text \<open>
  The identifier of the table is overwritten by the report code, and the field of the report code
  stays zero.
\<close>

definition ReportDataTableInvalidRoutine ::
  "nmi_env \<Rightarrow> 'a irp_st_scheme csq_remove \<Rightarrow> u32 \<Rightarrow> u64 \<Rightarrow> 'a irp_st_scheme \<Rightarrow> 'a irp_st_scheme option" where
  "ReportDataTableInvalidRoutine e csq TableId Address s =
     (case ExAllocatePool2 (ne_alloc e) REPORT_POOL_TAG s of
        (None, s) \<Rightarrow> Some s
      | (Some p, s) \<Rightarrow> do {
          code \<leftarrow> read_bytes (ne_memory e) Address 256;
          let r = DATA_TABLE_ROUTINE_REPORT 0 REPORT_DATA_TABLE_ROUTINE Address code;
          (status, s) \<leftarrow> IrpQueueCompleteIrp csq (ne_alloc e) p (of_nat (sizeof_report r))
                            (s\<lparr>pool := (pool s)(p \<mapsto> report_bytes r)\<rparr>);
          Some s
        })"

definition HalDispatch :: u32 where "HalDispatch = 0"
definition HalPrivateDispatch :: u32 where "HalPrivateDispatch = 1"

definition free_modules_if :: "SYSTEM_MODULES \<Rightarrow> 'a kst_scheme \<Rightarrow> 'a kst_scheme" where
  "free_modules_if m s = (if sm_address m \<noteq> NULL then free_modules m s else s)"

definition ValidateHalDispatchTables ::
  "nmi_env \<Rightarrow> 'a irp_st_scheme csq_remove \<Rightarrow> 'a irp_st_scheme \<Rightarrow> (NTSTATUS \<times> 'a irp_st_scheme) option" where
  "ValidateHalDispatchTables e csq s = (case query_modules (ne_query e) (ne_alloc e) s of (status, m, s) \<Rightarrow>
     if \<not> NT_SUCCESS status then Some (status, s)
     else do {
       (status, routine1) \<leftarrow> ValidateHalDispatchTable e m;
       (if \<not> NT_SUCCESS status then Some (status, free_modules_if m s)
        else do {
          s \<leftarrow> (if routine1 \<noteq> NULL then ReportDataTableInvalidRoutine e csq HalDispatch routine1 s else Some s);
          (status, routine2) \<leftarrow> ValidateHalPrivateDispatchTable e m NULL;
          (if \<not> NT_SUCCESS status then Some (status, free_modules_if m s)
           else do {
             s \<leftarrow> (if routine2 \<noteq> NULL then ReportDataTableInvalidRoutine e csq HalPrivateDispatch routine2 s else Some s);
             Some (status, free_modules_if m s)
           })
        })
     })"

section \<open>The interrupt callback\<close>

record NMI_CONTEXT =
  nc_interrupted_rip :: u64
  nc_interrupted_rsp :: u64
  nc_kthread :: u64
  nc_callback_count :: u32
  nc_user_thread :: bool

definition sizeof_NMI_CONTEXT :: nat where "sizeof_NMI_CONTEXT = 32"

definition zero_nmi_context :: NMI_CONTEXT where
  "zero_nmi_context = \<lparr>nc_interrupted_rip = 0, nc_interrupted_rsp = 0, nc_kthread = 0, nc_callback_count = 0,
     nc_user_thread = False\<rparr>"

text \<open>The task state segment is packed; the machine frame is what the processor pushes.\<close>

definition TASK_STATE_SEGMENT_64_layout :: layout where
  "TASK_STATE_SEGMENT_64_layout =
    [(''Reserved0'', 4, 1), (''Rsp0'', 8, 1), (''Rsp1'', 8, 1), (''Rsp2'', 8, 1), (''Reserved1'', 8, 1),
     (''Ist1'', 8, 1), (''Ist2'', 8, 1), (''Ist3'', 8, 1), (''Ist4'', 8, 1), (''Ist5'', 8, 1), (''Ist6'', 8, 1),
     (''Ist7'', 8, 1), (''Reserved2'', 8, 1), (''Reserved3'', 2, 1), (''IoMapBase'', 2, 1)]"

definition MACHINE_FRAME_layout :: layout where
  "MACHINE_FRAME_layout = [(''rip'', 8, 8), (''cs'', 8, 8), (''eflags'', 8, 8), (''rsp'', 8, 8), (''ss'', 8, 8)]"

definition sizeof_MACHINE_FRAME :: u64 where "sizeof_MACHINE_FRAME = 40"
definition KPCR_TSS_BASE_OFFSET :: u64 where "KPCR_TSS_BASE_OFFSET = 8"
definition WINDOWS_USERMODE_MAX_ADDRESS :: u64 where "WINDOWS_USERMODE_MAX_ADDRESS = 0x00007FFFFFFFFFFF"

definition NmiCallback :: "nmi_env \<Rightarrow> nat \<Rightarrow> NMI_CONTEXT list \<Rightarrow> NMI_CONTEXT list option" where
  "NmiCallback e core context = do {
     let kpcr = ne_gs_base e core;
     tss \<leftarrow> read_u64 (ne_memory e) (kpcr + KPCR_TSS_BASE_OFFSET);
     ist3 \<leftarrow> read_u64 (ne_memory e) (tss + FIELD_OFFSET TASK_STATE_SEGMENT_64_layout ''Ist3'');
     let machine_frame = ist3 - sizeof_MACHINE_FRAME;
     rip \<leftarrow> read_u64 (ne_memory e) (machine_frame + FIELD_OFFSET MACHINE_FRAME_layout ''rip'');
     rsp \<leftarrow> read_u64 (ne_memory e) (machine_frame + FIELD_OFFSET MACHINE_FRAME_layout ''rsp'');
     (if core < length context then
        let c = context ! core in
        Some (context[core := \<lparr>nc_interrupted_rip = rip, nc_interrupted_rsp = rsp, nc_kthread = ne_core_thread e core,
                nc_callback_count = nc_callback_count c + 1,
                nc_user_thread = (if rip \<le> WINDOWS_USERMODE_MAX_ADDRESS then True else nc_user_thread c)\<rparr>])
      else None)
   }"

text \<open>An interrupt that is delivered runs the callback on its processor before the wait is over.\<close>

definition send_nmi ::
  "nmi_env \<Rightarrow> nat \<Rightarrow> NMI_CONTEXT list \<times> 'a kst_scheme \<Rightarrow> (NMI_CONTEXT list \<times> 'a kst_scheme) option" where
  "send_nmi e core cs = (case cs of (context, s) \<Rightarrow> do {
     let s = emit (Call ''HalSendNMI'' [of_nat core]) s;
     context \<leftarrow> (if ne_delivered e core then NmiCallback e core context else Some context);
     Some (context, emit (Call ''KeDelayExecutionThread'' []) s)
   })"

definition LaunchNonMaskableInterrupt ::
  "nmi_env \<Rightarrow> NMI_CONTEXT list \<Rightarrow> 'a kst_scheme \<Rightarrow> (NTSTATUS \<times> NMI_CONTEXT list \<times> 'a kst_scheme) option" where
  "LaunchNonMaskableInterrupt e context s =
     (case ExAllocatePool2 (ne_alloc e) PROC_AFFINITY_POOL s of
        (None, s) \<Rightarrow> Some (STATUS_MEMORY_NOT_ALLOCATED, context, s)
      | (Some p, s) \<Rightarrow> do {
          (context, s) \<leftarrow> for_each [0..<unat (ne_cores e)] (send_nmi e) (context, s);
          Some (STATUS_SUCCESS, context, emit (PoolFree p PROC_AFFINITY_POOL) s)
        })"

section \<open>Analysis\<close>

definition ReportNmiBlocking ::
  "nmi_env \<Rightarrow> 'a irp_st_scheme csq_remove \<Rightarrow> 'a irp_st_scheme \<Rightarrow> 'a irp_st_scheme option" where
  "ReportNmiBlocking e csq s =
     send_report csq (ne_alloc e) (NMI_CALLBACK_FAILURE REPORT_NMI_CALLBACK_FAILURE 1 NULL NULL) s"

definition ReportMissingCidTableEntry ::
  "nmi_env \<Rightarrow> 'a irp_st_scheme csq_remove \<Rightarrow> NMI_CONTEXT \<Rightarrow> 'a irp_st_scheme \<Rightarrow> 'a irp_st_scheme option" where
  "ReportMissingCidTableEntry e csq c s =
     (case ExAllocatePool2 (ne_alloc e) REPORT_POOL_TAG s of
        (None, s) \<Rightarrow> Some s
      | (Some p, s) \<Rightarrow> do {
          thread \<leftarrow> read_bytes (ne_memory e) (nc_kthread c) 500;
          let r = HIDDEN_SYSTEM_THREAD_REPORT REPORT_HIDDEN_SYSTEM_THREAD 0 0 (nc_kthread c)
                    (ucast (ne_thread_id e (nc_kthread c))) thread;
          (status, s) \<leftarrow> IrpQueueCompleteIrp csq (ne_alloc e) p (of_nat (sizeof_report r))
                            (s\<lparr>pool := (pool s)(p \<mapsto> report_bytes r)\<rparr>);
          Some s
        })"

text \<open>
  The block has the size of another structure, which is also the size that is sent, and a failed
  allocation is a write through the null pointer.
\<close>

definition ReportInvalidRipFoundDuringNmi ::
  "nmi_env \<Rightarrow> 'a irp_st_scheme csq_remove \<Rightarrow> NMI_CONTEXT \<Rightarrow> 'a irp_st_scheme \<Rightarrow> 'a irp_st_scheme option" where
  "ReportInvalidRipFoundDuringNmi e csq c s =
     (case ExAllocatePool2 (ne_alloc e) REPORT_POOL_TAG s of
        (None, s) \<Rightarrow> None
      | (Some p, s) \<Rightarrow> do {
          let r = NMI_CALLBACK_FAILURE REPORT_NMI_CALLBACK_FAILURE 0 (nc_kthread c) (nc_interrupted_rip c);
          let size = sizeof_report (HIDDEN_SYSTEM_THREAD_REPORT 0 0 0 0 0 []);
          (status, s) \<leftarrow> IrpQueueCompleteIrp csq (ne_alloc e) p (of_nat size)
                            (s\<lparr>pool := (pool s)(p \<mapsto> report_bytes r @ replicate (size - sizeof_report r) 0)\<rparr>);
          Some s
        })"

text \<open>The analysis ends at the first processor that was not interrupted or was outside every module.\<close>

primrec analyse_loop ::
  "nmi_env \<Rightarrow> 'a irp_st_scheme csq_remove \<Rightarrow> SYSTEM_MODULES \<Rightarrow> NMI_CONTEXT list \<Rightarrow> nat list \<Rightarrow> 'a irp_st_scheme
   \<Rightarrow> 'a irp_st_scheme option" where
  "analyse_loop e csq m context [] s = Some s"
| "analyse_loop e csq m context (core # cores) s =
     (if \<not> core < length context then None
      else let c = context ! core in
      if nc_callback_count c = 0 then ReportNmiBlocking e csq s
      else do {
        let (valid, s) = ValidateThreadsPspCidTableEntry e (nc_kthread c) s;
        s \<leftarrow> (if \<not> valid then ReportMissingCidTableEntry e csq c s else Some s);
        (if nc_user_thread c then analyse_loop e csq m context cores s
         else do {
           (status, flag) \<leftarrow> IsInstructionPointerInInvalidRegion (nc_interrupted_rip c) m;
           (if NT_SUCCESS status \<and> flag \<noteq> Some True then ReportInvalidRipFoundDuringNmi e csq c s
            else analyse_loop e csq m context cores s)
         })
      })"

definition AnalyseNmiData ::
  "nmi_env \<Rightarrow> 'a irp_st_scheme csq_remove \<Rightarrow> NMI_CONTEXT list \<Rightarrow> SYSTEM_MODULES \<Rightarrow> 'a irp_st_scheme
   \<Rightarrow> (NTSTATUS \<times> 'a irp_st_scheme) option" where
  "AnalyseNmiData e csq NmiContext m s = do {
     s \<leftarrow> analyse_loop e csq m NmiContext [0..<unat (ne_cores e)] s;
     Some (STATUS_SUCCESS, s)
   }"

text \<open>The context array is zeroed and has as many entries as fit in its 32-bit size.\<close>

definition nmi_contexts :: "u32 \<Rightarrow> NMI_CONTEXT list" where
  "nmi_contexts cores =
     replicate (unat (cores * of_nat sizeof_NMI_CONTEXT) div sizeof_NMI_CONTEXT) zero_nmi_context"

text \<open>What happens once the callback is registered.\<close>

definition nmi_registered ::
  "nmi_env \<Rightarrow> 'a drv_st_scheme csq_remove \<Rightarrow> ptr \<Rightarrow> ptr \<Rightarrow> 'a drv_st_scheme \<Rightarrow> (NTSTATUS \<times> 'a drv_st_scheme) option" where
  "nmi_registered e csq handle nmi_context s = (case query_modules (ne_query e) (ne_alloc e) s of (status, m, s) \<Rightarrow>
     if \<not> NT_SUCCESS status
     then Some (status, UnsetNmiInProgressFlag (emit (PoolFree nmi_context NMI_CONTEXT_POOL)
            (emit (Call ''KeDeregisterNmiCallback'' [handle]) s)))
     else do {
       (status, context, s) \<leftarrow> LaunchNonMaskableInterrupt e (nmi_contexts (ne_cores e)) s;
       (if \<not> NT_SUCCESS status
        then Some (status, UnsetNmiInProgressFlag (emit (PoolFree nmi_context NMI_CONTEXT_POOL)
               (free_modules m (emit (Call ''KeDeregisterNmiCallback'' [handle]) s))))
        else do {
          (status, s) \<leftarrow> AnalyseNmiData e csq context m s;
          Some (status, UnsetNmiInProgressFlag (emit (Call ''KeDeregisterNmiCallback'' [handle])
                 (emit (PoolFree nmi_context NMI_CONTEXT_POOL) (free_modules m s))))
        })
     })"

definition HandleNmiIOCTL ::
  "nmi_env \<Rightarrow> 'a drv_st_scheme csq_remove \<Rightarrow> 'a drv_st_scheme \<Rightarrow> (NTSTATUS \<times> 'a drv_st_scheme) option" where
  "HandleNmiIOCTL e csq s = (case IsNmiInProgress s of (busy, s) \<Rightarrow>
     if busy then Some (STATUS_ALREADY_COMMITTED, s)
     else do {
       (status, s) \<leftarrow> ValidateHalDispatchTables e csq s;
       (case ExAllocatePool2 (ne_alloc e) NMI_CONTEXT_POOL s of
          (None, s) \<Rightarrow> Some (STATUS_MEMORY_NOT_ALLOCATED, UnsetNmiInProgressFlag s)
        | (Some nmi_context, s) \<Rightarrow>
            if ne_register e = NULL
            then Some (STATUS_UNSUCCESSFUL, UnsetNmiInProgressFlag (emit (PoolFree nmi_context NMI_CONTEXT_POOL) s))
            else nmi_registered e csq (ne_register e) nmi_context (emit (Call ''KeRegisterNmiCallback'' [ne_register e]) s))
     })"

section \<open>The dispatch tables\<close>

definition outside :: "SYSTEM_MODULES \<Rightarrow> u64 \<Rightarrow> bool" where
  "outside m r \<longleftrightarrow> (\<forall>x \<in> set (sm_infos m). \<not> in_module r x)"

lemma pointer_test_eq:
  "modules_ok m \<Longrightarrow> r \<noteq> 0 \<Longrightarrow> IsInstructionPointerInInvalidRegion r m = Some (STATUS_SUCCESS, Some (\<not> outside m r))"
  by (simp add: IsInstructionPointerInInvalidRegion_eq outside_def)

lemma hal_steps_eq:
  "modules_ok m \<Longrightarrow> 0 \<notin> set rs \<Longrightarrow> hal_steps m rs status Routine =
     Some (if rs = [] then status else STATUS_SUCCESS, last (Routine # takeWhile (outside m) rs))"
  by (induction rs arbitrary: status Routine) (auto simp: pointer_test_eq)

lemma table_loop_eq:
  assumes "modules_ok m" "\<forall>i \<in> set is. read_u64 mem (Base + of_nat (8 * i)) = Some (f i)"
  shows "table_loop mem Base m is status Routine =
     Some (if \<forall>i \<in> set is. f i = 0 then status else STATUS_SUCCESS,
           last (Routine # filter (\<lambda>r. r \<noteq> 0 \<and> outside m r) (map f is)))"
  using assms(2) by (induction "is" arbitrary: status Routine) (auto simp: pointer_test_eq[OF assms(1)])

text \<open>What the checks of the two HAL tables find. In the private table it is the last routine that lies
  outside every loaded module. In the exported table the check ends at the first routine that lies
  inside one: it finds the last routine of the leading run of bad ones, so that a replaced routine
  behind a genuine one, and with a genuine first routine any replaced routine, goes unnoticed.\<close>

theorem hal_table_checks:
  assumes "modules_ok m" "\<forall>n \<in> set HAL_ROUTINES. ne_routine e n \<noteq> 0"
    and "\<forall>i < unat Entries. read_u64 mem (Base + of_nat (8 * i)) = Some (f i)"
  shows "ValidateHalDispatchTable e m =
       Some (STATUS_SUCCESS, last (NULL # takeWhile (outside m) (map (ne_routine e) HAL_ROUTINES)))
     \<and> ValidateTableDispatchRoutines mem Base Entries m NULL =
       Some (if \<forall>i < unat Entries. f i = 0 then STATUS_UNSUCCESSFUL else STATUS_SUCCESS,
             last (NULL # filter (\<lambda>r. r \<noteq> 0 \<and> outside m r) (map f [0..<unat Entries])))"
proof
  have "0 \<notin> set (map (ne_routine e) HAL_ROUTINES)" using assms(2) by auto
  moreover have "map (ne_routine e) HAL_ROUTINES \<noteq> []" by (simp add: HAL_ROUTINES_def)
  ultimately show "ValidateHalDispatchTable e m =
       Some (STATUS_SUCCESS, last (NULL # takeWhile (outside m) (map (ne_routine e) HAL_ROUTINES)))"
    unfolding ValidateHalDispatchTable_def using hal_steps_eq[OF assms(1)] by presburger
  show "ValidateTableDispatchRoutines mem Base Entries m NULL =
       Some (if \<forall>i < unat Entries. f i = 0 then STATUS_UNSUCCESSFUL else STATUS_SUCCESS,
             last (NULL # filter (\<lambda>r. r \<noteq> 0 \<and> outside m r) (map f [0..<unat Entries])))"
    unfolding ValidateTableDispatchRoutines_def
    by (subst table_loop_eq[OF assms(1), where f = f]) (use assms(3) in auto)
qed

text \<open>Memory that holds a sequence of words, for the examples.\<close>

definition words_memory :: "ptr \<Rightarrow> u64 list \<Rightarrow> memory" where
  "words_memory base ws = buffer_memory base (concat (map (\<lambda>w. le_bytes 8 (unat w)) ws))"

lemma read_bytes_holds: "holds m p bs \<Longrightarrow> read_bytes m p (length bs) = Some bs"
  by (induction bs arbitrary: p) simp_all

lemma read_u64_holds:
  assumes "holds m p (le_bytes 8 (unat v))"
  shows "read_u64 m p = Some v"
proof -
  have "unat v < 256 ^ 8" using unsigned_less[of v, where 'a = nat] by simp
  moreover have "(of_nat (unat v) :: u64) = v" by simp
  ultimately show ?thesis
    using read_bytes_holds[OF assms] by (simp add: read_u64_def le_nat_le_bytes)
qed

lemma read_words_memory:
  assumes "i < length ws" "8 * length ws < 2 ^ 64"
  shows "read_u64 (words_memory base ws) (base + of_nat (8 * i)) = Some (ws ! i)"
proof -
  let ?f = "\<lambda>w :: u64. le_bytes 8 (unat w)"
  have len: "length (concat (map ?f xs)) = 8 * length xs" for xs by (induction xs) simp_all
  have "holds (words_memory base ws) base (concat (map ?f ws))"
    unfolding words_memory_def by (rule buffer_memory_holds) (use assms(2) len[of ws] in simp)
  moreover have "concat (map ?f ws) = concat (map ?f (take i ws)) @ ?f (ws ! i) @ concat (map ?f (drop (Suc i) ws))"
    using id_take_nth_drop[OF assms(1)] by (metis (no_types, lifting) concat.simps(2) concat_append list.simps(9) map_append)
  ultimately have "holds (words_memory base ws) (base + of_nat (8 * i)) (?f (ws ! i))"
    using len[of "take i ws"] assms(1) by simp
  then show ?thesis by (rule read_u64_holds)
qed

text \<open>
  A machine of two processors; the first runs a kernel thread inside a module, the second one at an
  address outside every module. \<^verbatim>\<open>HalEndOfBoot\<close> is replaced.
\<close>

definition example_nmi_memory :: memory where
  "example_nmi_memory = words_memory 0x100 [0xDC, 0xE4, 0x148, 0x170,
     0xFFFF800000001100, 0x10, 0, 0x9000, 0x18, 0xFFFF800000006666, 0x10, 0, 0xA000, 0x18]"

definition example_nmi_modules :: SYSTEM_MODULES where
  "example_nmi_modules = \<lparr>sm_address = 0x9000, sm_module_count = 1, sm_infos =
     [\<lparr>mi_ImageBase = 0xFFFF800000001000, mi_ImageSize = 0x200, mi_FullPathName = ''ntoskrnl.exe''\<rparr>]\<rparr>"

definition example_nmi_env :: nmi_env where
  "example_nmi_env = \<lparr>ne_memory = example_nmi_memory, ne_cores = 2, ne_gs_base = (\<lambda>core. 0xF8 + 8 * of_nat core),
     ne_core_thread = (\<lambda>core. of_nat core + 0x700), ne_delivered = (\<lambda>_. True), ne_register = 0x900,
     ne_thread_id = (\<lambda>t. t), ne_lookup_thread = (\<lambda>i. i),
     ne_routine = (\<lambda>n. if n = ''HalEndOfBoot'' then 0xFFFF800000006666 else 0xFFFF800000001100),
     ne_version = (STATUS_SUCCESS, zero_version), ne_query = \<lparr>mq_size = (STATUS_SUCCESS, 0), mq_fill = (STATUS_SUCCESS, 0, [])\<rparr>,
     ne_alloc = (\<lambda>n. Some (of_nat n + 0x800))\<rparr>"

lemma example_nmi_modules_ok: "modules_ok example_nmi_modules"
  by (simp add: modules_ok_def example_nmi_modules_def)

theorem hal_table_checks_witness:
  "ValidateHalDispatchTable example_nmi_env example_nmi_modules = Some (STATUS_SUCCESS, NULL)
   \<and> ValidateTableDispatchRoutines (words_memory 0x40 [0xFFFF800000001100, 0xFFFF800000006666, 0]) 0x40 3 example_nmi_modules NULL
       = Some (STATUS_SUCCESS, 0xFFFF800000006666)"
proof -
  let ?ws = "[0xFFFF800000001100, 0xFFFF800000006666, 0] :: u64 list"
  have "\<forall>i < unat (3 :: u32). read_u64 (words_memory 0x40 ?ws) (0x40 + of_nat (8 * i)) = Some (?ws ! i)"
    using read_words_memory[of _ ?ws "0x40"] by simp
  moreover have "\<forall>n \<in> set HAL_ROUTINES. ne_routine example_nmi_env n \<noteq> 0" by (simp add: example_nmi_env_def)
  moreover have "map ((!) ?ws) [0..<unat (3 :: u32)] = ?ws" by (simp add: upt_rec)
  moreover have "takeWhile (outside example_nmi_modules) (map (ne_routine example_nmi_env) HAL_ROUTINES) = []"
    by (simp add: example_nmi_env_def HAL_ROUTINES_def outside_def example_nmi_modules_def in_module_def module_end_def)
  moreover have "filter (\<lambda>r. r \<noteq> 0 \<and> outside example_nmi_modules r) ?ws = [0xFFFF800000006666]"
    by (simp add: outside_def example_nmi_modules_def in_module_def module_end_def)
  moreover have "\<not> (\<forall>i < unat (3 :: u32). ?ws ! i = 0)" by (auto intro!: exI[of _ 0])
  ultimately show ?thesis
    using hal_table_checks[OF example_nmi_modules_ok, of example_nmi_env 3 "words_memory 0x40 ?ws" "0x40" "(!) ?ws"]
    by (simp only: if_False last_ConsL last_ConsR list.simps if_True) simp
qed

section \<open>The request as a whole\<close>

text \<open>The callbacks that a trace registers, less those that it removes.\<close>

fun registrations :: "kevent list \<Rightarrow> int" where
  "registrations [] = 0"
| "registrations (Call n args # es) =
     (if n = ''KeRegisterNmiCallback'' then 1 else if n = ''KeDeregisterNmiCallback'' then -1 else 0) + registrations es"
| "registrations (_ # es) = registrations es"

lemma registrations_append [simp]: "registrations (xs @ ys) = registrations xs + registrations ys"
  by (induction xs rule: registrations.induct) simp_all

lemma registrations_report_events: "\<forall>e \<in> set es. report_event e \<Longrightarrow> registrations es = 0"
  by (induction es rule: registrations.induct) simp_all

text \<open>A step that leaves the driver's own data, the locks and the callback registrations alone.\<close>

definition unnoticed :: "'a irp_st_scheme \<Rightarrow> 'a irp_st_scheme \<Rightarrow> bool" where
  "unnoticed s s' \<longleftrightarrow> slist s' = slist s \<and> irp_st.more s' = irp_st.more s
     \<and> registrations (k_trace s') = registrations (k_trace s) \<and> neutral {IrpQueueSpinLock, DeferredReportsSpinLock} s s'"

lemma unnoticed_refl [simp]: "unnoticed s s"
  by (simp add: unnoticed_def neutral_refl)

lemma unnoticed_trans: "unnoticed s t \<Longrightarrow> unnoticed t u \<Longrightarrow> unnoticed s u"
  unfolding unnoticed_def using neutral_trans by fastforce

lemma traffic_unnoticed: "traffic s s' \<Longrightarrow> unnoticed s s'"
  using traffic_neutral[of s s'] by (auto simp: unnoticed_def traffic_def queue_calls_def registrations_report_events)

lemma unnoticed_emit: "\<not> lock_event e \<Longrightarrow> registrations [e] = 0 \<Longrightarrow> unnoticed s (emit e s)"
  by (simp add: unnoticed_def neutral_emit neutral_refl)

lemma query_modules_traffic: "query_modules q alloc s = (status, m, s') \<Longrightarrow> traffic s s'"
  by (auto simp: query_modules_def GetSystemModuleInformation_def Let_def split: if_splits prod.splits option.splits
      dest!: traffic_alloc elim!: traffic_trans intro!: traffic_emit)

lemma query_modules_ok: "query_modules q alloc s = (status, m, s') \<Longrightarrow> sending_ok s' = sending_ok s"
  by (auto simp: query_modules_def GetSystemModuleInformation_def Let_def split: if_splits prod.splits option.splits
      dest!: alloc_sending_ok)

lemma free_modules_if_traffic: "traffic s (free_modules_if m s)"
  by (simp add: free_modules_if_def free_modules_def traffic_emit)

lemma report_written_traffic:
  assumes "csq_remove_by_callbacks csq" "IrpQueueCompleteIrp csq alloc p n (s\<lparr>pool := (pool s)(p \<mapsto> bs)\<rparr>) = Some (st, s')"
  shows "traffic s s'"
  by (rule traffic_trans[OF traffic_same IrpQueueCompleteIrp_traffic[OF assms]]) simp_all

lemma send_report_traffic: "csq_remove_by_callbacks csq \<Longrightarrow> send_report csq alloc r s = Some s' \<Longrightarrow> traffic s s'"
  by (auto simp: send_report_def bind_eq_Some_conv split: option.splits prod.splits
      dest!: traffic_alloc report_written_traffic intro: traffic_trans)

lemma nmi_reports_traffic:
  assumes "csq_remove_by_callbacks csq"
  shows "ReportDataTableInvalidRoutine e csq t a s = Some s' \<Longrightarrow> traffic s s'"
    and "ReportMissingCidTableEntry e csq c s = Some s' \<Longrightarrow> traffic s s'"
    and "ReportInvalidRipFoundDuringNmi e csq c s = Some s' \<Longrightarrow> traffic s s'"
    and "ReportNmiBlocking e csq s = Some s' \<Longrightarrow> traffic s s'"
  using send_report_traffic[OF assms]
  by (auto simp: ReportDataTableInvalidRoutine_def ReportMissingCidTableEntry_def ReportInvalidRipFoundDuringNmi_def
      ReportNmiBlocking_def Let_def bind_eq_Some_conv split: option.splits prod.splits
      dest!: traffic_alloc report_written_traffic[OF assms] intro: traffic_trans)

lemma ValidateHalDispatchTables_traffic:
  assumes "csq_remove_by_callbacks csq" "ValidateHalDispatchTables e csq s = Some (status, s')"
  shows "traffic s s'"
  using assms(2)
  by (auto simp: ValidateHalDispatchTables_def bind_eq_Some_conv split: if_splits prod.splits
      dest!: query_modules_traffic nmi_reports_traffic(1)[OF assms(1)])
    (meson traffic_trans free_modules_if_traffic)+

lemma cid_entry_unnoticed: "ValidateThreadsPspCidTableEntry e t s = (valid, s') \<Longrightarrow> unnoticed s s'"
  by (auto simp: ValidateThreadsPspCidTableEntry_def PsLookup_def Let_def split: if_splits intro!: unnoticed_emit)

lemma analyse_loop_unnoticed:
  assumes "csq_remove_by_callbacks csq"
  shows "analyse_loop e csq m context cores s = Some s' \<Longrightarrow> unnoticed s s'"
proof (induction cores arbitrary: s)
  case (Cons core cores)
  obtain valid t where t: "ValidateThreadsPspCidTableEntry e (nc_kthread (context ! core)) s = (valid, t)" by fastforce
  have rest: "unnoticed s s'" if "u = t \<or> traffic t u" "unnoticed u s'" for u
    using that unnoticed_trans cid_entry_unnoticed[OF t] traffic_unnoticed by blast
  note reports = nmi_reports_traffic[OF assms]
  from Cons.prems t show ?case
    by (auto simp: Let_def bind_eq_Some_conv split: if_splits
        dest!: reports(2) intro: rest traffic_unnoticed dest: Cons.IH reports(3,4))
qed simp

lemma send_nmi_unnoticed: "send_nmi e core (context, s) = Some (context', s') \<Longrightarrow> unnoticed s s'"
  by (auto simp: send_nmi_def Let_def bind_eq_Some_conv split: if_splits
      intro!: unnoticed_trans[OF unnoticed_emit unnoticed_emit])

lemma launch_unnoticed:
  assumes "LaunchNonMaskableInterrupt e context s = Some (status, context', s')"
  shows "unnoticed s s'"
proof -
  have loop: "for_each cores (send_nmi e) (c, t) = Some (c', t') \<Longrightarrow> unnoticed t t'" for cores c t c' t'
  proof (induction cores arbitrary: c t)
    case (Cons x xs)
    then show ?case
      by (auto simp: bind_eq_Some_conv dest: send_nmi_unnoticed intro: unnoticed_trans)
  qed simp
  show ?thesis
    using assms
    by (auto simp: LaunchNonMaskableInterrupt_def bind_eq_Some_conv split: option.splits prod.splits
        dest!: traffic_alloc[THEN traffic_unnoticed] loop
        intro: unnoticed_trans[OF unnoticed_trans unnoticed_emit] unnoticed_trans)
qed

lemma drv_emit_fields [simp]: "nmi_status (emit e s) = nmi_status s"
  by (simp add: emit_def)

lemma unnoticed_nmi_status:
  fixes s s' :: "'a drv_st_scheme"
  assumes "unnoticed s s'"
  shows "nmi_status s' = nmi_status s"
proof -
  have "irp_st.more s' = irp_st.more s" using assms by (simp add: unnoticed_def)
  then show ?thesis by (cases s; cases s') simp
qed

text \<open>The registration of the callback: the handle, and the trace behind it.\<close>

definition nmi_done :: "'a drv_st_scheme \<Rightarrow> 'a drv_st_scheme \<Rightarrow> bool" where
  "nmi_done s s' \<longleftrightarrow> slist s' = slist s \<and> nmi_status s' = nmi_status s - 1
     \<and> registrations (k_trace s') = registrations (k_trace s) \<and> neutral {IrpQueueSpinLock, DeferredReportsSpinLock} s s'"

lemma nmi_done_unset:
  assumes "unnoticed s t"
  shows "nmi_done s (UnsetNmiInProgressFlag t)"
  using assms unnoticed_nmi_status[OF assms] by (auto simp: nmi_done_def UnsetNmiInProgressFlag_def unnoticed_def neutral_def)

lemma nmi_done_registered:
  assumes "unnoticed s a" "unnoticed (emit (Call ''KeRegisterNmiCallback'' [h]) a) b" "unnoticed (emit (Call ''KeDeregisterNmiCallback'' [h]) b) c"
  shows "nmi_done s (UnsetNmiInProgressFlag c)"
proof -
  have "neutral {IrpQueueSpinLock, DeferredReportsSpinLock} s (emit (Call ''KeRegisterNmiCallback'' [h]) a)"
    using assms(1) by (simp add: unnoticed_def neutral_emit)
  then have "neutral {IrpQueueSpinLock, DeferredReportsSpinLock} s (emit (Call ''KeDeregisterNmiCallback'' [h]) b)"
    using assms(2) neutral_trans by (fastforce simp: unnoticed_def intro: neutral_emit)
  then have "neutral {IrpQueueSpinLock, DeferredReportsSpinLock} s c"
    using assms(3) neutral_trans by (fastforce simp: unnoticed_def)
  then have "neutral {IrpQueueSpinLock, DeferredReportsSpinLock} s (UnsetNmiInProgressFlag c)"
    by (simp add: UnsetNmiInProgressFlag_def neutral_def)
  then show ?thesis
    using assms unnoticed_nmi_status[OF assms(1)] unnoticed_nmi_status[OF assms(2)] unnoticed_nmi_status[OF assms(3)]
    by (simp add: nmi_done_def UnsetNmiInProgressFlag_def unnoticed_def)
qed

lemma unnoticed_pool_free: "unnoticed s (emit (PoolFree p tag) s)"
  by (rule unnoticed_emit) simp_all

lemma unnoticed_free_modules: "unnoticed s (free_modules m s)"
  by (simp add: free_modules_def unnoticed_pool_free)

lemma AnalyseNmiData_unnoticed:
  assumes "csq_remove_by_callbacks csq" "AnalyseNmiData e csq context m s = Some (status, s')"
  shows "unnoticed s s'"
  using assms(2) analyse_loop_unnoticed[OF assms(1)] by (auto simp: AnalyseNmiData_def bind_eq_Some_conv)

lemma nmi_registered_done:
  assumes csq: "csq_remove_by_callbacks csq" and r: "nmi_registered e csq h p (emit (Call ''KeRegisterNmiCallback'' [h]) a) = Some (status, s')"
    and sa: "unnoticed s a"
  shows "nmi_done s s'"
proof -
  obtain st m v where v: "query_modules (ne_query e) (ne_alloc e) (emit (Call ''KeRegisterNmiCallback'' [h]) a) = (st, m, v)"
    by (metis prod_cases3)
  note av = traffic_unnoticed[OF query_modules_traffic[OF v]]
  note freed = unnoticed_trans[OF unnoticed_free_modules unnoticed_pool_free]
  consider (query) "s' = UnsetNmiInProgressFlag (emit (PoolFree p NMI_CONTEXT_POOL) (emit (Call ''KeDeregisterNmiCallback'' [h]) v))"
    | (launch) st3 ctx w where "LaunchNonMaskableInterrupt e (nmi_contexts (ne_cores e)) v = Some (st3, ctx, w)"
        "s' = UnsetNmiInProgressFlag (emit (PoolFree p NMI_CONTEXT_POOL) (free_modules m (emit (Call ''KeDeregisterNmiCallback'' [h]) w)))"
    | (analyse) st3 ctx w st4 x where "LaunchNonMaskableInterrupt e (nmi_contexts (ne_cores e)) v = Some (st3, ctx, w)"
        "AnalyseNmiData e csq ctx m w = Some (st4, x)"
        "s' = UnsetNmiInProgressFlag (emit (Call ''KeDeregisterNmiCallback'' [h]) (emit (PoolFree p NMI_CONTEXT_POOL) (free_modules m x)))"
    using r v by (auto simp: nmi_registered_def bind_eq_Some_conv split: if_splits)
  then show ?thesis
  proof cases
    case query
    with nmi_done_registered[OF sa av unnoticed_pool_free] show ?thesis by simp
  next
    case launch
    with nmi_done_registered[OF sa unnoticed_trans[OF av launch_unnoticed] freed] show ?thesis by blast
  next
    case analyse
    note aw = unnoticed_trans[OF av launch_unnoticed[OF analyse(1)]]
    note ax = unnoticed_trans[OF unnoticed_trans[OF aw AnalyseNmiData_unnoticed[OF csq analyse(2)]] freed]
    show ?thesis using nmi_done_registered[OF sa ax unnoticed_refl] analyse(3) by simp
  qed
qed

lemma nmi_request_done:
  assumes "csq_remove_by_callbacks csq" "HandleNmiIOCTL e csq s = Some (status, s')"
  shows "nmi_status s' = nmi_status s \<and> (nmi_status s \<noteq> 0 \<longrightarrow> status = STATUS_ALREADY_COMMITTED \<and> s' = s)
     \<and> registrations (k_trace s') = registrations (k_trace s) \<and> slist s' = slist s
     \<and> neutral {IrpQueueSpinLock, DeferredReportsSpinLock} s s'"
proof (cases "nmi_status s = 0")
  case True
  let ?s = "s\<lparr>nmi_status := 1\<rparr>"
  have free: "IsNmiInProgress s = (False, ?s)" using True by (simp add: IsNmiInProgress_def)
  from assms(2) obtain st t where hal: "ValidateHalDispatchTables e csq ?s = Some (st, t)"
    by (auto simp: HandleNmiIOCTL_def free bind_eq_Some_conv)
  note t = traffic_unnoticed[OF ValidateHalDispatchTables_traffic[OF assms(1) hal]]
  obtain r u where u: "ExAllocatePool2 (ne_alloc e) NMI_CONTEXT_POOL t = (r, u)" by fastforce
  note su = unnoticed_trans[OF t traffic_unnoticed[OF traffic_alloc[OF u]]]
  have "nmi_done ?s s'"
    using assms(2) nmi_registered_done[OF assms(1) _ su] nmi_done_unset[OF su] nmi_done_unset[OF unnoticed_trans[OF su unnoticed_pool_free]]
    by (auto simp: HandleNmiIOCTL_def free hal u split: option.splits if_splits)
  then show ?thesis using True by (auto simp: nmi_done_def neutral_def)
next
  case False
  with assms(2) show ?thesis by (auto simp: HandleNmiIOCTL_def IsNmiInProgress_def neutral_refl)
qed

text \<open>
  A machine on which a request cannot fault: every address it reads is mapped, no allocation
  fails (the report of an instruction pointer writes through the pointer unchecked), the array of
  contexts has an entry per processor, and a module list that is returned has the length that the
  query gives.
\<close>

definition no_nmi_fault :: "nmi_env \<Rightarrow> bool" where
  "no_nmi_fault e \<longleftrightarrow> (\<forall>p. ne_memory e p \<noteq> None) \<and> (\<forall>n. ne_alloc e n \<noteq> None) \<and> unat (ne_cores e) < 2 ^ 27
     \<and> (case mq_fill (ne_query e) of (status, bytes, infos) \<Rightarrow>
          NT_SUCCESS status \<longrightarrow> sint (bytes div sizeof_RTL_MODULE_EXTENDED_INFO) = int (length infos))"

lemma mapped_reads:
  assumes "\<forall>p. m p \<noteq> None"
  shows "\<exists>bs. read_bytes m p n = Some bs \<and> length bs = n" "\<exists>v. read_u64 m p = Some v"
proof -
  show r: "\<exists>bs. read_bytes m p n = Some bs \<and> length bs = n" for p n
  proof (induction n arbitrary: p)
    case (Suc n)
    from assms obtain b where "m p = Some b" by blast
    with Suc[of "p + 1"] show ?case by auto
  qed simp
  from r[of p 8] show "\<exists>v. read_u64 m p = Some v" by (auto simp: read_u64_def)
qed

lemma query_modules_counted:
  "no_nmi_fault e \<Longrightarrow> query_modules (ne_query e) alloc s = (status, m, s') \<Longrightarrow> NT_SUCCESS status \<Longrightarrow> modules_ok m"
  by (auto simp: query_modules_def GetSystemModuleInformation_def no_nmi_fault_def modules_ok_def split: if_splits prod.splits option.splits)

text \<open>A report whose bytes are there is taken, whichever of the routines writes it.\<close>

lemma written_report_ok:
  assumes "csq_remove_by_callbacks csq" "sending_ok s" "no_nmi_fault e"
  shows "\<exists>s'. ReportDataTableInvalidRoutine e csq t a s = Some s' \<and> sending_ok s'"
    and "\<exists>s'. ReportMissingCidTableEntry e csq c s = Some s' \<and> sending_ok s'"
    and "\<exists>s'. ReportInvalidRipFoundDuringNmi e csq c s = Some s' \<and> sending_ok s'"
    and "\<exists>s'. ReportNmiBlocking e csq s = Some s' \<and> sending_ok s'"
proof -
  have mem: "\<forall>p. ne_memory e p \<noteq> None" and al: "\<forall>n. ne_alloc e n \<noteq> None" using assms(3) by (auto simp: no_nmi_fault_def)
  obtain p where p: "ne_alloc e (k_allocs s) = Some p" using al by blast
  let ?t = "emit (PoolAlloc p REPORT_POOL_TAG) (s\<lparr>k_allocs := Suc (k_allocs s)\<rparr>)"
  have alloc: "ExAllocatePool2 (ne_alloc e) REPORT_POOL_TAG s = (Some p, ?t)" using p by (simp add: ExAllocatePool2_def)
  have ok: "sending_ok ?t" using alloc_sending_ok[OF alloc] assms(2) by simp
  note over = csq_queue.hand_over_ok[OF csq_queue.intro[OF assms(1)] ok, of _ _ "ne_alloc e" p]
  have sent: "\<exists>st s'. IrpQueueCompleteIrp csq (ne_alloc e) p (of_nat (sizeof_report r)) (?t\<lparr>pool := (pool ?t)(p \<mapsto> report_bytes r)\<rparr>)
      = Some (st, s') \<and> sending_ok s'" for r
    using over[of "of_nat (sizeof_report r)" "report_bytes r"] by (auto simp: length_report_bytes sizeof_report_word)
  from mapped_reads(1)[OF mem, of a 256] obtain bs where bs: "read_bytes (ne_memory e) a 256 = Some bs" by blast
  from sent[of "DATA_TABLE_ROUTINE_REPORT 0 REPORT_DATA_TABLE_ROUTINE a bs"]
  show "\<exists>s'. ReportDataTableInvalidRoutine e csq t a s = Some s' \<and> sending_ok s'"
    by (auto simp: ReportDataTableInvalidRoutine_def alloc bs Let_def)
  from mapped_reads(1)[OF mem, of "nc_kthread c" 500] obtain cs where cs: "read_bytes (ne_memory e) (nc_kthread c) 500 = Some cs" by blast
  from sent[of "HIDDEN_SYSTEM_THREAD_REPORT REPORT_HIDDEN_SYSTEM_THREAD 0 0 (nc_kthread c) (ucast (ne_thread_id e (nc_kthread c))) cs"]
  show "\<exists>s'. ReportMissingCidTableEntry e csq c s = Some s' \<and> sending_ok s'"
    by (auto simp: ReportMissingCidTableEntry_def alloc cs Let_def)
  from over[of 528 "report_bytes (NMI_CALLBACK_FAILURE REPORT_NMI_CALLBACK_FAILURE 0 (nc_kthread c) (nc_interrupted_rip c)) @ replicate 504 0"]
  show "\<exists>s'. ReportInvalidRipFoundDuringNmi e csq c s = Some s' \<and> sending_ok s'"
    by (auto simp: ReportInvalidRipFoundDuringNmi_def alloc Let_def length_report_bytes)
  show "\<exists>s'. ReportNmiBlocking e csq s = Some s' \<and> sending_ok s'"
    using send_report_ok[OF assms(1,2)] by (simp add: ReportNmiBlocking_def) blast
qed

lemma pointer_test_total:
  "modules_ok m \<Longrightarrow> \<exists>st b. IsInstructionPointerInInvalidRegion r m = Some (st, b)"
  by (cases "r = 0") (auto simp: pointer_test_eq IsInstructionPointerInInvalidRegion_def[of 0])

lemma hal_steps_total: "modules_ok m \<Longrightarrow> \<exists>r. hal_steps m rs st r0 = Some r"
proof (induction rs arbitrary: st r0)
  case (Cons r rs)
  from pointer_test_total[OF Cons.prems, of r] Cons.IH[OF Cons.prems] show ?case by auto
qed simp

lemma hal_tables_total:
  assumes "modules_ok m" "no_nmi_fault e"
  shows "\<exists>st r. ValidateHalDispatchTable e m = Some (st, r)"
    and "\<exists>st r. ValidateHalPrivateDispatchTable e m r0 = Some (st, r)"
proof -
  have mem: "\<forall>p. ne_memory e p \<noteq> None" using assms(2) by (auto simp: no_nmi_fault_def)
  show "\<exists>st r. ValidateHalDispatchTable e m = Some (st, r)"
    using hal_steps_total[OF assms(1)] by (auto simp: ValidateHalDispatchTable_def)
  have "\<forall>i \<in> set is. read_u64 (ne_memory e) (b + of_nat (8 * i)) = Some (the (read_u64 (ne_memory e) (b + of_nat (8 * i))))" for b "is"
    using mapped_reads(2)[OF mem] by (metis option.sel)
  from table_loop_eq[OF assms(1) this] show "\<exists>st r. ValidateHalPrivateDispatchTable e m r0 = Some (st, r)"
    by (simp add: ValidateHalPrivateDispatchTable_def ValidateTableDispatchRoutines_def Let_def split: prod.splits)
qed

lemma hal_check_total:
  assumes "csq_remove_by_callbacks csq" "sending_ok s" "no_nmi_fault e"
  shows "\<exists>st s'. ValidateHalDispatchTables e csq s = Some (st, s') \<and> sending_ok s'"
proof -
  obtain st m t where q: "query_modules (ne_query e) (ne_alloc e) s = (st, m, t)" by (metis prod_cases3)
  have ok: "sending_ok t" using query_modules_ok[OF q] assms(2) by simp
  have free: "sending_ok (free_modules_if m u) = sending_ok u" for u by (simp add: free_modules_if_def free_modules_def)
  have rep: "\<exists>u'. (if r \<noteq> NULL then ReportDataTableInvalidRoutine e csq i r u else Some u) = Some u' \<and> sending_ok u'"
    if "sending_ok u" for r i u using written_report_ok(1)[OF assms(1) that assms(3)] that by simp
  show ?thesis
  proof (cases "NT_SUCCESS st")
    case True
    note m = query_modules_counted[OF assms(3) q True]
    from hal_tables_total(1)[OF m assms(3)] obtain st1 r1 where h: "ValidateHalDispatchTable e m = Some (st1, r1)" by blast
    from hal_tables_total(2)[OF m assms(3)] obtain st2 r2 where g: "ValidateHalPrivateDispatchTable e m NULL = Some (st2, r2)" by blast
    from rep[OF ok, of r1 HalDispatch] obtain u where u: "(if r1 \<noteq> NULL then ReportDataTableInvalidRoutine e csq HalDispatch r1 t else Some t) = Some u" "sending_ok u" by blast
    from rep[OF u(2), of r2 HalPrivateDispatch] obtain v where "(if r2 \<noteq> NULL then ReportDataTableInvalidRoutine e csq HalPrivateDispatch r2 u else Some u) = Some v" "sending_ok v" by blast
    with True q h g u ok free show ?thesis by (auto simp: ValidateHalDispatchTables_def)
  next
    case False
    with q ok show ?thesis by (simp add: ValidateHalDispatchTables_def)
  qed
qed

lemma sending_ok_fields [simp]: "sending_ok (s\<lparr>nmi_status := n\<rparr>) = sending_ok (s :: 'a drv_st_scheme)"
  by (rule sending_ok_cong) simp_all

lemma launch_total:
  fixes s :: "'a drv_st_scheme"
  assumes "no_nmi_fault e" "sending_ok s"
  shows "\<exists>st ctx s'. LaunchNonMaskableInterrupt e (nmi_contexts (ne_cores e)) s = Some (st, ctx, s')
     \<and> unat (ne_cores e) \<le> length ctx \<and> sending_ok s'"
proof -
  let ?n = "unat (ne_cores e)"
  have mem: "\<forall>p. ne_memory e p \<noteq> None" using assms(1) by (auto simp: no_nmi_fault_def)
  have "unat (ne_cores e * 32) = ?n * 32"
    using assms(1) by (simp add: no_nmi_fault_def unat_word_ariths take_bit_eq_mod)
  then have len: "length (nmi_contexts (ne_cores e)) = ?n" by (simp add: nmi_contexts_def sizeof_NMI_CONTEXT_def)
  have cb: "\<exists>ctx'. NmiCallback e i ctx = Some ctx' \<and> length ctx' = length ctx" if "i < length ctx" for i ctx
  proof -
    note r = mapped_reads(2)[OF mem]
    from r[of "ne_gs_base e i + KPCR_TSS_BASE_OFFSET"] obtain tss where tss: "read_u64 (ne_memory e) (ne_gs_base e i + KPCR_TSS_BASE_OFFSET) = Some tss" by blast
    from r[of "tss + FIELD_OFFSET TASK_STATE_SEGMENT_64_layout ''Ist3''"] obtain ist3 where
      ist: "read_u64 (ne_memory e) (tss + FIELD_OFFSET TASK_STATE_SEGMENT_64_layout ''Ist3'') = Some ist3" by blast
    from r[of "ist3 - sizeof_MACHINE_FRAME + FIELD_OFFSET MACHINE_FRAME_layout ''rip''"]
      r[of "ist3 - sizeof_MACHINE_FRAME + FIELD_OFFSET MACHINE_FRAME_layout ''rsp''"] that
    show ?thesis by (auto simp: NmiCallback_def tss ist Let_def)
  qed
  obtain p where p: "ne_alloc e (k_allocs s) = Some p" using assms(1) by (auto simp: no_nmi_fault_def)
  let ?s = "emit (PoolAlloc p PROC_AFFINITY_POOL) (s\<lparr>k_allocs := Suc (k_allocs s)\<rparr>)"
  have alloc: "ExAllocatePool2 (ne_alloc e) PROC_AFFINITY_POOL s = (Some p, ?s)" using p by (simp add: ExAllocatePool2_def)
  let ?P = "\<lambda>i :: nat. \<lambda>ct. length (fst ct) = ?n \<and> sending_ok (snd ct)"
  have "\<exists>ct. for_each [0..<?n] (send_nmi e) (nmi_contexts (ne_cores e), ?s) = Some ct \<and> ?P ?n ct"
  proof (rule for_each_upt[where P = ?P])
    show "?P 0 (nmi_contexts (ne_cores e), ?s)" using len alloc_sending_ok[OF alloc] assms(2) by simp
    fix i and ct :: "NMI_CONTEXT list \<times> 'a drv_st_scheme"
    assume "i < ?n" "?P i ct"
    with cb[of i "fst ct"] show "\<exists>ct'. send_nmi e i ct = Some ct' \<and> ?P (Suc i) ct'"
      by (cases ct) (auto simp: send_nmi_def Let_def)
  qed
  then show ?thesis using alloc by (auto simp: LaunchNonMaskableInterrupt_def)
qed

lemma analyse_total:
  assumes "csq_remove_by_callbacks csq" "no_nmi_fault e" "modules_ok m"
  shows "sending_ok s \<Longrightarrow> \<forall>core \<in> set cores. core < length ctx \<Longrightarrow> \<exists>s'. analyse_loop e csq m ctx cores s = Some s'"
proof (induction cores arbitrary: s)
  case (Cons core cores)
  let ?c = "ctx ! core"
  obtain valid t where t: "ValidateThreadsPspCidTableEntry e (nc_kthread ?c) s = (valid, t)" by fastforce
  then have "sending_ok t" using Cons.prems(1)
    by (auto simp: ValidateThreadsPspCidTableEntry_def PsLookup_def Let_def split: if_splits)
  then obtain u where u: "(if \<not> valid then ReportMissingCidTableEntry e csq ?c t else Some t) = Some u" "sending_ok u"
    using written_report_ok(2)[OF assms(1) _ assms(2)] by (cases valid) auto
  obtain st b where b: "IsInstructionPointerInInvalidRegion (nc_interrupted_rip ?c) m = Some (st, b)"
    using pointer_test_total[OF assms(3)] by blast
  have blocking: "\<exists>s'. ReportNmiBlocking e csq s = Some s'" using written_report_ok(4)[OF assms(1) Cons.prems(1) assms(2)] by blast
  have rip: "\<exists>s'. ReportInvalidRipFoundDuringNmi e csq ?c u = Some s'" using written_report_ok(3)[OF assms(1) u(2) assms(2)] by blast
  have "\<exists>s'. analyse_loop e csq m ctx cores u = Some s'" using Cons.IH[OF u(2)] Cons.prems(2) by simp
  with Cons.prems(2) t u(1) b blocking rip show ?case by (simp add: Let_def)
qed simp

lemma nmi_registered_total:
  assumes "csq_remove_by_callbacks csq" "no_nmi_fault e" "sending_ok s"
  shows "\<exists>r. nmi_registered e csq h c s = Some r"
proof -
  obtain st m t where q: "query_modules (ne_query e) (ne_alloc e) s = (st, m, t)" by (metis prod_cases3)
  have "sending_ok t" using query_modules_ok[OF q] assms(3) by simp
  with launch_total[OF assms(2)] obtain st2 ctx u where
    u: "LaunchNonMaskableInterrupt e (nmi_contexts (ne_cores e)) t = Some (st2, ctx, u)" "unat (ne_cores e) \<le> length ctx" "sending_ok u" by blast
  show ?thesis
  proof (cases "NT_SUCCESS st")
    case True
    have "\<forall>core \<in> set [0..<unat (ne_cores e)]. core < length ctx" using u(2) by auto
    from analyse_total[OF assms(1,2) query_modules_counted[OF assms(2) q True] u(3) this] q u(1) show ?thesis
      by (auto simp: nmi_registered_def AnalyseNmiData_def)
  next
    case False
    with q show ?thesis by (simp add: nmi_registered_def)
  qed
qed

lemma nmi_request_total:
  assumes "csq_remove_by_callbacks csq" "nmi_status s \<noteq> 0 \<or> sending_ok s \<and> no_nmi_fault e"
  shows "\<exists>status s'. HandleNmiIOCTL e csq s = Some (status, s')"
proof (cases "nmi_status s = 0")
  case True
  with assms(2) have s: "sending_ok (s\<lparr>nmi_status := 1\<rparr>)" "no_nmi_fault e" by simp_all
  from hal_check_total[OF assms(1) s] obtain st t where t: "ValidateHalDispatchTables e csq (s\<lparr>nmi_status := 1\<rparr>) = Some (st, t)" "sending_ok t" by blast
  obtain r u where u: "ExAllocatePool2 (ne_alloc e) NMI_CONTEXT_POOL t = (r, u)" by fastforce
  have "sending_ok (emit (Call ''KeRegisterNmiCallback'' [ne_register e]) u)" using alloc_sending_ok[OF u] t(2) by simp
  from nmi_registered_total[OF assms(1) s(2) this] show ?thesis
    using True t(1) u by (auto simp: HandleNmiIOCTL_def IsNmiInProgress_def split: option.splits)
next
  case False
  then show ?thesis by (simp add: HandleNmiIOCTL_def IsNmiInProgress_def)
qed

text \<open>C32: one request for non-maskable interrupts at a time, and none leaves anything behind. While one
  is in progress another is refused and changes nothing. Whatever happens to a request that is
  admitted, also when an allocation, the registration or the module query fails, by the time it
  returns the progress flag, which it has set, is clear again as it was before, the callback is no longer registered, the
  locks are as they were and the lists of the driver untouched. A request that finds another in
  progress always returns, and so does any request on a machine where nothing it reads is unmapped, no
  allocation fails and the module query is consistent.\<close>

theorem nmi_request_leaves_nothing:
  assumes "csq_remove_by_callbacks csq"
  shows "(\<forall>status s'. HandleNmiIOCTL e csq s = Some (status, s') \<longrightarrow>
       nmi_status s' = nmi_status s \<and> (nmi_status s \<noteq> 0 \<longrightarrow> status = STATUS_ALREADY_COMMITTED \<and> s' = s)
       \<and> registrations (k_trace s') = registrations (k_trace s) \<and> slist s' = slist s
       \<and> neutral {IrpQueueSpinLock, DeferredReportsSpinLock} s s')
     \<and> (nmi_status s \<noteq> 0 \<or> sending_ok s \<and> no_nmi_fault e \<longrightarrow> (\<exists>status s'. HandleNmiIOCTL e csq s = Some (status, s')))"
  using nmi_request_done[OF assms] nmi_request_total[OF assms] by blast

text \<open>A request on a machine that refuses the registration and the module query, and one that cannot fault.\<close>

theorem nmi_request_leaves_nothing_witness:
  "(\<exists>s'. HandleNmiIOCTL (example_nmi_env\<lparr>ne_register := NULL, ne_query := \<lparr>mq_size = (STATUS_UNSUCCESSFUL, 0), mq_fill = (STATUS_SUCCESS, 0, [])\<rparr>\<rparr>)
        example_csq example_drv_st = Some (STATUS_UNSUCCESSFUL, s')
     \<and> nmi_status s' = 0 \<and> registrations (k_trace s') = 0)
   \<and> (\<exists>r. HandleNmiIOCTL (example_nmi_env\<lparr>ne_memory := \<lambda>_. Some 0\<rparr>) example_csq example_drv_st = Some r)"
proof (rule conjI)
  let ?e = "example_nmi_env\<lparr>ne_register := NULL, ne_query := \<lparr>mq_size = (STATUS_UNSUCCESSFUL, 0), mq_fill = (STATUS_SUCCESS, 0, [])\<rparr>\<rparr>"
  have s: "nmi_status example_drv_st = 0" "k_trace example_drv_st = []" by (simp_all add: example_drv_defs)
  then have "\<exists>s'. HandleNmiIOCTL ?e example_csq example_drv_st = Some (STATUS_UNSUCCESSFUL, s')"
    by (simp add: HandleNmiIOCTL_def IsNmiInProgress_def ValidateHalDispatchTables_def query_modules_def
        GetSystemModuleInformation_def ExAllocatePool2_def example_nmi_env_def)
  with nmi_request_leaves_nothing[OF example_csq_ok, of ?e example_drv_st] s
  show "\<exists>s'. HandleNmiIOCTL ?e example_csq example_drv_st = Some (STATUS_UNSUCCESSFUL, s')
     \<and> nmi_status s' = 0 \<and> registrations (k_trace s') = 0" by auto
  have "no_nmi_fault (example_nmi_env\<lparr>ne_memory := \<lambda>_. Some 0\<rparr>)"
    by (simp add: no_nmi_fault_def example_nmi_env_def)
  moreover have "sending_ok example_drv_st"
    by (simp add: sending_ok_def queue_inv_def irps_ok_def example_drv_defs example_irp_def example_packet_irp_def)
  ultimately show "\<exists>r. HandleNmiIOCTL (example_nmi_env\<lparr>ne_memory := \<lambda>_. Some 0\<rparr>) example_csq example_drv_st = Some r"
    using nmi_request_leaves_nothing[OF example_csq_ok, of "example_nmi_env\<lparr>ne_memory := \<lambda>_. Some 0\<rparr>" example_drv_st] by auto
qed

section \<open>What the interrupts find\<close>

text \<open>The interrupted instruction and stack pointers, on top of the interrupt stack of a processor.\<close>

definition machine_frame :: "nmi_env \<Rightarrow> nat \<Rightarrow> (u64 \<times> u64) option" where
  "machine_frame e core = do {
     tss \<leftarrow> read_u64 (ne_memory e) (ne_gs_base e core + 8);
     ist3 \<leftarrow> read_u64 (ne_memory e) (tss + 52);
     rip \<leftarrow> read_u64 (ne_memory e) (ist3 - 40);
     rsp \<leftarrow> read_u64 (ne_memory e) (ist3 - 16);
     Some (rip, rsp)
   }"

definition recorded :: "nmi_env \<Rightarrow> nat \<Rightarrow> u64 \<times> u64 \<Rightarrow> NMI_CONTEXT" where
  "recorded e core f = \<lparr>nc_interrupted_rip = fst f, nc_interrupted_rsp = snd f, nc_kthread = ne_core_thread e core,
     nc_callback_count = 1, nc_user_thread = (fst f \<le> WINDOWS_USERMODE_MAX_ADDRESS)\<rparr>"

lemma nmi_offsets:
  "FIELD_OFFSET TASK_STATE_SEGMENT_64_layout ''Ist3'' = 52" "FIELD_OFFSET MACHINE_FRAME_layout ''rip'' = 0"
  "FIELD_OFFSET MACHINE_FRAME_layout ''rsp'' = 24"
  by (simp_all add: FIELD_OFFSET_def TASK_STATE_SEGMENT_64_layout_def MACHINE_FRAME_layout_def align_up_def)

lemma NmiCallback_records:
  assumes "machine_frame e core = Some f" "core < length ctx" "ctx ! core = zero_nmi_context"
  shows "NmiCallback e core ctx = Some (ctx[core := recorded e core f])"
proof -
  have "x - 40 + 24 = x - (16 :: u64)" for x by (simp add: algebra_simps)
  moreover from assms(1) obtain tss ist3 where "read_u64 (ne_memory e) (ne_gs_base e core + 8) = Some tss"
    "read_u64 (ne_memory e) (tss + 52) = Some ist3" "read_u64 (ne_memory e) (ist3 - 40) = Some (fst f)"
    "read_u64 (ne_memory e) (ist3 - 16) = Some (snd f)"
    by (auto simp: machine_frame_def bind_eq_Some_conv)
  ultimately show ?thesis
    using assms(2,3)
    by (simp add: NmiCallback_def recorded_def nmi_offsets zero_nmi_context_def sizeof_MACHINE_FRAME_def KPCR_TSS_BASE_OFFSET_def)
qed

lemma launch_records:
  assumes "unat (ne_cores e) < 2 ^ 27" "\<forall>core < unat (ne_cores e). ne_delivered e core \<and> machine_frame e core = Some (f core)"
    and "ne_alloc e (k_allocs s) = Some p"
  shows "\<exists>s'. LaunchNonMaskableInterrupt e (nmi_contexts (ne_cores e)) s =
     Some (STATUS_SUCCESS, map (\<lambda>core. recorded e core (f core)) [0..<unat (ne_cores e)], s')"
proof -
  let ?n = "unat (ne_cores e)" and ?r = "\<lambda>core. recorded e core (f core)"
  have "unat (ne_cores e * 32) = ?n * 32"
    using assms(1) by (simp add: unat_word_ariths take_bit_eq_mod)
  then have ctx: "nmi_contexts (ne_cores e) = replicate ?n zero_nmi_context"
    by (simp add: nmi_contexts_def sizeof_NMI_CONTEXT_def)
  let ?s = "emit (PoolAlloc p PROC_AFFINITY_POOL) (s\<lparr>k_allocs := Suc (k_allocs s)\<rparr>)"
  have "\<exists>ct. for_each [0..<?n] (send_nmi e) (replicate ?n zero_nmi_context, ?s) = Some ct
     \<and> fst ct = map ?r [0..<?n] @ replicate (?n - ?n) zero_nmi_context"
  proof (rule for_each_upt[where P = "\<lambda>i ct. fst ct = map ?r [0..<i] @ replicate (?n - i) zero_nmi_context"])
    fix i and ct :: "NMI_CONTEXT list \<times> 'a kst_scheme"
    assume i: "i < ?n" "fst ct = map ?r [0..<i] @ replicate (?n - i) zero_nmi_context"
    then have "replicate (?n - i) zero_nmi_context = zero_nmi_context # replicate (?n - Suc i) zero_nmi_context"
      by (metis Suc_diff_Suc replicate_Suc)
    moreover have "NmiCallback e i (fst ct) = Some ((fst ct)[i := ?r i])"
      by (rule NmiCallback_records) (use assms(2) i in \<open>auto simp: nth_append\<close>)
    ultimately show "\<exists>ct'. send_nmi e i ct = Some ct' \<and> fst ct' = map ?r [0..<Suc i] @ replicate (?n - Suc i) zero_nmi_context"
      using assms(2) i by (auto simp: send_nmi_def list_update_append split: prod.splits)
  qed simp
  then show ?thesis
    using assms(3) by (auto simp: LaunchNonMaskableInterrupt_def ExAllocatePool2_def ctx)
qed

text \<open>Kernel code outside every module.\<close>

definition unbacked :: "SYSTEM_MODULES \<Rightarrow> u64 \<Rightarrow> bool" where
  "unbacked m rip \<longleftrightarrow> WINDOWS_USERMODE_MAX_ADDRESS < rip \<and> outside m rip"

text \<open>
  The threads that the lookups find for some processors: the idle threads are not looked up.
\<close>

definition looked_up :: "nmi_env \<Rightarrow> nat list \<Rightarrow> ptr list" where
  "looked_up e cores = map (\<lambda>core. ne_lookup_thread e (ne_thread_id e (ne_core_thread e core)))
     (filter (\<lambda>core. ucast (ne_cores e) \<le> ne_thread_id e (ne_core_thread e core)) cores)"

definition referenced :: "ptr list \<Rightarrow> 'a kst_scheme \<Rightarrow> 'a kst_scheme" where
  "referenced ts s = s\<lparr>k_trace := k_trace s @ map ObReference ts\<rparr>"

lemma referenced_referenced: "referenced us (referenced ts s) = referenced (ts @ us) s"
  by (simp add: referenced_def)

lemma cid_entry_eq:
  assumes "ne_thread_id e (ne_core_thread e core) < ucast (ne_cores e)
    \<or> ne_lookup_thread e (ne_thread_id e (ne_core_thread e core)) \<noteq> NULL"
  shows "ValidateThreadsPspCidTableEntry e (ne_core_thread e core) s = (True, referenced (looked_up e [core]) s)"
  using assms by (auto simp: ValidateThreadsPspCidTableEntry_def PsLookup_def Let_def looked_up_def referenced_def emit_def)

lemma analyse_loop_eq:
  assumes "modules_ok m" "\<forall>core \<in> set cores. core < length ctx \<and> ctx ! core = recorded e core (f core)
      \<and> (ne_thread_id e (ne_core_thread e core) < ucast (ne_cores e)
         \<or> ne_lookup_thread e (ne_thread_id e (ne_core_thread e core)) \<noteq> NULL)"
  shows "analyse_loop e csq m ctx cores s = (case find (\<lambda>core. unbacked m (fst (f core))) cores of
      None \<Rightarrow> Some (referenced (looked_up e cores) s)
    | Some core \<Rightarrow> ReportInvalidRipFoundDuringNmi e csq (recorded e core (f core))
        (referenced (looked_up e (takeWhile (\<lambda>core. \<not> unbacked m (fst (f core))) cores @ [core])) s))"
  using assms(2)
proof (induction cores arbitrary: s)
  case Nil
  then show ?case by (simp add: looked_up_def referenced_def)
next
  case (Cons core cores)
  define t where "t = referenced (looked_up e [core]) s"
  have valid: "ValidateThreadsPspCidTableEntry e (ne_core_thread e core) s = (True, t)"
    unfolding t_def by (rule cid_entry_eq) (use Cons.prems in simp)
  have IH: "analyse_loop e csq m ctx cores t = (case find (\<lambda>core. unbacked m (fst (f core))) cores of
      None \<Rightarrow> Some (referenced (looked_up e cores) t)
    | Some core \<Rightarrow> ReportInvalidRipFoundDuringNmi e csq (recorded e core (f core))
        (referenced (looked_up e (takeWhile (\<lambda>core. \<not> unbacked m (fst (f core))) cores @ [core])) t))"
    using Cons by simp
  have nz: "\<not> fst (f core) \<le> WINDOWS_USERMODE_MAX_ADDRESS \<Longrightarrow> fst (f core) \<noteq> 0" by auto
  have split: "referenced (looked_up e (core # cs)) s = referenced (looked_up e cs) t" for cs
    by (simp add: t_def referenced_referenced) (simp add: looked_up_def)
  have c: "core < length ctx" "ctx ! core = recorded e core (f core)" using Cons.prems by simp_all
  show ?case
  proof (cases "unbacked m (fst (f core))")
    case True
    then show ?thesis
      using c valid nz
      by (auto simp: unbacked_def recorded_def not_le[symmetric] pointer_test_eq[OF assms(1)] Let_def t_def)
  next
    case False
    then have "analyse_loop e csq m ctx (core # cores) s = analyse_loop e csq m ctx cores t"
      using c valid nz by (auto simp: unbacked_def recorded_def not_le[symmetric] pointer_test_eq[OF assms(1)] Let_def)
    then show ?thesis using False IH by (simp add: split split: option.splits)
  qed
qed

lemma find_upt: "find P [0..<n] = Some i \<Longrightarrow> takeWhile (\<lambda>i. \<not> P i) [0..<n] @ [i] = [0..<Suc i]"
proof -
  assume "find P [0..<n] = Some i"
  then have i: "i < n" "P i" "\<forall>j < i. \<not> P j" by (auto simp: find_Some_iff)
  then have "[0..<n] = [0..<i] @ i # [Suc i..<n]"
    by (metis upt_add_eq_append le_add_diff_inverse less_imp_le_nat upt_conv_Cons zero_le)
  moreover have "takeWhile (\<lambda>i. \<not> P i) ([0..<i] @ i # [Suc i..<n]) = [0..<i]"
    using i by (subst takeWhile_append2) auto
  ultimately show ?thesis by simp
qed

lemma rip_report_sent:
  assumes "csq_remove_by_callbacks csq" "sending_ok t" "ne_alloc e (k_allocs t) = Some q"
  shows "\<exists>status t'. IrpQueueCompleteIrp csq (ne_alloc e) q 528
       (t\<lparr>k_allocs := Suc (k_allocs t), k_trace := k_trace t @ map ObReference ts @ [PoolAlloc q REPORT_POOL_TAG],
          pool := (pool t)(q \<mapsto> report_bytes (NMI_CALLBACK_FAILURE REPORT_NMI_CALLBACK_FAILURE 0 (nc_kthread c) (nc_interrupted_rip c))
            @ replicate 504 0)\<rparr>) = Some (status, t')
     \<and> ReportInvalidRipFoundDuringNmi e csq c (referenced ts t) = Some t'"
proof -
  let ?bs = "report_bytes (NMI_CALLBACK_FAILURE REPORT_NMI_CALLBACK_FAILURE 0 (nc_kthread c) (nc_interrupted_rip c)) @ replicate 504 0"
  let ?u = "t\<lparr>k_allocs := Suc (k_allocs t), k_trace := k_trace t @ map ObReference ts @ [PoolAlloc q REPORT_POOL_TAG]\<rparr>"
  have "sending_ok ?u" using assms(2) sending_ok_cong[of ?u t] by simp
  moreover have "length ?bs = 528" by (simp add: length_report_bytes)
  ultimately obtain status t' where t': "IrpQueueCompleteIrp csq (ne_alloc e) q 528 (?u\<lparr>pool := (pool ?u)(q \<mapsto> ?bs)\<rparr>) = Some (status, t')"
    using csq_queue.hand_over_ok[OF csq_queue.intro[OF assms(1)], of ?u 528 ?bs "ne_alloc e" q] by auto
  with assms(3) have "ReportInvalidRipFoundDuringNmi e csq c (referenced ts t) = Some t'"
    by (simp add: ReportInvalidRipFoundDuringNmi_def ExAllocatePool2_def referenced_def emit_def Let_def)
  with t' show ?thesis by simp
qed


lemma example_frames:
  "machine_frame example_nmi_env 0 = Some (0xFFFF800000001100, 0x9000)"
  "machine_frame example_nmi_env 1 = Some (0xFFFF800000006666, 0xA000)"
proof -
  let ?ws = "[0xDC, 0xE4, 0x148, 0x170, 0xFFFF800000001100, 0x10, 0, 0x9000, 0x18, 0xFFFF800000006666, 0x10, 0, 0xA000, 0x18] :: u64 list"
  note r = read_words_memory[of _ ?ws "0x100", folded example_nmi_memory_def]
  show "machine_frame example_nmi_env 0 = Some (0xFFFF800000001100, 0x9000)"
    using r[of 0] r[of 2] r[of 4] r[of 7] by (simp add: machine_frame_def example_nmi_env_def)
  show "machine_frame example_nmi_env 1 = Some (0xFFFF800000006666, 0xA000)"
    using r[of 1] r[of 3] r[of 9] r[of 12] by (simp add: machine_frame_def example_nmi_env_def)
qed


end
