(* ===== verification/Stackwalk.thy ===== *)
theory Stackwalk
  imports Nmi
begin

text \<open>
  Walking the stacks of threads and processors, from \<^verbatim>\<open>src/driver/modules.c\<close>: a kernel APC queued
  to every system thread, whose routine walks the thread's own stack, and a DPC that runs on every
  processor. Every return address outside the loaded modules is reported.

  The state extends that of the driver by what the routines change outside of it: the module array
  that an APC context points to, the \<^verbatim>\<open>MiscFlags\<close> of kernel threads, and the APCs that are queued.
  The parameter \<open>walk_env\<close> is what the kernel answers; a back trace is the list of return addresses
  that \<^verbatim>\<open>RtlCaptureStackBackTrace\<close> stores when it is asked to skip and to capture so many frames.
\<close>

record KAPC =
  ka_thread :: ptr
  ka_NormalContext :: ptr

record walk_st = drv_st +
  apc_modules :: "ptr \<rightharpoonup> SYSTEM_MODULES"
  misc_flags :: "ptr \<rightharpoonup> u32"
  kapcs :: "ptr \<rightharpoonup> KAPC"

record walk_env =
  we_query :: module_query
  we_alloc :: allocator
  we_current_thread :: ptr
  we_system_process :: ptr
  we_backtrace :: "nat \<Rightarrow> nat \<Rightarrow> ptr \<Rightarrow> u64 list"
  we_insert_apc :: "ptr \<Rightarrow> bool"
  we_cores :: u32
  we_core_thread :: "nat \<Rightarrow> ptr"

section \<open>The APC routines\<close>

text \<open>
  Freeing an APC also ends the life of its object. The rundown routine runs when the thread ends
  before the APC is delivered.
\<close>

definition free_apc :: "ptr \<Rightarrow> 'a walk_st_scheme \<Rightarrow> 'a walk_st_scheme option" where
  "free_apc Apc s = FreeApcAndDecrementApcCount Apc APC_CONTEXT_ID_STACKWALK (s\<lparr>kapcs := (kapcs s)(Apc := None)\<rparr>)"

definition ApcRundownRoutine :: "ptr \<Rightarrow> 'a walk_st_scheme \<Rightarrow> 'a walk_st_scheme option" where
  "ApcRundownRoutine Apc s = free_apc Apc s"

definition ReportApcStackwalkViolation ::
  "walk_env \<Rightarrow> 'a irp_st_scheme csq_remove \<Rightarrow> u64 \<Rightarrow> 'a irp_st_scheme \<Rightarrow> 'a irp_st_scheme option" where
  "ReportApcStackwalkViolation e csq Rip s =
     send_report csq (we_alloc e) (APC_STACKWALK_REPORT REPORT_APC_STACKWALK (we_current_thread e) Rip []) s"

definition STACK_FRAME_POOL_SIZE :: nat where "STACK_FRAME_POOL_SIZE = 0x200"

text \<open>The walk stops at the first frame that the test refuses, a null return address.\<close>

primrec walk_frames ::
  "(u64 \<Rightarrow> 'a irp_st_scheme \<Rightarrow> 'a irp_st_scheme option) \<Rightarrow> SYSTEM_MODULES \<Rightarrow> u64 list \<Rightarrow> 'a irp_st_scheme \<Rightarrow> 'a irp_st_scheme option" where
  "walk_frames report m [] s = Some s"
| "walk_frames report m (rip # rips) s = do {
     (status, flag) \<leftarrow> IsInstructionPointerInInvalidRegion rip m;
     (if \<not> NT_SUCCESS status then Some s
      else do {
        s \<leftarrow> (if flag \<noteq> Some True then report rip s else Some s);
        walk_frames report m rips s
      })
   }"

text \<open>
  The routine runs on the thread that the APC was queued to, which is then the current thread. For
  a thread that is not on the list it returns at once, and the APC is not freed. The frame buffer
  has room for 64 addresses.
\<close>

definition ApcKernelRoutine ::
  "walk_env \<Rightarrow> 'a walk_st_scheme csq_remove \<Rightarrow> ptr \<Rightarrow> 'a walk_st_scheme \<Rightarrow> 'a walk_st_scheme option" where
  "ApcKernelRoutine e csq Apc s = do {
     apc \<leftarrow> kapcs s Apc;
     (entry, s) \<leftarrow> FindThreadListEntryByThreadAddress (we_current_thread e) s;
     (if entry = NULL then Some s
      else do {
        s \<leftarrow> (case ExAllocatePool2 (we_alloc e) POOL_TAG_APC s of
                (None, s) \<Rightarrow> Some s
              | (Some buffer, s) \<Rightarrow> do {
                  let frames = we_backtrace e 0 (STACK_FRAME_POOL_SIZE div 8) (we_current_thread e);
                  (if STACK_FRAME_POOL_SIZE div 8 < length frames then None
                   else do {
                     s \<leftarrow> (if frames = [] then Some s
                           else do {
                             c \<leftarrow> apc_mem s (ka_NormalContext apc);
                             m \<leftarrow> apc_modules s (ac_modules c);
                             walk_frames (ReportApcStackwalkViolation e csq) m frames s
                           });
                     Some (emit (PoolFree buffer POOL_TAG_APC) s)
                   })
                });
        s \<leftarrow> free_apc Apc s;
        t \<leftarrow> thread_entry s entry;
        Some (s\<lparr>threads := (threads s)(entry \<mapsto> t\<lparr>tl_apc := NULL, tl_apc_queued := False\<rparr>)\<rparr>)
      })
   }"

section \<open>Queueing the APCs\<close>

definition KTHREAD_MISC_FLAGS_ALERTABLE :: u32 where "KTHREAD_MISC_FLAGS_ALERTABLE = 4"
definition KTHREAD_MISC_FLAGS_APC_QUEUEABLE :: u32 where "KTHREAD_MISC_FLAGS_APC_QUEUEABLE = 14"

text \<open>\<^verbatim>\<open>SetFlag\<close> ors its second argument into the first; the two constants are bit numbers.\<close>

definition SetFlag :: "u32 \<Rightarrow> u32 \<Rightarrow> u32" where
  "SetFlag flags f = (flags OR f)"

definition ValidateThreadViaKernelApcCallback ::
  "walk_env \<Rightarrow> ptr \<Rightarrow> ptr \<Rightarrow> 'a walk_st_scheme \<Rightarrow> 'a walk_st_scheme option" where
  "ValidateThreadViaKernelApcCallback e Context ThreadListEntry s = do {
     t \<leftarrow> thread_entry s ThreadListEntry;
     (if tl_owning_process t \<noteq> we_system_process e then Some s
      else if tl_thread t = we_current_thread e \<or> tl_thread t = NULL then Some s
      else do {
        flags \<leftarrow> misc_flags s (tl_thread t);
        let s = s\<lparr>misc_flags := (misc_flags s)(tl_thread t \<mapsto>
                    SetFlag (SetFlag flags KTHREAD_MISC_FLAGS_ALERTABLE) KTHREAD_MISC_FLAGS_APC_QUEUEABLE)\<rparr>;
        (case ExAllocatePool2 (we_alloc e) POOL_TAG_APC s of
           (None, s) \<Rightarrow> Some s
         | (Some apc, s) \<Rightarrow> do {
             let s = emit (Call ''KeInitializeApc'' [apc, tl_thread t, Context])
                       (s\<lparr>kapcs := (kapcs s)(apc \<mapsto> \<lparr>ka_thread = tl_thread t, ka_NormalContext = Context\<rparr>)\<rparr>);
             let s = emit (Call ''KeInsertQueueApc'' [apc]) s;
             (if \<not> we_insert_apc e (tl_thread t)
              then Some (emit (PoolFree apc POOL_TAG_APC) (s\<lparr>kapcs := (kapcs s)(apc := None)\<rparr>))
              else do {
                let s = s\<lparr>threads := (threads s)(ThreadListEntry \<mapsto> t\<lparr>tl_apc := apc, tl_apc_queued := True\<rparr>)\<rparr>;
                IncrementApcCount APC_CONTEXT_ID_STACKWALK s
              })
           })
      })
   }"

text \<open>Writing to the context header: the context is dead if a query freed it meanwhile.\<close>

definition set_allocation_in_progress :: "ptr \<Rightarrow> bool \<Rightarrow> 'a walk_st_scheme \<Rightarrow> 'a walk_st_scheme option" where
  "set_allocation_in_progress p b s = do {
     h \<leftarrow> apc_mem s p;
     Some (s\<lparr>apc_mem := (apc_mem s)(p \<mapsto> h\<lparr>ac_allocation_in_progress := (if b then 1 else 0)\<rparr>)\<rparr>)
   }"

text \<open>
  A registered context means that a walk is under way. A failed module query gives the status of a
  failed allocation.
\<close>

definition ValidateThreadsViaKernelApc ::
  "walk_env \<Rightarrow> 'a walk_st_scheme \<Rightarrow> (NTSTATUS \<times> 'a walk_st_scheme) option" where
  "ValidateThreadsViaKernelApc e s = do {
     (existing, s) \<leftarrow> GetApcContext NULL APC_CONTEXT_ID_STACKWALK s;
     (if existing \<noteq> NULL then Some (STATUS_SUCCESS, s)
      else case ExAllocatePool2 (we_alloc e) POOL_TAG_APC s of
        (None, s) \<Rightarrow> Some (STATUS_MEMORY_NOT_ALLOCATED, s)
      | (Some p, s) \<Rightarrow> (case ExAllocatePool2 (we_alloc e) POOL_TAG_APC s of
          (None, s) \<Rightarrow> Some (STATUS_MEMORY_NOT_ALLOCATED, emit (PoolFree p POOL_TAG_APC) s)
        | (Some q, s) \<Rightarrow> (case query_modules (we_query e) (we_alloc e) s of (status, m, s) \<Rightarrow>
            if \<not> NT_SUCCESS status
            then Some (STATUS_MEMORY_NOT_ALLOCATED, emit (PoolFree p POOL_TAG_APC) (emit (PoolFree q POOL_TAG_APC) s))
            else do {
              let s = s\<lparr>apc_modules := (apc_modules s)(q \<mapsto> m),
                        apc_mem := (apc_mem s)(p \<mapsto> \<lparr>ac_context_id = APC_CONTEXT_ID_STACKWALK, ac_count = 0,
                           ac_allocation_in_progress = 0, ac_modules = q, ac_modules_address = sm_address m\<rparr>)\<rparr>;
              s \<leftarrow> InsertApcContext p s;
              s \<leftarrow> set_allocation_in_progress p True s;
              s \<leftarrow> EnumerateThreadListWithCallbackRoutine (Some (ValidateThreadViaKernelApcCallback e p)) s;
              s \<leftarrow> set_allocation_in_progress p False s;
              Some (status, s)
            })))
   }"

section \<open>The walk by DPC\<close>

record DPC_CONTEXT =
  dc_stack_frame :: "u64 list"
  dc_frames_captured :: u16
  dc_executed :: bool

definition DPC_STACKWALK_STACKFRAME_COUNT :: nat where "DPC_STACKWALK_STACKFRAME_COUNT = 10"
definition DPC_STACKWALK_FRAMES_TO_SKIP :: nat where "DPC_STACKWALK_FRAMES_TO_SKIP = 3"
definition sizeof_DPC_CONTEXT :: nat where "sizeof_DPC_CONTEXT = 88"

definition zero_dpc_context :: DPC_CONTEXT where
  "zero_dpc_context = \<lparr>dc_stack_frame = replicate DPC_STACKWALK_STACKFRAME_COUNT 0, dc_frames_captured = 0, dc_executed = False\<rparr>"

text \<open>
  The callback on one processor. More frames than asked for would run over the array.
\<close>

definition DpcStackwalkCallbackRoutine :: "walk_env \<Rightarrow> nat \<Rightarrow> DPC_CONTEXT list \<Rightarrow> DPC_CONTEXT list option" where
  "DpcStackwalkCallbackRoutine e core ctx =
     (let frames = we_backtrace e DPC_STACKWALK_FRAMES_TO_SKIP DPC_STACKWALK_STACKFRAME_COUNT (we_core_thread e core) in
      if core < length ctx \<and> length frames \<le> DPC_STACKWALK_STACKFRAME_COUNT
      then Some (ctx[core := \<lparr>dc_stack_frame = frames @ drop (length frames) (dc_stack_frame (ctx ! core)),
                              dc_frames_captured = of_nat (length frames), dc_executed = True\<rparr>])
      else None)"

text \<open>Fails on an index behind the array.\<close>

primrec check_executed :: "DPC_CONTEXT list \<Rightarrow> nat list \<Rightarrow> bool option" where
  "check_executed ctx [] = Some True"
| "check_executed ctx (i # is) =
     (if \<not> i < length ctx then None else if \<not> dc_executed (ctx ! i) then Some False else check_executed ctx is)"

definition CheckForDpcCompletion :: "walk_env \<Rightarrow> DPC_CONTEXT list \<Rightarrow> bool option" where
  "CheckForDpcCompletion e ctx = check_executed ctx [0..<unat (we_cores e)]"

definition ReportDpcStackwalkViolation ::
  "walk_env \<Rightarrow> 'a irp_st_scheme csq_remove \<Rightarrow> u64 \<Rightarrow> 'a irp_st_scheme \<Rightarrow> 'a irp_st_scheme option" where
  "ReportDpcStackwalkViolation e csq Frame s =
     send_report csq (we_alloc e) (DPC_STACKWALK_REPORT REPORT_DPC_STACKWALK (we_current_thread e) Frame []) s"

definition ValidateDpcStackFrame ::
  "walk_env \<Rightarrow> 'a irp_st_scheme csq_remove \<Rightarrow> SYSTEM_MODULES \<Rightarrow> DPC_CONTEXT \<Rightarrow> 'a irp_st_scheme \<Rightarrow> 'a irp_st_scheme option" where
  "ValidateDpcStackFrame e csq m c s =
     (if length (dc_stack_frame c) < unat (dc_frames_captured c) then None
      else walk_frames (ReportDpcStackwalkViolation e csq) m (take (unat (dc_frames_captured c)) (dc_stack_frame c)) s)"

definition ValidateDpcCapturedStack ::
  "walk_env \<Rightarrow> 'a irp_st_scheme csq_remove \<Rightarrow> SYSTEM_MODULES \<Rightarrow> DPC_CONTEXT list \<Rightarrow> 'a irp_st_scheme \<Rightarrow> 'a irp_st_scheme option" where
  "ValidateDpcCapturedStack e csq m ctx s =
     for_each [0..<unat (we_cores e)] (\<lambda>core s.
       if core < length ctx then ValidateDpcStackFrame e csq m (ctx ! core) s else None) s"

text \<open>
  \<^verbatim>\<open>KeGenericCallDpc\<close> runs the callback on every processor. If one had not run, the routine would
  spin for ever.
\<close>

definition DispatchStackwalkToEachCpuViaDpc ::
  "walk_env \<Rightarrow> 'a irp_st_scheme csq_remove \<Rightarrow> 'a irp_st_scheme \<Rightarrow> (NTSTATUS \<times> 'a irp_st_scheme) option" where
  "DispatchStackwalkToEachCpuViaDpc e csq s = (case ExAllocatePool2 (we_alloc e) POOL_TAG_APC s of
     (None, s) \<Rightarrow> Some (STATUS_MEMORY_NOT_ALLOCATED, s)
   | (Some p, s) \<Rightarrow> (case query_modules (we_query e) (we_alloc e) s of (status, m, s) \<Rightarrow>
       if \<not> NT_SUCCESS status then Some (status, emit (PoolFree p POOL_TAG_APC) (free_modules_if m s))
       else do {
         let size = unat (we_cores e * of_nat sizeof_DPC_CONTEXT);
         ctx \<leftarrow> for_each [0..<unat (we_cores e)] (DpcStackwalkCallbackRoutine e)
                    (replicate (size div sizeof_DPC_CONTEXT) zero_dpc_context);
         let s = emit (Call ''KeGenericCallDpc'' []) s;
         complete \<leftarrow> CheckForDpcCompletion e ctx;
         (if \<not> complete then None
          else do {
            s \<leftarrow> ValidateDpcCapturedStack e csq m ctx s;
            Some (status, emit (PoolFree p POOL_TAG_APC) (free_modules_if m s))
          })
       }))"

section \<open>The frames that are reported\<close>

definition violations :: "SYSTEM_MODULES \<Rightarrow> u64 list \<Rightarrow> u64 list" where
  "violations m rips = filter (outside m) (takeWhile (\<lambda>r. r \<noteq> 0) rips)"

lemma walk_frames_eq:
  assumes "modules_ok m"
  shows "walk_frames report m rips s = for_each (violations m rips) report s"
proof (induction rips arbitrary: s)
  case (Cons r rips)
  then show ?case
    by (cases "r = 0") (auto simp: violations_def pointer_test_eq[OF assms] IsInstructionPointerInInvalidRegion_def[of 0]
        cong: Option.bind_cong)
qed (simp add: violations_def)

lemma dpc_callbacks_record:
  assumes "unat (we_cores e) * sizeof_DPC_CONTEXT < 2 ^ 32"
    and "\<forall>core < unat (we_cores e). length (we_backtrace e DPC_STACKWALK_FRAMES_TO_SKIP DPC_STACKWALK_STACKFRAME_COUNT (we_core_thread e core)) \<le> DPC_STACKWALK_STACKFRAME_COUNT"
  shows "\<exists>ctx. for_each [0..<unat (we_cores e)] (DpcStackwalkCallbackRoutine e)
       (replicate (unat (we_cores e * of_nat sizeof_DPC_CONTEXT) div sizeof_DPC_CONTEXT) zero_dpc_context) = Some ctx
     \<and> length ctx = unat (we_cores e)
     \<and> (\<forall>core < unat (we_cores e). dc_executed (ctx ! core)
          \<and> unat (dc_frames_captured (ctx ! core)) \<le> length (dc_stack_frame (ctx ! core))
          \<and> take (unat (dc_frames_captured (ctx ! core))) (dc_stack_frame (ctx ! core)) = we_backtrace e DPC_STACKWALK_FRAMES_TO_SKIP DPC_STACKWALK_STACKFRAME_COUNT (we_core_thread e core))"
proof -
  let ?n = "unat (we_cores e)" and ?bt = "\<lambda>core. we_backtrace e DPC_STACKWALK_FRAMES_TO_SKIP DPC_STACKWALK_STACKFRAME_COUNT (we_core_thread e core)"
  let ?done = "\<lambda>(ctx :: DPC_CONTEXT list) core. dc_executed (ctx ! core) \<and> unat (dc_frames_captured (ctx ! core)) \<le> length (dc_stack_frame (ctx ! core))
          \<and> take (unat (dc_frames_captured (ctx ! core))) (dc_stack_frame (ctx ! core)) = ?bt core"
  have "unat (we_cores e * of_nat sizeof_DPC_CONTEXT) div sizeof_DPC_CONTEXT = ?n"
    using assms(1) by (simp add: unat_word_ariths take_bit_eq_mod sizeof_DPC_CONTEXT_def)
  moreover have "\<exists>ctx. for_each [0..<?n] (DpcStackwalkCallbackRoutine e) (replicate ?n zero_dpc_context) = Some ctx
     \<and> length ctx = ?n \<and> (\<forall>core < ?n. ?done ctx core)"
  proof (rule for_each_upt[where P = "\<lambda>i ctx. length ctx = ?n \<and> (\<forall>core < i. ?done ctx core)"])
    fix i and ctx :: "DPC_CONTEXT list"
    assume i: "i < ?n" "length ctx = ?n \<and> (\<forall>core < i. ?done ctx core)"
    let ?c = "\<lparr>dc_stack_frame = ?bt i @ drop (length (?bt i)) (dc_stack_frame (ctx ! i)),
               dc_frames_captured = of_nat (length (?bt i)), dc_executed = True\<rparr>"
    have "length (?bt i) \<le> 10" using assms(2) i(1) by (simp add: DPC_STACKWALK_STACKFRAME_COUNT_def)
    then have "unat (of_nat (length (?bt i)) :: u16) = length (?bt i)" by (intro unat_of_nat_eq) simp
    then have "?done (ctx[i := ?c]) core" if "core < Suc i" for core
      using that i by (cases "core = i") auto
    moreover have "DpcStackwalkCallbackRoutine e i ctx = Some (ctx[i := ?c])"
      using assms(2) i by (simp add: DpcStackwalkCallbackRoutine_def Let_def)
    ultimately show "\<exists>ctx'. DpcStackwalkCallbackRoutine e i ctx = Some ctx' \<and> length ctx' = ?n \<and> (\<forall>core < Suc i. ?done ctx' core)"
      using i(2) by simp
  qed simp
  ultimately show ?thesis by simp
qed

lemma check_executed_all: "\<forall>i \<in> set is. i < length ctx \<and> dc_executed (ctx ! i) \<Longrightarrow> check_executed ctx is = Some True"
  by (induction "is") simp_all

lemma for_each_concat: "for_each (concat xss) body s = for_each xss (\<lambda>xs. for_each xs body) s"
  by (induction xss arbitrary: s) (simp_all add: for_each_append cong: Option.bind_cong)

lemma for_each_map: "for_each (map f xs) body s = for_each xs (\<lambda>x. body (f x)) s"
  by (induction xs arbitrary: s) (simp_all cong: Option.bind_cong)

lemma for_each_cong: "(\<And>x s. x \<in> set xs \<Longrightarrow> f x s = g x s) \<Longrightarrow> for_each xs f s = for_each xs g s"
  by (induction xs arbitrary: s) (simp_all cong: Option.bind_cong)

text \<open>C33: the walk by DPC is equivalent to a plain definition: for every processor in order and every
  return address of its captured stack in order, up to the first null one, exactly the addresses
  outside every loaded module are reported, once each. The walk always returns, whatever the state
  of the IRP queue, and frees its two blocks.\<close>

theorem dpc_walk_reports_violations:
  assumes "csq_remove_by_callbacks csq" "sending_ok s"
    and "we_alloc e (k_allocs s) = Some p" "query_modules (we_query e) (we_alloc e)
        (emit (PoolAlloc p POOL_TAG_APC) (s\<lparr>k_allocs := Suc (k_allocs s)\<rparr>)) = (status, m, t)" "NT_SUCCESS status" "modules_ok m"
    and "unat (we_cores e) * sizeof_DPC_CONTEXT < 2 ^ 32"
    and "\<forall>core < unat (we_cores e). length (we_backtrace e DPC_STACKWALK_FRAMES_TO_SKIP DPC_STACKWALK_STACKFRAME_COUNT (we_core_thread e core)) \<le> DPC_STACKWALK_STACKFRAME_COUNT"
  shows "\<exists>u. for_each (concat (map (\<lambda>core. violations m (we_backtrace e DPC_STACKWALK_FRAMES_TO_SKIP DPC_STACKWALK_STACKFRAME_COUNT (we_core_thread e core))) [0..<unat (we_cores e)]))
         (\<lambda>rip. send_report csq (we_alloc e) (DPC_STACKWALK_REPORT REPORT_DPC_STACKWALK (we_current_thread e) rip []))
         (emit (Call ''KeGenericCallDpc'' []) t) = Some u
     \<and> DispatchStackwalkToEachCpuViaDpc e csq s = Some (status, emit (PoolFree p POOL_TAG_APC) (free_modules_if m u))
     \<and> sending_ok u \<and> traffic (emit (Call ''KeGenericCallDpc'' []) t) u"
proof -
  let ?n = "unat (we_cores e)" and ?bt = "\<lambda>core. we_backtrace e DPC_STACKWALK_FRAMES_TO_SKIP DPC_STACKWALK_STACKFRAME_COUNT (we_core_thread e core)"
  let ?report = "\<lambda>rip. DPC_STACKWALK_REPORT REPORT_DPC_STACKWALK (we_current_thread e) rip []"
  let ?t = "emit (Call ''KeGenericCallDpc'' []) t"
  have csq: "csq_queue csq" using assms(1) by (rule csq_queue.intro)
  have "sending_ok ?t"
    using assms(2) query_modules_ok[OF assms(4)] sending_ok_cong[of "emit (PoolAlloc p POOL_TAG_APC) (s\<lparr>k_allocs := Suc (k_allocs s)\<rparr>)" s]
    by simp
  from csq_queue.send_reports[OF csq this, of "map ?report (concat (map (\<lambda>core. violations m (?bt core)) [0..<?n]))" "we_alloc e"]
  obtain u where u: "for_each (concat (map (\<lambda>core. violations m (?bt core)) [0..<?n])) (\<lambda>rip. send_report csq (we_alloc e) (?report rip)) ?t = Some u"
    "sending_ok u" "traffic ?t u"
    by (auto simp: for_each_map)
  from dpc_callbacks_record[OF assms(7,8)] obtain ctx where ctx:
    "for_each [0..<?n] (DpcStackwalkCallbackRoutine e)
       (replicate (unat (we_cores e * of_nat sizeof_DPC_CONTEXT) div sizeof_DPC_CONTEXT) zero_dpc_context) = Some ctx"
    "length ctx = ?n" "\<forall>core < ?n. dc_executed (ctx ! core)"
    "\<forall>core < ?n. unat (dc_frames_captured (ctx ! core)) \<le> length (dc_stack_frame (ctx ! core))
       \<and> take (unat (dc_frames_captured (ctx ! core))) (dc_stack_frame (ctx ! core)) = ?bt core" by blast
  have complete: "CheckForDpcCompletion e ctx = Some True"
    unfolding CheckForDpcCompletion_def by (rule check_executed_all) (use ctx(2,3) in auto)
  have "ValidateDpcCapturedStack e csq m ctx ?t = for_each [0..<?n] (\<lambda>core. for_each (violations m (?bt core)) (ReportDpcStackwalkViolation e csq)) ?t"
    unfolding ValidateDpcCapturedStack_def
    by (rule for_each_cong) (use ctx(2,4) in \<open>auto simp: ValidateDpcStackFrame_def walk_frames_eq[OF assms(6)] not_less\<close>)
  then have "ValidateDpcCapturedStack e csq m ctx ?t = Some u"
    using u(1) by (simp add: for_each_concat for_each_map ReportDpcStackwalkViolation_def[abs_def])
  then show ?thesis
    using assms(3,4,5) ctx(1) complete u
    by (simp add: DispatchStackwalkToEachCpuViaDpc_def ExAllocatePool2_def Let_def)
qed

text \<open>One processor whose stack holds an address outside the only module, below a null address.\<close>

definition example_walk_env :: walk_env where
  "example_walk_env = \<lparr>we_query = \<lparr>mq_size = (STATUS_SUCCESS, 272), mq_fill = (STATUS_SUCCESS, 272, sm_infos example_nmi_modules)\<rparr>,
     we_alloc = (\<lambda>n. Some (of_nat n + 0x800)), we_current_thread = 0x700, we_system_process = 0x600,
     we_backtrace = (\<lambda>_ _ _. [0xFFFF800000001100, 0xFFFF800000006666, 0, 0xFFFF800000007777]), we_insert_apc = (\<lambda>_. True),
     we_cores = 1, we_core_thread = (\<lambda>_. 0x701)\<rparr>"

theorem dpc_walk_reports_violations_witness:
  "\<exists>t u. send_report example_csq (we_alloc example_walk_env) (DPC_STACKWALK_REPORT REPORT_DPC_STACKWALK 0x700 0xFFFF800000006666 []) t = Some u
     \<and> DispatchStackwalkToEachCpuViaDpc example_walk_env example_csq (example_irp_st 4 [] [])
         = Some (STATUS_SUCCESS, emit (PoolFree 0x800 POOL_TAG_APC) (emit (PoolFree 0x801 SYSTEM_MODULES_POOL) u))"
proof -
  let ?e = example_walk_env and ?s = "example_irp_st 4 [] []"
  let ?t1 = "emit (PoolAlloc 0x800 POOL_TAG_APC) (?s\<lparr>k_allocs := Suc (k_allocs ?s)\<rparr>)"
  have s: "sending_ok ?s" "k_allocs ?s = 0"
    by (simp_all add: sending_ok_def queue_inv_def irps_ok_def example_irp_st_def example_irp_def)
  let ?m = "\<lparr>sm_address = 0x801, sm_module_count = 1, sm_infos = sm_infos example_nmi_modules\<rparr>"
  obtain t where q: "query_modules (we_query ?e) (we_alloc ?e) ?t1 = (STATUS_SUCCESS, ?m, t)"
    using s(2) by (auto simp: query_modules_def GetSystemModuleInformation_def ExAllocatePool2_def example_walk_env_def
        sizeof_RTL_MODULE_EXTENDED_INFO_def RTL_MODULE_EXTENDED_INFO_layout_def align_up_def)
  have m: "modules_ok ?m" by (simp add: modules_ok_def example_nmi_modules_def)
  have v: "violations ?m (we_backtrace ?e a b x) = [0xFFFF800000006666]" for a b x
    by (simp add: violations_def example_walk_env_def outside_def example_nmi_modules_def in_module_def module_end_def)
  have "we_alloc ?e (k_allocs ?s) = Some 0x800" "unat (we_cores ?e) * sizeof_DPC_CONTEXT < 2 ^ 32"
    "\<forall>core < unat (we_cores ?e). length (we_backtrace ?e DPC_STACKWALK_FRAMES_TO_SKIP DPC_STACKWALK_STACKFRAME_COUNT (we_core_thread ?e core)) \<le> DPC_STACKWALK_STACKFRAME_COUNT"
    "unat (we_cores ?e) = 1" "we_current_thread ?e = 0x700"
    using s(2) by (simp_all add: example_walk_env_def sizeof_DPC_CONTEXT_def DPC_STACKWALK_STACKFRAME_COUNT_def)
  with dpc_walk_reports_violations[OF example_csq_ok s(1) _ q _ m] show ?thesis
    by (auto simp: v bind_eq_Some_conv free_modules_if_def free_modules_def)
qed

section \<open>The APC routine\<close>

lemma walk_fields_emit [simp]:
  "apc_modules (emit e s) = apc_modules s" "misc_flags (emit e s) = misc_flags s" "kapcs (emit e s) = kapcs s"
  by (simp_all add: emit_def)

lemma traffic_walk_fields:
  fixes s s' :: "'a walk_st_scheme"
  assumes "traffic s s'"
  shows "slist s' = slist s" "threads s' = threads s" "apc_contexts s' = apc_contexts s" "apc_mem s' = apc_mem s"
    "apc_modules s' = apc_modules s" "misc_flags s' = misc_flags s" "kapcs s' = kapcs s"
proof -
  have "irp_st.more s' = irp_st.more s" "slist s' = slist s" using assms by (simp_all add: traffic_def)
  then show "slist s' = slist s" "threads s' = threads s" "apc_contexts s' = apc_contexts s" "apc_mem s' = apc_mem s"
    "apc_modules s' = apc_modules s" "misc_flags s' = misc_flags s" "kapcs s' = kapcs s"
    by (cases s; cases s'; simp)+
qed

lemma has_id_cong: "apc_mem s' = apc_mem s \<Longrightarrow> has_id s' c = has_id s c"
  by (simp add: has_id_def fun_eq_iff)

text \<open>Counting on the context that is registered, as an equation.\<close>

abbreviation locked :: "klock \<Rightarrow> 'a kst_scheme \<Rightarrow> 'a kst_scheme" where
  "locked l s \<equiv> emit (Release l) (emit (Acquire l) s)"

lemma count_in:
  assumes "apc_inv s" "find (has_id s c) (apc_contexts s) = Some p" "apc_mem s p = Some h"
  shows "IncrementApcCount c s = Some (emit (Release ConfigLock)
           ((emit (Acquire ConfigLock) (locked ConfigLock s))\<lparr>apc_mem := (apc_mem s)(p \<mapsto> h\<lparr>ac_count := ac_count h + 1\<rparr>)\<rparr>))"
proof -
  have "p \<noteq> NULL" using assms(2) by (auto simp: find_Some_iff has_id_def)
  then show ?thesis
    using GetApcContext_eq[OF assms(1), of NULL c] assms(2,3)
    by (simp add: IncrementApcCount_def change_count_def apc_emit Let_def)
qed

lemma count_out:
  assumes "apc_inv s" "find (has_id s c) (apc_contexts s) = Some p" "apc_mem s p = Some h"
  shows "FreeApcAndDecrementApcCount a c s = Some (emit (Release ConfigLock)
           ((emit (Acquire ConfigLock) (locked ConfigLock (emit (PoolFree a POOL_TAG_APC) s)))
             \<lparr>apc_mem := (apc_mem s)(p \<mapsto> h\<lparr>ac_count := ac_count h - 1\<rparr>)\<rparr>))"
proof -
  let ?f = "emit (PoolFree a POOL_TAG_APC) s"
  have p: "p \<noteq> NULL" using assms(2) by (auto simp: find_Some_iff has_id_def)
  have inv: "apc_inv ?f" using assms(1) apc_inv_cong[of ?f s] by simp
  show ?thesis
    using GetApcContext_eq[OF inv, of NULL c] assms(2,3) p has_id_cong[of ?f s c]
    by (simp add: FreeApcAndDecrementApcCount_def change_count_def apc_emit Let_def)
qed

text \<open>C34: what the APC routine does on the thread that it interrupts. For a thread on the list it reports
  exactly the return addresses outside every loaded module, up to the first null one, frees the APC,
  takes it off the count of its context and clears the marks of the thread. For a thread that is not
  on the list, one created before the driver was loaded or removed meanwhile, it returns at once: the
  APC is never freed and the count never lowered, so that the context stays busy.\<close>

theorem apc_routine_completes_or_leaks:
  assumes "csq_remove_by_callbacks csq" "sending_ok s" "lists_inv s ts ps ds" "apc_inv s" "kapcs s Apc = Some a"
    and "find (has_id s APC_CONTEXT_ID_STACKWALK) (apc_contexts s) = Some (ka_NormalContext a)"
      "apc_mem s (ka_NormalContext a) = Some c" "apc_modules s (ac_modules c) = Some m" "modules_ok m"
    and "length (we_backtrace e 0 (STACK_FRAME_POOL_SIZE div 8) (we_current_thread e)) \<le> 64" "we_alloc e (k_allocs s) = Some p"
  shows "case find (\<lambda>x. tl_thread (the (threads s x)) = we_current_thread e) ts of
      None \<Rightarrow> ApcKernelRoutine e csq Apc s = Some (locked ThreadListLock s)
    | Some x \<Rightarrow> \<exists>u s'. for_each (violations m (we_backtrace e 0 (STACK_FRAME_POOL_SIZE div 8) (we_current_thread e)))
            (\<lambda>rip. send_report csq (we_alloc e) (APC_STACKWALK_REPORT REPORT_APC_STACKWALK (we_current_thread e) rip []))
            (emit (PoolAlloc p POOL_TAG_APC) ((locked ThreadListLock s)\<lparr>k_allocs := Suc (k_allocs s)\<rparr>)) = Some u
        \<and> ApcKernelRoutine e csq Apc s = Some s'
        \<and> k_trace s' = k_trace u @ [PoolFree p POOL_TAG_APC, PoolFree Apc POOL_TAG_APC, Acquire ConfigLock, Release ConfigLock,
             Acquire ConfigLock, Release ConfigLock]
        \<and> kapcs s' = (kapcs s)(Apc := None)
        \<and> apc_mem s' = (apc_mem s)(ka_NormalContext a \<mapsto> c\<lparr>ac_count := ac_count c - 1\<rparr>)
        \<and> threads s' = (threads s)(x \<mapsto> (the (threads s x))\<lparr>tl_apc := NULL, tl_apc_queued := False\<rparr>)"
proof (cases "find (\<lambda>x. tl_thread (the (threads s x)) = we_current_thread e) ts")
  case None
  then show ?thesis
    using FindThreadListEntryByThreadAddress_law[OF assms(3), of "we_current_thread e"] assms(5)
    by (simp add: ApcKernelRoutine_def)
next
  case (Some x)
  let ?bt = "we_backtrace e 0 (STACK_FRAME_POOL_SIZE div 8) (we_current_thread e)"
  let ?report = "\<lambda>rip. APC_STACKWALK_REPORT REPORT_APC_STACKWALK (we_current_thread e) rip []"
  let ?t = "emit (PoolAlloc p POOL_TAG_APC) ((locked ThreadListLock s)\<lparr>k_allocs := Suc (k_allocs s)\<rparr>)"
  have x: "x \<in> set ts" using Some by (auto simp: find_Some_iff)
  then have live: "x \<in> dom (slist s)" "x \<in> dom (threads s)"
    using assms(3) lists_inv_live[OF assms(3), of x] by (auto simp: lists_inv_def)
  have "x \<noteq> NULL" using x assms(3) by (auto simp: lists_inv_def is_list_def dest: chain_live split: option.splits)
  have csq: "csq_queue csq" using assms(1) by (rule csq_queue.intro)
  have "sending_ok ?t" using assms(2) sending_ok_cong[of ?t s] by simp
  from csq_queue.send_reports[OF csq this, of "map ?report (violations m ?bt)" "we_alloc e"]
  obtain u where u: "for_each (violations m ?bt) (\<lambda>rip. send_report csq (we_alloc e) (?report rip)) ?t = Some u"
    "traffic ?t u" by (auto simp: for_each_map)
  note uf = traffic_walk_fields[OF u(2)]
  have walked: "(if ?bt = [] then Some ?t else do { c \<leftarrow> apc_mem ?t (ka_NormalContext a); m \<leftarrow> apc_modules ?t (ac_modules c);
      walk_frames (ReportApcStackwalkViolation e csq) m ?bt ?t }) = Some u"
    using u(1) assms(7,8) walk_frames_eq[OF assms(9), of "ReportApcStackwalkViolation e csq" ?bt ?t]
    by (auto simp: violations_def ReportApcStackwalkViolation_def[abs_def])
  let ?v = "(emit (PoolFree p POOL_TAG_APC) u)\<lparr>kapcs := (kapcs u)(Apc := None)\<rparr>"
  have v: "apc_inv ?v" "apc_contexts ?v = apc_contexts s" "apc_mem ?v = apc_mem s"
    using assms(4) apc_inv_cong[of ?v s] uf by simp_all
  have "find (has_id ?v APC_CONTEXT_ID_STACKWALK) (apc_contexts ?v) = Some (ka_NormalContext a)"
    using assms(6) v(2) has_id_cong[OF v(3)] by simp
  from count_out[OF v(1) this, of c Apc] assms(7) v(3)
  have out: "free_apc Apc (emit (PoolFree p POOL_TAG_APC) u) = Some (emit (Release ConfigLock)
           ((emit (Acquire ConfigLock) (locked ConfigLock (emit (PoolFree Apc POOL_TAG_APC) ?v)))
             \<lparr>apc_mem := (apc_mem s)(ka_NormalContext a \<mapsto> c\<lparr>ac_count := ac_count c - 1\<rparr>)\<rparr>))"
    by (simp add: free_apc_def)
  have len: "\<not> STACK_FRAME_POOL_SIZE div 8 < length ?bt" using assms(10) by (simp add: STACK_FRAME_POOL_SIZE_def)
  have "ExAllocatePool2 (we_alloc e) POOL_TAG_APC (locked ThreadListLock s) = (Some p, ?t)"
    using assms(11) by (simp add: ExAllocatePool2_def)
  then show ?thesis
    using Some FindThreadListEntryByThreadAddress_law[OF assms(3), of "we_current_thread e"] assms(5) \<open>x \<noteq> NULL\<close>
      walked len out live uf u(1)
    by (auto simp: ApcKernelRoutine_def thread_entry_def)
qed

text \<open>A listed system thread with an APC queued to it, on a registered context.\<close>

definition example_walk_context :: APC_CONTEXT where
  "example_walk_context = \<lparr>ac_context_id = 1, ac_count = 1, ac_allocation_in_progress = 0, ac_modules = 0x320, ac_modules_address = 0x330\<rparr>"

definition example_walk_st :: "ptr list \<Rightarrow> (ptr \<rightharpoonup> APC_CONTEXT) \<Rightarrow> walk_st" where
  "example_walk_st contexts mem = drv_st.extend (example_drv_st\<lparr>slist := (slist example_drv_st)(ThreadHead \<mapsto> 0x300, 0x300 \<mapsto> 0),
       threads := [0x300 \<mapsto> \<lparr>tl_thread = 0x700, tl_owning_process = 0x600, tl_apc_queued = True, tl_apc = 0x340\<rparr>],
       apc_contexts := contexts @ replicate (10 - length contexts) 0, apc_mem := mem\<rparr>)
     (walk_st.fields [0x320 \<mapsto> example_nmi_modules] [0x700 \<mapsto> 0x41] [0x340 \<mapsto> \<lparr>ka_thread = 0x700, ka_NormalContext = 0x310\<rparr>])"

lemma example_walk_fields [simp]:
  "threads (example_walk_st cs mem) = [0x300 \<mapsto> \<lparr>tl_thread = 0x700, tl_owning_process = 0x600, tl_apc_queued = True, tl_apc = 0x340\<rparr>]"
  "apc_contexts (example_walk_st cs mem) = cs @ replicate (10 - length cs) 0" "apc_mem (example_walk_st cs mem) = mem"
  "apc_modules (example_walk_st cs mem) = [0x320 \<mapsto> example_nmi_modules]" "misc_flags (example_walk_st cs mem) = [0x700 \<mapsto> 0x41]"
  "kapcs (example_walk_st cs mem) = [0x340 \<mapsto> \<lparr>ka_thread = 0x700, ka_NormalContext = 0x310\<rparr>]"
  "k_allocs (example_walk_st cs mem) = 0" "unload_in_progress (example_walk_st cs mem) = False"
  by (simp_all add: example_walk_st_def drv_st.defs walk_st.defs example_drv_defs)

lemma example_walk_lists: "lists_inv (example_walk_st cs mem) [0x300] [0x100] []"
  by (simp add: lists_inv_def is_list_def example_walk_st_def example_drv_defs walk_st.defs ThreadHead_def ProcessHead_def DriverHead_def)

lemma example_walk_sending_ok: "sending_ok (example_walk_st cs mem)"
  by (simp add: sending_ok_def queue_inv_def irps_ok_def example_walk_st_def example_drv_defs walk_st.defs example_irp_def
      example_packet_irp_def)

theorem apc_routine_completes_or_leaks_witness:
  "\<exists>s'. ApcKernelRoutine example_walk_env example_csq 0x340 (example_walk_st [0x310] [0x310 \<mapsto> example_walk_context]) = Some s'
     \<and> kapcs s' = Map.empty \<and> apc_mem s' = [0x310 \<mapsto> example_walk_context\<lparr>ac_count := 0\<rparr>]
     \<and> ApcKernelRoutine (example_walk_env\<lparr>we_current_thread := 0x702\<rparr>) example_csq 0x340 (example_walk_st [0x310] [0x310 \<mapsto> example_walk_context])
         = Some (locked ThreadListLock (example_walk_st [0x310] [0x310 \<mapsto> example_walk_context]))"
proof -
  let ?s = "example_walk_st [0x310] [0x310 \<mapsto> example_walk_context]" and ?a = "\<lparr>ka_thread = 0x700, ka_NormalContext = 0x310\<rparr>"
  have inv: "apc_inv ?s"
    by (simp add: apc_inv_def MAXIMUM_APC_CONTEXTS_def example_walk_context_def)
  have f: "kapcs ?s 0x340 = Some ?a" "apc_mem ?s (ka_NormalContext ?a) = Some example_walk_context"
    "find (has_id ?s APC_CONTEXT_ID_STACKWALK) (apc_contexts ?s) = Some (ka_NormalContext ?a)"
    "apc_modules ?s (ac_modules example_walk_context) = Some example_nmi_modules"
    by (simp_all add: has_id_def example_walk_context_def APC_CONTEXT_ID_STACKWALK_def)
  note law = apc_routine_completes_or_leaks[OF example_csq_ok example_walk_sending_ok example_walk_lists inv f(1,3,2,4) example_nmi_modules_ok]
  have "length (we_backtrace example_walk_env a b x) \<le> 64" "we_alloc example_walk_env (k_allocs ?s) = Some 0x800" for a b x
    by (simp_all add: example_walk_env_def)
  then show ?thesis
    using law[of example_walk_env "0x800"] law[of "example_walk_env\<lparr>we_current_thread := 0x702\<rparr>" "0x800"]
    by (auto simp: example_walk_env_def example_walk_context_def)
qed

section \<open>The sweep over the threads\<close>

definition system_target :: "walk_env \<Rightarrow> 'a cb_st_scheme \<Rightarrow> ptr \<Rightarrow> bool" where
  "system_target e s x \<longleftrightarrow> (let t = the (threads s x) in
     tl_owning_process t = we_system_process e \<and> tl_thread t \<noteq> we_current_thread e \<and> tl_thread t \<noteq> NULL)"

lemma queueable_bit: "bit (SetFlag (SetFlag f KTHREAD_MISC_FLAGS_ALERTABLE) KTHREAD_MISC_FLAGS_APC_QUEUEABLE) 14 = bit f 14"
proof -
  have "\<not> bit (4 :: u32) 14" "\<not> bit (14 :: u32) 14" by (simp_all add: bit_iff_odd)
  then show ?thesis
    by (simp add: SetFlag_def KTHREAD_MISC_FLAGS_ALERTABLE_def KTHREAD_MISC_FLAGS_APC_QUEUEABLE_def bit_or_iff)
qed

text \<open>The calls that make and insert an APC, and those for one entry of the list in a context.\<close>

fun apc_call :: "kevent \<Rightarrow> bool" where
  "apc_call (Call f _) \<longleftrightarrow> f = ''KeInitializeApc'' \<or> f = ''KeInsertQueueApc''"
| "apc_call _ \<longleftrightarrow> False"

definition apc_calls :: "ptr \<Rightarrow> THREAD_LIST_ENTRY \<Rightarrow> kevent list" where
  "apc_calls p t = [Call ''KeInitializeApc'' [tl_apc t, tl_thread t, p], Call ''KeInsertQueueApc'' [tl_apc t]]"

text \<open>What is true after the callback has run for a part of the list.\<close>

definition swept :: "walk_env \<Rightarrow> 'a walk_st_scheme \<Rightarrow> ptr \<Rightarrow> APC_CONTEXT \<Rightarrow> ptr list \<Rightarrow> 'a walk_st_scheme \<Rightarrow> bool" where
  "swept e s0 p h xs s \<longleftrightarrow> slist s = slist s0 \<and> apc_contexts s = apc_contexts s0 \<and> apc_inv s
     \<and> apc_mem s = (apc_mem s0)(p \<mapsto> h\<lparr>ac_count := ac_count h + of_nat (length (filter (system_target e s0) xs))\<rparr>)
     \<and> (\<forall>x. threads s x = threads s0 x
          \<or> x \<in> set xs \<and> system_target e s0 x \<and> (\<exists>a. threads s x = Some ((the (threads s0 x))\<lparr>tl_apc := a, tl_apc_queued := True\<rparr>)))
     \<and> (\<forall>x \<in> set xs. system_target e s0 x \<longrightarrow> tl_apc_queued (the (threads s x)))
     \<and> filter apc_call (k_trace s) = filter apc_call (k_trace s0)
         @ concat (map (\<lambda>x. apc_calls p (the (threads s x))) (filter (system_target e s0) xs))
     \<and> (\<forall>t. map_option (\<lambda>f. bit f 14) (misc_flags s t) = map_option (\<lambda>f. bit f 14) (misc_flags s0 t))"

lemma swept_has_id:
  assumes "swept e s0 p h xs s" "apc_mem s0 p = Some h"
  shows "has_id s c = has_id s0 c"
  using assms by (auto simp: swept_def has_id_def fun_eq_iff)

lemma has_id_same:
  "(\<And>x. map_option ac_context_id (apc_mem s' x) = map_option ac_context_id (apc_mem s x)) \<Longrightarrow> has_id s' c = has_id s c"
  by (simp add: has_id_def fun_eq_iff)

lemma sweep_step:
  assumes sw: "swept e s0 p h xs s" and h: "apc_mem s0 p = Some h" "find (has_id s0 APC_CONTEXT_ID_STACKWALK) (apc_contexts s0) = Some p"
    and x: "x \<in> dom (slist s0)" "x \<in> dom (threads s0)" "x \<notin> set xs" "tl_thread (the (threads s0 x)) \<in> dom (misc_flags s0)"
    and env: "\<forall>n. we_alloc e n \<noteq> None" "\<forall>t. we_insert_apc e t"
  shows "\<exists>s'. ValidateThreadViaKernelApcCallback e p x s = Some s' \<and> swept e s0 p h (xs @ [x]) s'"
proof -
  let ?t = "the (threads s0 x)"
  have same: "threads s x = threads s0 x" using sw x(3) by (auto simp: swept_def)
  then have t: "thread_entry s x = Some ?t" using sw x(1,2) by (auto simp: thread_entry_def swept_def)
  show ?thesis
  proof (cases "system_target e s0 x")
    case False
    then show ?thesis
      using t sw by (auto simp: ValidateThreadViaKernelApcCallback_def system_target_def Let_def swept_def)
  next
    case True
    have flags: "map_option (\<lambda>f. bit f 14) (misc_flags s u) = map_option (\<lambda>f. bit f 14) (misc_flags s0 u)" for u
      using sw by (simp add: swept_def)
    then obtain f where f: "misc_flags s (tl_thread ?t) = Some f" using x(4) by (metis domD domIff option.exhaust option.map_disc_iff)
    obtain a where a: "we_alloc e (k_allocs s) = Some a" using env(1) by fastforce
    let ?f' = "SetFlag (SetFlag f KTHREAD_MISC_FLAGS_ALERTABLE) KTHREAD_MISC_FLAGS_APC_QUEUEABLE"
    define u where "u = (emit (Call ''KeInsertQueueApc'' [a]) (emit (Call ''KeInitializeApc'' [a, tl_thread ?t, p]) ((emit (PoolAlloc a POOL_TAG_APC)
        (s\<lparr>misc_flags := (misc_flags s)(tl_thread ?t \<mapsto> ?f'), k_allocs := Suc (k_allocs s)\<rparr>))
          \<lparr>kapcs := (kapcs s)(a \<mapsto> \<lparr>ka_thread = tl_thread ?t, ka_NormalContext = p\<rparr>)\<rparr>)))
          \<lparr>threads := (threads s)(x \<mapsto> ?t\<lparr>tl_apc := a, tl_apc_queued := True\<rparr>)\<rparr>"
    have uf: "slist u = slist s" "apc_contexts u = apc_contexts s" "apc_mem u = apc_mem s"
      "threads u = (threads s)(x \<mapsto> ?t\<lparr>tl_apc := a, tl_apc_queued := True\<rparr>)" "misc_flags u = (misc_flags s)(tl_thread ?t \<mapsto> ?f')"
      by (simp_all add: u_def)
    have inv: "apc_inv u" using sw uf(2,3) apc_inv_cong[of u s] by (simp add: swept_def)
    let ?n = "of_nat (length (filter (system_target e s0) xs)) :: u32"
    have mem: "apc_mem u p = Some (h\<lparr>ac_count := ac_count h + ?n\<rparr>)" using sw uf(3) by (simp add: swept_def)
    have find: "find (has_id u APC_CONTEXT_ID_STACKWALK) (apc_contexts u) = Some p"
      using h(2) swept_has_id[OF sw h(1)] has_id_cong[OF uf(3)] uf(2) sw by (simp add: swept_def)
    let ?h' = "h\<lparr>ac_count := ac_count h + ?n + 1\<rparr>"
    let ?s' = "emit (Release ConfigLock) ((emit (Acquire ConfigLock) (locked ConfigLock u))\<lparr>apc_mem := (apc_mem u)(p \<mapsto> ?h')\<rparr>)"
    have "ValidateThreadViaKernelApcCallback e p x s = IncrementApcCount APC_CONTEXT_ID_STACKWALK u"
      using t True f a env(2)
      by (simp add: ValidateThreadViaKernelApcCallback_def system_target_def Let_def ExAllocatePool2_def u_def)
    also have "\<dots> = Some ?s'" using count_in[OF inv find mem] by simp
    finally have r: "ValidateThreadViaKernelApcCallback e p x s = Some ?s'" .
    have "apc_inv ?s'" by (rule apc_inv_count[OF inv _ mem, of _ "ac_count h + ?n + 1"]) simp_all
    moreover have "map_option (\<lambda>f. bit f 14) (misc_flags u v) = map_option (\<lambda>f. bit f 14) (misc_flags s0 v)" for v
      using flags[of v] f queueable_bit[of f] by (auto simp: uf(5) split: if_splits)
    moreover have "filter apc_call (k_trace ?s') = filter apc_call (k_trace s0)
        @ concat (map (\<lambda>x. apc_calls p (the (threads ?s' x))) (filter (system_target e s0) (xs @ [x])))"
    proof -
      have "map (\<lambda>x. apc_calls p (the (threads ?s' x))) (filter (system_target e s0) xs)
          = map (\<lambda>x. apc_calls p (the (threads s x))) (filter (system_target e s0) xs)"
        using x(3) by (intro map_cong) (auto simp: uf(4))
      moreover have "filter apc_call (k_trace ?s') = filter apc_call (k_trace s) @ apc_calls p (the (threads ?s' x))"
        by (simp add: u_def apc_calls_def)
      ultimately show ?thesis using sw True by (simp only: swept_def filter_append map_append concat_append) simp
    qed
    moreover have "slist ?s' = slist s0" "apc_contexts ?s' = apc_contexts s0" using sw uf by (simp_all add: swept_def)
    moreover have "apc_mem ?s' = (apc_mem s0)(p \<mapsto> h\<lparr>ac_count := ac_count h + of_nat (length (filter (system_target e s0) (xs @ [x])))\<rparr>)"
      using sw uf(3) True by (simp add: swept_def ac_simps)
    moreover have "\<forall>y. threads ?s' y = threads s0 y \<or> y \<in> set (xs @ [x]) \<and> system_target e s0 y
        \<and> (\<exists>a. threads ?s' y = Some ((the (threads s0 y))\<lparr>tl_apc := a, tl_apc_queued := True\<rparr>))"
      "\<forall>y \<in> set (xs @ [x]). system_target e s0 y \<longrightarrow> tl_apc_queued (the (threads ?s' y))"
      using sw uf(4) True by (auto simp: swept_def)
    ultimately have "swept e s0 p h (xs @ [x]) ?s'"
      unfolding swept_def by simp
    with r show ?thesis by blast
  qed
qed

lemma sweep_all:
  assumes "swept e s0 p h xs s" "apc_mem s0 p = Some h" "find (has_id s0 APC_CONTEXT_ID_STACKWALK) (apc_contexts s0) = Some p"
    and "distinct (xs @ ys)" "\<forall>x \<in> set ys. x \<in> dom (slist s0) \<and> x \<in> dom (threads s0) \<and> tl_thread (the (threads s0 x)) \<in> dom (misc_flags s0)"
    and "\<forall>n. we_alloc e n \<noteq> None" "\<forall>t. we_insert_apc e t" "chain (slist s0) q ys"
  shows "\<exists>s'. enumerate_loop (ValidateThreadViaKernelApcCallback e p) q s = Some s' \<and> swept e s0 p h (xs @ ys) s'"
  using assms(1,4,5,8)
proof (induction ys arbitrary: xs s q)
  case Nil
  then show ?case by (subst enumerate_loop.simps) simp
next
  case (Cons y ys)
  from sweep_step[OF Cons.prems(1) assms(2,3), of y] Cons.prems(2,3) assms(6,7) obtain t where
    t: "ValidateThreadViaKernelApcCallback e p y s = Some t" "swept e s0 p h (xs @ [y]) t" by auto
  obtain r where r: "slist s0 y = Some r" "chain (slist s0) r ys" "q = y" "y \<noteq> NULL"
    using Cons.prems(4) by (auto split: option.splits)
  have "slist t y = Some r" using t(2) r(1) by (simp add: swept_def)
  moreover obtain s' where "enumerate_loop (ValidateThreadViaKernelApcCallback e p) r t = Some s'" "swept e s0 p h ((xs @ [y]) @ ys) s'"
    using Cons.IH[OF t(2) _ _ r(2)] Cons.prems(2,3) by auto
  ultimately show ?case using t(1) r(3,4) by (subst enumerate_loop.simps) auto
qed

text \<open>The sweep under the flag of the context, from a state in which the context is registered.\<close>

lemma sweep_registered:
  assumes "lists_inv s ts ps ds" "\<forall>x \<in> set ts. tl_thread (the (threads s x)) \<in> dom (misc_flags s)"
    and "\<forall>n. we_alloc e n \<noteq> None" "\<forall>t. we_insert_apc e t"
    and t: "apc_inv t" "slist t = slist s" "threads t = threads s" "misc_flags t = misc_flags s" "apc_mem t p = Some h"
      "find (has_id t APC_CONTEXT_ID_STACKWALK) (apc_contexts t) = Some p" "ac_modules h \<noteq> NULL"
  shows "\<exists>u v w. set_allocation_in_progress p True t = Some u
     \<and> EnumerateThreadListWithCallbackRoutine (Some (ValidateThreadViaKernelApcCallback e p)) u = Some v
     \<and> set_allocation_in_progress p False v = Some w \<and> find (has_id w APC_CONTEXT_ID_STACKWALK) (apc_contexts w) = Some p
     \<and> apc_mem w p = Some (h\<lparr>ac_count := ac_count h + of_nat (length (filter (system_target e s) ts)), ac_allocation_in_progress := 0\<rparr>)
     \<and> (\<forall>x \<in> set ts. tl_apc_queued (the (threads w x)) = (system_target e s x \<or> tl_apc_queued (the (threads s x)))
          \<and> tl_thread (the (threads w x)) = tl_thread (the (threads s x)))
     \<and> filter apc_call (k_trace w) = filter apc_call (k_trace t)
         @ concat (map (\<lambda>x. apc_calls p (the (threads w x))) (filter (system_target e s) ts))
     \<and> (\<forall>t. map_option (\<lambda>f. bit f 14) (misc_flags w t) = map_option (\<lambda>f. bit f 14) (misc_flags s t))"
proof -
  let ?hp = "h\<lparr>ac_allocation_in_progress := 1\<rparr>"
  define u where "u = t\<lparr>apc_mem := (apc_mem t)(p \<mapsto> ?hp)\<rparr>"
  define u' where "u' = emit (Acquire ThreadListLock) u"
  have u': "slist u' = slist s" "threads u' = threads s" "misc_flags u' = misc_flags s" "apc_mem u' = (apc_mem t)(p \<mapsto> ?hp)"
    "apc_contexts u' = apc_contexts t" by (simp_all add: u'_def u_def t)
  have "has_id u' APC_CONTEXT_ID_STACKWALK = has_id t APC_CONTEXT_ID_STACKWALK" by (rule has_id_same) (simp add: u' t(5))
  then have id: "find (has_id u' APC_CONTEXT_ID_STACKWALK) (apc_contexts u') = Some p" using t(6) u'(5) by simp
  have "swept e u' p ?hp [] u'" using t(1,7) by (auto simp: swept_def apc_inv_def u')
  moreover obtain first where first: "slist s ThreadHead = Some first" "chain (slist s) first ts" "distinct ts"
    using assms(1) by (auto simp: lists_inv_def is_list_def split: option.splits)
  moreover have "\<forall>x \<in> set ts. x \<in> dom (slist s) \<and> x \<in> dom (threads s)"
    using assms(1) lists_inv_live[OF assms(1)] by (auto simp: lists_inv_def)
  ultimately obtain v where v: "enumerate_loop (ValidateThreadViaKernelApcCallback e p) first u' = Some v" "swept e u' p ?hp ts v"
    using sweep_all[of e u' p ?hp "[]" u' ts first] id assms(2-4) by (auto simp: u')
  have "system_target e u' = system_target e s" by (simp add: system_target_def fun_eq_iff u')
  note v' = v(2)[unfolded swept_def this]
  let ?v = "emit (Release ThreadListLock) v"
  let ?h = "h\<lparr>ac_count := ac_count h + of_nat (length (filter (system_target e s) ts)), ac_allocation_in_progress := 0\<rparr>"
  define w where "w = ?v\<lparr>apc_mem := (apc_mem t)(p \<mapsto> ?h)\<rparr>"
  have "has_id w APC_CONTEXT_ID_STACKWALK = has_id t APC_CONTEXT_ID_STACKWALK" by (rule has_id_same) (simp add: w_def t(5))
  then have "find (has_id w APC_CONTEXT_ID_STACKWALK) (apc_contexts w) = Some p" using t(6) v' by (simp add: w_def u')
  moreover have "EnumerateThreadListWithCallbackRoutine (Some (ValidateThreadViaKernelApcCallback e p)) u = Some ?v"
    using v(1) first(1) u'(1) by (simp add: EnumerateThreadListWithCallbackRoutine_def enumerate_list_def u'_def Let_def)
  moreover have "set_allocation_in_progress p True t = Some u" "set_allocation_in_progress p False ?v = Some w"
    using v' t(5) by (simp_all add: set_allocation_in_progress_def u_def w_def u')
  moreover have "tl_apc_queued (the (threads w x)) = (system_target e s x \<or> tl_apc_queued (the (threads s x)))
      \<and> tl_thread (the (threads w x)) = tl_thread (the (threads s x))" if "x \<in> set ts" for x
  proof -
    have "threads v x = threads s x \<or> (\<exists>a. threads v x = Some ((the (threads s x))\<lparr>tl_apc := a, tl_apc_queued := True\<rparr>)) \<and> system_target e s x"
      "system_target e s x \<longrightarrow> tl_apc_queued (the (threads v x))" using v' that by (auto simp: u')
    then show ?thesis by (auto simp: w_def)
  qed
  moreover have "filter apc_call (k_trace w) = filter apc_call (k_trace t)
         @ concat (map (\<lambda>x. apc_calls p (the (threads w x))) (filter (system_target e s) ts))"
    using v' by (simp add: w_def u'_def u_def)
  moreover have "\<forall>t. map_option (\<lambda>f. bit f 14) (misc_flags w t) = map_option (\<lambda>f. bit f 14) (misc_flags s t)"
    using v' by (simp add: w_def u')
  moreover have "apc_mem w p = Some ?h" by (simp add: w_def)
  ultimately show ?thesis by blast
qed

text \<open>C35: the sweep queues an APC to every listed thread of the system process other than the running one,
  and only to those: in the order of the list, an APC is initialised with the thread and with the context
  that the sweep has registered and is inserted, and these are all the APCs of the sweep. Afterwards the
  entries of these threads are marked and hold their APC, the context
  counts them, and it is no longer held back from being freed. The flag that would let an APC be
  queued to a thread that refuses them, bit 14 of its flags, is the same as before for every thread:
  the bit numbers are used as masks.\<close>

theorem apc_sweep_covers_system_threads:
  assumes inv: "lists_inv s ts ps ds" "apc_inv s" "\<not> IsDriverUnloading s" "NULL \<in> set (apc_contexts s)"
      "\<forall>q \<in> set (apc_contexts s). \<not> has_id s APC_CONTEXT_ID_STACKWALK q"
    and env: "\<forall>n. \<exists>p. we_alloc e n = Some p \<and> p \<noteq> NULL \<and> p \<notin> dom (apc_mem s)" "\<forall>t. we_insert_apc e t"
      "NT_SUCCESS (fst (mq_size (we_query e)))" "NT_SUCCESS (fst (mq_fill (we_query e)))"
    and thr: "\<forall>x \<in> set ts. tl_thread (the (threads s x)) \<in> dom (misc_flags s)"
  shows "\<exists>s' p h. ValidateThreadsViaKernelApc e s = Some (fst (mq_fill (we_query e)), s')
     \<and> find (has_id s' APC_CONTEXT_ID_STACKWALK) (apc_contexts s') = Some p \<and> apc_mem s' p = Some h
     \<and> ac_count h = of_nat (length (filter (system_target e s) ts)) \<and> ac_allocation_in_progress h = 0
     \<and> (\<forall>x \<in> set ts. tl_apc_queued (the (threads s' x)) = (system_target e s x \<or> tl_apc_queued (the (threads s x))))
     \<and> filter apc_call (k_trace s') = filter apc_call (k_trace s)
         @ concat (map (\<lambda>x. [Call ''KeInitializeApc'' [tl_apc (the (threads s' x)), tl_thread (the (threads s x)), p],
             Call ''KeInsertQueueApc'' [tl_apc (the (threads s' x))]]) (filter (system_target e s) ts))
     \<and> (\<forall>t. map_option (\<lambda>f. bit f 14) (misc_flags s' t) = map_option (\<lambda>f. bit f 14) (misc_flags s t))"
proof -
  let ?s1 = "locked ConfigLock s"
  from env(1) obtain p q r where al: "we_alloc e (k_allocs s) = Some p" "p \<noteq> NULL" "p \<notin> dom (apc_mem s)"
    "we_alloc e (Suc (k_allocs s)) = Some q" "q \<noteq> NULL" "we_alloc e (Suc (Suc (k_allocs s))) = Some r" by metis
  have none: "GetApcContext NULL APC_CONTEXT_ID_STACKWALK s = Some (NULL, ?s1)"
    using GetApcContext_eq[OF inv(2), of NULL APC_CONTEXT_ID_STACKWALK] inv(5) by (simp add: find_None_iff[THEN iffD2])
  obtain st bytes infos where fill: "mq_fill (we_query e) = (st, bytes, infos)" by (metis prod_cases3)
  let ?m = "\<lparr>sm_address = r, sm_module_count = bytes div sizeof_RTL_MODULE_EXTENDED_INFO, sm_infos = infos\<rparr>"
  let ?h = "\<lparr>ac_context_id = APC_CONTEXT_ID_STACKWALK, ac_count = 0, ac_allocation_in_progress = 0, ac_modules = q, ac_modules_address = r\<rparr>"
  define s2 where "s2 = (emit (PoolAlloc r SYSTEM_MODULES_POOL) (emit (PoolAlloc q POOL_TAG_APC) (emit (PoolAlloc p POOL_TAG_APC)
     (?s1\<lparr>k_allocs := Suc (k_allocs s)\<rparr>)\<lparr>k_allocs := Suc (Suc (k_allocs s))\<rparr>)\<lparr>k_allocs := Suc (Suc (Suc (k_allocs s)))\<rparr>))
     \<lparr>apc_modules := (apc_modules s)(q \<mapsto> ?m), apc_mem := (apc_mem s)(p \<mapsto> ?h)\<rparr>"
  have f2: "slist s2 = slist s" "threads s2 = threads s" "apc_contexts s2 = apc_contexts s" "misc_flags s2 = misc_flags s"
    "apc_mem s2 = (apc_mem s)(p \<mapsto> ?h)" "IsDriverUnloading s2 = IsDriverUnloading s"
    by (simp_all add: s2_def IsDriverUnloading_def)
  have inv2: "apc_inv s2"
    using inv(2) al(3,5) apc_inv_live[OF inv(2)] by (auto simp: apc_inv_def f2)
  have "\<forall>x \<in> set (apc_contexts s2). \<not> has_id s2 (ac_context_id ?h) x"
    using inv(5) al(2,3) apc_inv_live[OF inv(2)] by (auto simp: f2 has_id_def)
  with insert_registers[OF inv2 _ al(2), of ?h] inv(3,4) al(5) f2 obtain i s3 where
    s3: "s3 = emit (Release ConfigLock) (set_slot i p (emit (Acquire ConfigLock) s2))" "InsertApcContext p s2 = Some s3" "apc_inv s3"
      "find (has_id s3 APC_CONTEXT_ID_STACKWALK) (apc_contexts s3) = Some p" by auto
  have f3: "slist s3 = slist s" "threads s3 = threads s" "misc_flags s3 = misc_flags s" "apc_mem s3 p = Some ?h"
    using f2 by (simp_all add: s3(1) set_slot_def)
  have "\<forall>n. we_alloc e n \<noteq> None" using env(1) by fastforce
  from sweep_registered[OF inv(1) thr this env(2) s3(3) f3 s3(4)] al(5) obtain u v w where
    w: "set_allocation_in_progress p True s3 = Some u"
      "EnumerateThreadListWithCallbackRoutine (Some (ValidateThreadViaKernelApcCallback e p)) u = Some v"
      "set_allocation_in_progress p False v = Some w" "find (has_id w APC_CONTEXT_ID_STACKWALK) (apc_contexts w) = Some p"
      "apc_mem w p = Some (?h\<lparr>ac_count := of_nat (length (filter (system_target e s) ts)), ac_allocation_in_progress := 0\<rparr>)"
      "\<forall>x \<in> set ts. tl_apc_queued (the (threads w x)) = (system_target e s x \<or> tl_apc_queued (the (threads s x)))
        \<and> tl_thread (the (threads w x)) = tl_thread (the (threads s x))"
      "filter apc_call (k_trace w) = filter apc_call (k_trace s3)
         @ concat (map (\<lambda>x. apc_calls p (the (threads w x))) (filter (system_target e s) ts))"
      "\<forall>t. map_option (\<lambda>f. bit f 14) (misc_flags w t) = map_option (\<lambda>f. bit f 14) (misc_flags s t)"
    by auto
  have none_yet: "filter apc_call (k_trace s3) = filter apc_call (k_trace s)" by (simp add: s3(1) s2_def set_slot_def)
  have entries: "map (\<lambda>x. apc_calls p (the (threads w x))) (filter (system_target e s) ts)
      = map (\<lambda>x. [Call ''KeInitializeApc'' [tl_apc (the (threads w x)), tl_thread (the (threads s x)), p],
             Call ''KeInsertQueueApc'' [tl_apc (the (threads w x))]]) (filter (system_target e s) ts)"
    using w(6) by (simp add: apc_calls_def)
  have calls: "filter apc_call (k_trace w) = filter apc_call (k_trace s)
      @ concat (map (\<lambda>x. [Call ''KeInitializeApc'' [tl_apc (the (threads w x)), tl_thread (the (threads s x)), p],
             Call ''KeInsertQueueApc'' [tl_apc (the (threads w x))]]) (filter (system_target e s) ts))"
    using w(7) by (simp only: none_yet entries)
  have "ValidateThreadsViaKernelApc e s = Some (st, w)"
    using s3(2) w(1-3) none al env(3,4) fill
    by (simp add: ValidateThreadsViaKernelApc_def ExAllocatePool2_def query_modules_def GetSystemModuleInformation_def Let_def s2_def)
  with w(4-6,8) calls fill show ?thesis by (intro exI[of _ w] exI[of _ p]) simp
qed

text \<open>Another system thread runs the sweep; the only listed thread gets an APC.\<close>

definition example_sweep_env :: walk_env where
  "example_sweep_env = example_walk_env\<lparr>we_current_thread := 0x702,
     we_alloc := (\<lambda>n. Some (if n = 0 then 0x800 else if n = 1 then 0x801 else if n = 2 then 0x802 else 0x803))\<rparr>"

theorem apc_sweep_covers_system_threads_witness:
  "\<exists>s' p h. ValidateThreadsViaKernelApc example_sweep_env (example_walk_st [] Map.empty) = Some (STATUS_SUCCESS, s')
     \<and> apc_mem s' p = Some h \<and> ac_count h = 1 \<and> map_option (\<lambda>f. bit f 14) (misc_flags s' 0x700) = Some False"
proof -
  let ?s = "example_walk_st [] Map.empty" and ?e = example_sweep_env
  have bit: "\<not> bit (0x41 :: u32) 14" by (simp add: bit_iff_odd)
  have e: "\<forall>n. \<exists>p. we_alloc ?e n = Some p \<and> p \<noteq> NULL \<and> p \<notin> dom (apc_mem ?s)" "\<forall>t. we_insert_apc ?e t"
    "NT_SUCCESS (fst (mq_size (we_query ?e)))" "NT_SUCCESS (fst (mq_fill (we_query ?e)))" "fst (mq_fill (we_query ?e)) = STATUS_SUCCESS"
    by (simp_all add: example_sweep_env_def example_walk_env_def)
  have s: "apc_inv ?s" "\<not> IsDriverUnloading ?s" "NULL \<in> set (apc_contexts ?s)" "\<forall>q \<in> set (apc_contexts ?s). \<not> has_id ?s APC_CONTEXT_ID_STACKWALK q"
    "\<forall>x \<in> set [0x300]. tl_thread (the (threads ?s x)) \<in> dom (misc_flags ?s)"
    by (simp_all add: apc_inv_def MAXIMUM_APC_CONTEXTS_def IsDriverUnloading_def has_id_def)
  have one: "of_nat (length (filter (system_target ?e ?s) [0x300])) = (1 :: u32)"
    by (simp add: system_target_def example_sweep_env_def example_walk_env_def)
  obtain s' p h where "ValidateThreadsViaKernelApc ?e ?s = Some (fst (mq_fill (we_query ?e)), s')" "apc_mem s' p = Some h"
    "ac_count h = of_nat (length (filter (system_target ?e ?s) [0x300]))"
    "map_option (\<lambda>f. bit f 14) (misc_flags s' 0x700) = map_option (\<lambda>f. bit f 14) (misc_flags ?s 0x700)"
    using apc_sweep_covers_system_threads[OF example_walk_lists s(1-4) e(1-4) s(5)] by blast
  moreover have "map_option (\<lambda>f. bit f 14) (misc_flags ?s 0x700) = Some False" using bit by simp
  ultimately show ?thesis unfolding e(5) one by metis
qed

end
