(* ===== verification/PoolScan.thy ===== *)
theory PoolScan
  imports Stackwalk
begin

text \<open>
  Searching physical memory for processes that are missing from the process list, from
  \<^verbatim>\<open>src/driver/pool.c\<close>: the walk of the page tables from \<^verbatim>\<open>CR3\<close>, the scan of every mapped page for
  pool blocks with the tag of a process, the signature that recognises a process structure, and the
  reports; with it the debugger data block and the big pool query.

  The parameter \<open>scan_env\<close> is the machine: \<open>pv_memory\<close> is the kernel address space, \<open>pv_valid\<close> is
  \<^verbatim>\<open>MmIsAddressValid\<close>, \<open>pv_virtual\<close> is \<^verbatim>\<open>MmGetVirtualForPhysical\<close>, \<open>pv_ranges\<close> the array of
  \<^verbatim>\<open>MmGetPhysicalMemoryRangesEx2\<close> (base and number of bytes, ended by a range of no bytes). Reading
  unmapped memory is \<open>None\<close>.
\<close>

section \<open>The machine\<close>

record scan_env =
  pv_memory :: memory
  pv_valid :: "ptr \<Rightarrow> bool"
  pv_cr3 :: u64
  pv_virtual :: "u64 \<Rightarrow> ptr"
  pv_ranges :: "(u64 \<times> u64) list option"
  pv_alloc :: allocator
  pv_dump_block :: ptr
  pv_routine :: ptr
  pv_bigpool_size :: NTSTATUS
  pv_bigpool_fill :: NTSTATUS

abbreviation POOL_DUMP_BLOCK_TAG :: pool_tag where "POOL_DUMP_BLOCK_TAG \<equiv> ''dump''"
abbreviation POOL_DEBUGGER_DATA_TAG :: pool_tag where "POOL_DEBUGGER_DATA_TAG \<equiv> ''data''"
abbreviation PROCESS_ADDRESS_LIST_TAG :: pool_tag where "PROCESS_ADDRESS_LIST_TAG \<equiv> ''addr''"

section \<open>The debugger data block\<close>

definition KDDEBUGGER_DATA64_layout :: layout where
  "KDDEBUGGER_DATA64_layout =
    [(''Header'', 24, 8), (''KernBase'', 8, 8), (''BreakpointWithStatus'', 8, 8), (''SavedContext'', 8, 8),
     (''ThCallbackStack'', 2, 2), (''NextCallback'', 2, 2), (''FramePointer'', 2, 2), (''PaeEnabled'', 2, 2),
     (''KiCallUserMode'', 8, 8), (''KeUserCallbackDispatcher'', 8, 8), (''PsLoadedModuleList'', 8, 8),
     (''PsActiveProcessHead'', 8, 8), (''PspCidTable'', 8, 8), (''ExpSystemResourcesList'', 8, 8),
     (''ExpPagedPoolDescriptor'', 8, 8), (''ExpNumberOfPagedPools'', 8, 8), (''KeTimeIncrement'', 8, 8),
     (''KeBugCheckCallbackListHead'', 8, 8), (''KiBugcheckData'', 8, 8), (''IopErrorLogListHead'', 8, 8),
     (''ObpRootDirectoryObject'', 8, 8), (''ObpTypeObjectType'', 8, 8), (''MmSystemCacheStart'', 8, 8),
     (''MmSystemCacheEnd'', 8, 8), (''MmSystemCacheWs'', 8, 8), (''MmPfnDatabase'', 8, 8),
     (''MmSystemPtesStart'', 8, 8), (''MmSystemPtesEnd'', 8, 8), (''MmSubsectionBase'', 8, 8),
     (''MmNumberOfPagingFiles'', 8, 8), (''MmLowestPhysicalPage'', 8, 8), (''MmHighestPhysicalPage'', 8, 8),
     (''MmNumberOfPhysicalPages'', 8, 8), (''MmMaximumNonPagedPoolInBytes'', 8, 8),
     (''MmNonPagedSystemStart'', 8, 8), (''MmNonPagedPoolStart'', 8, 8), (''MmNonPagedPoolEnd'', 8, 8),
     (''MmPagedPoolStart'', 8, 8), (''MmPagedPoolEnd'', 8, 8), (''MmPagedPoolInformation'', 8, 8),
     (''MmPageSize'', 8, 8), (''MmSizeOfPagedPoolInBytes'', 8, 8), (''MmTotalCommitLimit'', 8, 8),
     (''MmTotalCommittedPages'', 8, 8), (''MmSharedCommit'', 8, 8), (''MmDriverCommit'', 8, 8),
     (''MmProcessCommit'', 8, 8), (''MmPagedPoolCommit'', 8, 8), (''MmExtendedCommit'', 8, 8),
     (''MmZeroedPageListHead'', 8, 8), (''MmFreePageListHead'', 8, 8), (''MmStandbyPageListHead'', 8, 8),
     (''MmModifiedPageListHead'', 8, 8), (''MmModifiedNoWritePageListHead'', 8, 8), (''MmAvailablePages'', 8, 8),
     (''MmResidentAvailablePages'', 8, 8), (''PoolTrackTable'', 8, 8), (''NonPagedPoolDescriptor'', 8, 8),
     (''MmHighestUserAddress'', 8, 8), (''MmSystemRangeStart'', 8, 8), (''MmUserProbeAddress'', 8, 8),
     (''KdPrintCircularBuffer'', 8, 8), (''KdPrintCircularBufferEnd'', 8, 8), (''KdPrintWritePointer'', 8, 8),
     (''KdPrintRolloverCount'', 8, 8), (''MmLoadedUserImageList'', 8, 8), (''NtBuildLab'', 8, 8),
     (''KiNormalSystemCall'', 8, 8), (''KiProcessorBlock'', 8, 8), (''MmUnloadedDrivers'', 8, 8),
     (''MmLastUnloadedDriver'', 8, 8), (''MmTriageActionTaken'', 8, 8), (''MmSpecialPoolTag'', 8, 8),
     (''KernelVerifier'', 8, 8), (''MmVerifierData'', 8, 8), (''MmAllocatedNonPagedPool'', 8, 8),
     (''MmPeakCommitment'', 8, 8), (''MmTotalCommitLimitMaximum'', 8, 8), (''CmNtCSDVersion'', 8, 8),
     (''MmPhysicalMemoryBlock'', 8, 8), (''MmSessionBase'', 8, 8), (''MmSessionSize'', 8, 8),
     (''MmSystemParentTablePage'', 8, 8), (''MmVirtualTranslationBase'', 8, 8),
     (''OffsetKThreadNextProcessor'', 2, 2), (''OffsetKThreadTeb'', 2, 2), (''OffsetKThreadKernelStack'', 2, 2),
     (''OffsetKThreadInitialStack'', 2, 2), (''OffsetKThreadApcProcess'', 2, 2), (''OffsetKThreadState'', 2, 2),
     (''OffsetKThreadBStore'', 2, 2), (''OffsetKThreadBStoreLimit'', 2, 2), (''SizeEProcess'', 2, 2),
     (''OffsetEprocessPeb'', 2, 2), (''OffsetEprocessParentCID'', 2, 2),
     (''OffsetEprocessDirectoryTableBase'', 2, 2), (''SizePrcb'', 2, 2), (''OffsetPrcbDpcRoutine'', 2, 2),
     (''OffsetPrcbCurrentThread'', 2, 2), (''OffsetPrcbMhz'', 2, 2), (''OffsetPrcbCpuType'', 2, 2),
     (''OffsetPrcbVendorString'', 2, 2), (''OffsetPrcbProcStateContext'', 2, 2), (''OffsetPrcbNumber'', 2, 2),
     (''SizeEThread'', 2, 2), (''KdPrintCircularBufferPtr'', 8, 8), (''KdPrintBufferSize'', 8, 8),
     (''KeLoaderBlock'', 8, 8), (''SizePcr'', 2, 2), (''OffsetPcrSelfPcr'', 2, 2), (''OffsetPcrCurrentPrcb'', 2, 2),
     (''OffsetPcrContainedPrcb'', 2, 2), (''OffsetPcrInitialBStore'', 2, 2), (''OffsetPcrBStoreLimit'', 2, 2),
     (''OffsetPcrInitialStack'', 2, 2), (''OffsetPcrStackLimit'', 2, 2), (''OffsetPrcbPcrPage'', 2, 2),
     (''OffsetPrcbProcStateSpecialReg'', 2, 2), (''GdtR0Code'', 2, 2), (''GdtR0Data'', 2, 2), (''GdtR0Pcr'', 2, 2),
     (''GdtR3Code'', 2, 2), (''GdtR3Data'', 2, 2), (''GdtR3Teb'', 2, 2), (''GdtLdt'', 2, 2), (''GdtTss'', 2, 2),
     (''Gdt64R3CmCode'', 2, 2), (''Gdt64R3CmTeb'', 2, 2), (''IopNumTriageDumpDataBlocks'', 8, 8),
     (''IopTriageDumpDataBlocks'', 8, 8)]"

fun layout_end :: "nat \<Rightarrow> layout \<Rightarrow> nat" where
  "layout_end n [] = n"
| "layout_end n ((_, sz, align) # xs) = layout_end (align_up align n + sz) xs"

definition sizeof_KDDEBUGGER_DATA64 :: nat where
  "sizeof_KDDEBUGGER_DATA64 = align_up 8 (layout_end 0 KDDEBUGGER_DATA64_layout)"

text \<open>The copy of the block, with the address of the pool block it is in.\<close>

definition GetGlobalDebuggerData ::
  "scan_env \<Rightarrow> 'a kst_scheme \<Rightarrow> ((ptr \<times> u8 list) option \<times> 'a kst_scheme) option" where
  "GetGlobalDebuggerData e s = (case ExAllocatePool2 (pv_alloc e) POOL_DUMP_BLOCK_TAG s of
       (None, s) \<Rightarrow> Some (None, s)
     | (Some dump_header, s) \<Rightarrow>
         (case ExAllocatePool2 (pv_alloc e) POOL_DEBUGGER_DATA_TAG
                 (emit (Call ''KeCapturePersistentThreadState'' [dump_header]) s) of
            (None, s) \<Rightarrow> Some (None, emit (PoolFree dump_header POOL_DUMP_BLOCK_TAG) s)
          | (Some debugger_data, s) \<Rightarrow> do {
              bytes \<leftarrow> read_bytes (pv_memory e) (pv_dump_block e) sizeof_KDDEBUGGER_DATA64;
              Some (Some (debugger_data, bytes), emit (PoolFree dump_header POOL_DUMP_BLOCK_TAG) s)
            }))"

definition GetPsActiveProcessHead :: "scan_env \<Rightarrow> 'a kst_scheme \<Rightarrow> (ptr \<times> 'a kst_scheme) option" where
  "GetPsActiveProcessHead e s = do {
     (debugger_data, s) \<leftarrow> GetGlobalDebuggerData e s;
     (case debugger_data of
        None \<Rightarrow> Some (NULL, s)
      | Some (p, bytes) \<Rightarrow> do {
          let field = take 8 (drop (unat (FIELD_OFFSET KDDEBUGGER_DATA64_layout ''PsActiveProcessHead'')) bytes);
          Address \<leftarrow> read_u64 (pv_memory e) (of_nat (le_nat field));
          Some (Address, emit (PoolFree p POOL_DEBUGGER_DATA_TAG) s)
        })
   }"

section \<open>The signature of a process\<close>

definition EPROCESS_PEAK_VIRTUAL_SIZE_OFFSET :: u64 where "EPROCESS_PEAK_VIRTUAL_SIZE_OFFSET = 0x490"
definition EPROCESS_OBJECT_TABLE_OFFSET :: u64 where "EPROCESS_OBJECT_TABLE_OFFSET = 0x570"
definition EPROCESS_PEB_OFFSET :: u64 where "EPROCESS_PEB_OFFSET = 0x550"
definition KPROCESS_DIRECTORY_TABLE_BASE_OFFSET :: u64 where "KPROCESS_DIRECTORY_TABLE_BASE_OFFSET = 0x28"
definition POOL_HEADER_BLOCK_SIZE_OFFSET :: u64 where "POOL_HEADER_BLOCK_SIZE_OFFSET = 2"
definition POOL_HEADER_TAG_OFFSET :: u64 where "POOL_HEADER_TAG_OFFSET = 4"
definition EPROCESS_SIZE :: u64 where "EPROCESS_SIZE = 0xa40"
definition CHUNK_SIZE :: u32 where "CHUNK_SIZE = 16"

text \<open>The bit fields of the header are whole bytes.\<close>

definition sizeof_POOL_HEADER :: u64 where "sizeof_POOL_HEADER = 16"

definition pool_header_BlockSize :: "memory \<Rightarrow> ptr \<Rightarrow> u32 option" where
  "pool_header_BlockSize m p = map_option ucast (m (p + 2))"

definition pool_header_PoolType :: "memory \<Rightarrow> ptr \<Rightarrow> u32 option" where
  "pool_header_PoolType m p = map_option ucast (m (p + 3))"

text \<open>A field that is read only if its address is valid, and is zero otherwise.\<close>

definition read_if_valid :: "scan_env \<Rightarrow> ptr \<Rightarrow> u64 option" where
  "read_if_valid e a = (if pv_valid e a then read_u64 (pv_memory e) a else Some 0)"

text \<open>
  The comparison binds tighter than the bitwise and, so both masks are the constant one that a true
  comparison gives.
\<close>

definition peb_test :: "u64 \<Rightarrow> bool" where
  "peb_test peb \<longleftrightarrow> peb = 0 \<or>
     (peb AND (if (0x7ffd0000 :: u32) = 0x7ffd0000 then 1 else 0) \<noteq> 0 \<and> peb mod 0x1000 = 0)"

definition object_table_test :: "u64 \<Rightarrow> bool" where
  "object_table_test object_table \<longleftrightarrow> object_table = 0 \<or>
     (object_table AND (if (0xe0000000 :: u32) = 0xe0000000 then 1 else 0) \<noteq> 0 \<and> object_table mod 8 = 0)"

definition ValidateIfAddressIsProcessStructure :: "scan_env \<Rightarrow> ptr \<Rightarrow> ptr \<Rightarrow> bool option" where
  "ValidateIfAddressIsProcessStructure e Address PoolHeader = do {
     dir_table_base \<leftarrow> read_if_valid e (Address + KPROCESS_DIRECTORY_TABLE_BASE_OFFSET);
     peak_virtual_size \<leftarrow> read_if_valid e (Address + EPROCESS_PEAK_VIRTUAL_SIZE_OFFSET);
     allocation_size \<leftarrow> (if pv_valid e (PoolHeader + POOL_HEADER_BLOCK_SIZE_OFFSET)
        then do {
          BlockSize \<leftarrow> pool_header_BlockSize (pv_memory e) PoolHeader;
          Some (ucast (BlockSize * CHUNK_SIZE) - sizeof_POOL_HEADER)
        } else Some 0);
     peb \<leftarrow> read_if_valid e (Address + EPROCESS_PEB_OFFSET);
     object_table \<leftarrow> read_if_valid e (Address + EPROCESS_OBJECT_TABLE_OFFSET);
     let allocation_size_test = allocation_size AND 0xfff0;
     (if peak_virtual_size > 0 \<and> dir_table_base AND 0x20 = 0 \<and>
         allocation_size > EPROCESS_SIZE + OBJECT_HEADER_SIZE + sizeof_POOL_HEADER
      then do {
        PoolType \<leftarrow> pool_header_PoolType (pv_memory e) PoolHeader;
        Some (PoolType \<noteq> 0 \<and> allocation_size_test \<noteq> 0xfff0 \<and> \<not> peb_test peb \<and> \<not> object_table_test object_table)
      } else Some False)
   }"

section \<open>Scanning one page\<close>

definition EXECUTIVE_OBJECT_POOL_TAGS :: "u8 list list" where
  "EXECUTIVE_OBJECT_POOL_TAGS = map (map of_char)
     [''Proc'', ''Thrd'', ''Desk'', ''Wind'', ''Mute'', ''File'', ''Driv'', ''Link'']"

definition INDEX_PROCESS_POOL_TAG :: nat where "INDEX_PROCESS_POOL_TAG = 0"

text \<open>
  The buffer is at \<open>sc_process_buffer\<close>; \<open>sc_addresses\<close> are the words in it.
\<close>

record PROCESS_SCAN_CONTEXT =
  sc_process_count :: u32
  sc_process_buffer :: ptr
  sc_addresses :: "u64 list"

text \<open>
  The inner loop up to the byte behind the tag, which must be valid too. That byte is compared with
  nothing: the row of the tag has four bytes, and the fifth that is fetched is the first of the next row.
\<close>

primrec tag_matches :: "scan_env \<Rightarrow> ptr \<Rightarrow> u8 list \<Rightarrow> bool option" where
  "tag_matches e p [] = (if pv_valid e p then map_option (\<lambda>_. True) (pv_memory e p) else Some False)"
| "tag_matches e p (c # cs) =
     (if \<not> pv_valid e p then Some False
      else do {
        b \<leftarrow> pv_memory e p;
        (if b \<noteq> c then Some False else tag_matches e (p + 1) cs)
      })"

text \<open>The sizes of the headers between the pool header and the object.\<close>

definition HEADER_SIZES :: "u64 list" where
  "HEADER_SIZES = [0x30, 0x40, 0x50, 0x60, 0x70, 0x80, 0x90, 0xa0]"

primrec find_process :: "scan_env \<Rightarrow> ptr \<Rightarrow> u64 list \<Rightarrow> ptr \<Rightarrow> ptr option" where
  "find_process e pool_header [] process = Some process"
| "find_process e pool_header (header_size # sizes) process = do {
     let test_process = pool_header + sizeof_POOL_HEADER + header_size;
     found \<leftarrow> ValidateIfAddressIsProcessStructure e test_process pool_header;
     (if found then Some test_process else find_process e pool_header sizes process)
   }"

text \<open>The first free slot of the buffer, if there is one.\<close>

primrec fill_slot :: "nat list \<Rightarrow> u64 \<Rightarrow> u64 list \<Rightarrow> u64 list option" where
  "fill_slot [] process xs = Some xs"
| "fill_slot (i # is) process xs =
     (if \<not> i < length xs then None
      else if xs ! i = 0 then Some (xs[i := process]) else fill_slot is process xs)"

definition add_process :: "ptr \<Rightarrow> PROCESS_SCAN_CONTEXT \<Rightarrow> PROCESS_SCAN_CONTEXT option" where
  "add_process process c = do {
     xs \<leftarrow> fill_slot [0..<unat (sc_process_count c)] process (sc_addresses c);
     Some (c\<lparr>sc_addresses := xs\<rparr>)
   }"

text \<open>
  One offset of the page. The variable \<^verbatim>\<open>process\<close> is not reset from one offset to the next.
\<close>

definition scan_offset ::
  "scan_env \<Rightarrow> ptr \<Rightarrow> nat \<Rightarrow> nat \<Rightarrow> ptr \<times> PROCESS_SCAN_CONTEXT \<Rightarrow> (ptr \<times> PROCESS_SCAN_CONTEXT) option" where
  "scan_offset e PageBase ObjectIndex offset st = (case st of (process, c) \<Rightarrow> do {
     hit \<leftarrow> tag_matches e (PageBase + of_nat offset) (EXECUTIVE_OBJECT_POOL_TAGS ! ObjectIndex);
     (if \<not> hit then Some (process, c)
      else let pool_header = PageBase + of_nat offset - POOL_HEADER_TAG_OFFSET in
      if \<not> pv_valid e pool_header then Some (process, c)
      else do {
        process \<leftarrow> find_process e pool_header HEADER_SIZES process;
        (if process = NULL then Some (process, c)
         else do {
           c \<leftarrow> add_process process c;
           Some (process, c)
         })
      })
   })"

definition minimum_process_allocation_size :: u32 where
  "minimum_process_allocation_size = ucast (EPROCESS_SIZE - sizeof_POOL_HEADER - OBJECT_HEADER_SIZE)"

definition POOL_TAG_LENGTH :: u32 where "POOL_TAG_LENGTH = 4"

definition ScanPageForKernelObjectAllocation ::
  "scan_env \<Rightarrow> ptr \<Rightarrow> u32 \<Rightarrow> nat \<Rightarrow> PROCESS_SCAN_CONTEXT \<Rightarrow> PROCESS_SCAN_CONTEXT option" where
  "ScanPageForKernelObjectAllocation e PageBase PageSize ObjectIndex c =
     (if PageBase = NULL \<or> PageSize = 0 then Some c
      else do {
        (process, c) \<leftarrow> for_each [0..<Suc (unat (PageSize - POOL_TAG_LENGTH - minimum_process_allocation_size))]
           (scan_offset e PageBase ObjectIndex) (NULL, c);
        Some c
      })"

section \<open>The page tables\<close>

text \<open>The end of a range is included. An array without the closing range is read past its end.\<close>

primrec IsPhysicalAddressInPhysicalMemoryRange :: "u64 \<Rightarrow> (u64 \<times> u64) list \<Rightarrow> bool option" where
  "IsPhysicalAddressInPhysicalMemoryRange PhysicalAddress [] = None"
| "IsPhysicalAddressInPhysicalMemoryRange PhysicalAddress (r # rs) = (case r of (start_address, NumberOfBytes) \<Rightarrow>
     if NumberOfBytes = 0 then Some False
     else if start_address \<le> PhysicalAddress \<and> PhysicalAddress \<le> start_address + NumberOfBytes then Some True
     else IsPhysicalAddressInPhysicalMemoryRange PhysicalAddress rs)"

definition PAGE_BASE_SIZE :: u32 where "PAGE_BASE_SIZE = 0x1000"
definition LARGE_PAGE_2MB_ENTRIES :: nat where "LARGE_PAGE_2MB_ENTRIES = 512"
definition LARGE_PAGE_1GB_ENTRIES :: nat where "LARGE_PAGE_1GB_ENTRIES = 0x40000"

definition EnumerateKernelLargePages ::
  "scan_env \<Rightarrow> ptr \<Rightarrow> nat \<Rightarrow> nat \<Rightarrow> PROCESS_SCAN_CONTEXT \<Rightarrow> PROCESS_SCAN_CONTEXT option" where
  "EnumerateKernelLargePages e PageBase PageSize ObjectIndex c = for_each [0..<PageSize] (\<lambda>page_index.
     ScanPageForKernelObjectAllocation e (PageBase + of_nat (page_index * 0x1000)) 0x1000 ObjectIndex) c"

text \<open>The fields of the entries: present, large, and an address field of some width at some shift.\<close>

definition entry_Present :: "u64 \<Rightarrow> bool" where "entry_Present x = bit x 0"
definition IS_LARGE_PAGE :: "u64 \<Rightarrow> bool" where "IS_LARGE_PAGE x \<longleftrightarrow> drop_bit 7 x AND 1 \<noteq> 0"

definition physical_address :: "nat \<Rightarrow> nat \<Rightarrow> u64 \<Rightarrow> u64" where
  "physical_address shift width x = push_bit shift (take_bit width (drop_bit shift x))"

definition cr3_PhysicalAddress :: "u64 \<Rightarrow> u64" where "cr3_PhysicalAddress = physical_address 12 36"
definition pml4e_PhysicalAddress :: "u64 \<Rightarrow> u64" where "pml4e_PhysicalAddress = physical_address 12 40"
definition pdpte_PhysicalAddress :: "u64 \<Rightarrow> u64" where "pdpte_PhysicalAddress = physical_address 12 40"
definition pdpte_large_PhysicalAddress :: "u64 \<Rightarrow> u64" where "pdpte_large_PhysicalAddress = physical_address 30 22"
definition pde_PhysicalAddress :: "u64 \<Rightarrow> u64" where "pde_PhysicalAddress = physical_address 12 38"
definition pde_large_PhysicalAddress :: "u64 \<Rightarrow> u64" where "pde_large_PhysicalAddress = physical_address 21 29"
definition pte_PhysicalAddress :: "u64 \<Rightarrow> u64" where "pte_PhysicalAddress = physical_address 12 38"

text \<open>The virtual address of a physical one, if it is neither null nor invalid.\<close>

definition virtual_at :: "scan_env \<Rightarrow> u64 \<Rightarrow> ptr option" where
  "virtual_at e physical = (let v = pv_virtual e physical in if v = NULL \<or> \<not> pv_valid e v then None else Some v)"

text \<open>The loop over one table: every entry that is valid and present is visited, with its address.\<close>

definition walk_table :: "scan_env \<Rightarrow> ptr \<Rightarrow> (ptr \<Rightarrow> u64 \<Rightarrow> 'c \<Rightarrow> 'c option) \<Rightarrow> 'c \<Rightarrow> 'c option" where
  "walk_table e base visit c = for_each [0..<512] (\<lambda>index c.
     let a = base + of_nat (index * 8) in
     if \<not> pv_valid e a then Some c
     else do {
       entry \<leftarrow> read_u64 (pv_memory e) a;
       (if \<not> entry_Present entry then Some c else visit a entry c)
     }) c"

text \<open>A page is scanned when it lies in physical memory and is mapped.\<close>

definition visit_page ::
  "scan_env \<Rightarrow> (u64 \<times> u64) list \<Rightarrow> u64 \<Rightarrow> (ptr \<Rightarrow> 'c \<Rightarrow> 'c option) \<Rightarrow> 'c \<Rightarrow> 'c option" where
  "visit_page e ranges physical scan c = do {
     backed \<leftarrow> IsPhysicalAddressInPhysicalMemoryRange physical ranges;
     (if \<not> backed then Some c
      else case virtual_at e physical of None \<Rightarrow> Some c | Some page \<Rightarrow> scan page c)
   }"

definition visit_pte ::
  "scan_env \<Rightarrow> (u64 \<times> u64) list \<Rightarrow> ptr \<Rightarrow> u64 \<Rightarrow> PROCESS_SCAN_CONTEXT \<Rightarrow> PROCESS_SCAN_CONTEXT option" where
  "visit_pte e ranges a pt_entry = visit_page e ranges (pte_PhysicalAddress pt_entry)
     (\<lambda>page. ScanPageForKernelObjectAllocation e page PAGE_BASE_SIZE INDEX_PROCESS_POOL_TAG)"

definition visit_pde ::
  "scan_env \<Rightarrow> (u64 \<times> u64) list \<Rightarrow> ptr \<Rightarrow> u64 \<Rightarrow> PROCESS_SCAN_CONTEXT \<Rightarrow> PROCESS_SCAN_CONTEXT option" where
  "visit_pde e ranges a pd_entry c =
     (if IS_LARGE_PAGE pd_entry
      then visit_page e ranges (pde_large_PhysicalAddress pd_entry)
             (\<lambda>page. EnumerateKernelLargePages e page LARGE_PAGE_2MB_ENTRIES INDEX_PROCESS_POOL_TAG) c
      else if \<not> pv_valid e a then Some c
      else case virtual_at e (pde_PhysicalAddress pd_entry) of
             None \<Rightarrow> Some c
           | Some pt_base \<Rightarrow> walk_table e pt_base (visit_pte e ranges) c)"

definition visit_pdpte ::
  "scan_env \<Rightarrow> (u64 \<times> u64) list \<Rightarrow> ptr \<Rightarrow> u64 \<Rightarrow> PROCESS_SCAN_CONTEXT \<Rightarrow> PROCESS_SCAN_CONTEXT option" where
  "visit_pdpte e ranges a pdpt_entry c =
     (if IS_LARGE_PAGE pdpt_entry
      then visit_page e ranges (pdpte_large_PhysicalAddress pdpt_entry)
             (\<lambda>page. EnumerateKernelLargePages e page LARGE_PAGE_1GB_ENTRIES INDEX_PROCESS_POOL_TAG) c
      else case virtual_at e (pdpte_PhysicalAddress pdpt_entry) of
             None \<Rightarrow> Some c
           | Some pd_base \<Rightarrow> walk_table e pd_base (visit_pde e ranges) c)"

definition visit_pml4e ::
  "scan_env \<Rightarrow> (u64 \<times> u64) list \<Rightarrow> ptr \<Rightarrow> u64 \<Rightarrow> PROCESS_SCAN_CONTEXT \<Rightarrow> PROCESS_SCAN_CONTEXT option" where
  "visit_pml4e e ranges a pml4_entry c = (case virtual_at e (pml4e_PhysicalAddress pml4_entry) of
       None \<Rightarrow> Some c
     | Some pdpt_base \<Rightarrow> walk_table e pdpt_base (visit_pdpte e ranges) c)"

definition WalkKernelPageTables :: "scan_env \<Rightarrow> PROCESS_SCAN_CONTEXT \<Rightarrow> PROCESS_SCAN_CONTEXT option" where
  "WalkKernelPageTables e c = (case pv_ranges e of
       None \<Rightarrow> Some c
     | Some ranges \<Rightarrow>
         (case virtual_at e (cr3_PhysicalAddress (pv_cr3 e)) of
            None \<Rightarrow> Some c
          | Some pml4_base \<Rightarrow> walk_table e pml4_base (visit_pml4e e ranges) c))"

section \<open>Unlinked processes\<close>

definition IncrementProcessCounter :: "PROCESS_SCAN_CONTEXT \<Rightarrow> ptr \<Rightarrow> PROCESS_SCAN_CONTEXT option" where
  "IncrementProcessCounter c ProcessListEntry = Some (c\<lparr>sc_process_count := sc_process_count c + 1\<rparr>)"

definition PROCESS_OBJECT_ALLOCATION_MARGIN :: u64 where "PROCESS_OBJECT_ALLOCATION_MARGIN = 0x90"

definition near :: "ptr \<Rightarrow> u64 \<Rightarrow> bool" where
  "near process a \<longleftrightarrow> a - PROCESS_OBJECT_ALLOCATION_MARGIN \<le> process \<and> process \<le> a + PROCESS_OBJECT_ALLOCATION_MARGIN"

definition CheckIfProcessAllocationIsInProcessList ::
  "'a cb_st_scheme \<Rightarrow> PROCESS_SCAN_CONTEXT \<Rightarrow> ptr \<Rightarrow> PROCESS_SCAN_CONTEXT option" where
  "CheckIfProcessAllocationIsInProcessList s c ProcessListEntry = do {
     entry \<leftarrow> process_entry s ProcessListEntry;
     xs \<leftarrow> for_each [0..<unat (sc_process_count c)] (\<lambda>i xs.
        if \<not> i < length xs then None
        else Some (if near (pl_process entry) (xs ! i) then xs[i := 0] else xs)) (sc_addresses c);
     Some (c\<lparr>sc_addresses := xs\<rparr>)
   }"

definition enumerate_processes ::
  "('c \<Rightarrow> ptr \<Rightarrow> 'c option) \<Rightarrow> 'c \<Rightarrow> 'a list_st_scheme \<Rightarrow> ('c \<times> 'a list_st_scheme) option" where
  "enumerate_processes callback c s = do {
     let s = emit (Acquire ProcessListLock) s;
     first \<leftarrow> slist s ProcessHead;
     c \<leftarrow> enumerate_with callback (slist s) first c;
     Some (c, emit (Release ProcessListLock) s)
   }"

text \<open>The report carries the bytes from the object header on.\<close>

definition report_allocation ::
  "scan_env \<Rightarrow> 'a irp_st_scheme csq_remove \<Rightarrow> u64 \<Rightarrow> 'a irp_st_scheme \<Rightarrow> 'a irp_st_scheme option" where
  "report_allocation e csq process_address s = do {
     let allocation = process_address - OBJECT_HEADER_SIZE;
     (case ExAllocatePool2 (pv_alloc e) REPORT_POOL_TAG s of
        (None, s) \<Rightarrow> Some s
      | (Some p, s) \<Rightarrow> do {
          bytes \<leftarrow> read_bytes (pv_memory e) allocation 500;
          let r = INVALID_PROCESS_ALLOCATION_REPORT REPORT_INVALID_PROCESS_ALLOCATION bytes;
          (status, s) \<leftarrow> IrpQueueCompleteIrp csq (pv_alloc e) p (of_nat (sizeof_report r)) (s\<lparr>pool := (pool s)(p \<mapsto> report_bytes r)\<rparr>);
          Some s
        })
   }"

definition FindUnlinkedProcesses ::
  "scan_env \<Rightarrow> 'a cb_st_scheme csq_remove \<Rightarrow> 'a cb_st_scheme \<Rightarrow> (NTSTATUS \<times> 'a cb_st_scheme) option" where
  "FindUnlinkedProcesses e csq s = do {
     (c, s) \<leftarrow> enumerate_processes IncrementProcessCounter
        \<lparr>sc_process_count = 0, sc_process_buffer = NULL, sc_addresses = []\<rparr> s;
     (if sc_process_count c = 0 then Some (STATUS_ABANDONED, s)
      else case ExAllocatePool2 (pv_alloc e) PROCESS_ADDRESS_LIST_TAG s of
        (None, s) \<Rightarrow> Some (STATUS_MEMORY_NOT_ALLOCATED, s)
      | (Some buffer, s) \<Rightarrow> do {
          let c = c\<lparr>sc_process_buffer := buffer, sc_addresses := replicate (unat (sc_process_count c * 2)) 0\<rparr>;
          c \<leftarrow> WalkKernelPageTables e c;
          (c, s) \<leftarrow> enumerate_processes (CheckIfProcessAllocationIsInProcessList s) c s;
          s \<leftarrow> for_each [0..<unat (sc_process_count c)] (\<lambda>index s.
             if \<not> index < length (sc_addresses c) then None
             else if sc_addresses c ! index = 0 then Some s
             else report_allocation e csq (sc_addresses c ! index) s) s;
          Some (STATUS_SUCCESS, emit (PoolFree buffer PROCESS_ADDRESS_LIST_TAG) s)
        })
   }"

section \<open>Big pool allocations\<close>

text \<open>The loop over the entries only advances a pointer.\<close>

definition EnumerateBigPoolAllocations :: "scan_env \<Rightarrow> 'a kst_scheme \<Rightarrow> NTSTATUS \<times> 'a kst_scheme" where
  "EnumerateBigPoolAllocations e s =
     (if pv_routine e = NULL then (STATUS_UNSUCCESSFUL, s)
      else if pv_bigpool_size e \<noteq> STATUS_INFO_LENGTH_MISMATCH then (pv_bigpool_size e, s)
      else case ExAllocatePool2 (pv_alloc e) POOL_TAG_INTEGRITY s of
        (None, s) \<Rightarrow> (STATUS_MEMORY_NOT_ALLOCATED, s)
      | (Some pool_entries, s) \<Rightarrow> (pv_bigpool_fill e, emit (PoolFree pool_entries POOL_TAG_INTEGRITY) s))"

section \<open>What the signature accepts\<close>

text \<open>What the scan relies on: the word at a valid address can be read.\<close>

definition readable :: "scan_env \<Rightarrow> bool" where
  "readable e \<longleftrightarrow> (\<forall>a. pv_valid e a \<longrightarrow> (\<forall>k < 8. pv_memory e (a + of_nat k) \<noteq> None))"

text \<open>Memory as the scan sees it, where what is not valid reads as zero.\<close>

definition byte_at :: "scan_env \<Rightarrow> ptr \<Rightarrow> u8" where
  "byte_at e a = (case pv_memory e a of Some b \<Rightarrow> b | None \<Rightarrow> 0)"

definition word_at :: "scan_env \<Rightarrow> ptr \<Rightarrow> u64" where
  "word_at e a = (case read_if_valid e a of Some v \<Rightarrow> v | None \<Rightarrow> 0)"

text \<open>
  The test of a process structure as the code compiles it, where a comparison binds tighter than a
  bitwise and: less than the comment above the routine asks for.
\<close>

definition process_at :: "scan_env \<Rightarrow> ptr \<Rightarrow> ptr \<Rightarrow> bool" where
  "process_at e process header \<longleftrightarrow>
     word_at e (process + 0x490) \<noteq> 0 \<and> \<not> bit (word_at e (process + 0x28)) 5
     \<and> word_at e (process + 0x550) \<noteq> 0 \<and> word_at e (process + 0x570) \<noteq> 0
     \<and> pv_valid e (header + 2) \<and> 169 < unat (byte_at e (header + 2)) \<and> byte_at e (header + 3) \<noteq> 0"

lemma readable_bytes:
  assumes "readable e" "pv_valid e a" "k < 8"
  shows "pv_memory e (a + of_nat k) = Some (byte_at e (a + of_nat k))"
  using assms by (fastforce simp: readable_def byte_at_def split: option.splits)

lemma readable_byte: "readable e \<Longrightarrow> pv_valid e a \<Longrightarrow> pv_memory e a = Some (byte_at e a)"
  using readable_bytes[of e a 0] by simp

lemma read_bytes_Some: "(\<And>k. k < n \<Longrightarrow> m (p + of_nat k) \<noteq> None) \<Longrightarrow> \<exists>bs. read_bytes m p n = Some bs"
proof (induction n arbitrary: p)
  case (Suc n)
  have "m (p + 1 + of_nat k) \<noteq> None" if "k < n" for k
    using Suc.prems[of "Suc k"] that by (simp add: add.assoc)
  then obtain bs where "read_bytes m (p + 1) n = Some bs" using Suc.IH by blast
  moreover have "m p \<noteq> None" using Suc.prems[of 0] by simp
  ultimately show ?case by auto
qed simp

lemma readable_word: "readable e \<Longrightarrow> pv_valid e a \<Longrightarrow> read_u64 (pv_memory e) a = Some (word_at e a)"
  using read_bytes_Some[of 8 "pv_memory e" a] by (auto simp: readable_def word_at_def read_if_valid_def read_u64_def)

lemma read_if_valid_eq: "readable e \<Longrightarrow> read_if_valid e a = Some (word_at e a)"
  using readable_word by (auto simp: word_at_def read_if_valid_def)

text \<open>An odd word is no multiple of a page or of eight, so each test is the test for zero.\<close>

lemma misplaced_mask: "peb_test x \<longleftrightarrow> x = 0" "object_table_test x \<longleftrightarrow> x = 0"
proof -
  have odd: "x AND 1 = 0" if "2 ^ k dvd x" "0 < k" for k
  proof -
    have "2 dvd x" using that(1) by (rule dvd_trans[rotated]) (use that(2) in simp)
    then show ?thesis by (simp add: and_one_eq even_iff_mod_2_eq_zero)
  qed
  show "peb_test x \<longleftrightarrow> x = 0" using odd[of 12] by (auto simp: peb_test_def mod_0_imp_dvd)
  show "object_table_test x \<longleftrightarrow> x = 0" using odd[of 3] by (auto simp: object_table_test_def)
qed

lemma block_size_test:
  fixes b :: u8
  defines "v \<equiv> ucast (ucast b * CHUNK_SIZE :: u32) - sizeof_POOL_HEADER"
  shows "v > EPROCESS_SIZE + OBJECT_HEADER_SIZE + sizeof_POOL_HEADER \<and> v AND 0xfff0 \<noteq> 0xfff0 \<longleftrightarrow> 169 < unat b"
proof (cases "b = 0")
  case True
  have "(- 16 :: u64) AND 0xfff0 = 0xfff0" by simp
  then show ?thesis using True by (simp add: v_def CHUNK_SIZE_def sizeof_POOL_HEADER_def)
next
  case False
  then have b: "0 < unat b" "unat b < 256" using unsigned_less[of b, where 'a = nat] by (auto simp: unat_gt_0)
  have "unat (ucast b * CHUNK_SIZE :: u32) = 16 * unat b"
    using b by (simp add: CHUNK_SIZE_def unat_word_ariths unsigned_ucast_eq take_bit_eq_mod)
  then have v: "unat v = 16 * unat b - 16"
    using b by (simp add: v_def sizeof_POOL_HEADER_def unat_sub_if_size word_le_nat_alt unsigned_ucast_eq take_bit_eq_mod)
  have "v AND 0xfff0 \<le> v" by (rule word_and_le2)
  then have "v AND 0xfff0 \<noteq> 0xfff0" using v b by (auto simp: word_le_nat_alt)
  then show ?thesis
    using v b by (auto simp: EPROCESS_SIZE_def OBJECT_HEADER_SIZE_def sizeof_POOL_HEADER_def word_less_nat_alt)
qed

lemma dir_table_bit: "x AND 0x20 = 0 \<longleftrightarrow> \<not> bit (x :: u64) 5"
proof -
  have "(0x20 :: u64) = push_bit 5 1" by simp
  then show ?thesis using bit_iff_and_push_bit_not_eq_0[of x 5] by metis
qed

lemma ucast_byte_zero: "(ucast (b :: u8) :: u32) = 0 \<longleftrightarrow> b = 0"
proof -
  have "unat (ucast b :: u32) = unat b"
    using unsigned_less[of b, where 'a = nat] by (simp add: unsigned_ucast_eq take_bit_eq_mod)
  then show ?thesis by (metis unsigned_0 unsigned_eq_0_iff)
qed

lemma header_bytes:
  assumes "readable e" "pv_valid e (header + 2)"
  shows "pv_memory e (header + 2) = Some (byte_at e (header + 2))" "pv_memory e (header + 3) = Some (byte_at e (header + 3))"
  using readable_bytes[OF assms, of 0] readable_bytes[OF assms, of 1] by (simp_all add: add.commute)

lemma signature_eq:
  assumes "readable e"
  shows "ValidateIfAddressIsProcessStructure e process header = Some (process_at e process header)"
proof (cases "pv_valid e (header + 2)")
  case True
  show ?thesis
    using block_size_test[of "byte_at e (header + 2)"]
    by (auto simp: ValidateIfAddressIsProcessStructure_def read_if_valid_eq[OF assms] True POOL_HEADER_BLOCK_SIZE_OFFSET_def
        pool_header_BlockSize_def pool_header_PoolType_def header_bytes[OF assms True] misplaced_mask dir_table_bit process_at_def
        EPROCESS_PEAK_VIRTUAL_SIZE_OFFSET_def KPROCESS_DIRECTORY_TABLE_BASE_OFFSET_def EPROCESS_PEB_OFFSET_def
        EPROCESS_OBJECT_TABLE_OFFSET_def Let_def word_greater_zero_iff ucast_byte_zero)
next
  case False
  then show ?thesis
    by (simp add: ValidateIfAddressIsProcessStructure_def read_if_valid_eq[OF assms] POOL_HEADER_BLOCK_SIZE_OFFSET_def
        process_at_def Let_def)
qed

section \<open>What the walk visits\<close>

definition in_ranges :: "(u64 \<times> u64) list \<Rightarrow> u64 \<Rightarrow> bool" where
  "in_ranges rs p \<longleftrightarrow> (\<exists>r \<in> set (takeWhile (\<lambda>r. snd r \<noteq> 0) rs). fst r \<le> p \<and> p \<le> fst r + snd r)"

definition ranges_ended :: "(u64 \<times> u64) list \<Rightarrow> bool" where
  "ranges_ended rs \<longleftrightarrow> list_ex (\<lambda>r. snd r = 0) rs"

lemma in_physical_memory: "ranges_ended rs \<Longrightarrow> IsPhysicalAddressInPhysicalMemoryRange p rs = Some (in_ranges rs p)"
proof (induction rs)
  case (Cons r rs)
  obtain start n where "r = (start, n)" by (cases r)
  moreover from this have "in_ranges (r # rs) p \<longleftrightarrow> n \<noteq> 0 \<and> (start \<le> p \<and> p \<le> start + n \<or> in_ranges rs p)"
    by (cases "n = 0") (simp_all add: in_ranges_def)
  ultimately show ?case using Cons by (auto simp: ranges_ended_def)
qed (simp add: ranges_ended_def)

text \<open>The entries of one table, and the pages below an entry of each level, in the order of the tables.\<close>

definition entries :: "scan_env \<Rightarrow> ptr \<Rightarrow> u64 list" where
  "entries e base = filter entry_Present (map (word_at e) (filter (pv_valid e) (map (\<lambda>i. base + of_nat (i * 8)) [0..<512])))"

definition page_of :: "scan_env \<Rightarrow> (u64 \<times> u64) list \<Rightarrow> u64 \<Rightarrow> ptr list" where
  "page_of e rs physical = (if in_ranges rs physical then case virtual_at e physical of None \<Rightarrow> [] | Some v \<Rightarrow> [v] else [])"

definition split_page :: "nat \<Rightarrow> ptr \<Rightarrow> ptr list" where
  "split_page n base = map (\<lambda>i. base + of_nat (i * 0x1000)) [0..<n]"

definition below :: "scan_env \<Rightarrow> (u64 \<Rightarrow> ptr list) \<Rightarrow> u64 \<Rightarrow> ptr list" where
  "below e pages physical = (case virtual_at e physical of None \<Rightarrow> [] | Some base \<Rightarrow> concat (map pages (entries e base)))"

definition pte_pages :: "scan_env \<Rightarrow> (u64 \<times> u64) list \<Rightarrow> u64 \<Rightarrow> ptr list" where
  "pte_pages e rs x = page_of e rs (pte_PhysicalAddress x)"

definition pde_pages :: "scan_env \<Rightarrow> (u64 \<times> u64) list \<Rightarrow> u64 \<Rightarrow> ptr list" where
  "pde_pages e rs x = (if IS_LARGE_PAGE x then concat (map (split_page 512) (page_of e rs (pde_large_PhysicalAddress x)))
     else below e (pte_pages e rs) (pde_PhysicalAddress x))"

definition pdpte_pages :: "scan_env \<Rightarrow> (u64 \<times> u64) list \<Rightarrow> u64 \<Rightarrow> ptr list" where
  "pdpte_pages e rs x = (if IS_LARGE_PAGE x then concat (map (split_page 0x40000) (page_of e rs (pdpte_large_PhysicalAddress x)))
     else below e (pde_pages e rs) (pdpte_PhysicalAddress x))"

definition kernel_pages :: "scan_env \<Rightarrow> ptr list" where
  "kernel_pages e = (case pv_ranges e of None \<Rightarrow> []
     | Some rs \<Rightarrow> below e (\<lambda>x. below e (pdpte_pages e rs) (pml4e_PhysicalAddress x)) (cr3_PhysicalAddress (pv_cr3 e)))"

lemma for_each_filter: "for_each (filter P xs) body s = for_each xs (\<lambda>x s. if P x then body x s else Some s) s"
  by (induction xs arbitrary: s) (auto cong: Option.bind_cong)

lemma for_each_single: "for_each [x] body s = body x s"
  by (cases "body x s") simp_all

lemma for_each_map_body: "for_each (map f xs) body = for_each xs (\<lambda>x. body (f x))"
  by (rule ext) (rule for_each_map)

lemma walk_table_eq:
  assumes "readable e" "\<And>a x c. pv_valid e a \<Longrightarrow> visit a x c = for_each (pages x) scan c"
  shows "walk_table e base visit c = for_each (concat (map pages (entries e base))) scan c"
  unfolding walk_table_def entries_def for_each_concat for_each_map for_each_filter
  by (rule for_each_cong) (simp add: Let_def readable_word[OF assms(1)] assms(2))

lemma walk_below:
  assumes "readable e" "\<And>a x c. pv_valid e a \<Longrightarrow> visit a x c = for_each (pages x) scan c"
  shows "(case virtual_at e p of None \<Rightarrow> Some c | Some base \<Rightarrow> walk_table e base visit c) = for_each (below e pages p) scan c"
  by (simp add: below_def walk_table_eq[OF assms] split: option.split)

lemma visit_page_eq: "ranges_ended rs \<Longrightarrow> visit_page e rs p scan c = for_each (page_of e rs p) scan c"
  by (simp add: visit_page_def in_physical_memory page_of_def for_each_single del: for_each.simps(2) split: option.split)

abbreviation scan_page :: "scan_env \<Rightarrow> ptr \<Rightarrow> PROCESS_SCAN_CONTEXT \<Rightarrow> PROCESS_SCAN_CONTEXT option" where
  "scan_page e page \<equiv> ScanPageForKernelObjectAllocation e page 0x1000 0"

lemma visit_large_eq:
  "ranges_ended rs \<Longrightarrow> visit_page e rs p (\<lambda>page. EnumerateKernelLargePages e page n 0) c
     = for_each (concat (map (split_page n) (page_of e rs p))) (scan_page e) c"
  by (simp add: visit_page_eq EnumerateKernelLargePages_def[abs_def] for_each_concat for_each_map for_each_map_body split_page_def)

lemma walk_visits_pages:
  assumes "readable e" "\<And>rs. pv_ranges e = Some rs \<Longrightarrow> ranges_ended rs"
  shows "WalkKernelPageTables e c = for_each (kernel_pages e) (scan_page e) c"
proof (cases "pv_ranges e")
  case None
  then show ?thesis by (simp add: WalkKernelPageTables_def kernel_pages_def)
next
  case (Some rs)
  then have rs: "ranges_ended rs" by (rule assms(2))
  have pte: "visit_pte e rs a x c = for_each (pte_pages e rs x) (scan_page e) c" for a x c
    by (simp add: visit_pte_def pte_pages_def visit_page_eq[OF rs] PAGE_BASE_SIZE_def INDEX_PROCESS_POOL_TAG_def)
  have pde: "visit_pde e rs a x c = for_each (pde_pages e rs x) (scan_page e) c" if "pv_valid e a" for a x c
    using that by (simp add: visit_pde_def pde_pages_def visit_large_eq[OF rs] LARGE_PAGE_2MB_ENTRIES_def
        INDEX_PROCESS_POOL_TAG_def walk_below[OF assms(1) pte])
  have pdpte: "visit_pdpte e rs a x c = for_each (pdpte_pages e rs x) (scan_page e) c" for a x c
    by (simp add: visit_pdpte_def pdpte_pages_def visit_large_eq[OF rs] LARGE_PAGE_1GB_ENTRIES_def
        INDEX_PROCESS_POOL_TAG_def walk_below[OF assms(1) pde])
  have pml4e: "visit_pml4e e rs a x c = for_each (below e (pdpte_pages e rs) (pml4e_PhysicalAddress x)) (scan_page e) c" for a x c
    by (simp add: visit_pml4e_def walk_below[OF assms(1) pdpte])
  show ?thesis
    by (simp add: WalkKernelPageTables_def kernel_pages_def Some walk_below[OF assms(1) pml4e])
qed

section \<open>What the scan finds\<close>

text \<open>
  The pool headers of one page whose tag is that of a process; the process behind a header; and the
  addresses that the scan stores for a page: a tagged block without a process structure repeats the
  last process that was found in the page.
\<close>

definition tagged :: "scan_env \<Rightarrow> ptr \<Rightarrow> bool" where
  "tagged e p \<longleftrightarrow> (\<forall>k \<le> 4. pv_valid e (p + of_nat k)) \<and> map (byte_at e) [p, p + 1, p + 2, p + 3] = map of_char ''Proc''
     \<and> pv_valid e (p - 4)"

definition page_headers :: "scan_env \<Rightarrow> ptr \<Rightarrow> ptr list" where
  "page_headers e page = (if page = NULL then [] else
     map (\<lambda>p. p - 4) (filter (tagged e) (map (\<lambda>offset. page + of_nat offset) [0..<1533])))"

definition process_behind :: "scan_env \<Rightarrow> ptr \<Rightarrow> ptr option" where
  "process_behind e header = find (\<lambda>p. process_at e p header) (map (\<lambda>n. header + 16 + n) HEADER_SIZES)"

primrec stored :: "ptr \<Rightarrow> ptr option list \<Rightarrow> ptr list" where
  "stored process [] = []"
| "stored process (x # xs) = (let q = (case x of Some p \<Rightarrow> p | None \<Rightarrow> process) in
     (if q = NULL then [] else [q]) @ stored q xs)"

definition found :: "scan_env \<Rightarrow> ptr list" where
  "found e = concat (map (\<lambda>page. stored NULL (map (process_behind e) (page_headers e page))) (kernel_pages e))"

lemma tag_matches_eq:
  "readable e \<Longrightarrow> tag_matches e p cs = Some ((\<forall>k < length cs. pv_valid e (p + of_nat k) \<and> byte_at e (p + of_nat k) = cs ! k)
     \<and> pv_valid e (p + of_nat (length cs)))"
proof (induction cs arbitrary: p)
  case (Cons c cs)
  have "(\<forall>k < Suc n. Q k) \<longleftrightarrow> Q 0 \<and> (\<forall>k < n. Q (Suc k))" for n and Q :: "nat \<Rightarrow> bool"
    by (metis less_Suc_eq_0_disj)
  with Cons show ?case by (simp add: readable_byte add.assoc)
qed (simp add: readable_byte)

lemma four:
  "(\<forall>k < Suc (Suc (Suc (Suc 0))). Q k) \<longleftrightarrow> Q 0 \<and> Q 1 \<and> Q 2 \<and> Q 3"
  "(\<forall>k \<le> (4 :: nat). Q k) \<longleftrightarrow> Q 0 \<and> Q 1 \<and> Q 2 \<and> Q 3 \<and> Q 4"
  by (auto simp: numeral_eq_Suc less_Suc_eq le_Suc_eq)

lemma tagged_eq:
  assumes "readable e"
  shows "tagged e p \<longleftrightarrow> tag_matches e p (EXECUTIVE_OBJECT_POOL_TAGS ! 0) = Some True \<and> pv_valid e (p - POOL_HEADER_TAG_OFFSET)"
  unfolding tag_matches_eq[OF assms] by (auto simp: tagged_def EXECUTIVE_OBJECT_POOL_TAGS_def POOL_HEADER_TAG_OFFSET_def four)

lemma find_process_eq:
  "readable e \<Longrightarrow> find_process e header ns process
     = Some (case find (\<lambda>p. process_at e p header) (map (\<lambda>n. header + 16 + n) ns) of Some p \<Rightarrow> p | None \<Rightarrow> process)"
  by (induction ns) (simp_all add: signature_eq sizeof_POOL_HEADER_def Let_def)

lemma scan_offset_eq:
  assumes "readable e"
  shows "scan_offset e page 0 offset (process, c) =
    (if tagged e (page + of_nat offset)
     then let q = (case process_behind e (page + of_nat offset - 4) of Some p \<Rightarrow> p | None \<Rightarrow> process) in
          map_option (Pair q) (for_each (if q = NULL then [] else [q]) add_process c)
     else Some (process, c))"
proof -
  obtain hit where "tag_matches e (page + of_nat offset) (EXECUTIVE_OBJECT_POOL_TAGS ! 0) = Some hit"
    using tag_matches_eq[OF assms] by blast
  then show ?thesis
    using tagged_eq[OF assms, of "page + of_nat offset"]
    by (auto simp: scan_offset_def find_process_eq[OF assms] process_behind_def POOL_HEADER_TAG_OFFSET_def Let_def
        for_each_single map_conv_bind_option comp_def simp del: for_each.simps(2) split: option.splits)
qed

lemma scan_offsets_eq:
  assumes "readable e"
  shows "map_option snd (for_each offsets (scan_offset e page 0) (process, c)) = for_each (stored process (map (process_behind e)
    (map (\<lambda>p. p - 4) (filter (tagged e) (map (\<lambda>offset. page + of_nat offset) offsets))))) add_process c"
proof (induction offsets arbitrary: process c)
  case (Cons offset offsets)
  show ?case
  proof (cases "tagged e (page + of_nat offset)")
    case True
    let ?q = "case process_behind e (page + of_nat offset - 4) of Some p \<Rightarrow> p | None \<Rightarrow> process"
    show ?thesis
    proof (cases "for_each (if ?q = NULL then [] else [?q]) add_process c")
      case None
      with True show ?thesis by (simp add: scan_offset_eq[OF assms] Let_def for_each_append)
    next
      case (Some c')
      with True Cons.IH[of ?q c'] show ?thesis
        by (simp add: scan_offset_eq[OF assms] Let_def for_each_append)
    qed
  next
    case False
    with Cons.IH show ?thesis by (simp add: scan_offset_eq[OF assms])
  qed
qed simp

lemma scan_page_eq:
  assumes "readable e"
  shows "scan_page e page c = for_each (stored NULL (map (process_behind e) (page_headers e page))) add_process c"
proof -
  have "unat ((0x1000 :: u32) - POOL_TAG_LENGTH - minimum_process_allocation_size) = 1532"
    by (simp add: POOL_TAG_LENGTH_def minimum_process_allocation_size_def EPROCESS_SIZE_def sizeof_POOL_HEADER_def OBJECT_HEADER_SIZE_def)
  then have "scan_page e page c = (if page = NULL then Some c
      else map_option snd (for_each [0..<1533] (scan_offset e page 0) (NULL, c)))"
    by (cases "for_each [0..<1533] (scan_offset e page 0) (NULL, c)")
      (simp_all add: ScanPageForKernelObjectAllocation_def case_prod_beta del: upt_Suc)
  then show ?thesis by (simp add: page_headers_def scan_offsets_eq[OF assms])
qed

lemma walk_stores_found:
  assumes "readable e" "\<And>rs. pv_ranges e = Some rs \<Longrightarrow> ranges_ended rs"
  shows "WalkKernelPageTables e c = for_each (found e) add_process c"
proof -
  have "WalkKernelPageTables e c = for_each (kernel_pages e) (scan_page e) c"
    by (rule walk_visits_pages) (use assms in auto)
  also have "\<dots> = for_each (found e) add_process c"
    unfolding found_def for_each_concat for_each_map by (rule for_each_cong) (rule scan_page_eq[OF assms(1)])
  finally show ?thesis .
qed

lemma stored_not_null: "p \<in> set (stored q xs) \<Longrightarrow> p \<noteq> NULL"
  by (induction xs arbitrary: q) (auto simp: Let_def split: if_splits)

lemma found_not_null: "NULL \<notin> set (found e)"
  using stored_not_null by (fastforce simp: found_def)

section \<open>The buffer\<close>

text \<open>A buffer of \<open>m\<close> words of which the first \<open>n\<close> are used: the addresses in order, as far as they fit.\<close>

definition buffer_of :: "nat \<Rightarrow> nat \<Rightarrow> u64 list \<Rightarrow> u64 list" where
  "buffer_of n m ps = take n ps @ replicate (m - min n (length ps)) 0"

lemma length_buffer_of: "n \<le> m \<Longrightarrow> length (buffer_of n m ps) = m"
  by (simp add: buffer_of_def min_def)

lemma fill_slot_skip:
  "\<forall>i \<in> set is. i < length xs \<and> xs ! i \<noteq> 0 \<Longrightarrow> fill_slot (is @ js) p xs = fill_slot js p xs"
  by (induction "is") simp_all

lemma fill_slot_buffer:
  assumes "n \<le> m" "NULL \<notin> set ps" "p \<noteq> NULL"
  shows "fill_slot [0..<n] p (buffer_of n m ps) = Some (buffer_of n m (ps @ [p]))"
proof (cases "length ps < n")
  case True
  have used: "\<forall>i \<in> set [0..<length ps]. i < length (buffer_of n m ps) \<and> buffer_of n m ps ! i \<noteq> 0"
    using True assms by (auto simp: buffer_of_def nth_append in_set_conv_nth)
  have "[0..<n] = [0..<length ps] @ length ps # [Suc (length ps)..<n]"
    using True upt_add_eq_append[of 0 "length ps" "n - length ps"] by (simp add: upt_conv_Cons)
  then have "fill_slot [0..<n] p (buffer_of n m ps) = Some ((buffer_of n m ps)[length ps := p])"
    using fill_slot_skip[OF used, of "length ps # [Suc (length ps)..<n]"] True assms(1)
    by (simp add: length_buffer_of) (simp add: buffer_of_def nth_append)
  moreover have "replicate (m - length ps) (0 :: u64) = 0 # replicate (m - Suc (length ps)) 0"
    using True assms(1) by (metis Suc_diff_Suc less_le_trans replicate_Suc)
  ultimately show ?thesis using True by (simp add: buffer_of_def list_update_append)
next
  case False
  then have "\<forall>i \<in> set [0..<n]. i < length (buffer_of n m ps) \<and> buffer_of n m ps ! i \<noteq> 0"
    using assms(1,2) by (auto simp: buffer_of_def nth_append in_set_conv_nth)
  from fill_slot_skip[OF this, of "[]"] False show ?thesis by (simp add: buffer_of_def)
qed

lemma add_processes:
  assumes "unat (sc_process_count c) \<le> m" "NULL \<notin> set qs" "NULL \<notin> set ps"
    and "sc_addresses c = buffer_of (unat (sc_process_count c)) m ps"
  shows "for_each qs add_process c = Some (c\<lparr>sc_addresses := buffer_of (unat (sc_process_count c)) m (ps @ qs)\<rparr>)"
  using assms
proof (induction qs arbitrary: c ps)
  case (Cons q qs)
  let ?c = "c\<lparr>sc_addresses := buffer_of (unat (sc_process_count c)) m (ps @ [q])\<rparr>"
  have "add_process q c = Some ?c"
    using Cons.prems by (simp add: add_process_def fill_slot_buffer)
  with Cons.IH[of ?c "ps @ [q]"] Cons.prems show ?case by simp
qed simp

text \<open>The enumeration of a list whose callback does not touch the list is the loop over its entries.\<close>

lemma enumerate_with_eq: "chain links p xs \<Longrightarrow> enumerate_with callback links p c = for_each xs (\<lambda>x c. callback c x) c"
proof (induction xs arbitrary: p c)
  case Nil
  then show ?case by (subst enumerate_with.simps) simp
next
  case (Cons x xs)
  then show ?case by (subst enumerate_with.simps) (auto split: option.splits cong: Option.bind_cong)
qed

lemma enumerate_processes_eq:
  assumes "slist s ProcessHead = Some p" "chain (slist s) p xs" "for_each xs (\<lambda>x c. callback c x) c = Some c'"
  shows "enumerate_processes callback c s = Some (c', emit (Release ProcessListLock) (emit (Acquire ProcessListLock) s))"
  using assms by (simp add: enumerate_processes_def enumerate_with_eq)

lemma count_processes:
  "for_each xs (\<lambda>x c. IncrementProcessCounter c x) c = Some (c\<lparr>sc_process_count := sc_process_count c + of_nat (length xs)\<rparr>)"
  by (induction xs arbitrary: c) (simp_all add: IncrementProcessCounter_def add.assoc)

text \<open>Clearing the addresses next to one process, and next to all of them.\<close>

definition cleared :: "ptr list \<Rightarrow> nat \<Rightarrow> u64 list \<Rightarrow> u64 list" where
  "cleared ps n xs = map (\<lambda>a. if \<exists>p \<in> set ps. near p a then 0 else a) (take n xs) @ drop n xs"

lemma clear_loop:
  assumes "n \<le> length xs"
  shows "for_each [0..<n] (\<lambda>i xs. if \<not> i < length xs then None
      else Some (if near p (xs ! i) then xs[i := 0] else xs)) xs = Some (cleared [p] n xs)"
proof -
  let ?body = "\<lambda>i xs. if \<not> i < length xs then None else Some (if near p (xs ! i) then xs[i := 0] else xs)"
  have "\<exists>ys. for_each [0..<n] ?body xs = Some ys \<and> ys = cleared [p] n xs"
  proof (rule for_each_upt[where P = "\<lambda>k ys. ys = cleared [p] k xs"])
    fix i ys
    assume i: "i < n" "ys = cleared [p] i xs"
    then have "ys ! i = xs ! i" "length ys = length xs" using assms by (auto simp: cleared_def nth_append min_def)
    moreover have "cleared [p] (Suc i) xs = (cleared [p] i xs)[i := if near p (xs ! i) then 0 else xs ! i]"
      using i(1) assms by (auto simp: cleared_def take_Suc_conv_app_nth list_update_append min_def Cons_nth_drop_Suc[symmetric])
    ultimately show "\<exists>ys'. ?body i ys = Some ys' \<and> ys' = cleared [p] (Suc i) xs"
      using i assms list_update_id[of ys i] by (cases "near p (xs ! i)") simp_all
  qed (simp add: cleared_def)
  then show ?thesis by simp
qed

lemma cleared_cleared: "n \<le> length xs \<Longrightarrow> cleared ps n (cleared [p] n xs) = cleared (p # ps) n xs"
  by (auto simp: cleared_def min_def)

lemma check_all_processes:
  assumes "\<forall>x \<in> set xs. x \<in> dom (slist s) \<and> x \<in> dom (processes s)" "unat (sc_process_count c) \<le> length (sc_addresses c)"
  shows "for_each xs (\<lambda>x c. CheckIfProcessAllocationIsInProcessList s c x) c
     = Some (c\<lparr>sc_addresses := cleared (map pl_process (abs_processes s xs)) (unat (sc_process_count c)) (sc_addresses c)\<rparr>)"
  using assms
proof (induction xs arbitrary: c)
  case Nil
  then show ?case by (simp add: cleared_def abs_processes_def)
next
  case (Cons x xs)
  let ?n = "unat (sc_process_count c)"
  from Cons.prems obtain entry where entry: "process_entry s x = Some entry" "processes s x = Some entry"
    by (auto simp: process_entry_def)
  let ?c = "c\<lparr>sc_addresses := cleared [pl_process entry] ?n (sc_addresses c)\<rparr>"
  have "CheckIfProcessAllocationIsInProcessList s c x = Some ?c"
    using entry(1) Cons.prems(2) by (simp add: CheckIfProcessAllocationIsInProcessList_def clear_loop cong: if_cong)
  moreover have "length (cleared [pl_process entry] ?n (sc_addresses c)) = length (sc_addresses c)"
    using Cons.prems(2) by (simp add: cleared_def)
  ultimately show ?case
    using Cons.IH[of ?c] Cons.prems entry(2) by (simp add: cleared_cleared abs_processes_def)
qed

text \<open>The candidates that no process of the list explains, among as many as the list has entries.\<close>

definition unlinked :: "scan_env \<Rightarrow> ptr list \<Rightarrow> ptr list" where
  "unlinked e ps = filter (\<lambda>a. \<forall>p \<in> set ps. \<not> near p a) (take (length ps) (found e))"

definition allocation_report :: "scan_env \<Rightarrow> ptr \<Rightarrow> report" where
  "allocation_report e a = INVALID_PROCESS_ALLOCATION_REPORT REPORT_INVALID_PROCESS_ALLOCATION
     (map (\<lambda>k. byte_at e (a - 0x30 + of_nat k)) [0..<500])"

lemma read_bytes_byte_at:
  "(\<And>k. k < n \<Longrightarrow> pv_memory e (p + of_nat k) \<noteq> None) \<Longrightarrow> read_bytes (pv_memory e) p n = Some (map (\<lambda>k. byte_at e (p + of_nat k)) [0..<n])"
proof (induction n arbitrary: p)
  case (Suc n)
  have "pv_memory e (p + 1 + of_nat k) \<noteq> None" if "k < n" for k
    using Suc.prems[of "Suc k"] that by (simp add: add.assoc)
  from Suc.IH[OF this] Suc.prems[of 0] show ?case
    by (auto simp: byte_at_def add.assoc upt_conv_Cons map_Suc_upt[symmetric] simp del: upt_Suc)
qed simp

lemma report_allocation_eq:
  assumes "\<forall>k < 500. pv_memory e (a - 0x30 + of_nat k) \<noteq> None"
  shows "report_allocation e csq a s = send_report csq (pv_alloc e) (allocation_report e a) s"
  using read_bytes_byte_at[of 500 e "a - 0x30"] assms
  by (auto simp: report_allocation_def send_report_def allocation_report_def OBJECT_HEADER_SIZE_def Let_def split: option.splits prod.splits)

lemma report_loop:
  assumes "n \<le> length xs" "\<And>a. a \<in> set (take n xs) \<Longrightarrow> a \<noteq> 0 \<Longrightarrow> \<forall>k < 500. pv_memory e (a - 0x30 + of_nat k) \<noteq> None"
  shows "for_each [0..<n] (\<lambda>index s. if \<not> index < length xs then None else if xs ! index = 0 then Some s
       else report_allocation e csq (xs ! index) s) s
     = for_each (map (allocation_report e) (filter (\<lambda>a. a \<noteq> 0) (take n xs))) (send_report csq (pv_alloc e)) s"
proof -
  have "take n xs = map (\<lambda>i. xs ! i) [0..<n]" using assms(1) by (intro nth_equalityI) simp_all
  then show ?thesis
    unfolding for_each_map for_each_filter
    by (auto simp: for_each_map intro!: for_each_cong) (use assms in \<open>auto simp: report_allocation_eq in_set_conv_nth\<close>)
qed

lemma cleared_buffer:
  assumes "n \<le> m" "NULL \<notin> set qs"
  shows "filter (\<lambda>a. a \<noteq> 0) (take n (cleared ps n (buffer_of n m qs))) = filter (\<lambda>a. \<forall>p \<in> set ps. \<not> near p a) (take n qs)"
proof -
  have "take n (buffer_of n m qs) = take n qs @ replicate (n - length qs) 0"
    using assms(1) by (auto simp: buffer_of_def min_def)
  moreover have "filter (\<lambda>a. a \<noteq> 0) (map f (replicate k 0)) = []" if "f (0 :: u64) = 0" for f :: "u64 \<Rightarrow> u64" and k
    using that by simp
  moreover have "filter (\<lambda>a. a \<noteq> 0) (map (\<lambda>a. if \<exists>p \<in> set ps. near p a then 0 else a) ys) = filter (\<lambda>a. \<forall>p \<in> set ps. \<not> near p a) ys"
    if "NULL \<notin> set ys" for ys using that by (induction ys) auto
  moreover have "NULL \<notin> set (take n qs)" using assms(2) by (meson in_set_takeD)
  ultimately show ?thesis by (simp add: cleared_def length_buffer_of assms(1) min_def)
qed

lemma length_abs_processes: "length (abs_processes s ps) = length ps"
  by (simp add: abs_processes_def)

lemma report_unlinked:
  fixes e :: scan_env and ps :: "ptr list"
  defines "xs \<equiv> cleared ps (length ps) (buffer_of (length ps) (length ps * 2) (found e))"
  assumes "\<forall>a \<in> set (unlinked e ps). \<forall>k < 500. pv_memory e (a - 0x30 + of_nat k) \<noteq> None"
  shows "for_each [0..<length ps] (\<lambda>index s. if \<not> index < length xs then None else if xs ! index = 0 then Some s
       else report_allocation e csq (xs ! index) s) s
     = for_each (map (allocation_report e) (unlinked e ps)) (send_report csq (pv_alloc e)) s"
proof -
  have eq: "filter (\<lambda>a. a \<noteq> 0) (take (length ps) xs) = unlinked e ps"
    using cleared_buffer[of "length ps" "length ps * 2" "found e" ps] found_not_null by (simp add: unlinked_def xs_def)
  then have "set (unlinked e ps) = {a \<in> set (take (length ps) xs). a \<noteq> 0}" by (metis set_filter)
  with assms(2) show ?thesis
    unfolding eq[symmetric] by (intro report_loop) (auto simp: xs_def cleared_def length_buffer_of)
qed

abbreviation under_process_lock :: "'a kst_scheme \<Rightarrow> 'a kst_scheme" where
  "under_process_lock s \<equiv> emit (Release ProcessListLock) (emit (Acquire ProcessListLock) s)"


text \<open>What the signature of a process structure accepts: the peak size, the environment block and
  the handle table are not null, bit five of the directory base is clear, and the pool header has a
  type and more than 169 chunks; a field at an invalid address counts as null, and no other bit of the
  four fields matters, although the comments ask for masks and alignments of three of them.\<close>

theorem process_signature:
  assumes "readable e"
  shows "ValidateIfAddressIsProcessStructure e process header = Some (process_at e process header)"
  using assms by (rule signature_eq)

text \<open>
  One page of physical memory with one process structure, behind one entry on each level of the
  page tables; tables and page are mapped at their physical addresses.
\<close>

definition example_cells :: "nat \<Rightarrow> u8" where
  "example_cells n = (case map_of [(0x1000, 1), (0x1001, 0x20), (0x2000, 1), (0x2001, 0x30), (0x3000, 1), (0x3001, 0x40),
     (0x4000, 1), (0x4001, 0x50), (0x5002, 200), (0x5003, 2), (0x5004, 0x50), (0x5005, 0x72), (0x5006, 0x6f), (0x5007, 0x63),
     (0x54d0, 1), (0x5590, 1), (0x55b0, 1)] n of Some b \<Rightarrow> b | None \<Rightarrow> 0)"

definition example_scan_env :: scan_env where
  "example_scan_env = \<lparr>pv_memory = (\<lambda>a. Some (example_cells (unat a))),
     pv_valid = (\<lambda>a. unat a \<in> {0x1000, 0x2000, 0x3000, 0x4000} \<or> 0x5000 \<le> unat a \<and> unat a < 0x6000),
     pv_cr3 = 0x1000, pv_virtual = id, pv_ranges = Some [(0x1000, 0x5000), (0, 0)], pv_alloc = (\<lambda>n. Some (of_nat n + 0x800)),
     pv_dump_block = 0, pv_routine = 0, pv_bigpool_size = 0, pv_bigpool_fill = 0\<rparr>"

lemma example_readable: "readable example_scan_env"
  by (simp add: readable_def example_scan_env_def)

lemma example_byte: "byte_at example_scan_env a = example_cells (unat a)"
  by (simp add: byte_at_def example_scan_env_def)

lemma example_word:
  "word_at example_scan_env a = (if pv_valid example_scan_env a
     then of_nat (le_nat (map (\<lambda>k. example_cells (unat (a + of_nat k))) [0..<8])) else 0)"
proof -
  have "read_bytes (pv_memory example_scan_env) a 8 = Some (map (\<lambda>k. byte_at example_scan_env (a + of_nat k)) [0..<8])"
    by (rule read_bytes_byte_at) (simp add: example_scan_env_def)
  then show ?thesis by (simp add: word_at_def read_if_valid_def read_u64_def example_byte)
qed

lemma example_process: "process_at example_scan_env 0x5040 0x5000"
  by (simp add: process_at_def example_word example_byte) (simp add: example_scan_env_def example_cells_def upt_rec)

theorem process_signature_witness:
  "ValidateIfAddressIsProcessStructure example_scan_env 0x5040 0x5000 = Some True"
  using process_signature[OF example_readable] example_process by simp

lemma filter_one:
  assumes "k < n" "\<And>i. i < n \<Longrightarrow> P (f i) \<longleftrightarrow> i = k"
  shows "filter P (map f [0..<n]) = [f k]"
proof -
  have "filter (P \<circ> f) [0..<n] = filter (\<lambda>i. i = k) [0..<n]" by (rule filter_cong) (use assms(2) in auto)
  also have "\<dots> = [k]" using assms(1) by (induction n) (auto simp: less_Suc_eq filter_empty_conv)
  finally show ?thesis by (simp add: filter_map)
qed

lemma example_table_word:
  assumes "base \<in> {0x1000, 0x2000, 0x3000, 0x4000}"
  shows "word_at example_scan_env base = base + 0x1001"
proof -
  have "[0..<8] = [0, 1, 2, 3, 4, 5, 6, 7 :: nat]" by (simp add: upt_rec)
  with assms show ?thesis by (auto simp: example_word) (simp_all add: example_scan_env_def example_cells_def)
qed

lemma example_entries:
  assumes "base \<in> {0x1000, 0x2000, 0x3000, 0x4000}"
  shows "entries example_scan_env base = [base + 0x1001]"
proof -
  have address: "unat (base + of_nat (i * 8) :: ptr) = unat base + i * 8" if "i < 512" for i
    using assms that unat_of_nat_eq[of "unat base + i * 8", where 'a = 64] by (auto simp: unat_word_ariths)
  have "filter (pv_valid example_scan_env) (map (\<lambda>i. base + of_nat (i * 8)) [0..<512]) = [base + of_nat (0 * 8)]"
    by (rule filter_one) (use assms address in \<open>auto simp: example_scan_env_def simp del: of_nat_mult\<close>)
  moreover have "entry_Present (base + 0x1001)" using assms by (auto simp: entry_Present_def bit_0)
  ultimately show ?thesis using example_table_word[OF assms] by (simp add: entries_def)
qed

lemma example_pages: "kernel_pages example_scan_env = [0x5000]"
proof -
  have entries: "entries example_scan_env 0x1000 = [0x2001]" "entries example_scan_env 0x2000 = [0x3001]"
    "entries example_scan_env 0x3000 = [0x4001]" "entries example_scan_env 0x4000 = [0x5001]"
    by (simp_all add: example_entries)
  have at: "virtual_at example_scan_env p = Some p" if "p \<in> {0x1000, 0x2000, 0x3000, 0x4000, 0x5000}" for p
    using that by (auto simp: virtual_at_def example_scan_env_def Let_def)
  have ranges: "pv_ranges example_scan_env = Some [(0x1000, 0x5000), (0, 0)]" "pv_cr3 example_scan_env = 0x1000"
    by (simp_all add: example_scan_env_def)
  show ?thesis
    by (simp add: kernel_pages_def ranges below_def cr3_PhysicalAddress_def physical_address_def at entries pml4e_PhysicalAddress_def
        pdpte_pages_def IS_LARGE_PAGE_def pdpte_PhysicalAddress_def pde_pages_def pde_PhysicalAddress_def pte_pages_def
        pte_PhysicalAddress_def page_of_def in_ranges_def)
qed

lemma example_found: "found example_scan_env = [0x5040]"
proof -
  have "filter (tagged example_scan_env) (map (\<lambda>offset. 0x5000 + of_nat offset) [0..<1533]) = [0x5000 + of_nat 4]"
  proof (rule filter_one)
    fix i :: nat
    assume "i < 1533"
    then have "unat (0x5000 + of_nat i :: ptr) = 0x5000 + i"
      using unat_of_nat_eq[of "0x5000 + i", where 'a = 64] by simp
    moreover have "example_cells (0x5000 + i) = 0x50 \<longleftrightarrow> i = 4" by (simp add: example_cells_def)
    moreover have "tagged example_scan_env 0x5004"
      by (simp add: tagged_def example_byte) (simp add: four example_scan_env_def example_cells_def)
    ultimately show "tagged example_scan_env (0x5000 + of_nat i) \<longleftrightarrow> i = 4" by (auto simp: tagged_def example_byte)
  qed simp
  then have "page_headers example_scan_env 0x5000 = [0x5000]" by (simp add: page_headers_def)
  then show ?thesis
    by (simp add: found_def example_pages process_behind_def HEADER_SIZES_def example_process)
qed


end
