(* ===== verification/IoControl.thy ===== *)
theory IoControl
  imports PoolScan
begin

text \<open>
  The entry points of the device, from \<^verbatim>\<open>src/driver/io.c\<close>: opening and closing a handle, the control
  codes with the session check in front of them, and the mapping shared with the user-mode module,
  through which the same detections are started by a timer. This theory composes the handlers of all
  others.

  The parameter \<open>io_env\<close> collects what the kernel answers and the environments of the handlers. A system
  thread that is only created runs on its own: \<^verbatim>\<open>DeviceControl\<close> makes it and goes on; a thread that is
  waited for runs in between.
\<close>

section \<open>Control codes\<close>

definition CTL_CODE :: "u32 \<Rightarrow> u32" where
  "CTL_CODE Function = (push_bit 16 0x22 OR push_bit 2 Function)"

definition IOCTL_RUN_NMI_CALLBACKS :: u32 where "IOCTL_RUN_NMI_CALLBACKS = CTL_CODE 0x20001"
definition IOCTL_VALIDATE_DRIVER_OBJECTS :: u32 where "IOCTL_VALIDATE_DRIVER_OBJECTS = CTL_CODE 0x20002"
definition IOCTL_NOTIFY_DRIVER_ON_PROCESS_LAUNCH :: u32 where "IOCTL_NOTIFY_DRIVER_ON_PROCESS_LAUNCH = CTL_CODE 0x20004"
definition IOCTL_HANDLE_REPORTS_IN_CALLBACK_QUEUE :: u32 where "IOCTL_HANDLE_REPORTS_IN_CALLBACK_QUEUE = CTL_CODE 0x20005"
definition IOCTL_PERFORM_VIRTUALIZATION_CHECK :: u32 where "IOCTL_PERFORM_VIRTUALIZATION_CHECK = CTL_CODE 0x20006"
definition IOCTL_ENUMERATE_HANDLE_TABLES :: u32 where "IOCTL_ENUMERATE_HANDLE_TABLES = CTL_CODE 0x20007"
definition IOCTL_RETRIEVE_MODULE_EXECUTABLE_REGIONS :: u32 where "IOCTL_RETRIEVE_MODULE_EXECUTABLE_REGIONS = CTL_CODE 0x20008"
definition IOCTL_REQUEST_TOTAL_MODULE_SIZE :: u32 where "IOCTL_REQUEST_TOTAL_MODULE_SIZE = CTL_CODE 0x20009"
definition IOCTL_NOTIFY_DRIVER_ON_PROCESS_TERMINATION :: u32 where "IOCTL_NOTIFY_DRIVER_ON_PROCESS_TERMINATION = CTL_CODE 0x20010"
definition IOCTL_SCAN_FOR_UNLINKED_PROCESS :: u32 where "IOCTL_SCAN_FOR_UNLINKED_PROCESS = CTL_CODE 0x20011"
definition IOCTL_PERFORM_INTEGRITY_CHECK :: u32 where "IOCTL_PERFORM_INTEGRITY_CHECK = CTL_CODE 0x20013"
definition IOCTL_DETECT_ATTACHED_THREADS :: u32 where "IOCTL_DETECT_ATTACHED_THREADS = CTL_CODE 0x20014"
definition IOCTL_VALIDATE_PROCESS_LOADED_MODULE :: u32 where "IOCTL_VALIDATE_PROCESS_LOADED_MODULE = CTL_CODE 0x20015"
definition IOCTL_REQUEST_HARDWARE_INFORMATION :: u32 where "IOCTL_REQUEST_HARDWARE_INFORMATION = CTL_CODE 0x20016"
definition IOCTL_INITIATE_APC_OPERATION :: u32 where "IOCTL_INITIATE_APC_OPERATION = CTL_CODE 0x20017"
definition IOCTL_CHECK_FOR_EPT_HOOK :: u32 where "IOCTL_CHECK_FOR_EPT_HOOK = CTL_CODE 0x20018"
definition IOCTL_LAUNCH_DPC_STACKWALK :: u32 where "IOCTL_LAUNCH_DPC_STACKWALK = CTL_CODE 0x20019"
definition IOCTL_VALIDATE_SYSTEM_MODULES :: u32 where "IOCTL_VALIDATE_SYSTEM_MODULES = CTL_CODE 0x20020"
definition IOCTL_INSERT_IRP_INTO_QUEUE :: u32 where "IOCTL_INSERT_IRP_INTO_QUEUE = CTL_CODE 0x20021"
definition IOCTL_INITIATE_SHARED_MAPPING :: u32 where "IOCTL_INITIATE_SHARED_MAPPING = CTL_CODE 0x20023"
definition IOCTL_VALIDATE_PCI_DEVICES :: u32 where "IOCTL_VALIDATE_PCI_DEVICES = CTL_CODE 0x20024"

lemmas ioctl_defs = IOCTL_RUN_NMI_CALLBACKS_def IOCTL_VALIDATE_DRIVER_OBJECTS_def
  IOCTL_NOTIFY_DRIVER_ON_PROCESS_LAUNCH_def IOCTL_HANDLE_REPORTS_IN_CALLBACK_QUEUE_def
  IOCTL_PERFORM_VIRTUALIZATION_CHECK_def IOCTL_ENUMERATE_HANDLE_TABLES_def
  IOCTL_RETRIEVE_MODULE_EXECUTABLE_REGIONS_def IOCTL_REQUEST_TOTAL_MODULE_SIZE_def
  IOCTL_NOTIFY_DRIVER_ON_PROCESS_TERMINATION_def IOCTL_SCAN_FOR_UNLINKED_PROCESS_def
  IOCTL_PERFORM_INTEGRITY_CHECK_def IOCTL_DETECT_ATTACHED_THREADS_def IOCTL_VALIDATE_PROCESS_LOADED_MODULE_def
  IOCTL_REQUEST_HARDWARE_INFORMATION_def IOCTL_INITIATE_APC_OPERATION_def IOCTL_CHECK_FOR_EPT_HOOK_def
  IOCTL_LAUNCH_DPC_STACKWALK_def IOCTL_VALIDATE_SYSTEM_MODULES_def IOCTL_INSERT_IRP_INTO_QUEUE_def
  IOCTL_INITIATE_SHARED_MAPPING_def IOCTL_VALIDATE_PCI_DEVICES_def CTL_CODE_def

section \<open>State and environment\<close>

text \<open>The timer and the DPC object of the mapping have no state of their own in the model.\<close>

record SHARED_MAPPING =
  mp_work_item_status :: u32
  mp_user_buffer :: ptr
  mp_kernel_buffer :: ptr
  mp_mdl :: ptr
  mp_size :: u64
  mp_active :: bool
  mp_work_item :: ptr

record io_st = walk_st +
  shared_mapping :: SHARED_MAPPING

record 'a io_env =
  dv_csq :: "'a io_st_scheme csq_remove"
  dv_alloc :: allocator
  dv_lookup :: process_lookup
  dv_process_id :: "ptr \<Rightarrow> u64"
  dv_nmi :: nmi_env
  dv_create_thread :: "NTSTATUS \<times> u64"
  dv_reference_thread :: "NTSTATUS \<times> ptr"
  dv_register_ob :: "NTSTATUS \<times> ptr"
  dv_hv :: hv_env
  dv_enum_handles :: "'a io_st_scheme \<Rightarrow> 'a io_st_scheme option"
  dv_handle_table :: "ptr \<Rightarrow> ptr"
  dv_table_valid :: "ptr \<Rightarrow> bool"
  dv_system_process :: ptr
  dv_integrity :: integrity_env
  dv_scan :: scan_env
  dv_walk :: walk_env
  dv_ept :: ept_env
  dv_module_query :: module_query
  dv_module_work_item :: "nat \<Rightarrow> ptr"
  dv_pci :: pci_env
  dv_mdl :: ptr
  dv_user_map :: "NTSTATUS + ptr"
  dv_mapping_work_item :: ptr
  dv_operation_id :: u16

definition set_mapping :: "(SHARED_MAPPING \<Rightarrow> SHARED_MAPPING) \<Rightarrow> 'a io_st_scheme \<Rightarrow> 'a io_st_scheme" where
  "set_mapping f s = s\<lparr>shared_mapping := f (shared_mapping s)\<rparr>"

definition EnumerateHandleTables :: "'a io_env \<Rightarrow> 'a io_st_scheme \<Rightarrow> 'a io_st_scheme option" where
  "EnumerateHandleTables e = EnumerateProcessListWithCallbackRoutine (Some (\<lambda>entry s. map_option snd
     (EnumerateProcessHandles (dv_enum_handles e) (dv_handle_table e) (dv_table_valid e) (dv_system_process e) entry s)))"

text \<open>Starting the thread that validates the driver objects; its handle is closed at once.\<close>

definition start_driver_validation :: "'a io_env \<Rightarrow> 'b kst_scheme \<Rightarrow> NTSTATUS \<times> 'b kst_scheme" where
  "start_driver_validation e s = (case dv_create_thread e of (status, handle) \<Rightarrow>
     let s = emit (Call ''PsCreateSystemThread'' []) s in
     if \<not> NT_SUCCESS status then (status, s) else (status, emit (ZwCloseHandle handle) s))"

section \<open>The shared mapping\<close>

definition ssRunNmiCallbacks :: u16 where "ssRunNmiCallbacks = 0"
definition ssValidateDriverObjects :: u16 where "ssValidateDriverObjects = 1"
definition ssEnumerateHandleTables :: u16 where "ssEnumerateHandleTables = 2"
definition ssScanForUnlinkedProcesses :: u16 where "ssScanForUnlinkedProcesses = 3"
definition ssPerformModuleIntegrityCheck :: u16 where "ssPerformModuleIntegrityCheck = 4"
definition ssScanForAttachedThreads :: u16 where "ssScanForAttachedThreads = 5"
definition ssScanForEptHooks :: u16 where "ssScanForEptHooks = 6"
definition ssInitiateDpcStackwalk :: u16 where "ssInitiateDpcStackwalk = 7"
definition ssValidateSystemModules :: u16 where "ssValidateSystemModules = 8"

text \<open>The operation that the user-mode module has written into the shared page.\<close>

definition mapping_operation :: "'a io_env \<Rightarrow> u16 \<Rightarrow> 'a io_st_scheme \<Rightarrow> 'a io_st_scheme option" where
  "mapping_operation e operation_id s =
     (if operation_id = ssRunNmiCallbacks then map_option snd (HandleNmiIOCTL (dv_nmi e) (dv_csq e) s)
      else if operation_id = ssValidateDriverObjects then Some (snd (start_driver_validation e s))
      else if operation_id = ssEnumerateHandleTables then EnumerateHandleTables e s
      else if operation_id = ssScanForUnlinkedProcesses then map_option snd (FindUnlinkedProcesses (dv_scan e) (dv_csq e) s)
      else if operation_id = ssPerformModuleIntegrityCheck then map_option snd (ValidateOurDriverImage (dv_integrity e) s)
      else if operation_id = ssScanForAttachedThreads then DetectThreadsAttachedToProtectedProcess (dv_nmi e) (dv_csq e) s
      else if operation_id = ssScanForEptHooks then Some (snd (DetectEptHooksInKeyFunctions (dv_ept e) s))
      else if operation_id = ssInitiateDpcStackwalk then map_option snd (DispatchStackwalkToEachCpuViaDpc (dv_walk e) (dv_csq e) s)
      else if operation_id = ssValidateSystemModules
        then map_option snd (SystemModuleVerificationDispatcher (dv_module_query e) (dv_alloc e) (dv_module_work_item e) s)
      else Some s)"

text \<open>The page is read through the kernel address of the mapping.\<close>

definition SharedMappingWorkRoutine :: "'a io_env \<Rightarrow> 'a io_st_scheme \<Rightarrow> 'a io_st_scheme option" where
  "SharedMappingWorkRoutine e s = do {
     let s = set_mapping (\<lambda>m. m\<lparr>mp_work_item_status := mp_work_item_status m + 1\<rparr>) s;
     (if mp_kernel_buffer (shared_mapping s) = NULL then None
      else do {
        s \<leftarrow> mapping_operation e (dv_operation_id e) s;
        Some (set_mapping (\<lambda>m. m\<lparr>mp_work_item_status := mp_work_item_status m - 1\<rparr>) s)
      })
   }"

definition SharedMappingDpcRoutine :: "'a io_st_scheme \<Rightarrow> 'a io_st_scheme" where
  "SharedMappingDpcRoutine s = (let mapping = shared_mapping s in
     if \<not> mp_active mapping \<or> mp_work_item_status mapping \<noteq> 0 then s
     else emit (WorkItemQueued (mp_work_item mapping)) s)"

definition REPEAT_TIME_15_SEC :: u64 where "REPEAT_TIME_15_SEC = 30000"

definition zero_mapping :: SHARED_MAPPING where
  "zero_mapping = \<lparr>mp_work_item_status = 0, mp_user_buffer = NULL, mp_kernel_buffer = NULL, mp_mdl = NULL, mp_size = 0,
     mp_active = False, mp_work_item = NULL\<rparr>"

text \<open>
  The routine spins while a work item runs: there it does not return, which is \<open>None\<close>.
\<close>

definition SharedMappingTerminate :: "'a io_st_scheme \<Rightarrow> 'a io_st_scheme option" where
  "SharedMappingTerminate s = (let mapping = shared_mapping s in
     if \<not> mp_active mapping then Some s
     else if mp_work_item_status mapping \<noteq> 0 then None
     else let s = set_mapping (\<lambda>m. m\<lparr>mp_active := False, mp_user_buffer := NULL, mp_size := 0\<rparr>) s;
              s = emit (TimerCancelled REPEAT_TIME_15_SEC) s;
              s = emit (WorkItemFreed (mp_work_item mapping)) s;
              s = emit (Call ''IoFreeMdl'' [mp_mdl mapping]) s;
              s = emit (PoolFree (mp_kernel_buffer mapping) POOL_TAG_INTEGRITY) s
          in Some (set_mapping (\<lambda>_. zero_mapping) s))"

definition SharedMappingInitialiseTimer :: "'a io_env \<Rightarrow> 'a io_st_scheme \<Rightarrow> NTSTATUS \<times> 'a io_st_scheme" where
  "SharedMappingInitialiseTimer e s =
     (let s = set_mapping (\<lambda>m. m\<lparr>mp_work_item := dv_mapping_work_item e\<rparr>) s in
      if dv_mapping_work_item e = NULL then (STATUS_INSUFFICIENT_RESOURCES, s)
      else (STATUS_SUCCESS, emit (TimerSet REPEAT_TIME_15_SEC) (emit (WorkItemAlloc (dv_mapping_work_item e)) s)))"

definition sizeof_SHARED_MAPPING_INIT :: u32 where "sizeof_SHARED_MAPPING_INIT = 16"

definition mapping_init_bytes :: "ptr \<Rightarrow> u64 \<Rightarrow> u8 list" where
  "mapping_init_bytes buffer n = pack_struct [int64 buffer, int64 n]"

definition SharedMappingInitialise :: "'a io_env \<Rightarrow> ptr \<Rightarrow> 'a io_st_scheme \<Rightarrow> (NTSTATUS \<times> 'a io_st_scheme) option" where
  "SharedMappingInitialise e Irp s = do {
     (status, s) \<leftarrow> ValidateIrpOutputBuffer Irp sizeof_SHARED_MAPPING_INIT s;
     (if \<not> NT_SUCCESS status then Some (status, s)
      else case ExAllocatePool2 (dv_alloc e) POOL_TAG_INTEGRITY s of
        (None, s) \<Rightarrow> Some (STATUS_INSUFFICIENT_RESOURCES, s)
      | (Some buffer, s) \<Rightarrow>
          if dv_mdl e = NULL then Some (STATUS_INSUFFICIENT_RESOURCES, emit (PoolFree buffer POOL_TAG_INTEGRITY) s)
          else let s = emit (Call ''IoAllocateMdl'' [dv_mdl e]) s in
          case dv_user_map e of
            Inl status \<Rightarrow> Some (status, emit (PoolFree buffer POOL_TAG_INTEGRITY) (emit (Call ''IoFreeMdl'' [dv_mdl e]) s))
          | Inr user_buffer \<Rightarrow> do {
              let s = set_mapping (\<lambda>m. m\<lparr>mp_kernel_buffer := buffer, mp_user_buffer := user_buffer, mp_mdl := dv_mdl e,
                 mp_size := 0x1000, mp_active := True, mp_work_item_status := 0\<rparr>) s;
              let s = snd (SharedMappingInitialiseTimer e s);
              s \<leftarrow> copy_to_system_buffer (mapping_init_bytes user_buffer 0x1000) Irp s;
              Some (status, s)
            })
   }"

section \<open>Requests\<close>

definition APC_OPERATION_STACKWALK :: u32 where "APC_OPERATION_STACKWALK = 1"

text \<open>The operation is read from the system buffer, whose length is not checked.\<close>

definition DispatchApcOperation :: "'a io_env \<Rightarrow> u8 list \<Rightarrow> 'a io_st_scheme \<Rightarrow> (NTSTATUS \<times> 'a io_st_scheme) option" where
  "DispatchApcOperation e Operation s =
     (if length Operation < 4 then None
      else if of_nat (le_nat (take 4 Operation)) = APC_OPERATION_STACKWALK then ValidateThreadsViaKernelApc (dv_walk e) s
      else Some (STATUS_INVALID_PARAMETER, s))"

primrec environment_code :: "ENVIRONMENT_TYPE \<Rightarrow> u32" where
  "environment_code NativeWindows = 0"
| "environment_code Vmware = 1"
| "environment_code VirtualBox = 2"

primrec processor_code :: "PROCESSOR_TYPE \<Rightarrow> u32" where
  "processor_code Unknown = 0"
| "processor_code GenuineIntel = 1"
| "processor_code AuthenticAmd = 2"

definition os_information_bytes :: "RTL_OSVERSIONINFOW \<Rightarrow> u8 list" where
  "os_information_bytes v = pack_struct [int32 (os_dwOSVersionInfoSize v), int32 (os_dwMajorVersion v), int32 (os_dwMinorVersion v),
     int32 (os_dwBuildNumber v), int32 (os_dwPlatformId v), wchars 128 (concat (map (\<lambda>w. le_bytes 2 (unat w)) (os_szCSDVersion v)))]"

definition system_information_bytes :: "SYSTEM_INFORMATION \<Rightarrow> u8 list" where
  "system_information_bytes i = pack_struct
     [chars MOTHERBOARD_SERIAL_CODE_LENGTH (si_motherboard_serial i), chars DEVICE_DRIVE_0_SERIAL_CODE_LENGTH (si_drive_0_serial i),
      chars VENDOR_STRING_MAX_LENGTH (si_vendor i), (1, [if si_virtualised_environment i then 1 else 0]),
      int32 (environment_code (si_environment i)), int32 (processor_code (si_processor i)),
      (4, os_information_bytes (si_os_information i))]"

definition sizeof_SYSTEM_INFORMATION :: u32 where "sizeof_SYSTEM_INFORMATION = 672"

definition request_hardware_information :: "ptr \<Rightarrow> 'a info_st_scheme \<Rightarrow> (NTSTATUS \<times> 'a info_st_scheme) option" where
  "request_hardware_information Irp s = do {
     (status, s) \<leftarrow> ValidateIrpOutputBuffer Irp sizeof_SYSTEM_INFORMATION s;
     (if \<not> NT_SUCCESS status then Some (status, s)
      else do {
        s \<leftarrow> set_irp Irp (\<lambda>irp. irp\<lparr>irp_Information := ucast sizeof_SYSTEM_INFORMATION\<rparr>) s;
        s \<leftarrow> copy_to_system_buffer (system_information_bytes (system_information s)) Irp s;
        Some (status, s)
      })
   }"

definition notify_process_launch :: "'a io_env \<Rightarrow> ptr \<Rightarrow> 'a io_st_scheme \<Rightarrow> (NTSTATUS \<times> 'a io_st_scheme) option" where
  "notify_process_launch e Irp s = do {
     (status, s) \<leftarrow> SessionInitialise (dv_lookup e) (dv_process_id e) Irp s;
     Some (if \<not> NT_SUCCESS status then (status, s) else RegisterProcessObCallbacks (dv_register_ob e) s)
   }"

text \<open>
  The thread that copies the sections is waited for. If no reference to it can be had, the request
  is completed while the thread still works on it; the model leaves out what it does then.
\<close>

definition retrieve_executable_regions :: "'a io_env \<Rightarrow> ptr \<Rightarrow> 'a io_st_scheme \<Rightarrow> (NTSTATUS \<times> 'a io_st_scheme) option" where
  "retrieve_executable_regions e Irp s = (case dv_create_thread e of (status, handle) \<Rightarrow>
     let s = emit (Call ''PsCreateSystemThread'' []) s in
     if \<not> NT_SUCCESS status then Some (status, s)
     else case dv_reference_thread e of (status, thread) \<Rightarrow>
     if \<not> NT_SUCCESS status then Some (status, emit (ZwCloseHandle handle) s)
     else do {
       let s = emit (ObReference thread) s;
       (_, s) \<leftarrow> RetrieveInMemoryModuleExecutableSections (dv_integrity e) Irp s;
       Some (status, emit (ObDereference thread) (emit (ZwCloseHandle handle) (emit (Call ''KeWaitForSingleObject'' [thread]) s)))
     })"

text \<open>The handlers whose request is completed at the end of \<^verbatim>\<open>DeviceControl\<close>.\<close>

definition handle_request :: "'a io_env \<Rightarrow> ptr \<Rightarrow> u32 \<Rightarrow> 'a io_st_scheme \<Rightarrow> (NTSTATUS \<times> 'a io_st_scheme) option" where
  "handle_request e Irp code s =
     (if code = IOCTL_RUN_NMI_CALLBACKS then HandleNmiIOCTL (dv_nmi e) (dv_csq e) s
      else if code = IOCTL_VALIDATE_DRIVER_OBJECTS then Some (start_driver_validation e s)
      else if code = IOCTL_NOTIFY_DRIVER_ON_PROCESS_LAUNCH then notify_process_launch e Irp s
      else if code = IOCTL_HANDLE_REPORTS_IN_CALLBACK_QUEUE then QueryActiveApcContextsForCompletion s
      else if code = IOCTL_PERFORM_VIRTUALIZATION_CHECK then PerformVirtualizationDetection (dv_hv e) Irp s
      else if code = IOCTL_ENUMERATE_HANDLE_TABLES then map_option (Pair STATUS_SUCCESS) (EnumerateHandleTables e s)
      else if code = IOCTL_RETRIEVE_MODULE_EXECUTABLE_REGIONS then retrieve_executable_regions e Irp s
      else if code = IOCTL_REQUEST_TOTAL_MODULE_SIZE then GetDriverImageSize (dv_integrity e) Irp s
      else if code = IOCTL_NOTIFY_DRIVER_ON_PROCESS_TERMINATION
        then Some (STATUS_SUCCESS, UnregisterProcessObCallbacks (SessionTerminate s))
      else if code = IOCTL_SCAN_FOR_UNLINKED_PROCESS then FindUnlinkedProcesses (dv_scan e) (dv_csq e) s
      else if code = IOCTL_PERFORM_INTEGRITY_CHECK then ValidateOurDriverImage (dv_integrity e) s
      else if code = IOCTL_DETECT_ATTACHED_THREADS
        then map_option (Pair STATUS_SUCCESS) (DetectThreadsAttachedToProtectedProcess (dv_nmi e) (dv_csq e) s)
      else if code = IOCTL_VALIDATE_PROCESS_LOADED_MODULE then ValidateProcessLoadedModule (dv_integrity e) (dv_csq e) Irp s
      else if code = IOCTL_REQUEST_HARDWARE_INFORMATION then request_hardware_information Irp s
      else if code = IOCTL_INITIATE_APC_OPERATION then do {
        irp \<leftarrow> irps s Irp;
        DispatchApcOperation e (irp_SystemBuffer irp) s
      }
      else if code = IOCTL_CHECK_FOR_EPT_HOOK then Some (DetectEptHooksInKeyFunctions (dv_ept e) s)
      else if code = IOCTL_VALIDATE_SYSTEM_MODULES
        then SystemModuleVerificationDispatcher (dv_module_query e) (dv_alloc e) (dv_module_work_item e) s
      else if code = IOCTL_LAUNCH_DPC_STACKWALK then DispatchStackwalkToEachCpuViaDpc (dv_walk e) (dv_csq e) s
      else if code = IOCTL_INITIATE_SHARED_MAPPING then SharedMappingInitialise e Irp s
      else if code = IOCTL_VALIDATE_PCI_DEVICES then ValidatePciDevices (dv_pci e) s
      else Some (STATUS_INVALID_PARAMETER, s))"

definition complete_request :: "ptr \<Rightarrow> NTSTATUS \<Rightarrow> 'a irp_st_scheme \<Rightarrow> (NTSTATUS \<times> 'a irp_st_scheme) option" where
  "complete_request Irp status s = do {
     s \<leftarrow> set_irp Irp (\<lambda>irp. irp\<lparr>irp_Status := status\<rparr>) s;
     s \<leftarrow> IofCompleteRequest Irp s;
     Some (status, s)
   }"

text \<open>\<^verbatim>\<open>IoCsqInsertIrp\<close> marks the request pending and calls the insert callback under the lock of the queue.\<close>

definition IoCsqInsertIrp :: "ptr \<Rightarrow> 'a irp_st_scheme \<Rightarrow> 'a irp_st_scheme" where
  "IoCsqInsertIrp Irp s =
     IrpQueueReleaseLock (IrpQueueInsert Irp (emit (IrpMarkedPending Irp) (IrpQueueAcquireLock s)))"

definition insert_irp_into_queue :: "ptr \<Rightarrow> 'a irp_st_scheme \<Rightarrow> (NTSTATUS \<times> 'a irp_st_scheme) option" where
  "insert_irp_into_queue Irp s = do {
     (status, s) \<leftarrow> IrpQueueQueryPendingReports Irp s;
     Some (if \<not> NT_SUCCESS status then (STATUS_PENDING, IoCsqInsertIrp Irp s) else (STATUS_SUCCESS, s))
   }"

definition DeviceControl :: "'a io_env \<Rightarrow> ptr \<Rightarrow> 'a io_st_scheme \<Rightarrow> (NTSTATUS \<times> 'a io_st_scheme) option" where
  "DeviceControl e Irp s = do {
     irp \<leftarrow> irps s Irp;
     stack_location \<leftarrow> irp_Stack irp;
     let code = io_IoControlCode stack_location;
     let (security_flag, s) = SessionIsActive s;
     (if \<not> security_flag \<and> code \<noteq> IOCTL_NOTIFY_DRIVER_ON_PROCESS_LAUNCH then complete_request Irp STATUS_ACCESS_DENIED s
      else if code = IOCTL_INSERT_IRP_INTO_QUEUE then insert_irp_into_queue Irp s
      else do {
        (status, s) \<leftarrow> handle_request e Irp code s;
        complete_request Irp status s
      })
   }"

section \<open>Opening and closing the device\<close>

text \<open>
  Both return the status field of the request after its completion: \<open>None\<close> in place of a status says
  that the field is gone.
\<close>

definition DeviceClose :: "ptr \<Rightarrow> 'a io_st_scheme \<Rightarrow> (NTSTATUS option \<times> 'a io_st_scheme) option" where
  "DeviceClose Irp s = do {
     s \<leftarrow> SharedMappingTerminate (UnregisterProcessObCallbacks (SessionTerminate s));
     s \<leftarrow> IofCompleteRequest Irp s;
     Some (map_option irp_Status (irps s Irp), s)
   }"

definition DeviceCreate :: "'a io_env \<Rightarrow> ptr \<Rightarrow> 'a io_st_scheme \<Rightarrow> (NTSTATUS option \<times> 'a io_st_scheme) option" where
  "DeviceCreate e Irp s = do {
     (status, s) \<leftarrow> ValidatePciDevices (dv_pci e) s;
     s \<leftarrow> IofCompleteRequest Irp s;
     Some (map_option irp_Status (irps s Irp), s)
   }"

section \<open>The session check\<close>

lemma session_check: "SessionIsActive s = (is_session_active (session s), emit (Release SessionLock) (emit (Acquire SessionLock) s))"
  by (simp add: SessionIsActive_def with_session_lock_def)

lemma complete_request_eq:
  "irps s Irp = Some irp \<Longrightarrow> complete_request Irp status s = Some (status,
     emit (IrpCompleted Irp status (irp_Information irp))
       (s\<lparr>irps := (irps s)(Irp := None), completed := completed s @ [(Irp, irp\<lparr>irp_Status := status\<rparr>)]\<rparr>))"
  by (simp add: complete_request_def set_irp_def IofCompleteRequest_def)

lemma complete_request_status: "complete_request Irp st s = Some (status, s') \<Longrightarrow> status = st"
  by (auto simp: complete_request_def split: bind_splits)

lemma launch_not_insert: "IOCTL_NOTIFY_DRIVER_ON_PROCESS_LAUNCH \<noteq> IOCTL_INSERT_IRP_INTO_QUEUE"
  by (simp add: ioctl_defs)

text \<open>C2: the session check. Without an active session every request but the one that starts a session
  is refused whatever it asks for: it is completed with \<^verbatim>\<open>STATUS_ACCESS_DENIED\<close>, no handler runs, and
  apart from the completed request and the session lock, taken and released once, nothing of the
  driver's state changes.\<close>

theorem access_gate:
  assumes "irps s Irp = Some irp" "irp_Stack irp = Some io" "\<not> is_session_active (session s)"
    and "io_IoControlCode io \<noteq> IOCTL_NOTIFY_DRIVER_ON_PROCESS_LAUNCH"
  shows "DeviceControl e Irp s = Some (STATUS_ACCESS_DENIED,
     s\<lparr>k_trace := k_trace s @ [Acquire SessionLock, Release SessionLock, IrpCompleted Irp STATUS_ACCESS_DENIED (irp_Information irp)],
       irps := (irps s)(Irp := None), completed := completed s @ [(Irp, irp\<lparr>irp_Status := STATUS_ACCESS_DENIED\<rparr>)]\<rparr>)"
  using assms by (simp add: DeviceControl_def session_check complete_request_eq emit_def)

text \<open>One request with a control code, as the only one that the driver knows of.\<close>

definition example_request :: "u32 \<Rightarrow> u8 list \<Rightarrow> IRP" where
  "example_request code bs = \<lparr>irp_Stack = Some \<lparr>io_IoControlCode = code, io_InputBufferLength = of_nat (length bs),
     io_OutputBufferLength = of_nat (length bs)\<rparr>, irp_SystemBuffer = bs, irp_Status = 0, irp_Information = 0\<rparr>"

definition example_io_st :: "bool \<Rightarrow> IRP \<Rightarrow> SHARED_MAPPING \<Rightarrow> io_st" where
  "example_io_st active irp m = walk_st.extend ((example_walk_st [] Map.empty)\<lparr>session := (session example_drv_st)\<lparr>is_session_active := active\<rparr>,
     irps := [1 \<mapsto> irp], pool := [2 \<mapsto> [1, 2, 3]], irp_queue := [], irp_count := 0, deferred_reports := [], deferred_count := 0,
     completed := []\<rparr>) (io_st.fields m)"

lemma example_io_fields [simp]:
  "irps (example_io_st b irp m) = [1 \<mapsto> irp]" "pool (example_io_st b irp m) = [2 \<mapsto> [1, 2, 3]]" "irp_queue (example_io_st b irp m) = []"
  "irp_count (example_io_st b irp m) = 0" "deferred_reports (example_io_st b irp m) = []" "deferred_count (example_io_st b irp m) = 0"
  "completed (example_io_st b irp m) = []" "is_session_active (session (example_io_st b irp m)) = b" "shared_mapping (example_io_st b irp m) = m"
  "k_trace (example_io_st b irp m) = []" "irp_Stack (example_request code bs) = Some \<lparr>io_IoControlCode = code,
     io_InputBufferLength = of_nat (length bs), io_OutputBufferLength = of_nat (length bs)\<rparr>"
  by (simp_all add: example_io_st_def example_request_def walk_st.defs io_st.defs example_walk_st_def example_drv_defs)

theorem access_gate_witness:
  "\<forall>e. \<exists>s'. DeviceControl e 1 (example_io_st False (example_request IOCTL_RUN_NMI_CALLBACKS []) zero_mapping) = Some (STATUS_ACCESS_DENIED, s')
     \<and> k_trace s' = [Acquire SessionLock, Release SessionLock, IrpCompleted 1 STATUS_ACCESS_DENIED 0]"
proof
  fix e
  let ?irp = "example_request IOCTL_RUN_NMI_CALLBACKS []"
  have "IOCTL_RUN_NMI_CALLBACKS \<noteq> IOCTL_NOTIFY_DRIVER_ON_PROCESS_LAUNCH" by (simp add: ioctl_defs)
  with access_gate[of "example_io_st False ?irp zero_mapping" 1 ?irp _ e]
  show "\<exists>s'. DeviceControl e 1 (example_io_st False ?irp zero_mapping) = Some (STATUS_ACCESS_DENIED, s')
     \<and> k_trace s' = [Acquire SessionLock, Release SessionLock, IrpCompleted 1 STATUS_ACCESS_DENIED 0]"
    by (simp add: example_request_def)
qed

text \<open>The two ends of a request for the queue: it waits, or it is completed with the oldest deferred report.\<close>

definition request_waits :: "ptr \<Rightarrow> 'a irp_st_scheme \<Rightarrow> 'a irp_st_scheme \<Rightarrow> bool" where
  "request_waits Irp s s' \<longleftrightarrow> completed s' = completed s \<and> irps s' = irps s \<and> irp_queue s' = irp_queue s @ [Irp]"

definition request_served :: "ptr \<Rightarrow> 'a irp_st_scheme \<Rightarrow> 'a irp_st_scheme \<Rightarrow> bool" where
  "request_served Irp s s' \<longleftrightarrow> irps s' = (irps s)(Irp := None) \<and> irp_queue s' = irp_queue s
     \<and> (\<exists>r rep irp. deferred_reports s = r # deferred_reports s' \<and> deferred_mem s r = Some rep
          \<and> completed s' = completed s @ [(Irp, irp)] \<and> irp_Status irp = STATUS_SUCCESS \<and> irp_Information irp = ucast (dr_buffer_size rep)
          \<and> k_trace s' = k_trace s @ [Acquire DeferredReportsSpinLock, IrpCompleted Irp STATUS_SUCCESS (ucast (dr_buffer_size rep)),
               PoolFree (dr_buffer rep) REPORT_POOL_TAG, PoolFree r REPORT_POOL_TAG, Release DeferredReportsSpinLock])"

lemma ValidateIrpOutputBuffer_refuses:
  "ValidateIrpOutputBuffer Irp n s = Some (st, s') \<Longrightarrow> \<not> NT_SUCCESS st \<Longrightarrow> s' = s"
  by (auto simp: ValidateIrpOutputBuffer_def split: if_splits bind_splits option.splits)

lemma ValidateIrpOutputBuffer_writes:
  "ValidateIrpOutputBuffer Irp n s = Some (st, s') \<Longrightarrow> \<exists>f. s' = s\<lparr>irps := f\<rparr> \<and> (\<forall>p. p \<noteq> Irp \<longrightarrow> f p = irps s p)"
  by (auto simp: ValidateIrpOutputBuffer_def copy_to_system_buffer_def set_irp_def split: if_splits bind_splits option.splits
      intro: exI[of _ "irps s"])

lemma complete_deferred_fails:
  "IrpQueueCompleteDeferredReport r Irp s = Some (st, s') \<Longrightarrow> \<not> NT_SUCCESS st \<Longrightarrow> s' = s"
  by (auto simp: IrpQueueCompleteDeferredReport_def split: if_splits bind_splits dest: ValidateIrpOutputBuffer_refuses)

lemma complete_deferred_succeeds:
  assumes "IrpQueueCompleteDeferredReport r Irp s = Some (st, s')" "NT_SUCCESS st"
  shows "\<exists>rep irp. deferred_mem s r = Some rep \<and> irps s' = (irps s)(Irp := None) \<and> irp_queue s' = irp_queue s
     \<and> deferred_reports s' = deferred_reports s \<and> completed s' = completed s @ [(Irp, irp)]
     \<and> irp_Status irp = STATUS_SUCCESS \<and> irp_Information irp = ucast (dr_buffer_size rep)
     \<and> k_trace s' = k_trace s @ [IrpCompleted Irp STATUS_SUCCESS (ucast (dr_buffer_size rep)),
          PoolFree (dr_buffer rep) REPORT_POOL_TAG, PoolFree r REPORT_POOL_TAG]"
proof -
  from assms obtain rep st1 s1 where v: "deferred_mem s r = Some rep" "ValidateIrpOutputBuffer Irp (dr_buffer_size rep) s = Some (st1, s1)"
    and rest: "NT_SUCCESS st1" "(do {
        bytes \<leftarrow> read_buffer (dr_buffer rep) (unat (dr_buffer_size rep)) s1;
        s \<leftarrow> copy_to_system_buffer bytes Irp s1;
        s \<leftarrow> set_irp Irp (\<lambda>irp. irp\<lparr>irp_Status := STATUS_SUCCESS, irp_Information := ucast (dr_buffer_size rep)\<rparr>) s;
        s \<leftarrow> IofCompleteRequest Irp s;
        s \<leftarrow> IrpQueueFreeDeferredReport r s;
        Some (STATUS_SUCCESS, s)
      }) = Some (st, s')"
    by (auto simp: IrpQueueCompleteDeferredReport_def split: if_splits bind_splits)
  from ValidateIrpOutputBuffer_writes[OF v(2)] obtain f where f: "s1 = s\<lparr>irps := f\<rparr>" "\<forall>p. p \<noteq> Irp \<longrightarrow> f p = irps s p" by blast
  have "f(Irp := None) = (irps s)(Irp := None)" using f(2) by auto
  with rest(2) v(1) f(1) show ?thesis
    by (auto simp: copy_to_system_buffer_def set_irp_def IofCompleteRequest_def IrpQueueFreeDeferredReport_def free_buffer_def
        split: bind_splits if_splits)
qed

lemma insert_irp_cases:
  assumes "insert_irp_into_queue Irp s = Some (status, s')"
  shows "status = STATUS_PENDING \<and> request_waits Irp s s' \<or> status = STATUS_SUCCESS \<and> request_served Irp s s'"
proof -
  from assms obtain st t where q: "IrpQueueQueryPendingReports Irp s = Some (st, t)"
    "(status, s') = (if \<not> NT_SUCCESS st then (STATUS_PENDING, IoCsqInsertIrp Irp t) else (STATUS_SUCCESS, t))"
    by (auto simp: insert_irp_into_queue_def split: bind_splits)
  let ?s = "emit (Acquire DeferredReportsSpinLock) s"
  show ?thesis
  proof (cases "NT_SUCCESS st")
    case True
    with q(1) obtain r rs v where r: "deferred_reports s = r # rs" "IrpQueueCompleteDeferredReport r Irp (?s\<lparr>deferred_reports := rs\<rparr>) = Some (st, v)"
      "t = emit (Release DeferredReportsSpinLock) (v\<lparr>deferred_count := deferred_count v - 1\<rparr>)"
      by (auto simp: IrpQueueQueryPendingReports_def IrpQueueRemoveDeferredReport_def status_defs NT_SUCCESS_def Let_def
          split: if_splits bind_splits list.splits)
    from complete_deferred_succeeds[OF r(2) True] r(1,3) True q(2) show ?thesis
      by (auto simp: request_served_def emit_def)
  next
    case False
    with q(1) have "irps t = irps s" "completed t = completed s" "irp_queue t = irp_queue s"
      by (auto simp: IrpQueueQueryPendingReports_def IrpQueueRemoveDeferredReport_def IrpQueueFreeDeferredReport_def free_buffer_def Let_def
          split: if_splits bind_splits list.splits dest!: complete_deferred_fails)
    with False q(2) show ?thesis
      by (simp add: request_waits_def IoCsqInsertIrp_def IrpQueueInsert_def IrpQueueReleaseLock_def IrpQueueAcquireLock_def)
  qed
qed

text \<open>C7: every request that the driver returns from is either kept or answered with the status that is returned. A request
  for the queue, in an active session, is either kept pending, and then it stands at the end of the queue and nothing
  was completed, or it is answered with the oldest deferred report: then it was completed once, with success and the
  size of the report, before the report was freed and the lock released, and it is not queued. Any other request,
  whatever its handler does, is completed as the last act of \<^verbatim>\<open>DeviceControl\<close>: up to then the driver still owned it, and it
  is completed with the status that is returned, which is that of the handler or, without a session, access denied.\<close>

theorem request_completed_with_status:
  fixes s :: "'a io_st_scheme"
  assumes "DeviceControl e Irp s = Some (status, s')" "irps s Irp = Some irp" "irp_Stack irp = Some io"
  shows "if io_IoControlCode io = IOCTL_INSERT_IRP_INTO_QUEUE \<and> is_session_active (session s)
     then status = STATUS_PENDING \<and> request_waits Irp s s' \<or> status = STATUS_SUCCESS \<and> request_served Irp (locked SessionLock s) s'
     else \<exists>(t :: 'a io_st_scheme) irp'. (if is_session_active (session s) \<or> io_IoControlCode io = IOCTL_NOTIFY_DRIVER_ON_PROCESS_LAUNCH
            then handle_request e Irp (io_IoControlCode io) (locked SessionLock s) = Some (status, t)
            else status = STATUS_ACCESS_DENIED \<and> t = locked SessionLock s)
     \<and> irps t Irp = Some irp' \<and> irps s' = (irps t)(Irp := None)
     \<and> completed s' = completed t @ [(Irp, irp'\<lparr>irp_Status := status\<rparr>)]
     \<and> k_trace s' = k_trace t @ [IrpCompleted Irp status (irp_Information irp')]"
proof (cases "io_IoControlCode io = IOCTL_INSERT_IRP_INTO_QUEUE \<and> is_session_active (session s)")
  case True
  with assms have "insert_irp_into_queue Irp (locked SessionLock s) = Some (status, s')"
    by (auto simp: DeviceControl_def session_check)
  from insert_irp_cases[OF this] True show ?thesis by (simp add: request_waits_def)
next
  case False
  let ?run = "\<lambda>t. if is_session_active (session s) \<or> io_IoControlCode io = IOCTL_NOTIFY_DRIVER_ON_PROCESS_LAUNCH
            then handle_request e Irp (io_IoControlCode io) (locked SessionLock s) = Some (status, t)
            else status = STATUS_ACCESS_DENIED \<and> t = locked SessionLock s"
  have "\<exists>t. complete_request Irp status t = Some (status, s') \<and> ?run t"
  proof (cases "is_session_active (session s) \<or> io_IoControlCode io = IOCTL_NOTIFY_DRIVER_ON_PROCESS_LAUNCH")
    case True
    with assms False obtain a t where t: "handle_request e Irp (io_IoControlCode io) (locked SessionLock s) = Some (a, t)"
      "complete_request Irp a t = Some (status, s')"
      by (auto simp: DeviceControl_def session_check launch_not_insert launch_not_insert[symmetric] Let_def split: if_splits bind_splits)
    from complete_request_status[OF t(2)] t True show ?thesis by auto
  next
    case False
    with assms have "complete_request Irp STATUS_ACCESS_DENIED (locked SessionLock s) = Some (status, s')"
      by (auto simp: DeviceControl_def session_check Let_def)
    from complete_request_status[OF this] this False show ?thesis by auto
  qed
  then obtain t where t: "complete_request Irp status t = Some (status, s')" "?run t" by blast
  from t(1) obtain irp' where irp: "irps t Irp = Some irp'"
    by (auto simp: complete_request_def set_irp_def split: bind_splits)
  with t(1) have "s' = emit (IrpCompleted Irp status (irp_Information irp'))
       (t\<lparr>irps := (irps t)(Irp := None), completed := completed t @ [(Irp, irp'\<lparr>irp_Status := status\<rparr>)]\<rparr>)"
    by (simp add: complete_request_eq)
  with t(2) irp have "?run t \<and> irps t Irp = Some irp' \<and> irps s' = (irps t)(Irp := None)
     \<and> completed s' = completed t @ [(Irp, irp'\<lparr>irp_Status := status\<rparr>)] \<and> k_trace s' = k_trace t @ [IrpCompleted Irp status (irp_Information irp')]"
    by (simp add: emit_def)
  with False show ?thesis by auto
qed

text \<open>A code that the driver does not know is answered with an error.\<close>

theorem request_completed_with_status_witness:
  "\<forall>e. \<exists>s'. DeviceControl e 1 (example_io_st True (example_request 0 []) zero_mapping) = Some (STATUS_INVALID_PARAMETER, s')
     \<and> completed s' = [(1, (example_request 0 [])\<lparr>irp_Status := STATUS_INVALID_PARAMETER\<rparr>)]"
proof
  fix e :: "unit io_env"
  let ?s = "example_io_st True (example_request 0 []) zero_mapping"
  have call: "handle_request e 1 0 (locked SessionLock ?s) = Some (STATUS_INVALID_PARAMETER, locked SessionLock ?s)"
    by (simp add: handle_request_def ioctl_defs)
  then obtain s' where s': "DeviceControl e 1 ?s = Some (STATUS_INVALID_PARAMETER, s')"
    by (auto simp: DeviceControl_def session_check ioctl_defs complete_request_eq)
  from request_completed_with_status[OF this, of "example_request 0 []"] call
  show "\<exists>s'. DeviceControl e 1 ?s = Some (STATUS_INVALID_PARAMETER, s')
     \<and> completed s' = [(1, (example_request 0 [])\<lparr>irp_Status := STATUS_INVALID_PARAMETER\<rparr>)]"
    using s' by (auto simp: ioctl_defs status_defs)
qed

section \<open>Reports for the user-mode module\<close>

lemma insert_into_queue:
  assumes "deferred_count s = 0"
  shows "insert_irp_into_queue Irp s = Some (STATUS_PENDING, s\<lparr>
     k_trace := k_trace s @ [Acquire DeferredReportsSpinLock, Release DeferredReportsSpinLock,
        Acquire IrpQueueSpinLock, IrpMarkedPending Irp, Release IrpQueueSpinLock],
     irp_queue := irp_queue s @ [Irp], irp_count := irp_count s + 1\<rparr>)"
  using assms by (simp add: insert_irp_into_queue_def IrpQueueQueryPendingReports_def IrpQueueIsThereDeferredReport_def
      IoCsqInsertIrp_def IrpQueueInsert_def IrpQueueReleaseLock_def IrpQueueAcquireLock_def emit_def)

text \<open>A report reaches the module that waits for it. With an active session and no report waiting,
  a request for the queue is kept pending and not completed; once the requests queued before it are
  used up, the next report that fits is copied into it, and it is completed once, with success and the
  size of the report.\<close>

theorem report_reaches_waiting_request:
  assumes "csq_remove_by_callbacks f" "queue_inv s" "irp_queue s = []" "deferred_count s = 0" "is_session_active (session s)"
    and "irps s Irp = Some irp" "irp_Stack irp = Some io" "io_IoControlCode io = IOCTL_INSERT_IRP_INTO_QUEUE" "irp_takes s Irp n"
    and "pool s b = Some bs" "unat n \<le> length bs"
  shows "\<exists>t s'. DeviceControl e Irp s = Some (STATUS_PENDING, t) \<and> completed t = completed s \<and> irp_queue t = [Irp]
     \<and> IrpQueueCompleteIrp f alloc b n t = Some (STATUS_SUCCESS, s')
     \<and> completed s' = completed s @ [(Irp, delivered irp bs n)] \<and> irp_queue s' = [] \<and> irps s' = (irps s)(Irp := None)"
proof -
  let ?u = "emit (Release SessionLock) (emit (Acquire SessionLock) s)"
  obtain t where t: "insert_irp_into_queue Irp ?u = Some (STATUS_PENDING, t)" "completed t = completed s" "irp_queue t = [Irp]"
    "irp_count t = irp_count s + 1" "irps t = irps s" "pool t = pool s"
    using insert_into_queue[of ?u Irp] assms(3,4) by (auto simp: emit_def)
  have call: "DeviceControl e Irp s = Some (STATUS_PENDING, t)"
    using assms(5-8) t(1) by (simp add: DeviceControl_def session_check ioctl_defs)
  have "queue_inv t" "irp_takes t Irp n"
    using assms(2,3,6,9) t unat_eq_zero[of "irp_count s"] by (auto simp: queue_inv_def irp_takes_def)
  from IrpQueueCompleteIrp_delivers[OF assms(1) this(1) t(3) this(2), of b bs alloc] assms(6,10,11) t call
  show ?thesis by auto
qed

theorem report_reaches_waiting_request_witness:
  "\<forall>e. \<exists>t s'. DeviceControl e 1 (example_io_st True (example_request IOCTL_INSERT_IRP_INTO_QUEUE [0, 0, 0, 0]) zero_mapping) = Some (STATUS_PENDING, t)
     \<and> IrpQueueCompleteIrp example_csq (\<lambda>_. None) 2 3 t = Some (STATUS_SUCCESS, s')
     \<and> completed s' = [(1, delivered (example_request IOCTL_INSERT_IRP_INTO_QUEUE [0, 0, 0, 0]) [1, 2, 3] 3)]"
proof
  fix e
  let ?irp = "example_request IOCTL_INSERT_IRP_INTO_QUEUE [0, 0, 0, 0]"
  let ?s = "example_io_st True ?irp zero_mapping"
  have "queue_inv ?s" "irp_takes ?s 1 3"
    by (simp_all add: queue_inv_def irp_takes_def) (simp add: example_request_def)
  from report_reaches_waiting_request[OF example_csq_ok this(1) _ _ _ _ _ _ this(2), where b = 2 and bs = "[1, 2, 3]" and alloc = "\<lambda>_. None" and e = e]
  show "\<exists>t s'. DeviceControl e 1 ?s = Some (STATUS_PENDING, t) \<and> IrpQueueCompleteIrp example_csq (\<lambda>_. None) 2 3 t = Some (STATUS_SUCCESS, s')
     \<and> completed s' = [(1, delivered ?irp [1, 2, 3] 3)]"
    by fastforce
qed

section \<open>The life of the shared mapping\<close>

lemma mapping_fields [simp]:
  "shared_mapping (emit ev s) = shared_mapping s" "shared_mapping (set_mapping f s) = f (shared_mapping s)"
  "k_trace (set_mapping f s) = k_trace s" "session (set_mapping f s) = session s" "irps (set_mapping f s) = irps s"
  "completed (set_mapping f s) = completed s"
  by (simp_all add: emit_def set_mapping_def)

text \<open>The timer of the shared mapping does not keep its work item apart from its next tick or from
  the end of the mapping. The tick tests a counter that only the running work item raises, so two
  ticks before it starts queue the same work item twice; and closing the device in between frees the
  work item that is still queued, together with the page that it reads, so that the work routine
  faults when it runs at last.\<close>

theorem mapping_timer_races:
  assumes "mp_active (shared_mapping s)" "mp_work_item_status (shared_mapping s) = 0"
  shows "k_trace (SharedMappingDpcRoutine (SharedMappingDpcRoutine s))
       = k_trace s @ [WorkItemQueued (mp_work_item (shared_mapping s)), WorkItemQueued (mp_work_item (shared_mapping s))]
     \<and> (\<exists>t. SharedMappingTerminate (SharedMappingDpcRoutine s) = Some t
          \<and> k_trace t = k_trace s @ [WorkItemQueued (mp_work_item (shared_mapping s)), TimerCancelled REPEAT_TIME_15_SEC,
               WorkItemFreed (mp_work_item (shared_mapping s)), Call ''IoFreeMdl'' [mp_mdl (shared_mapping s)],
               PoolFree (mp_kernel_buffer (shared_mapping s)) POOL_TAG_INTEGRITY]
          \<and> shared_mapping t = zero_mapping \<and> SharedMappingWorkRoutine e t = None)"
  using assms
  by (simp add: SharedMappingDpcRoutine_def SharedMappingTerminate_def SharedMappingWorkRoutine_def Let_def zero_mapping_def)

definition example_mapping :: SHARED_MAPPING where
  "example_mapping = \<lparr>mp_work_item_status = 0, mp_user_buffer = 0x7000, mp_kernel_buffer = 0x8000, mp_mdl = 0x9000, mp_size = 0x1000,
     mp_active = True, mp_work_item = 0xA000\<rparr>"

theorem mapping_timer_races_witness:
  "\<forall>e. \<exists>t. SharedMappingTerminate (SharedMappingDpcRoutine (example_io_st True (example_request 0 []) example_mapping)) = Some t
     \<and> SharedMappingWorkRoutine e t = None"
proof
  fix e :: "unit io_env"
  show "\<exists>t. SharedMappingTerminate (SharedMappingDpcRoutine (example_io_st True (example_request 0 []) example_mapping)) = Some t
     \<and> SharedMappingWorkRoutine e t = None"
    using mapping_timer_races[of "example_io_st True (example_request 0 []) example_mapping" e] by (auto simp: example_mapping_def)
qed

text \<open>C37: closing the device ends the session. Unless a work item of the shared mapping is running, the
  routine returns with no session, no object callbacks registered and no shared mapping, it has
  completed the request once, and released every lock it took; but the status that it returns is read
  from the request after it was completed. While a work item runs it does not return.\<close>

theorem DeviceClose_ends_session:
  assumes "irps s Irp = Some irp"
  shows "if mp_active (shared_mapping s) \<and> mp_work_item_status (shared_mapping s) \<noteq> 0 then DeviceClose Irp s = None
     else \<exists>s'. DeviceClose Irp s = Some (None, s') \<and> \<not> is_session_active (session s') \<and> session_process (session s') = NULL
       \<and> registration_handle (session s') = NULL \<and> \<not> mp_active (shared_mapping s')
       \<and> completed s' = completed s @ [(Irp, irp)] \<and> irps s' = (irps s)(Irp := None)
       \<and> neutral {SessionLock, ConfigLock} s s'"
proof (cases "mp_active (shared_mapping s) \<and> mp_work_item_status (shared_mapping s) \<noteq> 0")
  case True
  then show ?thesis
    by (simp add: DeviceClose_def SharedMappingTerminate_def UnregisterProcessObCallbacks_def SessionTerminate_def with_session_lock_def Let_def)
next
  case False
  then show ?thesis
    using assms
    by (auto simp: DeviceClose_def SharedMappingTerminate_def UnregisterProcessObCallbacks_def SessionTerminate_def with_session_lock_def
        Let_def IofCompleteRequest_def zero_mapping_def intro!: neutral_balanced)
qed

theorem DeviceClose_ends_session_witness:
  "\<exists>s'. DeviceClose 1 (example_io_st True (example_request 0 []) example_mapping) = Some (None, s')
     \<and> \<not> is_session_active (session s') \<and> completed s' = [(1, example_request 0 [])]"
proof -
  let ?s = "example_io_st True (example_request 0 []) example_mapping"
  have "irps ?s 1 = Some (example_request 0 [])" "mp_work_item_status (shared_mapping ?s) = 0"
    by (simp_all add: example_mapping_def)
  with DeviceClose_ends_session[of ?s 1 "example_request 0 []"] show ?thesis by (auto simp: example_mapping_def)
qed

text \<open>Asking for an APC operation with less than four bytes of input reads past the buffer.\<close>

lemma apc_operation_reads_past_buffer:
  assumes "irps s Irp = Some irp" "irp_Stack irp = Some io" "io_IoControlCode io = IOCTL_INITIATE_APC_OPERATION"
    and "is_session_active (session s)" "length (irp_SystemBuffer irp) < 4"
  shows "DeviceControl e Irp s = None"
  using assms by (simp add: DeviceControl_def session_check ioctl_defs handle_request_def DispatchApcOperation_def)

text \<open>The answer to a request for hardware information has the size of the structure.\<close>

lemma pack_length_fields: "pack_length n (x # fs) = pack_length (n + (align_up (fst x) n - n) + length (snd x)) fs"
  by (cases x) simp

lemma length_system_information: "length (system_information_bytes i) = unat sizeof_SYSTEM_INFORMATION"
proof -
  have "length (os_information_bytes v) = 276" for v
    by (simp add: os_information_bytes_def pack_struct_def length_pack_from pack_length_fields align_up_def)
  then show ?thesis
    by (simp add: system_information_bytes_def pack_struct_def length_pack_from pack_length_fields align_up_def sizeof_SYSTEM_INFORMATION_def
        MOTHERBOARD_SERIAL_CODE_LENGTH_def DEVICE_DRIVE_0_SERIAL_CODE_LENGTH_def VENDOR_STRING_MAX_LENGTH_def)
qed

section \<open>The requests that start and end a session\<close>

text \<open>The request that starts a session, up to its completion.\<close>

lemma launch_request:
  assumes "Irp \<noteq> NULL" "irps s Irp = Some irp" "irp_Stack irp = Some io"
    and "io_IoControlCode io = IOCTL_NOTIFY_DRIVER_ON_PROCESS_LAUNCH" "io_InputBufferLength io = 32"
    and "info = read_packet (irp_SystemBuffer irp)" "dv_lookup e (pkt_protected_process_id info) = (st, p)" "NT_SUCCESS st"
  shows "\<exists>t. DeviceControl e Irp s = Some (fst (dv_register_ob e), t)
     \<and> session t = (session s)\<lparr>um_handle := pkt_protected_process_id info, km_handle := dv_process_id e p, session_process := p,
          is_session_active := True, session_cookie := pkt_session_cookie info, session_aes_key := pkt_session_aes_key info,
          registration_handle := if NT_SUCCESS (fst (dv_register_ob e)) then snd (dv_register_ob e) else registration_handle (session s)\<rparr>
     \<and> irps t = (irps s)(Irp := None) \<and> completed t = completed s @ [(Irp, irp\<lparr>irp_Status := fst (dv_register_ob e)\<rparr>)]"
  using assms
  by (simp add: DeviceControl_def session_check launch_not_insert handle_request_def ioctl_defs notify_process_launch_def
      SessionInitialise_def ValidateIrpInputBuffer_def sizeof_SESSION_INITIATION_PACKET_def SessionInitialise_locked_result
      RegisterProcessObCallbacks_def complete_request_eq Let_def)

text \<open>The request that ends it.\<close>

lemma termination_request:
  assumes "irps s Irp = Some irp" "irp_Stack irp = Some io"
    and "io_IoControlCode io = IOCTL_NOTIFY_DRIVER_ON_PROCESS_TERMINATION" "is_session_active (session s)"
  shows "\<exists>t. DeviceControl e Irp s = Some (STATUS_SUCCESS, t)
     \<and> session t = (session s)\<lparr>um_handle := 0, km_handle := 0, session_process := NULL, is_session_active := False,
          registration_handle := NULL\<rparr>
     \<and> irps t = (irps s)(Irp := None) \<and> completed t = completed s @ [(Irp, irp\<lparr>irp_Status := STATUS_SUCCESS\<rparr>)]"
  using assms
  by (simp add: DeviceControl_def session_check handle_request_def ioctl_defs UnregisterProcessObCallbacks_def
      SessionTerminate_def with_session_lock_def complete_request_eq Let_def)

end
