(* ===== verification/ReportChannel.thy ===== *)
theory ReportChannel
  imports IoControl "HOL-Library.Sublist"
begin

text \<open>
  What the queue of IRPs and the list of deferred reports in \<^verbatim>\<open>src/driver/io.c\<close> promise together: a channel that
  matches reports with requests, both first in first out. The channel is specified on its own, the two
  entry points \<^verbatim>\<open>IrpQueueCompleteIrp\<close> and the queue request of \<^verbatim>\<open>DeviceControl\<close> are shown to refine it when each
  runs alone, and what happens when their critical sections interleave is shown at the end.
\<close>

section \<open>The channel\<close>

record channel =
  ch_waiting :: "ptr list"
  ch_backlog :: "u8 list list"
  ch_sent :: "(ptr \<times> u8 list) list"

text \<open>A report goes to the request that waits longest, or is kept; with 101 reports kept it is dropped.\<close>

definition spec_report :: "u8 list \<Rightarrow> channel \<Rightarrow> channel" where
  "spec_report bs c = (case ch_waiting c of
     i # q \<Rightarrow> c\<lparr>ch_waiting := q, ch_sent := ch_sent c @ [(i, bs)]\<rparr>
   | [] \<Rightarrow> if length (ch_backlog c) \<le> 100 then c\<lparr>ch_backlog := ch_backlog c @ [bs]\<rparr> else c)"

text \<open>A request gets the report that was kept longest, or waits.\<close>

definition spec_request :: "ptr \<Rightarrow> channel \<Rightarrow> channel" where
  "spec_request i c = (case ch_backlog c of
     bs # bl \<Rightarrow> c\<lparr>ch_backlog := bl, ch_sent := ch_sent c @ [(i, bs)]\<rparr>
   | [] \<Rightarrow> c\<lparr>ch_waiting := ch_waiting c @ [i]\<rparr>)"

datatype channel_event = Reported "u8 list" | Requested ptr

primrec spec_event :: "channel_event \<Rightarrow> channel \<Rightarrow> channel" where
  "spec_event (Reported bs) = spec_report bs"
| "spec_event (Requested i) = spec_request i"

fun reports_of :: "channel_event list \<Rightarrow> u8 list list" where
  "reports_of [] = []"
| "reports_of (Reported bs # es) = bs # reports_of es"
| "reports_of (Requested _ # es) = reports_of es"

fun requests_of :: "channel_event list \<Rightarrow> ptr list" where
  "requests_of [] = []"
| "requests_of (Requested i # es) = i # requests_of es"
| "requests_of (Reported _ # es) = requests_of es"

lemma reports_of_append [simp]: "reports_of (xs @ ys) = reports_of xs @ reports_of ys"
  by (induction xs rule: reports_of.induct) auto

lemma requests_of_append [simp]: "requests_of (xs @ ys) = requests_of xs @ requests_of ys"
  by (induction xs rule: requests_of.induct) auto

definition empty_channel :: channel where "empty_channel = \<lparr>ch_waiting = [], ch_backlog = [], ch_sent = []\<rparr>"

text \<open>What the specification guarantees: nobody waits while a report is kept, and both sides are served in order.\<close>

lemma spec_fifo:
  assumes "c = fold spec_event es empty_channel"
  shows "(ch_waiting c = [] \<or> ch_backlog c = []) \<and> map fst (ch_sent c) @ ch_waiting c = requests_of es
     \<and> subseq (map snd (ch_sent c) @ ch_backlog c) (reports_of es)
     \<and> (length (reports_of es) \<le> 101 \<longrightarrow> map snd (ch_sent c) @ ch_backlog c = reports_of es)"
  using assms
proof (induction es arbitrary: c rule: rev_induct)
  case Nil
  then show ?case by (simp add: empty_channel_def)
next
  case (snoc e es)
  define d where "d = fold spec_event es empty_channel"
  note IH = snoc.IH[OF d_def]
  have c: "c = spec_event e d" using snoc.prems by (simp add: d_def)
  show ?case
  proof (cases e)
    case (Requested i)
    with c IH show ?thesis by (auto simp: spec_request_def split: list.splits)
  next
    case (Reported bs)
    have few: "length (ch_backlog d) \<le> 100" if "length (reports_of es) \<le> 100"
    proof -
      have "map snd (ch_sent d) @ ch_backlog d = reports_of es" using IH that by simp
      then have "length (ch_backlog d) \<le> length (reports_of es)" by (metis le_add2 length_append)
      with that show ?thesis by simp
    qed
    have more: "subseq (xs @ [bs]) (reports_of es @ [bs])" "subseq xs (reports_of es @ [bs])" if "subseq xs (reports_of es)" for xs
      using that by (auto intro: list_emb_append_mono list_emb_prefix)
    show ?thesis
    proof (cases "ch_waiting d")
      case Nil
      with c Reported IH few more[of "map snd (ch_sent d) @ ch_backlog d"] show ?thesis by (auto simp: spec_report_def)
    next
      case (Cons i q)
      with IH have "ch_backlog d = []" by auto
      with Cons c Reported IH more[of "map snd (ch_sent d)"] show ?thesis by (auto simp: spec_report_def)
    qed
  qed
qed

section \<open>The channel in the driver\<close>

definition report_content :: "'a irp_st_scheme \<Rightarrow> ptr \<Rightarrow> u8 list" where
  "report_content s p = (let r = the (deferred_mem s p) in take (unat (dr_buffer_size r)) (the (pool s (dr_buffer r))))"

definition received :: "ptr \<times> IRP \<Rightarrow> ptr \<times> u8 list" where
  "received x = (fst x, take (unat (irp_Information (snd x))) (irp_SystemBuffer (snd x)))"

definition channel_of :: "'a irp_st_scheme \<Rightarrow> channel" where
  "channel_of s = \<lparr>ch_waiting = irp_queue s, ch_backlog = map (report_content s) (deferred_reports s),
     ch_sent = map received (completed s)\<rparr>"

text \<open>Every request that waits can take \<open>N\<close> bytes, and no report that is kept is longer.\<close>

definition channel_ok :: "u32 \<Rightarrow> 'a irp_st_scheme \<Rightarrow> bool" where
  "channel_ok N s \<longleftrightarrow> queue_inv s \<and> deferred_inv s \<and> (\<forall>i \<in> set (irp_queue s). irp_takes s i N)
     \<and> (\<forall>p \<in> set (deferred_reports s). dr_buffer_size (the (deferred_mem s p)) \<noteq> 0 \<and> dr_buffer_size (the (deferred_mem s p)) \<le> N)"

lemma irp_takes_less: "irp_takes s i N \<Longrightarrow> n \<noteq> 0 \<Longrightarrow> n \<le> N \<Longrightarrow> irp_takes s i n"
  by (auto simp: irp_takes_def split: option.splits)

lemma received_delivered:
  assumes "unat n \<le> length bs"
  shows "received (i, delivered irp bs n) = (i, take (unat n) bs)"
proof -
  have "unat n < 2 ^ 64" using unsigned_less[of n, where 'a = nat] by simp
  then have "unat (ucast n :: u64) = unat n" by (simp add: unsigned_ucast_eq take_bit_nat_eq_self)
  with assms show ?thesis by (simp add: received_def delivered_def)
qed

text \<open>The reports that are kept do not notice changes of other memory.\<close>

lemma report_content_cong:
  assumes "deferred_mem s' p = deferred_mem s p" "pool s' (report_buffer s p) = pool s (report_buffer s p)"
  shows "report_content s' p = report_content s p"
  using assms by (simp add: report_content_def report_buffer_def Let_def)

lemma deferred_inv_keep:
  assumes "deferred_inv s" "deferred_reports s' = deferred_reports s" "deferred_count s' = deferred_count s"
    and "deferred_mem s' = deferred_mem s" "\<forall>p \<in> set (deferred_reports s). pool s' (report_buffer s p) = pool s (report_buffer s p)"
  shows "deferred_inv s'"
proof -
  have "report_buffer s' = report_buffer s" using assms(4) by (auto simp: report_buffer_def)
  moreover have "report_ok s' p" if "p \<in> set (deferred_reports s)" for p
  proof -
    have "report_ok s p" using assms(1) that by (simp add: deferred_inv_def)
    with assms(4,5) that show ?thesis by (cases "deferred_mem s p") (auto simp: report_ok_def report_buffer_def)
  qed
  ultimately show ?thesis using assms by (simp add: deferred_inv_def)
qed

text \<open>A call that leaves the list and the buffers of the reports that are kept alone leaves the backlog alone.\<close>

lemma backlog_keep:
  assumes "channel_ok N s" "deferred_reports s' = deferred_reports s" "deferred_count s' = deferred_count s"
    and "deferred_mem s' = deferred_mem s" "\<forall>p \<in> set (deferred_reports s). pool s' (report_buffer s p) = pool s (report_buffer s p)"
    and "queue_inv s'" "\<forall>i \<in> set (irp_queue s'). irp_takes s' i N"
  shows "channel_ok N s'" "ch_backlog (channel_of s') = ch_backlog (channel_of s)"
proof -
  have "deferred_inv s'" using deferred_inv_keep[OF _ assms(2-5)] assms(1) by (simp add: channel_ok_def)
  with assms show "channel_ok N s'" by (simp add: channel_ok_def)
  show "ch_backlog (channel_of s') = ch_backlog (channel_of s)"
    using assms(2,4,5) by (auto simp: channel_of_def intro: report_content_cong)
qed

lemma channel_eqI:
  "ch_waiting c = ch_waiting d \<Longrightarrow> ch_backlog c = ch_backlog d \<Longrightarrow> ch_sent c = ch_sent d \<Longrightarrow> c = (d :: channel)"
  by simp

lemma channel_of_simps [simp]:
  "ch_waiting (channel_of s) = irp_queue s" "ch_sent (channel_of s) = map received (completed s)"
  by (simp_all add: channel_of_def)

section \<open>Refinement\<close>

lemma report_served:
  assumes "csq_remove_by_callbacks f" "channel_ok N s" "irp_queue s = i # q" "pool s b = Some bs"
    and "b \<notin> report_buffer s ` set (deferred_reports s)" "n \<noteq> 0" "n \<le> N" "unat n \<le> length bs"
  shows "\<exists>s'. IrpQueueCompleteIrp f alloc b n s = Some (STATUS_SUCCESS, s') \<and> channel_ok N s'
     \<and> channel_of s' = spec_report (take (unat n) bs) (channel_of s)"
proof -
  have inv: "queue_inv s" and takes: "irp_takes s i n" and fresh: "i \<notin> set q"
    using assms(2,3,6,7) by (auto simp: channel_ok_def queue_inv_def intro: irp_takes_less)
  from IrpQueueCompleteIrp_delivers[OF assms(1) inv assms(3) takes assms(4,8), of alloc]
  obtain s' where s': "IrpQueueCompleteIrp f alloc b n s = Some (STATUS_SUCCESS, s')" "queue_inv s'" "irp_queue s' = q"
    "irps s' = (irps s)(i := None)" "pool s' = (pool s)(b := None)" "deferred_mem s' = deferred_mem s"
    "deferred_reports s' = deferred_reports s" "deferred_count s' = deferred_count s"
    "completed s' = completed s @ [(i, delivered (the (irps s i)) bs n)]"
    by blast
  have "pool s' (report_buffer s p) = pool s (report_buffer s p)" if "p \<in> set (deferred_reports s)" for p
    using assms(5) that s'(5) by auto
  moreover have "irp_takes s' j N" if "j \<in> set (irp_queue s')" for j
    using assms(2,3) that s'(3,4) fresh by (auto simp: channel_ok_def irp_takes_def)
  ultimately have "channel_ok N s'" "ch_backlog (channel_of s') = ch_backlog (channel_of s)"
    using backlog_keep[OF assms(2) s'(7,8,6) _ s'(2)] by blast+
  then show ?thesis
    using s' assms(3,8) by (auto simp: spec_report_def received_delivered intro!: channel_eqI)
qed

lemma report_kept:
  assumes "csq_remove_by_callbacks f" "channel_ok N s" "irp_queue s = []" "pool s b = Some bs"
    and "b \<notin> report_buffer s ` set (deferred_reports s)" "n \<noteq> 0" "n \<le> N" "unat n \<le> length bs"
    and "deferred_count s \<le> MAX_DEFERRED_REPORTS_COUNT" "alloc (k_allocs s) = Some r" "r \<notin> set (deferred_reports s)"
  shows "\<exists>s'. IrpQueueCompleteIrp f alloc b n s = Some (STATUS_SUCCESS, s') \<and> channel_ok N s'
     \<and> channel_of s' = spec_report (take (unat n) bs) (channel_of s)"
proof -
  have inv: "queue_inv s" "deferred_inv s" using assms(2) by (auto simp: channel_ok_def)
  obtain s' where s': "IrpQueueCompleteIrp f alloc b n s = Some (STATUS_SUCCESS, s')" "irps s' = irps s" "pool s' = pool s"
    "irp_queue s' = []" "irp_count s' = irp_count s" "deferred_reports s' = deferred_reports s @ [r]"
    "deferred_count s' = deferred_count s + 1" "deferred_mem s' = (deferred_mem s)(r \<mapsto> \<lparr>dr_buffer = b, dr_buffer_size = n\<rparr>)"
    "completed s' = completed s"
    using IrpQueueCompleteIrp_defers[OF assms(1) inv(1) assms(3,9), of alloc r b n] assms(10) by blast
  have "deferred_inv s'" using deferred_inv_push[OF inv(2) assms(9,11,5,4,8) s'(6,7,8,3)] .
  then have "channel_ok N s'" using assms(2,3,6,7,11) s' by (auto simp: channel_ok_def queue_inv_def)
  moreover have "report_content s' p = report_content s p" if "p \<in> set (deferred_reports s)" for p
    using assms(11) that s'(3,8) by (auto intro: report_content_cong)
  moreover have "length (deferred_reports s) \<le> 100"
    using inv(2) assms(9) by (simp add: deferred_inv_def MAX_DEFERRED_REPORTS_COUNT_def word_le_nat_alt)
  ultimately show ?thesis
    using s' assms(3,4) by (simp add: channel_of_def spec_report_def report_content_def)
qed

lemma report_dropped:
  assumes "csq_remove_by_callbacks f" "channel_ok N s" "irp_queue s = []" "pool s b = Some bs"
    and "b \<notin> report_buffer s ` set (deferred_reports s)" "\<not> deferred_count s \<le> MAX_DEFERRED_REPORTS_COUNT"
  shows "\<exists>s'. IrpQueueCompleteIrp f alloc b n s = Some (STATUS_SUCCESS, s') \<and> channel_ok N s'
     \<and> channel_of s' = spec_report (take (unat n) bs) (channel_of s)"
proof -
  have inv: "queue_inv s" "deferred_inv s" using assms(2) by (auto simp: channel_ok_def)
  have "b \<in> dom (pool s)" using assms(4) by auto
  moreover have "MAX_DEFERRED_REPORTS_COUNT < deferred_count s" using assms(6) by simp
  ultimately obtain s' where s': "IrpQueueCompleteIrp f alloc b n s = Some (STATUS_SUCCESS, s')" "irps s' = irps s"
    "pool s' = (pool s)(b := None)" "irp_queue s' = []" "irp_count s' = irp_count s" "deferred_reports s' = deferred_reports s"
    "deferred_count s' = deferred_count s" "deferred_mem s' = deferred_mem s" "completed s' = completed s"
    using csq_remove_empty[OF assms(1) inv(1) assms(3)] assms(3)
    by (auto simp: IrpQueueCompleteIrp_def IrpQueueDeferReport_def free_buffer_def IrpQueueAcquireLock_def IrpQueueReleaseLock_def)
  have "pool s' (report_buffer s p) = pool s (report_buffer s p)" if "p \<in> set (deferred_reports s)" for p
    using assms(5) that s'(3) by auto
  moreover have "queue_inv s'" using inv(1) assms(3) s' by (simp add: queue_inv_def)
  ultimately have "channel_ok N s'" "ch_backlog (channel_of s') = ch_backlog (channel_of s)"
    using backlog_keep[OF assms(2) s'(6,7,8)] s'(4) by simp_all
  moreover have "\<not> length (ch_backlog (channel_of s)) \<le> 100"
    using inv(2) assms(6) by (simp add: channel_of_def deferred_inv_def MAX_DEFERRED_REPORTS_COUNT_def word_le_nat_alt)
  ultimately show ?thesis
    using s' assms(3) by (auto simp: spec_report_def intro!: channel_eqI)
qed

lemma report_refines:
  assumes "csq_remove_by_callbacks f" "channel_ok N s" "pool s b = Some bs" "b \<notin> report_buffer s ` set (deferred_reports s)"
    and "n \<noteq> 0" "n \<le> N" "unat n \<le> length bs" "alloc (k_allocs s) = Some r" "r \<notin> set (deferred_reports s)"
  shows "\<exists>s'. IrpQueueCompleteIrp f alloc b n s = Some (STATUS_SUCCESS, s') \<and> channel_ok N s'
     \<and> channel_of s' = spec_report (take (unat n) bs) (channel_of s)"
proof (cases "irp_queue s")
  case Nil
  show ?thesis
    using report_kept[OF assms(1,2) Nil assms(3-7), of alloc r] report_dropped[OF assms(1,2) Nil assms(3,4), of alloc n] assms(8,9)
    by blast
next
  case (Cons i q)
  show ?thesis by (rule report_served[OF assms(1,2) Cons assms(3-7)])
qed

lemma request_served:
  assumes "channel_ok N s" "deferred_reports s = r # rs" "irp_takes s i N" "i \<notin> set (irp_queue s)"
  shows "\<exists>s'. insert_irp_into_queue i s = Some (STATUS_SUCCESS, s') \<and> channel_ok N s'
     \<and> channel_of s' = spec_request i (channel_of s)"
proof -
  have inv: "deferred_inv s" using assms(1) by (simp add: channel_ok_def)
  then obtain b n bs where rep: "deferred_mem s r = Some \<lparr>dr_buffer = b, dr_buffer_size = n\<rparr>" "pool s b = Some bs" "unat n \<le> length bs"
    using assms(2) by (auto simp: deferred_inv_def report_ok_def split: option.splits) (metis DEFERRED_REPORT.surjective old.unit.exhaust)
  have takes: "irp_takes s i n" using assms rep by (auto simp: channel_ok_def intro: irp_takes_less)
  obtain s' where s': "IrpQueueQueryPendingReports i s = Some (STATUS_SUCCESS, s')" "irps s' = (irps s)(i := None)"
    "pool s' = (pool s)(b := None)" "deferred_mem s' = (deferred_mem s)(r := None)" "deferred_reports s' = rs"
    "deferred_count s' = deferred_count s - 1" "irp_queue s' = irp_queue s" "irp_count s' = irp_count s"
    "completed s' = completed s @ [(i, delivered (the (irps s i)) bs n)]"
    using IrpQueueQueryPendingReports_delivers[OF inv assms(2) rep(1,2) takes] by blast
  have "deferred_inv s'" using deferred_inv_pop[OF inv assms(2) s'(5,6,4)] s'(3) rep(1) by (simp add: report_buffer_def)
  moreover have "report_content s' p = report_content s p" "p \<noteq> r" if "p \<in> set rs" for p
  proof -
    have "p \<noteq> r" "report_buffer s p \<noteq> report_buffer s r" using inv assms(2) that by (auto simp: deferred_inv_def rev_image_eqI)
    then show "report_content s' p = report_content s p" "p \<noteq> r"
      using s'(3,4) rep(1) by (auto intro!: report_content_cong simp: report_buffer_def)
  qed
  moreover have "irp_takes s' j N" if "j \<in> set (irp_queue s)" for j
    using assms(1,4) that s'(2) by (auto simp: channel_ok_def irp_takes_def)
  ultimately have "channel_ok N s'" "map (report_content s') rs = map (report_content s) rs"
    using assms(1,2,4) s' by (auto simp: channel_ok_def queue_inv_def)
  then show ?thesis
    using s' rep assms(2) by (simp add: insert_irp_into_queue_def channel_of_def spec_request_def received_delivered report_content_def)
qed

lemma request_waits:
  assumes "channel_ok N s" "deferred_reports s = []" "irp_takes s i N" "i \<notin> set (irp_queue s)" "length (irp_queue s) < 2 ^ 32 - 1"
  shows "\<exists>s'. insert_irp_into_queue i s = Some (STATUS_PENDING, s') \<and> channel_ok N s'
     \<and> channel_of s' = spec_request i (channel_of s)"
proof -
  have "deferred_count s = 0" using assms(1,2) by (simp add: channel_ok_def deferred_inv_def unat_eq_zero)
  from insert_into_queue[OF this, of i] obtain s' where s': "insert_irp_into_queue i s = Some (STATUS_PENDING, s')"
    "irp_queue s' = irp_queue s @ [i]" "irp_count s' = irp_count s + 1" "irps s' = irps s" "pool s' = pool s"
    "deferred_mem s' = deferred_mem s" "deferred_reports s' = deferred_reports s" "deferred_count s' = deferred_count s"
    "completed s' = completed s"
    by simp
  have "unat (irp_count s') = Suc (unat (irp_count s))"
    using assms(1,5) s'(3) by (simp add: channel_ok_def queue_inv_def unat_word_ariths)
  moreover obtain irp where "irps s i = Some irp" "i \<noteq> NULL" using assms(3) by (rule irp_takes_obtain)
  ultimately have "queue_inv s'" using assms(1,4) s'(2,4) by (auto simp: channel_ok_def queue_inv_def)
  moreover have "\<forall>j \<in> set (irp_queue s'). irp_takes s' j N"
    using assms(1,3) s'(2,4) by (auto simp: channel_ok_def irp_takes_def)
  ultimately have "channel_ok N s'" "ch_backlog (channel_of s') = ch_backlog (channel_of s)"
    using backlog_keep[OF assms(1) s'(7,8,6)] s'(5) by simp_all
  then show ?thesis
    using s' assms(2) by (auto simp: channel_of_def spec_request_def)
qed

lemma request_refines:
  assumes "channel_ok N s" "irp_takes s i N" "i \<notin> set (irp_queue s)" "length (irp_queue s) < 2 ^ 32 - 1"
  shows "\<exists>st s'. insert_irp_into_queue i s = Some (st, s') \<and> channel_ok N s' \<and> channel_of s' = spec_request i (channel_of s)"
  using request_served[OF assms(1) _ assms(2,3)] request_waits[OF assms(1) _ assms(2-4)] by (cases "deferred_reports s") blast+

text \<open>
  Runs of the channel. Before a report its sender allocates a buffer that is not in use, before a request the
  I/O manager hands over a request that is not queued; the bytes and the request are arbitrary otherwise.
\<close>

definition report_input :: "u32 \<Rightarrow> allocator \<Rightarrow> ptr \<Rightarrow> u8 list \<Rightarrow> u32 \<Rightarrow> 'a irp_st_scheme \<Rightarrow> bool" where
  "report_input N alloc b bs n s \<longleftrightarrow> b \<notin> report_buffer s ` set (deferred_reports s) \<and> n \<noteq> 0 \<and> n \<le> N \<and> unat n \<le> length bs
     \<and> (case alloc (k_allocs s) of None \<Rightarrow> False | Some r \<Rightarrow> r \<notin> set (deferred_reports s))"

definition request_input :: "u32 \<Rightarrow> ptr \<Rightarrow> 'a irp_st_scheme \<Rightarrow> bool" where
  "request_input N i s \<longleftrightarrow> irp_takes s i N \<and> i \<notin> set (irp_queue s) \<and> length (irp_queue s) < 2 ^ 32 - 1"

inductive channel_run :: "u32 \<Rightarrow> 'a irp_st_scheme csq_remove \<Rightarrow> 'a irp_st_scheme \<Rightarrow> channel_event list \<Rightarrow> 'a irp_st_scheme \<Rightarrow> bool"
  for N f s where
  start: "channel_run N f s [] s"
| report: "channel_run N f s es t \<Longrightarrow> report_input N alloc b bs n t
    \<Longrightarrow> IrpQueueCompleteIrp f alloc b n (t\<lparr>pool := (pool t)(b \<mapsto> bs)\<rparr>) = Some (st, u)
    \<Longrightarrow> channel_run N f s (es @ [Reported (take (unat n) bs)]) u"
| request: "channel_run N f s es t \<Longrightarrow> request_input N i (t\<lparr>irps := (irps t)(i \<mapsto> irp)\<rparr>)
    \<Longrightarrow> insert_irp_into_queue i (t\<lparr>irps := (irps t)(i \<mapsto> irp)\<rparr>) = Some (st, u)
    \<Longrightarrow> channel_run N f s (es @ [Requested i]) u"

lemma channel_ok_new_buffer:
  assumes "channel_ok N t" "b \<notin> report_buffer t ` set (deferred_reports t)"
  shows "channel_ok N (t\<lparr>pool := (pool t)(b \<mapsto> bs)\<rparr>)" "channel_of (t\<lparr>pool := (pool t)(b \<mapsto> bs)\<rparr>) = channel_of t"
proof -
  let ?t = "t\<lparr>pool := (pool t)(b \<mapsto> bs)\<rparr>"
  have "\<forall>p \<in> set (deferred_reports t). pool ?t (report_buffer t p) = pool t (report_buffer t p)" using assms(2) by auto
  moreover have "queue_inv ?t" "\<forall>i \<in> set (irp_queue ?t). irp_takes ?t i N"
    using assms(1) by (auto simp: channel_ok_def queue_inv_def irp_takes_def)
  ultimately have *: "channel_ok N ?t" "ch_backlog (channel_of ?t) = ch_backlog (channel_of t)"
    using backlog_keep[OF assms(1), of ?t] by simp_all
  then show "channel_ok N ?t" "channel_of ?t = channel_of t" by (auto intro: channel_eqI)
qed

lemma channel_ok_new_irp:
  assumes "channel_ok N t" "i \<notin> set (irp_queue t)"
  shows "channel_ok N (t\<lparr>irps := (irps t)(i \<mapsto> irp)\<rparr>)" "channel_of (t\<lparr>irps := (irps t)(i \<mapsto> irp)\<rparr>) = channel_of t"
proof -
  let ?t = "t\<lparr>irps := (irps t)(i \<mapsto> irp)\<rparr>"
  have "irp_takes ?t j N" if "j \<in> set (irp_queue t)" for j
    using assms that by (auto simp: channel_ok_def irp_takes_def)
  moreover have "queue_inv ?t" using assms by (auto simp: channel_ok_def queue_inv_def)
  ultimately have *: "channel_ok N ?t" "ch_backlog (channel_of ?t) = ch_backlog (channel_of t)"
    using backlog_keep[OF assms(1), of ?t] by simp_all
  then show "channel_ok N ?t" "channel_of ?t = channel_of t" by (auto intro: channel_eqI)
qed

lemma report_step:
  assumes "csq_remove_by_callbacks f" "channel_ok N t" "report_input N alloc b bs n t"
  shows "\<exists>u. IrpQueueCompleteIrp f alloc b n (t\<lparr>pool := (pool t)(b \<mapsto> bs)\<rparr>) = Some (STATUS_SUCCESS, u) \<and> channel_ok N u
     \<and> channel_of u = spec_report (take (unat n) bs) (channel_of t)"
proof -
  let ?t = "t\<lparr>pool := (pool t)(b \<mapsto> bs)\<rparr>"
  have b: "b \<notin> report_buffer t ` set (deferred_reports t)" using assms(3) by (simp add: report_input_def)
  then have b': "b \<notin> report_buffer ?t ` set (deferred_reports ?t)" by (simp add: report_buffer_def)
  obtain r where "alloc (k_allocs ?t) = Some r" "r \<notin> set (deferred_reports ?t)"
    using assms(3) by (auto simp: report_input_def split: option.splits)
  with report_refines[OF assms(1) channel_ok_new_buffer(1)[OF assms(2) b, of bs], of b bs n alloc r] b'
    channel_ok_new_buffer(2)[OF assms(2) b, of bs] assms(3)
  show ?thesis by (simp add: report_input_def)
qed

lemma request_step:
  assumes "channel_ok N t" "request_input N i (t\<lparr>irps := (irps t)(i \<mapsto> irp)\<rparr>)"
  shows "\<exists>st u. insert_irp_into_queue i (t\<lparr>irps := (irps t)(i \<mapsto> irp)\<rparr>) = Some (st, u) \<and> channel_ok N u
     \<and> channel_of u = spec_request i (channel_of t)"
proof -
  have "i \<notin> set (irp_queue t)" using assms(2) by (simp add: request_input_def)
  from request_refines[OF channel_ok_new_irp(1)[OF assms(1) this], of irp i] channel_ok_new_irp(2)[OF assms(1) this, of irp] assms(2)
  show ?thesis by (simp add: request_input_def)
qed

lemma channel_run_refines:
  assumes "channel_run N f s es t" "csq_remove_by_callbacks f" "channel_ok N s"
  shows "channel_ok N t \<and> channel_of t = fold spec_event es (channel_of s)"
  using assms(1)
proof (induction rule: channel_run.induct)
  case start
  with assms(3) show ?case by simp
next
  case (report es t alloc b bs n st u)
  with report_step[OF assms(2), of N t alloc b bs n] show ?case by auto
next
  case (request es t i irp st u)
  with request_step[of N t i irp] show ?case by auto
qed

section \<open>Properties\<close>

definition channel_empty :: "'a irp_st_scheme \<Rightarrow> bool" where
  "channel_empty s \<longleftrightarrow> irp_queue s = [] \<and> irp_count s = 0 \<and> deferred_reports s = [] \<and> deferred_count s = 0 \<and> completed s = []"

lemma channel_ok_empty: "channel_empty s \<Longrightarrow> channel_ok N s \<and> channel_of s = empty_channel"
  by (simp add: channel_empty_def channel_ok_def queue_inv_def deferred_inv_def channel_of_def empty_channel_def)

text \<open>C5: the IRP queue and the deferred reports implement a channel between the driver and the module that is first
  in first out on both sides. After any sequence of reports and queue requests, each run to its end, that starts with
  both lists empty, with requests of at least \<open>N\<close> bytes, reports of at most \<open>N\<close> bytes and memory for the deferred
  records, the state is the one the specification gives for the same events. So no request waits while a
  report is kept; the requests completed and those that wait are the requests made, in order; the reports the requests
  received and those kept are reports made, in order, and with at most 101 reports none is missing. The next report and the
  next request return again.\<close>

theorem report_channel_refines_fifo:
  assumes "csq_remove_by_callbacks f" "channel_empty s" "channel_run N f s es t"
  shows "channel_of t = fold spec_event es empty_channel
     \<and> (irp_queue t = [] \<or> deferred_reports t = [])
     \<and> map fst (completed t) @ irp_queue t = requests_of es
     \<and> subseq (map (snd \<circ> received) (completed t) @ map (report_content t) (deferred_reports t)) (reports_of es)
     \<and> (length (reports_of es) \<le> 101 \<longrightarrow>
          map (snd \<circ> received) (completed t) @ map (report_content t) (deferred_reports t) = reports_of es)
     \<and> (report_input N alloc b bs n t \<longrightarrow>
          (\<exists>u. IrpQueueCompleteIrp f alloc b n (t\<lparr>pool := (pool t)(b \<mapsto> bs)\<rparr>) = Some (STATUS_SUCCESS, u)))
     \<and> (request_input N i (t\<lparr>irps := (irps t)(i \<mapsto> irp)\<rparr>) \<longrightarrow>
          (\<exists>st u. insert_irp_into_queue i (t\<lparr>irps := (irps t)(i \<mapsto> irp)\<rparr>) = Some (st, u)))"
proof -
  have t: "channel_ok N t" "channel_of t = fold spec_event es empty_channel"
    using channel_run_refines[OF assms(3,1)] channel_ok_empty[OF assms(2)] by auto
  have *: "map fst (ch_sent (channel_of t)) = map fst (completed t)" by (simp add: received_def comp_def)
  show ?thesis
    using spec_fifo[OF t(2)] report_step[OF assms(1) t(1), of alloc b bs n] request_step[OF t(1), of i irp] t(2)
    by (auto simp: channel_of_def received_def comp_def)
qed

text \<open>A report that comes before the first request, and the request that collects it.\<close>

theorem report_channel_refines_fifo_witness:
  "\<exists>t. channel_run 4 example_csq (example_irp_st 4 [] []) [Reported [1, 2, 3], Requested 1] t
     \<and> irp_queue t = [] \<and> deferred_reports t = [] \<and> map received (completed t) = [(1, [1, 2, 3])]"
proof -
  let ?s = "example_irp_st 4 [] []" and ?al = "\<lambda>_. Some 9"
  have s: "channel_empty ?s" by (simp add: channel_empty_def example_irp_st_def)
  note ok = channel_ok_empty[OF s, of 4]
  have fits: "report_input 4 ?al 2 [1, 2, 3] 3 ?s" by (simp add: report_input_def example_irp_st_def)
  from report_step[OF example_csq_ok conjunct1[OF ok] this] ok obtain u where
    u: "IrpQueueCompleteIrp example_csq ?al 2 3 (?s\<lparr>pool := (pool ?s)(2 \<mapsto> [1, 2, 3])\<rparr>) = Some (STATUS_SUCCESS, u)"
      "channel_ok 4 u" "channel_of u = spec_report [1, 2, 3] empty_channel"
    by auto
  from channel_run.report[OF channel_run.start fits u(1)] have run: "channel_run 4 example_csq ?s [Reported [1, 2, 3]] u" by simp
  have q: "irp_queue u = []" using u(3) by (simp add: channel_of_def spec_report_def empty_channel_def)
  then have req: "request_input 4 1 (u\<lparr>irps := (irps u)(1 \<mapsto> example_irp 4)\<rparr>)"
    by (simp add: request_input_def irp_takes_def example_irp_def)
  from request_step[OF u(2) this] obtain st t where
    t: "insert_irp_into_queue 1 (u\<lparr>irps := (irps u)(1 \<mapsto> example_irp 4)\<rparr>) = Some (st, t)" by blast
  from channel_run.request[OF run req this] have run: "channel_run 4 example_csq ?s [Reported [1, 2, 3], Requested 1] t" by simp
  from report_channel_refines_fifo[OF example_csq_ok s this] have "channel_of t = fold spec_event [Reported [1, 2, 3], Requested 1] empty_channel"
    by blast
  with run show ?thesis
    by (auto simp: channel_of_def spec_report_def spec_request_def empty_channel_def)
qed

text \<open>C6: a report and a request that run at the same time miss each other. \<^verbatim>\<open>IrpQueueCompleteIrp\<close> looks for a request under the
  lock of the queue and keeps the report under the lock of the reports; the queue request looks for a report under the lock of the
  reports and enters the queue under its lock; nothing holds both locks. With both lists empty, the order look for a request, look
  for a report, keep the report, enter the queue leaves a report kept while a request waits, which the specification of the channel
  excludes, and the next report, \<open>b'\<close>, overtakes the one that was kept.\<close>

theorem report_and_request_miss_each_other:
  assumes "csq_remove_by_callbacks f" "channel_empty s" "pool s b = Some bs" "irp_takes s i n'" "alloc (k_allocs s) = Some r"
    and "pool s b' = Some bs'" "unat n' \<le> length bs'" "b \<noteq> b'"
  shows "\<exists>s1 s2 s3 u. f s = Some (NULL, s1)
     \<and> IrpQueueCompleteIrp f alloc b n s = map_option (Pair STATUS_SUCCESS) (IrpQueueDeferReport alloc b n s1)
     \<and> IrpQueueQueryPendingReports i s1 = Some (STATUS_UNSUCCESSFUL, s2)
     \<and> insert_irp_into_queue i s1 = Some (STATUS_PENDING, IoCsqInsertIrp i s2)
     \<and> IrpQueueDeferReport alloc b n s2 = Some s3
     \<and> irp_queue (IoCsqInsertIrp i s3) = [i] \<and> deferred_reports (IoCsqInsertIrp i s3) = [r]
     \<and> IrpQueueCompleteIrp f alloc b' n' (IoCsqInsertIrp i s3) = Some (STATUS_SUCCESS, u)
     \<and> map received (completed u) = [(i, take (unat n') bs')] \<and> map (report_content u) (deferred_reports u) = [take (unat n) bs]"
proof -
  let ?s1 = "locked IrpQueueSpinLock s" and ?s2 = "locked DeferredReportsSpinLock (locked IrpQueueSpinLock s)"
  have inv: "queue_inv s" and q: "irp_queue s = []" using assms(2) by (auto simp: channel_empty_def queue_inv_def)
  have f: "f s = Some (NULL, ?s1)"
    using csq_remove_empty[OF assms(1) inv q] by (simp add: IrpQueueReleaseLock_def IrpQueueAcquireLock_def)
  have query: "IrpQueueQueryPendingReports i ?s1 = Some (STATUS_UNSUCCESSFUL, ?s2)"
    using assms(2) by (simp add: IrpQueueQueryPendingReports_def IrpQueueIsThereDeferredReport_def channel_empty_def)
  obtain s3 where s3: "IrpQueueDeferReport alloc b n ?s2 = Some s3" "irp_queue s3 = []" "irp_count s3 = 0" "irps s3 = irps s"
    "pool s3 = pool s" "deferred_reports s3 = [r]" "completed s3 = []" "deferred_mem s3 r = Some \<lparr>dr_buffer = b, dr_buffer_size = n\<rparr>"
    using assms(2,5) by (auto simp: IrpQueueDeferReport_def IrpQueueAllocateDeferredReport_def ExAllocatePool2_def Let_def
        channel_empty_def MAX_DEFERRED_REPORTS_COUNT_def)
  let ?s4 = "IoCsqInsertIrp i s3"
  have s4: "irp_queue ?s4 = [i]" "irp_count ?s4 = 1" "irps ?s4 = irps s" "pool ?s4 = pool s" "deferred_reports ?s4 = [r]" "completed ?s4 = []"
    "deferred_mem ?s4 r = Some \<lparr>dr_buffer = b, dr_buffer_size = n\<rparr>"
    using s3 by (simp_all add: IoCsqInsertIrp_def IrpQueueInsert_def IrpQueueReleaseLock_def IrpQueueAcquireLock_def)
  have "queue_inv ?s4" "irp_takes ?s4 i n'" "pool ?s4 b' = Some bs'"
    using assms(4,6) s4 by (auto simp: queue_inv_def irp_takes_def split: option.splits)
  from IrpQueueCompleteIrp_delivers[OF assms(1) this(1) s4(1) this(2,3) assms(7), of alloc] obtain u where
    u: "IrpQueueCompleteIrp f alloc b' n' ?s4 = Some (STATUS_SUCCESS, u)" "deferred_reports u = [r]"
      "completed u = [(i, delivered (the (irps s i)) bs' n')]" "pool u b = Some bs" "deferred_mem u r = Some \<lparr>dr_buffer = b, dr_buffer_size = n\<rparr>"
    using s4 assms(3,8) by auto
  show ?thesis
    using f query s3(1) s4(1,5) u received_delivered[OF assms(7), of i]
    by (intro exI[of _ ?s1] exI[of _ ?s2] exI[of _ s3] exI[of _ u])
      (simp add: IrpQueueCompleteIrp_def insert_irp_into_queue_def report_content_def map_option_bind bind_map_option comp_def map_conv_bind_option)
qed

theorem report_and_request_miss_each_other_witness:
  "\<exists>s1 s2 s3 u. example_csq ((example_irp_st 4 [] [])\<lparr>pool := [2 \<mapsto> [1, 2, 3], 4 \<mapsto> [5, 6]]\<rparr>) = Some (NULL, s1)
     \<and> IrpQueueQueryPendingReports 1 s1 = Some (STATUS_UNSUCCESSFUL, s2)
     \<and> IrpQueueDeferReport (\<lambda>_. Some 9) 4 2 s2 = Some s3
     \<and> IrpQueueCompleteIrp example_csq (\<lambda>_. Some 9) 2 3 (IoCsqInsertIrp 1 s3) = Some (STATUS_SUCCESS, u)
     \<and> map received (completed u) = [(1, [1, 2, 3])] \<and> map (report_content u) (deferred_reports u) = [[5, 6]]"
proof -
  let ?s = "(example_irp_st 4 [] [])\<lparr>pool := [2 \<mapsto> [1, 2, 3], 4 \<mapsto> [5, 6]]\<rparr>"
  have "channel_empty ?s" "pool ?s 4 = Some [5, 6]" "irp_takes ?s 1 3" "pool ?s 2 = Some [1, 2, 3]"
    by (simp_all add: channel_empty_def example_irp_st_def irp_takes_def example_irp_def)
  with report_and_request_miss_each_other[OF example_csq_ok this(1-3), of "\<lambda>_. Some 9" 9 2 "[1, 2, 3]" 2] show ?thesis by fastforce
qed

end
