(* ===== verification/ReportPrinter.thy ===== *)
theory ReportPrinter
  imports Reports
begin

text \<open>
  How the user-mode module reads a report (\<^verbatim>\<open>src/module/helper.cpp\<close>, with the structures of
  \<^verbatim>\<open>src/module/kernel_interface/kernel_interface.h\<close>): the report code selects a structure, and its fields are
  printed. A line is a format and its arguments. \<open>None\<close> is undefined behaviour: a function that returns no
  value, or a string that runs past the buffer.
\<close>

section \<open>Report structures\<close>

datatype report_id = report_nmi_callback_failure | report_module_validation_failure | report_illegal_handle_operation
  | report_invalid_process_allocation | report_hidden_system_thread | report_illegal_attach_process | report_apc_stackwalk
  | report_dpc_stackwalk | report_data_table_routine | report_invalid_process_module

primrec report_id_value :: "report_id \<Rightarrow> u32" where
  "report_id_value report_nmi_callback_failure = 50"
| "report_id_value report_module_validation_failure = 60"
| "report_id_value report_illegal_handle_operation = 70"
| "report_id_value report_invalid_process_allocation = 80"
| "report_id_value report_hidden_system_thread = 90"
| "report_id_value report_illegal_attach_process = 100"
| "report_id_value report_apc_stackwalk = 110"
| "report_id_value report_dpc_stackwalk = 120"
| "report_id_value report_data_table_routine = 130"
| "report_id_value report_invalid_process_module = 140"

definition report_header_layout :: layout where "report_header_layout = [(''report_id'', 4, 4)]"

definition apc_stackwalk_report_layout :: layout where
  "apc_stackwalk_report_layout =
    [(''report_code'', 4, 4), (''kthread_address'', 8, 8), (''invalid_rip'', 8, 8), (''driver'', 500, 1)]"

definition dpc_stackwalk_report_layout :: layout where
  "dpc_stackwalk_report_layout =
    [(''report_code'', 4, 4), (''kthread_address'', 8, 8), (''invalid_rip'', 8, 8), (''driver'', 500, 1)]"

definition module_validation_failure_layout :: layout where
  "module_validation_failure_layout =
    [(''report_code'', 4, 4), (''report_type'', 4, 4), (''driver_base_address'', 8, 8), (''driver_size'', 8, 8), (''driver_name'', 128, 1)]"

definition data_table_routine_report_layout :: layout where
  "data_table_routine_report_layout =
    [(''report_code'', 4, 4), (''id'', 4, 4), (''address'', 8, 8), (''routine'', 256, 1)]"

definition nmi_callback_failure_layout :: layout where
  "nmi_callback_failure_layout =
    [(''report_code'', 4, 4), (''were_nmis_disabled'', 4, 4), (''kthread_address'', 8, 8), (''invalid_rip'', 8, 8)]"

definition invalid_process_allocation_report_layout :: layout where
  "invalid_process_allocation_report_layout = [(''report_code'', 4, 4), (''process'', 500, 1)]"

definition hidden_system_thread_report_layout :: layout where
  "hidden_system_thread_report_layout =
    [(''report_code'', 4, 4), (''found_in_kthreadlist'', 4, 4), (''found_in_pspcidtable'', 4, 4), (''thread_address'', 8, 8),
     (''thread_id'', 4, 4), (''thread'', 500, 1)]"

definition attach_process_report_layout :: layout where
  "attach_process_report_layout = [(''report_code'', 4, 4), (''thread_id'', 4, 4), (''thread_address'', 8, 8)]"

definition open_handle_failure_report_layout :: layout where
  "open_handle_failure_report_layout =
    [(''report_code'', 4, 4), (''is_kernel_handle'', 4, 4), (''process_id'', 4, 4), (''thread_id'', 4, 4), (''access'', 4, 4),
     (''process_name'', 64, 1)]"

definition process_module_validation_report_layout :: layout where
  "process_module_validation_report_layout =
    [(''report_code'', 4, 4), (''image_base'', 8, 8), (''image_size'', 4, 4), (''module_path'', 512, 2)]"

lemmas user_layouts = report_header_layout_def apc_stackwalk_report_layout_def dpc_stackwalk_report_layout_def
  module_validation_failure_layout_def data_table_routine_report_layout_def nmi_callback_failure_layout_def
  invalid_process_allocation_report_layout_def hidden_system_thread_report_layout_def attach_process_report_layout_def
  open_handle_failure_report_layout_def process_module_validation_report_layout_def

section \<open>Printing\<close>

datatype log_arg = Arg32 u32 | Arg64 u64 | ArgString "u8 list" | ArgWide "u8 list"

type_synonym log_line = "string \<times> log_arg list"

definition field32 :: "layout \<Rightarrow> string \<Rightarrow> u8 list \<Rightarrow> log_arg" where
  "field32 l f bs = Arg32 (of_nat (le_nat (take 4 (drop (offset_from 0 l f) bs))))"

definition field64 :: "layout \<Rightarrow> string \<Rightarrow> u8 list \<Rightarrow> log_arg" where
  "field64 l f bs = Arg64 (of_nat (le_nat (take 8 (drop (offset_from 0 l f) bs))))"

text \<open>A string goes up to the first zero, which \<^verbatim>\<open>printf\<close> looks for beyond the end of the array.\<close>

definition field_string :: "layout \<Rightarrow> string \<Rightarrow> u8 list \<Rightarrow> log_arg option" where
  "field_string l f bs = (let rest = drop (offset_from 0 l f) bs in
     if 0 \<in> set rest then Some (ArgString (takeWhile (\<lambda>c. c \<noteq> 0) rest)) else None)"

fun wide_string :: "u8 list \<Rightarrow> u8 list option" where
  "wide_string (a # b # rest) = (if a = 0 \<and> b = 0 then Some [] else map_option (\<lambda>s. a # b # s) (wide_string rest))"
| "wide_string _ = None"

definition field_wide :: "layout \<Rightarrow> string \<Rightarrow> u8 list \<Rightarrow> log_arg option" where
  "field_wide l f bs = map_option ArgWide (wide_string (drop (offset_from 0 l f) bs))"

definition get_report_id_from_buffer :: "u8 list \<Rightarrow> u32" where
  "get_report_id_from_buffer buffer = of_nat (le_nat (take 4 (drop (offset_from 0 report_header_layout ''report_id'') buffer)))"

text \<open>The switch has nine cases; for another code the function returns no value.\<close>

definition get_kernel_report_type :: "u8 list \<Rightarrow> report_id option" where
  "get_kernel_report_type buffer = (let i = get_report_id_from_buffer buffer in
     if i = report_id_value report_nmi_callback_failure then Some report_nmi_callback_failure
     else if i = report_id_value report_module_validation_failure then Some report_module_validation_failure
     else if i = report_id_value report_illegal_handle_operation then Some report_illegal_handle_operation
     else if i = report_id_value report_invalid_process_allocation then Some report_invalid_process_allocation
     else if i = report_id_value report_hidden_system_thread then Some report_hidden_system_thread
     else if i = report_id_value report_illegal_attach_process then Some report_illegal_attach_process
     else if i = report_id_value report_apc_stackwalk then Some report_apc_stackwalk
     else if i = report_id_value report_dpc_stackwalk then Some report_dpc_stackwalk
     else if i = report_id_value report_data_table_routine then Some report_data_table_routine
     else None)"

definition stars :: log_line where "stars = (''********************************'', [])"

primrec print_report :: "report_id \<Rightarrow> u8 list \<Rightarrow> log_line list option" where
  "print_report report_nmi_callback_failure bs = (let l = nmi_callback_failure_layout in
     Some [(''report type: nmi_callback_failure'', []), (''report code: %lx'', [field32 l ''report_code'' bs]),
       (''were_nmis_disabled: %lx'', [field32 l ''were_nmis_disabled'' bs]),
       (''kthread_address: %llx'', [field64 l ''kthread_address'' bs]), (''invalid_rip: %llx'', [field64 l ''invalid_rip'' bs]), stars])"
| "print_report report_invalid_process_allocation bs = (let l = invalid_process_allocation_report_layout in
     Some [(''report type: invalid_process_allocation_report'', []), (''report code: %d'', [field32 l ''report_code'' bs]), stars])"
| "print_report report_hidden_system_thread bs = (let l = hidden_system_thread_report_layout in
     Some [(''report type: hidden_system_thread_report'', []), (''report code: %lx'', [field32 l ''report_code'' bs]),
       (''found_in_kthreadlist: %lx'', [field32 l ''found_in_kthreadlist'' bs]),
       (''found_in_pspcidtable: %lx'', [field32 l ''found_in_pspcidtable'' bs]),
       (''thread_address: %llx'', [field64 l ''thread_address'' bs]), (''thread_id: %lx'', [field32 l ''thread_id'' bs]), stars])"
| "print_report report_illegal_attach_process bs = (let l = attach_process_report_layout in
     Some [(''report type: attach_process_report'', []), (''report code: %lx'', [field32 l ''report_code'' bs]),
       (''thread_id: %lx'', [field32 l ''thread_id'' bs]), (''thread_address: %llx'', [field64 l ''thread_address'' bs]), stars])"
| "print_report report_illegal_handle_operation bs = (let l = open_handle_failure_report_layout in do {
     name \<leftarrow> field_string l ''process_name'' bs;
     Some [(''report type: open_handle_failure_report'', []), (''report code: %lx'', [field32 l ''report_code'' bs]),
       (''is_kernel_handle: %lx'', [field32 l ''is_kernel_handle'' bs]), (''process_id: %lx'', [field32 l ''process_id'' bs]),
       (''thread_id: %lx'', [field32 l ''thread_id'' bs]), (''access: %lx'', [field32 l ''access'' bs]),
       (''process_name: %s'', [name]), stars] })"
| "print_report report_invalid_process_module bs = (let l = process_module_validation_report_layout in do {
     path \<leftarrow> field_wide l ''module_path'' bs;
     Some [(''report type: process_module_validation_report'', []), (''report code: %d'', [field32 l ''report_code'' bs]),
       (''image_base: %llx'', [field64 l ''image_base'' bs]), (''image_size: %u'', [field32 l ''image_size'' bs]),
       (''module_path: %ls'', [path]), stars] })"
| "print_report report_apc_stackwalk bs = (let l = apc_stackwalk_report_layout in
     Some [(''report type: apc_stackwalk_report'', []), (''report code: %d'', [field32 l ''report_code'' bs]),
       (''kthread_address: %llx'', [field64 l ''kthread_address'' bs]), (''invalid_rip: %llx'', [field64 l ''invalid_rip'' bs]), stars])"
| "print_report report_dpc_stackwalk bs = (let l = dpc_stackwalk_report_layout in
     Some [(''report type: dpc_stackwalk_report'', []), (''report code: %d'', [field32 l ''report_code'' bs]),
       (''kthread_address: %llx'', [field64 l ''kthread_address'' bs]), (''invalid_rip: %llx'', [field64 l ''invalid_rip'' bs]), stars])"
| "print_report report_data_table_routine bs = (let l = data_table_routine_report_layout in do {
     routine \<leftarrow> field_string l ''routine'' bs;
     Some [(''report type: data_table_routine_report'', []), (''report code: %d'', [field32 l ''report_code'' bs]),
       (''id: %d'', [field32 l ''id'' bs]), (''address: %llx'', [field64 l ''address'' bs]), (''routine: %s'', [routine]), stars] })"
| "print_report report_module_validation_failure bs = (let l = module_validation_failure_layout in do {
     name \<leftarrow> field_string l ''driver_name'' bs;
     Some [(''report type: module_validation_failure'', []), (''report code: %lx'', [field32 l ''report_code'' bs]),
       (''report type: %lx'', [field32 l ''report_type'' bs]), (''driver_base_address: %llx'', [field64 l ''driver_base_address'' bs]),
       (''driver_size: %llx'', [field64 l ''driver_size'' bs]), (''driver_name: %s'', [name]), stars] })"

definition print_kernel_report :: "u8 list \<Rightarrow> log_line list option" where
  "print_kernel_report buffer = do {
     t \<leftarrow> get_kernel_report_type buffer;
     print_report t buffer
   }"

section \<open>Reading back what the driver packs\<close>

text \<open>
  The report code that the driver gives each structure. A data table report has the code 0 of its zeroed
  memory: \<^verbatim>\<open>ReportDataTableInvalidRoutine\<close> stores the code in the field \<^verbatim>\<open>id\<close>.
\<close>

primrec coded :: "report \<Rightarrow> bool" where
  "coded (APC_STACKWALK_REPORT c _ _ _) \<longleftrightarrow> c = REPORT_APC_STACKWALK"
| "coded (DPC_STACKWALK_REPORT c _ _ _) \<longleftrightarrow> c = REPORT_DPC_STACKWALK"
| "coded (MODULE_VALIDATION_FAILURE c _ _ _ _) \<longleftrightarrow> c = REPORT_MODULE_VALIDATION_FAILURE"
| "coded (DATA_TABLE_ROUTINE_REPORT c _ _ _) \<longleftrightarrow> c = 0"
| "coded (NMI_CALLBACK_FAILURE c _ _ _) \<longleftrightarrow> c = REPORT_NMI_CALLBACK_FAILURE"
| "coded (INVALID_PROCESS_ALLOCATION_REPORT c _) \<longleftrightarrow> c = REPORT_INVALID_PROCESS_ALLOCATION"
| "coded (HIDDEN_SYSTEM_THREAD_REPORT c _ _ _ _ _) \<longleftrightarrow> c = REPORT_HIDDEN_SYSTEM_THREAD"
| "coded (ATTACH_PROCESS_REPORT c _ _) \<longleftrightarrow> c = REPORT_ILLEGAL_ATTACH_PROCESS"
| "coded (OPEN_HANDLE_FAILURE_REPORT c _ _ _ _ _) \<longleftrightarrow> c = REPORT_ILLEGAL_HANDLE_OPERATION"
| "coded (PROCESS_MODULE_VALIDATION_REPORT c _ _ _) \<longleftrightarrow> c = REPORT_INVALID_PROCESS_MODULE"

text \<open>The bytes of a character array.\<close>

definition char_bytes :: "nat \<Rightarrow> u8 list \<Rightarrow> u8 list" where "char_bytes n bs = take n (bs @ replicate n 0)"

text \<open>A string that is printed from an array of \<open>n\<close> characters with \<open>rest\<close> behind it in the buffer.\<close>

definition printed :: "nat \<Rightarrow> u8 list \<Rightarrow> u8 list \<Rightarrow> log_arg option" where
  "printed n bs rest = (if 0 \<in> set (char_bytes n bs) \<union> set rest
     then Some (ArgString (takeWhile (\<lambda>c. c \<noteq> 0) (char_bytes n bs @ rest))) else None)"

text \<open>
  What the module prints for a report with \<open>rest\<close> behind it in the buffer: the lines with the values of the
  fields. The copied memory of \<^verbatim>\<open>driver\<close>, \<^verbatim>\<open>process\<close> and \<^verbatim>\<open>thread\<close> is not printed.
\<close>

primrec report_lines :: "u8 list \<Rightarrow> report \<Rightarrow> log_line list option" where
  "report_lines rest (APC_STACKWALK_REPORT c k r _) = Some [(''report type: apc_stackwalk_report'', []), (''report code: %d'', [Arg32 c]),
     (''kthread_address: %llx'', [Arg64 k]), (''invalid_rip: %llx'', [Arg64 r]), stars]"
| "report_lines rest (DPC_STACKWALK_REPORT c k r _) = Some [(''report type: dpc_stackwalk_report'', []), (''report code: %d'', [Arg32 c]),
     (''kthread_address: %llx'', [Arg64 k]), (''invalid_rip: %llx'', [Arg64 r]), stars]"
| "report_lines rest (MODULE_VALIDATION_FAILURE c t b z n) = map_option (\<lambda>name. [(''report type: module_validation_failure'', []),
     (''report code: %lx'', [Arg32 c]), (''report type: %lx'', [Arg32 t]), (''driver_base_address: %llx'', [Arg64 b]),
     (''driver_size: %llx'', [Arg64 z]), (''driver_name: %s'', [name]), stars]) (printed 128 n rest)"
| "report_lines rest (DATA_TABLE_ROUTINE_REPORT _ _ _ _) = None"
| "report_lines rest (NMI_CALLBACK_FAILURE c n k r) = Some [(''report type: nmi_callback_failure'', []), (''report code: %lx'', [Arg32 c]),
     (''were_nmis_disabled: %lx'', [Arg32 n]), (''kthread_address: %llx'', [Arg64 k]), (''invalid_rip: %llx'', [Arg64 r]), stars]"
| "report_lines rest (INVALID_PROCESS_ALLOCATION_REPORT c _) = Some [(''report type: invalid_process_allocation_report'', []),
     (''report code: %d'', [Arg32 c]), stars]"
| "report_lines rest (HIDDEN_SYSTEM_THREAD_REPORT c f g a i _) = Some [(''report type: hidden_system_thread_report'', []),
     (''report code: %lx'', [Arg32 c]), (''found_in_kthreadlist: %lx'', [Arg32 f]), (''found_in_pspcidtable: %lx'', [Arg32 g]),
     (''thread_address: %llx'', [Arg64 a]), (''thread_id: %lx'', [Arg32 i]), stars]"
| "report_lines rest (ATTACH_PROCESS_REPORT c i a) = Some [(''report type: attach_process_report'', []), (''report code: %lx'', [Arg32 c]),
     (''thread_id: %lx'', [Arg32 i]), (''thread_address: %llx'', [Arg64 a]), stars]"
| "report_lines rest (OPEN_HANDLE_FAILURE_REPORT c k p t a n) = map_option (\<lambda>name. [(''report type: open_handle_failure_report'', []),
     (''report code: %lx'', [Arg32 c]), (''is_kernel_handle: %lx'', [Arg32 k]), (''process_id: %lx'', [Arg32 p]),
     (''thread_id: %lx'', [Arg32 t]), (''access: %lx'', [Arg32 a]), (''process_name: %s'', [name]), stars]) (printed 64 n rest)"
| "report_lines rest (PROCESS_MODULE_VALIDATION_REPORT _ _ _ _) = None"

lemma le_bytes_read [simp]:
  "of_nat (le_nat (le_bytes 4 (unat v))) = (v :: u32)" "of_nat (le_nat (le_bytes 8 (unat w))) = (w :: u64)"
  using unsigned_less[of v, where 'a = nat] unsigned_less[of w, where 'a = nat] by (simp_all add: le_nat_le_bytes)

lemma chars_eq: "chars n bs = (1, char_bytes n bs)" by (simp add: chars_def char_bytes_def)
lemma wchars_eq: "wchars n bs = (2, char_bytes (2 * n) bs)" by (simp add: wchars_def char_bytes_def)
lemma length_char_bytes [simp]: "length (char_bytes n bs) = n" by (simp add: char_bytes_def)

lemma user_offsets:
  "offset_from 0 report_header_layout ''report_id'' = 0"
  "offset_from 0 apc_stackwalk_report_layout ''report_code'' = 0" "offset_from 0 apc_stackwalk_report_layout ''kthread_address'' = 8"
  "offset_from 0 apc_stackwalk_report_layout ''invalid_rip'' = 16"
  "offset_from 0 module_validation_failure_layout ''report_code'' = 0" "offset_from 0 module_validation_failure_layout ''report_type'' = 4"
  "offset_from 0 module_validation_failure_layout ''driver_base_address'' = 8" "offset_from 0 module_validation_failure_layout ''driver_size'' = 16"
  "offset_from 0 module_validation_failure_layout ''driver_name'' = 24"
  "offset_from 0 data_table_routine_report_layout ''report_code'' = 0" "offset_from 0 data_table_routine_report_layout ''id'' = 4"
  "offset_from 0 data_table_routine_report_layout ''address'' = 8" "offset_from 0 data_table_routine_report_layout ''routine'' = 16"
  "offset_from 0 nmi_callback_failure_layout ''report_code'' = 0" "offset_from 0 nmi_callback_failure_layout ''were_nmis_disabled'' = 4"
  "offset_from 0 nmi_callback_failure_layout ''kthread_address'' = 8" "offset_from 0 nmi_callback_failure_layout ''invalid_rip'' = 16"
  "offset_from 0 invalid_process_allocation_report_layout ''report_code'' = 0"
  "offset_from 0 hidden_system_thread_report_layout ''report_code'' = 0"
  "offset_from 0 hidden_system_thread_report_layout ''found_in_kthreadlist'' = 4"
  "offset_from 0 hidden_system_thread_report_layout ''found_in_pspcidtable'' = 8"
  "offset_from 0 hidden_system_thread_report_layout ''thread_address'' = 16" "offset_from 0 hidden_system_thread_report_layout ''thread_id'' = 24"
  "offset_from 0 attach_process_report_layout ''report_code'' = 0" "offset_from 0 attach_process_report_layout ''thread_id'' = 4"
  "offset_from 0 attach_process_report_layout ''thread_address'' = 8"
  "offset_from 0 open_handle_failure_report_layout ''report_code'' = 0" "offset_from 0 open_handle_failure_report_layout ''is_kernel_handle'' = 4"
  "offset_from 0 open_handle_failure_report_layout ''process_id'' = 8" "offset_from 0 open_handle_failure_report_layout ''thread_id'' = 12"
  "offset_from 0 open_handle_failure_report_layout ''access'' = 16" "offset_from 0 open_handle_failure_report_layout ''process_name'' = 20"
  "offset_from 0 dpc_stackwalk_report_layout ''report_code'' = 0" "offset_from 0 dpc_stackwalk_report_layout ''kthread_address'' = 8"
  "offset_from 0 dpc_stackwalk_report_layout ''invalid_rip'' = 16"
  by (simp_all add: user_layouts align_up_def)

lemma report_bytes_eq:
  "report_bytes (APC_STACKWALK_REPORT c k r d) =
     le_bytes 4 (unat c) @ replicate 4 0 @ le_bytes 8 (unat k) @ le_bytes 8 (unat r) @ char_bytes 500 d @ replicate 4 0"
  "report_bytes (DPC_STACKWALK_REPORT c k r d) =
     le_bytes 4 (unat c) @ replicate 4 0 @ le_bytes 8 (unat k) @ le_bytes 8 (unat r) @ char_bytes 500 d @ replicate 4 0"
  "report_bytes (MODULE_VALIDATION_FAILURE c t b z n) =
     le_bytes 4 (unat c) @ le_bytes 4 (unat t) @ le_bytes 8 (unat b) @ le_bytes 8 (unat z) @ char_bytes 128 n"
  "report_bytes (DATA_TABLE_ROUTINE_REPORT c t a n) =
     le_bytes 4 (unat c) @ le_bytes 4 (unat t) @ le_bytes 8 (unat a) @ char_bytes 256 n"
  "report_bytes (NMI_CALLBACK_FAILURE c t k r) = le_bytes 4 (unat c) @ le_bytes 4 (unat t) @ le_bytes 8 (unat k) @ le_bytes 8 (unat r)"
  "report_bytes (INVALID_PROCESS_ALLOCATION_REPORT c p) = le_bytes 4 (unat c) @ char_bytes 500 p"
  "report_bytes (HIDDEN_SYSTEM_THREAD_REPORT c f g a i n) = le_bytes 4 (unat c) @ le_bytes 4 (unat f) @ le_bytes 4 (unat g)
     @ replicate 4 0 @ le_bytes 8 (unat a) @ le_bytes 4 (unat i) @ char_bytes 500 n"
  "report_bytes (ATTACH_PROCESS_REPORT c i a) = le_bytes 4 (unat c) @ le_bytes 4 (unat i) @ le_bytes 8 (unat a)"
  "report_bytes (OPEN_HANDLE_FAILURE_REPORT c f i t g n) = le_bytes 4 (unat c) @ le_bytes 4 (unat f) @ le_bytes 4 (unat i)
     @ le_bytes 4 (unat t) @ le_bytes 4 (unat g) @ char_bytes 64 n"
  by (simp_all add: report_bytes_def pack_struct_def pad_to_def align_up_def int32_def int64_def chars_eq)

lemma report_id_of_bytes: "get_report_id_from_buffer (report_bytes r @ rest) = report_code r"
proof -
  obtain fs where "report_fields r = int32 (report_code r) # fs" by (cases r) simp_all
  then have "take 4 (report_bytes r) = le_bytes 4 (unat (report_code r))"
    by (simp add: report_bytes_def int32_def pack_struct_first)
  moreover have "4 \<le> length (report_bytes r)" by (cases r) (simp_all add: length_report_bytes)
  ultimately show ?thesis by (simp add: get_report_id_from_buffer_def user_offsets)
qed

text \<open>The structure that the module should select.\<close>

primrec report_type_of :: "report \<Rightarrow> report_id" where
  "report_type_of (APC_STACKWALK_REPORT _ _ _ _) = report_apc_stackwalk"
| "report_type_of (DPC_STACKWALK_REPORT _ _ _ _) = report_dpc_stackwalk"
| "report_type_of (MODULE_VALIDATION_FAILURE _ _ _ _ _) = report_module_validation_failure"
| "report_type_of (DATA_TABLE_ROUTINE_REPORT _ _ _ _) = report_data_table_routine"
| "report_type_of (NMI_CALLBACK_FAILURE _ _ _ _) = report_nmi_callback_failure"
| "report_type_of (INVALID_PROCESS_ALLOCATION_REPORT _ _) = report_invalid_process_allocation"
| "report_type_of (HIDDEN_SYSTEM_THREAD_REPORT _ _ _ _ _ _) = report_hidden_system_thread"
| "report_type_of (ATTACH_PROCESS_REPORT _ _ _) = report_illegal_attach_process"
| "report_type_of (OPEN_HANDLE_FAILURE_REPORT _ _ _ _ _ _) = report_illegal_handle_operation"
| "report_type_of (PROCESS_MODULE_VALIDATION_REPORT _ _ _ _) = report_invalid_process_module"

lemma report_type_of_bytes:
  assumes "coded r"
  shows "get_kernel_report_type (report_bytes r @ rest) =
     (if report_type_of r \<in> {report_invalid_process_module, report_data_table_routine} then None else Some (report_type_of r))"
  using assms by (cases r) (simp_all add: get_kernel_report_type_def report_id_of_bytes report_codes)

lemma print_report_fields:
  assumes "report_type_of r \<notin> {report_invalid_process_module, report_data_table_routine}"
  shows "print_report (report_type_of r) (report_bytes r @ rest) = report_lines rest r"
  using assms
  by (cases r) (simp_all add: report_bytes_eq user_offsets field32_def field64_def field_string_def printed_def Let_def)

lemma print_report_bytes:
  assumes "coded r"
  shows "print_kernel_report (report_bytes r @ rest) = report_lines rest r"
proof (cases "report_type_of r \<in> {report_invalid_process_module, report_data_table_routine}")
  case True
  then show ?thesis using assms by (cases r) (simp_all add: print_kernel_report_def report_type_of_bytes)
next
  case False
  with print_report_fields[OF this] assms show ?thesis by (simp add: print_kernel_report_def report_type_of_bytes)
qed

text \<open>C8: reports are read as they were written. For every report with the code that the driver gives it, whatever stands
  behind it in the buffer, the user-mode module selects the structure of the same name, and every line that it prints
  has the value the driver gave the field; a name ends at its first zero, which is looked for behind its array too. The
  copied memory of a report is not printed. Two kinds of report are not printed at all, because the selection returns no
  value for their code, which is undefined behaviour: the report on a process module, whose code it does not know,
  and the report on a data table, which the driver sends with the code 0.\<close>

theorem reports_printed_as_sent:
  assumes "coded r"
  shows "print_kernel_report (report_bytes r @ rest) = report_lines rest r"
  using assms by (rule print_report_bytes)

theorem reports_printed_as_sent_witness:
  "print_kernel_report (report_bytes (OPEN_HANDLE_FAILURE_REPORT 70 0 4 8 0x10 [99, 104, 0, 7]) @ replicate 916 0) =
     Some [(''report type: open_handle_failure_report'', []), (''report code: %lx'', [Arg32 70]), (''is_kernel_handle: %lx'', [Arg32 0]),
       (''process_id: %lx'', [Arg32 4]), (''thread_id: %lx'', [Arg32 8]), (''access: %lx'', [Arg32 0x10]),
       (''process_name: %s'', [ArgString [99, 104]]), stars]
   \<and> print_kernel_report (report_bytes (DATA_TABLE_ROUTINE_REPORT 0 130 0x1000 []) @ replicate 728 0) = None"
  using reports_printed_as_sent[of "OPEN_HANDLE_FAILURE_REPORT 70 0 4 8 0x10 [99, 104, 0, 7]" "replicate 916 0"]
    reports_printed_as_sent[of "DATA_TABLE_ROUTINE_REPORT 0 130 0x1000 []" "replicate 728 0"]
  by (simp add: report_codes printed_def char_bytes_def)

text \<open>The reports that are printed whatever the rest of the buffer holds: their names end within the array.\<close>

primrec printable :: "report \<Rightarrow> bool" where
  "printable (APC_STACKWALK_REPORT c _ _ _) \<longleftrightarrow> c = REPORT_APC_STACKWALK"
| "printable (DPC_STACKWALK_REPORT c _ _ _) \<longleftrightarrow> c = REPORT_DPC_STACKWALK"
| "printable (MODULE_VALIDATION_FAILURE c _ _ _ n) \<longleftrightarrow> c = REPORT_MODULE_VALIDATION_FAILURE \<and> 0 \<in> set (char_bytes 128 n)"
| "printable (DATA_TABLE_ROUTINE_REPORT _ _ _ _) \<longleftrightarrow> False"
| "printable (NMI_CALLBACK_FAILURE c _ _ _) \<longleftrightarrow> c = REPORT_NMI_CALLBACK_FAILURE"
| "printable (INVALID_PROCESS_ALLOCATION_REPORT c _) \<longleftrightarrow> c = REPORT_INVALID_PROCESS_ALLOCATION"
| "printable (HIDDEN_SYSTEM_THREAD_REPORT c _ _ _ _ _) \<longleftrightarrow> c = REPORT_HIDDEN_SYSTEM_THREAD"
| "printable (ATTACH_PROCESS_REPORT c _ _) \<longleftrightarrow> c = REPORT_ILLEGAL_ATTACH_PROCESS"
| "printable (OPEN_HANDLE_FAILURE_REPORT c _ _ _ _ n) \<longleftrightarrow> c = REPORT_ILLEGAL_HANDLE_OPERATION \<and> 0 \<in> set (char_bytes 64 n)"
| "printable (PROCESS_MODULE_VALIDATION_REPORT _ _ _ _) \<longleftrightarrow> False"

lemma printable_lines:
  assumes "printable r"
  shows "coded r \<and> report_lines rest r = report_lines [] r \<and> report_lines [] r \<noteq> None"
proof -
  have "printed n bs rest = printed n bs [] \<and> printed n bs [] \<noteq> None" if "0 \<in> set (char_bytes n bs)" for n bs
    using that takeWhile_append1[of 0 "char_bytes n bs" "\<lambda>c. c \<noteq> 0" rest] by (simp add: printed_def)
  with assms show ?thesis by (cases r) auto
qed

lemma not_printed:
  "coded r \<Longrightarrow> report_type_of r \<in> {report_invalid_process_module, report_data_table_routine} \<Longrightarrow> report_lines rest r = None"
  by (cases r) simp_all

end
