(* ===== verification/KernelInterface.thy ===== *)
theory KernelInterface
  imports IoControl ReportPrinter
begin

text \<open>
  The interface of the user-mode module to the driver (\<^verbatim>\<open>src/module/kernel_interface/kernel_interface.cpp\<close>): the control
  codes, the requests that are kept pending for reports with their event objects, and the completion port.
  Windows is the record \<open>os_env\<close>: in particular \<open>os_DeviceIoControl\<close> takes the control code, the input bytes, the size of
  the output buffer, the overlapped structure (null for a call that waits) and the state of the system, and
  gives the result, the output bytes and the new state. The state of the system has the type \<open>'w\<close>; the theory
  \<open>UserModule\<close> takes the driver for it. \<open>None\<close> is a read or write through an invalid pointer.
\<close>

section \<open>Control codes\<close>

definition RunNmiCallbacks :: u32 where "RunNmiCallbacks = CTL_CODE 0x20001"
definition ValidateDriverObjectsCode :: u32 where "ValidateDriverObjectsCode = CTL_CODE 0x20002"
definition NotifyDriverOnProcessLaunch :: u32 where "NotifyDriverOnProcessLaunch = CTL_CODE 0x20004"
definition QueryForApcCompletion :: u32 where "QueryForApcCompletion = CTL_CODE 0x20005"
definition PerformVirtualisationCheck :: u32 where "PerformVirtualisationCheck = CTL_CODE 0x20006"
definition EnumerateHandleTablesCode :: u32 where "EnumerateHandleTablesCode = CTL_CODE 0x20007"
definition NotifyDriverOnProcessTermination :: u32 where "NotifyDriverOnProcessTermination = CTL_CODE 0x20010"
definition ScanForUnlinkedProcesses :: u32 where "ScanForUnlinkedProcesses = CTL_CODE 0x20011"
definition PerformModuleIntegrityCheck :: u32 where "PerformModuleIntegrityCheck = CTL_CODE 0x20013"
definition ScanFroAttachedThreads :: u32 where "ScanFroAttachedThreads = CTL_CODE 0x20014"
definition ValidateProcessLoadedModuleCode :: u32 where "ValidateProcessLoadedModuleCode = CTL_CODE 0x20015"
definition RequestHardwareInformation :: u32 where "RequestHardwareInformation = CTL_CODE 0x20016"
definition InitiateApcStackwalkOperation :: u32 where "InitiateApcStackwalkOperation = CTL_CODE 0x20017"
definition ScanForEptHooks :: u32 where "ScanForEptHooks = CTL_CODE 0x20018"
definition InitiateDpcStackwalk :: u32 where "InitiateDpcStackwalk = CTL_CODE 0x20019"
definition ValidateSystemModules :: u32 where "ValidateSystemModules = CTL_CODE 0x20020"
definition InsertIrpIntoIrpQueue :: u32 where "InsertIrpIntoIrpQueue = CTL_CODE 0x20021"
definition QueryDeferredReports :: u32 where "QueryDeferredReports = CTL_CODE 0x20022"
definition InitiateSharedMapping :: u32 where "InitiateSharedMapping = CTL_CODE 0x20023"
definition ValidatePciDevicesCode :: u32 where "ValidatePciDevicesCode = CTL_CODE 0x20024"

lemmas user_codes = RunNmiCallbacks_def ValidateDriverObjectsCode_def NotifyDriverOnProcessLaunch_def QueryForApcCompletion_def
  PerformVirtualisationCheck_def EnumerateHandleTablesCode_def NotifyDriverOnProcessTermination_def ScanForUnlinkedProcesses_def
  PerformModuleIntegrityCheck_def ScanFroAttachedThreads_def ValidateProcessLoadedModuleCode_def RequestHardwareInformation_def
  InitiateApcStackwalkOperation_def ScanForEptHooks_def InitiateDpcStackwalk_def ValidateSystemModules_def
  InsertIrpIntoIrpQueue_def QueryDeferredReports_def InitiateSharedMapping_def ValidatePciDevicesCode_def

section \<open>State and environment\<close>

definition EVENT_COUNT :: nat where "EVENT_COUNT = 5"
definition MAXIMUM_REPORT_BUFFER_SIZE :: u32 where "MAXIMUM_REPORT_BUFFER_SIZE = 1000"

record event_dispatcher =
  ev_in_use :: bool
  ev_hEvent :: u64
  ev_buffer :: ptr
  ev_buffer_size :: u32

text \<open>
  \<open>ki_events_data\<close> is the address of the elements of the vector. The member \<^verbatim>\<open>mapping\<close> has no initialiser, so at
  the start it has any value.
\<close>

record 'w ki_st =
  ki_driver_handle :: u64
  ki_port :: u64
  ki_events :: "event_dispatcher list"
  ki_events_data :: ptr
  ki_mapping_buffer :: ptr
  ki_mapping_size :: u64
  ki_heap :: "ptr \<rightharpoonup> u8 list"
  ki_log :: "log_line list"
  ki_world :: 'w

record 'w os_env =
  os_DeviceIoControl :: "u32 \<Rightarrow> u8 list \<Rightarrow> u32 \<Rightarrow> ptr \<Rightarrow> 'w \<Rightarrow> u32 \<times> u8 list \<times> 'w"
  os_CreateFileW :: u64
  os_CreateIoCompletionPort :: u64
  os_malloc :: "nat \<Rightarrow> ptr"
  os_malloc_bytes :: "nat \<Rightarrow> u8 list"
  os_CreateEvent :: "nat \<Rightarrow> u64"
  os_GetCurrentProcessId :: u32

text \<open>The error codes that are printed with the messages are left out.\<close>

definition log_error :: "string \<Rightarrow> 'w ki_st \<Rightarrow> 'w ki_st" where
  "log_error fmt s = s\<lparr>ki_log := ki_log s @ [(fmt, [])]\<rparr>"

text \<open>The address of the overlapped structure of an element: elements of 56 bytes, the structure at offset 8.\<close>

definition event_overlapped :: "ptr \<Rightarrow> nat \<Rightarrow> ptr" where
  "event_overlapped events_data i = events_data + 56 * of_nat i + 8"

section \<open>Calls to the driver\<close>

definition generic_driver_call_output :: "'w os_env \<Rightarrow> u32 \<Rightarrow> u32 \<Rightarrow> 'w ki_st \<Rightarrow> u32 \<times> u8 list \<times> 'w ki_st" where
  "generic_driver_call_output e ioctl buffer_size s =
     (case os_DeviceIoControl e ioctl [] buffer_size NULL (ki_world s) of (result, bytes, w) \<Rightarrow> (result, bytes, s\<lparr>ki_world := w\<rparr>))"

definition generic_driver_call_input :: "'w os_env \<Rightarrow> u32 \<Rightarrow> u8 list \<Rightarrow> 'w ki_st \<Rightarrow> 'w ki_st" where
  "generic_driver_call_input e ioctl input_buffer s =
     (case os_DeviceIoControl e ioctl input_buffer 0 NULL (ki_world s) of (result, _, w) \<Rightarrow>
        let s = s\<lparr>ki_world := w\<rparr> in if result = 0 then log_error ''DeviceIoControl failed with status %x'' s else s)"

definition generic_driver_call :: "'w os_env \<Rightarrow> u32 \<Rightarrow> 'w ki_st \<Rightarrow> 'w ki_st" where
  "generic_driver_call e ioctl s =
     (case os_DeviceIoControl e ioctl [] 0 NULL (ki_world s) of (result, _, w) \<Rightarrow>
        let s = s\<lparr>ki_world := w\<rparr> in if result = 0 then log_error ''DeviceIoControl failed with status %x'' s else s)"

definition operation_stackwalk :: u32 where "operation_stackwalk = 1"

definition apc_operation_init_bytes :: "u32 \<Rightarrow> u8 list" where
  "apc_operation_init_bytes operation_id = pack_struct [int32 operation_id]"

definition generic_driver_call_apc :: "'w os_env \<Rightarrow> u32 \<Rightarrow> 'w ki_st \<Rightarrow> 'w ki_st" where
  "generic_driver_call_apc e operation = generic_driver_call_input e InitiateApcStackwalkOperation (apc_operation_init_bytes operation)"

definition session_initiation_packet_bytes :: "u32 \<Rightarrow> u8 list \<Rightarrow> u64 \<Rightarrow> u8 list" where
  "session_initiation_packet_bytes cookie aes_key protected_process_id =
     pack_struct [int32 cookie, chars 16 aes_key, int64 protected_process_id]"

definition notify_driver_on_process_launch :: "'w os_env \<Rightarrow> 'w ki_st \<Rightarrow> 'w ki_st" where
  "notify_driver_on_process_launch e = generic_driver_call_input e NotifyDriverOnProcessLaunch
     (session_initiation_packet_bytes 0 (replicate 16 0) (ucast (os_GetCurrentProcessId e)))"

definition notify_driver_on_process_termination :: "'w os_env \<Rightarrow> 'w ki_st \<Rightarrow> 'w ki_st" where
  "notify_driver_on_process_termination e = generic_driver_call e NotifyDriverOnProcessTermination"

text \<open>The two fields of the packet are compared with \<^verbatim>\<open>true\<close>, which is one.\<close>

definition detect_system_virtualization :: "'w os_env \<Rightarrow> 'w ki_st \<Rightarrow> 'w ki_st" where
  "detect_system_virtualization e s =
     (case generic_driver_call_output e PerformVirtualisationCheck 8 s of (status, bytes, s) \<Rightarrow>
        let packet = bytes @ replicate 8 0 in
        if status = 0 then log_error ''Failed virtualization detection with status %x'' s
        else if le_nat (take 4 packet) = 1 \<or> le_nat (take 4 (drop 4 packet)) = 1
        then s\<lparr>ki_log := ki_log s @ [(''HYPERVISOR DETECTED!!!'', [])]\<rparr> else s)"

definition run_nmi_callbacks :: "'w os_env \<Rightarrow> 'w ki_st \<Rightarrow> 'w ki_st" where
  "run_nmi_callbacks e = generic_driver_call e RunNmiCallbacks"

definition validate_pci_devices :: "'w os_env \<Rightarrow> 'w ki_st \<Rightarrow> 'w ki_st" where
  "validate_pci_devices e = generic_driver_call e ValidatePciDevicesCode"

definition validate_system_driver_objects :: "'w os_env \<Rightarrow> 'w ki_st \<Rightarrow> 'w ki_st" where
  "validate_system_driver_objects e = generic_driver_call e ValidateDriverObjectsCode"

definition enumerate_handle_tables :: "'w os_env \<Rightarrow> 'w ki_st \<Rightarrow> 'w ki_st" where
  "enumerate_handle_tables e = generic_driver_call e EnumerateHandleTablesCode"

definition scan_for_unlinked_processes :: "'w os_env \<Rightarrow> 'w ki_st \<Rightarrow> 'w ki_st" where
  "scan_for_unlinked_processes e = generic_driver_call e ScanForUnlinkedProcesses"

definition perform_integrity_check :: "'w os_env \<Rightarrow> 'w ki_st \<Rightarrow> 'w ki_st" where
  "perform_integrity_check e = generic_driver_call e PerformModuleIntegrityCheck"

definition scan_for_attached_threads :: "'w os_env \<Rightarrow> 'w ki_st \<Rightarrow> 'w ki_st" where
  "scan_for_attached_threads e = generic_driver_call e ScanFroAttachedThreads"

definition scan_for_ept_hooks :: "'w os_env \<Rightarrow> 'w ki_st \<Rightarrow> 'w ki_st" where
  "scan_for_ept_hooks e = generic_driver_call e ScanForEptHooks"

definition perform_dpc_stackwalk :: "'w os_env \<Rightarrow> 'w ki_st \<Rightarrow> 'w ki_st" where
  "perform_dpc_stackwalk e = generic_driver_call e InitiateDpcStackwalk"

definition validate_system_modules :: "'w os_env \<Rightarrow> 'w ki_st \<Rightarrow> 'w ki_st" where
  "validate_system_modules e = generic_driver_call e ValidateSystemModules"

definition initiate_apc_stackwalk :: "'w os_env \<Rightarrow> 'w ki_st \<Rightarrow> 'w ki_st" where
  "initiate_apc_stackwalk e = generic_driver_call_apc e operation_stackwalk"

text \<open>The body is commented out.\<close>

definition verify_process_module_executable_regions :: "'w os_env \<Rightarrow> 'w ki_st \<Rightarrow> 'w ki_st" where
  "verify_process_module_executable_regions e s = s"

section \<open>The pool of event objects\<close>

fun free_event_index :: "nat \<Rightarrow> event_dispatcher list \<Rightarrow> nat option" where
  "free_event_index i [] = None"
| "free_event_index i (ev # evs) = (if \<not> ev_in_use ev then Some i else free_event_index (Suc i) evs)"

definition get_free_event_entry :: "'w ki_st \<Rightarrow> nat option \<times> 'w ki_st" where
  "get_free_event_entry s = (case free_event_index 0 (ki_events s) of
     None \<Rightarrow> (None, s)
   | Some i \<Rightarrow> (Some i, s\<lparr>ki_events := (ki_events s)[i := (ki_events s ! i)\<lparr>ev_in_use := True\<rparr>]\<rparr>))"

definition ERROR_SUCCESS :: u32 where "ERROR_SUCCESS = 0"
definition ERROR_INVALID_FUNCTION :: u32 where "ERROR_INVALID_FUNCTION = 1"
definition ERROR_IO_PENDING :: u32 where "ERROR_IO_PENDING = 997"

text \<open>The result of \<^verbatim>\<open>DeviceIoControl\<close>, which is a truth value, is compared with error codes.\<close>

definition send_pending_irp :: "'w os_env \<Rightarrow> 'w ki_st \<Rightarrow> 'w ki_st" where
  "send_pending_irp e s = (case get_free_event_entry s of
     (None, s) \<Rightarrow> log_error ''All event objects in use.'' s
   | (Some i, s) \<Rightarrow>
       (case os_DeviceIoControl e InsertIrpIntoIrpQueue [] (ev_buffer_size (ki_events s ! i)) (event_overlapped (ki_events_data s) i) (ki_world s) of
          (status, _, w) \<Rightarrow>
            let s = s\<lparr>ki_world := w\<rparr> in
            if status = ERROR_IO_PENDING \<or> status = ERROR_SUCCESS \<or> status = ERROR_INVALID_FUNCTION then s
            else log_error ''failed to insert irp into irp queue %x'' s))"

text \<open>The buffer of every element whose overlapped structure it is gets zeroed, and the element is free.\<close>

fun release_loop :: "ptr \<Rightarrow> nat \<Rightarrow> nat \<Rightarrow> 'w ki_st \<Rightarrow> 'w ki_st option" where
  "release_loop event i 0 s = Some s"
| "release_loop event i (Suc n) s =
     (if event_overlapped (ki_events_data s) i = event then do {
        let ev = ki_events s ! i;
        old \<leftarrow> ki_heap s (ev_buffer ev);
        (if length old < unat (ev_buffer_size ev) then None
         else release_loop event (Suc i) n (s\<lparr>ki_heap := (ki_heap s)(ev_buffer ev \<mapsto>
                  replicate (unat (ev_buffer_size ev)) 0 @ drop (unat (ev_buffer_size ev)) old),
                ki_events := (ki_events s)[i := ev\<lparr>ev_in_use := False\<rparr>]\<rparr>))
      }
      else release_loop event (Suc i) n s)"

definition release_event_object :: "ptr \<Rightarrow> 'w ki_st \<Rightarrow> 'w ki_st option" where
  "release_event_object event s = release_loop event 0 (length (ki_events s)) s"

fun event_index :: "ptr \<Rightarrow> ptr \<Rightarrow> nat \<Rightarrow> nat \<Rightarrow> nat option" where
  "event_index events_data event i 0 = None"
| "event_index events_data event i (Suc n) =
     (if event_overlapped events_data i = event then Some i else event_index events_data event (Suc i) n)"

definition get_buffer_from_event_object :: "ptr \<Rightarrow> 'w ki_st \<Rightarrow> ptr" where
  "get_buffer_from_event_object event s = (case event_index (ki_events_data s) event 0 (length (ki_events s)) of
     None \<Rightarrow> NULL | Some i \<Rightarrow> ev_buffer (ki_events s ! i))"

section \<open>The completion port\<close>

text \<open>
  One return of \<^verbatim>\<open>GetQueuedCompletionStatus\<close>: the overlapped structure of the request that was completed, or null,
  and the bytes that the I/O manager has copied to the start of the buffer of that request by then.
\<close>

definition store_output :: "ptr \<Rightarrow> u8 list \<Rightarrow> 'w ki_st \<Rightarrow> 'w ki_st" where
  "store_output buffer bytes s =
     s\<lparr>ki_heap := (ki_heap s)(buffer := map_option (\<lambda>old. bytes @ drop (length bytes) old) (ki_heap s buffer))\<rparr>"

fun run_completion_port :: "'w os_env \<Rightarrow> (ptr \<times> u8 list) list \<Rightarrow> 'w ki_st \<Rightarrow> 'w ki_st option" where
  "run_completion_port e [] s = Some s"
| "run_completion_port e ((io, bytes) # cs) s =
     (if io = NULL then run_completion_port e cs s
      else do {
        let buffer = get_buffer_from_event_object io s;
        let s = store_output buffer bytes s;
        content \<leftarrow> ki_heap s buffer;
        report \<leftarrow> print_kernel_report content;
        let s = s\<lparr>ki_log := ki_log s @ report\<rparr>;
        s \<leftarrow> release_event_object io s;
        run_completion_port e cs (send_pending_irp e s)
      })"

definition make_event :: "'w os_env \<Rightarrow> nat \<Rightarrow> event_dispatcher" where
  "make_event e i = \<lparr>ev_in_use = False, ev_hEvent = os_CreateEvent e i, ev_buffer = os_malloc e i,
     ev_buffer_size = MAXIMUM_REPORT_BUFFER_SIZE\<rparr>"

definition alloc_buffer :: "'w os_env \<Rightarrow> nat \<Rightarrow> (ptr \<rightharpoonup> u8 list) \<Rightarrow> (ptr \<rightharpoonup> u8 list)" where
  "alloc_buffer e i h = (if os_malloc e i = NULL then h else h(os_malloc e i \<mapsto> os_malloc_bytes e i))"

definition initiate_completion_port :: "'w os_env \<Rightarrow> 'w ki_st \<Rightarrow> 'w ki_st" where
  "initiate_completion_port e s =
     (let s = s\<lparr>ki_events := ki_events s @ map (make_event e) [0..<EVENT_COUNT],
          ki_heap := fold (alloc_buffer e) [0..<EVENT_COUNT] (ki_heap s), ki_port := os_CreateIoCompletionPort e\<rparr>
      in if ki_port s = 0 then log_error ''CreateIoCompletePort failed with status %x'' s
         else (send_pending_irp e ^^ EVENT_COUNT) s)"

definition terminate_completion_port :: "'w ki_st \<Rightarrow> 'w ki_st" where
  "terminate_completion_port s = s\<lparr>ki_heap := fold (\<lambda>ev h. h(ev_buffer ev := None)) (ki_events s) (ki_heap s)\<rparr>"

text \<open>The constructor and the destructor. \<open>m\<close> is the value of the mapping, which is not initialised.\<close>

definition INVALID_DRIVER_HANDLE :: u64 where "INVALID_DRIVER_HANDLE = - 1"

definition kernel_interface :: "'w os_env \<Rightarrow> ptr \<Rightarrow> ptr \<times> u64 \<Rightarrow> 'w \<Rightarrow> 'w ki_st" where
  "kernel_interface e events_data m w =
     (let s = \<lparr>ki_driver_handle = os_CreateFileW e, ki_port = INVALID_DRIVER_HANDLE, ki_events = [], ki_events_data = events_data,
          ki_mapping_buffer = fst m, ki_mapping_size = snd m, ki_heap = Map.empty, ki_log = [], ki_world = w\<rparr>
      in if ki_driver_handle s = INVALID_DRIVER_HANDLE then log_error ''Failed to open handle to driver with status 0x%x'' s
         else initiate_completion_port e (notify_driver_on_process_launch e s))"

definition destroy_kernel_interface :: "'w os_env \<Rightarrow> 'w ki_st \<Rightarrow> 'w ki_st" where
  "destroy_kernel_interface e s = notify_driver_on_process_termination e (terminate_completion_port s)"

section \<open>The shared mapping\<close>

definition SHARED_STATE_OPERATION_COUNT :: nat where "SHARED_STATE_OPERATION_COUNT = 9"

text \<open>The operation is written at offset 4 of the page that the mapping names.\<close>

definition write_shared_mapping_operation :: "u16 \<Rightarrow> 'w ki_st \<Rightarrow> 'w ki_st option" where
  "write_shared_mapping_operation operation_id s = do {
     page \<leftarrow> ki_heap s (ki_mapping_buffer s);
     (if length page < 6 then None
      else Some (s\<lparr>ki_heap := (ki_heap s)(ki_mapping_buffer s \<mapsto> take 4 page @ le_bytes 2 (unat operation_id) @ drop 6 page)\<rparr>))
   }"

text \<open>The output bytes are the mapping itself, an address and a size.\<close>

definition initiate_shared_mapping :: "'w os_env \<Rightarrow> 'w ki_st \<Rightarrow> 'w ki_st" where
  "initiate_shared_mapping e s =
     (case generic_driver_call_output e InitiateSharedMapping 16 (s\<lparr>ki_log := ki_log s @ [(''Initialising shared memory buffer!'', [])]\<rparr>) of
        (result, bytes, s) \<Rightarrow>
        if result = 0 then log_error ''DeviceIoControl failed with status %x'' s
        else s\<lparr>ki_mapping_buffer := of_nat (le_nat (take 8 bytes)), ki_mapping_size := of_nat (le_nat (take 8 (drop 8 bytes)))\<rparr>)"


section \<open>The events in use\<close>

lemma event_overlapped_inj:
  assumes "i < EVENT_COUNT" "j < EVENT_COUNT"
  shows "event_overlapped d i = event_overlapped d j \<longleftrightarrow> i = j"
proof -
  have "i \<in> {0, 1, 2, 3, 4}" "j \<in> {0, 1, 2, 3, 4}" using assms by (auto simp: EVENT_COUNT_def)
  then show ?thesis by (auto simp: event_overlapped_def)
qed

text \<open>Every event has a buffer of its own and is used by a request.\<close>

definition events_ok :: "'w ki_st \<Rightarrow> bool" where
  "events_ok s \<longleftrightarrow> length (ki_events s) = EVENT_COUNT \<and> distinct (map ev_buffer (ki_events s))
     \<and> (\<forall>ev \<in> set (ki_events s). ev_buffer_size ev = MAXIMUM_REPORT_BUFFER_SIZE
          \<and> (\<exists>bs. ki_heap s (ev_buffer ev) = Some bs \<and> length bs = 1000))
     \<and> (\<forall>i < EVENT_COUNT. event_overlapped (ki_events_data s) i \<noteq> NULL)"

definition all_in_use :: "'w ki_st \<Rightarrow> bool" where
  "all_in_use s \<longleftrightarrow> (\<forall>ev \<in> set (ki_events s). ev_in_use ev)"

lemma free_event_index_first:
  assumes "i < length evs" "\<not> ev_in_use (evs ! i)" "\<forall>j < i. ev_in_use (evs ! j)"
  shows "free_event_index k evs = Some (k + i)"
  using assms
proof (induction evs arbitrary: i k)
  case (Cons ev evs)
  then show ?case by (cases i) (auto simp: All_less_Suc2)
qed simp

lemma free_event_index_none: "\<forall>ev \<in> set evs. ev_in_use ev \<Longrightarrow> free_event_index k evs = None"
  by (induction evs arbitrary: k) auto

lemma event_index_found:
  assumes "k \<le> i" "i < k + n" "k + n \<le> EVENT_COUNT"
  shows "event_index d (event_overlapped d i) k n = Some i"
  using assms by (induction n arbitrary: k) (auto simp: event_overlapped_inj)

lemma release_loop_other:
  assumes "\<forall>j. k \<le> j \<and> j < k + n \<longrightarrow> event_overlapped (ki_events_data s) j \<noteq> event"
  shows "release_loop event k n s = Some s"
  using assms by (induction n arbitrary: k) auto

lemma release_loop_found:
  assumes "k \<le> i" "i < k + n" "k + n \<le> EVENT_COUNT" "ki_heap s (ev_buffer (ki_events s ! i)) = Some old"
    and "unat (ev_buffer_size (ki_events s ! i)) = length old"
  shows "release_loop (event_overlapped (ki_events_data s) i) k n s = Some (s\<lparr>
     ki_heap := (ki_heap s)(ev_buffer (ki_events s ! i) \<mapsto> replicate (length old) 0),
     ki_events := (ki_events s)[i := (ki_events s ! i)\<lparr>ev_in_use := False\<rparr>]\<rparr>)"
  using assms
proof (induction n arbitrary: k)
  case (Suc n)
  show ?case
  proof (cases "k = i")
    case True
    with Suc.prems show ?thesis by (simp add: Let_def release_loop_other event_overlapped_inj fun_upd_def)
  next
    case False
    with Suc show ?thesis by (simp add: event_overlapped_inj)
  qed
qed simp

lemma send_pending_irp_step:
  assumes "i < length (ki_events s)" "\<not> ev_in_use (ki_events s ! i)" "\<forall>j < i. ev_in_use (ki_events s ! j)"
    and "\<And>c bs n ov w. fst (os_DeviceIoControl e c bs n ov w) \<in> {0, 1}"
  shows "send_pending_irp e s = s\<lparr>ki_events := (ki_events s)[i := (ki_events s ! i)\<lparr>ev_in_use := True\<rparr>],
     ki_world := snd (snd (os_DeviceIoControl e InsertIrpIntoIrpQueue [] (ev_buffer_size (ki_events s ! i))
        (event_overlapped (ki_events_data s) i) (ki_world s)))\<rparr>"
proof -
  let ?r = "os_DeviceIoControl e InsertIrpIntoIrpQueue [] (ev_buffer_size (ki_events s ! i)) (event_overlapped (ki_events_data s) i) (ki_world s)"
  have "free_event_index 0 (ki_events s) = Some i"
    using free_event_index_first[OF assms(1-3), of 0] by simp
  moreover have "fst ?r = 0 \<or> fst ?r = 1" using assms(4) by blast
  ultimately show ?thesis
    using assms(1) by (cases ?r) (auto simp: send_pending_irp_def get_free_event_entry_def ERROR_SUCCESS_def ERROR_INVALID_FUNCTION_def Let_def)
qed

lemma send_pending_irp_full: "all_in_use s \<Longrightarrow> send_pending_irp e s = log_error ''All event objects in use.'' s"
  by (simp add: all_in_use_def send_pending_irp_def get_free_event_entry_def free_event_index_none)

text \<open>The turn of the completion port for the report \<open>r\<close> in the request of the event \<open>i\<close>.\<close>

lemma completion_turn:
  assumes "events_ok s" "all_in_use s" "i < EVENT_COUNT" "print_kernel_report (report_bytes r @ drop (sizeof_report r) bs) = Some ls"
    and "ki_heap s (ev_buffer (ki_events s ! i)) = Some bs" "sizeof_report r \<le> 1000"
    and "\<And>c bs n ov w. fst (os_DeviceIoControl e c bs n ov w) \<in> {0, 1}"
  shows "run_completion_port e ((event_overlapped (ki_events_data s) i, report_bytes r) # cs) s = run_completion_port e cs (s\<lparr>
     ki_heap := (ki_heap s)(ev_buffer (ki_events s ! i) \<mapsto> replicate 1000 0), ki_log := ki_log s @ ls,
     ki_world := snd (snd (os_DeviceIoControl e InsertIrpIntoIrpQueue [] MAXIMUM_REPORT_BUFFER_SIZE
        (event_overlapped (ki_events_data s) i) (ki_world s)))\<rparr>)"
proof -
  define ev where "ev = ki_events s ! i"
  define content where "content = report_bytes r @ drop (sizeof_report r) bs"
  define t where "t = s\<lparr>ki_heap := (ki_heap s)(ev_buffer ev \<mapsto> content), ki_log := ki_log s @ ls\<rparr>"
  define u where "u = t\<lparr>ki_heap := (ki_heap t)(ev_buffer ev \<mapsto> replicate 1000 0), ki_events := (ki_events s)[i := ev\<lparr>ev_in_use := False\<rparr>]\<rparr>"
  have len: "i < length (ki_events s)" and io: "event_overlapped (ki_events_data s) i \<noteq> NULL"
    using assms(1,3) by (auto simp: events_ok_def)
  then have "ev \<in> set (ki_events s)" by (simp add: ev_def)
  with assms(1,2,5) have ev: "ev_buffer_size ev = MAXIMUM_REPORT_BUFFER_SIZE" "length bs = 1000" "ev_in_use ev"
    by (auto simp: events_ok_def all_in_use_def ev_def)
  have buffer: "get_buffer_from_event_object (event_overlapped (ki_events_data s) i) s = ev_buffer ev"
    using event_index_found[of 0 i EVENT_COUNT "ki_events_data s"] assms(1,3)
    by (simp add: get_buffer_from_event_object_def events_ok_def ev_def)
  have "length content = 1000" using assms(6) ev(2) by (simp add: content_def length_report_bytes)
  then have release: "release_event_object (event_overlapped (ki_events_data s) i) t = Some u"
    using release_loop_found[of 0 i EVENT_COUNT t content] assms(1,3) ev(1)
    by (simp add: release_event_object_def t_def u_def events_ok_def MAXIMUM_REPORT_BUFFER_SIZE_def flip: ev_def)
  have "send_pending_irp e u = u\<lparr>ki_events := (ki_events u)[i := (ki_events u ! i)\<lparr>ev_in_use := True\<rparr>],
     ki_world := snd (snd (os_DeviceIoControl e InsertIrpIntoIrpQueue [] (ev_buffer_size (ki_events u ! i))
        (event_overlapped (ki_events_data u) i) (ki_world u)))\<rparr>"
    using assms(2,7) len by (intro send_pending_irp_step) (auto simp: u_def t_def all_in_use_def)
  moreover have "ev\<lparr>ev_in_use := True\<rparr> = ev" using ev(3) by (cases ev) simp
  ultimately have send: "send_pending_irp e u = s\<lparr>ki_heap := (ki_heap s)(ev_buffer ev \<mapsto> replicate 1000 0), ki_log := ki_log s @ ls,
     ki_world := snd (snd (os_DeviceIoControl e InsertIrpIntoIrpQueue [] MAXIMUM_REPORT_BUFFER_SIZE
        (event_overlapped (ki_events_data s) i) (ki_world s)))\<rparr>"
    using len ev(1) by (simp add: u_def t_def ev_def list_update_same_conv[THEN iffD2])
  show ?thesis
    using io buffer assms(4,5) release send
    by (simp add: Let_def store_output_def length_report_bytes t_def content_def flip: ev_def)
qed

lemma sizeof_report_fits: "sizeof_report r \<le> 1000"
  by (cases r) simp_all

lemma events_ok_turn:
  "events_ok s \<Longrightarrow> events_ok (s\<lparr>ki_heap := (ki_heap s)(b \<mapsto> replicate 1000 0), ki_log := l, ki_world := w\<rparr>)"
  by (auto simp: events_ok_def)

text \<open>A report that the printer does not know stops the thread of the completion port.\<close>

lemma completion_fault:
  assumes "events_ok s" "i < EVENT_COUNT" "coded r" "report_type_of r \<in> {report_invalid_process_module, report_data_table_routine}"
  shows "run_completion_port e ((event_overlapped (ki_events_data s) i, report_bytes r) # cs) s = None"
proof -
  have io: "event_overlapped (ki_events_data s) i \<noteq> NULL" using assms(1,2) by (auto simp: events_ok_def)
  have buffer: "get_buffer_from_event_object (event_overlapped (ki_events_data s) i) s = ev_buffer (ki_events s ! i)"
    using event_index_found[of 0 i EVENT_COUNT "ki_events_data s"] assms(1,2)
    by (simp add: get_buffer_from_event_object_def events_ok_def)
  obtain bs where "ki_heap s (ev_buffer (ki_events s ! i)) = Some bs" using assms(1,2) by (metis events_ok_def nth_mem)
  with io buffer print_report_bytes[OF assms(3)] not_printed[OF assms(3,4)] show ?thesis
    by (simp add: Let_def store_output_def length_report_bytes)
qed

lemma completion_run:
  assumes "events_ok s" "all_in_use s" "\<forall>(i, r) \<in> set cs. i < EVENT_COUNT \<and> printable r"
    and "\<And>c bs n ov w. fst (os_DeviceIoControl e c bs n ov w) \<in> {0, 1}"
  shows "\<exists>s'. run_completion_port e (map (\<lambda>(i, r). (event_overlapped (ki_events_data s) i, report_bytes r)) cs) s = Some s'
     \<and> events_ok s' \<and> all_in_use s' \<and> ki_events_data s' = ki_events_data s
     \<and> ki_log s' = ki_log s @ concat (map (the \<circ> report_lines [] \<circ> snd) cs)
     \<and> ki_world s' = fold (\<lambda>(i, r) w. snd (snd (os_DeviceIoControl e InsertIrpIntoIrpQueue [] 1000
          (event_overlapped (ki_events_data s) i) w))) cs (ki_world s)"
  using assms(1-3)
proof (induction cs arbitrary: s)
  case (Cons c cs)
  obtain i r where c: "c = (i, r)" by (cases c)
  with Cons.prems(3) have r: "i < EVENT_COUNT" "printable r" by auto
  from Cons.prems(1) r(1) obtain bs where bs: "ki_heap s (ev_buffer (ki_events s ! i)) = Some bs"
    by (metis events_ok_def nth_mem)
  from printable_lines[OF r(2), of "drop (sizeof_report r) bs"] obtain ls where
    ls: "print_kernel_report (report_bytes r @ drop (sizeof_report r) bs) = Some ls" "report_lines [] r = Some ls"
    by (auto simp: print_report_bytes)
  let ?t = "s\<lparr>ki_heap := (ki_heap s)(ev_buffer (ki_events s ! i) \<mapsto> replicate 1000 0), ki_log := ki_log s @ ls,
     ki_world := snd (snd (os_DeviceIoControl e InsertIrpIntoIrpQueue [] MAXIMUM_REPORT_BUFFER_SIZE
        (event_overlapped (ki_events_data s) i) (ki_world s)))\<rparr>"
  have "events_ok ?t" "all_in_use ?t"
    using events_ok_turn[OF Cons.prems(1)] Cons.prems(2) by (auto simp: all_in_use_def)
  from Cons.IH[OF this] Cons.prems(3) ls(2) c
    completion_turn[OF Cons.prems(1,2) r(1) ls(1) bs sizeof_report_fits assms(4), of "map (\<lambda>(i, r). (event_overlapped (ki_events_data s) i, report_bytes r)) cs"]
  show ?case by (auto simp: MAXIMUM_REPORT_BUFFER_SIZE_def)
qed simp

section \<open>Properties\<close>

text \<open>C14: the completion port prints reports and asks for new ones, until it meets one it does not know. Started with all
  five events in use, it handles any sequence of completed requests whose reports are printable (coded as the
  driver codes them, names that end within their arrays, and neither on a process module nor on a data table)
  without a fault: the lines of the reports are printed in the order of the completions, for each report one
  new request for the same event is sent to the driver, in the same order, and at the end all five events are
  marked as in use. Whether the driver keeps such a request is not looked at. The first report on a process
  module or a data table after that is undefined behaviour, whatever follows it.\<close>

theorem completion_port_keeps_requests:
  assumes "events_ok s" "all_in_use s"
    and "\<forall>(i, r) \<in> set cs. i < EVENT_COUNT \<and> printable r"
    and "\<And>c bs n ov w. fst (os_DeviceIoControl e c bs n ov w) \<in> {0, 1}"
  shows "\<exists>s'. run_completion_port e (map (\<lambda>(i, r). (event_overlapped (ki_events_data s) i, report_bytes r)) cs) s = Some s'
     \<and> events_ok s' \<and> all_in_use s' \<and> ki_log s' = ki_log s @ concat (map (the \<circ> report_lines [] \<circ> snd) cs)
     \<and> ki_world s' = fold (\<lambda>(i, r) w. snd (snd (os_DeviceIoControl e InsertIrpIntoIrpQueue [] 1000
          (event_overlapped (ki_events_data s) i) w))) cs (ki_world s)
     \<and> (\<forall>i r ds. i < EVENT_COUNT \<and> coded r \<and> report_type_of r \<in> {report_invalid_process_module, report_data_table_routine} \<longrightarrow>
          run_completion_port e ((event_overlapped (ki_events_data s) i, report_bytes r) # ds) s' = None)"
proof -
  from completion_run[OF assms] obtain s' where
    "run_completion_port e (map (\<lambda>(i, r). (event_overlapped (ki_events_data s) i, report_bytes r)) cs) s = Some s'"
    and s': "events_ok s'" "ki_events_data s' = ki_events_data s"
    and "all_in_use s'" "ki_log s' = ki_log s @ concat (map (the \<circ> report_lines [] \<circ> snd) cs)"
    "ki_world s' = fold (\<lambda>(i, r) w. snd (snd (os_DeviceIoControl e InsertIrpIntoIrpQueue [] 1000
          (event_overlapped (ki_events_data s) i) w))) cs (ki_world s)"
    by blast
  with completion_fault[OF s'(1)] show ?thesis unfolding s'(2) by (intro exI[of _ s']) auto
qed

text \<open>A system that counts the requests it is sent.\<close>

definition counting_os :: "nat os_env" where
  "counting_os = \<lparr>os_DeviceIoControl = (\<lambda>_ _ _ _ w. (0, [], Suc w)), os_CreateFileW = 4, os_CreateIoCompletionPort = 8,
     os_malloc = (\<lambda>i. 0x100 + of_nat i), os_malloc_bytes = (\<lambda>_. replicate 1000 0xCC), os_CreateEvent = (\<lambda>_. 12),
     os_GetCurrentProcessId = 4\<rparr>"

definition example_ki_st :: "nat ki_st" where
  "example_ki_st = \<lparr>ki_driver_handle = 4, ki_port = 8, ki_events = map (\<lambda>b. \<lparr>ev_in_use = True, ev_hEvent = 12, ev_buffer = b,
     ev_buffer_size = MAXIMUM_REPORT_BUFFER_SIZE\<rparr>) [1, 2, 3, 4, 5], ki_events_data = 0x1000, ki_mapping_buffer = 0, ki_mapping_size = 0,
     ki_heap = (\<lambda>_. Some (replicate 1000 0xCC)), ki_log = [], ki_world = 5\<rparr>"

lemma example_events: "events_ok example_ki_st" "all_in_use example_ki_st"
proof -
  have "event_overlapped 0x1000 i \<noteq> NULL" if "i < EVENT_COUNT" for i
  proof -
    have "i \<in> {0, 1, 2, 3, 4}" using that by (auto simp: EVENT_COUNT_def)
    then show ?thesis by (auto simp: event_overlapped_def)
  qed
  then show "events_ok example_ki_st" "all_in_use example_ki_st"
    by (simp_all add: events_ok_def all_in_use_def example_ki_st_def) (simp_all add: EVENT_COUNT_def)
qed

theorem completion_port_keeps_requests_witness:
  "\<exists>s'. run_completion_port counting_os [(event_overlapped 0x1000 3, report_bytes (ATTACH_PROCESS_REPORT 100 7 9)),
       (event_overlapped 0x1000 3, report_bytes (ATTACH_PROCESS_REPORT 100 8 9))] example_ki_st = Some s'
     \<and> all_in_use s' \<and> length (ki_log s') = 10 \<and> ki_world s' = 7
     \<and> run_completion_port counting_os [(event_overlapped 0x1000 2, report_bytes (DATA_TABLE_ROUTINE_REPORT 0 130 9 []))] s' = None"
proof -
  let ?cs = "[(3, ATTACH_PROCESS_REPORT 100 7 9), (3, ATTACH_PROCESS_REPORT 100 8 9)]"
  have data: "ki_events_data example_ki_st = 0x1000" and "ki_log example_ki_st = []" "ki_world example_ki_st = 5"
    by (simp_all add: example_ki_st_def)
  moreover have "\<forall>(i, r) \<in> set ?cs. i < EVENT_COUNT \<and> printable r" by (simp add: EVENT_COUNT_def report_codes)
  moreover have "2 < EVENT_COUNT" "coded (DATA_TABLE_ROUTINE_REPORT 0 130 9 [])" by (simp_all add: EVENT_COUNT_def)
  ultimately show ?thesis
    using completion_port_keeps_requests[OF example_events, of ?cs counting_os]
    by (fastforce simp: counting_os_def simp del: run_completion_port.simps)
qed

text \<open>The state after the constructor, apart from the driver.\<close>

lemma sends_use_events:
  assumes "n \<le> length (ki_events s)" "\<forall>ev \<in> set (ki_events s). \<not> ev_in_use ev"
    and "\<And>c bs n ov w. fst (os_DeviceIoControl e c bs n ov w) \<in> {0, 1}"
    and "P (ki_world s)" "\<And>n ov w. P w \<Longrightarrow> P (snd (snd (os_DeviceIoControl e InsertIrpIntoIrpQueue [] n ov w)))"
  shows "\<exists>w. P w \<and> (send_pending_irp e ^^ n) s = s\<lparr>ki_events :=
     map (\<lambda>ev. ev\<lparr>ev_in_use := True\<rparr>) (take n (ki_events s)) @ drop n (ki_events s), ki_world := w\<rparr>"
  using assms(1)
proof (induction n)
  case 0
  show ?case using assms(4) by (intro exI[of _ "ki_world s"]) simp
next
  case (Suc n)
  then obtain w where w: "P w" "(send_pending_irp e ^^ n) s = s\<lparr>ki_events :=
     map (\<lambda>ev. ev\<lparr>ev_in_use := True\<rparr>) (take n (ki_events s)) @ drop n (ki_events s), ki_world := w\<rparr>" (is "_ = ?t")
    by auto
  have "\<not> ev_in_use (ki_events ?t ! n)" using Suc.prems assms(2) by (auto simp: nth_append)
  moreover have "\<forall>j < n. ev_in_use (ki_events ?t ! j)" using Suc.prems by (auto simp: nth_append)
  ultimately have "send_pending_irp e ?t = ?t\<lparr>ki_events := (ki_events ?t)[n := (ki_events ?t ! n)\<lparr>ev_in_use := True\<rparr>],
     ki_world := snd (snd (os_DeviceIoControl e InsertIrpIntoIrpQueue [] (ev_buffer_size (ki_events ?t ! n))
        (event_overlapped (ki_events_data ?t) n) (ki_world ?t)))\<rparr>"
    using Suc.prems assms(3) by (intro send_pending_irp_step) auto
  moreover have "(ki_events ?t)[n := (ki_events ?t ! n)\<lparr>ev_in_use := True\<rparr>] =
      map (\<lambda>ev. ev\<lparr>ev_in_use := True\<rparr>) (take (Suc n) (ki_events s)) @ drop (Suc n) (ki_events s)"
    using Suc.prems by (simp add: list_update_append take_Suc_conv_app_nth nth_append upd_conv_take_nth_drop)
  ultimately show ?case using w assms(5) by auto
qed

lemma initiate_completion_port_events:
  assumes "ki_events s = []" "os_CreateIoCompletionPort e \<noteq> 0" "\<And>c bs n ov w. fst (os_DeviceIoControl e c bs n ov w) \<in> {0, 1}"
    and "P (ki_world s)" "\<And>n ov w. P w \<Longrightarrow> P (snd (snd (os_DeviceIoControl e InsertIrpIntoIrpQueue [] n ov w)))"
  shows "P (ki_world (initiate_completion_port e s)) \<and> length (ki_events (initiate_completion_port e s)) = EVENT_COUNT \<and> all_in_use (initiate_completion_port e s)
     \<and> ki_log (initiate_completion_port e s) = ki_log s"
proof -
  let ?s = "s\<lparr>ki_events := map (make_event e) [0..<EVENT_COUNT], ki_heap := fold (alloc_buffer e) [0..<EVENT_COUNT] (ki_heap s),
     ki_port := os_CreateIoCompletionPort e\<rparr>"
  have "initiate_completion_port e s = (send_pending_irp e ^^ EVENT_COUNT) ?s"
    using assms(1,2) by (simp add: initiate_completion_port_def)
  with sends_use_events[of EVENT_COUNT ?s e P] assms(3-5) show ?thesis
    by (auto simp: make_event_def all_in_use_def)
qed

end
