(* ===== verification/UserTimer.thy ===== *)
theory UserTimer
  imports Kernel "HOL-Library.Signed_Division" "HOL-Library.Multiset"
begin

text \<open>
  The timers of the user-mode module (\<^verbatim>\<open>src/module/dispatcher/timer.cpp\<close>): an array of waitable timer
  handles for \<^verbatim>\<open>WaitForMultipleObjects\<close>, a map from handles to callbacks, a queue of handles to remove and
  a counter of active callbacks. A callback is a value of the type \<open>'j\<close>, and \<open>ran\<close> lists the ones that were
  called. The results of \<^verbatim>\<open>CreateWaitableTimer\<close> and \<^verbatim>\<open>SetWaitableTimer\<close> are arguments. \<open>None\<close> is a read outside
  the array.
\<close>

definition INVALID_HANDLE_VALUE :: u64 where "INVALID_HANDLE_VALUE = - 1"
definition MAXIMUM_WAIT_OBJECTS :: nat where "MAXIMUM_WAIT_OBJECTS = 64"

section \<open>Time units\<close>

definition ABSOLUTE_TIME :: "int \<Rightarrow> int" where "ABSOLUTE_TIME wait = wait"
definition NANOSECONDS :: "int \<Rightarrow> int" where "NANOSECONDS nanos = nanos sdiv 100"
definition MICROSECONDS :: "int \<Rightarrow> int" where "MICROSECONDS micros = micros * NANOSECONDS 1000"
definition MILLISECONDS :: "int \<Rightarrow> int" where "MILLISECONDS milli = milli * MICROSECONDS 1000"
definition SECONDS :: "int \<Rightarrow> int" where "SECONDS seconds = seconds * MILLISECONDS 1000"

definition seconds_to_nanoseconds :: "u32 \<Rightarrow> u64" where
  "seconds_to_nanoseconds seconds = word_of_int (ABSOLUTE_TIME (SECONDS (sint seconds)))"

definition seconds_to_milliseconds :: "u32 \<Rightarrow> u32" where
  "seconds_to_milliseconds seconds = seconds * 1000"

section \<open>State\<close>

record 'j callback =
  callback_routine :: 'j
  due_time :: u64
  period :: u32

record 'j timer_st =
  handles :: "u64 list"
  callbacks :: "u64 \<rightharpoonup> 'j callback"
  callbacks_to_remove :: "u64 list"
  active_callbacks :: u32
  ran :: "'j list"

definition timer_init :: "'j timer_st" where
  "timer_init = \<lparr>handles = replicate MAXIMUM_WAIT_OBJECTS INVALID_HANDLE_VALUE, callbacks = Map.empty,
     callbacks_to_remove = [], active_callbacks = 0, ran = []\<rparr>"

definition make_callback :: "'j \<Rightarrow> u32 \<Rightarrow> u32 \<Rightarrow> 'j callback" where
  "make_callback routine due_time_seconds period_seconds = \<lparr>callback_routine = routine,
     due_time = seconds_to_nanoseconds due_time_seconds, period = seconds_to_milliseconds period_seconds\<rparr>"

section \<open>Operations\<close>

fun find_free_handle :: "nat \<Rightarrow> u64 list \<Rightarrow> nat option" where
  "find_free_handle index [] = None"
| "find_free_handle index (h # hs) = (if h = INVALID_HANDLE_VALUE then Some index else find_free_handle (Suc index) hs)"

text \<open>The loop assigns to a copy of the element, so the array stays as it is.\<close>

definition insert_handle :: "u64 \<Rightarrow> 'j timer_st \<Rightarrow> 'j timer_st" where
  "insert_handle handle t = t"

text \<open>
  The new handle is stored in the free slot before it is tested. The insertion into an \<^verbatim>\<open>unordered_map\<close>
  keeps an entry that is already there. A failure of \<^verbatim>\<open>SetWaitableTimer\<close> is only logged.
\<close>

definition insert_callback :: "u64 \<Rightarrow> 'j \<Rightarrow> u32 \<Rightarrow> u32 \<Rightarrow> 'j timer_st \<Rightarrow> u64 option \<times> 'j timer_st" where
  "insert_callback new_timer routine due_time_seconds period_seconds t =
     (case find_free_handle 0 (handles t) of
        None \<Rightarrow> (None, t)
      | Some i \<Rightarrow>
          let t = t\<lparr>handles := (handles t)[i := new_timer]\<rparr> in
          if new_timer = NULL then (None, t)
          else let cb = make_callback routine due_time_seconds period_seconds;
                   t = (if new_timer \<in> dom (callbacks t) then t else t\<lparr>callbacks := (callbacks t)(new_timer \<mapsto> cb)\<rparr>);
                   t = insert_handle new_timer t
               in (Some new_timer, t\<lparr>active_callbacks := active_callbacks t + 1\<rparr>))"

fun find_handle :: "nat \<Rightarrow> u64 \<Rightarrow> u64 list \<Rightarrow> nat option" where
  "find_handle index handle [] = None"
| "find_handle index handle (h # hs) = (if h = handle then Some index else find_handle (Suc index) handle hs)"

definition close_handle_entry :: "u64 \<Rightarrow> 'j timer_st \<Rightarrow> 'j timer_st" where
  "close_handle_entry handle t =
     (let t = t\<lparr>callbacks := (callbacks t)(handle := None)\<rparr> in
      case find_handle 0 handle (handles t) of
        None \<Rightarrow> t
      | Some entry \<Rightarrow> t\<lparr>handles := sort ((handles t)[entry := INVALID_HANDLE_VALUE]), active_callbacks := active_callbacks t - 1\<rparr>)"

definition dispatch_callback_for_index :: "u32 \<Rightarrow> 'j timer_st \<Rightarrow> 'j timer_st option" where
  "dispatch_callback_for_index index t =
     (if length (handles t) \<le> unat index then None
      else case callbacks t (handles t ! unat index) of
        None \<Rightarrow> Some t
      | Some cb \<Rightarrow> Some (t\<lparr>ran := ran t @ [callback_routine cb]\<rparr>))"

fun removal_loop :: "u64 list \<Rightarrow> 'j timer_st \<Rightarrow> 'j timer_st" where
  "removal_loop [] t = t"
| "removal_loop (entry # rest) t =
     removal_loop rest (let t = (close_handle_entry entry t)\<lparr>callbacks_to_remove := rest\<rparr>
                        in t\<lparr>active_callbacks := active_callbacks t - 1\<rparr>)"

definition query_removal_queue :: "'j timer_st \<Rightarrow> 'j timer_st" where
  "query_removal_queue t = removal_loop (callbacks_to_remove t) t"

definition remove_callback :: "u64 \<Rightarrow> 'j timer_st \<Rightarrow> 'j timer_st" where
  "remove_callback handle t = t\<lparr>callbacks_to_remove := callbacks_to_remove t @ [handle]\<rparr>"

text \<open>
  The timer thread. Each element of the list is one return of \<^verbatim>\<open>WaitForMultipleObjects\<close>, a function of the
  count and the array it is called with; when the list is used up, the thread waits.
\<close>

datatype 'j timer_run = TimerFault | TimerReturned "'j timer_st" | TimerWaiting "'j timer_st"

fun timer_loop :: "(u32 \<Rightarrow> u64 list \<Rightarrow> u32) list \<Rightarrow> 'j timer_st \<Rightarrow> 'j timer_run" where
  "timer_loop [] t = TimerWaiting t"
| "timer_loop (wait # ws) t =
     (case dispatch_callback_for_index (wait (active_callbacks t) (handles t)) t of
        None \<Rightarrow> TimerFault
      | Some t \<Rightarrow> let t = query_removal_queue t in
          if active_callbacks t = 0 then TimerReturned t else timer_loop ws t)"

definition run_timer_thread :: "(u32 \<Rightarrow> u64 list \<Rightarrow> u32) list \<Rightarrow> 'j timer_st \<Rightarrow> 'j timer_run" where
  "run_timer_thread ws t = (if active_callbacks t = 0 then TimerReturned t else timer_loop ws t)"

section \<open>The array of handles\<close>

text \<open>The registered handles stand at the front of the array, each once, and are the keys of the map.\<close>

definition timer_inv :: "u64 list \<Rightarrow> 'j timer_st \<Rightarrow> bool" where
  "timer_inv hs t \<longleftrightarrow> length hs \<le> MAXIMUM_WAIT_OBJECTS
     \<and> handles t = hs @ replicate (MAXIMUM_WAIT_OBJECTS - length hs) INVALID_HANDLE_VALUE
     \<and> distinct hs \<and> NULL \<notin> set hs \<and> INVALID_HANDLE_VALUE \<notin> set hs \<and> dom (callbacks t) = set hs"

lemma find_free_front:
  "INVALID_HANDLE_VALUE \<notin> set hs \<Longrightarrow> find_free_handle i (hs @ xs) = find_free_handle (i + length hs) xs"
  by (induction hs arbitrary: i) auto

lemma find_free_replicate: "find_free_handle i (replicate n INVALID_HANDLE_VALUE) = (if n = 0 then None else Some i)"
  by (cases n) simp_all

lemma find_handle_front:
  "h \<in> set hs \<Longrightarrow> \<exists>xs ys. hs = xs @ h # ys \<and> h \<notin> set xs \<and> find_handle i h (hs @ zs) = Some (i + length xs)"
proof (induction hs arbitrary: i)
  case (Cons a hs)
  show ?case
  proof (cases "a = h")
    case True
    then show ?thesis by (intro exI[of _ "[]"] exI[of _ hs]) simp
  next
    case False
    with Cons.prems have "h \<in> set hs" by simp
    from Cons.IH[OF this, of "Suc i"]
    obtain xs ys where "hs = xs @ h # ys" "h \<notin> set xs" "find_handle (Suc i) h (hs @ zs) = Some (Suc i + length xs)"
      by blast
    with False show ?thesis by (intro exI[of _ "a # xs"] exI[of _ ys]) simp
  qed
qed simp

lemma le_invalid: "h \<le> INVALID_HANDLE_VALUE"
  by (simp add: INVALID_HANDLE_VALUE_def)

lemma sort_closed:
  "sort (xs @ INVALID_HANDLE_VALUE # ys @ replicate n INVALID_HANDLE_VALUE)
     = sort (xs @ ys) @ replicate (Suc n) INVALID_HANDLE_VALUE"
proof (rule properties_for_sort)
  show "mset (sort (xs @ ys) @ replicate (Suc n) INVALID_HANDLE_VALUE)
      = mset (xs @ INVALID_HANDLE_VALUE # ys @ replicate n INVALID_HANDLE_VALUE)"
    by simp
  show "sorted (sort (xs @ ys) @ replicate (Suc n) INVALID_HANDLE_VALUE)"
    by (auto simp: sorted_append le_invalid simp del: replicate_Suc)
qed

lemma insert_callback_inv:
  assumes "timer_inv hs t" "length hs < MAXIMUM_WAIT_OBJECTS" "h \<notin> set (handles t)" "h \<noteq> NULL"
  shows "fst (insert_callback h j d p t) = Some h \<and> timer_inv (hs @ [h]) (snd (insert_callback h j d p t))
     \<and> callbacks (snd (insert_callback h j d p t)) = (callbacks t)(h \<mapsto> make_callback j d p)
     \<and> active_callbacks (snd (insert_callback h j d p t)) = active_callbacks t + 1
     \<and> callbacks_to_remove (snd (insert_callback h j d p t)) = callbacks_to_remove t"
proof -
  obtain n where n: "MAXIMUM_WAIT_OBJECTS - length hs = Suc n" using assms(2) by (metis Suc_diff_Suc)
  then have t: "handles t = hs @ INVALID_HANDLE_VALUE # replicate n INVALID_HANDLE_VALUE"
    "MAXIMUM_WAIT_OBJECTS - Suc (length hs) = n"
    using assms(1) by (auto simp: timer_inv_def)
  have "find_free_handle 0 (handles t) = Some (length hs)"
    using assms(1,2) by (simp add: timer_inv_def find_free_front find_free_replicate)
  moreover have "h \<notin> dom (callbacks t)" "h \<noteq> INVALID_HANDLE_VALUE" "h \<notin> set hs" using assms t by (auto simp: timer_inv_def)
  moreover have "(handles t)[length hs := h] = (hs @ [h]) @ replicate (MAXIMUM_WAIT_OBJECTS - length (hs @ [h])) INVALID_HANDLE_VALUE"
    using t by simp
  ultimately show ?thesis
    using assms(1,2,4) by (auto simp: insert_callback_def insert_handle_def timer_inv_def Let_def)
qed

lemma close_handle_entry_inv:
  assumes "timer_inv hs t" "h \<in> set hs"
  shows "timer_inv (sort (remove1 h hs)) (close_handle_entry h t) \<and> active_callbacks (close_handle_entry h t) = active_callbacks t - 1"
proof -
  have "handles t = hs @ replicate (MAXIMUM_WAIT_OBJECTS - length hs) INVALID_HANDLE_VALUE"
    using assms(1) by (simp add: timer_inv_def)
  with find_handle_front[OF assms(2), of 0] obtain xs ys where split: "hs = xs @ h # ys" "h \<notin> set xs"
    "find_handle 0 h (handles t) = Some (length xs)"
    by (metis add_0)
  then have "close_handle_entry h t = t\<lparr>callbacks := (callbacks t)(h := None),
      handles := sort (xs @ ys) @ replicate (Suc (MAXIMUM_WAIT_OBJECTS - length hs)) INVALID_HANDLE_VALUE,
      active_callbacks := active_callbacks t - 1\<rparr>"
    using assms(1) sort_closed[of xs ys "MAXIMUM_WAIT_OBJECTS - length hs"]
    by (simp add: close_handle_entry_def timer_inv_def list_update_append)
  moreover have "remove1 h hs = xs @ ys" using split(1,2) by (simp add: remove1_append)
  moreover have "Suc (MAXIMUM_WAIT_OBJECTS - length hs) = MAXIMUM_WAIT_OBJECTS - length (xs @ ys)"
    using assms(1) split(1) by (simp add: timer_inv_def Suc_diff_Suc)
  ultimately show ?thesis
    using assms(1) split(1) by (auto simp: timer_inv_def simp del: replicate_Suc)
qed

lemma timer_inv_fields [simp]:
  "timer_inv hs (t\<lparr>callbacks_to_remove := rs\<rparr>) = timer_inv hs t" "timer_inv hs (t\<lparr>active_callbacks := n\<rparr>) = timer_inv hs t"
  "timer_inv hs (t\<lparr>ran := js\<rparr>) = timer_inv hs t"
  by (simp_all add: timer_inv_def)

lemma removal_loop_result:
  assumes "timer_inv hs t" "distinct rs" "set rs \<subseteq> set hs" "callbacks_to_remove t = rs"
  shows "\<exists>hs'. timer_inv hs' (removal_loop rs t) \<and> set hs' = set hs - set rs
     \<and> callbacks_to_remove (removal_loop rs t) = [] \<and> active_callbacks (removal_loop rs t) = active_callbacks t - 2 * of_nat (length rs)"
  using assms
proof (induction rs arbitrary: hs t)
  case (Cons r rs)
  define u where "u = (let t = (close_handle_entry r t)\<lparr>callbacks_to_remove := rs\<rparr> in t\<lparr>active_callbacks := active_callbacks t - 1\<rparr>)"
  have close: "timer_inv (sort (remove1 r hs)) u" "active_callbacks u = active_callbacks t - 2" "callbacks_to_remove u = rs"
    using close_handle_entry_inv[OF Cons.prems(1), of r] Cons.prems(3) by (simp_all add: u_def Let_def)
  have set: "set (sort (remove1 r hs)) = set hs - {r}"
    using Cons.prems(1) by (simp add: timer_inv_def)
  then have "set rs \<subseteq> set (sort (remove1 r hs))" using Cons.prems(2,3) by auto
  from Cons.IH[OF close(1) _ this close(3)] Cons.prems(2) set close(2) obtain hs' where
    "timer_inv hs' (removal_loop (r # rs) t)" "set hs' = set hs - {r} - set rs" "callbacks_to_remove (removal_loop (r # rs) t) = []"
    "active_callbacks (removal_loop (r # rs) t) = active_callbacks t - 2 - 2 * of_nat (length rs)"
    by (auto simp flip: u_def)
  then show ?case by (intro exI[of _ hs']) (auto simp: algebra_simps)
qed auto

lemma dispatch_keeps:
  "dispatch_callback_for_index i t = Some u \<Longrightarrow> timer_inv hs u = timer_inv hs t \<and> callbacks_to_remove u = callbacks_to_remove t
     \<and> active_callbacks u = active_callbacks t"
  by (auto simp: dispatch_callback_for_index_def split: if_splits option.splits)

section \<open>Interleavings\<close>

text \<open>
  The calls of the threads, each of which holds the lock of the timers: an insertion, for which
  \<^verbatim>\<open>CreateWaitableTimer\<close> fails with a null handle or gives a handle that is not open; the request to
  remove any handle, registered or not; one turn of the timer thread.
\<close>

inductive timers_step :: "'j timer_st \<Rightarrow> 'j timer_st \<Rightarrow> bool" where
  insert: "h = NULL \<or> h \<notin> set (handles t) \<and> h \<noteq> INVALID_HANDLE_VALUE \<Longrightarrow> timers_step t (snd (insert_callback h j d p t))"
| remove: "timers_step t (remove_callback h t)"
| tick: "dispatch_callback_for_index i t = Some u \<Longrightarrow> timers_step t (query_removal_queue u)"

text \<open>The array with the slots that failed insertions leave: a null handle that is no key of the map.\<close>

definition slots_inv :: "u64 list \<Rightarrow> 'j timer_st \<Rightarrow> bool" where
  "slots_inv hs t \<longleftrightarrow> length hs \<le> MAXIMUM_WAIT_OBJECTS
     \<and> handles t = hs @ replicate (MAXIMUM_WAIT_OBJECTS - length hs) INVALID_HANDLE_VALUE
     \<and> distinct (filter (\<lambda>h. h \<noteq> NULL) hs) \<and> INVALID_HANDLE_VALUE \<notin> set hs \<and> dom (callbacks t) = set hs - {NULL}"

lemma slots_inv_fields [simp]:
  "slots_inv hs (t\<lparr>callbacks_to_remove := rs\<rparr>) = slots_inv hs t" "slots_inv hs (t\<lparr>active_callbacks := n\<rparr>) = slots_inv hs t"
  "slots_inv hs (t\<lparr>ran := js\<rparr>) = slots_inv hs t"
  by (simp_all add: slots_inv_def)

lemma insert_callback_slots:
  assumes "slots_inv hs t" "h = NULL \<or> h \<notin> set (handles t) \<and> h \<noteq> INVALID_HANDLE_VALUE"
  shows "\<exists>hs'. slots_inv hs' (snd (insert_callback h j d p t))"
proof (cases "length hs < MAXIMUM_WAIT_OBJECTS")
  case True
  then obtain n where n: "MAXIMUM_WAIT_OBJECTS - length hs = Suc n" by (metis Suc_diff_Suc)
  then have t: "handles t = hs @ INVALID_HANDLE_VALUE # replicate n INVALID_HANDLE_VALUE"
    "MAXIMUM_WAIT_OBJECTS - Suc (length hs) = n"
    using assms(1) by (auto simp: slots_inv_def)
  have "find_free_handle 0 (handles t) = Some (length hs)"
    using assms(1) True by (simp add: slots_inv_def find_free_front find_free_replicate)
  then have "handles (snd (insert_callback h j d p t)) = (handles t)[length hs := h]"
    "dom (callbacks (snd (insert_callback h j d p t))) = dom (callbacks t) \<union> ({h} - {NULL})"
    by (auto simp: insert_callback_def insert_handle_def Let_def)
  moreover have "(handles t)[length hs := h] = (hs @ [h]) @ replicate (MAXIMUM_WAIT_OBJECTS - length (hs @ [h])) INVALID_HANDLE_VALUE"
    using t by simp
  moreover have "NULL \<noteq> INVALID_HANDLE_VALUE" by (simp add: INVALID_HANDLE_VALUE_def)
  moreover have "h \<noteq> NULL \<Longrightarrow> h \<notin> set hs" using assms(2) t(1) by auto
  ultimately have "slots_inv (hs @ [h]) (snd (insert_callback h j d p t))"
    using assms True unfolding slots_inv_def by auto
  then show ?thesis by blast
next
  case False
  then have "find_free_handle 0 (handles t) = None"
    using assms(1) find_free_front[of hs 0 "[]"] by (simp add: slots_inv_def)
  with assms(1) show ?thesis by (auto simp: insert_callback_def)
qed

lemma find_handle_none: "h \<notin> set hs \<Longrightarrow> find_handle i h hs = None"
  by (induction hs arbitrary: i) auto

lemma close_handle_entry_slots:
  assumes "slots_inv hs t"
  shows "\<exists>hs'. slots_inv hs' (close_handle_entry h t)"
proof -
  let ?n = "MAXIMUM_WAIT_OBJECTS - length hs"
  have t: "handles t = hs @ replicate ?n INVALID_HANDLE_VALUE" using assms by (simp add: slots_inv_def)
  consider (slot) "h \<in> set hs" | (free) "h = INVALID_HANDLE_VALUE" "h \<notin> set hs" "?n \<noteq> 0" | (absent) "h \<notin> set (handles t)"
    using t by auto
  then show ?thesis
  proof cases
    case slot
    from find_handle_front[OF slot, of 0 "replicate ?n INVALID_HANDLE_VALUE"] t obtain xs ys where
      split: "hs = xs @ h # ys" "find_handle 0 h (handles t) = Some (length xs)" by auto
    then have "close_handle_entry h t = t\<lparr>callbacks := (callbacks t)(h := None),
        handles := sort (xs @ ys) @ replicate (Suc ?n) INVALID_HANDLE_VALUE, active_callbacks := active_callbacks t - 1\<rparr>"
      using t sort_closed[of xs ys ?n] by (simp add: close_handle_entry_def list_update_append)
    moreover have "Suc ?n = MAXIMUM_WAIT_OBJECTS - length (xs @ ys)"
      using assms split(1) by (simp add: slots_inv_def Suc_diff_Suc)
    ultimately have "slots_inv (sort (xs @ ys)) (close_handle_entry h t)"
      using assms split(1) by (auto simp: slots_inv_def filter_sort simp del: replicate_Suc split: if_splits)
    then show ?thesis by blast
  next
    case free
    then obtain m where m: "?n = Suc m" using not0_implies_Suc by blast
    have "find_handle i h (xs @ h # ys) = Some (i + length xs)" if "h \<notin> set xs" for i xs ys
      using that by (induction xs arbitrary: i) auto
    then have "find_handle 0 h (handles t) = Some (length hs)" using free t m by simp
    moreover have "sort (hs @ replicate ?n INVALID_HANDLE_VALUE) = sort hs @ replicate ?n INVALID_HANDLE_VALUE"
      using sort_closed[of hs "[]" m] m by simp
    moreover have "(handles t)[length hs := INVALID_HANDLE_VALUE] = handles t" using t m by simp
    ultimately have "close_handle_entry h t = t\<lparr>callbacks := (callbacks t)(h := None),
        handles := sort hs @ replicate ?n INVALID_HANDLE_VALUE, active_callbacks := active_callbacks t - 1\<rparr>"
      using free t by (simp add: close_handle_entry_def)
    then have "slots_inv (sort hs) (close_handle_entry h t)" using assms free(1) by (auto simp: slots_inv_def filter_sort)
    then show ?thesis by blast
  next
    case absent
    then have "slots_inv hs (close_handle_entry h t)"
      using assms by (auto simp: close_handle_entry_def find_handle_none slots_inv_def)
    then show ?thesis by blast
  qed
qed

lemma removal_loop_slots: "\<exists>hs. slots_inv hs t \<Longrightarrow> \<exists>hs. slots_inv hs (removal_loop rs t)"
proof (induction rs arbitrary: t)
  case (Cons r rs)
  from Cons.prems close_handle_entry_slots obtain hs where "slots_inv hs (close_handle_entry r t)" by blast
  then have "\<exists>hs. slots_inv hs (let t = (close_handle_entry r t)\<lparr>callbacks_to_remove := rs\<rparr> in t\<lparr>active_callbacks := active_callbacks t - 1\<rparr>)"
    by (auto simp: Let_def)
  from Cons.IH[OF this] show ?case by simp
qed simp

lemma timers_step_slots: "timers_step t u \<Longrightarrow> \<exists>hs. slots_inv hs t \<Longrightarrow> \<exists>hs. slots_inv hs u"
proof (induction rule: timers_step.induct)
  case (insert h t j d p)
  from insert.prems obtain hs where "slots_inv hs t" by blast
  from insert_callback_slots[OF this insert.hyps] show ?case .
next
  case (remove t h)
  then show ?case by (simp add: remove_callback_def)
next
  case (tick i t u)
  then have "\<exists>hs. slots_inv hs u" by (auto simp: dispatch_callback_for_index_def split: if_splits option.splits)
  then show ?case unfolding query_removal_queue_def by (rule removal_loop_slots)
qed

lemma timer_init_slots: "slots_inv [] timer_init"
  by (simp add: timer_init_def slots_inv_def)

section \<open>Properties\<close>

text \<open>C39: the array that the timer thread waits on. Whatever the threads insert and remove, in any order, also
  when the creation of a timer fails and when the handle to remove is not registered, removed already or no
  handle at all, the slots in use stand at the front of the array, contiguous, and the rest of the array is
  free. The slots hold the handles of the registered callbacks, which are exactly the keys of the callback
  map, each in one slot, and beside them only null handles, which failed insertions have left.\<close>

theorem timer_handles_contiguous:
  assumes "timers_step\<^sup>*\<^sup>* timer_init t"
  shows "\<exists>hs. handles t = hs @ replicate (64 - length hs) INVALID_HANDLE_VALUE \<and> length (handles t) = 64
     \<and> INVALID_HANDLE_VALUE \<notin> set hs \<and> distinct (filter (\<lambda>h. h \<noteq> NULL) hs) \<and> dom (callbacks t) = set hs - {NULL}"
proof -
  from assms have "\<exists>hs. slots_inv hs t"
  proof (induction rule: rtranclp_induct)
    case base
    show ?case using timer_init_slots by (rule exI)
  next
    case (step t u)
    from timers_step_slots[OF step(2,3)] show ?case .
  qed
  then show ?thesis by (auto simp: slots_inv_def MAXIMUM_WAIT_OBJECTS_def)
qed

text \<open>C40: the counter of the timers does not survive a removal. Each removal lowers the counter twice, once
  in \<^verbatim>\<open>close_handle_entry\<close> and once in \<^verbatim>\<open>query_removal_queue\<close>, while one handle leaves the array. So when half of
  the callbacks are removed the timer thread returns although the other half is registered; and when the
  only callback is removed the thread goes on, waits for \<open>0xFFFFFFFF\<close> handles, and when that wait fails with
  the index \<open>0xFFFFFFFF\<close> it reads outside of the array.\<close>

theorem removal_counts_twice:
  assumes "timer_inv hs t" "active_callbacks t = of_nat (length hs)" "callbacks_to_remove t = rs" "distinct rs" "set rs \<subseteq> set hs"
    and "rs \<noteq> []" "unat i < 64"
  shows "active_callbacks (query_removal_queue t) = of_nat (length hs) - 2 * of_nat (length rs)
     \<and> (length hs = 2 * length rs \<longrightarrow>
         (\<exists>u hs'. run_timer_thread ((\<lambda>_ _. i) # ws) t = TimerReturned u \<and> timer_inv hs' u \<and> length hs' = length rs))
     \<and> (length hs = 1 \<longrightarrow> run_timer_thread ((\<lambda>_ _. i) # (\<lambda>n _. if 64 < n then 0xFFFFFFFF else 0) # ws) t = TimerFault)"
proof -
  from removal_loop_result[OF assms(1,4,5,3)] have counted: "active_callbacks (query_removal_queue t) = of_nat (length hs) - 2 * of_nat (length rs)"
    using assms(2,3) by (auto simp: query_removal_queue_def)
  have size: "length (handles t) = 64" "length hs \<le> 64" "distinct hs" using assms(1) by (auto simp: timer_inv_def MAXIMUM_WAIT_OBJECTS_def)
  then obtain u where u: "dispatch_callback_for_index i t = Some u"
    using assms(7) by (cases "callbacks t (handles t ! unat i)") (auto simp: dispatch_callback_for_index_def)
  from dispatch_keeps[OF u] have keeps: "timer_inv hs u" "callbacks_to_remove u = rs" "active_callbacks u = of_nat (length hs)"
    using assms(1-3) by auto
  from removal_loop_result[OF keeps(1) assms(4,5) keeps(2)] obtain hs' where hs': "timer_inv hs' (query_removal_queue u)"
    "set hs' = set hs - set rs" "active_callbacks (query_removal_queue u) = of_nat (length hs) - 2 * of_nat (length rs)"
    using keeps(2,3) by (auto simp: query_removal_queue_def)
  have "card (set hs - set rs) = length hs - length rs"
    using assms(4,5) size(3) by (simp add: card_Diff_subset distinct_card)
  with hs'(1,2) have rest: "length hs' = length hs - length rs" by (metis distinct_card timer_inv_def)
  have "length rs \<le> length hs" using assms(4,5) size(3) by (metis card_mono distinct_card finite_set)
  with assms(6) have started: "active_callbacks t \<noteq> 0" "length hs = 1 \<Longrightarrow> length rs = 1"
    using size(2) assms(2) by (auto simp: word_of_nat_eq_0_iff le_Suc_eq dest: dvd_imp_le)
  have "length (handles (query_removal_queue u)) = 64" using hs'(1) by (auto simp: timer_inv_def MAXIMUM_WAIT_OBJECTS_def)
  then have "length hs = 1 \<longrightarrow> run_timer_thread ((\<lambda>_ _. i) # (\<lambda>n _. if 64 < n then 0xFFFFFFFF else 0) # ws) t = TimerFault"
    using started u hs'(3) by (simp add: run_timer_thread_def dispatch_callback_for_index_def)
  moreover have "length hs = 2 * length rs \<longrightarrow> run_timer_thread ((\<lambda>_ _. i) # ws) t = TimerReturned (query_removal_queue u)"
    using started u hs'(3) by (simp add: run_timer_thread_def)
  ultimately show ?thesis using counted hs'(1) rest by auto
qed

text \<open>One callback, as the module registers it, and two, of which the first is to be removed.\<close>

definition one_timer :: "string timer_st" where
  "one_timer = snd (insert_callback 4 ''write_shared_mapping_operation'' 30 30 timer_init)"

definition two_timers :: "string timer_st" where
  "two_timers = snd (insert_callback 8 ''other'' 30 30 one_timer)"

lemma one_timer_inv: "timer_inv [4] one_timer" "active_callbacks one_timer = 1" "callbacks_to_remove one_timer = []"
  using insert_callback_inv[of "[]" "timer_init :: string timer_st" 4]
  by (auto simp: one_timer_def timer_inv_def[of "[]"] MAXIMUM_WAIT_OBJECTS_def timer_init_def INVALID_HANDLE_VALUE_def)

lemma two_timers_inv: "timer_inv [4, 8] two_timers" "active_callbacks two_timers = 2" "callbacks_to_remove two_timers = []"
proof -
  have "8 \<notin> set (handles one_timer)"
    using one_timer_inv(1) by (auto simp: timer_inv_def INVALID_HANDLE_VALUE_def)
  then show "timer_inv [4, 8] two_timers" "active_callbacks two_timers = 2" "callbacks_to_remove two_timers = []"
    using insert_callback_inv[OF one_timer_inv(1), of 8] one_timer_inv(2,3)
    by (auto simp: two_timers_def MAXIMUM_WAIT_OBJECTS_def)
qed

text \<open>The second timer of the module cannot be created.\<close>

theorem timer_handles_contiguous_witness:
  "\<exists>hs. handles (snd (insert_callback NULL ''other'' 30 30 one_timer)) = hs @ replicate (64 - length hs) INVALID_HANDLE_VALUE
     \<and> dom (callbacks (snd (insert_callback NULL ''other'' 30 30 one_timer))) = set hs - {NULL}"
proof -
  have "timers_step timer_init one_timer"
    unfolding one_timer_def by (rule timers_step.insert) (simp add: timer_init_def INVALID_HANDLE_VALUE_def)
  moreover have "timers_step one_timer (snd (insert_callback NULL ''other'' 30 30 one_timer))"
    by (rule timers_step.insert) simp
  ultimately have "timers_step\<^sup>*\<^sup>* timer_init (snd (insert_callback NULL ''other'' 30 30 one_timer))" by simp
  from timer_handles_contiguous[OF this] show ?thesis by blast
qed

theorem removal_counts_twice_witness:
  "(\<exists>u hs. run_timer_thread [\<lambda>_ _. 0] (remove_callback 4 two_timers) = TimerReturned u \<and> timer_inv hs u \<and> length hs = 1)
   \<and> run_timer_thread [\<lambda>_ _. 0, \<lambda>n _. if 64 < n then 0xFFFFFFFF else 0] (remove_callback 4 one_timer) = TimerFault"
  using removal_counts_twice[of "[4, 8]" "remove_callback 4 two_timers" "[4]" 0 "[]"] two_timers_inv
    removal_counts_twice[of "[4]" "remove_callback 4 one_timer" "[4]" 0 "[]"] one_timer_inv
  by (simp add: remove_callback_def)

text \<open>A timer that cannot be created costs a slot: its null handle is stored and the slot is never free again.\<close>

lemma failed_timer_loses_slot:
  assumes "timer_inv hs t" "length hs < MAXIMUM_WAIT_OBJECTS"
  shows "fst (insert_callback NULL j d p t) = None \<and> handles (snd (insert_callback NULL j d p t)) ! length hs = NULL
     \<and> active_callbacks (snd (insert_callback NULL j d p t)) = active_callbacks t"
proof -
  have "find_free_handle 0 (handles t) = Some (length hs)" "length (handles t) = MAXIMUM_WAIT_OBJECTS"
    using assms by (simp_all add: timer_inv_def find_free_front find_free_replicate)
  with assms(2) show ?thesis by (simp add: insert_callback_def)
qed

text \<open>The due time of the only timer of the module: a positive number of 100 nanosecond units, which \<^verbatim>\<open>SetWaitableTimer\<close>
  takes for an absolute time.\<close>

lemma due_time_is_absolute: "sint (due_time (make_callback j 30 30)) = 300000000" "period (make_callback j 30 30) = 30000"
  by (simp_all add: make_callback_def seconds_to_nanoseconds_def seconds_to_milliseconds_def ABSOLUTE_TIME_def SECONDS_def
      MILLISECONDS_def MICROSECONDS_def NANOSECONDS_def)

end
