(* ===== verification/ThreadPool.thy ===== *)
theory ThreadPool
  imports Kernel
begin

text \<open>
  The thread pool of the user-mode module (\<^verbatim>\<open>src/module/dispatcher/threadpool.cpp\<close>): a queue of jobs, a
  termination flag, the threads that take the jobs, and the condition variable they block on. A job is a
  value of the type \<open>'j\<close>. Each operation is one section under the mutex of the queue; the notifications
  of the condition variable come behind the section, outside the mutex, and the state counts those that
  are still to come. The relation \<open>pool_steps\<close> interleaves sections and notifications, with the list of
  what happened as its label.

  A thread is awake when it is about to lock the mutex and test the condition: at the start of a pass of
  its loop, or behind a wake-up. It is blocked while it waits on the condition variable. Blocking and
  unlocking the mutex are one step, as the standard says of \<^verbatim>\<open>wait\<close>.
\<close>

datatype 'j pool_worker = Awake | Blocked | Running 'j | Returned

datatype mutex_event = MutexLock | MutexUnlock

record 'j pool_st =
  thread_count :: nat
  should_terminate :: bool
  jobs :: "'j list"
  workers :: "'j pool_worker list"
  notify_ones :: nat
  notify_alls :: nat
  mutex_trace :: "mutex_event list"

section \<open>Operations\<close>

definition on_mutex :: "mutex_event list \<Rightarrow> 'j pool_st \<Rightarrow> 'j pool_st" where
  "on_mutex es p = p\<lparr>mutex_trace := mutex_trace p @ es\<rparr>"

definition thread_pool :: "nat \<Rightarrow> 'j pool_st" where
  "thread_pool n = \<lparr>thread_count = n, should_terminate = False, jobs = [], workers = replicate n Awake,
     notify_ones = 0, notify_alls = 0, mutex_trace = []\<rparr>"

text \<open>
  One pass of the idle loop of a thread, up to the job: it blocks when there is no job and no
  termination, which leaves the mutex unlocked; it returns when the pool terminates, even if there are
  jobs; else it takes the first job.
\<close>

datatype 'j wait_result = Blocks | Returns | Takes 'j

definition wait_for_task :: "'j pool_st \<Rightarrow> 'j wait_result \<times> 'j pool_st" where
  "wait_for_task p =
     (if jobs p = [] \<and> \<not> should_terminate p then (Blocks, on_mutex [MutexLock, MutexUnlock] p)
      else if should_terminate p then (Returns, on_mutex [MutexLock, MutexUnlock] p)
      else (Takes (hd (jobs p)), on_mutex [MutexLock, MutexUnlock] (p\<lparr>jobs := tl (jobs p)\<rparr>)))"

text \<open>The section of \<^verbatim>\<open>queue_job\<close>, behind which its \<^verbatim>\<open>notify_one\<close> is due.\<close>

definition queue_job :: "'j \<Rightarrow> 'j pool_st \<Rightarrow> 'j pool_st" where
  "queue_job job p = on_mutex [MutexLock, MutexUnlock] (p\<lparr>jobs := jobs p @ [job], notify_ones := Suc (notify_ones p)\<rparr>)"

text \<open>
  \<^verbatim>\<open>terminate\<close> sets the flag, behind which its \<^verbatim>\<open>notify_all\<close> is due, and then joins the threads, which
  waits until each has returned.
\<close>

definition set_termination :: "'j pool_st \<Rightarrow> 'j pool_st" where
  "set_termination p = on_mutex [MutexLock, MutexUnlock] (p\<lparr>should_terminate := True, notify_alls := Suc (notify_alls p)\<rparr>)"

definition join_threads :: "'j pool_st \<Rightarrow> 'j pool_st option" where
  "join_threads p = (if \<forall>w \<in> set (workers p). w = Returned then Some (p\<lparr>workers := []\<rparr>) else None)"

text \<open>The mutex is unlocked by hand, and again when the lock object goes out of scope.\<close>

definition busy_wait :: "'j pool_st \<Rightarrow> bool \<times> 'j pool_st" where
  "busy_wait p = (jobs p \<noteq> [], on_mutex [MutexLock, MutexUnlock, MutexUnlock] p)"

definition update_worker :: "nat \<Rightarrow> 'j pool_worker \<Rightarrow> 'j pool_st \<Rightarrow> 'j pool_st" where
  "update_worker i w p = p\<lparr>workers := (workers p)[i := w]\<rparr>"

text \<open>
  The notifications that are due: one wakes a blocked thread if there is any, and is lost if there is
  none; the other wakes all that are blocked.
\<close>

definition woken :: "'j pool_worker \<Rightarrow> 'j pool_worker" where
  "woken w = (case w of Blocked \<Rightarrow> Awake | _ \<Rightarrow> w)"

definition notify_one :: "nat \<Rightarrow> 'j pool_st \<Rightarrow> 'j pool_st" where
  "notify_one i p = p\<lparr>notify_ones := notify_ones p - 1, workers := (workers p)[i := woken (workers p ! i)]\<rparr>"

definition notify_all :: "'j pool_st \<Rightarrow> 'j pool_st" where
  "notify_all p = p\<lparr>notify_alls := notify_alls p - 1, workers := map woken (workers p)\<rparr>"

section \<open>Interleavings\<close>

datatype 'j pool_event = Queued 'j | Started nat 'j | Finished nat | Left nat | Terminating
  | Slept nat | Notified nat | NotifiedAll | SpuriouslyWoken nat

inductive pool_steps :: "'j pool_st \<Rightarrow> 'j pool_event list \<Rightarrow> 'j pool_st \<Rightarrow> bool" where
  none: "pool_steps p [] p"
| queue: "pool_steps p es q \<Longrightarrow> pool_steps p (es @ [Queued job]) (queue_job job q)"
| take: "pool_steps p es q \<Longrightarrow> i < length (workers q) \<Longrightarrow> workers q ! i = Awake \<Longrightarrow> wait_for_task q = (Takes job, r)
    \<Longrightarrow> pool_steps p (es @ [Started i job]) (update_worker i (Running job) r)"
| sleep: "pool_steps p es q \<Longrightarrow> i < length (workers q) \<Longrightarrow> workers q ! i = Awake \<Longrightarrow> wait_for_task q = (Blocks, r)
    \<Longrightarrow> pool_steps p (es @ [Slept i]) (update_worker i Blocked r)"
| leave: "pool_steps p es q \<Longrightarrow> i < length (workers q) \<Longrightarrow> workers q ! i = Awake \<Longrightarrow> wait_for_task q = (Returns, r)
    \<Longrightarrow> pool_steps p (es @ [Left i]) (update_worker i Returned r)"
| finish: "pool_steps p es q \<Longrightarrow> i < length (workers q) \<Longrightarrow> workers q ! i = Running job
    \<Longrightarrow> pool_steps p (es @ [Finished i]) (update_worker i Awake q)"
| notify: "pool_steps p es q \<Longrightarrow> 0 < notify_ones q \<Longrightarrow> i < length (workers q)
    \<Longrightarrow> (Blocked \<in> set (workers q) \<Longrightarrow> workers q ! i = Blocked)
    \<Longrightarrow> pool_steps p (es @ [Notified i]) (notify_one i q)"
| notify_all: "pool_steps p es q \<Longrightarrow> 0 < notify_alls q \<Longrightarrow> pool_steps p (es @ [NotifiedAll]) (notify_all q)"
| spurious: "pool_steps p es q \<Longrightarrow> i < length (workers q) \<Longrightarrow> workers q ! i = Blocked
    \<Longrightarrow> pool_steps p (es @ [SpuriouslyWoken i]) (update_worker i Awake q)"
| terminate: "pool_steps p es q \<Longrightarrow> pool_steps p (es @ [Terminating]) (set_termination q)"

text \<open>The jobs that a run queued, and the jobs it started, in order.\<close>

fun queued :: "'j pool_event list \<Rightarrow> 'j list" where
  "queued [] = []"
| "queued (Queued job # es) = job # queued es"
| "queued (_ # es) = queued es"

fun started :: "'j pool_event list \<Rightarrow> 'j list" where
  "started [] = []"
| "started (Started _ job # es) = job # started es"
| "started (_ # es) = started es"

lemma queued_append [simp]: "queued (xs @ ys) = queued xs @ queued ys"
  by (induction xs rule: queued.induct) auto

lemma started_append [simp]: "started (xs @ ys) = started xs @ started ys"
  by (induction xs rule: started.induct) auto

lemma pool_fields [simp]:
  "jobs (on_mutex ms p) = jobs p" "workers (on_mutex ms p) = workers p" "should_terminate (on_mutex ms p) = should_terminate p"
  "notify_ones (on_mutex ms p) = notify_ones p" "notify_alls (on_mutex ms p) = notify_alls p"
  "mutex_trace (on_mutex ms p) = mutex_trace p @ ms"
  "jobs (update_worker i w p) = jobs p" "workers (update_worker i w p) = (workers p)[i := w]" "mutex_trace (update_worker i w p) = mutex_trace p"
  "should_terminate (update_worker i w p) = should_terminate p"
  "notify_ones (update_worker i w p) = notify_ones p" "notify_alls (update_worker i w p) = notify_alls p"
  by (simp_all add: on_mutex_def update_worker_def)

lemmas pool_section_defs = queue_job_def set_termination_def notify_one_def notify_all_def

lemma wait_for_task_takes:
  "wait_for_task q = (Takes job, r) \<Longrightarrow> jobs q = job # jobs r \<and> \<not> should_terminate q"
  by (auto simp: wait_for_task_def split: if_splits)

lemma wait_for_task_returns:
  "wait_for_task q = (Returns, r) \<Longrightarrow> should_terminate q \<and> r = on_mutex [MutexLock, MutexUnlock] q"
  by (auto simp: wait_for_task_def split: if_splits)

lemma wait_for_task_blocks:
  "wait_for_task q = (Blocks, r) \<Longrightarrow> jobs q = [] \<and> \<not> should_terminate q \<and> r = on_mutex [MutexLock, MutexUnlock] q"
  by (auto simp: wait_for_task_def split: if_splits)

text \<open>What a pass of the idle loop leaves alone.\<close>

lemma wait_for_task_fields:
  "wait_for_task q = (x, r) \<Longrightarrow> workers r = workers q \<and> should_terminate r = should_terminate q \<and> notify_ones r = notify_ones q
     \<and> notify_alls r = notify_alls q \<and> mutex_trace r = mutex_trace q @ [MutexLock, MutexUnlock]"
  by (auto simp: wait_for_task_def split: if_splits)

section \<open>Properties\<close>

lemma pool_steps_fifo: "pool_steps p es q \<Longrightarrow> started es @ jobs q = jobs p @ queued es"
  by (induction rule: pool_steps.induct)
    (auto simp: pool_section_defs dest: wait_for_task_takes wait_for_task_returns wait_for_task_blocks)

lemma pool_steps_threads: "pool_steps p es q \<Longrightarrow> length (workers q) = length (workers p)"
  by (induction rule: pool_steps.induct) (auto simp: pool_section_defs dest: wait_for_task_fields)

lemma pool_steps_terminated: "pool_steps p es q \<Longrightarrow> should_terminate p \<Longrightarrow> should_terminate q \<and> started es = []"
  by (induction rule: pool_steps.induct) (auto simp: pool_section_defs dest: wait_for_task_fields wait_for_task_takes)

text \<open>
  No wake-up is lost: while a thread is blocked, the jobs of the queue are no more than the threads that
  are awake and the notifications that are due, and when the pool terminates the notification of all
  threads is due.
\<close>

definition awake :: "'j pool_worker list \<Rightarrow> nat" where
  "awake ws = length (filter (\<lambda>w. w = Awake) ws)"

definition wakeups_inv :: "'j pool_st \<Rightarrow> bool" where
  "wakeups_inv p \<longleftrightarrow> (Blocked \<in> set (workers p) \<longrightarrow>
     (if should_terminate p then 0 < notify_alls p else length (jobs p) \<le> awake (workers p) + notify_ones p))"

lemma awake_update:
  assumes "i < length ws"
  shows "awake (ws[i := w]) + of_bool (ws ! i = Awake) = awake ws + of_bool (w = Awake)"
proof -
  have "ws = take i ws @ ws ! i # drop (Suc i) ws" using assms by (rule id_take_nth_drop)
  moreover have "awake (take i ws @ ws ! i # drop (Suc i) ws) = awake (take i ws) + of_bool (ws ! i = Awake) + awake (drop (Suc i) ws)"
    by (simp add: awake_def)
  moreover have "awake (ws[i := w]) = awake (take i ws) + of_bool (w = Awake) + awake (drop (Suc i) ws)"
    using assms by (simp add: upd_conv_take_nth_drop awake_def)
  ultimately show ?thesis by simp
qed

lemma blocked_update: "Blocked \<in> set (ws[i := w]) \<Longrightarrow> w \<noteq> Blocked \<Longrightarrow> Blocked \<in> set ws"
  using set_update_subset_insert[of ws i w] by auto

lemma woken_not_blocked [simp]: "woken w \<noteq> Blocked" "Blocked \<noteq> woken w"
  by (simp_all add: woken_def split: pool_worker.splits)

lemma wakeups_inv_step:
  assumes "wakeups_inv p" "pool_steps p es q"
  shows "wakeups_inv q"
  using assms(2,1)
proof (induction rule: pool_steps.induct)
  case (take p es q i job r)
  from take.IH[OF take.prems] awake_update[OF take.hyps(2), of "Running job"] take.hyps(3)
    wait_for_task_takes[OF take.hyps(4)] wait_for_task_fields[OF take.hyps(4)]
  show ?case by (auto simp: wakeups_inv_def dest!: blocked_update)
next
  case (leave p es q i r)
  from leave.IH[OF leave.prems] wait_for_task_returns[OF leave.hyps(4)] show ?case
    by (auto simp: wakeups_inv_def dest!: blocked_update)
next
  case (finish p es q i job)
  from finish.IH[OF finish.prems] awake_update[OF finish.hyps(2), of Awake] finish.hyps(3) show ?case
    by (auto simp: wakeups_inv_def dest!: blocked_update)
next
  case (notify p es q i)
  show ?case
  proof (cases "Blocked \<in> set (workers q)")
    case True
    with notify.IH[OF notify.prems] notify.hyps(2,4) awake_update[OF notify.hyps(3), of Awake] show ?thesis
      by (auto simp: wakeups_inv_def notify_one_def woken_def dest!: blocked_update)
  next
    case False
    then have "workers q ! i \<noteq> Blocked" using notify.hyps(3) by (metis nth_mem)
    then have "woken (workers q ! i) = workers q ! i" by (simp add: woken_def split: pool_worker.splits)
    with False show ?thesis by (simp add: wakeups_inv_def notify_one_def)
  qed
next
  case (spurious p es q i)
  from spurious.IH[OF spurious.prems] awake_update[OF spurious.hyps(2), of Awake] spurious.hyps(3) show ?case
    by (auto simp: wakeups_inv_def dest!: blocked_update)
qed (auto simp: wakeups_inv_def queue_job_def set_termination_def notify_all_def dest: wait_for_task_blocks)

lemma thread_pool_wakeups: "wakeups_inv (thread_pool n)"
  by (simp add: wakeups_inv_def thread_pool_def)

text \<open>A thread that is not at work gets to the first job: at once if it is awake, else through a notification that is due.\<close>

lemma awake_starts:
  assumes "pool_steps p es q" "jobs q = job # js" "\<not> should_terminate q" "i < length (workers q)" "workers q ! i = Awake"
  shows "\<exists>r. pool_steps p (es @ [Started i job]) r \<and> jobs r = js \<and> workers r ! i = Running job"
proof -
  have "wait_for_task q = (Takes job, on_mutex [MutexLock, MutexUnlock] (q\<lparr>jobs := js\<rparr>))"
    using assms(2,3) by (simp add: wait_for_task_def)
  from pool_steps.take[OF assms(1,4,5) this] assms(4) show ?thesis
    by (intro exI[of _ "update_worker i (Running job) (on_mutex [MutexLock, MutexUnlock] (q\<lparr>jobs := js\<rparr>))"]) simp
qed

lemma idle_gets_job:
  assumes "pool_steps p es q" "wakeups_inv q" "jobs q = job # js" "\<not> should_terminate q"
    and "i < length (workers q)" "workers q ! i = Awake \<or> workers q ! i = Blocked"
  shows "\<exists>k fs r. (fs = [] \<or> fs = [Notified k]) \<and> pool_steps p (es @ fs @ [Started k job]) r \<and> jobs r = js \<and> workers r ! k = Running job"
proof (cases "Awake \<in> set (workers q)")
  case True
  then obtain k where "k < length (workers q)" "workers q ! k = Awake" by (auto simp: in_set_conv_nth)
  from awake_starts[OF assms(1,3,4) this] show ?thesis by force
next
  case False
  with assms(5,6) have i: "workers q ! i = Blocked" by (auto simp: in_set_conv_nth)
  with assms(5) have "Blocked \<in> set (workers q)" by (metis nth_mem)
  moreover have "awake (workers q) = 0" using False by (auto simp: awake_def filter_empty_conv)
  ultimately have due: "0 < notify_ones q" using assms(2-4) by (auto simp: wakeups_inv_def)
  let ?r = "notify_one i q"
  have r: "pool_steps p (es @ [Notified i]) ?r" using pool_steps.notify[OF assms(1) due assms(5)] i by simp
  have "jobs ?r = job # js" "\<not> should_terminate ?r" "i < length (workers ?r)" "workers ?r ! i = Awake"
    using assms(3-5) i by (simp_all add: notify_one_def woken_def)
  from awake_starts[OF r this] obtain u where "pool_steps p (es @ [Notified i] @ [Started i job]) u" "jobs u = js" "workers u ! i = Running job"
    by auto
  then show ?thesis by (intro exI[of _ i] exI[of _ "[Notified i]"] exI[of _ u]) simp
qed

lemma idle_leaves:
  assumes "pool_steps p es q" "wakeups_inv q" "should_terminate q" "notify_alls q = 0" "i < length (workers q)" "\<forall>job. workers q ! i \<noteq> Running job"
  shows "workers q ! i = Returned \<or> (\<exists>r. pool_steps p (es @ [Left i]) r \<and> workers r ! i = Returned)"
proof -
  have "Blocked \<notin> set (workers q)" using assms(2-4) by (auto simp: wakeups_inv_def)
  then have "workers q ! i \<noteq> Blocked" using assms(5) by (metis nth_mem)
  then have "workers q ! i = Awake \<or> workers q ! i = Returned" using assms(6) by (cases "workers q ! i") auto
  moreover have "wait_for_task q = (Returns, on_mutex [MutexLock, MutexUnlock] q)" using assms(3) by (simp add: wait_for_task_def)
  moreover have "workers (update_worker i Returned r) ! i = Returned" if "workers r = workers q" for r
    using assms(5) that by simp
  ultimately show ?thesis using pool_steps.leave[OF assms(1,5)] pool_fields(2) by metis
qed

text \<open>C38: the pool runs its jobs in the order in which they were queued, and no wake-up is lost. Whatever the
  threads and the callers do, wherever the notifications of the condition variable fall and also with
  spurious wake-ups, the jobs started so far are, in order, the first of the jobs that were queued, and the
  queue holds the rest: no job is lost, started twice or overtaken. There are as many threads as at the
  start. While the pool does not terminate, if there is a job and a thread that neither runs a job nor has
  returned, a thread can start the first job, at once or behind a notification that is due, without
  the help of a spurious wake-up; in particular a thread that is awake can start it. Once the pool
  terminates no job is started any more, so that the jobs of the queue are dropped, and when all threads
  have been notified every thread that runs no job returns.\<close>

theorem pool_runs_jobs_in_order:
  assumes "pool_steps (thread_pool n) es p"
  shows "started es @ jobs p = queued es \<and> length (workers p) = n
     \<and> (\<forall>job js i. jobs p = job # js \<and> i < n \<and> (workers p ! i = Awake \<or> workers p ! i = Blocked) \<and> \<not> should_terminate p \<longrightarrow>
          (\<exists>k fs q. (fs = [] \<or> fs = [Notified k]) \<and> pool_steps (thread_pool n) (es @ fs @ [Started k job]) q
             \<and> jobs q = js \<and> workers q ! k = Running job)
        \<and> (workers p ! i = Awake \<longrightarrow> (\<exists>q. pool_steps (thread_pool n) (es @ [Started i job]) q \<and> jobs q = js \<and> workers q ! i = Running job)))
     \<and> (\<forall>fs q. should_terminate p \<and> pool_steps p fs q \<longrightarrow> started fs = [] \<and> jobs q = jobs p @ queued fs)
     \<and> (\<forall>i < n. should_terminate p \<and> notify_alls p = 0 \<and> (\<forall>job. workers p ! i \<noteq> Running job) \<longrightarrow>
          workers p ! i = Returned \<or> (\<exists>q. pool_steps (thread_pool n) (es @ [Left i]) q \<and> workers q ! i = Returned))"
proof (intro conjI allI impI)
  note inv = wakeups_inv_step[OF thread_pool_wakeups assms]
  show "started es @ jobs p = queued es" using pool_steps_fifo[OF assms] by (simp add: thread_pool_def)
  show threads: "length (workers p) = n" using pool_steps_threads[OF assms] by (simp add: thread_pool_def)
  fix job js i
  assume a: "jobs p = job # js \<and> i < n \<and> (workers p ! i = Awake \<or> workers p ! i = Blocked) \<and> \<not> should_terminate p"
  with idle_gets_job[OF assms inv] threads show "\<exists>k fs q. (fs = [] \<or> fs = [Notified k])
      \<and> pool_steps (thread_pool n) (es @ fs @ [Started k job]) q \<and> jobs q = js \<and> workers q ! k = Running job" by blast
  assume "workers p ! i = Awake"
  with a threads awake_starts[OF assms] show "\<exists>q. pool_steps (thread_pool n) (es @ [Started i job]) q \<and> jobs q = js \<and> workers q ! i = Running job"
    by blast
next
  fix fs q
  assume "should_terminate p \<and> pool_steps p fs q"
  then show "started fs = []" "jobs q = jobs p @ queued fs"
    using pool_steps_terminated[of p fs q] pool_steps_fifo[of p fs q] by auto
next
  fix i
  assume "i < n" "should_terminate p \<and> notify_alls p = 0 \<and> (\<forall>job. workers p ! i \<noteq> Running job)"
  with idle_leaves[OF assms wakeups_inv_step[OF thread_pool_wakeups assms]] pool_steps_threads[OF assms]
  show "workers p ! i = Returned \<or> (\<exists>q. pool_steps (thread_pool n) (es @ [Left i]) q \<and> workers q ! i = Returned)"
    by (simp add: thread_pool_def)
qed

text \<open>The only thread of a pool is blocked when a job is queued; the notification brings it to the job.\<close>

theorem pool_runs_jobs_in_order_witness:
  "\<exists>k fs q. pool_steps (thread_pool 1) ([Slept 0, Queued ''timer''] @ fs @ [Started k ''timer'']) q \<and> jobs q = [] \<and> workers q ! k = Running ''timer''"
proof -
  let ?s = "update_worker 0 Blocked (on_mutex [MutexLock, MutexUnlock] (thread_pool 1)) :: string pool_st"
  let ?q = "queue_job ''timer'' ?s"
  have "pool_steps (thread_pool 1) [Slept 0] ?s"
    using pool_steps.sleep[OF pool_steps.none, of 0 "thread_pool 1"] by (simp add: wait_for_task_def thread_pool_def)
  from pool_steps.queue[OF this, of "''timer''"] have q: "pool_steps (thread_pool 1) [Slept 0, Queued ''timer''] ?q" by simp
  have "jobs ?q = [''timer'']" "workers ?q ! 0 = Blocked" "\<not> should_terminate ?q"
    by (simp_all add: queue_job_def thread_pool_def)
  with conjunct1[OF conjunct2[OF conjunct2[OF pool_runs_jobs_in_order[OF q]]], rule_format, of "''timer''" "[]" 0] show ?thesis by blast
qed

text \<open>
  A locked mutex is unlocked once, an unlocked one never: what the standard asks of the events on a mutex.
\<close>

fun mutex_ok :: "mutex_event list \<Rightarrow> bool" where
  "mutex_ok [] = True"
| "mutex_ok (MutexLock # MutexUnlock # es) = mutex_ok es"
| "mutex_ok _ = False"

lemma mutex_ok_append: "mutex_ok xs \<Longrightarrow> mutex_ok (xs @ ys) = mutex_ok ys"
  by (induction xs rule: mutex_ok.induct) simp_all

lemma pool_steps_mutex: "pool_steps p es q \<Longrightarrow> mutex_ok (mutex_trace p) \<Longrightarrow> mutex_ok (mutex_trace q)"
  by (induction rule: pool_steps.induct)
    (auto simp: pool_section_defs mutex_ok_append dest: wait_for_task_fields)

text \<open>The other operations keep to it; \<^verbatim>\<open>busy_wait\<close> unlocks a mutex that is not locked.\<close>

lemma busy_wait_unlocks_twice:
  assumes "pool_steps (thread_pool n) es p"
  shows "mutex_ok (mutex_trace p) \<and> \<not> mutex_ok (mutex_trace (snd (busy_wait p)))"
  using pool_steps_mutex[OF assms] by (simp add: thread_pool_def busy_wait_def mutex_ok_append)

text \<open>\<^verbatim>\<open>terminate\<close> does not return while a thread runs a job.\<close>

lemma join_waits_for_jobs: "Running job \<in> set (workers p) \<Longrightarrow> join_threads p = None"
  by (auto simp: join_threads_def)

end
