(* ===== verification/UserModule.thy ===== *)
theory UserModule
  imports KernelInterface UserTimer ThreadPool
begin

text \<open>
  The dispatcher of the user-mode module (\<^verbatim>\<open>src/module/dispatcher/dispatcher.cpp\<close>, created by \<^verbatim>\<open>module.cpp\<close>), which owns the
  timers, the thread pool and the interface to the driver; and the module together with the driver: \<open>forwards\<close>
  states that \<^verbatim>\<open>DeviceIoControl\<close> hands a request to the driver's \<^verbatim>\<open>DeviceControl\<close> as the I/O manager documents it for
  buffered requests, and the state of the system is then the state of the driver.
\<close>

section \<open>The dispatcher\<close>

definition KERNEL_DISPATCH_FUNCTION_COUNT :: nat where "KERNEL_DISPATCH_FUNCTION_COUNT = 12"
definition DISPATCHER_THREAD_COUNT :: nat where "DISPATCHER_THREAD_COUNT = 4"
definition WRITE_SHARED_MAPPING_PERIOD :: u32 where "WRITE_SHARED_MAPPING_PERIOD = 30"
definition WRITE_SHARED_MAPPING_DUE_TIME :: u32 where "WRITE_SHARED_MAPPING_DUE_TIME = 30"

datatype module_job = TimerThread | CompletionPort | EnumerateHandleTablesJob | PerformIntegrityCheckJob | ScanForUnlinkedProcessesJob
  | VerifyProcessModuleJob | ValidateDriverObjectsJob | RunNmiCallbacksJob | ScanForAttachedThreadsJob | InitiateApcStackwalkJob
  | ScanForEptHooksJob | PerformDpcStackwalkJob | ValidateSystemModulesJob | ValidatePciDevicesJob

datatype timer_routine = WriteSharedMappingOperation

record 'w dispatcher_st =
  dp_timers :: "timer_routine timer_st"
  dp_pool :: "module_job pool_st"
  dp_interface :: "'w ki_st"

definition make_dispatcher :: "'w os_env \<Rightarrow> ptr \<Rightarrow> ptr \<times> u64 \<Rightarrow> 'w \<Rightarrow> 'w dispatcher_st" where
  "make_dispatcher e events_data m w = \<lparr>dp_timers = timer_init, dp_pool = thread_pool DISPATCHER_THREAD_COUNT,
     dp_interface = kernel_interface e events_data m w\<rparr>"

definition generate_rand_int :: "nat \<Rightarrow> nat \<Rightarrow> nat" where "generate_rand_int rand limit = rand mod limit"

text \<open>The callback of the timer: a random operation is written into the shared page.\<close>

definition write_random_operation :: "nat \<Rightarrow> 'w dispatcher_st \<Rightarrow> 'w dispatcher_st option" where
  "write_random_operation rand d = do {
     let operation = generate_rand_int rand SHARED_STATE_OPERATION_COUNT;
     k \<leftarrow> write_shared_mapping_operation (of_nat operation) (dp_interface d);
     Some (d\<lparr>dp_interface := k\<rparr>)
   }"

definition init_timer_callbacks :: "'w os_env \<Rightarrow> u64 \<Rightarrow> 'w dispatcher_st \<Rightarrow> 'w dispatcher_st" where
  "init_timer_callbacks e new_timer d =
     (let d = d\<lparr>dp_interface := initiate_shared_mapping e (dp_interface d)\<rparr>
      in d\<lparr>dp_timers := snd (insert_callback new_timer WriteSharedMappingOperation WRITE_SHARED_MAPPING_DUE_TIME
             WRITE_SHARED_MAPPING_PERIOD (dp_timers d))\<rparr>)"

definition queue_timer_thread :: "'w dispatcher_st \<Rightarrow> 'w dispatcher_st" where
  "queue_timer_thread d = d\<lparr>dp_pool := queue_job TimerThread (dp_pool d)\<rparr>"

definition run_io_port_thread :: "'w dispatcher_st \<Rightarrow> 'w dispatcher_st" where
  "run_io_port_thread d = d\<lparr>dp_pool := queue_job CompletionPort (dp_pool d)\<rparr>"

text \<open>\<open>turns\<close> turns of the loop of \<^verbatim>\<open>run\<close>, which has no end.\<close>

definition run_dispatcher :: "'w os_env \<Rightarrow> u64 \<Rightarrow> nat \<Rightarrow> 'w dispatcher_st \<Rightarrow> 'w dispatcher_st" where
  "run_dispatcher e new_timer turns d =
     (let d = init_timer_callbacks e new_timer d;
          d = queue_timer_thread d;
          d = run_io_port_thread d;
          d = d\<lparr>dp_pool := queue_job CompletionPort (dp_pool d)\<rparr>
      in d\<lparr>dp_interface := (initiate_apc_stackwalk e ^^ turns) (dp_interface d)\<rparr>)"

definition kernel_jobs :: "module_job list" where
  "kernel_jobs = [EnumerateHandleTablesJob, PerformIntegrityCheckJob, ScanForUnlinkedProcessesJob, VerifyProcessModuleJob,
     ValidateDriverObjectsJob, RunNmiCallbacksJob, ScanForAttachedThreadsJob, InitiateApcStackwalkJob, ScanForEptHooksJob,
     PerformDpcStackwalkJob, ValidateSystemModulesJob, ValidatePciDevicesJob]"

definition issue_kernel_job :: "nat \<Rightarrow> 'w dispatcher_st \<Rightarrow> 'w dispatcher_st" where
  "issue_kernel_job rand d =
     d\<lparr>dp_pool := queue_job (kernel_jobs ! generate_rand_int rand KERNEL_DISPATCH_FUNCTION_COUNT) (dp_pool d)\<rparr>"

text \<open>What the jobs do; the loops of the timer thread and the completion port are \<open>run_timer_thread\<close> and \<open>run_completion_port\<close>.\<close>

fun run_kernel_job :: "'w os_env \<Rightarrow> module_job \<Rightarrow> 'w ki_st \<Rightarrow> 'w ki_st option" where
  "run_kernel_job e EnumerateHandleTablesJob s = Some (enumerate_handle_tables e s)"
| "run_kernel_job e PerformIntegrityCheckJob s = Some (perform_integrity_check e s)"
| "run_kernel_job e ScanForUnlinkedProcessesJob s = Some (scan_for_unlinked_processes e s)"
| "run_kernel_job e VerifyProcessModuleJob s = Some (verify_process_module_executable_regions e s)"
| "run_kernel_job e ValidateDriverObjectsJob s = Some (validate_system_driver_objects e s)"
| "run_kernel_job e RunNmiCallbacksJob s = Some (run_nmi_callbacks e s)"
| "run_kernel_job e ScanForAttachedThreadsJob s = Some (scan_for_attached_threads e s)"
| "run_kernel_job e InitiateApcStackwalkJob s = Some (initiate_apc_stackwalk e s)"
| "run_kernel_job e ScanForEptHooksJob s = Some (scan_for_ept_hooks e s)"
| "run_kernel_job e PerformDpcStackwalkJob s = Some (perform_dpc_stackwalk e s)"
| "run_kernel_job e ValidateSystemModulesJob s = Some (validate_system_modules e s)"
| "run_kernel_job e ValidatePciDevicesJob s = Some (validate_pci_devices e s)"
| "run_kernel_job e _ s = None"

section \<open>The I/O manager\<close>

text \<open>A buffered request: the system buffer starts with the input and is large enough for the output.\<close>

definition buffered_request :: "u32 \<Rightarrow> u8 list \<Rightarrow> u32 \<Rightarrow> u8 list \<Rightarrow> IRP" where
  "buffered_request code input n pad = \<lparr>irp_Stack = Some \<lparr>io_IoControlCode = code, io_InputBufferLength = of_nat (length input),
     io_OutputBufferLength = n\<rparr>, irp_SystemBuffer = input @ pad, irp_Status = 0, irp_Information = 0\<rparr>"

text \<open>
  \<open>irp_of\<close> is the address of the next request that the I/O manager allocates. A request that stays pending is
  possible with an overlapped structure only. Two things go beyond what is documented. The device is opened for
  overlapped operations, and \<^verbatim>\<open>DeviceIoControl\<close> promises nothing for such a handle when it gets no overlapped
  structure, which is how the module sends all requests but those for reports; here the driver gets them all the
  same, as it does when they do not stay pending. And a result that is not zero is the value of \<^verbatim>\<open>TRUE\<close>.
\<close>

definition forwards :: "'a io_env \<Rightarrow> ('a io_st_scheme \<Rightarrow> ptr) \<Rightarrow> 'a io_st_scheme os_env \<Rightarrow> bool" where
  "forwards d irp_of e \<longleftrightarrow> (\<forall>code input n ov w. irp_of w \<noteq> NULL
     \<and> fst (os_DeviceIoControl e code input n ov w) \<in> {0, 1}
     \<and> (\<exists>pad. length pad = unat n - length input \<and>
          (\<forall>status w'. DeviceControl d (irp_of w) (w\<lparr>irps := (irps w)(irp_of w \<mapsto> buffered_request code input n pad)\<rparr>) = Some (status, w')
             \<and> (status = STATUS_PENDING \<longrightarrow> ov \<noteq> NULL) \<longrightarrow>
           fst (os_DeviceIoControl e code input n ov w) = (if NT_SUCCESS status \<and> status \<noteq> STATUS_PENDING then 1 else 0)
           \<and> snd (snd (os_DeviceIoControl e code input n ov w)) = w')))"

lemma forwardsE:
  assumes "forwards d irp_of e"
  obtains pad where "length pad = unat n - length input" "irp_of w \<noteq> NULL"
    "\<And>status w'. DeviceControl d (irp_of w) (w\<lparr>irps := (irps w)(irp_of w \<mapsto> buffered_request code input n pad)\<rparr>) = Some (status, w')
       \<Longrightarrow> (status = STATUS_PENDING \<Longrightarrow> ov \<noteq> NULL)
       \<Longrightarrow> \<exists>bs. os_DeviceIoControl e code input n ov w = ((if NT_SUCCESS status \<and> status \<noteq> STATUS_PENDING then 1 else 0), bs, w')"
proof -
  from assms obtain pad where "length pad = unat n - length input" "irp_of w \<noteq> NULL"
    "\<forall>status w'. DeviceControl d (irp_of w) (w\<lparr>irps := (irps w)(irp_of w \<mapsto> buffered_request code input n pad)\<rparr>) = Some (status, w')
       \<and> (status = STATUS_PENDING \<longrightarrow> ov \<noteq> NULL) \<longrightarrow>
     fst (os_DeviceIoControl e code input n ov w) = (if NT_SUCCESS status \<and> status \<noteq> STATUS_PENDING then 1 else 0)
     \<and> snd (snd (os_DeviceIoControl e code input n ov w)) = w'"
    unfolding forwards_def by blast
  then show ?thesis by (intro that) (auto simp: prod_eq_iff)
qed

lemma forwards_bool: "forwards d irp_of e \<Longrightarrow> fst (os_DeviceIoControl e c bs n ov w) \<in> {0, 1}"
  by (simp add: forwards_def)

lemma control_codes_agree:
  "RunNmiCallbacks = IOCTL_RUN_NMI_CALLBACKS" "ValidateDriverObjectsCode = IOCTL_VALIDATE_DRIVER_OBJECTS"
  "NotifyDriverOnProcessLaunch = IOCTL_NOTIFY_DRIVER_ON_PROCESS_LAUNCH" "QueryForApcCompletion = IOCTL_HANDLE_REPORTS_IN_CALLBACK_QUEUE"
  "PerformVirtualisationCheck = IOCTL_PERFORM_VIRTUALIZATION_CHECK" "EnumerateHandleTablesCode = IOCTL_ENUMERATE_HANDLE_TABLES"
  "NotifyDriverOnProcessTermination = IOCTL_NOTIFY_DRIVER_ON_PROCESS_TERMINATION" "ScanForUnlinkedProcesses = IOCTL_SCAN_FOR_UNLINKED_PROCESS"
  "PerformModuleIntegrityCheck = IOCTL_PERFORM_INTEGRITY_CHECK" "ScanFroAttachedThreads = IOCTL_DETECT_ATTACHED_THREADS"
  "ValidateProcessLoadedModuleCode = IOCTL_VALIDATE_PROCESS_LOADED_MODULE" "RequestHardwareInformation = IOCTL_REQUEST_HARDWARE_INFORMATION"
  "InitiateApcStackwalkOperation = IOCTL_INITIATE_APC_OPERATION" "ScanForEptHooks = IOCTL_CHECK_FOR_EPT_HOOK"
  "InitiateDpcStackwalk = IOCTL_LAUNCH_DPC_STACKWALK" "ValidateSystemModules = IOCTL_VALIDATE_SYSTEM_MODULES"
  "InsertIrpIntoIrpQueue = IOCTL_INSERT_IRP_INTO_QUEUE" "InitiateSharedMapping = IOCTL_INITIATE_SHARED_MAPPING"
  "ValidatePciDevicesCode = IOCTL_VALIDATE_PCI_DEVICES"
  by (simp_all add: user_codes ioctl_defs)

text \<open>The packet of the module, as the driver reads it.\<close>

lemma packet_read:
  "length (session_initiation_packet_bytes c key p) = 32"
  "length key = 16 \<Longrightarrow> read_packet (session_initiation_packet_bytes c key p @ pad) =
     \<lparr>pkt_session_cookie = c, pkt_session_aes_key = key, pkt_protected_process_id = p\<rparr>"
  by (simp_all add: session_initiation_packet_bytes_def read_packet_def packet_field_def packet_offsets AES_128_KEY_SIZE_def
      pack_struct_def pad_to_def align_up_def int32_def int64_def chars_def)

section \<open>Starting the session\<close>

lemma packet_request:
  assumes "forwards d irp_of e" "dv_lookup d (ucast (os_GetCurrentProcessId e)) = (st, p)" "NT_SUCCESS st"
    and "fst (dv_register_ob d) \<noteq> STATUS_PENDING"
  shows "\<exists>bs w'. os_DeviceIoControl e NotifyDriverOnProcessLaunch (session_initiation_packet_bytes 0 (replicate 16 0) (ucast (os_GetCurrentProcessId e)))
        0 NULL w = (if NT_SUCCESS (fst (dv_register_ob d)) then 1 else 0, bs, w')
     \<and> session w' = (session w)\<lparr>um_handle := ucast (os_GetCurrentProcessId e), km_handle := dv_process_id d p, session_process := p,
          is_session_active := True, session_cookie := 0, session_aes_key := replicate 16 0,
          registration_handle := if NT_SUCCESS (fst (dv_register_ob d)) then snd (dv_register_ob d) else registration_handle (session w)\<rparr>"
proof -
  let ?in = "session_initiation_packet_bytes 0 (replicate 16 0) (ucast (os_GetCurrentProcessId e))"
  obtain pad where pad: "irp_of w \<noteq> NULL"
    "\<And>status w'. DeviceControl d (irp_of w) (w\<lparr>irps := (irps w)(irp_of w \<mapsto> buffered_request NotifyDriverOnProcessLaunch ?in 0 pad)\<rparr>) = Some (status, w')
       \<Longrightarrow> (status = STATUS_PENDING \<Longrightarrow> NULL \<noteq> NULL)
       \<Longrightarrow> \<exists>bs. os_DeviceIoControl e NotifyDriverOnProcessLaunch ?in 0 NULL w
              = ((if NT_SUCCESS status \<and> status \<noteq> STATUS_PENDING then 1 else 0), bs, w')"
    using forwardsE[OF assms(1), of 0 ?in w NotifyDriverOnProcessLaunch NULL] by blast
  let ?w = "w\<lparr>irps := (irps w)(irp_of w \<mapsto> buffered_request NotifyDriverOnProcessLaunch ?in 0 pad)\<rparr>"
  let ?io = "\<lparr>io_IoControlCode = IOCTL_NOTIFY_DRIVER_ON_PROCESS_LAUNCH, io_InputBufferLength = 32, io_OutputBufferLength = 0\<rparr>"
  have irp: "irps ?w (irp_of w) = Some (buffered_request NotifyDriverOnProcessLaunch ?in 0 pad)"
    "irp_Stack (buffered_request NotifyDriverOnProcessLaunch ?in 0 pad) = Some ?io"
    "io_IoControlCode ?io = IOCTL_NOTIFY_DRIVER_ON_PROCESS_LAUNCH" "io_InputBufferLength ?io = 32"
    by (simp_all add: buffered_request_def control_codes_agree packet_read)
  have packet: "\<lparr>pkt_session_cookie = 0, pkt_session_aes_key = replicate 16 0, pkt_protected_process_id = ucast (os_GetCurrentProcessId e)\<rparr>
      = read_packet (irp_SystemBuffer (buffered_request NotifyDriverOnProcessLaunch ?in 0 pad))"
    by (simp add: buffered_request_def packet_read)
  from launch_request[OF pad(1) irp packet _ assms(3), of d p] assms(2) obtain t where
    "DeviceControl d (irp_of w) ?w = Some (fst (dv_register_ob d), t)"
    "session t = (session w)\<lparr>um_handle := ucast (os_GetCurrentProcessId e), km_handle := dv_process_id d p, session_process := p,
          is_session_active := True, session_cookie := 0, session_aes_key := replicate 16 0,
          registration_handle := if NT_SUCCESS (fst (dv_register_ob d)) then snd (dv_register_ob d) else registration_handle (session w)\<rparr>"
    by auto
  with pad(2)[of "fst (dv_register_ob d)" t] assms(4) show ?thesis by auto
qed


section \<open>A session that does not start\<close>

lemma refused_request:
  assumes "forwards d irp_of e" "\<not> is_session_active (session w)" "code \<noteq> NotifyDriverOnProcessLaunch"
  shows "\<exists>bs w'. os_DeviceIoControl e code bs' n ov w = (0, bs, w') \<and> session w' = session w \<and> irp_queue w' = irp_queue w"
proof -
  obtain pad where pad: "\<And>status w'. DeviceControl d (irp_of w) (w\<lparr>irps := (irps w)(irp_of w \<mapsto> buffered_request code bs' n pad)\<rparr>) = Some (status, w')
       \<Longrightarrow> (status = STATUS_PENDING \<Longrightarrow> ov \<noteq> NULL)
       \<Longrightarrow> \<exists>bs. os_DeviceIoControl e code bs' n ov w = ((if NT_SUCCESS status \<and> status \<noteq> STATUS_PENDING then 1 else 0), bs, w')"
    using forwardsE[OF assms(1), of n bs' w code ov] by blast
  let ?w = "w\<lparr>irps := (irps w)(irp_of w \<mapsto> buffered_request code bs' n pad)\<rparr>"
  obtain t where "DeviceControl d (irp_of w) ?w = Some (STATUS_ACCESS_DENIED, t)" "session t = session w" "irp_queue t = irp_queue w"
    using assms(2,3) by (auto simp: DeviceControl_def buffered_request_def session_check complete_request_eq control_codes_agree emit_def)
  with pad[of STATUS_ACCESS_DENIED t] show ?thesis by (auto simp: status_defs NT_SUCCESS_def)
qed

lemma failed_launch:
  assumes "forwards d irp_of e" "\<not> NT_SUCCESS (fst (dv_lookup d (ucast (os_GetCurrentProcessId e))))" "\<not> is_session_active (session (ki_world s))"
  shows "\<not> is_session_active (session (ki_world (notify_driver_on_process_launch e s)))
     \<and> irp_queue (ki_world (notify_driver_on_process_launch e s)) = irp_queue (ki_world s)
     \<and> ki_log (notify_driver_on_process_launch e s) = ki_log s @ [(''DeviceIoControl failed with status %x'', [])]
     \<and> ki_events (notify_driver_on_process_launch e s) = ki_events s"
proof -
  let ?in = "session_initiation_packet_bytes 0 (replicate 16 0) (ucast (os_GetCurrentProcessId e))"
  let ?w = "ki_world s"
  obtain pad where pad: "irp_of ?w \<noteq> NULL"
    "\<And>status w'. DeviceControl d (irp_of ?w) (?w\<lparr>irps := (irps ?w)(irp_of ?w \<mapsto> buffered_request NotifyDriverOnProcessLaunch ?in 0 pad)\<rparr>) = Some (status, w')
       \<Longrightarrow> (status = STATUS_PENDING \<Longrightarrow> NULL \<noteq> NULL)
       \<Longrightarrow> \<exists>bs. os_DeviceIoControl e NotifyDriverOnProcessLaunch ?in 0 NULL ?w
              = ((if NT_SUCCESS status \<and> status \<noteq> STATUS_PENDING then 1 else 0), bs, w')"
    using forwardsE[OF assms(1), of 0 ?in ?w NotifyDriverOnProcessLaunch NULL] by blast
  obtain t where "DeviceControl d (irp_of ?w) (?w\<lparr>irps := (irps ?w)(irp_of ?w \<mapsto> buffered_request NotifyDriverOnProcessLaunch ?in 0 pad)\<rparr>)
      = Some (STATUS_INVALID_PARAMETER, t)"
    "\<not> is_session_active (session t)" "irp_queue t = irp_queue ?w"
    using assms(2,3) pad(1)
    by (auto simp: DeviceControl_def session_check handle_request_def ioctl_defs notify_process_launch_def control_codes_agree
        SessionInitialise_def ValidateIrpInputBuffer_def sizeof_SESSION_INITIATION_PACKET_def SessionInitialise_locked_result
        buffered_request_def packet_read complete_request_eq Let_def)
  with pad(2)[of STATUS_INVALID_PARAMETER t] show ?thesis
    by (auto simp: notify_driver_on_process_launch_def generic_driver_call_input_def log_error_def Let_def status_defs NT_SUCCESS_def)
qed


section \<open>From a detection to the log\<close>

lemma pending_request:
  assumes "forwards d irp_of e" "is_session_active (session w)" "deferred_count w = 0" "ov \<noteq> NULL"
  shows "\<exists>bs w' pad. os_DeviceIoControl e InsertIrpIntoIrpQueue [] n ov w = (0, bs, w') \<and> irp_of w \<noteq> NULL \<and> length pad = unat n
     \<and> irp_queue w' = irp_queue w @ [irp_of w] \<and> irp_count w' = irp_count w + 1 \<and> completed w' = completed w \<and> pool w' = pool w
     \<and> deferred_count w' = 0 \<and> session w' = session w
     \<and> irps w' = (irps w)(irp_of w \<mapsto> buffered_request InsertIrpIntoIrpQueue [] n pad)"
proof -
  obtain pad where pad: "length pad = unat n - length ([] :: u8 list)" "irp_of w \<noteq> NULL"
    "\<And>status w'. DeviceControl d (irp_of w) (w\<lparr>irps := (irps w)(irp_of w \<mapsto> buffered_request InsertIrpIntoIrpQueue [] n pad)\<rparr>) = Some (status, w')
       \<Longrightarrow> (status = STATUS_PENDING \<Longrightarrow> ov \<noteq> NULL)
       \<Longrightarrow> \<exists>bs. os_DeviceIoControl e InsertIrpIntoIrpQueue [] n ov w = ((if NT_SUCCESS status \<and> status \<noteq> STATUS_PENDING then 1 else 0), bs, w')"
    using forwardsE[OF assms(1), of n "[]" w InsertIrpIntoIrpQueue ov] by blast
  let ?w = "emit (Release SessionLock) (emit (Acquire SessionLock)
     (w\<lparr>irps := (irps w)(irp_of w \<mapsto> buffered_request InsertIrpIntoIrpQueue [] n pad)\<rparr>))"
  obtain w' where w': "insert_irp_into_queue (irp_of w) ?w = Some (STATUS_PENDING, w')" "irp_queue w' = irp_queue w @ [irp_of w]"
    "irp_count w' = irp_count w + 1" "completed w' = completed w" "pool w' = pool w" "deferred_count w' = 0" "session w' = session w"
    "irps w' = (irps w)(irp_of w \<mapsto> buffered_request InsertIrpIntoIrpQueue [] n pad)"
    using insert_into_queue[of ?w "irp_of w"] assms(3) by (auto simp: emit_def)
  then have "DeviceControl d (irp_of w) (w\<lparr>irps := (irps w)(irp_of w \<mapsto> buffered_request InsertIrpIntoIrpQueue [] n pad)\<rparr>) = Some (STATUS_PENDING, w')"
    using assms(2) by (simp add: DeviceControl_def session_check buffered_request_def control_codes_agree)
  from pad(3)[OF this] assms(4) pad(1,2) w'(2-8) show ?thesis by auto
qed

lemma events_used_again:
  assumes "events_ok s" "i < EVENT_COUNT" "\<forall>j < EVENT_COUNT. ev_in_use (ki_events s ! j) \<longleftrightarrow> j \<noteq> i"
  shows "events_ok (s\<lparr>ki_events := (ki_events s)[i := (ki_events s ! i)\<lparr>ev_in_use := True\<rparr>], ki_world := w\<rparr>)"
    and "all_in_use (s\<lparr>ki_events := (ki_events s)[i := (ki_events s ! i)\<lparr>ev_in_use := True\<rparr>], ki_world := w\<rparr>)"
proof -
  let ?evs = "(ki_events s)[i := (ki_events s ! i)\<lparr>ev_in_use := True\<rparr>]"
  have len: "length (ki_events s) = EVENT_COUNT" using assms(1) by (simp add: events_ok_def)
  have map: "map ev_buffer ?evs = map ev_buffer (ki_events s)"
    using len assms(2) by (simp add: map_update list_update_same_conv)
  have same: "\<exists>ev' \<in> set (ki_events s). ev_buffer ev = ev_buffer ev' \<and> ev_buffer_size ev = ev_buffer_size ev'" if "ev \<in> set ?evs" for ev
  proof -
    have "ki_events s ! i \<in> set (ki_events s)" using len assms(2) by simp
    with set_update_subset_insert[THEN subsetD, OF that] show ?thesis by force
  qed
  have "ev_buffer_size ev = MAXIMUM_REPORT_BUFFER_SIZE \<and> (\<exists>bs. ki_heap s (ev_buffer ev) = Some bs \<and> length bs = 1000)" if "ev \<in> set ?evs" for ev
    using same[OF that] assms(1) unfolding events_ok_def by metis
  with map assms(1) show "events_ok (s\<lparr>ki_events := ?evs, ki_world := w\<rparr>)"
    by (simp add: events_ok_def)
  show "all_in_use (s\<lparr>ki_events := ?evs, ki_world := w\<rparr>)"
    using assms(2,3) len by (auto simp: all_in_use_def in_set_conv_nth nth_list_update)
qed

text \<open>A report leaves the session of the driver alone.\<close>

lemma complete_more:
  assumes "csq_remove_by_callbacks f" "IrpQueueCompleteIrp f alloc b n s = Some (st, s')"
  shows "irp_st.more s' = irp_st.more s"
  using assms
  by (auto simp: csq_remove_by_callbacks_def IrpQueueCompleteIrp_def IrpQueuePeekNextEntry_def IrpQueueRemove_def IrpQueueAcquireLock_def
      IrpQueueReleaseLock_def IrpQueueDeferReport_def IrpQueueAllocateDeferredReport_def ExAllocatePool2_def ValidateIrpOutputBuffer_def
      free_buffer_def set_irp_def read_buffer_def copy_to_system_buffer_def IofCompleteRequest_def Let_def
      split: bind_splits if_splits list.splits option.splits prod.splits)

lemma complete_session:
  assumes "csq_remove_by_callbacks f" "IrpQueueCompleteIrp f alloc b n s = Some (st, s')"
  shows "session s' = session (s :: 'a sess_st_scheme)"
  using complete_more[OF assms] by (cases s, cases s') simp

lemma free_event_used:
  assumes "forwards d irp_of e" "events_ok s" "i < EVENT_COUNT" "\<forall>j < EVENT_COUNT. ev_in_use (ki_events s ! j) \<longleftrightarrow> j \<noteq> i"
    and "is_session_active (session (ki_world s))" "deferred_count (ki_world s) = 0"
  shows "\<exists>w pad. length pad = 1000 \<and> irp_of (ki_world s) \<noteq> NULL
     \<and> send_pending_irp e s = s\<lparr>ki_events := (ki_events s)[i := (ki_events s ! i)\<lparr>ev_in_use := True\<rparr>], ki_world := w\<rparr>
     \<and> irp_queue w = irp_queue (ki_world s) @ [irp_of (ki_world s)] \<and> irp_count w = irp_count (ki_world s) + 1
     \<and> completed w = completed (ki_world s) \<and> pool w = pool (ki_world s) \<and> deferred_count w = 0 \<and> session w = session (ki_world s)
     \<and> irps w = (irps (ki_world s))(irp_of (ki_world s) \<mapsto> buffered_request InsertIrpIntoIrpQueue [] 1000 pad)"
proof -
  let ?w = "ki_world s" and ?ov = "event_overlapped (ki_events_data s) i"
  have ev: "i < length (ki_events s)" "ki_events s ! i \<in> set (ki_events s)" using assms(2,3) by (auto simp: events_ok_def)
  then have size: "ev_buffer_size (ki_events s ! i) = 1000" and ov: "?ov \<noteq> NULL"
    using assms(2,3) by (auto simp: events_ok_def MAXIMUM_REPORT_BUFFER_SIZE_def)
  from pending_request[OF assms(1,5,6) ov, of 1000] obtain bs w pad where w:
    "os_DeviceIoControl e InsertIrpIntoIrpQueue [] 1000 ?ov ?w = (0, bs, w)" "length pad = 1000" "irp_of ?w \<noteq> NULL"
    "irp_queue w = irp_queue ?w @ [irp_of ?w]" "irp_count w = irp_count ?w + 1" "completed w = completed ?w" "pool w = pool ?w"
    "deferred_count w = 0" "session w = session ?w"
    "irps w = (irps ?w)(irp_of ?w \<mapsto> buffered_request InsertIrpIntoIrpQueue [] 1000 pad)"
    by auto
  have "send_pending_irp e s = s\<lparr>ki_events := (ki_events s)[i := (ki_events s ! i)\<lparr>ev_in_use := True\<rparr>], ki_world := w\<rparr>"
    using send_pending_irp_step[OF ev(1) _ _ forwards_bool[OF assms(1)]] assms(3,4) size w(1) by simp
  with w(2-10) show ?thesis by blast
qed

text \<open>The completed request that a report was delivered through.\<close>

lemma delivered_report:
  assumes "csq_remove_by_callbacks f" "queue_inv w" "irp_queue w = [i]" "i \<noteq> NULL"
    and "irps w i = Some (buffered_request InsertIrpIntoIrpQueue [] 1000 pad)" "length pad = 1000" "pool w b = Some (report_bytes r)"
  shows "\<exists>w' irp. IrpQueueCompleteIrp f alloc b (of_nat (sizeof_report r)) w = Some (STATUS_SUCCESS, w')
     \<and> completed w' = completed w @ [(i, irp)] \<and> take (unat (irp_Information irp)) (irp_SystemBuffer irp) = report_bytes r
     \<and> irp_queue w' = [] \<and> deferred_count w' = deferred_count w"
proof -
  let ?n = "of_nat (sizeof_report r) :: u32" and ?irp = "buffered_request InsertIrpIntoIrpQueue [] 1000 pad"
  have n: "unat ?n = sizeof_report r" "?n \<noteq> 0" "?n \<le> 1000" by (cases r; simp)+
  have "irp_takes w i ?n" using assms(4-6) n(2,3) by (simp add: irp_takes_def buffered_request_def)
  from IrpQueueCompleteIrp_delivers[OF assms(1-3) this assms(7), of alloc] assms(5) n(1) obtain w' where
    "IrpQueueCompleteIrp f alloc b ?n w = Some (STATUS_SUCCESS, w')" "completed w' = completed w @ [(i, delivered ?irp (report_bytes r) ?n)]"
    "irp_queue w' = []" "deferred_count w' = deferred_count w"
    by (auto simp: length_report_bytes)
  moreover have "take (unat (irp_Information (delivered ?irp (report_bytes r) ?n))) (irp_SystemBuffer (delivered ?irp (report_bytes r) ?n)) = report_bytes r"
    by (cases r) (simp_all add: delivered_def length_report_bytes)
  ultimately show ?thesis by blast
qed

text \<open>C4: from a detection to the log. Take an active session, an empty queue of requests, no deferred report and one free event
  of the module. The module sends a request for that event, and the driver keeps it pending. When a detection
  then hands a printable report to the driver's queue, the driver completes that request with exactly the bytes
  of the report; and when the I/O manager has copied them to the buffer of the event, the completion port prints
  the lines of the report and sends a new request, which the driver keeps pending again: its queue holds it.\<close>

theorem detection_reaches_log:
  assumes "forwards d irp_of e" "csq_remove_by_callbacks f" "events_ok s" "i < EVENT_COUNT"
    and "\<forall>j < EVENT_COUNT. ev_in_use (ki_events s ! j) \<longleftrightarrow> j \<noteq> i"
    and "is_session_active (session (ki_world s))" "queue_inv (ki_world s)" "irp_queue (ki_world s) = []" "deferred_count (ki_world s) = 0"
    and "pool (ki_world s) b = Some (report_bytes r)" "printable r"
  shows "\<exists>w irp t. irp_queue (ki_world (send_pending_irp e s)) = [irp_of (ki_world s)]
     \<and> IrpQueueCompleteIrp f alloc b (of_nat (sizeof_report r)) (ki_world (send_pending_irp e s)) = Some (STATUS_SUCCESS, w)
     \<and> completed w = completed (ki_world s) @ [(irp_of (ki_world s), irp)] \<and> irp_queue w = []
     \<and> run_completion_port e [(event_overlapped (ki_events_data s) i, take (unat (irp_Information irp)) (irp_SystemBuffer irp))]
          ((send_pending_irp e s)\<lparr>ki_world := w\<rparr>) = Some t
     \<and> ki_log t = ki_log s @ the (report_lines [] r) \<and> all_in_use t
     \<and> irp_queue (ki_world t) = [irp_of w] \<and> completed (ki_world t) = completed w"
proof -
  let ?w = "ki_world s" and ?ov = "event_overlapped (ki_events_data s) i"
  from free_event_used[OF assms(1,3,4,5,6,9)] obtain w1 pad where
    s1: "length pad = 1000" "irp_of ?w \<noteq> NULL"
      "send_pending_irp e s = s\<lparr>ki_events := (ki_events s)[i := (ki_events s ! i)\<lparr>ev_in_use := True\<rparr>], ki_world := w1\<rparr>"
    and w1: "irp_queue w1 = [irp_of ?w]" "irp_count w1 = irp_count ?w + 1" "completed w1 = completed ?w" "pool w1 = pool ?w"
      "deferred_count w1 = 0" "session w1 = session ?w"
      "irps w1 = (irps ?w)(irp_of ?w \<mapsto> buffered_request InsertIrpIntoIrpQueue [] 1000 pad)"
    using assms(8) by auto
  have "queue_inv w1" using assms(7,8) s1(2) w1(1,2,7) unat_eq_zero[of "irp_count ?w"] by (auto simp: queue_inv_def)
  from delivered_report[OF assms(2) this w1(1) s1(2) _ s1(1), of b r alloc] w1 assms(10) obtain w irp where
    w: "IrpQueueCompleteIrp f alloc b (of_nat (sizeof_report r)) w1 = Some (STATUS_SUCCESS, w)" "completed w = completed ?w @ [(irp_of ?w, irp)]"
      "take (unat (irp_Information irp)) (irp_SystemBuffer irp) = report_bytes r" "irp_queue w = []" "deferred_count w = 0"
    by auto
  let ?s2 = "(send_pending_irp e s)\<lparr>ki_world := w\<rparr>"
  have ok: "events_ok ?s2" "all_in_use ?s2" "ki_events_data ?s2 = ki_events_data s" "ki_log ?s2 = ki_log s"
    using events_used_again[OF assms(3-5), of w] s1(3) by simp_all
  from completion_run[OF ok(1,2), of "[(i, r)]" e] ok(3,4) assms(4,11) forwards_bool[OF assms(1)] obtain t where
    t: "run_completion_port e [(?ov, report_bytes r)] ?s2 = Some t" "all_in_use t" "ki_log t = ki_log s @ the (report_lines [] r)"
      "ki_world t = snd (snd (os_DeviceIoControl e InsertIrpIntoIrpQueue [] 1000 ?ov w))"
    by (auto simp del: run_completion_port.simps)
  have "?ov \<noteq> NULL" "is_session_active (session w)"
    using assms(3,4,6) complete_session[OF assms(2) w(1)] w1(6) by (auto simp: events_ok_def)
  from pending_request[OF assms(1) this(2) w(5) this(1), of 1000] w(4) t(4)
  have "irp_queue (ki_world t) = [irp_of w]" "completed (ki_world t) = completed w" by auto
  then show ?thesis using w t(1-3) w1(1) s1(3) by (intro exI[of _ w] exI[of _ irp] exI[of _ t]) simp
qed

section \<open>A concrete system\<close>

text \<open>An I/O manager that allocates every request at the same address and zeroes the system buffer, for any driver
  environment; an environment in which launching succeeds; the module before and after its constructor.\<close>

definition driver_os :: "unit io_env \<Rightarrow> io_st os_env" where
  "driver_os d = \<lparr>os_DeviceIoControl = (\<lambda>code input n ov w.
       (case DeviceControl d 1 (w\<lparr>irps := (irps w)(1 \<mapsto> buffered_request code input n (replicate (unat n - length input) 0))\<rparr>) of
          None \<Rightarrow> (0, [], w) | Some (status, w') \<Rightarrow> (if NT_SUCCESS status \<and> status \<noteq> STATUS_PENDING then 1 else 0, [], w'))),
     os_CreateFileW = 4, os_CreateIoCompletionPort = 8, os_malloc = (\<lambda>i. 0x100 + of_nat i), os_malloc_bytes = (\<lambda>_. replicate 1000 0xCC),
     os_CreateEvent = (\<lambda>_. 12), os_GetCurrentProcessId = 4\<rparr>"

lemma driver_os_forwards: "forwards d (\<lambda>_. 1) (driver_os d)"
  unfolding forwards_def
proof (intro allI conjI)
  fix code input n ov w
  show "\<exists>pad. length pad = unat n - length input \<and>
      (\<forall>status w'. DeviceControl d 1 (w\<lparr>irps := (irps w)(1 \<mapsto> buffered_request code input n pad)\<rparr>) = Some (status, w')
         \<and> (status = STATUS_PENDING \<longrightarrow> ov \<noteq> NULL) \<longrightarrow>
       fst (os_DeviceIoControl (driver_os d) code input n ov w) = (if NT_SUCCESS status \<and> status \<noteq> STATUS_PENDING then 1 else 0)
       \<and> snd (snd (os_DeviceIoControl (driver_os d) code input n ov w)) = w')"
    by (intro exI[of _ "replicate (unat n - length input) 0"]) (simp add: driver_os_def)
qed (simp_all add: driver_os_def split: option.splits)

definition launch_env :: "unit io_env \<Rightarrow> unit io_env" where
  "launch_env e = e\<lparr>dv_lookup := \<lambda>h. (STATUS_SUCCESS, h + 0x100), dv_process_id := \<lambda>p. p - 0x100,
     dv_register_ob := (STATUS_SUCCESS, 7)\<rparr>"

definition module_st :: "bool \<Rightarrow> io_st \<Rightarrow> io_st ki_st" where
  "module_st first w = \<lparr>ki_driver_handle = 4, ki_port = 8, ki_events = map (\<lambda>b. \<lparr>ev_in_use = (b \<noteq> 1 \<or> first), ev_hEvent = 12, ev_buffer = b,
     ev_buffer_size = MAXIMUM_REPORT_BUFFER_SIZE\<rparr>) [1, 2, 3, 4, 5], ki_events_data = 0x1000, ki_mapping_buffer = 0, ki_mapping_size = 0,
     ki_heap = (\<lambda>_. Some (replicate 1000 0xCC)), ki_log = [], ki_world = w\<rparr>"



lemma module_events:
  "events_ok (module_st first w)" "\<forall>j < EVENT_COUNT. ev_in_use (ki_events (module_st False w) ! j) \<longleftrightarrow> j \<noteq> 0"
proof -
  show "events_ok (module_st first w)"
    using example_events(1) by (simp add: events_ok_def module_st_def example_ki_st_def)
  show "\<forall>j < EVENT_COUNT. ev_in_use (ki_events (module_st False w) ! j) \<longleftrightarrow> j \<noteq> 0"
    by (auto simp: module_st_def EVENT_COUNT_def nth_Cons split: nat.splits)
qed

theorem detection_reaches_log_witness:
  "\<forall>d. \<exists>w irp t. let e = driver_os d;
       s = module_st False ((example_io_st True (example_request 0 []) zero_mapping)\<lparr>pool := [2 \<mapsto> report_bytes (ATTACH_PROCESS_REPORT 100 7 9)]\<rparr>) in
     IrpQueueCompleteIrp example_csq (\<lambda>_. None) 2 16 (ki_world (send_pending_irp e s)) = Some (STATUS_SUCCESS, w) \<and> completed w = [(1, irp)]
     \<and> run_completion_port e [(event_overlapped 0x1000 0, take (unat (irp_Information irp)) (irp_SystemBuffer irp))]
         ((send_pending_irp e s)\<lparr>ki_world := w\<rparr>) = Some t
     \<and> ki_log t = [(''report type: attach_process_report'', []), (''report code: %lx'', [Arg32 100]),
         (''thread_id: %lx'', [Arg32 7]), (''thread_address: %llx'', [Arg64 9]), stars] \<and> irp_queue (ki_world t) = [1]"
proof
  fix d
  let ?r = "ATTACH_PROCESS_REPORT 100 7 9"
  let ?w = "(example_io_st True (example_request 0 []) zero_mapping)\<lparr>pool := [2 \<mapsto> report_bytes ?r]\<rparr>"
  let ?s = "module_st False ?w"
  have fields: "ki_world ?s = ?w" "ki_events_data ?s = 0x1000" "ki_log ?s = []" by (simp_all add: module_st_def)
  have facts: "is_session_active (session (ki_world ?s))" "queue_inv (ki_world ?s)" "irp_queue (ki_world ?s) = []"
    "deferred_count (ki_world ?s) = 0" "pool (ki_world ?s) 2 = Some (report_bytes ?r)" "printable ?r"
    by (simp_all add: fields queue_inv_def report_codes)
  have "0 < EVENT_COUNT" by (simp add: EVENT_COUNT_def)
  note detection_reaches_log[OF driver_os_forwards example_csq_ok module_events(1) this module_events(2) facts, of d "\<lambda>_. None"]
  then show "\<exists>w irp t. let e = driver_os d; s = ?s in
     IrpQueueCompleteIrp example_csq (\<lambda>_. None) 2 16 (ki_world (send_pending_irp e s)) = Some (STATUS_SUCCESS, w) \<and> completed w = [(1, irp)]
     \<and> run_completion_port e [(event_overlapped 0x1000 0, take (unat (irp_Information irp)) (irp_SystemBuffer irp))]
         ((send_pending_irp e s)\<lparr>ki_world := w\<rparr>) = Some t
     \<and> ki_log t = [(''report type: attach_process_report'', []), (''report code: %lx'', [Arg32 100]),
         (''thread_id: %lx'', [Arg32 7]), (''thread_address: %llx'', [Arg64 9]), stars] \<and> irp_queue (ki_world t) = [1]"
    unfolding Let_def fields by (auto simp del: run_completion_port.simps)
qed

section \<open>The shared mapping of the module\<close>

text \<open>When the driver refuses the mapping, the timer is registered all the same, and its callback writes through
  the pointer of the mapping, which was never set.\<close>

lemma failed_mapping_keeps_timer:
  assumes "\<And>w. fst (os_DeviceIoControl e InitiateSharedMapping [] 16 NULL w) = 0" "timer_inv [] (dp_timers d)" "h \<notin> {NULL, INVALID_HANDLE_VALUE}"
    and "ki_heap (dp_interface d) (ki_mapping_buffer (dp_interface d)) = None"
  shows "h \<in> dom (callbacks (dp_timers (init_timer_callbacks e h d))) \<and> write_random_operation rand (init_timer_callbacks e h d) = None"
proof -
  let ?k = "dp_interface d"
  have "ki_heap (initiate_shared_mapping e ?k) = ki_heap ?k" "ki_mapping_buffer (initiate_shared_mapping e ?k) = ki_mapping_buffer ?k"
    using assms(1) by (auto simp: initiate_shared_mapping_def generic_driver_call_output_def log_error_def split: prod.splits)
      (metis fst_conv)+
  moreover have "h \<notin> set (handles (dp_timers d))" using assms(2,3) by (auto simp: timer_inv_def)
  ultimately show ?thesis
    using insert_callback_inv[OF assms(2), of h WriteSharedMappingOperation WRITE_SHARED_MAPPING_DUE_TIME WRITE_SHARED_MAPPING_PERIOD] assms(3,4)
    by (auto simp: init_timer_callbacks_def write_random_operation_def write_shared_mapping_operation_def MAXIMUM_WAIT_OBJECTS_def)
qed

text \<open>Every operation that the module writes is one that the driver knows, and the driver reads the one written.\<close>

lemma random_operation_written:
  assumes "ki_heap (dp_interface d) (ki_mapping_buffer (dp_interface d)) = Some page" "6 \<le> length page"
  shows "\<exists>d' page'. write_random_operation rand d = Some d' \<and> ki_heap (dp_interface d') (ki_mapping_buffer (dp_interface d')) = Some page'
     \<and> length page' = length page \<and> of_nat (le_nat (take 2 (drop 4 page'))) = (of_nat (rand mod 9) :: u16) \<and> rand mod 9 < 9"
proof -
  have "rand mod 9 < 2 ^ 16" using mod_less_divisor[of 9 rand] by (simp del: mod_less_divisor)
  then have "unat (of_nat (rand mod 9) :: u16) = rand mod 9" by (simp add: unat_of_nat_eq)
  with assms show ?thesis
    by (simp add: write_random_operation_def write_shared_mapping_operation_def generate_rand_int_def SHARED_STATE_OPERATION_COUNT_def
        le_nat_le_bytes min_def)
qed

text \<open>The destructor frees the buffers while the driver may still complete the requests that use them.\<close>

lemma destructor_frees_used_buffers:
  assumes "all_in_use s" "ev \<in> set (ki_events s)"
  shows "ev_in_use ev \<and> ki_heap (terminate_completion_port s) (ev_buffer ev) = None"
proof -
  have "fold (\<lambda>ev h. h(ev_buffer ev := None)) evs h b = (if b \<in> ev_buffer ` set evs then None else h b)"
    for evs :: "event_dispatcher list" and b and h :: "ptr \<rightharpoonup> u8 list"
    by (induction evs arbitrary: h) auto
  with assms show ?thesis by (simp add: terminate_completion_port_def all_in_use_def)
qed

text \<open>The pool has a thread for each of the three jobs that never end, and one to spare.\<close>

lemma dispatcher_jobs: "jobs (dp_pool (run_dispatcher e h n (make_dispatcher e a m w))) = [TimerThread, CompletionPort, CompletionPort]
   \<and> length (workers (dp_pool (run_dispatcher e h n (make_dispatcher e a m w)))) = 4"
  by (simp add: run_dispatcher_def make_dispatcher_def init_timer_callbacks_def queue_timer_thread_def run_io_port_thread_def
      queue_job_def thread_pool_def DISPATCHER_THREAD_COUNT_def Let_def)

end
