(* ===== verification/ModuleEntry.thy ===== *)
theory ModuleEntry
  imports UserModule
begin

text \<open>
  The pipe client of the user-mode module (\<^verbatim>\<open>src/module/client/pipe.cpp\<close>, \<^verbatim>\<open>message_queue.cpp\<close>) and its entry point
  (\<^verbatim>\<open>module.cpp\<close>, \<^verbatim>\<open>main.cpp\<close>). The preprocessor symbol \<^verbatim>\<open>NO_SERVER\<close> is an argument. Calls to Windows are kept in
  \<open>cl_calls\<close> in their order; what they return is a parameter. The console of a debug build is left out.
\<close>

section \<open>The pipe\<close>

datatype client_call = CreateFileCall string | WriteFileCall u64 "u8 list" | ReadFileCall u64 u32
  | DisableThreadLibraryCalls u64 | CreateThread u64 | CloseHandle u64

record client_st =
  cl_calls :: "client_call list"
  cl_log :: "log_line list"

record client_os =
  co_CreateFile :: "string \<Rightarrow> u64"
  co_WriteFile :: "u64 \<Rightarrow> u8 list \<Rightarrow> u32"
  co_ReadFile :: "u64 \<Rightarrow> u32 \<Rightarrow> u32 \<times> u8 list"
  co_CreateThread :: u64

definition client_log :: "string \<Rightarrow> client_st \<Rightarrow> client_st" where
  "client_log fmt s = s\<lparr>cl_log := cl_log s @ [(fmt, [])]\<rparr>"

definition client_call :: "client_call \<Rightarrow> client_st \<Rightarrow> client_st" where
  "client_call c s = s\<lparr>cl_calls := cl_calls s @ [c]\<rparr>"

record client_pipe =
  pipe_handle :: u64
  pipe_name :: string

definition make_pipe :: "client_os \<Rightarrow> string \<Rightarrow> client_st \<Rightarrow> client_pipe \<times> client_st" where
  "make_pipe os PipeName s =
     (let p = \<lparr>pipe_handle = co_CreateFile os PipeName, pipe_name = PipeName\<rparr>;
          s = client_call (CreateFileCall PipeName) s
      in (p, if pipe_handle p = INVALID_HANDLE_VALUE then client_log ''CreateFile failed with status 0x%x'' s else s))"

text \<open>The sizes are 64 bits wide and are cut to the 32 bits of the call. Reading or writing outside the buffer is a fault.\<close>

definition write_pipe :: "client_os \<Rightarrow> u8 list \<Rightarrow> u64 \<Rightarrow> client_pipe \<Rightarrow> client_st \<Rightarrow> client_st option" where
  "write_pipe os Buffer Size p s =
     (let n = unat (ucast Size :: u32) in
      if length Buffer < n then None
      else let s = client_call (WriteFileCall (pipe_handle p) (take n Buffer)) s
           in Some (if co_WriteFile os (pipe_handle p) (take n Buffer) = 0 then client_log ''WriteFile failed with status code 0x%x'' s else s))"

definition read_pipe :: "client_os \<Rightarrow> u8 list \<Rightarrow> u64 \<Rightarrow> client_pipe \<Rightarrow> client_st \<Rightarrow> (u8 list \<times> client_st) option" where
  "read_pipe os Buffer Size p s =
     (case co_ReadFile os (pipe_handle p) (ucast Size) of (status, bytes) \<Rightarrow>
        let bytes = take (unat (ucast Size :: u32)) bytes;
            s = client_call (ReadFileCall (pipe_handle p) (ucast Size)) s
        in if length Buffer < length bytes then None
           else Some (bytes @ drop (length bytes) Buffer,
             if status = 0 then client_log ''ReadFile failed with status code 0x%x'' s else s))"

section \<open>The message queue\<close>

text \<open>The pipe is a null pointer in a build without a server.\<close>

record message_queue =
  pipe_interface :: "client_pipe option"

definition make_message_queue :: "bool \<Rightarrow> client_os \<Rightarrow> string \<Rightarrow> client_st \<Rightarrow> message_queue \<times> client_st" where
  "make_message_queue NO_SERVER os PipeName s =
     (if NO_SERVER then (\<lparr>pipe_interface = None\<rparr>, client_log ''No_Server build used. Not opening named pipe.'' s)
      else case make_pipe os PipeName s of (p, s) \<Rightarrow> (\<lparr>pipe_interface = Some p\<rparr>, s))"

definition dequeue_message ::
  "bool \<Rightarrow> client_os \<Rightarrow> u8 list \<Rightarrow> u64 \<Rightarrow> message_queue \<Rightarrow> client_st \<Rightarrow> (u8 list \<times> client_st) option" where
  "dequeue_message NO_SERVER os Buffer Size q s =
     (if NO_SERVER then Some (Buffer, s)
      else case pipe_interface q of None \<Rightarrow> None | Some p \<Rightarrow> read_pipe os Buffer Size p s)"

definition enqueue_message :: "bool \<Rightarrow> u8 list \<Rightarrow> u64 \<Rightarrow> message_queue \<Rightarrow> client_st \<Rightarrow> client_st" where
  "enqueue_message NO_SERVER Buffer Size q s = (if NO_SERVER then s else s)"

section \<open>The entry point\<close>

definition MODULE_PIPE_NAME :: string where "MODULE_PIPE_NAME = [CHR 0x5C, CHR 0x5C] @ ''.'' @ [CHR 0x5C] @ ''pipe'' @ [CHR 0x5C] @ ''DonnaACPipe''"

text \<open>
  \<^verbatim>\<open>run\<close> creates the queue and then the dispatcher and enters its loop, of which \<open>turns\<close> turns are taken. The driver's
  device is opened by the constructor of the interface to the driver, which keeps the queue and never uses it.
\<close>

definition module_run :: "bool \<Rightarrow> client_os \<Rightarrow> 'w os_env \<Rightarrow> ptr \<Rightarrow> ptr \<times> u64 \<Rightarrow> u64 \<Rightarrow> nat \<Rightarrow> 'w \<Rightarrow> client_st
   \<Rightarrow> message_queue \<times> 'w dispatcher_st \<times> client_st" where
  "module_run NO_SERVER os e events_data m new_timer turns w s =
     (case make_message_queue NO_SERVER os MODULE_PIPE_NAME s of (q, s) \<Rightarrow>
        (q, run_dispatcher e new_timer turns (make_dispatcher e events_data m w), s))"

datatype call_reason = DLL_PROCESS_DETACH | DLL_PROCESS_ATTACH | DLL_THREAD_ATTACH | DLL_THREAD_DETACH

text \<open>The thread that is created runs \<^verbatim>\<open>Init\<close>, which is \<open>module_run\<close>. The result is the truth value of \<^verbatim>\<open>DllMain\<close>.\<close>

definition DllMain :: "client_os \<Rightarrow> u64 \<Rightarrow> call_reason \<Rightarrow> client_st \<Rightarrow> bool \<times> client_st" where
  "DllMain os hModule reason s =
     (True, case reason of
        DLL_PROCESS_ATTACH \<Rightarrow>
          (let s = client_call (CreateThread hModule) (client_call (DisableThreadLibraryCalls hModule) s)
           in if co_CreateThread os \<noteq> NULL then client_call (CloseHandle (co_CreateThread os)) s else s)
      | _ \<Rightarrow> client_log ''process closing!'' s)"

section \<open>What leaves the machine\<close>

datatype queue_use = Enqueue "u8 list" u64 | Dequeue "u8 list" u64

fun use_queue :: "bool \<Rightarrow> client_os \<Rightarrow> message_queue \<Rightarrow> queue_use list \<Rightarrow> client_st \<Rightarrow> client_st option" where
  "use_queue NO_SERVER os q [] s = Some s"
| "use_queue NO_SERVER os q (Enqueue bs n # us) s = use_queue NO_SERVER os q us (enqueue_message NO_SERVER bs n q s)"
| "use_queue NO_SERVER os q (Dequeue bs n # us) s = do {
     (_, s) \<leftarrow> dequeue_message NO_SERVER os bs n q s;
     use_queue NO_SERVER os q us s
   }"

definition reads_only :: "client_pipe option \<Rightarrow> client_call list \<Rightarrow> bool" where
  "reads_only p cs \<longleftrightarrow> (\<forall>c \<in> set cs. \<exists>h n. c = ReadFileCall h n \<and> map_option pipe_handle p = Some h)"

lemma read_pipe_calls:
  "read_pipe os bs n p s = Some (bs', s') \<Longrightarrow> length bs' = length bs \<and> cl_calls s' = cl_calls s @ [ReadFileCall (pipe_handle p) (ucast n)]"
  by (auto simp: read_pipe_def client_call_def client_log_def Let_def split: prod.splits if_splits)

text \<open>Whatever is put into the queue, in either build, nothing is written to the pipe: messages are only read.\<close>

lemma queue_never_writes:
  assumes "use_queue NO_SERVER os q us s = Some s'"
  shows "\<exists>cs. cl_calls s' = cl_calls s @ cs \<and> reads_only (pipe_interface q) cs \<and> (NO_SERVER \<longrightarrow> cs = [])"
  using assms
proof (induction NO_SERVER os q us s rule: use_queue.induct)
  case (1 NO_SERVER os q s)
  then show ?case by (simp add: reads_only_def)
next
  case (2 NO_SERVER os q bs n us s)
  then show ?case by (simp add: enqueue_message_def)
next
  case (3 NO_SERVER os q bs n us s)
  from 3(2) obtain bs' t where t: "dequeue_message NO_SERVER os bs n q s = Some (bs', t)" "use_queue NO_SERVER os q us t = Some s'"
    by (auto split: bind_splits)
  from 3(1)[OF t(1) refl t(2)] obtain cs where cs: "cl_calls s' = cl_calls t @ cs" "reads_only (pipe_interface q) cs" "NO_SERVER \<longrightarrow> cs = []"
    by blast
  show ?case
  proof (cases "NO_SERVER")
    case True
    with t(1) cs show ?thesis by (simp add: dequeue_message_def)
  next
    case False
    with t(1) obtain p where "pipe_interface q = Some p" "read_pipe os bs n p s = Some (bs', t)"
      by (auto simp: dequeue_message_def split: option.splits)
    with cs False read_pipe_calls[OF this(2)] show ?thesis by (auto simp: reads_only_def)
  qed
qed

text \<open>Of the calls of the loader only the attachment of the process starts the module, and with it the three jobs that never end.\<close>

lemma attach_starts_jobs:
  "CreateThread h \<in> set (cl_calls (snd (DllMain os h r s))) \<longleftrightarrow> r = DLL_PROCESS_ATTACH \<or> CreateThread h \<in> set (cl_calls s)"
  "jobs (dp_pool (fst (snd (module_run NO_SERVER os e a m t n w s)))) = [TimerThread, CompletionPort, CompletionPort]"
  by (auto simp: DllMain_def client_call_def client_log_def Let_def split: call_reason.splits)
    (simp add: module_run_def dispatcher_jobs split: prod.splits)

end
