(* ===== verification/Spec2Isabelle.thy ===== *)
theory Spec2Isabelle
  imports Queue ReportChannel ModuleEntry
begin

text \<open>
  A verification development of the anti-cheat kernel driver under \<^verbatim>\<open>src/driver\<close> and of the user-mode
  module under \<^verbatim>\<open>src/module\<close> that it works with.

  \<^bold>\<open>The program.\<close> The driver protects one process at a time. A user-mode module opens the device,
  starts a session for a process, and leaves IRPs in a queue; the driver strips rights from handles to
  the protected process, keeps lists of processes, threads and loaded drivers through notify routines,
  runs detections on request or from a timer, and answers the queued IRPs with report structures. All
  state is one global \<^verbatim>\<open>DRIVER_CONFIG\<close>, guarded by several locks. The module has a completion port that prints
  the reports and renews the IRPs, a pool of threads, and a timer that writes the next operation into a page
  it shares with the driver.

  \<^bold>\<open>The model.\<close> A shallow embedding: each C function is a HOL function of the same name on a state
  record. The record is extended from theory to theory (\<open>kst\<close>, \<open>list_st\<close>, \<open>irp_st\<close>, \<open>sess_st\<close>, \<open>cb_st\<close>, \<open>ob_st\<close>,
  \<open>apc_st\<close>, \<open>info_st\<close>, \<open>ver_st\<close>, \<open>drv_st\<close>, \<open>walk_st\<close>, \<open>io_st\<close>), so an operation of one component runs unchanged on
  the state of every later one. Calls into Windows that have an effect are events of the trace \<open>k_trace\<close>,
  in order; what Windows answers is a parameter, collected in environment records. A result \<open>None\<close> is a
  bug check (an invalid read, a removal from an empty list) or a wait that does not end. Integers
  are words of the width the source gives them, pointers are 64-bit words, memory that the code reads by
  address is a partial map from addresses to bytes, and structures are byte layouts. Loops are recursion
  over index lists or \<open>partial_function\<close> on linked lists, whose termination is proved for well-formed lists;
  no fuel is used. Locks are checked by a balance calculus on the trace (\<open>neutral\<close>). Interleavings are
  step relations where the code relies on them: timer, work item and the calls of the cleanup (\<open>timer_step\<close>), verification
  workers (\<open>verification_step\<close>), session calls (\<open>session_step\<close>), reports and queue requests (\<open>channel_run\<close>), and in the
  module the timers (\<open>timers_step\<close>) and the pool with the notifications of its condition variable (\<open>pool_steps\<close>). The module's endless loops are functions of the list of what their wait returned.

  \<^bold>\<open>Theories and sources.\<close>
  \<^item> \<open>Kernel\<close>: machine types, status codes, the trace, the allocator, the lock calculus, loops.
  \<^item> \<open>Lists\<close>: \<^verbatim>\<open>list.c\<close>; pool and lookaside variants over a map of links. \<open>Queue\<close>: \<^verbatim>\<open>queue.c\<close>.
  \<^item> \<open>Crypt\<close>: \<^verbatim>\<open>crypt.c\<close>; the cipher of the import table. \<open>Memory\<close>: \<^verbatim>\<open>common.h\<close>; bytes and layouts.
    \<open>Imports\<close>: \<^verbatim>\<open>imports.c\<close>, \<^verbatim>\<open>imports.h\<close>; export search and the wrappers.
  \<^item> \<open>IrpQueue\<close>: \<^verbatim>\<open>io.c\<close>; the cancel-safe queue, deferred reports, buffer checks. \<open>Session\<close>: \<^verbatim>\<open>session.c\<close>.
  \<^item> \<open>Callbacks\<close>, \<open>ObCallbacks\<close>: \<^verbatim>\<open>callbacks.c\<close>; lists and notify routines; handle protection and timer.
    \<open>Reports\<close>: \<^verbatim>\<open>types/types.h\<close>. \<open>Apc\<close>: \<^verbatim>\<open>apc.c\<close>.
  \<^item> \<open>Smbios\<close>, \<open>SystemInfo\<close>, \<open>Verification\<close>, \<open>Integrity\<close>: \<^verbatim>\<open>integrity.c\<close>, with \<^verbatim>\<open>hv.c\<close> and parts of \<^verbatim>\<open>driver.c\<close>.
  \<^item> \<open>Driver\<close>: \<^verbatim>\<open>driver.c\<close>; entry, configuration, unload. \<open>Hardware\<close>: \<^verbatim>\<open>hw.c\<close>.
  \<^item> \<open>Modules\<close>, \<open>Nmi\<close>, \<open>Stackwalk\<close>: \<^verbatim>\<open>modules.c\<close>, \<^verbatim>\<open>thread.c\<close>. \<open>PoolScan\<close>: \<^verbatim>\<open>pool.c\<close>.
  \<^item> \<open>Traffic\<close>: the interface between detections and the queue, as locales \<open>report_sink\<close> and \<open>csq_queue\<close>, the
    latter interpreted on the driver's own queue.
  \<^item> \<open>IoControl\<close>: \<^verbatim>\<open>io.c\<close>; the entry points of the device and the shared mapping, which compose all handlers.
    \<open>ReportChannel\<close>: the specification of the channel that the IRP queue and the deferred reports form.
  \<^item> Of the module: \<open>UserTimer\<close> (\<^verbatim>\<open>dispatcher/timer.cpp\<close>), \<open>ThreadPool\<close> (\<^verbatim>\<open>dispatcher/threadpool.cpp\<close>), \<open>ReportPrinter\<close>
    (\<^verbatim>\<open>helper.cpp\<close>), \<open>KernelInterface\<close> (\<^verbatim>\<open>kernel_interface.cpp\<close>), \<open>UserModule\<close> (\<^verbatim>\<open>dispatcher/dispatcher.cpp\<close>, and the module
    together with the driver), \<open>ModuleEntry\<close> (\<^verbatim>\<open>client\<close>, \<^verbatim>\<open>module.cpp\<close>, \<^verbatim>\<open>main.cpp\<close>).

  \<^bold>\<open>What is shown.\<close> Access: requests are refused without a session, handles to the protected process lose
  their rights, the session invariant holds in every reachable state; the section at the end of this theory
  composes these over the entry points: protection begins and ends with the requests that start and end a
  session. Reports: the IRP queue and the deferred reports refine a channel that is first in first out on both sides,
  as long as the two calls do not interleave, and what happens when they do is shown; each IRP is kept or completed
  with the status that is returned, and what the module prints of a report is what the driver wrote, on
  the whole way from the detection to the log; two kinds of report it cannot print (process modules and data
  tables). The module: its pool runs jobs in order and loses no wake-up, its timer array stays
  contiguous, its completion port sends a new request for each report; and what a failed launch or a removed timer
  does to it. Lists and tables: refinement of the process list to an abstract one, the
  queue is first in first out, the APC table keeps its invariant. Detections: each scan is equivalent to a
  reference definition of what it finds (driver objects, dispatch tables, interrupted processors, stack
  frames, candidates for hidden processes, PCI devices, module hashes), and returns. Life cycle: unloading a driver
  with nothing in flight ends, with an exact list of its calls; the timer can still queue its work item in the
  middle of the cleanup. Where the code does not do what it means to, the theorem states what it does, and the
  difference is a finding of the manifest.

  \<^bold>\<open>Parameters.\<close> Windows is a parameter throughout: the allocator gives the result of each allocation; the
  cancel-safe queue of the I/O manager is assumed to work through the driver's callbacks
  (\<open>csq_remove_by_callbacks\<close>, which \<open>example_csq\<close> satisfies); \<^verbatim>\<open>MmIsAddressValid\<close> is assumed to tell where a word can
  be read (\<open>readable\<close>); the hash provider is a function of its input (\<open>bcrypt_ok\<close>). In \<open>Callbacks\<close> and
  \<open>Verification\<close> the hash of a module is a parameter; \<open>Integrity.HashModule\<close> is its model. For the module the driver is
  behind \<^verbatim>\<open>DeviceIoControl\<close>, which is assumed to hand buffered requests to \<^verbatim>\<open>DeviceControl\<close> (\<open>forwards\<close>, which \<open>driver_os\<close>
  satisfies).

  \<^bold>\<open>Not modelled.\<close> The service and the server (C-sharp programs); the test programs; debug output of the driver and the
  console of a debug build of the module;
  the vendored processor header \<^verbatim>\<open>ia32.h\<close> except the two structures the driver reads; pre-emption inside a
  handler, except in the step relations above; the body of a system thread that is created and not waited
  for, which is modelled as a routine of its own.
\<close>

section \<open>A session through the device\<close>

text \<open>What the object callback does with a request for the protected process, and with any request when
  no process is protected.\<close>

lemma untrusted_access_cut:
  assumes "session_process (session s) = p" "p \<noteq> NULL" "ucast (km_handle (session s)) \<noteq> (0 :: u32)"
    and "env_name env creator = Some cn" "env_name env p = Some pn" "\<not> trusted_creator cn pn"
  shows "\<exists>s'. ObPreOpCallbackRoutine env creator p acc s = Some (SYNCHRONIZE OR PROCESS_TERMINATE, s')"
  using assms by (auto simp: ObPreOpCallbackRoutine_def session_op_defs with_session_lock_def trusted_creator_def)

lemma unprotected_access_kept:
  assumes "session_process (session s) = NULL" "env_name env creator = Some cn" "env_name env p = Some pn"
  shows "\<exists>s'. ObPreOpCallbackRoutine env creator p acc s = Some (acc, s')"
  using assms by (auto simp: ObPreOpCallbackRoutine_def session_op_defs with_session_lock_def)

text \<open>C3: protection follows the session, over the entry points of the driver. A request that names a
  process makes it the protected one: the object callback then cuts what an untrusted creator asks for
  down to \<^verbatim>\<open>SYNCHRONIZE | PROCESS_TERMINATE\<close>. The request that ends the session removes the callbacks, and
  should one still run, it keeps the access as it was asked for. Both requests are completed, once each
  and in this order. The status of the first is that of the registration of the callbacks, but the session
  is active even when the registration failed, and the callback is then never called.\<close>

theorem protection_follows_session:
  assumes "Irp \<noteq> NULL" "irps s Irp = Some irp" "irp_Stack irp = Some io"
    and "io_IoControlCode io = IOCTL_NOTIFY_DRIVER_ON_PROCESS_LAUNCH" "io_InputBufferLength io = 32"
    and "dv_lookup e (pkt_protected_process_id (read_packet (irp_SystemBuffer irp))) = (st, p)" "NT_SUCCESS st" "p \<noteq> NULL"
    and "ucast (dv_process_id e p) \<noteq> (0 :: u32)"
    and "Irp' \<noteq> Irp" "irps s Irp' = Some irp'" "irp_Stack irp' = Some io'"
    and "io_IoControlCode io' = IOCTL_NOTIFY_DRIVER_ON_PROCESS_TERMINATION"
    and "env_name env creator = Some cn" "env_name env p = Some pn" "\<not> trusted_creator cn pn"
  shows "\<exists>t u. DeviceControl e Irp s = Some (fst (dv_register_ob e), t) \<and> is_session_active (session t)
     \<and> (NT_SUCCESS (fst (dv_register_ob e)) \<longrightarrow> registration_handle (session t) = snd (dv_register_ob e))
     \<and> (\<exists>v. ObPreOpCallbackRoutine env creator p acc t = Some (SYNCHRONIZE OR PROCESS_TERMINATE, v))
     \<and> DeviceControl e Irp' t = Some (STATUS_SUCCESS, u) \<and> \<not> is_session_active (session u) \<and> registration_handle (session u) = NULL
     \<and> (\<exists>v. ObPreOpCallbackRoutine env creator p acc u = Some (acc, v))
     \<and> completed u = completed s @ [(Irp, irp\<lparr>irp_Status := fst (dv_register_ob e)\<rparr>), (Irp', irp'\<lparr>irp_Status := STATUS_SUCCESS\<rparr>)]"
proof -
  obtain t where t: "DeviceControl e Irp s = Some (fst (dv_register_ob e), t)" "is_session_active (session t)"
    "session_process (session t) = p" "km_handle (session t) = dv_process_id e p" "irps t Irp' = Some irp'"
    "NT_SUCCESS (fst (dv_register_ob e)) \<longrightarrow> registration_handle (session t) = snd (dv_register_ob e)"
    "completed t = completed s @ [(Irp, irp\<lparr>irp_Status := fst (dv_register_ob e)\<rparr>)]"
    using launch_request[OF assms(1-5) refl assms(6,7)] assms(10,11) by auto
  from termination_request[OF t(5) assms(12,13) t(2), of e]
  obtain u where u: "DeviceControl e Irp' t = Some (STATUS_SUCCESS, u)" "\<not> is_session_active (session u)"
    "registration_handle (session u) = NULL" "session_process (session u) = NULL"
    "completed u = completed t @ [(Irp', irp'\<lparr>irp_Status := STATUS_SUCCESS\<rparr>)]"
    by auto
  show ?thesis
    using t u untrusted_access_cut[OF t(3) assms(8) _ assms(14-16), of acc] assms(9)
      unprotected_access_kept[OF u(4) assms(14,15), of acc]
    by auto
qed

text \<open>The packet of the session example starts the session, and a second request ends it.\<close>

definition example_launch :: IRP where
  "example_launch = (example_request IOCTL_NOTIFY_DRIVER_ON_PROCESS_LAUNCH (irp_SystemBuffer example_packet_irp))"

definition example_session_st :: io_st where
  "example_session_st = (example_io_st False example_launch zero_mapping)
     \<lparr>irps := [1 \<mapsto> example_launch, 2 \<mapsto> example_request IOCTL_NOTIFY_DRIVER_ON_PROCESS_TERMINATION []]\<rparr>"

definition cheat_env :: ob_env where
  "cheat_env = example_ob_env\<lparr>env_name := \<lambda>p. Some (if p = 0x104 then ''game.exe'' else ''cheat.exe'')\<rparr>"

theorem protection_follows_session_witness:
  "\<forall>e. \<exists>t u v w. DeviceControl (launch_env e) 1 example_session_st = Some (STATUS_SUCCESS, t)
     \<and> ObPreOpCallbackRoutine cheat_env 9 0x104 0x1FFFFF t = Some (SYNCHRONIZE OR PROCESS_TERMINATE, v)
     \<and> DeviceControl (launch_env e) 2 t = Some (STATUS_SUCCESS, u)
     \<and> ObPreOpCallbackRoutine cheat_env 9 0x104 0x1FFFFF u = Some (0x1FFFFF, w)"
proof
  fix e :: "unit io_env"
  let ?e = "launch_env e"
  have "irps example_session_st 1 = Some example_launch"
    "irps example_session_st 2 = Some (example_request IOCTL_NOTIFY_DRIVER_ON_PROCESS_TERMINATION [])"
    by (simp_all add: example_session_st_def)
  moreover have "irp_Stack example_launch = Some \<lparr>io_IoControlCode = IOCTL_NOTIFY_DRIVER_ON_PROCESS_LAUNCH,
      io_InputBufferLength = 32, io_OutputBufferLength = 32\<rparr>"
    by (simp add: example_launch_def example_packet_irp_def)
  moreover have "dv_lookup ?e (pkt_protected_process_id (read_packet (irp_SystemBuffer example_launch))) = (STATUS_SUCCESS, 0x104)"
    "dv_process_id ?e 0x104 = 4" "dv_register_ob ?e = (STATUS_SUCCESS, 7)"
    using example_packet by (simp_all add: launch_env_def example_launch_def example_request_def)
  moreover have "\<not> trusted_creator ''cheat.exe'' ''game.exe''" by (simp add: trusted_creator_def)
  moreover have "env_name cheat_env 9 = Some ''cheat.exe''" "env_name cheat_env 0x104 = Some ''game.exe''"
    by (simp_all add: cheat_env_def)
  ultimately show "\<exists>t u v w. DeviceControl ?e 1 example_session_st = Some (STATUS_SUCCESS, t)
     \<and> ObPreOpCallbackRoutine cheat_env 9 0x104 0x1FFFFF t = Some (SYNCHRONIZE OR PROCESS_TERMINATE, v)
     \<and> DeviceControl ?e 2 t = Some (STATUS_SUCCESS, u)
     \<and> ObPreOpCallbackRoutine cheat_env 9 0x104 0x1FFFFF u = Some (0x1FFFFF, w)"
    using protection_follows_session[of 1 example_session_st example_launch "\<lparr>io_IoControlCode = IOCTL_NOTIFY_DRIVER_ON_PROCESS_LAUNCH,
          io_InputBufferLength = 32, io_OutputBufferLength = 32\<rparr>" ?e STATUS_SUCCESS "0x104" 2
        "example_request IOCTL_NOTIFY_DRIVER_ON_PROCESS_TERMINATION []" "\<lparr>io_IoControlCode = IOCTL_NOTIFY_DRIVER_ON_PROCESS_TERMINATION,
          io_InputBufferLength = 0, io_OutputBufferLength = 0\<rparr>" cheat_env 9 "''cheat.exe''" "''game.exe''" "0x1FFFFF"]
    by auto
qed

end
